(* ===== verification/Curb_Prelude.thy ===== *)
theory Curb_Prelude
  imports Main "HOL-Library.Word"
begin

text \<open>
  Shared material of the curb development: the Ruby values and exceptions the C extension
  exchanges with the interpreter, the numeric conversions of the C API (\<open>NUM2LONG\<close> and its
  kin) with their range checks, the control operators of the C API (\<open>rb_raise\<close>,
  \<open>rb_ensure\<close>, \<open>rb_rescue\<close>, \<open>rb_protect\<close>) as commands that return the state on
  every exit, and the insertion-ordered hash table \<open>st_table\<close> behind a locale.
\<close>

named_theorems cmd_simps \<open>unfolding rules of the command combinators\<close>
named_theorems st_simps \<open>lookup/insert/delete laws of the hash table\<close>
named_theorems conv_simps \<open>numeric and string conversions of the C API\<close>

section \<open>Machine integers\<close>

text \<open>An LP64 platform: \<open>unsigned char\<close>, \<open>unsigned short\<close>, \<open>unsigned int\<close> and
  \<open>unsigned long\<close>/\<open>size_t\<close>. Signed C integers are \<open>int\<close> with the conversion that
  truncates them written out (\<open>to_signed\<close>).\<close>

type_synonym uchar = "8 word"
type_synonym ushort = "16 word"
type_synonym uint = "32 word"
type_synonym ulong = "64 word"
type_synonym size_t = "64 word"

text \<open>Two's complement truncation of an integer to \<open>w\<close> bits, as in an assignment to a
  narrower signed type.\<close>

definition to_signed :: "nat \<Rightarrow> int \<Rightarrow> int" where
  "to_signed w i = (i + 2 ^ (w - 1)) mod 2 ^ w - 2 ^ (w - 1)"

lemma to_signed_bounds:
  assumes "0 < w"
  shows "- (2 ^ (w - 1)) \<le> to_signed w i" and "to_signed w i < 2 ^ (w - 1)"
proof -
  have split: "(2::int) ^ w = 2 ^ (w - 1) + 2 ^ (w - 1)"
    using assms by (metis One_nat_def Suc_pred mult_2 power_Suc)
  have "0 \<le> (i + 2 ^ (w - 1)) mod 2 ^ w" and "(i + 2 ^ (w - 1)) mod 2 ^ w < 2 ^ w"
    by simp_all
  then show "- (2 ^ (w - 1)) \<le> to_signed w i" and "to_signed w i < 2 ^ (w - 1)"
    unfolding to_signed_def using split by linarith+
qed

lemma to_signed_id:
  assumes "0 < w" and "- (2 ^ (w - 1)) \<le> i" and "i < 2 ^ (w - 1)"
  shows "to_signed w i = i"
proof -
  have split: "(2::int) ^ w = 2 ^ (w - 1) + 2 ^ (w - 1)"
    using assms(1) by (metis One_nat_def Suc_pred mult_2 power_Suc)
  have "0 \<le> i + 2 ^ (w - 1)" and "i + 2 ^ (w - 1) < 2 ^ w"
    using assms(2,3) split by linarith+
  then show ?thesis by (simp add: to_signed_def)
qed

subsection \<open>Decimal numbers\<close>

definition digit_char :: "nat \<Rightarrow> char" where
  "digit_char d = char_of (48 + d)"

text \<open>\<open>%u\<close> and \<open>%d\<close> of \<open>printf\<close>.\<close>

fun show_nat :: "nat \<Rightarrow> string" where
  "show_nat n = (if n < 10 then [digit_char n] else show_nat (n div 10) @ [digit_char (n mod 10)])"

declare show_nat.simps [simp del]

definition show_int :: "int \<Rightarrow> string" where
  "show_int i = (if i < 0 then CHR ''-'' # show_nat (nat (- i)) else show_nat (nat i))"

definition is_digit :: "char \<Rightarrow> bool" where
  "is_digit c \<longleftrightarrow> (48::nat) \<le> of_char c \<and> of_char c \<le> (57::nat)"

definition digit_value :: "char \<Rightarrow> nat" where
  "digit_value c = of_char c - 48"

text \<open>The value of a digit string, most significant digit first.\<close>

definition read_digits :: "string \<Rightarrow> nat" where
  "read_digits s = foldl (\<lambda>n c. 10 * n + digit_value c) 0 s"

definition c_isspace :: "char \<Rightarrow> bool" where
  "c_isspace c \<longleftrightarrow> (of_char c :: nat) = 32 \<or> (9 \<le> (of_char c :: nat) \<and> (of_char c :: nat) \<le> 13)"

text \<open>\<open>strtol(s, &endptr, 10)\<close>: the value, the rest at \<open>endptr\<close> and whether \<open>errno\<close>
  is set to \<open>ERANGE\<close>. Without a digit the value is 0 and \<open>endptr\<close> is the start.\<close>

definition strtol10 :: "string \<Rightarrow> int \<times> string \<times> bool" where
  "strtol10 s =
     (let t = dropWhile c_isspace s;
          neg = (case t of c # _ \<Rightarrow> c = CHR ''-'' | [] \<Rightarrow> False);
          u = (case t of c # r \<Rightarrow> if c = CHR ''-'' \<or> c = CHR ''+'' then r else t | [] \<Rightarrow> t);
          ds = takeWhile is_digit u;
          v = (if neg then - int (read_digits ds) else int (read_digits ds))
      in if ds = [] then (0, s, False)
         else if v < - (2 ^ 63) then (- (2 ^ 63), dropWhile is_digit u, True)
         else if 2 ^ 63 \<le> v then (2 ^ 63 - 1, dropWhile is_digit u, True)
         else (v, dropWhile is_digit u, False))"

lemma is_digit_digit_char: "d < 10 \<Longrightarrow> is_digit (digit_char d) \<and> digit_value (digit_char d) = d"
  by (simp add: is_digit_def digit_value_def digit_char_def)

lemma show_nat_digits: "list_all is_digit (show_nat n) \<and> show_nat n \<noteq> []"
  by (induction n rule: show_nat.induct)
     (subst show_nat.simps, simp add: is_digit_digit_char)+

lemma read_digits_snoc: "read_digits (s @ [c]) = 10 * read_digits s + digit_value c"
  by (simp add: read_digits_def)

lemma read_show_nat: "read_digits (show_nat n) = n"
proof (induction n rule: show_nat.induct)
  case (1 n)
  show ?case
  proof (cases "n < 10")
    case True
    then show ?thesis
      by (subst show_nat.simps) (simp add: is_digit_digit_char read_digits_def)
  next
    case False
    then have "read_digits (show_nat n) =
        10 * read_digits (show_nat (n div 10)) + digit_value (digit_char (n mod 10))"
      by (subst show_nat.simps) (simp add: read_digits_snoc)
    then show ?thesis using False 1 by (simp add: is_digit_digit_char)
  qed
qed

lemma digit_not_special:
  assumes "is_digit c"
  shows "\<not> c_isspace c" and "c \<noteq> CHR ''-''" and "c \<noteq> CHR ''+''"
  using assms by (auto simp: is_digit_def c_isspace_def)

lemma strtol10_show_nat:
  assumes "n < 2 ^ 63"
  shows "strtol10 (show_nat n) = (int n, [], False)"
proof -
  have ds: "\<forall>c \<in> set (show_nat n). is_digit c" and ne: "show_nat n \<noteq> []"
    using show_nat_digits [of n] by (auto simp: list_all_iff)
  obtain c r where cr: "show_nat n = c # r" using ne by (cases "show_nat n") auto
  then have c: "is_digit c" using ds by simp
  have tw: "takeWhile is_digit (show_nat n) = show_nat n"
    and dw: "dropWhile is_digit (show_nat n) = []"
    using ds by (auto simp: takeWhile_eq_all_conv dropWhile_eq_Nil_conv)
  have bound: "int (read_digits (c # r)) < 2 ^ 63"
    using assms by (simp add: cr [symmetric] read_show_nat)
  show ?thesis
    using tw dw ne bound digit_not_special [OF c] read_show_nat [of n]
    by (simp add: strtol10_def Let_def cr)
qed

section \<open>Ruby values and exceptions\<close>

text \<open>\<open>RObj n\<close> is an object the extension only passes around or sends messages to (a
  Proc, a stream, a user object); \<open>RHash\<close> keeps the pairs in insertion order.\<close>

datatype rvalue =
    Qnil | Qtrue | Qfalse
  | RInt int
  | RSym string
  | RStr string
  | RArr "rvalue list"
  | RHash "(rvalue \<times> rvalue) list"
  | RObj nat

text \<open>A class is named by the C global that holds it.\<close>

type_synonym err_class = string

datatype exc = Exc (exc_class: err_class) (exc_message: string)

type_synonym 'a res = "exc + 'a"

definition RTEST :: "rvalue \<Rightarrow> bool" where
  "RTEST v \<longleftrightarrow> v \<noteq> Qnil \<and> v \<noteq> Qfalse"

text \<open>The built-in classes outside \<open>StandardError\<close>: \<open>rb_rescue\<close> does not catch them.\<close>

definition standard_error :: "exc \<Rightarrow> bool" where
  "standard_error e \<longleftrightarrow> exc_class e \<notin>
     {''rb_eNoMemError'', ''rb_eNotImpError'', ''rb_eScriptError'', ''rb_eLoadError'',
      ''rb_eSyntaxError'', ''rb_eSecurityError'', ''rb_eInterrupt'', ''rb_eSignal'',
      ''rb_eSystemExit'', ''rb_eSysStackError'', ''rb_eFatal'', ''rb_eException''}"

subsection \<open>Conversions\<close>

definition type_error :: "'a res" where
  "type_error = Inl (Exc ''rb_eTypeError'' ''no implicit conversion'')"

definition range_error :: "'a res" where
  "range_error = Inl (Exc ''rb_eRangeError'' ''integer out of range'')"

text \<open>Conversion of an Integer to a signed C integer of \<open>w\<close> bits: \<open>RangeError\<close> when it
  does not fit, \<open>TypeError\<close> for a non-numeric value.\<close>

definition NUM2SIGNED :: "nat \<Rightarrow> rvalue \<Rightarrow> int res" where
  "NUM2SIGNED w v = (case v of
      RInt i \<Rightarrow> if - (2 ^ (w - 1)) \<le> i \<and> i < 2 ^ (w - 1) then Inr i else range_error
    | _ \<Rightarrow> type_error)"

abbreviation NUM2INT :: "rvalue \<Rightarrow> int res" where
  "NUM2INT \<equiv> NUM2SIGNED 32"

abbreviation NUM2LONG :: "rvalue \<Rightarrow> int res" where
  "NUM2LONG \<equiv> NUM2SIGNED 64"

abbreviation NUM2LL :: "rvalue \<Rightarrow> int res" where
  "NUM2LL \<equiv> NUM2SIGNED 64"

text \<open>\<open>NUM2ULONG\<close> accepts negative values down to \<open>LONG_MIN\<close> and wraps them.\<close>

definition NUM2ULONG :: "rvalue \<Rightarrow> ulong res" where
  "NUM2ULONG v = (case v of
      RInt i \<Rightarrow> if - (2 ^ 63) \<le> i \<and> i < 2 ^ 64 then Inr (word_of_int i) else range_error
    | _ \<Rightarrow> type_error)"

text \<open>\<open>StringValueCStr\<close> rejects a string with a NUL byte; \<open>StringValuePtr\<close> only checks
  that it is a string, and C code then reads it up to the first NUL.\<close>

definition StringValueCStr :: "rvalue \<Rightarrow> string res" where
  "StringValueCStr v = (case v of
      RStr s \<Rightarrow> if CHR 0x00 \<in> set s
                then Inl (Exc ''rb_eArgError'' ''string contains null byte'') else Inr s
    | _ \<Rightarrow> type_error)"

definition StringValue :: "rvalue \<Rightarrow> string res" where
  "StringValue v = (case v of RStr s \<Rightarrow> Inr s | _ \<Rightarrow> type_error)"

definition c_string :: "string \<Rightarrow> string" where
  "c_string s = takeWhile (\<lambda>c. c \<noteq> CHR 0x00) s"

text \<open>\<open>rb_obj_as_string\<close> on a non-string calls its \<open>to_s\<close>, a parameter.\<close>

definition rb_obj_as_string :: "(rvalue \<Rightarrow> string res) \<Rightarrow> rvalue \<Rightarrow> string res" where
  "rb_obj_as_string to_s v = (case v of RStr s \<Rightarrow> Inr s | _ \<Rightarrow> to_s v)"

lemma NUM2SIGNED_Inr [conv_simps]:
  "NUM2SIGNED w v = Inr i \<longleftrightarrow> v = RInt i \<and> - (2 ^ (w - 1)) \<le> i \<and> i < 2 ^ (w - 1)"
  by (auto simp: NUM2SIGNED_def type_error_def range_error_def split: rvalue.splits if_splits)

lemma StringValueCStr_Inr [conv_simps]:
  "StringValueCStr v = Inr s \<longleftrightarrow> v = RStr s \<and> CHR 0x00 \<notin> set s"
  by (auto simp: StringValueCStr_def type_error_def split: rvalue.splits if_splits)

lemma c_string_id: "CHR 0x00 \<notin> set s \<Longrightarrow> c_string s = s"
  by (auto simp: c_string_def takeWhile_eq_all_conv)

section \<open>Commands\<close>

text \<open>
  A C function that may raise is a command: from a state it gives an exception or a value,
  and in both cases the state reached, since a \<open>longjmp\<close> does not undo assignments.
\<close>

type_synonym ('s, 'a) cmd = "'s \<Rightarrow> 'a res \<times> 's"

definition ret :: "'a \<Rightarrow> ('s, 'a) cmd" where
  "ret a s = (Inr a, s)"

definition rb_raise :: "err_class \<Rightarrow> string \<Rightarrow> ('s, 'a) cmd" where
  "rb_raise c m s = (Inl (Exc c m), s)"

definition rb_exc_raise :: "exc \<Rightarrow> ('s, 'a) cmd" where
  "rb_exc_raise e s = (Inl e, s)"

definition lift_res :: "'a res \<Rightarrow> ('s, 'a) cmd" where
  "lift_res r s = (r, s)"

definition bind :: "('s, 'a) cmd \<Rightarrow> ('a \<Rightarrow> ('s, 'b) cmd) \<Rightarrow> ('s, 'b) cmd" where
  "bind m f s = (case m s of (Inl e, t) \<Rightarrow> (Inl e, t) | (Inr a, t) \<Rightarrow> f a t)"

definition gets :: "('s \<Rightarrow> 'a) \<Rightarrow> ('s, 'a) cmd" where
  "gets f s = (Inr (f s), s)"

definition modify :: "('s \<Rightarrow> 's) \<Rightarrow> ('s, unit) cmd" where
  "modify f s = (Inr (), f s)"

text \<open>\<open>rb_ensure(body, ensure)\<close>: the second command runs on every exit of the first; an
  exception of its own replaces the outcome.\<close>

definition rb_ensure :: "('s, 'a) cmd \<Rightarrow> ('s, 'b) cmd \<Rightarrow> ('s, 'a) cmd" where
  "rb_ensure body fin s =
     (case body s of (r, t) \<Rightarrow>
        (case fin t of (Inl e, u) \<Rightarrow> (Inl e, u) | (Inr _, u) \<Rightarrow> (r, u)))"

text \<open>\<open>rb_rescue(body, handler)\<close>: catches \<open>StandardError\<close> only.\<close>

definition rb_rescue :: "('s, 'a) cmd \<Rightarrow> (exc \<Rightarrow> ('s, 'a) cmd) \<Rightarrow> ('s, 'a) cmd" where
  "rb_rescue body handler s =
     (case body s of
        (Inl e, t) \<Rightarrow> if standard_error e then handler e t else (Inl e, t)
      | (Inr a, t) \<Rightarrow> (Inr a, t))"

text \<open>\<open>rb_protect(body)\<close>: catches every exception.\<close>

definition rb_protect :: "('s, 'a) cmd \<Rightarrow> ('s, exc option) cmd" where
  "rb_protect body s =
     (case body s of (Inl e, t) \<Rightarrow> (Inr (Some e), t) | (Inr _, t) \<Rightarrow> (Inr None, t))"

lemmas cmd_defs = ret_def rb_raise_def rb_exc_raise_def lift_res_def gets_def modify_def
declare cmd_defs [cmd_simps]

lemma bind_ret [cmd_simps]: "bind (ret a) f = f a"
  by (rule ext) (simp add: bind_def ret_def)

lemma bind_raise [cmd_simps]: "bind (rb_raise c m) f = rb_raise c m"
  by (rule ext) (simp add: bind_def rb_raise_def)

lemma bind_modify [cmd_simps]: "bind (modify g) f s = f () (g s)"
  by (simp add: bind_def modify_def)

lemma bind_gets [cmd_simps]: "bind (gets g) f s = f (g s) s"
  by (simp add: bind_def gets_def)

lemma bind_assoc: "bind (bind m f) g = bind m (\<lambda>a. bind (f a) g)"
  by (rule ext) (simp add: bind_def split: prod.splits sum.splits)

lemma bind_InrE:
  assumes "bind m f s = (Inr b, u)"
  obtains a t where "m s = (Inr a, t)" and "f a t = (Inr b, u)"
  using assms by (auto simp: bind_def split: prod.splits sum.splits)

text \<open>A relation between the states before and after a command, on every exit.\<close>

definition keeps :: "('s \<Rightarrow> 's \<Rightarrow> bool) \<Rightarrow> ('s, 'a) cmd \<Rightarrow> bool" where
  "keeps R m \<longleftrightarrow> (\<forall>s. R s (snd (m s)))"

lemma keepsD: "keeps R m \<Longrightarrow> R s (snd (m s))"
  by (simp add: keeps_def)

lemma keepsI: "(\<And>s. R s (snd (m s))) \<Longrightarrow> keeps R m"
  by (simp add: keeps_def)

lemma keeps_pure [intro]:
  assumes "\<And>s. R s s"
  shows "keeps R (ret a)" and "keeps R (rb_raise c x)" and "keeps R (rb_exc_raise e)"
    and "keeps R (lift_res r)" and "keeps R (gets f)"
  using assms by (simp_all add: keeps_def cmd_defs)

lemma keeps_bind [intro]:
  assumes trans: "\<And>s t u. R s t \<Longrightarrow> R t u \<Longrightarrow> R s u"
    and "keeps R m" and "\<And>a. keeps R (f a)"
  shows "keeps R (bind m f)"
proof (rule keepsI)
  fix s
  obtain r t where m: "m s = (r, t)" by fastforce
  with assms(2) have st: "R s t" by (metis keepsD snd_conv)
  show "R s (snd (bind m f s))"
    using m st trans [OF st keepsD [OF assms(3)]]
    by (auto simp: bind_def split: sum.splits)
qed

lemma rb_ensure_state: "snd (rb_ensure body fin s) = snd (fin (snd (body s)))"
  by (simp add: rb_ensure_def split: prod.splits sum.splits)

lemma rb_ensure_result:
  assumes "\<And>t. \<exists>u x. fin t = (Inr x, u)"
  shows "fst (rb_ensure body fin s) = fst (body s)"
proof -
  obtain u x where "fin (snd (body s)) = (Inr x, u)" using assms by blast
  then show ?thesis by (cases "body s") (simp add: rb_ensure_def)
qed

lemma keeps_rb_rescue:
  assumes trans: "\<And>s t u. R s t \<Longrightarrow> R t u \<Longrightarrow> R s u"
    and "keeps R m" and "\<And>e. keeps R (h e)"
  shows "keeps R (rb_rescue m h)"
proof (rule keepsI)
  fix s
  obtain r t where m: "m s = (r, t)" by fastforce
  with assms(2) have st: "R s t" by (metis keepsD snd_conv)
  show "R s (snd (rb_rescue m h s))"
    using m st trans [OF st keepsD [OF assms(3)]]
    by (auto simp: rb_rescue_def split: sum.splits)
qed

section \<open>The hash table\<close>

text \<open>
  Ruby's \<open>st_table\<close> with numeric keys: an association list in insertion order, which is
  the order \<open>st_foreach\<close> visits. Inserting an existing key overwrites in place.
\<close>

type_synonym ('k, 'v) st_table = "('k \<times> 'v) list"

definition st_init_numtable :: "('k, 'v) st_table" where
  "st_init_numtable = []"

definition st_lookup :: "('k, 'v) st_table \<Rightarrow> 'k \<Rightarrow> 'v option" where
  "st_lookup t k = map_of t k"

fun st_insert :: "('k, 'v) st_table \<Rightarrow> 'k \<Rightarrow> 'v \<Rightarrow> ('k, 'v) st_table" where
  "st_insert [] k v = [(k, v)]"
| "st_insert ((k', v') # t) k v =
     (if k' = k then (k, v) # t else (k', v') # st_insert t k v)"

definition st_delete :: "('k, 'v) st_table \<Rightarrow> 'k \<Rightarrow> ('k, 'v) st_table" where
  "st_delete t k = filter (\<lambda>p. fst p \<noteq> k) t"

definition st_keys :: "('k, 'v) st_table \<Rightarrow> 'k list" where
  "st_keys t = map fst t"

definition st_wf :: "('k, 'v) st_table \<Rightarrow> bool" where
  "st_wf t \<longleftrightarrow> distinct (map fst t)"

text \<open>The interface the components rely on.\<close>

locale finite_table =
  fixes init :: "'t"
    and lookup :: "'t \<Rightarrow> 'k \<Rightarrow> 'v option"
    and insert :: "'t \<Rightarrow> 'k \<Rightarrow> 'v \<Rightarrow> 't"
    and delete :: "'t \<Rightarrow> 'k \<Rightarrow> 't"
    and keys :: "'t \<Rightarrow> 'k list"
    and wf :: "'t \<Rightarrow> bool"
  assumes lookup_init: "lookup init k = None"
    and lookup_insert: "lookup (insert t k v) k' = (if k' = k then Some v else lookup t k')"
    and lookup_delete: "lookup (delete t k) k' = (if k' = k then None else lookup t k')"
    and keys_lookup: "k \<in> set (keys t) \<longleftrightarrow> lookup t k \<noteq> None"
    and keys_distinct: "wf t \<Longrightarrow> distinct (keys t)"
    and wf_init: "wf init"
    and wf_insert: "wf t \<Longrightarrow> wf (insert t k v)"
    and wf_delete: "wf t \<Longrightarrow> wf (delete t k)"
begin

lemma set_keys_insert: "set (keys (insert t k v)) = Set.insert k (set (keys t))"
  by (auto simp: keys_lookup lookup_insert split: if_splits)

lemma set_keys_delete: "set (keys (delete t k)) = set (keys t) - {k}"
  by (auto simp: keys_lookup lookup_delete split: if_splits)

lemma keys_card: "wf t \<Longrightarrow> length (keys t) = card (set (keys t))"
  by (simp add: distinct_card keys_distinct)

lemma length_keys_insert_new:
  assumes "wf t" and "lookup t k = None"
  shows "length (keys (insert t k v)) = Suc (length (keys t))"
  using assms by (simp add: keys_card wf_insert set_keys_insert keys_lookup)

lemma length_keys_insert_old:
  assumes "wf t" and "lookup t k \<noteq> None"
  shows "length (keys (insert t k v)) = length (keys t)"
proof -
  have "k \<in> set (keys t)" using assms(2) by (simp add: keys_lookup)
  then show ?thesis
    using assms(1) by (simp add: keys_card wf_insert set_keys_insert insert_absorb)
qed

lemma length_keys_delete:
  assumes "wf t"
  shows "length (keys (delete t k)) = length (keys t) - (if lookup t k = None then 0 else 1)"
proof -
  have "length (keys (delete t k)) = card (set (keys t) - {k})"
    using assms by (simp add: keys_card wf_delete set_keys_delete)
  then show ?thesis
    using assms keys_lookup [of k t] by (auto simp: keys_card)
qed

lemma delete_absent_keys: "lookup t k = None \<Longrightarrow> set (keys (delete t k)) = set (keys t)"
  by (metis Diff_empty Diff_insert0 keys_lookup set_keys_delete)

end

lemma st_lookup_insert: "st_lookup (st_insert t k v) k' = (if k' = k then Some v else st_lookup t k')"
  by (induction t k v rule: st_insert.induct) (auto simp: st_lookup_def)

lemma st_keys_insert:
  "map fst (st_insert t k v) = (if k \<in> fst ` set t then map fst t else map fst t @ [k])"
  by (induction t k v rule: st_insert.induct) auto

lemma st_lookup_delete: "st_lookup (st_delete t k) k' = (if k' = k then None else st_lookup t k')"
  by (induction t) (auto simp: st_lookup_def st_delete_def)

lemma st_keys_lookup: "k \<in> set (st_keys t) \<longleftrightarrow> st_lookup t k \<noteq> None"
  by (simp add: st_keys_def st_lookup_def map_of_eq_None_iff)

lemma st_init_laws: "st_lookup st_init_numtable k = None" "st_wf st_init_numtable"
  by (simp_all add: st_init_numtable_def st_lookup_def st_wf_def)

lemma st_wf_keys: "st_wf t \<Longrightarrow> distinct (st_keys t)"
  by (simp add: st_wf_def st_keys_def)

interpretation st: finite_table st_init_numtable st_lookup st_insert st_delete st_keys st_wf
proof unfold_locales
  show "st_wf t \<Longrightarrow> st_wf (st_insert t k v)" for t :: "('a, 'b) st_table" and k v
    by (auto simp: st_wf_def st_keys_insert)
  show "st_wf t \<Longrightarrow> st_wf (st_delete t k)" for t :: "('a, 'b) st_table" and k
    by (simp add: st_wf_def st_delete_def distinct_map_filter)
qed (simp_all add: st_lookup_insert st_lookup_delete st_keys_lookup st_init_laws st_wf_keys)

lemmas st_laws [st_simps] = st.lookup_init st.lookup_insert st.lookup_delete
  st.wf_init st.wf_insert st.wf_delete

end
