(* ===== verification/Curb_Errors.thy ===== *)
theory Curb_Errors
  imports Curb_Prelude
begin

text \<open>
  The translation of libcurl result codes to Ruby exception classes (\<open>ext/curb_errors.c\<close>).
  The two \<open>switch\<close> statements are tables from code to class; a case under \<open>#ifdef\<close> is in
  the table when the build parameter says so (\<open>have\<close> for the \<open>HAVE_\<close> macros the build
  script writes, \<open>ver\<close> for \<open>LIBCURL_VERSION_NUM\<close>). The message texts come from
  libcurl (\<open>strerror\<close>). The class hierarchy that \<open>init_curb_errors\<close> builds is the list
  of its definitions in order.
\<close>

section \<open>The switch statements\<close>

definition if_defined :: "bool \<Rightarrow> 'a \<Rightarrow> 'a list" where
  "if_defined b x = (if b then [x] else [])"

type_synonym case_table = "(int \<times> err_class) list"

text \<open>\<open>switch (code)\<close> of \<open>rb_curl_easy_error\<close>, codes 0 to 49.\<close>

definition easy_error_cases_1 :: "(string \<Rightarrow> bool) \<Rightarrow> case_table" where
  "easy_error_cases_1 have =
     [(0, ''eCurlErrOK''), (1, ''eCurlErrUnsupportedProtocol''), (2, ''eCurlErrFailedInit''),
      (3, ''eCurlErrMalformedURL'')] @
     if_defined (have ''HAVE_CURLE_NOT_BUILT_IN'') (4, ''eCurlErrNotBuiltIn'') @
     if_defined (\<not> have ''HAVE_CURLE_NOT_BUILT_IN'') (4, ''eCurlErrMalformedURLUser'') @
     [(5, ''eCurlErrProxyResolution''), (6, ''eCurlErrHostResolution''),
      (7, ''eCurlErrConnectFailed''), (8, ''eCurlErrFTPWeirdReply''),
      (9, ''eCurlErrFTPAccessDenied''), (10, ''eCurlErrFTPBadPassword''),
      (11, ''eCurlErrFTPWeirdPassReply''), (12, ''eCurlErrFTPWeirdUserReply''),
      (13, ''eCurlErrFTPWeirdPasvReply''), (14, ''eCurlErrFTPWeird227Format''),
      (15, ''eCurlErrFTPCantGetHost''), (16, ''eCurlErrFTPCantReconnect''),
      (17, ''eCurlErrFTPCouldntSetBinary''), (18, ''eCurlErrPartialFile''),
      (19, ''eCurlErrFTPCouldntRetrFile''), (20, ''eCurlErrFTPWrite''),
      (21, ''eCurlErrFTPQuote''), (22, ''eCurlErrHTTPFailed''), (23, ''eCurlErrWriteError''),
      (24, ''eCurlErrMalformedUser''), (25, ''eCurlErrFTPCouldntStorFile''),
      (26, ''eCurlErrReadError''), (27, ''eCurlErrOutOfMemory''), (28, ''eCurlErrTimeout''),
      (29, ''eCurlErrFTPCouldntSetASCII''), (30, ''eCurlErrFTPPortFailed''),
      (31, ''eCurlErrFTPCouldntUseRest''), (32, ''eCurlErrFTPCouldntGetSize''),
      (33, ''eCurlErrHTTPRange''), (34, ''eCurlErrHTTPPost''),
      (35, ''eCurlErrSSLConnectError''), (36, ''eCurlErrBadResume''),
      (37, ''eCurlErrFileCouldntRead''), (38, ''eCurlErrLDAPCouldntBind''),
      (39, ''eCurlErrLDAPSearchFailed''), (40, ''eCurlErrLibraryNotFound''),
      (41, ''eCurlErrFunctionNotFound''), (42, ''eCurlErrAbortedByCallback''),
      (43, ''eCurlErrBadFunctionArgument''), (44, ''eCurlErrBadCallingOrder''),
      (45, ''eCurlErrInterfaceFailed''), (46, ''eCurlErrBadPasswordEntered''),
      (47, ''eCurlErrTooManyRedirects''), (48, ''eCurlErrTelnetUnknownOption''),
      (49, ''eCurlErrTelnetBadOptionSyntax'')]"

text \<open>Codes 50 to 67.\<close>

definition easy_error_cases_2 :: "(string \<Rightarrow> bool) \<Rightarrow> nat \<Rightarrow> case_table" where
  "easy_error_cases_2 have ver =
     if_defined (have ''HAVE_CURLE_OBSOLETE'') (50, ''eCurlErrObsolete'') @
     if_defined (ver < 0x073e00) (51, ''eCurlErrSSLPeerCertificate'') @
     [(52, ''eCurlErrGotNothing''), (53, ''eCurlErrSSLEngineNotFound''),
      (54, ''eCurlErrSSLEngineSetFailed''), (55, ''eCurlErrSendError''),
      (56, ''eCurlErrRecvError''), (57, ''eCurlErrShareInUse''),
      (58, ''eCurlErrSSLCertificate''), (59, ''eCurlErrSSLCipher'')] @
     if_defined (0x073e00 \<le> ver) (60, ''eCurlErrSSLPeerCertificate'') @
     if_defined (ver < 0x073e00) (60, ''eCurlErrSSLCACertificate'') @
     [(61, ''eCurlErrBadContentEncoding''), (62, ''eCurlErrLDAPInvalidURL''),
      (63, ''eCurlErrFileSizeExceeded''), (64, ''eCurlErrFTPSSLFailed'')] @
     if_defined (have ''HAVE_CURLE_SEND_FAIL_REWIND'') (65, ''eCurlErrSendFailedRewind'') @
     if_defined (have ''HAVE_CURLE_SSL_ENGINE_INITFAILED'') (66, ''eCurlErrSSLEngineInitFailed'') @
     if_defined (have ''HAVE_CURLE_LOGIN_DENIED'') (67, ''eCurlErrLoginDenied'')"

text \<open>Codes 68 to 92.\<close>

definition easy_error_cases_3 :: "(string \<Rightarrow> bool) \<Rightarrow> case_table" where
  "easy_error_cases_3 have =
     if_defined (have ''HAVE_CURLE_TFTP_NOTFOUND'') (68, ''eCurlErrTFTPNotFound'') @
     if_defined (have ''HAVE_CURLE_TFTP_PERM'') (69, ''eCurlErrTFTPPermission'') @
     if_defined (have ''HAVE_CURLE_TFTP_DISKFULL'') (70, ''eCurlErrTFTPDiskFull'') @
     if_defined (have ''HAVE_CURLE_TFTP_ILLEGAL'') (71, ''eCurlErrTFTPIllegalOperation'') @
     if_defined (have ''HAVE_CURLE_TFTP_UNKNOWNID'') (72, ''eCurlErrTFTPUnknownID'') @
     if_defined (have ''HAVE_CURLE_TFTP_EXISTS'') (73, ''eCurlErrTFTPFileExists'') @
     if_defined (have ''HAVE_CURLE_TFTP_NOSUCHUSER'') (74, ''eCurlErrTFTPNotFound'') @
     if_defined (have ''HAVE_CURLE_CONV_FAILED'') (75, ''eCurlErrConvFailed'') @
     if_defined (have ''HAVE_CURLE_CONV_REQD'') (76, ''eCurlErrConvReqd'') @
     if_defined (have ''HAVE_CURLE_SSL_CACERT_BADFILE'') (77, ''eCurlErrSSLCacertBadfile'') @
     if_defined (have ''HAVE_CURLE_REMOTE_FILE_NOT_FOUND'') (78, ''eCurlErrRemoteFileNotFound'') @
     if_defined (have ''HAVE_CURLE_SSH'') (79, ''eCurlErrSSH'') @
     if_defined (have ''HAVE_CURLE_SSL_SHUTDOWN_FAILED'') (80, ''eCurlErrSSLShutdownFailed'') @
     if_defined (have ''HAVE_CURLE_AGAIN'') (81, ''eCurlErrAgain'') @
     if_defined (have ''HAVE_CURLE_SSL_CRL_BADFILE'') (82, ''eCurlErrSSLCRLBadfile'') @
     if_defined (have ''HAVE_CURLE_SSL_ISSUER_ERROR'') (83, ''eCurlErrSSLIssuerError'') @
     if_defined (have ''HAVE_CURLE_FTP_PRET_FAILED'') (84, ''eCurlErrFTPPRETFailed'') @
     if_defined (have ''HAVE_CURLE_RTSP_CSEQ_ERROR'') (85, ''eCurlErrRTSPCseqError'') @
     if_defined (have ''HAVE_CURLE_RTSP_SESSION_ERROR'') (86, ''eCurlErrRTSPSessionError'') @
     if_defined (have ''HAVE_CURLE_FTP_BAD_FILE_LIST'') (87, ''eCurlErrFTPBadFileList'') @
     if_defined (have ''HAVE_CURLE_CHUNK_FAILED'') (88, ''eCurlErrChunkFailed'') @
     if_defined (have ''HAVE_CURLE_NO_CONNECTION_AVAILABLE'') (89, ''eCurlErrNoConnectionAvailable'') @
     if_defined (have ''HAVE_CURLE_SSL_PINNEDPUBKEYNOTMATCH'') (90, ''eCurlErrSSLPinnedPubKeyNotMatch'') @
     if_defined (have ''HAVE_CURLE_SSL_INVALIDCERTSTATUS'') (91, ''eCurlErrSSLInvalidCertStatus'') @
     if_defined (have ''HAVE_CURLE_HTTP2_STREAM'') (92, ''eCurlErrHTTP2Stream'')"

definition easy_error_cases :: "(string \<Rightarrow> bool) \<Rightarrow> nat \<Rightarrow> case_table" where
  "easy_error_cases have ver =
     easy_error_cases_1 have @ easy_error_cases_2 have ver @ easy_error_cases_3 have"

definition multi_error_cases :: "(string \<Rightarrow> bool) \<Rightarrow> case_table" where
  "multi_error_cases have =
     [(- 1, ''mCurlErrCallMultiPerform''), (1, ''mCurlErrBadHandle''),
      (2, ''mCurlErrBadEasyHandle''), (3, ''mCurlErrOutOfMemory''),
      (4, ''mCurlErrInternalError'')] @
     if_defined (have ''HAVE_CURLM_BAD_SOCKET'') (5, ''mCurlErrBadSocket'') @
     if_defined (have ''HAVE_CURLM_UNKNOWN_OPTION'') (6, ''mCurlErrUnknownOption'') @
     if_defined (have ''HAVE_CURLM_ADDED_ALREADY'') (7, ''mCurlErrAddedAlready'')"

section \<open>The result pair and the raising functions\<close>

text \<open>The array \<open>[class, message]\<close>.\<close>

definition rb_curl_easy_error ::
  "(string \<Rightarrow> bool) \<Rightarrow> nat \<Rightarrow> (int \<Rightarrow> string) \<Rightarrow> int \<Rightarrow> err_class \<times> string" where
  "rb_curl_easy_error have ver strerror code =
     (case map_of (easy_error_cases have ver) code of
        Some exclz \<Rightarrow> (exclz, strerror code)
      | None \<Rightarrow> (''eCurlErrError'', ''Unknown error result from libcurl''))"

definition raise_curl_easy_error_exception ::
  "(string \<Rightarrow> bool) \<Rightarrow> nat \<Rightarrow> (int \<Rightarrow> string) \<Rightarrow> int \<Rightarrow> exc" where
  "raise_curl_easy_error_exception have ver strerror code =
     (case rb_curl_easy_error have ver strerror code of
        (exclz, exmsg) \<Rightarrow> Exc exclz (''CURLError: '' @ exmsg))"

definition rb_curl_multi_error ::
  "(string \<Rightarrow> bool) \<Rightarrow> (int \<Rightarrow> string) \<Rightarrow> int \<Rightarrow> err_class \<times> string" where
  "rb_curl_multi_error have strerror code =
     (case map_of (multi_error_cases have) code of
        Some exclz \<Rightarrow> (exclz, strerror code)
      | None \<Rightarrow> (''eCurlErrError'', ''Unknown error result from libcurl''))"

definition raise_curl_multi_error_exception ::
  "(string \<Rightarrow> bool) \<Rightarrow> (int \<Rightarrow> string) \<Rightarrow> int \<Rightarrow> exc" where
  "raise_curl_multi_error_exception have strerror code =
     (case rb_curl_multi_error have strerror code of
        (exclz, exmsg) \<Rightarrow> Exc exclz (''CURLError: '' @ exmsg))"

section \<open>The class hierarchy\<close>

text \<open>Each \<open>rb_define_class_under(mCurlErr, name, parent)\<close>: the global assigned, the Ruby
  name, the parent's global, in the order of execution.\<close>

type_synonym class_def = "err_class \<times> string \<times> err_class"

definition init_curb_errors :: "(string \<Rightarrow> bool) \<Rightarrow> class_def list" where
  "init_curb_errors have =
     [
      (''eCurlErrError'', ''CurlError'', ''rb_eRuntimeError''),
      (''eCurlErrFTPError'', ''FTPError'', ''eCurlErrError''),
      (''eCurlErrHTTPError'', ''HTTPError'', ''eCurlErrError''),
      (''eCurlErrFileError'', ''FileError'', ''eCurlErrError''),
      (''eCurlErrLDAPError'', ''LDAPError'', ''eCurlErrError''),
      (''eCurlErrTelnetError'', ''TelnetError'', ''eCurlErrError''),
      (''eCurlErrTFTPError'', ''TFTPError'', ''eCurlErrError''),
      (''eCurlErrRTSPError'', ''RTSPError'', ''eCurlErrError''),
      (''eCurlErrOK'', ''CurlOK'', ''eCurlErrError''),
      (''eCurlErrUnsupportedProtocol'', ''UnsupportedProtocolError'', ''eCurlErrError''),
      (''eCurlErrFailedInit'', ''FailedInitError'', ''eCurlErrError''),
      (''eCurlErrMalformedURL'', ''MalformedURLError'', ''eCurlErrError''),
      (''eCurlErrNotBuiltIn'', ''NotBuiltInError'', ''eCurlErrError''),
      (''eCurlErrMalformedURLUser'', ''MalformedURLUserError'', ''eCurlErrError''),
      (''eCurlErrProxyResolution'', ''ProxyResolutionError'', ''eCurlErrError''),
      (''eCurlErrHostResolution'', ''HostResolutionError'', ''eCurlErrError''),
      (''eCurlErrConnectFailed'', ''ConnectionFailedError'', ''eCurlErrError''),
      (''eCurlErrFTPWeirdReply'', ''WeirdReplyError'', ''eCurlErrFTPError''),
      (''eCurlErrFTPAccessDenied'', ''AccessDeniedError'', ''eCurlErrFTPError''),
      (''eCurlErrFTPBadPassword'', ''BadPasswordError'', ''eCurlErrFTPError''),
      (''eCurlErrFTPWeirdPassReply'', ''WeirdPassReplyError'', ''eCurlErrFTPError''),
      (''eCurlErrFTPWeirdUserReply'', ''WeirdUserReplyError'', ''eCurlErrFTPError''),
      (''eCurlErrFTPWeirdPasvReply'', ''WeirdPasvReplyError'', ''eCurlErrFTPError''),
      (''eCurlErrFTPWeird227Format'', ''Weird227FormatError'', ''eCurlErrFTPError''),
      (''eCurlErrFTPCantGetHost'', ''CantGetHostError'', ''eCurlErrFTPError''),
      (''eCurlErrFTPCantReconnect'', ''CantReconnectError'', ''eCurlErrFTPError''),
      (''eCurlErrFTPCouldntSetBinary'', ''CouldntSetBinaryError'', ''eCurlErrFTPError''),
      (''eCurlErrPartialFile'', ''PartialFileError'', ''eCurlErrError''),
      (''eCurlErrFTPCouldntRetrFile'', ''CouldntRetrFileError'', ''eCurlErrFTPError''),
      (''eCurlErrFTPWrite'', ''FTPWriteError'', ''eCurlErrFTPError''),
      (''eCurlErrFTPQuote'', ''FTPQuoteError'', ''eCurlErrFTPError''),
      (''eCurlErrHTTPFailed'', ''HTTPFailedError'', ''eCurlErrHTTPError''),
      (''eCurlErrWriteError'', ''WriteError'', ''eCurlErrError''),
      (''eCurlErrMalformedUser'', ''MalformedUserError'', ''eCurlErrError''),
      (''eCurlErrFTPCouldntStorFile'', ''CouldntStorFileError'', ''eCurlErrFTPError''),
      (''eCurlErrReadError'', ''ReadError'', ''eCurlErrError''),
      (''eCurlErrOutOfMemory'', ''OutOfMemoryError'', ''eCurlErrError''),
      (''eCurlErrTimeout'', ''TimeoutError'', ''eCurlErrError''),
      (''eCurlErrFTPCouldntSetASCII'', ''CouldntSetASCIIError'', ''eCurlErrFTPError''),
      (''eCurlErrFTPPortFailed'', ''PortFailedError'', ''eCurlErrFTPError''),
      (''eCurlErrFTPCouldntUseRest'', ''CouldntUseRestError'', ''eCurlErrFTPError''),
      (''eCurlErrFTPCouldntGetSize'', ''CouldntGetSizeError'', ''eCurlErrFTPError''),
      (''eCurlErrHTTPRange'', ''HTTPRangeError'', ''eCurlErrHTTPError''),
      (''eCurlErrHTTPPost'', ''HTTPPostError'', ''eCurlErrHTTPError''),
      (''eCurlErrSSLConnectError'', ''SSLConnectError'', ''eCurlErrError''),
      (''eCurlErrBadResume'', ''BadResumeError'', ''eCurlErrError''),
      (''eCurlErrFileCouldntRead'', ''CouldntReadError'', ''eCurlErrFileError''),
      (''eCurlErrLDAPCouldntBind'', ''CouldntBindError'', ''eCurlErrLDAPError''),
      (''eCurlErrLDAPSearchFailed'', ''SearchFailedError'', ''eCurlErrLDAPError''),
      (''eCurlErrLibraryNotFound'', ''LibraryNotFoundError'', ''eCurlErrError''),
      (''eCurlErrFunctionNotFound'', ''FunctionNotFoundError'', ''eCurlErrError''),
      (''eCurlErrAbortedByCallback'', ''AbortedByCallbackError'', ''eCurlErrError''),
      (''eCurlErrBadFunctionArgument'', ''BadFunctionArgumentError'', ''eCurlErrError''),
      (''eCurlErrBadCallingOrder'', ''BadCallingOrderError'', ''eCurlErrError''),
      (''eCurlErrInterfaceFailed'', ''InterfaceFailedError'', ''eCurlErrError''),
      (''eCurlErrBadPasswordEntered'', ''BadPasswordEnteredError'', ''eCurlErrError''),
      (''eCurlErrTooManyRedirects'', ''TooManyRedirectsError'', ''eCurlErrError''),
      (''eCurlErrTelnetUnknownOption'', ''UnknownOptionError'', ''eCurlErrTelnetError''),
      (''eCurlErrTelnetBadOptionSyntax'', ''BadOptionSyntaxError'', ''eCurlErrTelnetError''),
      (''eCurlErrObsolete'', ''ObsoleteError'', ''eCurlErrError''),
      (''eCurlErrSSLPeerCertificate'', ''SSLPeerCertificateError'', ''eCurlErrError''),
      (''eCurlErrGotNothing'', ''GotNothingError'', ''eCurlErrError''),
      (''eCurlErrSSLEngineNotFound'', ''SSLEngineNotFoundError'', ''eCurlErrError''),
      (''eCurlErrSSLEngineSetFailed'', ''SSLEngineSetFailedError'', ''eCurlErrError''),
      (''eCurlErrSendError'', ''SendError'', ''eCurlErrError''),
      (''eCurlErrRecvError'', ''RecvError'', ''eCurlErrError''),
      (''eCurlErrShareInUse'', ''ShareInUseError'', ''eCurlErrError''),
      (''eCurlErrConvFailed'', ''ConvFailed'', ''eCurlErrError''),
      (''eCurlErrConvReqd'', ''ConvReqd'', ''eCurlErrError''),
      (''eCurlErrRemoteFileNotFound'', ''RemoteFileNotFound'', ''eCurlErrError''),
      (''eCurlErrAgain'', ''Again'', ''eCurlErrError''),
      (''eCurlErrSSLCertificate'', ''SSLCertificateError'', ''eCurlErrError''),
      (''eCurlErrSSLCipher'', ''SSLCypherError'', ''eCurlErrError''),
      (''eCurlErrSSLCACertificate'', ''SSLCACertificateError'', ''eCurlErrError''),
      (''eCurlErrBadContentEncoding'', ''BadContentEncodingError'', ''eCurlErrError''),
      (''eCurlErrSSLCacertBadfile'', ''SSLCaertBadFile'', ''eCurlErrError''),
      (''eCurlErrSSLCRLBadfile'', ''SSLCRLBadfile'', ''eCurlErrError''),
      (''eCurlErrSSLIssuerError'', ''SSLIssuerError'', ''eCurlErrError''),
      (''eCurlErrUnsafeDestination'', ''UnsafeDestinationError'', ''eCurlErrError''),
      (''eCurlErrSSLShutdownFailed'', ''SSLShutdownFailed'', ''eCurlErrError''),
      (''eCurlErrSSH'', ''SSH'', ''eCurlErrError''),
      (''mCurlErrFailedInit'', ''MultiInitError'', ''eCurlErrError''),
      (''mCurlErrCallMultiPerform'', ''MultiPerform'', ''eCurlErrError''),
      (''mCurlErrBadHandle'', ''MultiBadHandle'', ''eCurlErrError''),
      (''mCurlErrBadEasyHandle'', ''MultiBadEasyHandle'', ''eCurlErrError''),
      (''mCurlErrOutOfMemory'', ''MultiOutOfMemory'', ''eCurlErrError''),
      (''mCurlErrInternalError'', ''MultiInternalError'', ''eCurlErrError''),
      (''mCurlErrBadSocket'', ''MultiBadSocket'', ''eCurlErrError'')] @
     if_defined (have ''HAVE_CURLM_ADDED_ALREADY'') (''mCurlErrAddedAlready'', ''MultiAddedAlready'', ''eCurlErrError'') @
     [
      (''mCurlErrUnknownOption'', ''MultiUnknownOption'', ''eCurlErrError''),
      (''eCurlErrLDAPInvalidURL'', ''InvalidLDAPURLError'', ''eCurlErrLDAPError''),
      (''eCurlErrFileSizeExceeded'', ''FileSizeExceededError'', ''eCurlErrError''),
      (''eCurlErrFTPSSLFailed'', ''FTPSSLFailed'', ''eCurlErrFTPError''),
      (''eCurlErrSendFailedRewind'', ''SendFailedRewind'', ''eCurlErrError''),
      (''eCurlErrSSLEngineInitFailed'', ''SSLEngineInitFailedError'', ''eCurlErrError''),
      (''eCurlErrLoginDenied'', ''LoginDeniedError'', ''eCurlErrError''),
      (''eCurlErrTFTPNotFound'', ''NotFoundError'', ''eCurlErrTFTPError''),
      (''eCurlErrTFTPPermission'', ''PermissionError'', ''eCurlErrTFTPError''),
      (''eCurlErrTFTPDiskFull'', ''DiskFullError'', ''eCurlErrTFTPError''),
      (''eCurlErrTFTPIllegalOperation'', ''IllegalOperationError'', ''eCurlErrTFTPError''),
      (''eCurlErrTFTPUnknownID'', ''UnknownIDError'', ''eCurlErrTFTPError''),
      (''eCurlErrTFTPFileExists'', ''FileExistsError'', ''eCurlErrTFTPError''),
      (''eCurlErrTFTPNoSuchUser'', ''NoSuchUserError'', ''eCurlErrTFTPError''),
      (''eCurlErrInvalidPostField'', ''InvalidPostFieldError'', ''eCurlErrError''),
      (''eCurlErrFTPPRETFailed'', ''PPRETFailedError'', ''eCurlErrFTPError''),
      (''eCurlErrRTSPCseqError'', ''CseqError'', ''eCurlErrRTSPError''),
      (''eCurlErrRTSPSessionError'', ''SessionError'', ''eCurlErrRTSPError''),
      (''eCurlErrFTPBadFileList'', ''BadFileListError'', ''eCurlErrFTPError''),
      (''eCurlErrChunkFailed'', ''ChunkFailedError'', ''eCurlErrError''),
      (''eCurlErrNoConnectionAvailable'', ''NoConnectionAvailableError'', ''eCurlErrError''),
      (''eCurlErrSSLPinnedPubKeyNotMatch'', ''SSLPinnedPubKeyNotMatchError'', ''eCurlErrError''),
      (''eCurlErrSSLInvalidCertStatus'', ''SSLInvalidCertStatusError'', ''eCurlErrError''),
      (''eCurlErrHTTP2Stream'', ''HTTP2StreamError'', ''eCurlErrHTTPError'')]"

text \<open>The superclass chain of a class: the definitions are walked from the latest to the
  earliest, since a parent must already be defined when the child is.\<close>

fun superclasses :: "class_def list \<Rightarrow> err_class \<Rightarrow> err_class list" where
  "superclasses [] c = [c]"
| "superclasses ((g, _, p) # later) c =
     (if g = c then c # superclasses later p else superclasses later c)"

definition class_is_a :: "(string \<Rightarrow> bool) \<Rightarrow> err_class \<Rightarrow> err_class \<Rightarrow> bool" where
  "class_is_a have c d \<longleftrightarrow> d \<in> set (superclasses (rev (init_curb_errors have)) c)"

end
