(* ===== verification/Curb_Errors_Facts.thy ===== *)
theory Curb_Errors_Facts
  imports Curb_Errors
begin

text \<open>
  What the error tables of \<open>Curb_Errors\<close> guarantee: every class they produce is defined
  by \<open>init_curb_errors\<close> below \<open>Curl::Err::CurlError\<close>, and a class identifies the
  result code, with one exception.
\<close>

section \<open>Facts about the tables\<close>


text \<open>Every definition's parent is the root or an earlier definition.\<close>

fun parents_defined :: "err_class \<Rightarrow> class_def list \<Rightarrow> bool" where
  "parents_defined root [] \<longleftrightarrow> True"
| "parents_defined root ((g, _, p) # earlier) \<longleftrightarrow>
     (g = root \<or> p = root \<or> p \<in> set (map fst earlier)) \<and> parents_defined root earlier"

lemma superclasses_self: "c \<in> set (superclasses defs c)"
  by (induction defs c rule: superclasses.induct) auto

lemma superclasses_root:
  assumes "parents_defined root defs" and "c \<in> set (map fst defs)"
  shows "root \<in> set (superclasses defs c)"
  using assms
proof (induction defs c rule: superclasses.induct)
  case (2 g n p earlier c)
  then show ?case using superclasses_self [of root earlier] by auto
qed simp

lemmas table_simps = append.simps rev.simps list.map list.set fst_conv snd_conv
  refl simp_thms insert_iff set_append map_append Un_iff list.pred_inject prod.case

lemma parents_defined_init:
  "parents_defined ''eCurlErrError'' (rev (init_curb_errors have))"
proof (cases "have ''HAVE_CURLM_ADDED_ALREADY''")
  case True
  show ?thesis
    unfolding init_curb_errors_def if_defined_def
    by (simp only: True if_True table_simps parents_defined.simps)
next
  case False
  show ?thesis
    unfolding init_curb_errors_def if_defined_def
    by (simp only: False if_False table_simps parents_defined.simps)
qed

lemma defined_class_is_curl_error:
  "c \<in> set (map fst (init_curb_errors have)) \<Longrightarrow> class_is_a have c ''eCurlErrError''"
  using superclasses_root [OF parents_defined_init]
  by (simp add: class_is_a_def)

lemma set_if_defined: "set (if_defined b x) = (if b then {x} else {})"
  by (cases b) (simp_all add: if_defined_def)

lemma map_if_defined: "map f (if_defined b x) = if_defined b (f x)"
  by (simp add: if_defined_def)

lemma list_all_if_defined: "list_all P (if_defined b x) \<longleftrightarrow> (b \<longrightarrow> P x)"
  by (simp add: if_defined_def)

lemmas guarded_simps = list_all_append map_if_defined list_all_if_defined set_if_defined

lemma easy_error_cases_defined:
  "list_all (\<lambda>(_, c). c \<in> set (map fst (init_curb_errors have))) (easy_error_cases_1 have)"
  "list_all (\<lambda>(_, c). c \<in> set (map fst (init_curb_errors have))) (easy_error_cases_2 have ver)"
  "list_all (\<lambda>(_, c). c \<in> set (map fst (init_curb_errors have))) (easy_error_cases_3 have)"
  unfolding easy_error_cases_1_def easy_error_cases_2_def easy_error_cases_3_def
    init_curb_errors_def
  by (simp_all only: table_simps guarded_simps)

lemma multi_error_cases_defined:
  "list_all (\<lambda>(_, c). c \<in> set (map fst (init_curb_errors have))) (multi_error_cases have)"
  unfolding multi_error_cases_def init_curb_errors_def
  by (simp only: table_simps guarded_simps) simp

text \<open>With every conditional case taken, no class but one stands for two codes. The
  comparison is on the names without their common prefix.\<close>

definition easy_error_full :: "nat \<Rightarrow> case_table" where
  "easy_error_full ver = easy_error_cases (\<lambda>_. True) ver @ [(4, ''eCurlErrMalformedURLUser'')]"

lemma easy_error_cases_full: "set (easy_error_cases have ver) \<subseteq> set (easy_error_full ver)"
proof -
  have "list_all (\<lambda>r. r \<in> set (easy_error_full ver)) (easy_error_cases have ver)"
    unfolding easy_error_full_def easy_error_cases_def easy_error_cases_1_def
      easy_error_cases_2_def easy_error_cases_3_def
    by (simp only: table_simps guarded_simps if_True) simp
  then show ?thesis by (auto simp: list_all_iff)
qed

lemma easy_error_full_distinct:
  "distinct (map (drop 8 \<circ> snd) (filter (\<lambda>r. fst r \<noteq> 74) (easy_error_full ver)))"
  unfolding easy_error_full_def easy_error_cases_def easy_error_cases_1_def
    easy_error_cases_2_def easy_error_cases_3_def
  by (cases "0x073e00 \<le> ver") (simp_all add: if_defined_def)

section \<open>Properties\<close>

lemma easy_error_class_defined:
  "fst (rb_curl_easy_error have ver strerror code) \<in> set (map fst (init_curb_errors have))"
proof (cases "map_of (easy_error_cases have ver) code")
  case None
  then show ?thesis by (simp add: rb_curl_easy_error_def init_curb_errors_def)
next
  case (Some c)
  then have "(code, c) \<in> set (easy_error_cases have ver)" by (rule map_of_SomeD)
  moreover have "list_all (\<lambda>(_, c). c \<in> set (map fst (init_curb_errors have)))
      (easy_error_cases have ver)"
    unfolding easy_error_cases_def list_all_append
    by (intro conjI easy_error_cases_defined)
  ultimately show ?thesis
    using Some by (auto simp: rb_curl_easy_error_def list_all_iff)
qed

lemma multi_error_class_defined:
  "fst (rb_curl_multi_error have strerror code) \<in> set (map fst (init_curb_errors have))"
proof (cases "map_of (multi_error_cases have) code")
  case None
  then show ?thesis by (simp add: rb_curl_multi_error_def init_curb_errors_def)
next
  case (Some c)
  then have "(code, c) \<in> set (multi_error_cases have)" by (rule map_of_SomeD)
  then show ?thesis
    using multi_error_cases_defined [of "have"] Some
    by (auto simp: rb_curl_multi_error_def list_all_iff)
qed

lemma easy_error_cases_same_class:
  assumes "(c, g) \<in> set (easy_error_cases have ver)"
    and "(d, g) \<in> set (easy_error_cases have ver)" and "c \<noteq> 74" and "d \<noteq> 74"
  shows "c = d"
proof -
  let ?t = "filter (\<lambda>r. fst r \<noteq> 74) (easy_error_full ver)"
  have rows: "(c, g) \<in> set ?t" "(d, g) \<in> set ?t"
    using assms easy_error_cases_full by auto
  have "inj_on (drop 8 \<circ> snd) (set ?t)"
    using easy_error_full_distinct by (simp only: distinct_map)
  from inj_onD [OF this _ rows] show ?thesis by simp
qed

text \<open>C40: whatever result code libcurl returns, for easy or multi handles, on every build, the
  exception raised is of a class defined by \<open>init_curb_errors\<close> that descends from
  \<open>Curl::Err::CurlError\<close>: one \<open>rescue\<close> clause catches them all.\<close>

theorem libcurl_errors_are_curl_errors:
  "class_is_a have (exc_class (raise_curl_easy_error_exception have ver strerror code))
     ''eCurlErrError'' \<and>
   class_is_a have (exc_class (raise_curl_multi_error_exception have mstrerror mcode))
     ''eCurlErrError''"
  using defined_class_is_curl_error [OF easy_error_class_defined]
    defined_class_is_curl_error [OF multi_error_class_defined]
  by (simp add: raise_curl_easy_error_exception_def raise_curl_multi_error_exception_def
      split_beta)

text \<open>The exception class identifies the libcurl result: on one build two codes with the
  same class are equal, except that \<open>CURLE_TFTP_NOSUCHUSER\<close> (74) is reported with the class of
  \<open>CURLE_TFTP_NOTFOUND\<close> (68).\<close>

theorem easy_error_class_identifies_code:
  assumes "map_of (easy_error_cases have ver) c = Some g"
    and "map_of (easy_error_cases have ver) d = Some g" and "c \<noteq> 74" and "d \<noteq> 74"
  shows "c = d"
  using easy_error_cases_same_class [OF map_of_SomeD [OF assms(1)] map_of_SomeD [OF assms(2)]]
    assms(3,4) by simp

theorem easy_error_class_identifies_code_witness:
  "map_of (easy_error_cases (\<lambda>_. True) 0x080000) 60 = Some ''eCurlErrSSLPeerCertificate'' \<and>
   map_of (easy_error_cases (\<lambda>_. True) 0x080000) 51 \<noteq> Some ''eCurlErrSSLPeerCertificate''"
proof -
  have sixty: "map_of (easy_error_cases (\<lambda>_. True) 0x080000) 60 = Some ''eCurlErrSSLPeerCertificate''"
    by (simp add: easy_error_cases_def easy_error_cases_1_def easy_error_cases_2_def
        if_defined_def)
  have "(60::int) = 51"
    if "map_of (easy_error_cases (\<lambda>_. True) 0x080000) 51 = Some ''eCurlErrSSLPeerCertificate''"
    by (rule easy_error_class_identifies_code [OF sixty that]) simp_all
  then show ?thesis using sixty by fastforce
qed

lemma easy_error_74:
  "map_of (easy_error_cases have ver) 74 =
     (if have ''HAVE_CURLE_TFTP_NOSUCHUSER'' then Some ''eCurlErrTFTPNotFound'' else None)"
  unfolding easy_error_cases_def easy_error_cases_1_def easy_error_cases_2_def
    easy_error_cases_3_def if_defined_def map_of_append
  by (simp add: if_distrib [of map_of] map_add_def cong: if_cong)

text \<open>the class \<open>Curl::Err::NoSuchUserError\<close> is defined, but no result code of libcurl
  ever raises it: \<open>CURLE_TFTP_NOSUCHUSER\<close> raises the not-found class.\<close>

theorem tftp_no_such_user_never_raised:
  "''eCurlErrTFTPNoSuchUser'' \<in> set (map fst (init_curb_errors have)) \<and>
   exc_class (raise_curl_easy_error_exception have ver strerror code) \<noteq> ''eCurlErrTFTPNoSuchUser'' \<and>
   map_of (easy_error_cases have ver) 74 =
     (if have ''HAVE_CURLE_TFTP_NOSUCHUSER'' then Some ''eCurlErrTFTPNotFound'' else None)"
proof -
  have full: "''eCurlErrTFTPNoSuchUser'' \<notin> snd ` set (easy_error_full ver)"
    unfolding easy_error_full_def easy_error_cases_def easy_error_cases_1_def
      easy_error_cases_2_def easy_error_cases_3_def if_defined_def
    by (cases "0x073e00 \<le> ver") simp_all
  have never: "''eCurlErrTFTPNoSuchUser'' \<notin> snd ` set (easy_error_cases have ver)"
    using full easy_error_cases_full by blast
  have "fst (rb_curl_easy_error have ver strerror code) \<noteq> ''eCurlErrTFTPNoSuchUser''"
    using never map_of_SomeD [of "easy_error_cases have ver" code]
    by (force simp: rb_curl_easy_error_def split: option.splits)
  then show ?thesis
    unfolding easy_error_74
    by (simp add: raise_curl_easy_error_exception_def split_beta init_curb_errors_def)
qed

end
