(* ===== verification/Curb_Easy_State.thy ===== *)
theory Curb_Easy_State
  imports Curb_Prelude Curb_Errors
begin

text \<open>
  The state of an easy handle: the C structures of \<open>ext/curb_easy.h\<close> as records, the macros
  of \<open>ext/curb_macros.h\<close> that read and write the \<open>opts\<close> hash, and the calls into libcurl
  that configure a handle. A \<open>curl_easy_setopt\<close> call is recorded in a log, newest first: the
  option libcurl uses is the latest entry (\<open>curl_opt\<close>).
\<close>

section \<open>Structures\<close>

text \<open>\<open>curb_cidr_rule\<close>; \<open>CURB_CIDR_FAMILY_IPV4\<close> is 4 and \<open>CURB_CIDR_FAMILY_IPV6\<close> is 6.\<close>

record curb_cidr_rule =
  cr_family :: uchar
  cr_prefix_bits :: uchar
  cr_address :: "uchar list"

text \<open>An argument of \<open>curl_easy_setopt\<close>: a long, a C string, \<open>NULL\<close>, a callback by the
  name of its C function, the handle's own structure, one of its buffers or lists, or a Ruby
  value passed as user data.\<close>

datatype curl_val =
    VLong int
  | VStr string
  | VNull
  | VFun string
  | VRbce
  | VField string
  | VSlist "string list"
  | VValue rvalue

text \<open>\<open>ruby_curl_easy\<close>. A pointer to a libcurl object is its identity or \<open>None\<close> for
  \<open>NULL\<close>, a \<open>curl_slist\<close> the list of its strings (\<open>NULL\<close> is the empty list), a
  \<open>char\<close> flag that only ever holds 0 or 1 a \<open>bool\<close>; \<open>ssl_verify_host\<close> is a
  \<open>char\<close> that also holds 2. The pointer and count of an allowlist are kept apart, as in the
  structure. \<open>curl_log\<close> is the log of the options set on \<open>curl\<close>.\<close>

record ruby_curl_easy =
  curl :: "nat option"
  err_buf :: string
  unsafe_destination_error :: string
  self :: rvalue
  opts :: "string \<rightharpoonup> rvalue"
  multi :: "nat option"
  callback_error :: "exc option"
  local_port :: ushort
  local_port_range :: ushort
  proxy_port :: ushort
  proxy_type :: int
  http_auth_types :: int
  proxy_auth_types :: int
  max_redirs :: int
  timeout :: ulong
  timeout_ms :: ulong
  connect_timeout :: ulong
  connect_timeout_ms :: ulong
  dns_cache_timeout :: int
  ftp_response_timeout :: ulong
  low_speed_limit :: int
  low_speed_time :: int
  max_send_speed_large :: int
  max_recv_speed_large :: int
  ssl_version :: int
  use_ssl :: int
  ftp_filemethod :: int
  http_version :: int
  resolve_mode :: int
  network_policy :: nat
  proxy_tunnel :: bool
  fetch_file_time :: bool
  ssl_verify_peer :: bool
  ssl_verify_host :: int
  header_in_body :: bool
  use_netrc :: bool
  follow_location :: bool
  unrestricted_auth :: bool
  verbose :: bool
  multipart_form_post :: bool
  enable_cookies :: bool
  cookielist_engine_enabled :: bool
  ignore_content_length :: bool
  callback_active :: bool
  unsafe_destination_blocked :: bool
  allow_proxy :: bool
  allow_unix_socket :: bool
  forbid_reuse_set :: bool
  native_active :: uint
  forbid_reuse :: int
  curl_headers :: "string list"
  curl_proxy_headers :: "string list"
  curl_ftp_commands :: "string list"
  curl_resolve :: "string list"
  curl_connect_to :: "string list"
  network_allowed_cidr_rules :: "curb_cidr_rule list option"
  network_allowed_hosts :: "string list option"
  multi_attachment_generation :: ulong
  downloaded_body_bytes :: int
  network_allowed_cidr_rule_count :: nat
  network_allowed_host_count :: nat
  last_result :: int
  curl_log :: "(string \<times> curl_val) list"

section \<open>The macros of \<open>curb_macros.h\<close>\<close>

definition rb_easy_get :: "string \<Rightarrow> ruby_curl_easy \<Rightarrow> rvalue" where
  "rb_easy_get key rbce = (case opts rbce key of Some v \<Rightarrow> v | None \<Rightarrow> Qnil)"

definition rb_easy_set :: "string \<Rightarrow> rvalue \<Rightarrow> ruby_curl_easy \<Rightarrow> ruby_curl_easy" where
  "rb_easy_set key v rbce = rbce\<lparr>opts := (opts rbce)(key \<mapsto> v)\<rparr>"

definition rb_easy_del :: "string \<Rightarrow> ruby_curl_easy \<Rightarrow> ruby_curl_easy" where
  "rb_easy_del key rbce = rbce\<lparr>opts := (opts rbce)(key := None)\<rparr>"

definition rb_easy_nil :: "string \<Rightarrow> ruby_curl_easy \<Rightarrow> bool" where
  "rb_easy_nil key rbce \<longleftrightarrow> rb_easy_get key rbce = Qnil"

definition rb_easy_is_string :: "string \<Rightarrow> ruby_curl_easy \<Rightarrow> bool" where
  "rb_easy_is_string key rbce = (case rb_easy_get key rbce of RStr _ \<Rightarrow> True | _ \<Rightarrow> False)"

text \<open>\<open>RSTRING_PTR\<close> of the value, read by C up to its first NUL; \<open>TypeError\<close> when it is
  no string.\<close>

definition rb_easy_get_str :: "string \<Rightarrow> ruby_curl_easy \<Rightarrow> string res" where
  "rb_easy_get_str key rbce =
     (case StringValue (rb_easy_get key rbce) of Inl e \<Rightarrow> Inl e | Inr s \<Rightarrow> Inr (c_string s))"

text \<open>The attribute macros: each takes the update (or the value) of the structure's field.\<close>

definition CURB_OBJECT_HSETTER :: "string \<Rightarrow> rvalue \<Rightarrow> (ruby_curl_easy, rvalue) cmd" where
  "CURB_OBJECT_HSETTER key v rbce = (Inr v, rb_easy_set key v rbce)"

definition CURB_OBJECT_HGETTER :: "string \<Rightarrow> (ruby_curl_easy, rvalue) cmd" where
  "CURB_OBJECT_HGETTER key rbce = (Inr (rb_easy_get key rbce), rbce)"

definition CURB_BOOLEAN_SETTER ::
  "(bool \<Rightarrow> ruby_curl_easy \<Rightarrow> ruby_curl_easy) \<Rightarrow> rvalue \<Rightarrow> (ruby_curl_easy, rvalue) cmd" where
  "CURB_BOOLEAN_SETTER set_attr v rbce =
     (Inr v, if v = Qnil \<or> v = Qfalse then set_attr False rbce else set_attr True rbce)"

definition CURB_BOOLEAN_GETTER :: "(ruby_curl_easy \<Rightarrow> bool) \<Rightarrow> (ruby_curl_easy, rvalue) cmd" where
  "CURB_BOOLEAN_GETTER attr rbce = (Inr (if attr rbce then Qtrue else Qfalse), rbce)"

text \<open>A handler setter takes the block (\<open>Qnil\<close> when none is given) and returns the previous
  handler.\<close>

definition CURB_HANDLER_PROC_HSETTER :: "string \<Rightarrow> rvalue \<Rightarrow> (ruby_curl_easy, rvalue) cmd" where
  "CURB_HANDLER_PROC_HSETTER key block rbce =
     (Inr (rb_easy_get key rbce), rb_easy_set key block rbce)"

definition CURB_IMMED_SETTER ::
  "(int \<Rightarrow> ruby_curl_easy \<Rightarrow> ruby_curl_easy) \<Rightarrow> int \<Rightarrow> rvalue \<Rightarrow> (ruby_curl_easy, rvalue) cmd" where
  "CURB_IMMED_SETTER set_attr nilval v rbce =
     (if v = Qnil then (Inr v, set_attr nilval rbce)
      else (case NUM2LONG v of
              Inl e \<Rightarrow> (Inl e, rbce)
            | Inr n \<Rightarrow> (Inr v, set_attr n rbce)))"

definition CURB_IMMED_GETTER :: "(ruby_curl_easy \<Rightarrow> int) \<Rightarrow> int \<Rightarrow> (ruby_curl_easy, rvalue) cmd" where
  "CURB_IMMED_GETTER attr nilval rbce =
     (Inr (if attr rbce = nilval then Qnil else RInt (attr rbce)), rbce)"

text \<open>The port setter: \<open>int port = NUM2INT(attr)\<close>, accepted when it is not zero and equal to
  its low 16 bits.\<close>

definition CURB_IMMED_PORT_SETTER ::
  "(ushort \<Rightarrow> ruby_curl_easy \<Rightarrow> ruby_curl_easy) \<Rightarrow> string \<Rightarrow> rvalue \<Rightarrow>
   (ruby_curl_easy, rvalue) cmd" where
  "CURB_IMMED_PORT_SETTER set_attr msg v rbce =
     (if v = Qnil then (Inr v, set_attr 0 rbce)
      else (case NUM2INT v of
              Inl e \<Rightarrow> (Inl e, rbce)
            | Inr port \<Rightarrow>
                if port \<noteq> 0 \<and> and port 0xFFFF = port
                then (Inr v, set_attr (word_of_int port) rbce)
                else (Inl (Exc ''rb_eArgError'' (''Invalid '' @ msg @ '' '' @ show_int port @
                        '' (expected between 1 and 65535)'')), rbce)))"

definition CURB_IMMED_PORT_GETTER :: "(ruby_curl_easy \<Rightarrow> ushort) \<Rightarrow> (ruby_curl_easy, rvalue) cmd" where
  "CURB_IMMED_PORT_GETTER attr rbce =
     (Inr (if attr rbce = 0 then Qnil else RInt (uint (attr rbce))), rbce)"

section \<open>Calls into libcurl\<close>

definition curl_easy_setopt :: "string \<Rightarrow> curl_val \<Rightarrow> ruby_curl_easy \<Rightarrow> ruby_curl_easy" where
  "curl_easy_setopt opt v rbce = rbce\<lparr>curl_log := (opt, v) # curl_log rbce\<rparr>"

definition curl_opt :: "ruby_curl_easy \<Rightarrow> string \<Rightarrow> curl_val option" where
  "curl_opt rbce opt = map_of (curl_log rbce) opt"

text \<open>The build and libcurl as the code sees them: the \<open>HAVE_\<close> macros, the version, the
  error texts and the result of each \<open>curl_easy_setopt\<close>.\<close>

record curl_env =
  have_macro :: "string \<Rightarrow> bool"
  libcurl_version_num :: nat
  easy_strerror :: "int \<Rightarrow> string"
  multi_strerror :: "int \<Rightarrow> string"
  setopt_result :: "string \<Rightarrow> curl_val \<Rightarrow> int"

definition easy_error :: "curl_env \<Rightarrow> int \<Rightarrow> exc" where
  "easy_error env code =
     raise_curl_easy_error_exception (have_macro env) (libcurl_version_num env)
       (easy_strerror env) code"

definition multi_error :: "curl_env \<Rightarrow> int \<Rightarrow> exc" where
  "multi_error env code =
     raise_curl_multi_error_exception (have_macro env) (multi_strerror env) code"

text \<open>\<open>curb_easy_apply_thread_defaults\<close>.\<close>

definition curb_easy_apply_thread_defaults :: "curl_env \<Rightarrow> (ruby_curl_easy, unit) cmd" where
  "curb_easy_apply_thread_defaults env rbce =
     (if have_macro env ''HAVE_CURLOPT_NOSIGNAL'' then
        let ecode = setopt_result env ''CURLOPT_NOSIGNAL'' (VLong 1);
            rbce' = curl_easy_setopt ''CURLOPT_NOSIGNAL'' (VLong 1) rbce
        in if ecode \<noteq> 0 then (Inl (easy_error env ecode), rbce') else (Inr (), rbce')
      else (Inr (), rbce))"

section \<open>Initial values\<close>

text \<open>\<open>ruby_curl_easy_zero\<close>: \<open>CURL_HTTP_VERSION_NONE\<close> and
  \<open>CURL_IPRESOLVE_WHATEVER\<close> are 0. It leaves \<open>curl\<close>, \<open>multi\<close>,
  \<open>multi_attachment_generation\<close> and \<open>downloaded_body_bytes\<close> alone.\<close>

definition zero_opts :: "ruby_curl_easy \<Rightarrow> ruby_curl_easy" where
  "zero_opts rbce = rbce\<lparr>
     local_port := 0, local_port_range := 0, proxy_port := 0, proxy_type := - 1,
     http_auth_types := 0, proxy_auth_types := 0, max_redirs := - 1, timeout := 0,
     timeout_ms := 0, connect_timeout := 0, connect_timeout_ms := 0, dns_cache_timeout := 60,
     ftp_response_timeout := 0, low_speed_limit := 0, low_speed_time := 0,
     max_send_speed_large := 0, max_recv_speed_large := 0, ssl_version := - 1, use_ssl := - 1,
     ftp_filemethod := - 1, http_version := 0, resolve_mode := 0, network_policy := 0\<rparr>"

definition zero_flags :: "ruby_curl_easy \<Rightarrow> ruby_curl_easy" where
  "zero_flags rbce = rbce\<lparr>
     proxy_tunnel := False, fetch_file_time := False, ssl_verify_peer := True,
     ssl_verify_host := 2, header_in_body := False, use_netrc := False,
     follow_location := False, unrestricted_auth := False, verbose := False,
     multipart_form_post := False, enable_cookies := False, cookielist_engine_enabled := False,
     ignore_content_length := False, callback_active := False,
     unsafe_destination_blocked := False, allow_proxy := False, allow_unix_socket := False,
     forbid_reuse_set := False, native_active := 0, forbid_reuse := 0,
     callback_error := None, last_result := 0\<rparr>"

definition ruby_curl_easy_zero :: "ruby_curl_easy \<Rightarrow> ruby_curl_easy" where
  "ruby_curl_easy_zero rbce =
     zero_flags (zero_opts (rbce\<lparr>
       opts := Map.empty, err_buf := [], unsafe_destination_error := [], self := Qnil,
       curl_headers := [], curl_proxy_headers := [], curl_ftp_commands := [],
       curl_resolve := [], curl_connect_to := [], network_allowed_cidr_rules := None,
       network_allowed_hosts := None, network_allowed_cidr_rule_count := 0,
       network_allowed_host_count := 0\<rparr>))"

text \<open>\<open>ruby_curl_easy_allocate\<close>: the two fields that neither it nor
  \<open>ruby_curl_easy_zero\<close> assigns are parameters, being uninitialised memory.\<close>

definition ruby_curl_easy_allocate :: "ulong \<Rightarrow> int \<Rightarrow> ruby_curl_easy" where
  "ruby_curl_easy_allocate generation body_bytes =
     ruby_curl_easy_zero \<lparr>
       curl = None, err_buf = [], unsafe_destination_error = [], self = Qnil, opts = Map.empty,
       multi = None, callback_error = None, local_port = 0, local_port_range = 0,
       proxy_port = 0, proxy_type = 0, http_auth_types = 0, proxy_auth_types = 0,
       max_redirs = 0, timeout = 0, timeout_ms = 0, connect_timeout = 0,
       connect_timeout_ms = 0, dns_cache_timeout = 0, ftp_response_timeout = 0,
       low_speed_limit = 0, low_speed_time = 0, max_send_speed_large = 0,
       max_recv_speed_large = 0, ssl_version = 0, use_ssl = 0, ftp_filemethod = 0,
       http_version = 0, resolve_mode = 0, network_policy = 0, proxy_tunnel = False,
       fetch_file_time = False, ssl_verify_peer = False, ssl_verify_host = 0,
       header_in_body = False, use_netrc = False, follow_location = False,
       unrestricted_auth = False, verbose = False, multipart_form_post = False,
       enable_cookies = False, cookielist_engine_enabled = False,
       ignore_content_length = False, callback_active = False,
       unsafe_destination_blocked = False, allow_proxy = False, allow_unix_socket = False,
       forbid_reuse_set = False, native_active = 0, forbid_reuse = 0, curl_headers = [],
       curl_proxy_headers = [], curl_ftp_commands = [], curl_resolve = [],
       curl_connect_to = [], network_allowed_cidr_rules = None, network_allowed_hosts = None,
       multi_attachment_generation = generation, downloaded_body_bytes = body_bytes,
       network_allowed_cidr_rule_count = 0, network_allowed_host_count = 0, last_result = 0,
       curl_log = []\<rparr>"

section \<open>Laws\<close>

lemma rb_easy_get_set: "rb_easy_get k (rb_easy_set k' v rbce) = (if k = k' then v else rb_easy_get k rbce)"
  by (simp add: rb_easy_get_def rb_easy_set_def)

lemma rb_easy_get_del: "rb_easy_get k (rb_easy_del k' rbce) = (if k = k' then Qnil else rb_easy_get k rbce)"
  by (simp add: rb_easy_get_def rb_easy_del_def)

lemma curl_opt_setopt: "curl_opt (curl_easy_setopt o1 v rbce) o2 =
    (if o2 = o1 then Some v else curl_opt rbce o2)"
  by (simp add: curl_opt_def curl_easy_setopt_def)

lemma port_and_mask: "and (port :: int) 0xFFFF = port \<longleftrightarrow> 0 \<le> port \<and> port < 65536"
proof -
  have "and port 0xFFFF = take_bit 16 port"
    by (simp add: take_bit_eq_mask mask_eq_exp_minus_1)
  then show ?thesis by (simp add: take_bit_int_eq_self_iff)
qed

end
