(* ===== verification/Curb_Network.thy ===== *)
theory Curb_Network
  imports Curb_Easy_State
begin

text \<open>
  The network policy of \<open>ext/curb_easy.c\<close>: which addresses the \<open>:public\<close> policy refuses,
  the CIDR and host allowlists, and the two libcurl callbacks that enforce them
  (\<open>curb_public_network_opensocket\<close> for the address, \<open>curb_host_allowlist_prereq\<close> for the
  URL host). An address is the list of its bytes in network order. \<open>inet_pton\<close> and
  \<open>inet_ntop\<close> are the parameters \<open>pton4\<close>, \<open>pton6\<close>, \<open>ntop6\<close>; \<open>to_s\<close> is
  the user object's method.
\<close>

unbundle bit_operations_syntax

section \<open>Addresses\<close>

type_synonym ip = "uchar list"

definition curb_ipv4_is_unsafe_destination :: "ip \<Rightarrow> bool" where
  "curb_ipv4_is_unsafe_destination ip \<longleftrightarrow>
     (if ip ! 0 = 0 then True
      else if ip ! 0 = 10 then True
      else if ip ! 0 = 100 \<and> ip ! 1 AND 0xc0 = 0x40 then True
      else if ip ! 0 = 100 \<and> ip ! 1 = 100 \<and> ip ! 2 = 100 \<and> ip ! 3 = 200 then True
      else if ip ! 0 = 127 then True
      else if ip ! 0 = 169 \<and> ip ! 1 = 254 then True
      else if ip ! 0 = 172 \<and> 16 \<le> ip ! 1 \<and> ip ! 1 \<le> 31 then True
      else if ip ! 0 = 192 \<and> ip ! 1 = 168 then True
      else if ip ! 0 = 192 \<and> ip ! 1 = 0 \<and> ip ! 2 = 0 then True
      else if ip ! 0 = 192 \<and> ip ! 1 = 0 \<and> ip ! 2 = 2 then True
      else if ip ! 0 = 198 \<and> (ip ! 1 = 18 \<or> ip ! 1 = 19) then True
      else if ip ! 0 = 198 \<and> ip ! 1 = 51 \<and> ip ! 2 = 100 then True
      else if ip ! 0 = 203 \<and> ip ! 1 = 0 \<and> ip ! 2 = 113 then True
      else if 224 \<le> ip ! 0 then True
      else False)"

text \<open>The loop over the full bytes, then the masked comparison of the byte after them.\<close>

definition curb_ip_prefix_matches :: "ip \<Rightarrow> ip \<Rightarrow> nat \<Rightarrow> bool" where
  "curb_ip_prefix_matches ip prefix bits =
     (let full_bytes = bits div 8; remaining_bits = bits mod 8
      in list_all (\<lambda>i. ip ! i = prefix ! i) [0..<full_bytes] \<and>
         (remaining_bits \<noteq> 0 \<longrightarrow>
            (let mask = push_bit (8 - remaining_bits) 0xff :: uchar
             in ip ! full_bytes AND mask = prefix ! full_bytes AND mask)))"

definition curb_ipv6_prefix_matches :: "ip \<Rightarrow> ip \<Rightarrow> nat \<Rightarrow> bool" where
  "curb_ipv6_prefix_matches ip prefix bits = curb_ip_prefix_matches ip prefix bits"

definition curb_ipv6_is_all_zero :: "ip \<Rightarrow> bool" where
  "curb_ipv6_is_all_zero ip = list_all (\<lambda>i. ip ! i = 0) [0..<16]"

definition curb_ipv6_is_ipv4_mapped :: "ip \<Rightarrow> bool" where
  "curb_ipv6_is_ipv4_mapped ip =
     curb_ipv6_prefix_matches ip [0, 0, 0, 0, 0, 0, 0, 0, 0, 0, 0xff, 0xff] 96"

definition curb_ipv6_is_ipv4_compatible :: "ip \<Rightarrow> bool" where
  "curb_ipv6_is_ipv4_compatible ip =
     curb_ipv6_prefix_matches ip [0, 0, 0, 0, 0, 0, 0, 0, 0, 0, 0, 0] 96"

definition curb_ipv6_is_nat64_well_known :: "ip \<Rightarrow> bool" where
  "curb_ipv6_is_nat64_well_known ip =
     curb_ipv6_prefix_matches ip [0x00, 0x64, 0xff, 0x9b, 0, 0, 0, 0, 0, 0, 0, 0] 96"

definition curb_ipv6_is_nat64_local_use :: "ip \<Rightarrow> bool" where
  "curb_ipv6_is_nat64_local_use ip =
     curb_ipv6_prefix_matches ip [0x00, 0x64, 0xff, 0x9b, 0x00, 0x01] 48"

definition curb_ipv6_is_unsafe_destination :: "ip \<Rightarrow> bool" where
  "curb_ipv6_is_unsafe_destination ip \<longleftrightarrow>
     (if curb_ipv6_is_all_zero ip then True
      else if curb_ipv6_is_ipv4_mapped ip then curb_ipv4_is_unsafe_destination (drop 12 ip)
      else if curb_ipv6_is_nat64_well_known ip then curb_ipv4_is_unsafe_destination (drop 12 ip)
      else if curb_ipv6_is_nat64_local_use ip then True
      else if curb_ipv6_is_ipv4_compatible ip then True
      else if ip ! 0 = 0 \<and> ip ! 1 = 0 \<and> ip ! 14 = 0 \<and> ip ! 15 = 1 then True
      else if ip ! 0 AND 0xfe = 0xfc then True
      else if ip ! 0 = 0xfe \<and> ip ! 1 AND 0xc0 = 0x80 then True
      else if ip ! 0 = 0xfe \<and> ip ! 1 AND 0xc0 = 0xc0 then True
      else if ip ! 0 = 0xff then True
      else if curb_ipv6_prefix_matches ip [0x20, 0x01, 0x0d, 0xb8] 32 then True
      else if curb_ipv6_prefix_matches ip [0x20, 0x01, 0x00, 0x02, 0, 0] 48 then True
      else if ip ! 0 = 0x20 \<and> ip ! 1 = 0x02 then True
      else False)"

section \<open>CIDR rules\<close>

definition curb_clear_network_allowed_cidr_rules :: "ruby_curl_easy \<Rightarrow> ruby_curl_easy" where
  "curb_clear_network_allowed_cidr_rules rbce =
     (if network_allowed_cidr_rules rbce = None then rbce
      else rbce\<lparr>network_allowed_cidr_rules := None, network_allowed_cidr_rule_count := 0\<rparr>)"

definition curb_raise_invalid_cidr :: "string \<Rightarrow> 'a res" where
  "curb_raise_invalid_cidr cidr = Inl (Exc ''rb_eArgError'' (''invalid CIDR range: '' @ cidr))"

text \<open>The split of the text into the address and the prefix length: \<open>[addr]\<close>,
  \<open>[addr]/len\<close>, \<open>addr\<close> or \<open>addr/len\<close>. \<open>None\<close> where the code raises.\<close>

definition cidr_split :: "string \<Rightarrow> (string \<times> string option) option" where
  "cidr_split cidr =
     (case cidr of
        [] \<Rightarrow> None
      | c # cs \<Rightarrow>
          if c = CHR ''['' then
            (if CHR '']'' \<notin> set cs then None
             else (case tl (dropWhile (\<lambda>x. x \<noteq> CHR '']'') cs) of
                     [] \<Rightarrow> Some (takeWhile (\<lambda>x. x \<noteq> CHR '']'') cs, None)
                   | d # ds \<Rightarrow>
                       if d = CHR ''/'' then Some (takeWhile (\<lambda>x. x \<noteq> CHR '']'') cs, Some ds)
                       else None))
          else if CHR ''/'' \<in> set cidr then
            Some (takeWhile (\<lambda>x. x \<noteq> CHR ''/'') cidr, Some (tl (dropWhile (\<lambda>x. x \<noteq> CHR ''/'') cidr)))
          else Some (cidr, None))"

text \<open>\<open>strtol\<close> on the prefix text, and its checks.\<close>

definition cidr_prefix :: "nat \<Rightarrow> string option \<Rightarrow> int option" where
  "cidr_prefix max_prefix prefix_str =
     (case prefix_str of
        None \<Rightarrow> Some (int max_prefix)
      | Some [] \<Rightarrow> None
      | Some s \<Rightarrow>
          (case strtol10 s of (prefix, endptr, erange) \<Rightarrow>
             if erange \<or> endptr \<noteq> [] \<or> prefix < 0 \<or> int max_prefix < prefix then None
             else Some prefix))"

text \<open>The family: its code, the longest prefix and the address bytes, zero filled.\<close>

definition cidr_family ::
  "(string \<Rightarrow> ip option) \<Rightarrow> (string \<Rightarrow> ip option) \<Rightarrow> string \<Rightarrow> (uchar \<times> nat \<times> ip) option" where
  "cidr_family pton4 pton6 address =
     (case pton4 address of
        Some parsed \<Rightarrow> Some (4, 32, take 4 parsed @ replicate 12 0)
      | None \<Rightarrow> (case pton6 address of
                   Some parsed \<Rightarrow> Some (6, 128, take 16 parsed)
                 | None \<Rightarrow> None))"

definition curb_parse_cidr_rule ::
  "(string \<Rightarrow> ip option) \<Rightarrow> (string \<Rightarrow> ip option) \<Rightarrow> string \<Rightarrow> curb_cidr_rule res" where
  "curb_parse_cidr_rule pton4 pton6 cidr =
     (case cidr_split cidr of
        None \<Rightarrow> curb_raise_invalid_cidr cidr
      | Some (address, prefix_str) \<Rightarrow>
          (case cidr_family pton4 pton6 address of
             None \<Rightarrow> curb_raise_invalid_cidr cidr
           | Some (family, max_prefix, bytes) \<Rightarrow>
               (case cidr_prefix max_prefix prefix_str of
                  None \<Rightarrow> curb_raise_invalid_cidr cidr
                | Some prefix \<Rightarrow>
                    Inr \<lparr>cr_family = family, cr_prefix_bits = word_of_int prefix,
                         cr_address = bytes\<rparr>)))"

definition curb_array_includes_string :: "string list \<Rightarrow> string \<Rightarrow> bool" where
  "curb_array_includes_string list value = list_ex (\<lambda>x. x = value) list"

text \<open>\<open>rb_check_array_type\<close>, a single value being a list of one.\<close>

definition list_argument :: "rvalue \<Rightarrow> rvalue list" where
  "list_argument v = (case v of RArr xs \<Rightarrow> xs | _ \<Rightarrow> [v])"

definition cidr_item ::
  "(string \<Rightarrow> ip option) \<Rightarrow> (string \<Rightarrow> ip option) \<Rightarrow> (rvalue \<Rightarrow> string res) \<Rightarrow>
   rvalue \<Rightarrow> string res" where
  "cidr_item pton4 pton6 to_s item =
     (case rb_obj_as_string to_s item of
        Inl e \<Rightarrow> Inl e
      | Inr cidr \<Rightarrow>
          (case StringValueCStr (RStr cidr) of
             Inl e \<Rightarrow> Inl e
           | Inr s \<Rightarrow>
               (case curb_parse_cidr_rule pton4 pton6 s of Inl e \<Rightarrow> Inl e | Inr _ \<Rightarrow> Inr cidr)))"

fun normalize_cidr_items ::
  "(string \<Rightarrow> ip option) \<Rightarrow> (string \<Rightarrow> ip option) \<Rightarrow> (rvalue \<Rightarrow> string res) \<Rightarrow>
   string list \<Rightarrow> rvalue list \<Rightarrow> string list res" where
  "normalize_cidr_items pton4 pton6 to_s normalized [] = Inr normalized"
| "normalize_cidr_items pton4 pton6 to_s normalized (item # items) =
     (case cidr_item pton4 pton6 to_s item of
        Inl e \<Rightarrow> Inl e
      | Inr cidr \<Rightarrow>
          normalize_cidr_items pton4 pton6 to_s
            (if curb_array_includes_string normalized cidr then normalized
             else normalized @ [cidr]) items)"

definition curb_normalize_cidr_list ::
  "(string \<Rightarrow> ip option) \<Rightarrow> (string \<Rightarrow> ip option) \<Rightarrow> (rvalue \<Rightarrow> string res) \<Rightarrow>
   rvalue \<Rightarrow> string list option res" where
  "curb_normalize_cidr_list pton4 pton6 to_s cidrs =
     (if cidrs = Qnil then Inr None
      else (case normalize_cidr_items pton4 pton6 to_s [] (list_argument cidrs) of
              Inl e \<Rightarrow> Inl e | Inr l \<Rightarrow> Inr (Some l)))"

text \<open>\<open>curb_dup_string_array\<close>, and the array it copies as the Ruby value stored in
  \<open>opts\<close>.\<close>

definition curb_dup_string_array :: "string list option \<Rightarrow> rvalue" where
  "curb_dup_string_array list = (case list of None \<Rightarrow> Qnil | Some l \<Rightarrow> RArr (map RStr l))"

section \<open>Hosts\<close>

definition curb_ascii_downcase :: "char \<Rightarrow> char" where
  "curb_ascii_downcase c =
     (let n = of_char c :: nat in if 65 \<le> n \<and> n \<le> 90 then char_of (n - 65 + 97) else c)"

definition host_blank :: "char \<Rightarrow> bool" where
  "host_blank c \<longleftrightarrow> c = CHR '' '' \<or> c = CHR 0x09 \<or> c = CHR 0x0D \<or> c = CHR 0x0A"

definition skip_front :: "(char \<Rightarrow> bool) \<Rightarrow> string \<Rightarrow> string" where
  "skip_front P s = dropWhile P s"

definition skip_back :: "(char \<Rightarrow> bool) \<Rightarrow> string \<Rightarrow> string" where
  "skip_back P s = rev (dropWhile P (rev s))"

text \<open>The range between \<open>start\<close> and \<open>end\<close> is the string between them; \<open>Inr None\<close> is
  the \<open>NULL\<close> returned when errors are not raised.\<close>

definition blank_host_error :: "bool \<Rightarrow> string option res" where
  "blank_host_error raise_errors =
     (if \<not> raise_errors then Inr None
      else Inl (Exc ''rb_eArgError'' ''allowed_hosts cannot include blank entries''))"

definition curb_normalized_host_from_range :: "string \<Rightarrow> bool \<Rightarrow> string option res" where
  "curb_normalized_host_from_range rng raise_errors =
     (let r1 = skip_front host_blank rng;
          r2 = skip_back host_blank r1;
          r3 = skip_back (\<lambda>c. c = CHR ''.'') r2
      in if r3 = [] then blank_host_error raise_errors
         else Inr (Some (map curb_ascii_downcase r3)))"

text \<open>\<open>strstr\<close>: the index of the first occurrence.\<close>

fun strstr :: "string \<Rightarrow> string \<Rightarrow> nat option" where
  "strstr hay needle =
     (if take (length needle) hay = needle then Some 0
      else (case hay of
              [] \<Rightarrow> None
            | _ # rest \<Rightarrow> (case strstr rest needle of None \<Rightarrow> None | Some i \<Rightarrow> Some (Suc i))))"

declare strstr.simps [simp del]

definition after_last_at :: "string \<Rightarrow> string" where
  "after_last_at s = (if CHR ''@'' \<in> set s then rev (takeWhile (\<lambda>c. c \<noteq> CHR ''@'') (rev s)) else s)"

definition url_delim :: "char \<Rightarrow> bool" where
  "url_delim c \<longleftrightarrow> c = CHR ''/'' \<or> c = CHR ''?'' \<or> c = CHR ''#''"

definition curb_normalize_host_value_impl :: "string \<Rightarrow> bool \<Rightarrow> string option res" where
  "curb_normalize_host_value_impl value raise_errors =
     (let text = skip_front host_blank value;
          rng = skip_back host_blank text
      in if rng = [] then blank_host_error raise_errors
         else
           let start = (case strstr text ''://'' of
                          Some i \<Rightarrow> if i < length rng then drop (i + 3) rng else rng
                        | None \<Rightarrow> rng);
               authority = takeWhile (\<lambda>c. \<not> url_delim c) start;
               host = after_last_at authority
           in if host \<noteq> [] \<and> hd host = CHR ''['' then
                (if CHR '']'' \<notin> set (tl host)
                 then (if \<not> raise_errors then Inr None
                       else Inl (Exc ''rb_eArgError'' (''invalid allowed host: '' @ value)))
                 else curb_normalized_host_from_range
                        (takeWhile (\<lambda>c. c \<noteq> CHR '']'') (tl host)) raise_errors)
              else curb_normalized_host_from_range
                     (if length (filter (\<lambda>c. c = CHR '':'') host) \<le> 1
                      then takeWhile (\<lambda>c. c \<noteq> CHR '':'') host else host) raise_errors)"

definition curb_normalize_host_value :: "string \<Rightarrow> string option res" where
  "curb_normalize_host_value value = curb_normalize_host_value_impl value True"

definition curb_try_normalize_host_value :: "string \<Rightarrow> string option res" where
  "curb_try_normalize_host_value value = curb_normalize_host_value_impl value False"

definition host_item :: "(rvalue \<Rightarrow> string res) \<Rightarrow> rvalue \<Rightarrow> string res" where
  "host_item to_s item =
     (case rb_obj_as_string to_s item of
        Inl e \<Rightarrow> Inl e
      | Inr v \<Rightarrow>
          (case StringValueCStr (RStr v) of
             Inl e \<Rightarrow> Inl e
           | Inr s \<Rightarrow>
               (case curb_normalize_host_value s of
                  Inl e \<Rightarrow> Inl e
                | Inr None \<Rightarrow> Inl (Exc ''rb_eArgError'' ''NULL pointer given'')
                | Inr (Some host) \<Rightarrow> Inr host)))"

fun normalize_host_items ::
  "(rvalue \<Rightarrow> string res) \<Rightarrow> string list \<Rightarrow> rvalue list \<Rightarrow> string list res" where
  "normalize_host_items to_s normalized [] = Inr normalized"
| "normalize_host_items to_s normalized (item # items) =
     (case host_item to_s item of
        Inl e \<Rightarrow> Inl e
      | Inr host \<Rightarrow>
          normalize_host_items to_s
            (if curb_array_includes_string normalized host then normalized
             else normalized @ [host]) items)"

definition curb_normalize_host_list ::
  "(rvalue \<Rightarrow> string res) \<Rightarrow> rvalue \<Rightarrow> string list option res" where
  "curb_normalize_host_list to_s hosts =
     (if hosts = Qnil then Inr None
      else (case normalize_host_items to_s [] (list_argument hosts) of
              Inl e \<Rightarrow> Inl e | Inr l \<Rightarrow> Inr (Some l)))"

definition curb_clear_network_allowed_hosts :: "ruby_curl_easy \<Rightarrow> ruby_curl_easy" where
  "curb_clear_network_allowed_hosts rbce =
     (if network_allowed_hosts rbce = None then rbce
      else rbce\<lparr>network_allowed_hosts := None, network_allowed_host_count := 0\<rparr>)"

text \<open>The elements of a stored array, as C strings.\<close>

fun map_res :: "('a \<Rightarrow> 'b res) \<Rightarrow> 'a list \<Rightarrow> 'b list res" where
  "map_res f [] = Inr []"
| "map_res f (x # xs) =
     (case f x of
        Inl e \<Rightarrow> Inl e
      | Inr y \<Rightarrow> (case map_res f xs of Inl e \<Rightarrow> Inl e | Inr ys \<Rightarrow> Inr (y # ys)))"

definition stored_array :: "rvalue \<Rightarrow> rvalue list" where
  "stored_array v = (case v of RArr xs \<Rightarrow> xs | _ \<Rightarrow> [])"

definition curb_prepare_network_allowed_hosts :: "(ruby_curl_easy, unit) cmd" where
  "curb_prepare_network_allowed_hosts rbce =
     (let rbce1 = curb_clear_network_allowed_hosts rbce;
          hosts = rb_easy_get ''allowed_hosts'' rbce1
      in if hosts = Qnil then (Inr (), rbce1)
         else if stored_array hosts = [] then (Inr (), rbce1)
         else (case map_res StringValueCStr (stored_array hosts) of
                 Inl e \<Rightarrow> (Inl e, rbce1)
               | Inr rules \<Rightarrow>
                   (Inr (), rbce1\<lparr>network_allowed_hosts := Some rules,
                                  network_allowed_host_count := length rules\<rparr>)))"

definition curb_host_rules_match :: "ruby_curl_easy \<Rightarrow> string \<Rightarrow> bool" where
  "curb_host_rules_match rbce host =
     (network_allowed_host_count rbce = 0 \<or>
      list_ex (\<lambda>rule. host = rule)
        (take (network_allowed_host_count rbce)
           (case network_allowed_hosts rbce of Some l \<Rightarrow> l | None \<Rightarrow> [])))"

definition cidr_value ::
  "(string \<Rightarrow> ip option) \<Rightarrow> (string \<Rightarrow> ip option) \<Rightarrow> rvalue \<Rightarrow> curb_cidr_rule res" where
  "cidr_value pton4 pton6 v =
     (case StringValueCStr v of Inl e \<Rightarrow> Inl e | Inr s \<Rightarrow> curb_parse_cidr_rule pton4 pton6 s)"

definition curb_prepare_network_allowed_cidr_rules ::
  "(string \<Rightarrow> ip option) \<Rightarrow> (string \<Rightarrow> ip option) \<Rightarrow> (ruby_curl_easy, unit) cmd" where
  "curb_prepare_network_allowed_cidr_rules pton4 pton6 rbce =
     (let rbce1 = curb_clear_network_allowed_cidr_rules rbce;
          cidrs = rb_easy_get ''allowed_cidrs'' rbce1
      in if cidrs = Qnil then (Inr (), rbce1)
         else if stored_array cidrs = [] then (Inr (), rbce1)
         else (case map_res (cidr_value pton4 pton6) (stored_array cidrs) of
                 Inl e \<Rightarrow> (Inl e, rbce1)
               | Inr rules \<Rightarrow>
                   (Inr (), rbce1\<lparr>network_allowed_cidr_rules := Some rules,
                                  network_allowed_cidr_rule_count := length rules\<rparr>)))"

definition curb_cidr_rules_match :: "ruby_curl_easy \<Rightarrow> uchar \<Rightarrow> ip \<Rightarrow> bool" where
  "curb_cidr_rules_match rbce family ip =
     (network_allowed_cidr_rule_count rbce = 0 \<or>
      list_ex (\<lambda>rule. cr_family rule = family \<and>
                 curb_ip_prefix_matches ip (cr_address rule) (unat (cr_prefix_bits rule)))
        (take (network_allowed_cidr_rule_count rbce)
           (case network_allowed_cidr_rules rbce of Some l \<Rightarrow> l | None \<Rightarrow> [])))"

section \<open>Reporting a blocked destination\<close>

definition curb_format_ipv4 :: "ip \<Rightarrow> string" where
  "curb_format_ipv4 ip =
     show_nat (unat (ip ! 0)) @ ''.'' @ show_nat (unat (ip ! 1)) @ ''.'' @
     show_nat (unat (ip ! 2)) @ ''.'' @ show_nat (unat (ip ! 3))"

definition hex_digit :: "nat \<Rightarrow> char" where
  "hex_digit d = (if d < 10 then char_of (48 + d) else char_of (87 + d))"

definition hex2 :: "uchar \<Rightarrow> string" where
  "hex2 b = [hex_digit (unat b div 16), hex_digit (unat b mod 16)]"

text \<open>\<open>inet_ntop\<close>, or the eight groups of hexadecimal digits when it fails.\<close>

definition curb_format_ipv6 :: "(ip \<Rightarrow> string option) \<Rightarrow> ip \<Rightarrow> string" where
  "curb_format_ipv6 ntop6 ip =
     (case ntop6 ip of
        Some s \<Rightarrow> s
      | None \<Rightarrow>
          hex2 (ip ! 0) @ hex2 (ip ! 1) @ '':'' @ hex2 (ip ! 2) @ hex2 (ip ! 3) @ '':'' @
          hex2 (ip ! 4) @ hex2 (ip ! 5) @ '':'' @ hex2 (ip ! 6) @ hex2 (ip ! 7) @ '':'' @
          hex2 (ip ! 8) @ hex2 (ip ! 9) @ '':'' @ hex2 (ip ! 10) @ hex2 (ip ! 11) @ '':'' @
          hex2 (ip ! 12) @ hex2 (ip ! 13) @ '':'' @ hex2 (ip ! 14) @ hex2 (ip ! 15))"

text \<open>\<open>snprintf\<close> into a buffer of \<open>CURL_ERROR_SIZE\<close> (256) bytes.\<close>

definition snprintf_error :: "string \<Rightarrow> string" where
  "snprintf_error s = take 255 s"

definition curb_store_destination_error ::
  "string \<Rightarrow> string option \<Rightarrow> ruby_curl_easy \<Rightarrow> ruby_curl_easy" where
  "curb_store_destination_error address reason rbce =
     (let msg = (case reason of
                   Some r \<Rightarrow>
                     if r \<noteq> [] then
                       ''blocked destination address '' @ address @ '' '' @ r @
                       '' by public network policy''
                     else ''blocked unsafe destination address '' @ address @
                       '' by public network policy''
                 | None \<Rightarrow> ''blocked unsafe destination address '' @ address @
                     '' by public network policy'')
      in rbce\<lparr>unsafe_destination_blocked := True,
              unsafe_destination_error := snprintf_error msg,
              err_buf := snprintf_error (snprintf_error msg)\<rparr>)"

definition curb_store_unsafe_destination_error ::
  "string \<Rightarrow> ruby_curl_easy \<Rightarrow> ruby_curl_easy" where
  "curb_store_unsafe_destination_error address rbce =
     curb_store_destination_error address None rbce"

definition curb_store_host_allowlist_error :: "string \<Rightarrow> ruby_curl_easy \<Rightarrow> ruby_curl_easy" where
  "curb_store_host_allowlist_error host rbce =
     (let msg = ''blocked URL host '' @ host @ '' by safe mode host allowlist''
      in rbce\<lparr>unsafe_destination_blocked := True,
              unsafe_destination_error := snprintf_error msg,
              err_buf := snprintf_error (snprintf_error msg)\<rparr>)"

section \<open>The libcurl callbacks\<close>

text \<open>\<open>CURL_PREREQFUNC_OK\<close> is 0 and \<open>CURL_PREREQFUNC_ABORT\<close> is 1. The parameter is the
  result of \<open>curl_easy_getinfo(CURLINFO_EFFECTIVE_URL)\<close>.\<close>

definition curb_host_allowlist_prereq ::
  "int \<times> string option \<Rightarrow> ruby_curl_easy \<Rightarrow> int \<times> ruby_curl_easy" where
  "curb_host_allowlist_prereq getinfo rbce =
     (if network_allowed_host_count rbce = 0 then (0, rbce)
      else (case getinfo of (rc, effective_url) \<Rightarrow>
        if rc \<noteq> 0 \<or> effective_url = None
        then (1, curb_store_host_allowlist_error ''unknown'' rbce)
        else (case curb_try_normalize_host_value (the effective_url) of
                Inr (Some host) \<Rightarrow>
                  if \<not> curb_host_rules_match rbce host
                  then (1, curb_store_host_allowlist_error host rbce)
                  else (0, rbce)
              | _ \<Rightarrow> (1, curb_store_host_allowlist_error ''unknown'' rbce))))"

datatype address_family = AF_INET | AF_INET6 | AF_OTHER int

text \<open>\<open>struct curl_sockaddr\<close>; \<open>sin_addr\<close> are the address bytes at the offset of the family's
  structure, of which \<open>sockaddr_in\<close> has 16 bytes and \<open>sockaddr_in6\<close> 28.\<close>

record curl_sockaddr =
  sa_family :: address_family
  sa_socktype :: int
  sa_protocol :: int
  sa_addrlen :: nat
  sin_addr :: ip

abbreviation CURL_SOCKET_BAD :: int where
  "CURL_SOCKET_BAD \<equiv> - 1"

definition opensocket_check_ipv4 :: "curl_sockaddr \<Rightarrow> bool" where
  "opensocket_check_ipv4 a \<longleftrightarrow> sa_family a = AF_INET \<and> 16 \<le> sa_addrlen a"

definition opensocket_check_ipv6 :: "curl_sockaddr \<Rightarrow> bool" where
  "opensocket_check_ipv6 a \<longleftrightarrow> sa_family a = AF_INET6 \<and> 28 \<le> sa_addrlen a"

definition curb_public_network_opensocket ::
  "(ip \<Rightarrow> string option) \<Rightarrow> (curl_sockaddr \<Rightarrow> int) \<Rightarrow> curl_sockaddr option \<Rightarrow>
   ruby_curl_easy \<Rightarrow> int \<times> ruby_curl_easy" where
  "curb_public_network_opensocket ntop6 socket address rbce =
     (case address of
        None \<Rightarrow> (CURL_SOCKET_BAD, curb_store_unsafe_destination_error ''unknown'' rbce)
      | Some a \<Rightarrow>
          if opensocket_check_ipv4 a \<and> curb_ipv4_is_unsafe_destination (sin_addr a) then
            (CURL_SOCKET_BAD,
             curb_store_unsafe_destination_error (curb_format_ipv4 (sin_addr a)) rbce)
          else if opensocket_check_ipv4 a \<and> \<not> curb_cidr_rules_match rbce 4 (sin_addr a) then
            (CURL_SOCKET_BAD,
             curb_store_destination_error (curb_format_ipv4 (sin_addr a))
               (Some ''outside allowed CIDR ranges'') rbce)
          else if opensocket_check_ipv6 a \<and> curb_ipv6_is_unsafe_destination (sin_addr a) then
            (CURL_SOCKET_BAD,
             curb_store_unsafe_destination_error (curb_format_ipv6 ntop6 (sin_addr a)) rbce)
          else if opensocket_check_ipv6 a \<and> \<not> curb_cidr_rules_match rbce 6 (sin_addr a) then
            (CURL_SOCKET_BAD,
             curb_store_destination_error (curb_format_ipv6 ntop6 (sin_addr a))
               (Some ''outside allowed CIDR ranges'') rbce)
          else if \<not> opensocket_check_ipv4 a \<and> \<not> opensocket_check_ipv6 a \<and>
                  0 < network_allowed_cidr_rule_count rbce then
            (CURL_SOCKET_BAD,
             curb_store_destination_error ''unknown'' (Some ''outside allowed CIDR ranges'') rbce)
          else (socket a, rbce))"

section \<open>The attributes\<close>

definition ruby_curl_easy_allowed_cidrs_set ::
  "(string \<Rightarrow> ip option) \<Rightarrow> (string \<Rightarrow> ip option) \<Rightarrow> (rvalue \<Rightarrow> string res) \<Rightarrow>
   rvalue \<Rightarrow> (ruby_curl_easy, rvalue) cmd" where
  "ruby_curl_easy_allowed_cidrs_set pton4 pton6 to_s cidrs =
     bind (lift_res (curb_normalize_cidr_list pton4 pton6 to_s cidrs)) (\<lambda>normalized.
     bind (modify (rb_easy_set ''allowed_cidrs'' (curb_dup_string_array normalized))) (\<lambda>_.
     bind (gets network_policy) (\<lambda>policy.
     bind (if policy = 1 then curb_prepare_network_allowed_cidr_rules pton4 pton6
           else modify curb_clear_network_allowed_cidr_rules) (\<lambda>_.
     ret (curb_dup_string_array normalized)))))"

definition ruby_curl_easy_allowed_cidrs_get :: "(ruby_curl_easy, rvalue) cmd" where
  "ruby_curl_easy_allowed_cidrs_get = gets (rb_easy_get ''allowed_cidrs'')"

definition ruby_curl_easy_allowed_hosts_set ::
  "(rvalue \<Rightarrow> string res) \<Rightarrow> rvalue \<Rightarrow> (ruby_curl_easy, rvalue) cmd" where
  "ruby_curl_easy_allowed_hosts_set to_s hosts =
     bind (lift_res (curb_normalize_host_list to_s hosts)) (\<lambda>normalized.
     bind (modify (rb_easy_set ''allowed_hosts'' (curb_dup_string_array normalized))) (\<lambda>_.
     bind curb_prepare_network_allowed_hosts (\<lambda>_.
     ret (curb_dup_string_array normalized))))"

definition ruby_curl_easy_allowed_hosts_get :: "(ruby_curl_easy, rvalue) cmd" where
  "ruby_curl_easy_allowed_hosts_get = gets (rb_easy_get ''allowed_hosts'')"

definition have_opensocket_policy :: "curl_env \<Rightarrow> bool" where
  "have_opensocket_policy env \<longleftrightarrow>
     have_macro env ''HAVE_CURLOPT_OPENSOCKETFUNCTION'' \<and>
     have_macro env ''HAVE_CURLOPT_OPENSOCKETDATA''"

definition ruby_curl_easy_network_policy_get :: "(ruby_curl_easy, rvalue) cmd" where
  "ruby_curl_easy_network_policy_get rbce =
     (Inr (RSym (if network_policy rbce = 1 then ''public'' else ''none'')), rbce)"

definition ruby_curl_easy_network_policy_set :: "curl_env \<Rightarrow> rvalue \<Rightarrow> (ruby_curl_easy, rvalue) cmd" where
  "ruby_curl_easy_network_policy_set env policy rbce =
     (case policy of
        Qnil \<Rightarrow> (Inr (RSym ''none''), rbce\<lparr>network_policy := 0\<rparr>)
      | RSym name \<Rightarrow>
          if name = ''none'' then
            (Inr policy, rbce\<lparr>network_policy := 0, allow_proxy := False\<rparr>)
          else if name = ''public'' then
            (if \<not> have_opensocket_policy env then
               (Inl (Exc ''rb_eNotImpError''
                  ''network_policy=:public requires CURLOPT_OPENSOCKETFUNCTION support''), rbce)
             else (Inr policy, rbce\<lparr>network_policy := 1, allow_proxy := False\<rparr>))
          else (Inl (Exc ''rb_eArgError'' ''network_policy must be one of :none, :public''), rbce)
      | _ \<Rightarrow> (Inl (Exc ''rb_eTypeError'' ''network_policy must be a Symbol''), rbce))"

definition ruby_curl_easy_unsafe_destination_error_get :: "(ruby_curl_easy, rvalue) cmd" where
  "ruby_curl_easy_unsafe_destination_error_get rbce =
     (Inr (if unsafe_destination_blocked rbce \<and> unsafe_destination_error rbce \<noteq> []
           then RStr (unsafe_destination_error rbce) else Qnil), rbce)"

end
