(* ===== verification/Curb_Network_Facts.thy ===== *)
theory Curb_Network_Facts
  imports Curb_Network
begin

text \<open>
  What the network policy guarantees: the prefix comparison is equality of leading bits, the
  IPv4 check is membership in a list of CIDR blocks, an IPv4 address embedded in an IPv6
  address gets the same verdict, a socket opened under the policy leads to a permitted address
  only, the allowlists contain what was written into them, and a URL's host is found whatever
  surrounds it.
\<close>

unbundle bit_operations_syntax

section \<open>Leading bits\<close>

definition byte_bits :: "uchar \<Rightarrow> bool list" where
  "byte_bits b = map (\<lambda>i. bit b (7 - i)) [0..<8]"

definition ip_bits :: "ip \<Rightarrow> bool list" where
  "ip_bits ip = concat (map byte_bits ip)"

definition in_block :: "ip \<Rightarrow> ip \<times> nat \<Rightarrow> bool" where
  "in_block ip blk = (take (snd blk) (ip_bits ip) = take (snd blk) (ip_bits (fst blk)))"

lemma length_byte_bits [simp]: "length (byte_bits b) = 8"
  by (simp add: byte_bits_def)

lemma byte_eq_iff: "(a::uchar) = b \<longleftrightarrow> (\<forall>i < 8. bit a i = bit b i)"
  by (auto intro: bit_word_eqI)

lemma leading_index:
  fixes r :: nat
  assumes "r \<le> 8"
  shows "(\<forall>i < r. P (7 - i)) \<longleftrightarrow> (\<forall>j < 8. 8 - r \<le> j \<longrightarrow> P j)"
proof
  assume all: "\<forall>i < r. P (7 - i)"
  show "\<forall>j < 8. 8 - r \<le> j \<longrightarrow> P j"
  proof (intro allI impI)
    fix j :: nat assume "j < 8" and "8 - r \<le> j"
    then show "P j" using all [rule_format, of "7 - j"] assms by simp
  qed
next
  assume all: "\<forall>j < 8. 8 - r \<le> j \<longrightarrow> P j"
  show "\<forall>i < r. P (7 - i)"
  proof (intro allI impI)
    fix i assume "i < r"
    then show "P (7 - i)" using all [rule_format, of "7 - i"] assms by simp
  qed
qed

lemma take_byte_bits_eq:
  assumes "r \<le> 8"
  shows "take r (byte_bits a) = take r (byte_bits b) \<longleftrightarrow> (\<forall>i < 8. 8 - r \<le> i \<longrightarrow> bit a i = bit b i)"
proof -
  have "take r (byte_bits a) = take r (byte_bits b) \<longleftrightarrow> (\<forall>i < r. bit a (7 - i) = bit b (7 - i))"
    using assms by (auto simp: byte_bits_def take_map list_eq_iff_nth_eq)
  then show ?thesis
    unfolding leading_index [OF assms, of "\<lambda>i. bit a i = bit b i"] .
qed

lemma byte_bits_inj: "byte_bits a = byte_bits b \<longleftrightarrow> a = b"
  using take_byte_bits_eq [of 8 a b] by (simp add: byte_eq_iff)

lemma masked_eq_iff:
  assumes "r < 8"
  shows "(a::uchar) AND push_bit (8 - r) 0xff = b AND push_bit (8 - r) 0xff \<longleftrightarrow>
         take r (byte_bits a) = take r (byte_bits b)"
proof -
  have ff: "(0xff::uchar) = mask 8" by (simp add: mask_eq_exp_minus_1)
  have "a AND push_bit (8 - r) 0xff = b AND push_bit (8 - r) 0xff \<longleftrightarrow>
        (\<forall>i < 8. 8 - r \<le> i \<longrightarrow> bit a i = bit b i)"
    unfolding byte_eq_iff ff by (auto simp: bit_simps)
  also have "\<dots> \<longleftrightarrow> take r (byte_bits a) = take r (byte_bits b)"
    using assms by (simp add: take_byte_bits_eq)
  finally show ?thesis .
qed

lemma prefix_step:
  "curb_ip_prefix_matches (a # ip) (b # p) (n + 8) \<longleftrightarrow> a = b \<and> curb_ip_prefix_matches ip p n"
proof -
  have "[0..<Suc (n div 8)] = 0 # map Suc [0..<n div 8]"
    by (metis map_Suc_upt upt_conv_Cons zero_less_Suc)
  moreover have "(n + 8) div 8 = Suc (n div 8)" and "(n + 8) mod 8 = n mod 8" by simp_all
  ultimately show ?thesis
    unfolding curb_ip_prefix_matches_def Let_def
    by (simp del: upt_Suc add: list.pred_map comp_def)
qed

lemma prefix_base:
  assumes "n < 8"
  shows "curb_ip_prefix_matches (a # ip) (b # p) n \<longleftrightarrow> take n (byte_bits a) = take n (byte_bits b)"
  using assms masked_eq_iff [OF assms, of a b]
  by (cases "n = 0") (simp_all add: curb_ip_prefix_matches_def Let_def)

lemma prefix_zero: "curb_ip_prefix_matches ip p 0"
  by (simp add: curb_ip_prefix_matches_def)

lemma prefix_matches_in_block:
  "n \<le> 8 * length ip \<Longrightarrow> n \<le> 8 * length p \<Longrightarrow>
   curb_ip_prefix_matches ip p n \<longleftrightarrow> in_block ip (p, n)"
proof (induction ip arbitrary: p n)
  case Nil
  then show ?case by (simp add: prefix_zero in_block_def)
next
  case (Cons a ip)
  show ?case
  proof (cases p)
    case Nil
    then show ?thesis using Cons.prems by (simp add: prefix_zero in_block_def)
  next
    case p: (Cons b q)
    show ?thesis
    proof (cases "n < 8")
      case True
      then show ?thesis
        by (simp add: p prefix_base in_block_def ip_bits_def)
    next
      case False
      then obtain m where m: "n = m + 8" by (metis add.commute le_Suc_ex not_less)
      then have "curb_ip_prefix_matches ip q m \<longleftrightarrow> in_block ip (q, m)"
        using Cons.IH [of m q] Cons.prems by (simp add: p)
      then show ?thesis
        by (simp add: m p prefix_step in_block_def ip_bits_def byte_bits_inj [symmetric]
            append_eq_append_conv)
    qed
  qed
qed

section \<open>The unsafe IPv4 blocks\<close>

definition unsafe_ipv4_blocks :: "(ip \<times> nat) list" where
  "unsafe_ipv4_blocks =
     [([0, 0, 0, 0], 8), ([10, 0, 0, 0], 8), ([100, 64, 0, 0], 10), ([127, 0, 0, 0], 8),
      ([169, 254, 0, 0], 16), ([172, 16, 0, 0], 12), ([192, 168, 0, 0], 16),
      ([192, 0, 0, 0], 24), ([192, 0, 2, 0], 24), ([198, 18, 0, 0], 15),
      ([198, 51, 100, 0], 24), ([203, 0, 113, 0], 24), ([224, 0, 0, 0], 3)]"

lemma masked_eq_div:
  assumes "k \<le> 8"
  shows "(a::uchar) AND push_bit k 0xff = p AND push_bit k 0xff \<longleftrightarrow>
         unat a div 2 ^ k = unat p div 2 ^ k"
proof -
  have ff: "(0xff::uchar) = mask 8" by (simp add: mask_eq_exp_minus_1)
  have "a AND push_bit k 0xff = p AND push_bit k 0xff \<longleftrightarrow>
        (\<forall>i < 8. k \<le> i \<longrightarrow> bit a i = bit p i)"
    unfolding byte_eq_iff ff by (auto simp: bit_simps)
  also have "\<dots> \<longleftrightarrow> drop_bit k a = drop_bit k p"
  proof
    assume *: "\<forall>i < 8. k \<le> i \<longrightarrow> bit a i = bit p i"
    show "drop_bit k a = drop_bit k p"
    proof (rule bit_word_eqI)
      fix n :: nat
      show "bit (drop_bit k a) n \<longleftrightarrow> bit (drop_bit k p) n"
        using * [rule_format, of "k + n"] bit_imp_le_length [of a "k + n"]
          bit_imp_le_length [of p "k + n"]
        by (auto simp: bit_simps)
    qed
  next
    assume *: "drop_bit k a = drop_bit k p"
    show "\<forall>i < 8. k \<le> i \<longrightarrow> bit a i = bit p i"
    proof (intro allI impI)
      fix i assume "k \<le> i"
      moreover have "bit (drop_bit k a) (i - k) = bit (drop_bit k p) (i - k)" using * by simp
      ultimately show "bit a i = bit p i" by (simp add: bit_drop_bit_eq)
    qed
  qed
  also have "\<dots> \<longleftrightarrow> drop_bit k (unat a) = drop_bit k (unat p)"
    by (simp only: word_unat_eq_iff unat_drop_bit_eq)
  finally show ?thesis by (simp only: drop_bit_eq_div)
qed

lemma push_ff:
  "push_bit 6 (0xff::uchar) = 0xc0" "push_bit 4 (0xff::uchar) = 0xf0"
  "push_bit 1 (0xff::uchar) = 0xfe" "push_bit 5 (0xff::uchar) = 0xe0"
  by simp_all

lemma unat_byte_less: "unat (b::uchar) < 256"
proof -
  have "unat b < 2 ^ LENGTH(8)" by (rule unsigned_less)
  then show ?thesis by simp
qed

lemma byte_ranges:
  "(b::uchar) AND 0xf0 = 16 AND 0xf0 \<longleftrightarrow> 16 \<le> b \<and> b \<le> 31"
  "b AND 0xfe = 18 AND 0xfe \<longleftrightarrow> b = 18 \<or> b = 19"
  "b AND 0xe0 = 224 AND 0xe0 \<longleftrightarrow> 224 \<le> b"
proof -
  have "b AND 0xf0 = 16 AND 0xf0 \<longleftrightarrow> unat b div 2 ^ 4 = unat (16::uchar) div 2 ^ 4"
    by (rule masked_eq_div [of 4 b 16, unfolded push_ff]) simp
  then show "b AND 0xf0 = 16 AND 0xf0 \<longleftrightarrow> 16 \<le> b \<and> b \<le> 31"
    by (simp only:) (auto simp: word_le_nat_alt)
  have "b AND 0xfe = 18 AND 0xfe \<longleftrightarrow> unat b div 2 ^ 1 = unat (18::uchar) div 2 ^ 1"
    by (rule masked_eq_div [of 1 b 18, unfolded push_ff]) simp
  then show "b AND 0xfe = 18 AND 0xfe \<longleftrightarrow> b = 18 \<or> b = 19"
    by (simp only:) (auto simp: word_unat_eq_iff)
  have "b AND 0xe0 = 224 AND 0xe0 \<longleftrightarrow> unat b div 2 ^ 5 = unat (224::uchar) div 2 ^ 5"
    by (rule masked_eq_div [of 5 b 224, unfolded push_ff]) simp
  then show "b AND 0xe0 = 224 AND 0xe0 \<longleftrightarrow> 224 \<le> b"
    using unat_byte_less [of b] by (simp only:) (auto simp: word_le_nat_alt)
qed

lemma length_4E:
  assumes "length xs = 4" obtains a b c d where "xs = [a, b, c, d]"
  using assms by (auto simp: numeral_eq_Suc length_Suc_conv)

lemma prefix_matches_4:
  "curb_ip_prefix_matches [a, b, c, d] [p, q, r, s] 3 \<longleftrightarrow> a AND 0xe0 = p AND 0xe0"
  "curb_ip_prefix_matches [a, b, c, d] [p, q, r, s] 8 \<longleftrightarrow> a = p"
  "curb_ip_prefix_matches [a, b, c, d] [p, q, r, s] 10 \<longleftrightarrow> a = p \<and> b AND 0xc0 = q AND 0xc0"
  "curb_ip_prefix_matches [a, b, c, d] [p, q, r, s] 12 \<longleftrightarrow> a = p \<and> b AND 0xf0 = q AND 0xf0"
  "curb_ip_prefix_matches [a, b, c, d] [p, q, r, s] 15 \<longleftrightarrow> a = p \<and> b AND 0xfe = q AND 0xfe"
  "curb_ip_prefix_matches [a, b, c, d] [p, q, r, s] 16 \<longleftrightarrow> a = p \<and> b = q"
  "curb_ip_prefix_matches [a, b, c, d] [p, q, r, s] 24 \<longleftrightarrow> a = p \<and> b = q \<and> c = r"
proof -
  have upts: "[0..<0] = ([]::nat list)" "[0..<1] = [0::nat]" "[0..<2] = [0, 1::nat]"
    "[0..<3] = [0, 1, 2::nat]"
    by (simp_all add: upt_rec)
  have nths: "[x, y, z, w] ! 0 = x" "[x, y, z, w] ! 1 = y" "[x, y, z, w] ! 2 = z" for x y z w :: uchar
    by simp_all
  have divs: "(3::nat) div 8 = 0" "(8::nat) div 8 = 1" "(10::nat) div 8 = 1" "(12::nat) div 8 = 1"
    "(15::nat) div 8 = 1" "(16::nat) div 8 = 2" "(24::nat) div 8 = 3"
    "(3::nat) mod 8 = 3" "(8::nat) mod 8 = 0" "(10::nat) mod 8 = 2" "(12::nat) mod 8 = 4"
    "(15::nat) mod 8 = 7" "(16::nat) mod 8 = 0" "(24::nat) mod 8 = 0"
    "(8::nat) - 3 = 5" "(8::nat) - 2 = 6" "(8::nat) - 4 = 4" "(8::nat) - 7 = 1"
    "(3::nat) \<noteq> 0" "(2::nat) \<noteq> 0" "(4::nat) \<noteq> 0" "(7::nat) \<noteq> 0"
    by simp_all
  show "curb_ip_prefix_matches [a, b, c, d] [p, q, r, s] 3 \<longleftrightarrow> a AND 0xe0 = p AND 0xe0"
    "curb_ip_prefix_matches [a, b, c, d] [p, q, r, s] 8 \<longleftrightarrow> a = p"
    "curb_ip_prefix_matches [a, b, c, d] [p, q, r, s] 10 \<longleftrightarrow> a = p \<and> b AND 0xc0 = q AND 0xc0"
    "curb_ip_prefix_matches [a, b, c, d] [p, q, r, s] 12 \<longleftrightarrow> a = p \<and> b AND 0xf0 = q AND 0xf0"
    "curb_ip_prefix_matches [a, b, c, d] [p, q, r, s] 15 \<longleftrightarrow> a = p \<and> b AND 0xfe = q AND 0xfe"
    "curb_ip_prefix_matches [a, b, c, d] [p, q, r, s] 16 \<longleftrightarrow> a = p \<and> b = q"
    "curb_ip_prefix_matches [a, b, c, d] [p, q, r, s] 24 \<longleftrightarrow> a = p \<and> b = q \<and> c = r"
    unfolding curb_ip_prefix_matches_def Let_def
    by (simp_all only: divs upts push_ff list.pred_inject nths simp_thms not_True_eq_False)
qed

lemma if_True_disj: "(if A then True else B) \<longleftrightarrow> A \<or> B"
  by simp

lemma unsafe_blocks_match:
  assumes "length ip = 4"
  shows "list_ex (\<lambda>(p, n). curb_ip_prefix_matches ip p n) unsafe_ipv4_blocks \<longleftrightarrow>
         curb_ipv4_is_unsafe_destination ip"
proof -
  obtain a b c d where ip: "ip = [a, b, c, d]" using length_4E [OF assms] by blast
  have metadata: "(a = 100 \<and> b AND 0xc0 = 0x40 \<or> a = 100 \<and> b = 100 \<and> c = 100 \<and> d = 200 \<or> R) \<longleftrightarrow>
    (a = 100 \<and> b AND 0xc0 = 64 AND 0xc0 \<or> R)" for R by auto
  have nth: "[a, b, c, d] ! 0 = a" "[a, b, c, d] ! 1 = b" "[a, b, c, d] ! 2 = c"
    "[a, b, c, d] ! 3 = d" by simp_all
  show ?thesis
    unfolding ip curb_ipv4_is_unsafe_destination_def nth if_True_disj metadata
      unsafe_ipv4_blocks_def list_ex_iff list.set bex_simps prod.case prefix_matches_4 byte_ranges
    by (rule refl)
qed

lemma ipv4_blocks_wf: "\<forall>(p, n) \<in> set unsafe_ipv4_blocks. length p = 4 \<and> n \<le> 32"
  by (simp add: unsafe_ipv4_blocks_def)

lemma unsafe_ipv4_in_block:
  assumes "length ip = 4"
  shows "curb_ipv4_is_unsafe_destination ip \<longleftrightarrow> list_ex (in_block ip) unsafe_ipv4_blocks"
proof -
  have "\<And>blk. blk \<in> set unsafe_ipv4_blocks \<Longrightarrow>
      (case blk of (p, n) \<Rightarrow> curb_ip_prefix_matches ip p n) \<longleftrightarrow> in_block ip blk"
    using ipv4_blocks_wf assms by (fastforce simp: prefix_matches_in_block)
  then show ?thesis
    unfolding unsafe_blocks_match [OF assms, symmetric] list_ex_iff by blast
qed

section \<open>Embedded IPv4 addresses\<close>

definition ipv4_mapped :: "ip \<Rightarrow> ip" where
  "ipv4_mapped v4 = [0, 0, 0, 0, 0, 0, 0, 0, 0, 0, 0xff, 0xff] @ v4"

definition ipv4_nat64 :: "ip \<Rightarrow> ip" where
  "ipv4_nat64 v4 = [0, 0x64, 0xff, 0x9b, 0, 0, 0, 0, 0, 0, 0, 0] @ v4"

lemma prefix_matches_bytes:
  "curb_ip_prefix_matches ip p (8 * k) \<longleftrightarrow> (\<forall>i < k. ip ! i = p ! i)"
  by (auto simp: curb_ip_prefix_matches_def Let_def list_all_iff)

lemma prefix_matches_96: "curb_ip_prefix_matches ip p 96 \<longleftrightarrow> (\<forall>i < 12. ip ! i = p ! i)"
  using prefix_matches_bytes [of ip p 12] by simp

lemma prefix_matches_own: "length p = 12 \<Longrightarrow> curb_ip_prefix_matches (p @ x) p 96"
  by (simp add: prefix_matches_96 nth_append)

lemma not_all_zero: "i < 16 \<Longrightarrow> ip ! i \<noteq> 0 \<Longrightarrow> \<not> curb_ipv6_is_all_zero ip"
  by (auto simp: curb_ipv6_is_all_zero_def list_all_iff)

lemma unsafe_ipv6_mapped:
  "curb_ipv6_is_unsafe_destination (ipv4_mapped v4) \<longleftrightarrow> curb_ipv4_is_unsafe_destination v4"
proof -
  have "\<not> curb_ipv6_is_all_zero (ipv4_mapped v4)"
    by (rule not_all_zero [of 10]) (simp_all add: ipv4_mapped_def)
  moreover have "curb_ipv6_is_ipv4_mapped (ipv4_mapped v4)"
    by (simp add: curb_ipv6_is_ipv4_mapped_def curb_ipv6_prefix_matches_def ipv4_mapped_def
        prefix_matches_96 nth_Cons')
  ultimately show ?thesis
    by (simp add: curb_ipv6_is_unsafe_destination_def ipv4_mapped_def)
qed

lemma unsafe_ipv6_nat64:
  "curb_ipv6_is_unsafe_destination (ipv4_nat64 v4) \<longleftrightarrow> curb_ipv4_is_unsafe_destination v4"
proof -
  have "\<not> curb_ipv6_is_all_zero (ipv4_nat64 v4)"
    by (rule not_all_zero [of 1]) (simp_all add: ipv4_nat64_def)
  moreover have "\<not> curb_ipv6_is_ipv4_mapped (ipv4_nat64 v4)"
    unfolding curb_ipv6_is_ipv4_mapped_def curb_ipv6_prefix_matches_def ipv4_nat64_def
      prefix_matches_96 not_all
    by (rule exI [of _ 1]) simp
  moreover have "curb_ipv6_is_nat64_well_known (ipv4_nat64 v4)"
    by (simp add: curb_ipv6_is_nat64_well_known_def curb_ipv6_prefix_matches_def ipv4_nat64_def
        prefix_matches_96 nth_Cons')
  ultimately show ?thesis
    by (simp add: curb_ipv6_is_unsafe_destination_def ipv4_nat64_def)
qed

section \<open>The unsafe IPv6 blocks\<close>

definition mapped_block :: "ip \<times> nat" where
  "mapped_block = ([0, 0, 0, 0, 0, 0, 0, 0, 0, 0, 0xff, 0xff], 96)"

definition nat64_block :: "ip \<times> nat" where
  "nat64_block = ([0, 0x64, 0xff, 0x9b, 0, 0, 0, 0, 0, 0, 0, 0], 96)"

definition unsafe_ipv6_blocks :: "(ip \<times> nat) list" where
  "unsafe_ipv6_blocks =
     [([0x00, 0x64, 0xff, 0x9b, 0x00, 0x01], 48), ([0, 0, 0, 0, 0, 0, 0, 0, 0, 0, 0, 0], 96),
      ([0xfc], 7), ([0xfe, 0x80], 10), ([0xfe, 0xc0], 10), ([0xff], 8),
      ([0x20, 0x01, 0x0d, 0xb8], 32), ([0x20, 0x01, 0x00, 0x02, 0, 0], 48), ([0x20, 0x02], 16)]"

text \<open>An address that embeds an IPv4 address is judged by that address; any other by the
  blocks, and by the pattern \<open>0:*:1\<close> of the code's extra loopback test.\<close>

definition ipv6_blocked :: "ip \<Rightarrow> bool" where
  "ipv6_blocked ip \<longleftrightarrow>
     (if in_block ip mapped_block \<or> in_block ip nat64_block
      then list_ex (in_block (drop 12 ip)) unsafe_ipv4_blocks
      else list_ex (in_block ip) unsafe_ipv6_blocks \<or>
           (ip ! 0 = 0 \<and> ip ! 1 = 0 \<and> ip ! 14 = 0 \<and> ip ! 15 = 1))"

lemma nat_bits:
  "(7::nat) div 8 = 0" "(10::nat) div 8 = 1" "(8::nat) div 8 = 1" "(16::nat) div 8 = 2"
  "(7::nat) mod 8 = 7" "(10::nat) mod 8 = 2" "(8::nat) mod 8 = 0" "(16::nat) mod 8 = 0"
  "(8::nat) - 7 = 1" "(8::nat) - 2 = 6" "(7::nat) \<noteq> 0" "(2::nat) \<noteq> 0"
  by simp_all

lemma prefix_matches_heads:
  "curb_ip_prefix_matches ip [p] 7 \<longleftrightarrow> ip ! 0 AND 0xfe = p AND 0xfe"
  "curb_ip_prefix_matches ip [p] 8 \<longleftrightarrow> ip ! 0 = p"
  "curb_ip_prefix_matches ip [p, q] 10 \<longleftrightarrow> ip ! 0 = p \<and> ip ! 1 AND 0xc0 = q AND 0xc0"
  "curb_ip_prefix_matches ip [p, q] 16 \<longleftrightarrow> ip ! 0 = p \<and> ip ! 1 = q"
proof -
  have upts: "[0..<0] = ([]::nat list)" "[0..<1] = [0::nat]" "[0..<2] = [0, 1::nat]"
    by (simp_all add: upt_rec)
  have nths: "[x] ! 0 = x" "[x, y] ! 0 = x" "[x, y] ! 1 = y" for x y :: uchar by simp_all
  show "curb_ip_prefix_matches ip [p] 7 \<longleftrightarrow> ip ! 0 AND 0xfe = p AND 0xfe"
    "curb_ip_prefix_matches ip [p] 8 \<longleftrightarrow> ip ! 0 = p"
    "curb_ip_prefix_matches ip [p, q] 10 \<longleftrightarrow> ip ! 0 = p \<and> ip ! 1 AND 0xc0 = q AND 0xc0"
    "curb_ip_prefix_matches ip [p, q] 16 \<longleftrightarrow> ip ! 0 = p \<and> ip ! 1 = q"
    unfolding curb_ip_prefix_matches_def Let_def
    by (simp_all only: nat_bits upts push_ff list.pred_inject nths simp_thms not_True_eq_False)
qed

lemma ipv6_blocks_wf: "\<forall>(p, n) \<in> set (mapped_block # nat64_block # unsafe_ipv6_blocks).
    n \<le> 8 * length p \<and> n \<le> 128"
  by (simp add: unsafe_ipv6_blocks_def mapped_block_def nat64_block_def)

lemma ipv6_block_matches:
  assumes "length ip = 16" and "(p, n) \<in> set (mapped_block # nat64_block # unsafe_ipv6_blocks)"
  shows "in_block ip (p, n) \<longleftrightarrow> curb_ip_prefix_matches ip p n"
  using assms ipv6_blocks_wf by (fastforce simp: prefix_matches_in_block)

lemma ipv6_list_ex:
  assumes "length ip = 16"
  shows "list_ex (in_block ip) unsafe_ipv6_blocks \<longleftrightarrow>
    curb_ipv6_is_nat64_local_use ip \<or> curb_ipv6_is_ipv4_compatible ip \<or>
    ip ! 0 AND 0xfe = 0xfc \<or> ip ! 0 = 0xfe \<and> ip ! 1 AND 0xc0 = 0x80 \<or>
    ip ! 0 = 0xfe \<and> ip ! 1 AND 0xc0 = 0xc0 \<or> ip ! 0 = 0xff \<or>
    curb_ipv6_prefix_matches ip [0x20, 0x01, 0x0d, 0xb8] 32 \<or>
    curb_ipv6_prefix_matches ip [0x20, 0x01, 0x00, 0x02, 0, 0] 48 \<or>
    ip ! 0 = 0x20 \<and> ip ! 1 = 0x02"
proof -
  have masks: "(0xfc::uchar) AND 0xfe = 0xfc" "(0x80::uchar) AND 0xc0 = 0x80"
    "(0xc0::uchar) AND 0xc0 = 0xc0" by simp_all
  have "list_ex (in_block ip) unsafe_ipv6_blocks \<longleftrightarrow>
        list_ex (\<lambda>(p, n). curb_ip_prefix_matches ip p n) unsafe_ipv6_blocks"
    using ipv6_block_matches [OF assms] by (fastforce simp: list_ex_iff)
  then show ?thesis
    unfolding unsafe_ipv6_blocks_def curb_ipv6_is_nat64_local_use_def
      curb_ipv6_is_ipv4_compatible_def curb_ipv6_prefix_matches_def list_ex_iff list.set bex_simps
      prod.case prefix_matches_heads masks simp_thms .
qed

lemma unsafe_ipv6_blocked:
  assumes "length ip = 16"
  shows "curb_ipv6_is_unsafe_destination ip \<longleftrightarrow> ipv6_blocked ip"
proof -
  have m: "in_block ip mapped_block \<longleftrightarrow> curb_ipv6_is_ipv4_mapped ip"
    using ipv6_block_matches [OF assms, of "fst mapped_block" "snd mapped_block"]
    by (simp add: mapped_block_def curb_ipv6_is_ipv4_mapped_def curb_ipv6_prefix_matches_def)
  have n: "in_block ip nat64_block \<longleftrightarrow> curb_ipv6_is_nat64_well_known ip"
    using ipv6_block_matches [OF assms, of "fst nat64_block" "snd nat64_block"]
    by (simp add: nat64_block_def curb_ipv6_is_nat64_well_known_def curb_ipv6_prefix_matches_def)
  have v4: "list_ex (in_block (drop 12 ip)) unsafe_ipv4_blocks \<longleftrightarrow>
      curb_ipv4_is_unsafe_destination (drop 12 ip)"
    using assms by (simp add: unsafe_ipv4_in_block)
  have zero: "curb_ipv6_is_all_zero ip \<Longrightarrow> \<not> curb_ipv6_is_ipv4_mapped ip \<and>
      \<not> curb_ipv6_is_nat64_well_known ip \<and> curb_ipv6_is_ipv4_compatible ip"
    unfolding curb_ipv6_is_ipv4_mapped_def curb_ipv6_is_nat64_well_known_def
      curb_ipv6_is_ipv4_compatible_def curb_ipv6_prefix_matches_def prefix_matches_96
      curb_ipv6_is_all_zero_def list_all_iff
    by (auto simp: nth_Cons' intro: exI [of _ 10] exI [of _ 1])
  show ?thesis
    unfolding ipv6_blocked_def m n v4 ipv6_list_ex [OF assms] curb_ipv6_is_unsafe_destination_def
    using zero by (simp split: if_split)
qed

section \<open>CIDR rules\<close>

definition cidr_rule_ok :: "curb_cidr_rule \<Rightarrow> bool" where
  "cidr_rule_ok r \<longleftrightarrow> length (cr_address r) = 16 \<and>
     (cr_family r = 4 \<and> unat (cr_prefix_bits r) \<le> 32 \<or>
      cr_family r = 6 \<and> unat (cr_prefix_bits r) \<le> 128)"

text \<open>What \<open>inet_pton\<close> documents: 4 bytes for an IPv4 address, 16 for an IPv6 address.\<close>

definition pton_ok :: "(string \<Rightarrow> ip option) \<Rightarrow> (string \<Rightarrow> ip option) \<Rightarrow> bool" where
  "pton_ok pton4 pton6 \<longleftrightarrow>
     (\<forall>s bytes. pton4 s = Some bytes \<longrightarrow> length bytes = 4) \<and>
     (\<forall>s bytes. pton6 s = Some bytes \<longrightarrow> length bytes = 16)"

lemma cidr_prefix_range:
  assumes "cidr_prefix m s = Some n"
  shows "0 \<le> n \<and> n \<le> int m"
  using assms
  by (auto simp: cidr_prefix_def split: option.splits list.splits prod.splits if_splits)

lemma unat_word_of_int_byte:
  assumes "0 \<le> n" and "n < 256"
  shows "unat (word_of_int n :: uchar) = nat n"
proof -
  have "take_bit 8 n = n" using assms by (simp add: take_bit_int_eq_self_iff)
  then show ?thesis by (simp add: unat_eq_nat_uint uint_word_of_int_eq)
qed

lemma cidr_family_ok:
  assumes "pton_ok pton4 pton6" and "cidr_family pton4 pton6 address = Some (family, m, bytes)"
  shows "length bytes = 16 \<and> (family = 4 \<and> m = 32 \<or> family = 6 \<and> m = 128)"
  using assms by (fastforce simp: pton_ok_def cidr_family_def split: option.splits)

lemma parse_cidr_rule_ok:
  assumes "pton_ok pton4 pton6" and "curb_parse_cidr_rule pton4 pton6 cidr = Inr r"
  shows "cidr_rule_ok r"
proof -
  from assms(2) obtain address prefix_str family m bytes prefix where
    fam: "cidr_family pton4 pton6 address = Some (family, m, bytes)"
    and pre: "cidr_prefix m prefix_str = Some prefix"
    and r: "r = \<lparr>cr_family = family, cr_prefix_bits = word_of_int prefix, cr_address = bytes\<rparr>"
    by (auto simp: curb_parse_cidr_rule_def curb_raise_invalid_cidr_def split: option.splits)
  from cidr_family_ok [OF assms(1) fam] show ?thesis
    using cidr_prefix_range [OF pre] unat_word_of_int_byte [of prefix]
    by (auto simp: cidr_rule_ok_def r)
qed

lemma cidr_split_slash:
  assumes "CHR ''/'' \<notin> set address" and "address \<noteq> []" and "hd address \<noteq> CHR ''[''"
  shows "cidr_split (address @ ''/'' @ s) = Some (address, Some s)"
proof -
  obtain c cs where address: "address = c # cs" using assms(2) by (cases address) auto
  have all: "\<And>x. x \<in> set address \<Longrightarrow> x \<noteq> CHR ''/''" using assms(1) by metis
  have "takeWhile (\<lambda>x. x \<noteq> CHR ''/'') (address @ ''/'' @ s) = address"
    and "dropWhile (\<lambda>x. x \<noteq> CHR ''/'') (address @ ''/'' @ s) = ''/'' @ s"
    using all by (simp_all add: takeWhile_append2 dropWhile_append2)
  then show ?thesis using assms(3) by (simp add: cidr_split_def address)
qed

lemma cidr_prefix_show_nat:
  assumes "n \<le> m" and "m \<le> 128"
  shows "cidr_prefix m (Some (show_nat n)) = Some (int n)"
proof -
  have "n < 2 ^ 63" using assms by simp
  then show ?thesis
    using assms strtol10_show_nat [of n] show_nat_digits [of n]
    by (cases "show_nat n") (simp_all add: cidr_prefix_def)
qed

section \<open>The allowlists of a handle\<close>

definition cidr_rules_ok :: "ruby_curl_easy \<Rightarrow> bool" where
  "cidr_rules_ok rbce \<longleftrightarrow>
     (case network_allowed_cidr_rules rbce of
        None \<Rightarrow> network_allowed_cidr_rule_count rbce = 0
      | Some rs \<Rightarrow> network_allowed_cidr_rule_count rbce = length rs \<and> rs \<noteq> [] \<and>
                  list_all cidr_rule_ok rs)"

definition host_rules_ok :: "ruby_curl_easy \<Rightarrow> bool" where
  "host_rules_ok rbce \<longleftrightarrow>
     (case network_allowed_hosts rbce of
        None \<Rightarrow> network_allowed_host_count rbce = 0
      | Some hs \<Rightarrow> network_allowed_host_count rbce = length hs \<and> hs \<noteq> [])"

definition network_rules_ok :: "ruby_curl_easy \<Rightarrow> bool" where
  "network_rules_ok rbce \<longleftrightarrow> cidr_rules_ok rbce \<and> host_rules_ok rbce"

lemma map_res_list_all2: "map_res f xs = Inr ys \<Longrightarrow> list_all2 (\<lambda>x y. f x = Inr y) xs ys"
  by (induction xs arbitrary: ys) (auto split: sum.splits)

lemma map_res_list_all:
  assumes "map_res f xs = Inr ys" and "\<And>x y. f x = Inr y \<Longrightarrow> P y"
  shows "list_all P ys"
  using map_res_list_all2 [OF assms(1)]
  by (induction rule: list_all2_induct) (auto intro: assms(2))

lemma map_res_length: "map_res f xs = Inr ys \<Longrightarrow> length ys = length xs"
  by (metis map_res_list_all2 list_all2_lengthD)

lemma clear_cidr_frame [simp]:
  "network_allowed_hosts (curb_clear_network_allowed_cidr_rules rbce) = network_allowed_hosts rbce"
  "network_allowed_host_count (curb_clear_network_allowed_cidr_rules rbce) =
     network_allowed_host_count rbce"
  "network_allowed_cidr_rules (curb_clear_network_allowed_cidr_rules rbce) = None"
  "rb_easy_get k (curb_clear_network_allowed_cidr_rules rbce) = rb_easy_get k rbce"
  by (simp_all add: curb_clear_network_allowed_cidr_rules_def rb_easy_get_def)

lemma clear_cidr_count [simp]:
  "cidr_rules_ok rbce \<Longrightarrow>
   network_allowed_cidr_rule_count (curb_clear_network_allowed_cidr_rules rbce) = 0"
  by (auto simp: curb_clear_network_allowed_cidr_rules_def cidr_rules_ok_def split: option.splits)

lemma clear_hosts_frame [simp]:
  "network_allowed_cidr_rules (curb_clear_network_allowed_hosts rbce) = network_allowed_cidr_rules rbce"
  "network_allowed_cidr_rule_count (curb_clear_network_allowed_hosts rbce) =
     network_allowed_cidr_rule_count rbce"
  "network_allowed_hosts (curb_clear_network_allowed_hosts rbce) = None"
  "rb_easy_get k (curb_clear_network_allowed_hosts rbce) = rb_easy_get k rbce"
  by (simp_all add: curb_clear_network_allowed_hosts_def rb_easy_get_def)

lemma clear_hosts_count [simp]:
  "host_rules_ok rbce \<Longrightarrow>
   network_allowed_host_count (curb_clear_network_allowed_hosts rbce) = 0"
  by (auto simp: curb_clear_network_allowed_hosts_def host_rules_ok_def split: option.splits)

lemma clear_rules_ok:
  assumes "network_rules_ok rbce"
  shows "network_rules_ok (curb_clear_network_allowed_cidr_rules rbce)"
    and "network_rules_ok (curb_clear_network_allowed_hosts rbce)"
  using assms by (simp_all add: network_rules_ok_def cidr_rules_ok_def host_rules_ok_def
      curb_clear_network_allowed_cidr_rules_def curb_clear_network_allowed_hosts_def
      split: option.splits)

lemma set_rules_ok:
  assumes "network_rules_ok rbce"
  shows "list_all cidr_rule_ok rs \<Longrightarrow> rs \<noteq> [] \<Longrightarrow>
      network_rules_ok (rbce\<lparr>network_allowed_cidr_rules := Some rs,
        network_allowed_cidr_rule_count := length rs\<rparr>)"
    and "hs \<noteq> [] \<Longrightarrow>
      network_rules_ok (rbce\<lparr>network_allowed_hosts := Some hs,
        network_allowed_host_count := length hs\<rparr>)"
  using assms by (simp_all add: network_rules_ok_def cidr_rules_ok_def host_rules_ok_def
      split: option.splits)

lemma cidr_value_ok:
  "pton_ok pton4 pton6 \<Longrightarrow> cidr_value pton4 pton6 v = Inr r \<Longrightarrow> cidr_rule_ok r"
  by (auto simp: cidr_value_def dest: parse_cidr_rule_ok split: sum.splits)

lemma prepare_cidr_rules_ok:
  assumes "pton_ok pton4 pton6" and "network_rules_ok rbce"
  shows "network_rules_ok (snd (curb_prepare_network_allowed_cidr_rules pton4 pton6 rbce))"
proof -
  have ok: "list_all cidr_rule_ok rules" "xs \<noteq> [] \<Longrightarrow> rules \<noteq> []"
    if "map_res (cidr_value pton4 pton6) xs = Inr rules" for xs rules
    using map_res_list_all [OF that cidr_value_ok [OF assms(1)]] map_res_length [OF that]
    by auto
  show ?thesis
    using clear_rules_ok(1) [OF assms(2)] ok
    by (auto simp: curb_prepare_network_allowed_cidr_rules_def Let_def
        intro!: set_rules_ok split: sum.splits)
qed

lemma prepare_hosts_ok:
  assumes "network_rules_ok rbce"
  shows "network_rules_ok (snd (curb_prepare_network_allowed_hosts rbce))"
  using clear_rules_ok(2) [OF assms]
  by (auto simp: curb_prepare_network_allowed_hosts_def Let_def
      intro!: set_rules_ok dest: map_res_length split: sum.splits)

section \<open>Normalised lists\<close>

text \<open>Both allowlists are built by the same loop: convert each item, stop at the first error,
  keep the first of equal strings.\<close>

locale string_list_normalizer =
  fixes item :: "rvalue \<Rightarrow> string res"
    and loop :: "string list \<Rightarrow> rvalue list \<Rightarrow> string list res"
  assumes loop_Nil: "loop acc [] = Inr acc"
    and loop_Cons: "loop acc (x # xs) =
      (case item x of
         Inl e \<Rightarrow> Inl e
       | Inr s \<Rightarrow> loop (if curb_array_includes_string acc s then acc else acc @ [s]) xs)"
begin

lemma loop_distinct: "loop acc xs = Inr l \<Longrightarrow> distinct acc \<Longrightarrow> distinct l"
  by (induction xs arbitrary: acc)
     (auto simp: loop_Nil loop_Cons curb_array_includes_string_def list_ex_iff
       split: sum.splits if_splits)

lemma loop_set: "loop acc xs = Inr l \<Longrightarrow> set l = set acc \<union> {s. \<exists>x \<in> set xs. item x = Inr s}"
  by (induction xs arbitrary: acc)
     (auto simp: loop_Nil loop_Cons curb_array_includes_string_def list_ex_iff
       split: sum.splits if_splits)

lemma loop_Inr_iff: "(\<exists>l. loop acc xs = Inr l) \<longleftrightarrow> (\<forall>x \<in> set xs. \<exists>s. item x = Inr s)"
  by (induction xs arbitrary: acc) (auto simp: loop_Nil loop_Cons split: sum.splits)

end

interpretation cidr_list: string_list_normalizer "cidr_item pton4 pton6 to_s"
  "normalize_cidr_items pton4 pton6 to_s" for pton4 pton6 to_s
  by unfold_locales simp_all

interpretation host_list: string_list_normalizer "host_item to_s" "normalize_host_items to_s" for to_s
  by unfold_locales simp_all

section \<open>Hosts\<close>

lemma skip_back_append:
  "skip_back P (xs @ ys) = (if skip_back P ys = [] then skip_back P xs else xs @ skip_back P ys)"
  by (auto simp: skip_back_def dropWhile_append dropWhile_eq_Nil_conv)

lemma skip_back_last: "xs \<noteq> [] \<Longrightarrow> \<not> P (last xs) \<Longrightarrow> skip_back P xs = xs"
  by (cases xs rule: rev_cases) (simp_all add: skip_back_def)

lemma skip_front_hd: "xs \<noteq> [] \<Longrightarrow> \<not> P (hd xs) \<Longrightarrow> skip_front P xs = xs"
  by (cases xs) (simp_all add: skip_front_def)

lemma skip_back_Cons: "\<not> P x \<Longrightarrow> \<exists>ys. skip_back P (x # xs) = x # ys"
  using skip_back_append [of P "[x]" xs] skip_back_last [of "[x]" P] by auto

lemma strstr_scheme:
  "CHR '':'' \<notin> set scheme \<Longrightarrow> strstr (scheme @ ''://'' @ rest) ''://'' = Some (length scheme)"
proof (induction scheme)
  case Nil
  then show ?case by (subst strstr.simps) simp
next
  case (Cons c scheme)
  then show ?case by (subst strstr.simps) auto
qed

lemma after_last_at_user: "CHR ''@'' \<notin> set hp \<Longrightarrow> after_last_at (user @ ''@'' @ hp) = hp"
proof -
  assume "CHR ''@'' \<notin> set hp"
  then have "takeWhile (\<lambda>c. c \<noteq> CHR ''@'') (rev hp @ ''@'' @ rev user) = rev hp"
    by (subst takeWhile_append2) auto
  then show ?thesis by (simp add: after_last_at_def)
qed

lemma after_last_at_none: "CHR ''@'' \<notin> set hp \<Longrightarrow> after_last_at hp = hp"
  by (simp add: after_last_at_def)

text \<open>The parts of a URL: the scheme has no colon, the user part no delimiter, the host no
  delimiter, blank or final dot, the port is digits, and the rest is empty or starts at a
  delimiter.\<close>

definition host_char :: "char \<Rightarrow> bool" where
  "host_char c \<longleftrightarrow> \<not> url_delim c \<and> c \<noteq> CHR ''@'' \<and> c \<noteq> CHR '':'' \<and> c \<noteq> CHR ''['' \<and> \<not> host_blank c"

definition url_scheme_ok :: "string \<Rightarrow> bool" where
  "url_scheme_ok s \<longleftrightarrow> s \<noteq> [] \<and> list_all (\<lambda>c. c \<noteq> CHR '':'' \<and> \<not> host_blank c) s"

definition url_user_ok :: "string \<Rightarrow> bool" where
  "url_user_ok u \<longleftrightarrow> u = [] \<or> (list_all (\<lambda>c. \<not> url_delim c) u \<and> last u = CHR ''@'')"

definition url_host_ok :: "string \<Rightarrow> bool" where
  "url_host_ok h \<longleftrightarrow> h \<noteq> [] \<and> list_all host_char h \<and> last h \<noteq> CHR ''.''"

definition url_port_ok :: "string \<Rightarrow> bool" where
  "url_port_ok p \<longleftrightarrow> p = [] \<or> (hd p = CHR '':'' \<and> list_all is_digit (tl p))"

definition url_rest_ok :: "string \<Rightarrow> bool" where
  "url_rest_ok r \<longleftrightarrow> r = [] \<or> url_delim (hd r)"

lemma host_from_range:
  assumes "url_host_ok h"
  shows "curb_normalized_host_from_range h raise_errors = Inr (Some (map curb_ascii_downcase h))"
proof -
  from assms have ne: "h \<noteq> []" and hd: "\<not> host_blank (hd h)" and la: "\<not> host_blank (last h)"
    and dot: "last h \<noteq> CHR ''.''"
    by (auto simp: url_host_ok_def list_all_iff host_char_def)
  then have "skip_front host_blank h = h" and "skip_back host_blank h = h"
    and "skip_back (\<lambda>c. c = CHR ''.'') h = h"
    by (simp_all add: skip_front_hd skip_back_last)
  then show ?thesis using ne by (simp add: curb_normalized_host_from_range_def Let_def)
qed

lemma digit_host_char: "is_digit c \<Longrightarrow> host_char c"
  by (auto simp: is_digit_def host_char_def host_blank_def url_delim_def)

lemma host_charD:
  assumes "host_char c"
  shows "\<not> url_delim c" "c \<noteq> CHR ''@''" "c \<noteq> CHR '':''" "c \<noteq> CHR ''[''" "\<not> host_blank c"
  using assms by (simp_all add: host_char_def)

lemma special_chars:
  "\<not> url_delim CHR '':''" "\<not> host_blank CHR '':''" "\<not> url_delim CHR ''@''"
  "url_delim c \<Longrightarrow> \<not> host_blank c"
  by (auto simp: url_delim_def host_blank_def)

lemma url_user_split:
  assumes "url_user_ok u" and "u \<noteq> []"
  obtains user where "u = user @ ''@''"
  using assms by (cases u rule: rev_cases) (auto simp: url_user_ok_def)

lemma url_host_port:
  assumes "url_host_ok host" and "url_port_ok port"
  defines "hp \<equiv> host @ port"
  shows "CHR ''@'' \<notin> set hp" and "hp \<noteq> []" and "hd hp \<noteq> CHR ''[''"
    and "length (filter (\<lambda>c. c = CHR '':'') hp) \<le> 1" and "takeWhile (\<lambda>c. c \<noteq> CHR '':'') hp = host"
    and "list_all (\<lambda>c. \<not> url_delim c) hp" and "\<not> host_blank (last hp)"
proof -
  have h: "\<And>c. c \<in> set host \<Longrightarrow> host_char c" and ne: "host \<noteq> []"
    using assms(1) by (auto simp: url_host_ok_def list_all_iff)
  have p: "port = [] \<or> (\<exists>ds. port = CHR '':'' # ds \<and> (\<forall>c \<in> set ds. host_char c))"
    using assms(2) digit_host_char by (cases port) (auto simp: url_port_ok_def list_all_iff)
  have at: "CHR ''@'' \<notin> set host" and colon: "CHR '':'' \<notin> set host"
    using h host_charD by blast+
  have no_colon: "filter (\<lambda>c. c = CHR '':'') xs = []" if "\<forall>c \<in> set xs. host_char c" for xs
    using that host_charD(3) by (fastforce simp: filter_empty_conv)
  show "CHR ''@'' \<notin> set hp" using at p host_charD(2) unfolding hp_def by fastforce
  show "hp \<noteq> []" using ne by (simp add: hp_def)
  show "hd hp \<noteq> CHR ''[''" using ne host_charD(4) [OF h, of "hd host"] by (simp add: hp_def)
  show "length (filter (\<lambda>c. c = CHR '':'') hp) \<le> 1"
    using p no_colon [of host] h no_colon unfolding hp_def by auto
  have "\<And>x. x \<in> set host \<Longrightarrow> x \<noteq> CHR '':''" using colon by metis
  then have "takeWhile (\<lambda>c. c \<noteq> CHR '':'') (host @ port) = host @ takeWhile (\<lambda>c. c \<noteq> CHR '':'') port"
    by (rule takeWhile_append2)
  then show "takeWhile (\<lambda>c. c \<noteq> CHR '':'') hp = host" using p unfolding hp_def by auto
  show "list_all (\<lambda>c. \<not> url_delim c) hp"
    using h p host_charD(1) special_chars(1) unfolding hp_def list_all_iff by fastforce
  have "\<forall>c \<in> set hp. \<not> host_blank c"
    using h p host_charD(5) special_chars(2) unfolding hp_def by fastforce
  moreover have "last hp \<in> set hp" using ne by (intro last_in_set) (simp add: hp_def)
  ultimately show "\<not> host_blank (last hp)" by blast
qed

lemma url_authority:
  assumes "url_user_ok user" and "url_host_ok host" and "url_port_ok port"
  shows "after_last_at (user @ host @ port) = host @ port"
    and "list_all (\<lambda>c. \<not> url_delim c) (user @ host @ port)"
proof -
  note hp = url_host_port [OF assms(2,3)]
  show "after_last_at (user @ host @ port) = host @ port"
  proof (cases "user = []")
    case True
    then show ?thesis using after_last_at_none [OF hp(1)] by simp
  next
    case False
    with assms(1) obtain u where "user = u @ ''@''" by (rule url_user_split)
    then show ?thesis using after_last_at_user [OF hp(1), of u] by simp
  qed
  show "list_all (\<lambda>c. \<not> url_delim c) (user @ host @ port)"
    using hp(6) assms(1) by (auto simp: url_user_ok_def list_all_iff)
qed

lemma takeWhile_authority:
  assumes "list_all (\<lambda>c. \<not> url_delim c) a" and "url_rest_ok rest"
  shows "takeWhile (\<lambda>c. \<not> url_delim c) (a @ rest) = a"
proof -
  have "takeWhile (\<lambda>c. \<not> url_delim c) rest = []"
    using assms(2) by (cases rest) (auto simp: url_rest_ok_def)
  then show ?thesis using assms(1) by (subst takeWhile_append2) (auto simp: list_all_iff)
qed

lemma skip_back_url:
  assumes "core \<noteq> []" and "\<not> host_blank (last core)" and "url_rest_ok rest"
  obtains rest' where "skip_back host_blank (core @ rest) = core @ rest'" and "url_rest_ok rest'"
proof (cases rest)
  case Nil
  then show ?thesis using that [of "[]"] skip_back_last [of core host_blank] assms by simp
next
  case (Cons c cs)
  then have c: "url_delim c" using assms(3) by (simp add: url_rest_ok_def)
  obtain ys where ys: "skip_back host_blank (c # cs) = c # ys"
    using skip_back_Cons [of host_blank c cs] special_chars(4) [OF c] by blast
  then show ?thesis
    using that [of "c # ys"] c by (simp add: Cons skip_back_append url_rest_ok_def)
qed

lemma normalize_url_host:
  assumes "url_scheme_ok scheme" and "url_user_ok user" and "url_host_ok host"
    and "url_port_ok port" and "url_rest_ok rest"
  shows "curb_normalize_host_value_impl (scheme @ ''://'' @ user @ host @ port @ rest) raise_errors =
         Inr (Some (map curb_ascii_downcase host))"
proof -
  let ?core = "scheme @ ''://'' @ user @ host @ port"
  let ?whole = "?core @ rest"
  note hp = url_host_port [OF assms(3,4)]
  note au = url_authority [OF assms(2-4)]
  have sne: "scheme \<noteq> []" and shd: "\<not> host_blank (hd scheme)" and colon: "CHR '':'' \<notin> set scheme"
    using assms(1) by (auto simp: url_scheme_ok_def list_all_iff)
  have front: "skip_front host_blank ?whole = ?whole"
    using sne shd by (intro skip_front_hd) auto
  have "last ?core = last (host @ port)" using hp(2) by (simp add: last_append)
  with hp(7) have "\<not> host_blank (last ?core)" by metis
  then obtain rest' where trim: "skip_back host_blank ?whole = ?core @ rest'"
    and rest': "url_rest_ok rest'"
    using skip_back_url [of ?core rest] sne assms(5) by auto
  have str: "strstr ?whole ''://'' = Some (length scheme)"
    using strstr_scheme [OF colon] by simp
  have "takeWhile (\<lambda>c. \<not> url_delim c) ((user @ host @ port) @ rest') =
      user @ host @ port"
    by (rule takeWhile_authority [OF au(2) rest'])
  then have tw: "takeWhile (\<lambda>c. \<not> url_delim c)
      (drop (length scheme + 3) (?core @ rest')) = user @ host @ port" by simp
  have "curb_normalize_host_value_impl ?whole raise_errors =
        curb_normalized_host_from_range host raise_errors"
    using front trim str tw au(1) hp(2-5) sne
    unfolding curb_normalize_host_value_impl_def Let_def by simp
  then show ?thesis using host_from_range [OF assms(3)] by simp
qed

section \<open>Decisions of the callbacks\<close>

definition cidr_permits :: "ruby_curl_easy \<Rightarrow> uchar \<Rightarrow> ip \<Rightarrow> bool" where
  "cidr_permits rbce family ip \<longleftrightarrow>
     (case network_allowed_cidr_rules rbce of
        None \<Rightarrow> True
      | Some rs \<Rightarrow> list_ex (\<lambda>r. cr_family r = family \<and>
                      in_block ip (cr_address r, unat (cr_prefix_bits r))) rs)"

text \<open>Which addresses the \<open>:public\<close> policy with an allowlist lets libcurl connect to.\<close>

definition destination_permitted :: "ruby_curl_easy \<Rightarrow> curl_sockaddr \<Rightarrow> bool" where
  "destination_permitted rbce a \<longleftrightarrow>
     (if sa_family a = AF_INET \<and> 16 \<le> sa_addrlen a then
        \<not> list_ex (in_block (sin_addr a)) unsafe_ipv4_blocks \<and> cidr_permits rbce 4 (sin_addr a)
      else if sa_family a = AF_INET6 \<and> 28 \<le> sa_addrlen a then
        \<not> ipv6_blocked (sin_addr a) \<and> cidr_permits rbce 6 (sin_addr a)
      else network_allowed_cidr_rules rbce = None)"

definition sockaddr_ok :: "curl_sockaddr \<Rightarrow> bool" where
  "sockaddr_ok a \<longleftrightarrow>
     (sa_family a = AF_INET \<longrightarrow> length (sin_addr a) = 4) \<and>
     (sa_family a = AF_INET6 \<longrightarrow> length (sin_addr a) = 16)"

lemma cidr_rules_match_permits:
  assumes "cidr_rules_ok rbce" and "family = 4 \<and> length ip = 4 \<or> family = 6 \<and> length ip = 16"
  shows "curb_cidr_rules_match rbce family ip \<longleftrightarrow> cidr_permits rbce family ip"
proof (cases "network_allowed_cidr_rules rbce")
  case None
  then show ?thesis
    using assms(1) by (simp add: curb_cidr_rules_match_def cidr_permits_def cidr_rules_ok_def)
next
  case (Some rs)
  have "curb_ip_prefix_matches ip (cr_address r) (unat (cr_prefix_bits r)) \<longleftrightarrow>
        in_block ip (cr_address r, unat (cr_prefix_bits r))"
    if "r \<in> set rs" and "cr_family r = family" for r
  proof (rule prefix_matches_in_block)
    have "cidr_rule_ok r" using assms(1) Some that(1) by (auto simp: cidr_rules_ok_def list_all_iff)
    then show "unat (cr_prefix_bits r) \<le> 8 * length ip"
      and "unat (cr_prefix_bits r) \<le> 8 * length (cr_address r)"
      using assms(2) that(2) by (auto simp: cidr_rule_ok_def)
  qed
  then show ?thesis
    using assms(1) Some
    by (auto simp: curb_cidr_rules_match_def cidr_permits_def cidr_rules_ok_def list_ex_iff)
qed

lemma store_destination_blocked:
  "unsafe_destination_blocked (curb_store_destination_error addr reason rbce)"
  "unsafe_destination_error (curb_store_destination_error addr reason rbce) \<noteq> []"
  "unsafe_destination_blocked (curb_store_host_allowlist_error host rbce)"
  "unsafe_destination_error (curb_store_host_allowlist_error host rbce) \<noteq> []"
  by (simp_all add: curb_store_destination_error_def curb_store_host_allowlist_error_def
      snprintf_error_def Let_def split: option.splits)

definition reports_block :: "ruby_curl_easy \<Rightarrow> bool" where
  "reports_block rbce \<longleftrightarrow> fst (ruby_curl_easy_unsafe_destination_error_get rbce) \<noteq> Inr Qnil"

lemma reports_block_stores:
  "reports_block (curb_store_destination_error addr reason rbce)"
  "reports_block (curb_store_unsafe_destination_error addr rbce)"
  "reports_block (curb_store_host_allowlist_error host rbce)"
  using store_destination_blocked
  by (simp_all add: reports_block_def ruby_curl_easy_unsafe_destination_error_get_def
      curb_store_unsafe_destination_error_def)

lemma opensocket_decision:
  assumes "cidr_rules_ok rbce" and "sockaddr_ok a"
  shows "destination_permitted rbce a \<Longrightarrow>
      curb_public_network_opensocket ntop6 socket (Some a) rbce = (socket a, rbce)"
    and "\<not> destination_permitted rbce a \<Longrightarrow>
      \<exists>s'. curb_public_network_opensocket ntop6 socket (Some a) rbce = (CURL_SOCKET_BAD, s') \<and>
           reports_block s'"
proof -
  have v4: "opensocket_check_ipv4 a \<Longrightarrow>
      (curb_ipv4_is_unsafe_destination (sin_addr a) \<longleftrightarrow>
        list_ex (in_block (sin_addr a)) unsafe_ipv4_blocks) \<and>
      (curb_cidr_rules_match rbce 4 (sin_addr a) \<longleftrightarrow> cidr_permits rbce 4 (sin_addr a))"
    using assms unsafe_ipv4_in_block [of "sin_addr a"]
      cidr_rules_match_permits [of rbce 4 "sin_addr a"]
    by (simp add: opensocket_check_ipv4_def sockaddr_ok_def)
  have v6: "opensocket_check_ipv6 a \<Longrightarrow>
      (curb_ipv6_is_unsafe_destination (sin_addr a) \<longleftrightarrow> ipv6_blocked (sin_addr a)) \<and>
      (curb_cidr_rules_match rbce 6 (sin_addr a) \<longleftrightarrow> cidr_permits rbce 6 (sin_addr a))"
    using assms unsafe_ipv6_blocked [of "sin_addr a"]
      cidr_rules_match_permits [of rbce 6 "sin_addr a"]
    by (simp add: opensocket_check_ipv6_def sockaddr_ok_def)
  have none: "0 < network_allowed_cidr_rule_count rbce \<longleftrightarrow> network_allowed_cidr_rules rbce \<noteq> None"
    using assms(1) by (auto simp: cidr_rules_ok_def split: option.splits)
  have excl: "\<not> (opensocket_check_ipv4 a \<and> opensocket_check_ipv6 a)"
    by (auto simp: opensocket_check_ipv4_def opensocket_check_ipv6_def)
  have perm: "destination_permitted rbce a \<longleftrightarrow>
     (if opensocket_check_ipv4 a then
        \<not> list_ex (in_block (sin_addr a)) unsafe_ipv4_blocks \<and> cidr_permits rbce 4 (sin_addr a)
      else if opensocket_check_ipv6 a then
        \<not> ipv6_blocked (sin_addr a) \<and> cidr_permits rbce 6 (sin_addr a)
      else network_allowed_cidr_rules rbce = None)"
    by (simp add: destination_permitted_def opensocket_check_ipv4_def opensocket_check_ipv6_def)
  show "destination_permitted rbce a \<Longrightarrow>
      curb_public_network_opensocket ntop6 socket (Some a) rbce = (socket a, rbce)"
    unfolding perm curb_public_network_opensocket_def
    using v4 v6 none excl by (auto split: if_splits)
  show "\<not> destination_permitted rbce a \<Longrightarrow>
      \<exists>s'. curb_public_network_opensocket ntop6 socket (Some a) rbce = (CURL_SOCKET_BAD, s') \<and>
           reports_block s'"
    unfolding perm curb_public_network_opensocket_def
    using v4 v6 none excl reports_block_stores by (auto split: if_splits)
qed

lemma prereq_decision:
  assumes "host_rules_ok rbce" and "curb_try_normalize_host_value url = Inr (Some host)"
  shows "(\<forall>hs. network_allowed_hosts rbce = Some hs \<longrightarrow> host \<in> set hs) \<Longrightarrow>
      curb_host_allowlist_prereq (0, Some url) rbce = (0, rbce)"
    and "network_allowed_hosts rbce = Some hs \<Longrightarrow> host \<notin> set hs \<Longrightarrow>
      \<exists>s'. curb_host_allowlist_prereq (0, Some url) rbce = (1, s') \<and> reports_block s'"
  using assms reports_block_stores(3)
  by (auto simp: curb_host_allowlist_prereq_def curb_host_rules_match_def host_rules_ok_def
      list_ex_iff split: option.splits)

section \<open>The setters\<close>

lemma set_skip: "set (skip_front P s) \<subseteq> set s" "set (skip_back P s) \<subseteq> set s"
  unfolding skip_front_def skip_back_def using set_dropWhileD by fastforce+

lemma set_takeWhile_subset: "set (takeWhile P xs) \<subseteq> set xs"
  by (auto dest: set_takeWhileD)

lemma set_after_last_at: "set (after_last_at s) \<subseteq> set s"
  using set_takeWhile_subset [of "\<lambda>c. c \<noteq> CHR ''@''" "rev s"] by (simp add: after_last_at_def)

lemma downcase_nul:
  assumes "curb_ascii_downcase c = CHR 0x00"
  shows "c = CHR 0x00"
proof (cases "65 \<le> (of_char c :: nat) \<and> (of_char c :: nat) \<le> 90")
  case True
  then have "char_of (of_char c - 65 + 97 :: nat) = CHR 0x00"
    using assms by (simp add: curb_ascii_downcase_def Let_def)
  then have "of_char (char_of (of_char c - 65 + 97 :: nat)) = (0::nat)" by simp
  then show ?thesis using True by simp
next
  case False
  then show ?thesis using assms by (auto simp: curb_ascii_downcase_def Let_def)
qed

lemma host_from_range_chars:
  assumes "curb_normalized_host_from_range r b = Inr (Some h)"
  shows "set h \<subseteq> curb_ascii_downcase ` set r"
proof -
  have "set (skip_back (\<lambda>c. c = CHR ''.'') (skip_back host_blank (skip_front host_blank r))) \<subseteq> set r"
    using set_skip by blast
  moreover have "h = map curb_ascii_downcase
      (skip_back (\<lambda>c. c = CHR ''.'') (skip_back host_blank (skip_front host_blank r)))"
    using assms
    by (auto simp: curb_normalized_host_from_range_def blank_host_error_def Let_def split: if_splits)
  ultimately show ?thesis by auto
qed

lemma normalize_host_chars:
  assumes "curb_normalize_host_value_impl v b = Inr (Some h)"
  shows "set h \<subseteq> curb_ascii_downcase ` set v"
proof -
  define rng where "rng = skip_back host_blank (skip_front host_blank v)"
  define start where "start = (case strstr (skip_front host_blank v) ''://'' of
      Some i \<Rightarrow> if i < length rng then drop (i + 3) rng else rng | None \<Rightarrow> rng)"
  define host where "host = after_last_at (takeWhile (\<lambda>c. \<not> url_delim c) start)"
  have "set rng \<subseteq> set v" using set_skip unfolding rng_def by blast
  moreover have "set start \<subseteq> set rng"
    using set_drop_subset [of _ rng] by (simp add: start_def split: option.splits)
  moreover have "set host \<subseteq> set start"
    unfolding host_def by (rule subset_trans [OF set_after_last_at set_takeWhile_subset])
  ultimately have host: "set host \<subseteq> set v" by blast
  have tl: "set (takeWhile P (tl host)) \<subseteq> set host" for P
    using set_takeWhile_subset [of P "tl host"] by (cases host) auto
  have "\<exists>r. curb_normalized_host_from_range r b = Inr (Some h) \<and> set r \<subseteq> set host"
    using assms tl set_takeWhile_subset [of _ host]
    unfolding curb_normalize_host_value_impl_def Let_def rng_def [symmetric]
      start_def [symmetric] host_def [symmetric]
    by (auto simp: blank_host_error_def split: if_splits) blast
  then show ?thesis using host host_from_range_chars by blast
qed

lemma host_item_no_nul:
  assumes "host_item to_s x = Inr h"
  shows "CHR 0x00 \<notin> set h"
proof -
  obtain v where v: "StringValueCStr (RStr v) = Inr v"
    and h: "curb_normalize_host_value_impl v True = Inr (Some h)"
    using assms
    by (auto simp: host_item_def curb_normalize_host_value_def conv_simps
        split: sum.splits option.splits)
  have "CHR 0x00 \<notin> set v" using v by (simp add: conv_simps)
  then show ?thesis using normalize_host_chars [OF h] downcase_nul by (metis imageE subsetD)
qed

lemma map_res_cstr:
  "\<forall>s \<in> set l. CHR 0x00 \<notin> set s \<Longrightarrow> map_res StringValueCStr (map RStr l) = Inr l"
  by (induction l) (simp_all add: StringValueCStr_def)

lemma prepare_hosts_stored:
  assumes "host_rules_ok rbce" and "rb_easy_get ''allowed_hosts'' rbce = RArr (map RStr l)"
    and "\<forall>s \<in> set l. CHR 0x00 \<notin> set s"
  shows "fst (curb_prepare_network_allowed_hosts rbce) = Inr () \<and>
    network_allowed_hosts (snd (curb_prepare_network_allowed_hosts rbce)) =
      (if l = [] then None else Some l)"
  using assms map_res_cstr [OF assms(3)]
  by (simp add: curb_prepare_network_allowed_hosts_def Let_def stored_array_def)

lemma normalize_host_list_Inr:
  assumes "hosts \<noteq> Qnil" and "\<forall>x \<in> set (list_argument hosts). \<exists>s. host_item to_s x = Inr s"
  obtains l where "curb_normalize_host_list to_s hosts = Inr (Some l)" and "distinct l"
    and "set l = {s. \<exists>x \<in> set (list_argument hosts). host_item to_s x = Inr s}"
proof -
  from assms(2) obtain l where l: "normalize_host_items to_s [] (list_argument hosts) = Inr l"
    using host_list.loop_Inr_iff by blast
  show ?thesis
    using that [of l] assms(1) l host_list.loop_distinct [OF l] host_list.loop_set [OF l]
    by (simp add: curb_normalize_host_list_def)
qed

lemma host_rules_ok_set: "host_rules_ok (rb_easy_set k v rbce) \<longleftrightarrow> host_rules_ok rbce"
  by (simp add: host_rules_ok_def rb_easy_set_def split: option.splits)

lemma network_rules_ok_set: "network_rules_ok (rb_easy_set k v rbce) \<longleftrightarrow> network_rules_ok rbce"
  by (simp add: network_rules_ok_def host_rules_ok_def cidr_rules_ok_def rb_easy_set_def
      split: option.splits)

lemma allowed_hosts_set_keeps:
  "network_rules_ok rbce \<Longrightarrow> network_rules_ok (snd (ruby_curl_easy_allowed_hosts_set to_s hosts rbce))"
  unfolding ruby_curl_easy_allowed_hosts_set_def
  using prepare_hosts_ok [of "rb_easy_set ''allowed_hosts'' _ rbce"] network_rules_ok_set
  by (auto simp: bind_def cmd_defs split: sum.splits prod.splits)
     (metis snd_conv)+

lemma allowed_cidrs_set_keeps:
  assumes "pton_ok pton4 pton6" and "network_rules_ok rbce"
  shows "network_rules_ok (snd (ruby_curl_easy_allowed_cidrs_set pton4 pton6 to_s cidrs rbce))"
  unfolding ruby_curl_easy_allowed_cidrs_set_def
  using prepare_cidr_rules_ok [OF assms(1), of "rb_easy_set ''allowed_cidrs'' _ rbce"]
    clear_rules_ok(1) [of "rb_easy_set ''allowed_cidrs'' _ rbce"] network_rules_ok_set assms(2)
  by (auto simp: bind_def cmd_defs split: sum.splits prod.splits)
     (metis snd_conv)+

section \<open>Properties\<close>

text \<open>The prefix comparison of addresses is equality of the leading bits, for every prefix
  length the two byte strings have.\<close>

theorem ip_prefix_matches_leading_bits:
  assumes "bits \<le> 8 * length ip" and "bits \<le> 8 * length prefix"
  shows "curb_ip_prefix_matches ip prefix bits \<longleftrightarrow>
         take bits (ip_bits ip) = take bits (ip_bits prefix)"
  using prefix_matches_in_block [OF assms] by (simp add: in_block_def)

theorem ip_prefix_matches_leading_bits_witness:
  "curb_ip_prefix_matches [192, 168, 7, 1] [192, 168, 4, 0] 22 \<longleftrightarrow>
   take 22 (ip_bits [192, 168, 7, 1]) = take 22 (ip_bits [192, 168, 4, 0])"
  by (rule ip_prefix_matches_leading_bits) simp_all

text \<open>C27: the IPv4 test of the \<open>:public\<close> policy refuses exactly the addresses of thirteen CIDR
  blocks: unspecified, private, shared, loopback, link-local, protocol assignments,
  documentation, benchmarking, multicast and reserved.\<close>

theorem ipv4_unsafe_is_block_list:
  assumes "length ip = 4"
  shows "curb_ipv4_is_unsafe_destination ip \<longleftrightarrow> list_ex (in_block ip) unsafe_ipv4_blocks"
  by (rule unsafe_ipv4_in_block [OF assms])

theorem ipv4_unsafe_is_block_list_witness:
  "curb_ipv4_is_unsafe_destination [172, 20, 0, 1] \<longleftrightarrow>
   list_ex (in_block [172, 20, 0, 1]) unsafe_ipv4_blocks"
  by (rule ipv4_unsafe_is_block_list) simp

text \<open>C28: the IPv6 test judges an address by its CIDR blocks, and an IPv4-mapped or NAT64 address
  exactly as the IPv4 address inside it, so a private IPv4 address cannot be reached through its
  IPv6 form.\<close>

theorem ipv6_unsafe_is_block_list:
  assumes "length ip = 16" and "length v4 = 4"
  shows "(curb_ipv6_is_unsafe_destination ip \<longleftrightarrow> ipv6_blocked ip) \<and>
         (curb_ipv6_is_unsafe_destination (ipv4_mapped v4) \<longleftrightarrow>
            list_ex (in_block v4) unsafe_ipv4_blocks) \<and>
         (curb_ipv6_is_unsafe_destination (ipv4_nat64 v4) \<longleftrightarrow>
            list_ex (in_block v4) unsafe_ipv4_blocks)"
  using unsafe_ipv6_blocked [OF assms(1)] unsafe_ipv4_in_block [OF assms(2)]
  by (simp add: unsafe_ipv6_mapped unsafe_ipv6_nat64)

theorem ipv6_unsafe_is_block_list_witness:
  "(curb_ipv6_is_unsafe_destination (replicate 16 1) \<longleftrightarrow> ipv6_blocked (replicate 16 1)) \<and>
   (curb_ipv6_is_unsafe_destination (ipv4_mapped [10, 0, 0, 1]) \<longleftrightarrow>
      list_ex (in_block [10, 0, 0, 1]) unsafe_ipv4_blocks)"
  using ipv6_unsafe_is_block_list [of "replicate 16 1" "[10, 0, 0, 1]"] by simp

text \<open>C2: under the \<open>:public\<close> policy libcurl gets a socket for an address only when the address is
  outside every unsafe block and inside the CIDR allowlist (when there is one); then the handle
  is unchanged. Every other address gets \<open>CURL_SOCKET_BAD\<close> and
  \<open>unsafe_destination_error\<close> reports it.\<close>

theorem opensocket_enforces_policy:
  assumes "network_rules_ok rbce" and "sockaddr_ok a"
  shows "if destination_permitted rbce a
         then curb_public_network_opensocket ntop6 socket (Some a) rbce = (socket a, rbce)
         else fst (curb_public_network_opensocket ntop6 socket (Some a) rbce) = CURL_SOCKET_BAD \<and>
              reports_block (snd (curb_public_network_opensocket ntop6 socket (Some a) rbce))"
  using opensocket_decision [of rbce a ntop6 socket] assms
  by (auto simp: network_rules_ok_def)

theorem opensocket_enforces_policy_witness:
  "let a = \<lparr>sa_family = AF_INET, sa_socktype = 1, sa_protocol = 6, sa_addrlen = 16,
            sin_addr = [127, 0, 0, 1]\<rparr>;
       rbce = ruby_curl_easy_allocate 0 0
   in fst (curb_public_network_opensocket (\<lambda>_. None) (\<lambda>_. 5) (Some a) rbce) = CURL_SOCKET_BAD \<and>
      reports_block (snd (curb_public_network_opensocket (\<lambda>_. None) (\<lambda>_. 5) (Some a) rbce))"
proof -
  let ?a = "\<lparr>sa_family = AF_INET, sa_socktype = 1, sa_protocol = 6, sa_addrlen = 16,
            sin_addr = [127, 0, 0, 1]\<rparr> :: curl_sockaddr"
  have ok: "network_rules_ok (ruby_curl_easy_allocate 0 0)"
    by (simp add: network_rules_ok_def cidr_rules_ok_def host_rules_ok_def ruby_curl_easy_allocate_def
        ruby_curl_easy_zero_def zero_flags_def zero_opts_def)
  have "\<not> destination_permitted (ruby_curl_easy_allocate 0 0) ?a"
    using unsafe_ipv4_in_block [of "[127, 0, 0, 1]"]
    by (simp add: destination_permitted_def curb_ipv4_is_unsafe_destination_def)
  then show ?thesis
    using opensocket_enforces_policy [OF ok, of ?a "\<lambda>_. None" "\<lambda>_. 5"]
    by (simp add: sockaddr_ok_def)
qed

text \<open>A CIDR text is read back as written: \<open>address/n\<close> gives a rule with that address, that
  family and that prefix length, for every \<open>n\<close> up to the family's length, and every rule
  the parser accepts has a prefix within its family's bounds.\<close>

theorem parse_cidr_rule_roundtrip:
  assumes "pton_ok pton4 pton6" and "CHR ''/'' \<notin> set address" and "address \<noteq> []"
    and "hd address \<noteq> CHR ''[''" and "cidr_family pton4 pton6 address = Some (family, m, bytes)"
    and "n \<le> m"
  shows "curb_parse_cidr_rule pton4 pton6 (address @ ''/'' @ show_nat n) =
           Inr \<lparr>cr_family = family, cr_prefix_bits = word_of_nat n, cr_address = bytes\<rparr> \<and>
         cidr_rule_ok \<lparr>cr_family = family, cr_prefix_bits = word_of_nat n, cr_address = bytes\<rparr>"
proof -
  have "m \<le> 128" using cidr_family_ok [OF assms(1,5)] by auto
  then have "cidr_prefix m (Some (show_nat n)) = Some (int n)"
    by (rule cidr_prefix_show_nat [OF assms(6)])
  then have parsed: "curb_parse_cidr_rule pton4 pton6 (address @ ''/'' @ show_nat n) =
      Inr \<lparr>cr_family = family, cr_prefix_bits = word_of_nat n, cr_address = bytes\<rparr>"
    using cidr_split_slash [OF assms(2-4)] assms(5)
    by (simp add: curb_parse_cidr_rule_def)
  then show ?thesis using parse_cidr_rule_ok [OF assms(1)] by blast
qed

theorem parse_cidr_rule_roundtrip_witness:
  "curb_parse_cidr_rule (\<lambda>s. if s = ''10.1.0.0'' then Some [10, 1, 0, 0] else None) (\<lambda>_. None)
     (''10.1.0.0'' @ ''/'' @ show_nat 16) =
   Inr \<lparr>cr_family = 4, cr_prefix_bits = 16, cr_address = [10, 1, 0, 0] @ replicate 12 0\<rparr>"
  using parse_cidr_rule_roundtrip
    [of "\<lambda>s. if s = ''10.1.0.0'' then Some [10, 1, 0, 0] else None" "\<lambda>_. None"
        "''10.1.0.0''" 4 32 "[10, 1, 0, 0] @ replicate 12 0" 16]
  by (simp add: pton_ok_def cidr_family_def)



text \<open>assigning \<open>allowed_hosts\<close> either fails without changing the handle, or stores a list
  without duplicates of exactly the normalised hosts, which the getter returns and the request
  check uses. An empty list leaves no check in force.\<close>

theorem allowed_hosts_set_stores_normalized:
  assumes "host_rules_ok rbce" and "hosts \<noteq> Qnil"
  shows "if \<forall>x \<in> set (list_argument hosts). \<exists>s. host_item to_s x = Inr s
         then \<exists>l rbce'. ruby_curl_easy_allowed_hosts_set to_s hosts rbce =
                  (Inr (RArr (map RStr l)), rbce') \<and> distinct l \<and>
                set l = {s. \<exists>x \<in> set (list_argument hosts). host_item to_s x = Inr s} \<and>
                network_allowed_hosts rbce' = (if l = [] then None else Some l)
         else \<exists>e. ruby_curl_easy_allowed_hosts_set to_s hosts rbce = (Inl e, rbce)"
proof (cases "\<forall>x \<in> set (list_argument hosts). \<exists>s. host_item to_s x = Inr s")
  case True
  obtain l where norm: "curb_normalize_host_list to_s hosts = Inr (Some l)" and d: "distinct l"
    and set: "set l = {s. \<exists>x \<in> set (list_argument hosts). host_item to_s x = Inr s}"
    using normalize_host_list_Inr [OF assms(2) True] .
  let ?s = "rb_easy_set ''allowed_hosts'' (RArr (map RStr l)) rbce"
  have "\<forall>s \<in> set l. CHR 0x00 \<notin> set s" using set host_item_no_nul by blast
  then have prep: "fst (curb_prepare_network_allowed_hosts ?s) = Inr ()"
    "network_allowed_hosts (snd (curb_prepare_network_allowed_hosts ?s)) = (if l = [] then None else Some l)"
    using prepare_hosts_stored [of ?s l] assms(1)
    by (simp_all add: host_rules_ok_set rb_easy_get_set)
  have "ruby_curl_easy_allowed_hosts_set to_s hosts rbce =
      (Inr (RArr (map RStr l)), snd (curb_prepare_network_allowed_hosts ?s))"
    using prep(1) norm
    by (auto simp: ruby_curl_easy_allowed_hosts_set_def bind_def cmd_defs curb_dup_string_array_def
        split: prod.splits)
  then show ?thesis using True d set prep(2) by auto
next
  case False
  then obtain e where "curb_normalize_host_list to_s hosts = Inl e"
    using host_list.loop_Inr_iff [of to_s "[]" "list_argument hosts"] assms(2)
    by (cases "normalize_host_items to_s [] (list_argument hosts)")
       (auto simp: curb_normalize_host_list_def)
  then show ?thesis using False
    by (auto simp: ruby_curl_easy_allowed_hosts_set_def bind_def cmd_defs)
qed

theorem allowed_hosts_set_stores_normalized_witness:
  "\<exists>rbce'. ruby_curl_easy_allowed_hosts_set (\<lambda>_. Inr []) (RArr []) (ruby_curl_easy_allocate 0 0) =
     (Inr (RArr []), rbce') \<and> network_allowed_hosts rbce' = None"
proof -
  have "host_rules_ok (ruby_curl_easy_allocate 0 0)"
    by (simp add: host_rules_ok_def ruby_curl_easy_allocate_def
        ruby_curl_easy_zero_def zero_flags_def zero_opts_def)
  from allowed_hosts_set_stores_normalized [OF this, of "RArr []" "\<lambda>_. Inr []"] show ?thesis
    by (auto simp: list_argument_def)
qed

text \<open>Every setter of the allowlists keeps the counts equal to the lengths of the arrays they
  describe and every stored CIDR rule within its family's bounds, on success and on error.\<close>

theorem allowlist_setters_keep_rules_ok:
  assumes "pton_ok pton4 pton6" and "network_rules_ok rbce"
  shows "network_rules_ok (snd (ruby_curl_easy_allowed_hosts_set to_s v rbce)) \<and>
         network_rules_ok (snd (ruby_curl_easy_allowed_cidrs_set pton4 pton6 to_s v rbce)) \<and>
         network_rules_ok (snd (curb_prepare_network_allowed_hosts rbce)) \<and>
         network_rules_ok (snd (curb_prepare_network_allowed_cidr_rules pton4 pton6 rbce))"
  by (intro conjI allowed_hosts_set_keeps allowed_cidrs_set_keeps prepare_hosts_ok
      prepare_cidr_rules_ok assms)

theorem allowlist_setters_keep_rules_ok_witness:
  "network_rules_ok (snd (ruby_curl_easy_allowed_cidrs_set (\<lambda>_. None) (\<lambda>_. None) (\<lambda>_. Inr [])
     (RStr ''10.0.0.0/8'') (ruby_curl_easy_allocate 0 0)))"
proof -
  have "network_rules_ok (ruby_curl_easy_allocate 0 0)"
    by (simp add: network_rules_ok_def cidr_rules_ok_def host_rules_ok_def ruby_curl_easy_allocate_def
        ruby_curl_easy_zero_def zero_flags_def zero_opts_def)
  then show ?thesis
    using allowlist_setters_keep_rules_ok [of "\<lambda>_. None" "\<lambda>_. None"] by (simp add: pton_ok_def)
qed

end
