(* ===== verification/Curb_Callbacks.thy ===== *)
theory Curb_Callbacks
  imports Curb_Easy_State
begin

text \<open>
  The callbacks libcurl calls during a transfer (\<open>ext/curb_easy.c\<close>, the handler functions) and
  the upload object they read from (\<open>ext/curb_upload.c\<close>). A handler runs on the easy handle and
  the Upload object its \<open>opts\<close> refer to (\<open>transfer\<close>); Ruby code it calls (a proc, a stream's
  method) is a parameter, a command that may change that state and may raise.
\<close>

section \<open>The upload object\<close>

record ruby_curl_upload =
  stream :: rvalue
  offset :: size_t

definition ruby_curl_upload_new :: ruby_curl_upload where
  "ruby_curl_upload_new = \<lparr>stream = Qnil, offset = 0\<rparr>"

definition ruby_curl_upload_stream_set :: "rvalue \<Rightarrow> (ruby_curl_upload, rvalue) cmd" where
  "ruby_curl_upload_stream_set v rbcu = (Inr v, rbcu\<lparr>stream := v\<rparr>)"

definition ruby_curl_upload_stream_get :: "(ruby_curl_upload, rvalue) cmd" where
  "ruby_curl_upload_stream_get rbcu = (Inr (stream rbcu), rbcu)"

definition ruby_curl_upload_offset_set :: "rvalue \<Rightarrow> (ruby_curl_upload, rvalue) cmd" where
  "ruby_curl_upload_offset_set v rbcu =
     (case NUM2LONG v of
        Inl e \<Rightarrow> (Inl e, rbcu)
      | Inr n \<Rightarrow> (Inr v, rbcu\<lparr>offset := word_of_int n\<rparr>))"

text \<open>\<open>LONG2NUM\<close> reads the \<open>size_t\<close> as a \<open>long\<close>.\<close>

definition ruby_curl_upload_offset_get :: "(ruby_curl_upload, rvalue) cmd" where
  "ruby_curl_upload_offset_get rbcu = (Inr (RInt (sint (offset rbcu))), rbcu)"

section \<open>User code\<close>

record transfer =
  xfer_easy :: ruby_curl_easy
  xfer_upload :: ruby_curl_upload

record user_code =
  rb_respond_to :: "rvalue \<Rightarrow> string \<Rightarrow> bool"
  rb_funcall :: "rvalue \<Rightarrow> string \<Rightarrow> rvalue list \<Rightarrow> (transfer, rvalue) cmd"

abbreviation upd_easy :: "(ruby_curl_easy \<Rightarrow> ruby_curl_easy) \<Rightarrow> transfer \<Rightarrow> transfer" where
  "upd_easy f s \<equiv> s\<lparr>xfer_easy := f (xfer_easy s)\<rparr>"

section \<open>Storing callback errors\<close>

definition callback_exception :: "exc \<Rightarrow> (transfer, rvalue) cmd" where
  "callback_exception e s = (Inr Qfalse, s)"

definition callback_exception_store_on_easy :: "exc \<Rightarrow> (transfer, rvalue) cmd" where
  "callback_exception_store_on_easy e s =
     (Inr Qfalse,
      if callback_error (xfer_easy s) = None
      then upd_easy (\<lambda>rbce. rbce\<lparr>callback_error := Some e\<rparr>) s else s)"

definition rb_curl_easy_take_callback_error :: "ruby_curl_easy \<Rightarrow> exc option \<times> ruby_curl_easy" where
  "rb_curl_easy_take_callback_error rbce =
     (callback_error rbce, rbce\<lparr>callback_error := None\<rparr>)"

definition ensure_clear_easy_callback_active :: "(transfer, unit) cmd" where
  "ensure_clear_easy_callback_active s =
     (Inr (), upd_easy (\<lambda>rbce. rbce\<lparr>callback_active := False\<rparr>) s)"

definition with_easy_callback_active :: "(transfer, 'a) cmd \<Rightarrow> (transfer, 'a) cmd" where
  "with_easy_callback_active func s =
     rb_ensure func ensure_clear_easy_callback_active
       (upd_easy (\<lambda>rbce. rbce\<lparr>callback_active := True\<rparr>) s)"

definition ruby_curl_easy_enter_native :: "ruby_curl_easy \<Rightarrow> ruby_curl_easy" where
  "ruby_curl_easy_enter_native rbce = rbce\<lparr>native_active := native_active rbce + 1\<rparr>"

definition ruby_curl_easy_leave_native :: "ruby_curl_easy \<Rightarrow> ruby_curl_easy" where
  "ruby_curl_easy_leave_native rbce =
     (if 0 < native_active rbce then rbce\<lparr>native_active := native_active rbce - 1\<rparr> else rbce)"

definition call_stream_read :: "user_code \<Rightarrow> rvalue \<Rightarrow> size_t \<Rightarrow> (transfer, rvalue) cmd" where
  "call_stream_read u strm read_bytes = rb_funcall u strm ''read'' [RInt (uint read_bytes)]"

definition call_stream_to_s :: "user_code \<Rightarrow> rvalue \<Rightarrow> (transfer, rvalue) cmd" where
  "call_stream_to_s u strm = rb_funcall u strm ''to_s'' []"

text \<open>\<open>StringValue\<close>: a string is returned as it is, another object by its \<open>to_str\<close>.\<close>

definition call_string_value :: "user_code \<Rightarrow> rvalue \<Rightarrow> (transfer, rvalue) cmd" where
  "call_string_value u str =
     (case str of
        RStr s \<Rightarrow> ret (RStr s)
      | _ \<Rightarrow> if rb_respond_to u str ''to_str'' then
               bind (rb_funcall u str ''to_str'' []) (\<lambda>v.
                 case v of RStr s \<Rightarrow> ret v | _ \<Rightarrow> lift_res type_error)
             else lift_res type_error)"

definition call_stream_seek :: "user_code \<Rightarrow> rvalue \<Rightarrow> int \<Rightarrow> int \<Rightarrow> (transfer, rvalue) cmd" where
  "call_stream_seek u strm off origin = rb_funcall u strm ''seek'' [RInt off, RInt origin]"

definition rescue_easy_callback :: "(transfer, rvalue) cmd \<Rightarrow> (transfer, rvalue) cmd" where
  "rescue_easy_callback func =
     rb_rescue (with_easy_callback_active func) callback_exception_store_on_easy"

text \<open>\<open>CURL_READFUNC_ABORT\<close> is 0x10000000 and \<open>CURL_SEEKFUNC_FAIL\<close> is 1 where libcurl has
  them.\<close>

definition curl_read_abort_result :: "curl_env \<Rightarrow> size_t" where
  "curl_read_abort_result env = (if have_macro env ''CURL_READFUNC_ABORT'' then 0x10000000 else 0)"

definition curl_seek_fail_result :: "curl_env \<Rightarrow> int" where
  "curl_seek_fail_result env = (if have_macro env ''CURL_SEEKFUNC_FAIL'' then 1 else 1)"

section \<open>Receiving\<close>

definition ruby_curl_easy_body_limit_exceeded :: "size_t \<Rightarrow> (ruby_curl_easy, bool) cmd" where
  "ruby_curl_easy_body_limit_exceeded nbytes rbce =
     (let max_body_bytes = rb_easy_get ''max_body_bytes'' rbce
      in if max_body_bytes = Qnil then (Inr False, rbce)
         else (case NUM2LL max_body_bytes of
                 Inl e \<Rightarrow> (Inl e, rbce)
               | Inr limit \<Rightarrow>
                   if limit \<le> 0 then (Inr False, rbce)
                   else if sint nbytes > limit - downloaded_body_bytes rbce then
                     (Inr True,
                      if callback_error rbce = None
                      then rbce\<lparr>callback_error := Some (Exc ''eCurlErrFileSizeExceeded''
                                  ''Maximum body size exceeded'')\<rparr>
                      else rbce)
                   else (Inr False, rbce\<lparr>downloaded_body_bytes :=
                                      downloaded_body_bytes rbce + sint nbytes\<rparr>)))"

text \<open>\<open>rb_str_buf_cat(out, stream, nbytes)\<close> on a stored buffer.\<close>

definition append_buffer :: "string \<Rightarrow> string \<Rightarrow> size_t \<Rightarrow> ruby_curl_easy \<Rightarrow> ruby_curl_easy" where
  "append_buffer key chunk nbytes rbce =
     (case rb_easy_get key rbce of
        RStr s \<Rightarrow> rb_easy_set key (RStr (s @ take (unat nbytes) chunk)) rbce
      | _ \<Rightarrow> rb_easy_set key (RStr (take (unat nbytes) chunk)) rbce)"

definition default_body_handler ::
  "string \<Rightarrow> size_t \<Rightarrow> size_t \<Rightarrow> (ruby_curl_easy, size_t) cmd" where
  "default_body_handler chunk sz nmemb =
     bind (ruby_curl_easy_body_limit_exceeded (sz * nmemb)) (\<lambda>exceeded.
       if exceeded then ret 0
       else bind (modify (append_buffer ''body_data'' chunk (sz * nmemb))) (\<lambda>_.
              ret (sz * nmemb)))"

definition default_header_handler ::
  "string \<Rightarrow> size_t \<Rightarrow> size_t \<Rightarrow> (ruby_curl_easy, size_t) cmd" where
  "default_header_handler chunk sz nmemb =
     bind (modify (append_buffer ''header_data'' chunk (sz * nmemb))) (\<lambda>_. ret (sz * nmemb))"

section \<open>Sending\<close>

text \<open>A handler on the easy handle alone, run on the transfer.\<close>

definition on_easy :: "(ruby_curl_easy, 'a) cmd \<Rightarrow> (transfer, 'a) cmd" where
  "on_easy m s = (case m (xfer_easy s) of (r, rbce) \<Rightarrow> (r, s\<lparr>xfer_easy := rbce\<rparr>))"

text \<open>The result of \<open>read_data_handler\<close> is the value returned and the bytes copied to
  \<open>ptr\<close>.\<close>

definition read_from_reader ::
  "curl_env \<Rightarrow> user_code \<Rightarrow> rvalue \<Rightarrow> size_t \<Rightarrow> (transfer, size_t \<times> string) cmd" where
  "read_from_reader env u strm read_bytes =
     bind (rescue_easy_callback (call_stream_read u strm read_bytes)) (\<lambda>str.
       if str = Qnil then ret (0, [])
       else bind (rescue_easy_callback (call_string_value u str)) (\<lambda>str.
         case str of
           RStr s \<Rightarrow>
             let str_len = of_nat (length s) :: size_t
             in if str_len > read_bytes then
               bind (modify (upd_easy (\<lambda>rbce. rbce\<lparr>err_buf :=
                       ''read callback returned more data than requested''\<rparr>))) (\<lambda>_.
                 ret (curl_read_abort_result env, []))
             else ret (str_len, take (unat str_len) s)
         | _ \<Rightarrow> ret (curl_read_abort_result env, [])))"

definition read_from_string ::
  "curl_env \<Rightarrow> user_code \<Rightarrow> rvalue \<Rightarrow> size_t \<Rightarrow> (transfer, size_t \<times> string) cmd" where
  "read_from_string env u strm read_bytes =
     bind (rescue_easy_callback (call_stream_to_s u strm)) (\<lambda>str.
     bind (rescue_easy_callback (call_string_value u str)) (\<lambda>str.
       case str of
         RStr s \<Rightarrow>
           bind (gets (\<lambda>t. offset (xfer_upload t))) (\<lambda>off.
             let len = of_nat (length s) :: size_t; remaining = len - off
             in if off \<ge> len then ret (0, [])
                else if remaining \<le> read_bytes then
                  bind (modify (\<lambda>t. t\<lparr>xfer_upload := (xfer_upload t)\<lparr>offset := off + remaining\<rparr>\<rparr>))
                    (\<lambda>_. ret (remaining, take (unat remaining) (drop (unat off) s)))
                else
                  bind (modify (\<lambda>t. t\<lparr>xfer_upload := (xfer_upload t)\<lparr>offset := off + read_bytes\<rparr>\<rparr>))
                    (\<lambda>_. ret (read_bytes, take (unat read_bytes) (drop (unat off) s))))
       | _ \<Rightarrow> ret (curl_read_abort_result env, [])))"

definition read_data_handler ::
  "curl_env \<Rightarrow> user_code \<Rightarrow> size_t \<Rightarrow> size_t \<Rightarrow> (transfer, size_t \<times> string) cmd" where
  "read_data_handler env u sz nmemb s =
     (let upload = rb_easy_get ''upload'' (xfer_easy s); strm = stream (xfer_upload s);
          read_bytes = sz * nmemb
      in if upload = Qnil then (Inr (curl_read_abort_result env, []), s)
         else if rb_respond_to u strm ''read'' then read_from_reader env u strm read_bytes s
         else if rb_respond_to u strm ''to_s'' then read_from_string env u strm read_bytes s
         else (Inr (0, []), s))"

definition seek_data_handler ::
  "curl_env \<Rightarrow> user_code \<Rightarrow> int \<Rightarrow> int \<Rightarrow> (transfer, int) cmd" where
  "seek_data_handler env u off origin s =
     (let upload = rb_easy_get ''upload'' (xfer_easy s); strm = stream (xfer_upload s)
      in if upload = Qnil then (Inr (curl_seek_fail_result env), s)
         else if rb_respond_to u strm ''seek'' then
           bind (rescue_easy_callback (call_stream_seek u strm off origin)) (\<lambda>_ t.
             if callback_error (xfer_easy t) \<noteq> None then (Inr (curl_seek_fail_result env), t)
             else (Inr 0, t)) s
         else (Inr 0, s\<lparr>xfer_upload := (xfer_upload s)\<lparr>offset := word_of_int off\<rparr>\<rparr>))"

section \<open>Procs\<close>

text \<open>The number a data proc returns: an Integer as a \<open>long\<close> (a \<open>RangeError\<close> when it does
  not fit), anything else counts as everything read.\<close>

definition proc_data_handler ::
  "user_code \<Rightarrow> rvalue \<Rightarrow> string \<Rightarrow> size_t \<Rightarrow> size_t \<Rightarrow> (transfer, size_t) cmd" where
  "proc_data_handler u prc chunk sz nmemb =
     bind (rb_funcall u prc ''call'' [RStr (take (unat (sz * nmemb)) chunk)]) (\<lambda>procret.
       case procret of
         RInt i \<Rightarrow> (case NUM2LONG (RInt i) of
                     Inl e \<Rightarrow> lift_res (Inl e)
                   | Inr n \<Rightarrow> ret (word_of_int n))
       | _ \<Rightarrow> ret (sz * nmemb))"

definition call_proc_data_handler_wrapped ::
  "user_code \<Rightarrow> rvalue \<Rightarrow> string \<Rightarrow> size_t \<Rightarrow> size_t \<Rightarrow> (transfer, rvalue) cmd" where
  "call_proc_data_handler_wrapped u prc chunk sz nmemb =
     bind (proc_data_handler u prc chunk sz nmemb) (\<lambda>n. ret (RInt (uint n)))"

text \<open>The value handed back to libcurl: 0 when the proc raised.\<close>

definition data_result :: "rvalue \<Rightarrow> (transfer, size_t) cmd" where
  "data_result procret =
     (if procret = Qfalse \<or> procret = Qnil then ret 0 else lift_res (NUM2ULONG procret))"

definition proc_data_handler_body ::
  "user_code \<Rightarrow> string \<Rightarrow> size_t \<Rightarrow> size_t \<Rightarrow> (transfer, size_t) cmd" where
  "proc_data_handler_body u chunk sz nmemb =
     bind (gets (\<lambda>s. rb_easy_get ''body_proc'' (xfer_easy s))) (\<lambda>prc.
     bind (on_easy (ruby_curl_easy_body_limit_exceeded (sz * nmemb))) (\<lambda>exceeded.
       if exceeded then ret 0
       else bind (rb_rescue
                    (with_easy_callback_active (call_proc_data_handler_wrapped u prc chunk sz nmemb))
                    callback_exception_store_on_easy)
              data_result))"

definition proc_data_handler_header ::
  "user_code \<Rightarrow> string \<Rightarrow> size_t \<Rightarrow> size_t \<Rightarrow> (transfer, size_t) cmd" where
  "proc_data_handler_header u chunk sz nmemb =
     bind (gets (\<lambda>s. rb_easy_get ''header_proc'' (xfer_easy s))) (\<lambda>prc.
     bind (rb_rescue
             (with_easy_callback_active (call_proc_data_handler_wrapped u prc chunk sz nmemb))
             callback_exception_store_on_easy)
       data_result)"

definition call_progress_handler ::
  "user_code \<Rightarrow> rvalue \<Rightarrow> rvalue list \<Rightarrow> (transfer, rvalue) cmd" where
  "call_progress_handler u prc args = rb_funcall u prc ''call'' args"

text \<open>The two callbacks differ in the counts they are given: \<open>double\<close>s, read with \<open>rb_float_new\<close>, where libcurl
  does not have \<open>CURLOPT_XFERINFOFUNCTION\<close>, else \<open>curl_off_t\<close>s.\<close>

definition call_progress_proc :: "user_code \<Rightarrow> rvalue list \<Rightarrow> (transfer, int) cmd" where
  "call_progress_proc u counts s =
     (let prc = rb_easy_get ''progress_proc'' (xfer_easy s)
      in if prc = Qnil then (Inr 0, s)
         else bind (rb_rescue (with_easy_callback_active (call_progress_handler u prc counts)) callback_exception)
                (\<lambda>procret. ret (if procret = Qfalse \<or> procret = Qnil then - 1 else 0)) s)"

definition proc_progress_handler ::
  "('d \<Rightarrow> rvalue) \<Rightarrow> user_code \<Rightarrow> 'd \<Rightarrow> 'd \<Rightarrow> 'd \<Rightarrow> 'd \<Rightarrow> (transfer, int) cmd" where
  "proc_progress_handler rb_float u dltotal dlnow ultotal ulnow =
     call_progress_proc u [rb_float dltotal, rb_float dlnow, rb_float ultotal, rb_float ulnow]"

definition proc_xferinfo_handler ::
  "user_code \<Rightarrow> int \<Rightarrow> int \<Rightarrow> int \<Rightarrow> int \<Rightarrow> (transfer, int) cmd" where
  "proc_xferinfo_handler u dltotal dlnow ultotal ulnow =
     call_progress_proc u [RInt dltotal, RInt dlnow, RInt ultotal, RInt ulnow]"

definition call_debug_handler ::
  "user_code \<Rightarrow> rvalue \<Rightarrow> int \<Rightarrow> string \<Rightarrow> (transfer, rvalue) cmd" where
  "call_debug_handler u prc infotype bytes = rb_funcall u prc ''call'' [RInt infotype, RStr bytes]"

definition proc_debug_handler :: "user_code \<Rightarrow> int \<Rightarrow> string \<Rightarrow> (transfer, int) cmd" where
  "proc_debug_handler u infotype bytes s =
     (let prc = rb_easy_get ''debug_proc'' (xfer_easy s)
      in if prc = Qnil then (Inr 0, s)
         else bind (rb_rescue (with_easy_callback_active (call_debug_handler u prc infotype bytes))
                      callback_exception)
                (\<lambda>_. ret 0) s)"

section \<open>The body limit attribute\<close>

definition ruby_curl_easy_max_body_bytes_set :: "rvalue \<Rightarrow> (ruby_curl_easy, rvalue) cmd" where
  "ruby_curl_easy_max_body_bytes_set val rbce =
     (if val = Qnil then (Inr Qnil, rb_easy_del ''max_body_bytes'' rbce)
      else (case NUM2LL val of
              Inl e \<Rightarrow> (Inl e, rbce)
            | Inr limit \<Rightarrow>
                if limit < 0 then
                  (Inl (Exc ''rb_eArgError'' ''max_body_bytes must be greater than or equal to zero''), rbce)
                else if limit = 0 then (Inr val, rb_easy_del ''max_body_bytes'' rbce)
                else (Inr (RInt limit), rb_easy_set ''max_body_bytes'' (RInt limit) rbce)))"

definition ruby_curl_easy_max_body_bytes_get :: "(ruby_curl_easy, rvalue) cmd" where
  "ruby_curl_easy_max_body_bytes_get = CURB_OBJECT_HGETTER ''max_body_bytes''"

end
