(* ===== verification/Curb_Callbacks_Facts.thy ===== *)
theory Curb_Callbacks_Facts
  imports Curb_Callbacks
begin

text \<open>
  What the transfer callbacks guarantee: the body cap holds over any sequence of chunks, a read
  never copies more than libcurl asked for, a string upload is delivered completely from any
  seek position, user code always runs with \<open>callback_active\<close> set and never leaves it set, and
  the first error of a callback is the one kept.
\<close>

section \<open>The body cap\<close>

definition body_limit :: "ruby_curl_easy \<Rightarrow> int" where
  "body_limit rbce = (case NUM2LL (rb_easy_get ''max_body_bytes'' rbce) of Inl _ \<Rightarrow> 0 | Inr n \<Rightarrow> n)"

text \<open>A receiver with a cap: a chunk that would pass the cap is refused and not counted, any
  other is counted.\<close>

text \<open>libcurl delivers the chunks one after another.\<close>

definition feed :: "(string \<Rightarrow> ('s, size_t) cmd) \<Rightarrow> string list \<Rightarrow> 's \<Rightarrow> 's" where
  "feed handle cs s = foldl (\<lambda>s c. snd (handle c s)) s cs"

lemma feed_simps [simp]:
  "feed handle [] s = s" "feed handle (c # cs) s = feed handle cs (snd (handle c s))"
  by (simp_all add: feed_def)

locale limited_body =
  fixes handle :: "string \<Rightarrow> ('s, size_t) cmd"
    and limit :: "'s \<Rightarrow> int"
    and received :: "'s \<Rightarrow> int"
  assumes refuse: "0 < limit s \<Longrightarrow> length c < 2 ^ 63 \<Longrightarrow> limit s - received s < int (length c) \<Longrightarrow>
      fst (handle c s) = Inr 0 \<and> received (snd (handle c s)) = received s \<and>
      limit (snd (handle c s)) = limit s"
    and accept: "0 < limit s \<Longrightarrow> length c < 2 ^ 63 \<Longrightarrow> int (length c) \<le> limit s - received s \<Longrightarrow>
      received (snd (handle c s)) = received s + int (length c) \<and>
      limit (snd (handle c s)) = limit s"
begin

lemma handle_bound:
  assumes "0 < limit s" and "received s \<le> limit s" and "length c < 2 ^ 63"
  shows "received (snd (handle c s)) \<le> limit s \<and> limit (snd (handle c s)) = limit s"
  using assms refuse [of s c] accept [of s c] by (cases "limit s - received s < int (length c)") auto

lemma feed_bound:
  assumes "0 < limit s" and "received s \<le> limit s" and "\<forall>c \<in> set cs. length c < 2 ^ 63"
  shows "received (feed handle cs s) \<le> limit s \<and> limit (feed handle cs s) = limit s"
  using assms
proof (induction cs arbitrary: s)
  case Nil
  then show ?case by simp
next
  case (Cons c cs)
  then show ?case using handle_bound [of s c] Cons.IH [of "snd (handle c s)"] by simp
qed

lemma feed_all_accepted:
  assumes "0 < limit s" and "received s + int (length (concat cs)) \<le> limit s"
    and "\<forall>c \<in> set cs. length c < 2 ^ 63"
  shows "received (feed handle cs s) = received s + int (length (concat cs))"
  using assms
proof (induction cs arbitrary: s)
  case Nil
  then show ?case by simp
next
  case (Cons c cs)
  then show ?case using accept [of s c] by simp
qed

end

lemma sint_of_nat: "n < 2 ^ 63 \<Longrightarrow> sint (of_nat n :: size_t) = int n"
  by (simp add: signed_of_nat signed_take_bit_int_eq_self)

lemma unat_of_nat_len: "n < 2 ^ 64 \<Longrightarrow> unat (of_nat n :: size_t) = n"
  by (simp add: unsigned_of_nat take_bit_nat_eq_self)

lemma body_limit_pos:
  assumes "0 < body_limit rbce"
  shows "rb_easy_get ''max_body_bytes'' rbce = RInt (body_limit rbce)"
    and "NUM2LL (RInt (body_limit rbce)) = Inr (body_limit rbce)"
  using assms
  by (auto simp: body_limit_def NUM2SIGNED_def type_error_def range_error_def
      split: rvalue.splits if_splits)

lemma limit_exceeded_cases:
  assumes "0 < body_limit rbce"
  shows "sint n > body_limit rbce - downloaded_body_bytes rbce \<Longrightarrow>
      ruby_curl_easy_body_limit_exceeded n rbce =
        (Inr True, if callback_error rbce = None
          then rbce\<lparr>callback_error := Some (Exc ''eCurlErrFileSizeExceeded''
                 ''Maximum body size exceeded'')\<rparr> else rbce)"
    and "sint n \<le> body_limit rbce - downloaded_body_bytes rbce \<Longrightarrow>
      ruby_curl_easy_body_limit_exceeded n rbce =
        (Inr False, rbce\<lparr>downloaded_body_bytes := downloaded_body_bytes rbce + sint n\<rparr>)"
  using body_limit_pos [OF assms] assms
  by (simp_all add: ruby_curl_easy_body_limit_exceeded_def Let_def)

lemma body_limit_frame [simp]:
  "body_limit (rbce\<lparr>callback_error := e\<rparr>) = body_limit rbce"
  "body_limit (rbce\<lparr>downloaded_body_bytes := n\<rparr>) = body_limit rbce"
  "body_limit (append_buffer ''body_data'' c k rbce) = body_limit rbce"
  "downloaded_body_bytes (append_buffer key c k rbce) = downloaded_body_bytes rbce"
  by (simp_all add: body_limit_def rb_easy_get_def append_buffer_def rb_easy_set_def
      split: rvalue.splits)

definition body_chunk :: "string \<Rightarrow> (ruby_curl_easy, size_t) cmd" where
  "body_chunk c = default_body_handler c 1 (of_nat (length c))"

lemma body_chunk_refuse:
  assumes "0 < body_limit s" and "length c < 2 ^ 63"
    and "body_limit s - downloaded_body_bytes s < int (length c)"
  shows "body_chunk c s = (Inr 0, if callback_error s = None
          then s\<lparr>callback_error := Some (Exc ''eCurlErrFileSizeExceeded''
                 ''Maximum body size exceeded'')\<rparr> else s)"
  using limit_exceeded_cases(1) [OF assms(1), of "of_nat (length c)"] assms
  by (simp add: body_chunk_def default_body_handler_def bind_def ret_def sint_of_nat)

lemma body_chunk_accept:
  assumes "0 < body_limit s" and "length c < 2 ^ 63"
    and "int (length c) \<le> body_limit s - downloaded_body_bytes s"
  shows "body_chunk c s = (Inr (of_nat (length c)),
           append_buffer ''body_data'' c (of_nat (length c))
             (s\<lparr>downloaded_body_bytes := downloaded_body_bytes s + int (length c)\<rparr>))"
  using limit_exceeded_cases(2) [OF assms(1), of "of_nat (length c)"] assms
  by (simp add: body_chunk_def default_body_handler_def bind_def cmd_defs sint_of_nat)

interpretation body: limited_body body_chunk body_limit downloaded_body_bytes
  by unfold_locales (simp_all add: body_chunk_refuse body_chunk_accept)

text \<open>The same contract for the check alone, which both body handlers call first.\<close>

definition body_gate :: "string \<Rightarrow> (ruby_curl_easy, size_t) cmd" where
  "body_gate c = bind (ruby_curl_easy_body_limit_exceeded (of_nat (length c))) (\<lambda>exceeded.
     ret (if exceeded then 0 else of_nat (length c)))"

interpretation gate: limited_body body_gate body_limit downloaded_body_bytes
proof unfold_locales
  fix s :: ruby_curl_easy and c :: string
  assume a: "0 < body_limit s" "length c < 2 ^ 63"
  show "body_limit s - downloaded_body_bytes s < int (length c) \<Longrightarrow>
      fst (body_gate c s) = Inr 0 \<and>
      downloaded_body_bytes (snd (body_gate c s)) = downloaded_body_bytes s \<and>
      body_limit (snd (body_gate c s)) = body_limit s"
    using limit_exceeded_cases(1) [OF a(1), of "of_nat (length c)"] a(2)
    by (simp add: body_gate_def bind_def ret_def sint_of_nat)
  show "int (length c) \<le> body_limit s - downloaded_body_bytes s \<Longrightarrow>
      downloaded_body_bytes (snd (body_gate c s)) = downloaded_body_bytes s + int (length c) \<and>
      body_limit (snd (body_gate c s)) = body_limit s"
    using limit_exceeded_cases(2) [OF a(1), of "of_nat (length c)"] a(2)
    by (simp add: body_gate_def bind_def ret_def sint_of_nat)
qed

text \<open>What the body buffer holds.\<close>

definition body_str :: "ruby_curl_easy \<Rightarrow> string" where
  "body_str rbce = (case rb_easy_get ''body_data'' rbce of RStr s \<Rightarrow> s | _ \<Rightarrow> [])"

lemma body_str_frame [simp]:
  "body_str (rbce\<lparr>callback_error := e\<rparr>) = body_str rbce"
  "body_str (rbce\<lparr>downloaded_body_bytes := n\<rparr>) = body_str rbce"
  by (simp_all add: body_str_def rb_easy_get_def)

lemma body_str_append: "body_str (append_buffer ''body_data'' c k rbce) = body_str rbce @ take (unat k) c"
  by (simp add: body_str_def append_buffer_def rb_easy_get_set split: rvalue.splits)

lemma body_chunk_str:
  assumes "0 < body_limit s" and "length c < 2 ^ 63"
    and "int (length (body_str s)) = downloaded_body_bytes s"
  shows "int (length (body_str (snd (body_chunk c s)))) = downloaded_body_bytes (snd (body_chunk c s))"
proof (cases "body_limit s - downloaded_body_bytes s < int (length c)")
  case True
  then show ?thesis using body_chunk_refuse [OF assms(1,2)] assms(3) by simp
next
  case False
  then show ?thesis
    using body_chunk_accept [OF assms(1,2)] assms(2,3) by (simp add: body_str_append unat_of_nat_len)
qed

lemma feed_body_str:
  assumes "0 < body_limit s" and "downloaded_body_bytes s \<le> body_limit s"
    and "\<forall>c \<in> set cs. length c < 2 ^ 63"
    and "int (length (body_str s)) = downloaded_body_bytes s"
  shows "int (length (body_str (feed body_chunk cs s))) = downloaded_body_bytes (feed body_chunk cs s)"
  using assms
proof (induction cs arbitrary: s)
  case Nil
  then show ?case by simp
next
  case (Cons c cs)
  then show ?case
    using body.handle_bound [of s c] body_chunk_str [of s c] by simp
qed

section \<open>Dispatching user code\<close>

text \<open>The contract of a dispatcher of user code: the code runs with \<open>callback_active\<close> set (only
  its behaviour there matters), and the flag is clear afterwards, on every exit.\<close>

locale callback_dispatch =
  fixes dispatch :: "(transfer, rvalue) cmd \<Rightarrow> (transfer, rvalue) cmd"
  assumes inactive_after: "\<not> callback_active (xfer_easy (snd (dispatch f s)))"
    and runs_active: "(\<And>t. callback_active (xfer_easy t) \<Longrightarrow> f t = g t) \<Longrightarrow> dispatch f s = dispatch g s"
begin

text \<open>An operation that refuses to run in a callback is, from user code, the refusal.\<close>

lemma guarded_operation:
  assumes "\<And>t. callback_active (xfer_easy t) \<Longrightarrow> op t = (Inl e, t)"
  shows "dispatch op s = dispatch (rb_exc_raise e) s"
  by (rule runs_active) (simp add: assms rb_exc_raise_def)

end

lemma with_active_eq:
  "with_easy_callback_active f s =
     (fst (f (upd_easy (\<lambda>r. r\<lparr>callback_active := True\<rparr>) s)),
      upd_easy (\<lambda>r. r\<lparr>callback_active := False\<rparr>)
        (snd (f (upd_easy (\<lambda>r. r\<lparr>callback_active := True\<rparr>) s))))"
  by (simp add: with_easy_callback_active_def rb_ensure_def ensure_clear_easy_callback_active_def
      split: prod.splits)

interpretation active_dispatch: callback_dispatch with_easy_callback_active
  by unfold_locales (simp_all add: with_active_eq)

interpretation rescue_dispatch: callback_dispatch rescue_easy_callback
proof unfold_locales
  show "\<not> callback_active (xfer_easy (snd (rescue_easy_callback f s)))" for f s
    by (simp add: rescue_easy_callback_def rb_rescue_def with_active_eq
        callback_exception_store_on_easy_def split: sum.splits)
  show "rescue_easy_callback f s = rescue_easy_callback g s"
    if "\<And>t. callback_active (xfer_easy t) \<Longrightarrow> f t = g t" for f g s
    using active_dispatch.runs_active [of f g s] that
    by (simp add: rescue_easy_callback_def rb_rescue_def)
qed

lemma rescue_raise:
  assumes "f (upd_easy (\<lambda>r. r\<lparr>callback_active := True\<rparr>) s) = (Inl e, t)" and "standard_error e"
  shows "rescue_easy_callback f s =
     (Inr Qfalse, upd_easy (\<lambda>r. r\<lparr>callback_active := False,
        callback_error := (if callback_error r = None then Some e else callback_error r)\<rparr>) t)"
  using assms
  by (auto simp: rescue_easy_callback_def rb_rescue_def with_active_eq
      callback_exception_store_on_easy_def)

lemma rescue_return:
  assumes "f (upd_easy (\<lambda>r. r\<lparr>callback_active := True\<rparr>) s) = (Inr v, t)"
  shows "rescue_easy_callback f s = (Inr v, upd_easy (\<lambda>r. r\<lparr>callback_active := False\<rparr>) t)"
  using assms by (simp add: rescue_easy_callback_def rb_rescue_def with_active_eq)

section \<open>Reading an upload\<close>

lemma read_from_reader_bound:
  assumes "read_from_reader env u strm n s = (Inr (k, bytes), t)"
  shows "length bytes \<le> unat n"
proof -
  have fits: "min l (unat (of_nat l :: size_t)) \<le> unat n" if "\<not> n < of_nat l" for l
    using that by (simp add: word_less_nat_alt)
  from assms obtain a t1 where
    cont: "(if a = Qnil then ret (0, [])
       else bind (rescue_easy_callback (call_string_value u a)) (\<lambda>str.
         case str of
           RStr s \<Rightarrow>
             let str_len = of_nat (length s) :: size_t
             in if str_len > n then
               bind (modify (upd_easy (\<lambda>rbce. rbce\<lparr>err_buf :=
                       ''read callback returned more data than requested''\<rparr>))) (\<lambda>_.
                 ret (curl_read_abort_result env, []))
             else ret (str_len, take (unat str_len) s)
         | _ \<Rightarrow> ret (curl_read_abort_result env, []))) t1 = (Inr (k, bytes), t)"
    unfolding read_from_reader_def by (rule bind_InrE)
  then show ?thesis
    by (cases "a = Qnil")
       (auto simp: cmd_simps Let_def fits split: rvalue.splits if_splits elim!: bind_InrE)
qed

lemma read_from_string_bound:
  assumes "read_from_string env u strm n s = (Inr (k, bytes), t)"
  shows "length bytes \<le> unat n"
  using assms unfolding read_from_string_def
  by (elim bind_InrE)
     (auto simp: cmd_defs bind_def Let_def word_le_nat_alt split: rvalue.splits if_splits
        elim!: bind_InrE)

text \<open>An upload whose stream only has \<open>to_s\<close>, with a fixed text.\<close>

definition string_upload :: "user_code \<Rightarrow> string \<Rightarrow> transfer \<Rightarrow> bool" where
  "string_upload u text s \<longleftrightarrow>
     rb_easy_get ''upload'' (xfer_easy s) \<noteq> Qnil \<and>
     \<not> rb_respond_to u (stream (xfer_upload s)) ''read'' \<and>
     rb_respond_to u (stream (xfer_upload s)) ''to_s'' \<and>
     (\<forall>t. rb_funcall u (stream (xfer_upload s)) ''to_s'' [] t = (Inr (RStr text), t))"

definition upload_at :: "nat \<Rightarrow> transfer \<Rightarrow> transfer" where
  "upload_at k s = upd_easy (\<lambda>r. r\<lparr>callback_active := False\<rparr>)
     (s\<lparr>xfer_upload := (xfer_upload s)\<lparr>offset := of_nat k\<rparr>\<rparr>)"

lemma string_upload_at: "string_upload u text (upload_at k s) \<longleftrightarrow> string_upload u text s"
  by (simp add: string_upload_def upload_at_def rb_easy_get_def)

lemma offset_upload_at: "k < 2 ^ 64 \<Longrightarrow> unat (offset (xfer_upload (upload_at k s))) = k"
  by (simp add: upload_at_def unat_of_nat_len)

lemma upload_at_again: "upload_at k (upload_at j s) = upload_at k s"
  by (simp add: upload_at_def)

lemma rescue_string_value:
  "rescue_easy_callback (call_string_value u (RStr text)) s =
     (Inr (RStr text), upd_easy (\<lambda>r. r\<lparr>callback_active := False\<rparr>) s)"
  using rescue_return [of "call_string_value u (RStr text)" s] by (simp add: call_string_value_def ret_def)

lemma string_read_step:
  fixes sz nm :: size_t
  assumes up: "string_upload u text s" and len: "length text < 2 ^ 63"
    and off: "unat (offset (xfer_upload s)) \<le> length text"
  defines "o1 \<equiv> unat (offset (xfer_upload s))"
  defines "b \<equiv> take (unat (sz * nm)) (drop o1 text)"
  shows "read_data_handler env u sz nm s = (Inr (of_nat (length b), b), upload_at (o1 + length b) s)"
proof -
  let ?n = "sz * nm" and ?off = "offset (xfer_upload s)" and ?len = "of_nat (length text) :: size_t"
  have ulen: "unat ?len = length text" using len by (simp add: unat_of_nat_len)
  have read: "read_data_handler env u sz nm s = read_from_string env u (stream (xfer_upload s)) ?n s"
    using up by (simp add: read_data_handler_def string_upload_def Let_def)
  have to_s: "rescue_easy_callback (call_stream_to_s u (stream (xfer_upload s))) s =
      (Inr (RStr text), upd_easy (\<lambda>r. r\<lparr>callback_active := False\<rparr>) s)"
    using up rescue_return [of "call_stream_to_s u (stream (xfer_upload s))" s]
    by (simp add: call_stream_to_s_def string_upload_def)
  have offw: "of_nat o1 = ?off" by (simp add: o1_def)
  have sub: "unat (?len - ?off) = length text - o1"
    using off ulen unat_sub [of ?off ?len] by (simp add: word_le_nat_alt o1_def)
  have ge: "?len \<le> ?off \<longleftrightarrow> length text = o1"
    using off ulen by (auto simp: word_le_nat_alt o1_def)
  have le: "?len - ?off \<le> ?n \<longleftrightarrow> length text - o1 \<le> unat ?n"
    using sub by (simp add: word_le_nat_alt)
  have cases3: "length text = o1 \<or> (length text \<noteq> o1 \<and> length text - o1 \<le> unat ?n) \<or>
      (length text \<noteq> o1 \<and> unat ?n < length text - o1)" by linarith
  have upl: "xfer_upload s\<lparr>offset := ?off\<rparr> = xfer_upload s" by simp
  show ?thesis
    using cases3
  proof (elim disjE conjE)
    assume "length text = o1"
    then show ?thesis
      unfolding read read_from_string_def
      by (simp add: to_s rescue_string_value bind_def cmd_defs Let_def ge b_def upload_at_def offw)
  next
    assume a: "length text \<noteq> o1" "length text - o1 \<le> unat ?n"
    then have "b = drop o1 text" by (simp add: b_def)
    then show ?thesis
      unfolding read read_from_string_def using a off
      by (simp add: to_s rescue_string_value bind_def cmd_defs Let_def ge le sub upload_at_def
          o1_def [symmetric] of_nat_diff offw)
  next
    assume a: "length text \<noteq> o1" "unat ?n < length text - o1"
    then have "length b = unat ?n" by (simp add: b_def)
    then show ?thesis
      unfolding read read_from_string_def using a
      by (simp add: to_s rescue_string_value bind_def cmd_defs Let_def ge le upload_at_def
          o1_def [symmetric] offw b_def)
  qed
qed

text \<open>libcurl calls the read callback again and again with its buffer of \<open>n\<close> bytes.\<close>

fun read_loop :: "curl_env \<Rightarrow> user_code \<Rightarrow> size_t \<Rightarrow> nat \<Rightarrow> transfer \<Rightarrow> string \<times> transfer" where
  "read_loop env u n 0 s = ([], s)"
| "read_loop env u n (Suc k) s =
     (case read_data_handler env u 1 n s of
        (Inl _, t) \<Rightarrow> ([], t)
      | (Inr (_, b), t) \<Rightarrow> (case read_loop env u n k t of (bs, t') \<Rightarrow> (b @ bs, t')))"

lemma read_loop_take:
  assumes "string_upload u text s" and "length text < 2 ^ 63"
    and "unat (offset (xfer_upload s)) \<le> length text"
  shows "fst (read_loop env u n k s) = take (k * unat n) (drop (unat (offset (xfer_upload s))) text)"
  using assms
proof (induction k arbitrary: s)
  case 0
  then show ?case by simp
next
  case (Suc k)
  let ?o = "unat (offset (xfer_upload s))"
  let ?b = "take (unat n) (drop ?o text)"
  let ?t = "upload_at (?o + length ?b) s"
  have step: "read_data_handler env u 1 n s = (Inr (of_nat (length ?b), ?b), ?t)"
    using string_read_step [OF Suc.prems, where sz = 1 and nm = n] by simp
  have bound: "?o + length ?b \<le> length text" using Suc.prems(3) by simp
  then have "?o + length ?b < 2 ^ 64" using Suc.prems(2) by simp
  then have o2: "unat (offset (xfer_upload ?t)) = ?o + length ?b" by (rule offset_upload_at)
  have "fst (read_loop env u n k ?t) = take (k * unat n) (drop (?o + length ?b) text)"
    using Suc.IH [of ?t] Suc.prems(1,2) bound o2 by (simp only: string_upload_at)
  then have "fst (read_loop env u n (Suc k) s) = ?b @ take (k * unat n) (drop (?o + length ?b) text)"
    by (simp add: step case_prod_unfold)
  also have "\<dots> = take (Suc k * unat n) (drop ?o text)"
    by (cases "unat n \<le> length text - ?o") (simp_all add: take_add add.commute [of ?o])
  finally show ?case .
qed

section \<open>Sample inputs\<close>

definition sample_env :: curl_env where
  "sample_env = \<lparr>have_macro = (\<lambda>_. True), libcurl_version_num = 0x080000,
     easy_strerror = (\<lambda>_. ''error''), multi_strerror = (\<lambda>_. ''error''),
     setopt_result = (\<lambda>_ _. 0)\<rparr>"

text \<open>User code with one object: it answers \<open>to_s\<close> with a text and raises from \<open>call\<close>.\<close>

definition sample_user :: "string \<Rightarrow> user_code" where
  "sample_user text = \<lparr>rb_respond_to = (\<lambda>_ m. m = ''to_s''),
     rb_funcall = (\<lambda>_ m _ t. if m = ''to_s'' then (Inr (RStr text), t)
                              else (Inl (Exc ''rb_eRuntimeError'' ''boom''), t))\<rparr>"

definition sample_transfer :: transfer where
  "sample_transfer =
     \<lparr>xfer_easy = rb_easy_set ''upload'' (RObj 1) (ruby_curl_easy_allocate 0 0),
      xfer_upload = ruby_curl_upload_new\<lparr>stream := RObj 2\<rparr>\<rparr>"

definition capped_easy :: ruby_curl_easy where
  "capped_easy = rb_easy_set ''max_body_bytes'' (RInt 10) (ruby_curl_easy_allocate 0 0)"

lemma allocate_get: "rb_easy_get k (ruby_curl_easy_allocate g n) = Qnil"
  by (simp add: ruby_curl_easy_allocate_def ruby_curl_easy_zero_def zero_flags_def zero_opts_def
      rb_easy_get_def)

lemma allocate_body_bytes: "downloaded_body_bytes (ruby_curl_easy_allocate g n) = n"
  by (simp add: ruby_curl_easy_allocate_def ruby_curl_easy_zero_def zero_flags_def zero_opts_def)

lemma capped_easy_facts:
  "body_limit capped_easy = 10" "downloaded_body_bytes capped_easy = 0" "body_str capped_easy = []"
  using allocate_body_bytes [of 0 0]
  by (simp_all add: capped_easy_def body_limit_def body_str_def rb_easy_get_set NUM2SIGNED_def
      allocate_get) (simp add: rb_easy_set_def)

lemma sample_upload: "string_upload (sample_user text) text sample_transfer"
  by (simp add: string_upload_def sample_user_def sample_transfer_def ruby_curl_upload_new_def
      rb_easy_get_set)

section \<open>Properties\<close>

text \<open>C29: with \<open>max_body_bytes\<close> set, the default body handler never holds more than that many
  bytes, whatever chunks libcurl delivers and in whatever sizes: the body buffer has exactly the
  counted bytes, and the count stays within the cap.\<close>

theorem body_never_exceeds_limit:
  assumes "0 < body_limit rbce" and "downloaded_body_bytes rbce = 0" and "body_str rbce = []"
    and "\<forall>c \<in> set chunks. length c < 2 ^ 63"
  shows "int (length (body_str (feed body_chunk chunks rbce))) \<le> body_limit rbce \<and>
         downloaded_body_bytes (feed body_chunk chunks rbce) =
           int (length (body_str (feed body_chunk chunks rbce)))"
  using body.feed_bound [of rbce chunks] feed_body_str [of rbce chunks] assms by simp

theorem body_never_exceeds_limit_witness:
  "int (length (body_str (feed body_chunk [''hello'', ''world!'', ''ok''] capped_easy))) \<le> 10"
  using body_never_exceeds_limit [of capped_easy "[''hello'', ''world!'', ''ok'']"]
  by (simp add: capped_easy_facts)

text \<open>a chunk that would pass the cap is refused by both body handlers: libcurl gets 0, a
  \<open>FileSizeExceeded\<close> error is kept unless one is already there, and the body proc is not
  called; a chunk within the cap is counted.\<close>

theorem body_limit_refuses_excess:
  assumes "0 < body_limit (xfer_easy s)" and "length c < 2 ^ 63"
    and "body_limit (xfer_easy s) - downloaded_body_bytes (xfer_easy s) < int (length c)"
  shows "proc_data_handler_body u c 1 (of_nat (length c)) s =
           (Inr 0, s\<lparr>xfer_easy := snd (body_chunk c (xfer_easy s))\<rparr>) \<and>
         fst (body_chunk c (xfer_easy s)) = Inr 0 \<and>
         callback_error (snd (body_chunk c (xfer_easy s))) \<noteq> None \<and>
         body_str (snd (body_chunk c (xfer_easy s))) = body_str (xfer_easy s)"
proof -
  have "sint (of_nat (length c) :: size_t) > body_limit (xfer_easy s) - downloaded_body_bytes (xfer_easy s)"
    using assms(2,3) by (simp add: sint_of_nat)
  from limit_exceeded_cases(1) [OF assms(1) this] body_chunk_refuse [OF assms]
  show ?thesis
    by (auto simp: proc_data_handler_body_def bind_def on_easy_def cmd_defs)
qed

theorem body_limit_refuses_excess_witness:
  "fst (proc_data_handler_body (sample_user []) ''hello world'' 1 11
     \<lparr>xfer_easy = capped_easy, xfer_upload = ruby_curl_upload_new\<rparr>) = Inr 0"
  using body_limit_refuses_excess
    [of "\<lparr>xfer_easy = capped_easy, xfer_upload = ruby_curl_upload_new\<rparr>" "''hello world''"
        "sample_user []"]
  by (simp add: capped_easy_facts)

text \<open>C30: the read callback never copies more bytes into libcurl's buffer than the buffer holds,
  whatever the stream returns.\<close>

theorem read_never_overruns_buffer:
  assumes "read_data_handler env u sz nmemb s = (Inr (k, bytes), t)"
  shows "length bytes \<le> unat (sz * nmemb)"
  using assms read_from_reader_bound [of env u "stream (xfer_upload s)" "sz * nmemb"]
    read_from_string_bound [of env u "stream (xfer_upload s)" "sz * nmemb"]
  by (auto simp: read_data_handler_def Let_def split: if_splits)

theorem read_never_overruns_buffer_witness:
  "\<exists>k bytes t. read_data_handler sample_env (sample_user ''hello'') 1 4 sample_transfer =
     (Inr (k, bytes), t) \<and> length bytes \<le> 4"
proof -
  obtain k bytes t where
    r: "read_data_handler sample_env (sample_user ''hello'') 1 4 sample_transfer = (Inr (k, bytes), t)"
    using string_read_step [OF sample_upload [of "''hello''"], where sz = 1 and nm = 4]
    by (simp add: sample_transfer_def ruby_curl_upload_new_def)
  then show ?thesis using read_never_overruns_buffer [OF r] by simp
qed

text \<open>C31: an upload of a string is delivered completely and in order: from any position libcurl
  seeks to, enough reads of any positive buffer size return exactly the rest of the text, and
  then nothing more.\<close>

theorem string_upload_complete:
  assumes "string_upload u text s" and "\<not> rb_respond_to u (stream (xfer_upload s)) ''seek''"
    and "length text < 2 ^ 63" and "pos \<le> length text" and "0 < n"
    and "length text - pos \<le> k * unat n"
    and "seek_data_handler env u (int pos) 0 s = (Inr rc, t)"
  shows "rc = 0 \<and> fst (read_loop env u n k t) = drop pos text"
proof -
  have t: "rc = 0" "t = s\<lparr>xfer_upload := (xfer_upload s)\<lparr>offset := of_nat pos\<rparr>\<rparr>"
    using assms(1,2,7) by (auto simp: seek_data_handler_def string_upload_def Let_def)
  have up: "string_upload u text t" using assms(1) by (simp add: t string_upload_def)
  have o: "unat (offset (xfer_upload t)) = pos"
    using assms(3,4) by (simp add: t unat_of_nat_len)
  show ?thesis
    using read_loop_take [OF up assms(3), of env n k] o assms(4,6) t(1) by simp
qed

theorem string_upload_complete_witness:
  "fst (read_loop sample_env (sample_user ''hello'') 2 3
     (snd (seek_data_handler sample_env (sample_user ''hello'') 1 0 sample_transfer))) = ''ello''"
proof -
  obtain rc t where
    r: "seek_data_handler sample_env (sample_user ''hello'') (int 1) 0 sample_transfer = (Inr rc, t)"
    by (simp add: seek_data_handler_def sample_transfer_def rb_easy_get_set sample_user_def Let_def)
  have "rc = 0 \<and> fst (read_loop sample_env (sample_user ''hello'') 2 3 t) = drop 1 ''hello''"
    by (rule string_upload_complete [OF sample_upload _ _ _ _ _ r])
       (simp_all add: sample_user_def)
  then show ?thesis using r by simp
qed

text \<open>C32: user code called from libcurl always runs with \<open>callback_active\<close> set and the flag is
  clear when the dispatcher returns, even when the code raises; so an operation that refuses to
  run in a callback can only refuse there.\<close>

theorem callback_flag_brackets_user_code:
  shows "\<not> callback_active (xfer_easy (snd (with_easy_callback_active f s))) \<and>
         \<not> callback_active (xfer_easy (snd (rescue_easy_callback f s))) \<and>
         ((\<forall>t. callback_active (xfer_easy t) \<longrightarrow> f t = (Inl e, t)) \<longrightarrow>
            rescue_easy_callback f s = rescue_easy_callback (rb_exc_raise e) s)"
  using active_dispatch.inactive_after [of f s] rescue_dispatch.inactive_after [of f s]
    rescue_dispatch.guarded_operation [of f e s] by blast

theorem callback_flag_brackets_user_code_witness:
  "rescue_easy_callback (\<lambda>t. if callback_active (xfer_easy t)
       then (Inl (Exc ''rb_eRuntimeError'' ''busy''), t) else (Inr Qnil, t)) sample_transfer =
   rescue_easy_callback (rb_exc_raise (Exc ''rb_eRuntimeError'' ''busy'')) sample_transfer"
  using callback_flag_brackets_user_code
    [of "\<lambda>t. if callback_active (xfer_easy t)
       then (Inl (Exc ''rb_eRuntimeError'' ''busy''), t) else (Inr Qnil, t)" sample_transfer
       "Exc ''rb_eRuntimeError'' ''busy''"] by simp

text \<open>When a body proc raises, libcurl gets 0 (which aborts the transfer), the first error
  raised is the one kept, and taking it returns it once.\<close>

theorem first_callback_error_kept:
  assumes "rb_easy_get ''max_body_bytes'' (xfer_easy s) = Qnil"
    and "\<And>t args. rb_funcall u (rb_easy_get ''body_proc'' (xfer_easy s)) ''call'' args t = (Inl e, t)"
    and "standard_error e"
  shows "\<exists>s'. proc_data_handler_body u c sz nm s = (Inr 0, s') \<and>
     (let first = (case callback_error (xfer_easy s) of None \<Rightarrow> e | Some e0 \<Rightarrow> e0)
      in fst (rb_curl_easy_take_callback_error (xfer_easy s')) = Some first \<and>
         callback_error (snd (rb_curl_easy_take_callback_error (xfer_easy s'))) = None)"
proof -
  let ?prc = "rb_easy_get ''body_proc'' (xfer_easy s)"
  let ?call = "call_proc_data_handler_wrapped u ?prc c sz nm"
  have "?call t = (Inl e, t)" for t
    by (simp add: call_proc_data_handler_wrapped_def proc_data_handler_def bind_def assms(2))
  then have "rescue_easy_callback ?call s =
      (Inr Qfalse, upd_easy (\<lambda>r. r\<lparr>callback_active := False,
        callback_error := (if callback_error r = None then Some e else callback_error r)\<rparr>)
        (upd_easy (\<lambda>r. r\<lparr>callback_active := True\<rparr>) s))"
    by (rule rescue_raise [OF _ assms(3)])
  then have "proc_data_handler_body u c sz nm s =
      (Inr 0, upd_easy (\<lambda>r. r\<lparr>callback_active := False,
        callback_error := (if callback_error r = None then Some e else callback_error r)\<rparr>) s)"
    using assms(1)
    by (simp add: proc_data_handler_body_def bind_def cmd_defs on_easy_def data_result_def
        ruby_curl_easy_body_limit_exceeded_def rescue_easy_callback_def)
  then show ?thesis
    by (auto simp: rb_curl_easy_take_callback_error_def Let_def split: option.splits)
qed

theorem first_callback_error_kept_witness:
  "\<exists>s'. proc_data_handler_body (sample_user []) ''hello'' 1 5 sample_transfer = (Inr 0, s') \<and>
     fst (rb_curl_easy_take_callback_error (xfer_easy s')) =
       Some (Exc ''rb_eRuntimeError'' ''boom'')"
proof -
  have none: "callback_error (xfer_easy sample_transfer) = None"
    by (simp add: sample_transfer_def rb_easy_set_def ruby_curl_easy_allocate_def
        ruby_curl_easy_zero_def zero_flags_def)
  have "\<exists>s'. proc_data_handler_body (sample_user []) ''hello'' 1 5 sample_transfer = (Inr 0, s') \<and>
     (let first = (case callback_error (xfer_easy sample_transfer) of
          None \<Rightarrow> Exc ''rb_eRuntimeError'' ''boom'' | Some e0 \<Rightarrow> e0)
      in fst (rb_curl_easy_take_callback_error (xfer_easy s')) = Some first \<and>
         callback_error (snd (rb_curl_easy_take_callback_error (xfer_easy s'))) = None)"
    by (rule first_callback_error_kept)
       (simp_all add: sample_transfer_def rb_easy_get_set allocate_get sample_user_def
          standard_error_def)
  then show ?thesis by (auto simp: none)
qed

end
