(* ===== verification/Curb_Postfield.thy ===== *)
theory Curb_Postfield
  imports Curb_Prelude
begin

text \<open>
  \<open>Curl::PostField\<close> (\<open>ext/curb_postfield.c\<close>): the two constructors, the attributes, the
  conversion to a multipart form part (\<open>append_to_form\<close>) and to a url-encoded string
  (\<open>to_str\<close>). The form under construction is the list of its parts. \<open>curl_formadd\<close>'s
  result, \<open>curl_easy_escape\<close>, the transcoding to UTF-8 and the content proc are parameters.
\<close>

section \<open>Fields and form parts\<close>

record ruby_curl_postfield =
  pf_name :: rvalue
  pf_content :: rvalue
  pf_content_type :: rvalue
  pf_content_proc :: rvalue
  pf_local_file :: rvalue
  pf_remote_file :: rvalue
  pf_buffer_str :: rvalue

text \<open>What one \<open>curl_formadd\<close> call describes: a buffer sent as a file (\<open>CURLFORM_BUFFER\<close>), a
  local file (\<open>CURLFORM_FILE\<close>) or plain contents (\<open>CURLFORM_PTRCONTENTS\<close>), each with its
  name and an optional content type.\<close>

datatype form_part =
    BufferPart (part_name: string) (part_filename: string) (part_bytes: string) (part_type: "string option")
  | FilePart (part_name: string) (part_path: string) (part_filename: string) (part_type: "string option")
  | ContentPart (part_name: string) (part_bytes: string) (part_type: "string option")

record form_state =
  field :: ruby_curl_postfield
  form :: "form_part list"

section \<open>Constructors\<close>

text \<open>The arguments and the block (\<open>Qnil\<close> when none), as \<open>rb_scan_args\<close> reads them:
  missing optional arguments are nil.\<close>

definition arg :: "rvalue list \<Rightarrow> nat \<Rightarrow> rvalue" where
  "arg argv i = (if i < length argv then argv ! i else Qnil)"

definition arity_error :: "'a res" where
  "arity_error = Inl (Exc ''rb_eArgError'' ''wrong number of arguments'')"

definition ruby_curl_postfield_new_content :: "rvalue list \<Rightarrow> rvalue \<Rightarrow> ruby_curl_postfield res" where
  "ruby_curl_postfield_new_content argv block =
     (if length argv < 1 \<or> 3 < length argv then arity_error
      else
        let name = arg argv 0; content = arg argv 1; content_type = arg argv 2
        in if block \<noteq> Qnil then
             Inr \<lparr>pf_name = name, pf_content = Qnil,
                  pf_content_type = (if content \<noteq> Qnil then content else Qnil),
                  pf_content_proc = block, pf_local_file = Qnil, pf_remote_file = Qnil,
                  pf_buffer_str = Qnil\<rparr>
           else if content = Qnil then
             Inl (Exc ''rb_eArgError'' ''Incorrect number of arguments (expected 2 or 3)'')
           else
             Inr \<lparr>pf_name = name, pf_content = content, pf_content_type = content_type,
                  pf_content_proc = Qnil, pf_local_file = Qnil, pf_remote_file = Qnil,
                  pf_buffer_str = Qnil\<rparr>)"

definition ruby_curl_postfield_new_file :: "rvalue list \<Rightarrow> rvalue \<Rightarrow> ruby_curl_postfield res" where
  "ruby_curl_postfield_new_file argv block =
     (if length argv < 2 \<or> 3 < length argv then arity_error
      else
        let name = arg argv 0; local_file = arg argv 1; remote_file = arg argv 2;
            files = (if block \<noteq> Qnil then
                       (if local_file \<noteq> Qnil
                        then (Qnil, if remote_file = Qnil then local_file else remote_file)
                        else (local_file, remote_file))
                     else (local_file, if remote_file = Qnil then local_file else remote_file))
        in Inr \<lparr>pf_name = name, pf_content = Qnil, pf_content_type = Qnil,
                pf_content_proc = block, pf_local_file = fst files, pf_remote_file = snd files,
                pf_buffer_str = Qnil\<rparr>)"

section \<open>Attributes\<close>

definition ruby_curl_postfield_name_set :: "rvalue \<Rightarrow> (ruby_curl_postfield, rvalue) cmd" where
  "ruby_curl_postfield_name_set v pf = (Inr v, pf\<lparr>pf_name := v\<rparr>)"

definition ruby_curl_postfield_name_get :: "(ruby_curl_postfield, rvalue) cmd" where
  "ruby_curl_postfield_name_get pf = (Inr (pf_name pf), pf)"

definition ruby_curl_postfield_content_set :: "rvalue \<Rightarrow> (ruby_curl_postfield, rvalue) cmd" where
  "ruby_curl_postfield_content_set v pf = (Inr v, pf\<lparr>pf_content := v\<rparr>)"

definition ruby_curl_postfield_content_get :: "(ruby_curl_postfield, rvalue) cmd" where
  "ruby_curl_postfield_content_get pf = (Inr (pf_content pf), pf)"

definition ruby_curl_postfield_content_type_set :: "rvalue \<Rightarrow> (ruby_curl_postfield, rvalue) cmd" where
  "ruby_curl_postfield_content_type_set v pf = (Inr v, pf\<lparr>pf_content_type := v\<rparr>)"

definition ruby_curl_postfield_content_type_get :: "(ruby_curl_postfield, rvalue) cmd" where
  "ruby_curl_postfield_content_type_get pf = (Inr (pf_content_type pf), pf)"

definition ruby_curl_postfield_local_file_set :: "rvalue \<Rightarrow> (ruby_curl_postfield, rvalue) cmd" where
  "ruby_curl_postfield_local_file_set v pf = (Inr v, pf\<lparr>pf_local_file := v\<rparr>)"

definition ruby_curl_postfield_local_file_get :: "(ruby_curl_postfield, rvalue) cmd" where
  "ruby_curl_postfield_local_file_get pf = (Inr (pf_local_file pf), pf)"

definition ruby_curl_postfield_remote_file_set :: "rvalue \<Rightarrow> (ruby_curl_postfield, rvalue) cmd" where
  "ruby_curl_postfield_remote_file_set v pf = (Inr v, pf\<lparr>pf_remote_file := v\<rparr>)"

definition ruby_curl_postfield_remote_file_get :: "(ruby_curl_postfield, rvalue) cmd" where
  "ruby_curl_postfield_remote_file_get pf = (Inr (pf_remote_file pf), pf)"

definition ruby_curl_postfield_content_proc_set :: "rvalue \<Rightarrow> (ruby_curl_postfield, rvalue) cmd" where
  "ruby_curl_postfield_content_proc_set block pf =
     (Inr (pf_content_proc pf), pf\<lparr>pf_content_proc := block\<rparr>)"

section \<open>Adding a field to a multipart form\<close>

definition InvalidPostField :: "string \<Rightarrow> ('s, 'a) cmd" where
  "InvalidPostField msg = rb_raise ''eCurlErrInvalidPostField'' msg"

text \<open>\<open>StringValuePtr\<close> of a field, as a C string and as a buffer with its length.\<close>

definition field_cstr :: "(ruby_curl_postfield \<Rightarrow> rvalue) \<Rightarrow> (form_state, string) cmd" where
  "field_cstr sel s =
     (case StringValue (sel (field s)) of Inl e \<Rightarrow> (Inl e, s) | Inr v \<Rightarrow> (Inr (c_string v), s))"

definition field_bytes :: "(ruby_curl_postfield \<Rightarrow> rvalue) \<Rightarrow> (form_state, string) cmd" where
  "field_bytes sel s =
     (case StringValue (sel (field s)) of Inl e \<Rightarrow> (Inl e, s) | Inr v \<Rightarrow> (Inr v, s))"

definition field_content_type :: "(form_state, string option) cmd" where
  "field_content_type s =
     (if pf_content_type (field s) = Qnil then (Inr None, s)
      else bind (field_cstr pf_content_type) (\<lambda>t. ret (Some t)) s)"

definition formadd_reason :: "int \<Rightarrow> string" where
  "formadd_reason result =
     (if result = 1 then ''Memory allocation failed''
      else if result = 2 then ''Duplicate option''
      else if result = 3 then ''Unexpected NULL string''
      else if result = 4 then ''Unknown option''
      else if result = 5 then ''Incomplete form data''
      else if result = 6 then ''Illegal array [BINDING BUG]''
      else if result = 7 then ''Installed libcurl cannot support requested feature(s)''
      else ''Unknown error'')"

text \<open>\<open>curl_formadd\<close> with result \<open>formadd part\<close> and the check after it.\<close>

definition curl_formadd :: "(form_part \<Rightarrow> int) \<Rightarrow> form_part \<Rightarrow> (form_state, unit) cmd" where
  "curl_formadd formadd part s =
     (if formadd part = 0 then (Inr (), s\<lparr>form := form s @ [part]\<rparr>)
      else InvalidPostField (''Failed to add field ('' @ formadd_reason (formadd part) @ '')'') s)"

definition call_content_proc ::
  "(rvalue \<Rightarrow> (form_state, rvalue) cmd) \<Rightarrow> (form_state, unit) cmd" where
  "call_content_proc call_proc =
     bind (gets (\<lambda>s. pf_content_proc (field s))) (\<lambda>prc.
     bind (call_proc prc) (\<lambda>v.
     modify (\<lambda>s. s\<lparr>field := (field s)\<lparr>pf_buffer_str := v\<rparr>\<rparr>)))"

definition add_buffer_part ::
  "(form_part \<Rightarrow> int) \<Rightarrow> (ruby_curl_postfield \<Rightarrow> rvalue) \<Rightarrow> (form_state, unit) cmd" where
  "add_buffer_part formadd data =
     bind (gets (\<lambda>s. pf_remote_file (field s))) (\<lambda>remote.
       if remote = Qnil then InvalidPostField ''Cannot post file upload field with no filename''
       else
         bind (field_cstr pf_name) (\<lambda>name.
         bind (field_cstr pf_remote_file) (\<lambda>filename.
         bind (field_bytes data) (\<lambda>bytes.
         bind field_content_type (\<lambda>ctype.
           curl_formadd formadd (BufferPart name filename bytes ctype))))))"

definition add_file_part :: "(form_part \<Rightarrow> int) \<Rightarrow> (form_state, unit) cmd" where
  "add_file_part formadd =
     bind (modify (\<lambda>s. if pf_remote_file (field s) = Qnil
                       then s\<lparr>field := (field s)\<lparr>pf_remote_file := pf_local_file (field s)\<rparr>\<rparr>
                       else s)) (\<lambda>_.
     bind (field_cstr pf_name) (\<lambda>name.
     bind (field_cstr pf_local_file) (\<lambda>path.
     bind (field_cstr pf_remote_file) (\<lambda>filename.
     bind field_content_type (\<lambda>ctype.
       curl_formadd formadd (FilePart name path filename ctype))))))"

definition add_content_part ::
  "(form_part \<Rightarrow> int) \<Rightarrow> (ruby_curl_postfield \<Rightarrow> rvalue) \<Rightarrow> (form_state, unit) cmd" where
  "add_content_part formadd data =
     bind (field_cstr pf_name) (\<lambda>name.
     bind (field_bytes data) (\<lambda>bytes.
     bind field_content_type (\<lambda>ctype.
       curl_formadd formadd (ContentPart name bytes ctype))))"

definition append_to_form ::
  "(form_part \<Rightarrow> int) \<Rightarrow> (rvalue \<Rightarrow> (form_state, rvalue) cmd) \<Rightarrow> (form_state, unit) cmd" where
  "append_to_form formadd call_proc s =
     (let pf = field s
      in if pf_name pf = Qnil then InvalidPostField ''Cannot post unnamed field'' s
         else if pf_local_file pf \<noteq> Qnil \<or> pf_remote_file pf \<noteq> Qnil then
           (if pf_content_proc pf \<noteq> Qnil then
              bind (call_content_proc call_proc) (\<lambda>_. add_buffer_part formadd pf_buffer_str) s
            else if pf_content pf \<noteq> Qnil then add_buffer_part formadd pf_content s
            else if pf_local_file pf \<noteq> Qnil then add_file_part formadd s
            else InvalidPostField ''Cannot post file upload field with no data'' s)
         else if pf_content_proc pf \<noteq> Qnil then
           bind (call_content_proc call_proc) (\<lambda>_. add_content_part formadd pf_buffer_str) s
         else if pf_content pf \<noteq> Qnil then add_content_part formadd pf_content s
         else InvalidPostField ''Cannot post content field with no data'' s)"

section \<open>The url-encoded form\<close>

text \<open>A value as a string: itself, or the result of its \<open>to_s\<close> when it has one (\<open>to_s\<close>
  gives \<open>None\<close> when it has not).\<close>

definition pf_to_s :: "(rvalue \<Rightarrow> rvalue option) \<Rightarrow> rvalue \<Rightarrow> rvalue option" where
  "pf_to_s to_s v = (case v of RStr s \<Rightarrow> Some (RStr s) | _ \<Rightarrow> to_s v)"

definition escape_value ::
  "(string \<Rightarrow> string) \<Rightarrow> (string \<Rightarrow> string option) \<Rightarrow> string \<Rightarrow> rvalue \<Rightarrow> string res" where
  "escape_value utf8 escape what v =
     (case v of
        RStr s \<Rightarrow> (case escape (utf8 s) of
                    None \<Rightarrow> Inl (Exc ''eCurlErrInvalidPostField'' (''Failed to url-encode '' @ what))
                  | Some e \<Rightarrow> Inr e)
      | _ \<Rightarrow> type_error)"

definition field_value :: "(rvalue \<Rightarrow> rvalue res) \<Rightarrow> ruby_curl_postfield \<Rightarrow> rvalue res" where
  "field_value call_proc pf =
     (if pf_content_proc pf \<noteq> Qnil then call_proc (pf_content_proc pf)
      else if pf_content pf \<noteq> Qnil then Inr (pf_content pf)
      else if pf_local_file pf \<noteq> Qnil then Inr (pf_local_file pf)
      else if pf_remote_file pf \<noteq> Qnil then Inr (pf_remote_file pf)
      else Inr (RStr []))"

definition ruby_curl_postfield_to_str ::
  "(string \<Rightarrow> string) \<Rightarrow> (string \<Rightarrow> string option) \<Rightarrow> (rvalue \<Rightarrow> rvalue option) \<Rightarrow>
   (rvalue \<Rightarrow> rvalue res) \<Rightarrow> ruby_curl_postfield \<Rightarrow> string res" where
  "ruby_curl_postfield_to_str utf8 escape to_s call_proc pf =
     (case (if pf_name pf = Qnil then None else pf_to_s to_s (pf_name pf)) of
        None \<Rightarrow> Inl (Exc ''eCurlErrInvalidPostField'' ''Cannot convert unnamed field to string'')
      | Some name \<Rightarrow>
          if name = Qnil
          then Inl (Exc ''eCurlErrInvalidPostField'' ''Cannot convert unnamed field to string'')
          else
            (case escape_value utf8 escape ''name'' name of
               Inl e \<Rightarrow> Inl e
             | Inr escd_name \<Rightarrow>
                 (case field_value call_proc pf of
                    Inl e \<Rightarrow> Inl e
                  | Inr v \<Rightarrow>
                      (case pf_to_s to_s v of
                         None \<Rightarrow> Inl (Exc ''rb_eRuntimeError''
                                   (''postfield('' @ c_string escd_name @
                                    '') is not a string and does not respond_to to_s''))
                       | Some content \<Rightarrow>
                           (case escape_value utf8 escape ''content'' content of
                              Inl e \<Rightarrow> Inl e
                            | Inr escd_content \<Rightarrow> Inr (escd_name @ ''='' @ escd_content))))))"

end
