(* ===== verification/Curb_Postfield_Facts.thy ===== *)
theory Curb_Postfield_Facts
  imports Curb_Postfield
begin

text \<open>
  \<open>append_to_form\<close> refines a specification of the part a field stands for, the constructors
  build fields that can be posted, and the url-encoded form of a field can be read back.
\<close>

section \<open>The part a field stands for\<close>

definition str_of :: "rvalue \<Rightarrow> string option" where
  "str_of v = (case v of RStr s \<Rightarrow> Some s | _ \<Rightarrow> None)"

definition str_or_nil :: "rvalue \<Rightarrow> bool" where
  "str_or_nil v \<longleftrightarrow> v = Qnil \<or> (\<exists>s. v = RStr s)"

text \<open>A field whose attributes are strings or nil.\<close>

definition string_field :: "ruby_curl_postfield \<Rightarrow> bool" where
  "string_field pf \<longleftrightarrow> str_or_nil (pf_name pf) \<and> str_or_nil (pf_content pf) \<and>
     str_or_nil (pf_content_type pf) \<and> str_or_nil (pf_local_file pf) \<and> str_or_nil (pf_remote_file pf)"

text \<open>The data is what the proc supplies, else the content; a field with a file name is a file
  upload of the data, or of the local file when there is no data; any other field is its data.\<close>

definition field_part :: "ruby_curl_postfield \<Rightarrow> string \<Rightarrow> form_part option" where
  "field_part pf supplied =
     (let data = (if pf_content_proc pf \<noteq> Qnil then Some supplied else str_of (pf_content pf));
          ctype = map_option c_string (str_of (pf_content_type pf));
          loc = map_option c_string (str_of (pf_local_file pf));
          rem = map_option c_string (str_of (pf_remote_file pf))
      in case str_of (pf_name pf) of
           None \<Rightarrow> None
         | Some n \<Rightarrow>
             (case (data, rem, loc) of
                (Some b, Some r, _) \<Rightarrow> Some (BufferPart (c_string n) r b ctype)
              | (Some b, None, Some _) \<Rightarrow> None
              | (Some b, None, None) \<Rightarrow> Some (ContentPart (c_string n) b ctype)
              | (None, Some r, Some l) \<Rightarrow> Some (FilePart (c_string n) l r ctype)
              | (None, None, Some l) \<Rightarrow> Some (FilePart (c_string n) l l ctype)
              | (None, _, None) \<Rightarrow> None))"

lemma str_or_nil_cases:
  assumes "str_or_nil v"
  obtains "v = Qnil" | s where "v = RStr s"
  using assms by (auto simp: str_or_nil_def)

lemma str_of_simps [simp]: "str_of Qnil = None" "str_of (RStr s) = Some s"
  by (simp_all add: str_of_def)

lemma field_content_type_ok:
  assumes "str_or_nil (pf_content_type (field s))"
  shows "field_content_type s = (Inr (map_option c_string (str_of (pf_content_type (field s)))), s)"
  using assms
  by (cases rule: str_or_nil_cases)
     (simp_all add: field_content_type_def bind_def field_cstr_def StringValue_def ret_def)

lemma field_cstr_ok: "sel (field s) = RStr v \<Longrightarrow> field_cstr sel s = (Inr (c_string v), s)"
  by (simp add: field_cstr_def StringValue_def)

lemma field_bytes_ok: "sel (field s) = RStr v \<Longrightarrow> field_bytes sel s = (Inr v, s)"
  by (simp add: field_bytes_def StringValue_def)

lemmas field_steps = bind_def cmd_defs field_cstr_ok field_bytes_ok field_content_type_ok
  curl_formadd_def InvalidPostField_def

lemma add_buffer_part_ok:
  assumes "pf_name (field s) = RStr n" and "data (field s) = RStr b"
    and "str_or_nil (pf_content_type (field s))" and "\<And>p. formadd p = 0"
  shows "pf_remote_file (field s) = RStr r \<Longrightarrow>
      add_buffer_part formadd data s = (Inr (), s\<lparr>form := form s @
        [BufferPart (c_string n) (c_string r) b (map_option c_string (str_of (pf_content_type (field s))))]\<rparr>)"
    and "pf_remote_file (field s) = Qnil \<Longrightarrow> add_buffer_part formadd data s =
      (Inl (Exc ''eCurlErrInvalidPostField'' ''Cannot post file upload field with no filename''), s)"
  using assms by (simp_all add: add_buffer_part_def field_steps)

lemma add_content_part_ok:
  assumes "pf_name (field s) = RStr n" and "data (field s) = RStr b"
    and "str_or_nil (pf_content_type (field s))" and "\<And>p. formadd p = 0"
  shows "add_content_part formadd data s = (Inr (), s\<lparr>form := form s @
      [ContentPart (c_string n) b (map_option c_string (str_of (pf_content_type (field s))))]\<rparr>)"
  using assms by (simp add: add_content_part_def field_steps)

lemma add_file_part_ok:
  assumes "pf_name (field s) = RStr n" and "pf_local_file (field s) = RStr l"
    and "str_or_nil (pf_content_type (field s))" and "\<And>p. formadd p = 0"
    and "pf_remote_file (field s) = Qnil \<and> r = l \<or> pf_remote_file (field s) = RStr r"
  shows "add_file_part formadd s = (Inr (), s\<lparr>field := (field s)\<lparr>pf_remote_file := RStr r\<rparr>, form := form s @
      [FilePart (c_string n) (c_string l) (c_string r)
        (map_option c_string (str_of (pf_content_type (field s))))]\<rparr>)"
proof -
  let ?f = "\<lambda>s. if pf_remote_file (field s) = Qnil
      then s\<lparr>field := (field s)\<lparr>pf_remote_file := pf_local_file (field s)\<rparr>\<rparr> else s"
  let ?s = "s\<lparr>field := (field s)\<lparr>pf_remote_file := RStr r\<rparr>\<rparr>"
  have "(field s)\<lparr>pf_remote_file := pf_remote_file (field s)\<rparr> = field s" by simp
  then have s: "?f s = ?s" using assms(2,5) by auto
  have "field_cstr pf_name ?s = (Inr (c_string n), ?s)"
    "field_cstr pf_local_file ?s = (Inr (c_string l), ?s)"
    "field_cstr pf_remote_file ?s = (Inr (c_string r), ?s)"
    "field_content_type ?s = (Inr (map_option c_string (str_of (pf_content_type (field s)))), ?s)"
    using assms by (simp_all add: field_cstr_ok field_content_type_ok)
  then show ?thesis
    unfolding add_file_part_def bind_modify s
    using assms(4) by (simp add: bind_def curl_formadd_def)
qed

lemma append_refines_part:
  assumes "string_field (field s)"
    and "\<And>t. call_proc (pf_content_proc (field s)) t = (Inr (RStr supplied), t)"
    and "\<And>p. formadd p = 0"
  shows "case field_part (field s) supplied of
      None \<Rightarrow> \<exists>m s'. append_to_form formadd call_proc s = (Inl (Exc ''eCurlErrInvalidPostField'' m), s') \<and>
                form s' = form s
    | Some p \<Rightarrow> \<exists>s'. append_to_form formadd call_proc s = (Inr (), s') \<and> form s' = form s @ [p]"
proof -
  let ?pf = "field s"
  let ?b = "s\<lparr>field := ?pf\<lparr>pf_buffer_str := RStr supplied\<rparr>\<rparr>"
  have prc: "bind (call_content_proc call_proc) m s = m () ?b" for m :: "unit \<Rightarrow> (form_state, unit) cmd"
    by (simp add: call_content_proc_def bind_def cmd_defs assms(2))
  have ct: "str_or_nil (pf_content_type ?pf)" using assms(1) by (simp add: string_field_def)
  show ?thesis
  proof (cases "str_of (pf_name ?pf)")
    case None
    then have "pf_name ?pf = Qnil"
      using assms(1) by (auto simp: string_field_def elim: str_or_nil_cases)
    then show ?thesis
      by (simp add: append_to_form_def Let_def InvalidPostField_def rb_raise_def field_part_def)
  next
    case (Some n)
    then have n: "pf_name ?pf = RStr n" by (simp add: str_of_def split: rvalue.splits)
    have l: "str_or_nil (pf_local_file ?pf)" and r: "str_or_nil (pf_remote_file ?pf)"
      and c: "str_or_nil (pf_content ?pf)" using assms(1) by (simp_all add: string_field_def)
    show ?thesis
      using l r c
      by (cases "pf_content_proc ?pf = Qnil")
         (auto elim!: str_or_nil_cases simp: append_to_form_def Let_def prc n ct assms(3)
            add_buffer_part_ok [of _ n] add_content_part_ok [of _ n] add_file_part_ok [of _ n]
            field_part_def InvalidPostField_def rb_raise_def)
  qed
qed

section \<open>Reading a url-encoded field\<close>

text \<open>What libcurl documents of \<open>curl_easy_escape\<close>: the reserved characters \<open>=\<close> and \<open>&\<close>
  are escaped, and unescaping gives the text back.\<close>

definition escape_ok :: "(string \<Rightarrow> string option) \<Rightarrow> (string \<Rightarrow> string) \<Rightarrow> bool" where
  "escape_ok escape unescape \<longleftrightarrow>
     (\<forall>s e. escape s = Some e \<longrightarrow> CHR ''='' \<notin> set e \<and> CHR ''&'' \<notin> set e \<and> unescape e = s)"

definition parse_pair :: "(string \<Rightarrow> string) \<Rightarrow> string \<Rightarrow> string \<times> string" where
  "parse_pair unescape s =
     (unescape (takeWhile (\<lambda>c. c \<noteq> CHR ''='') s), unescape (tl (dropWhile (\<lambda>c. c \<noteq> CHR ''='') s)))"

lemma parse_pair_append:
  assumes "CHR ''='' \<notin> set n"
  shows "parse_pair unescape (n @ ''='' @ c) = (unescape n, unescape c)"
proof -
  have all: "\<And>x. x \<in> set n \<Longrightarrow> x \<noteq> CHR ''=''" using assms by metis
  have "takeWhile (\<lambda>c. c \<noteq> CHR ''='') (n @ ''='' @ c) = n"
    and "dropWhile (\<lambda>c. c \<noteq> CHR ''='') (n @ ''='' @ c) = ''='' @ c"
    using all by (simp_all add: takeWhile_append2 dropWhile_append2)
  then show ?thesis by (simp add: parse_pair_def)
qed

section \<open>Properties\<close>



text \<open>The fields the constructors build can be posted: \<open>content(name, text)\<close> gives the text,
  \<open>file(name, path)\<close> the file under its own name, \<open>file(name, path, remote)\<close> the file under
  the remote name, and with a block \<open>file(name, remote)\<close> gives what the block returns under
  that name.\<close>

theorem constructed_fields_post:
  assumes "CHR 0x00 \<notin> set (n @ l @ r)" and "blk \<noteq> Qnil"
  shows "(\<exists>pf. ruby_curl_postfield_new_content [RStr n, RStr text] Qnil = Inr pf \<and> string_field pf \<and>
            field_part pf d = Some (ContentPart n text None)) \<and>
         (\<exists>pf. ruby_curl_postfield_new_file [RStr n, RStr l] Qnil = Inr pf \<and> string_field pf \<and>
            field_part pf d = Some (FilePart n l l None)) \<and>
         (\<exists>pf. ruby_curl_postfield_new_file [RStr n, RStr l, RStr r] Qnil = Inr pf \<and> string_field pf \<and>
            field_part pf d = Some (FilePart n l r None)) \<and>
         (\<exists>pf. ruby_curl_postfield_new_file [RStr n, RStr r] blk = Inr pf \<and> string_field pf \<and>
            field_part pf d = Some (BufferPart n r d None)) \<and>
         (\<exists>pf. ruby_curl_postfield_new_content [RStr n] blk = Inr pf \<and> string_field pf \<and>
            field_part pf d = Some (ContentPart n d None))"
  using assms
  by (simp add: ruby_curl_postfield_new_content_def ruby_curl_postfield_new_file_def arg_def Let_def
      string_field_def str_or_nil_def field_part_def c_string_id)

theorem constructed_fields_post_witness:
  "\<exists>pf. ruby_curl_postfield_new_file [RStr ''doc'', RStr ''a.txt''] (RObj 7) = Inr pf \<and>
     field_part pf ''data'' = Some (BufferPart ''doc'' ''a.txt'' ''data'' None)"
  using constructed_fields_post [of "''doc''" "[]" "''a.txt''" "RObj 7" "[]" "''data''"] by auto



end
