(* ===== verification/Curb_Setup.thy ===== *)
theory Curb_Setup
  imports Curb_Network Curb_Callbacks
begin

text \<open>
  Preparing a transfer (\<open>ruby_curl_easy_setup\<close>) and undoing it (\<open>ruby_curl_easy_cleanup\<close>):
  every option the Ruby object holds is copied to libcurl, in the order of the source, and the
  string lists (headers, FTP commands, resolve and connect-to entries) are rebuilt. A conditional
  of the preprocessor is a test of \<open>have_macro\<close> or \<open>libcurl_version_num\<close>; \<open>rb_warn\<close>
  only prints and has no effect here.
\<close>

text \<open>What the code calls outside itself: the build, \<open>inet_pton\<close>, the \<open>to_s\<close> of user
  objects, \<open>curl_slist_append\<close> (\<open>None\<close> is \<open>NULL\<close>) and the configured CA file.\<close>

record setup_env =
  s_env :: curl_env
  s_pton4 :: "string \<Rightarrow> ip option"
  s_pton6 :: "string \<Rightarrow> ip option"
  s_to_s :: "rvalue \<Rightarrow> string res"
  curl_slist_append :: "string list \<Rightarrow> string \<Rightarrow> string list option"
  CURL_CONFIG_CA :: string

section \<open>Statements\<close>

fun steps :: "('s, unit) cmd list \<Rightarrow> ('s, unit) cmd" where
  "steps [] = ret ()"
| "steps (c # cs) = bind c (\<lambda>_. steps cs)"

definition if_state :: "('s \<Rightarrow> bool) \<Rightarrow> ('s, 'a) cmd \<Rightarrow> ('s, 'a) cmd \<Rightarrow> ('s, 'a) cmd" where
  "if_state P m n s = (if P s then m s else n s)"

abbreviation skip :: "('s, unit) cmd" where
  "skip \<equiv> ret ()"

definition defined :: "setup_env \<Rightarrow> string \<Rightarrow> (ruby_curl_easy, unit) cmd \<Rightarrow> (ruby_curl_easy, unit) cmd" where
  "defined E macro m = (if have_macro (s_env E) macro then m else skip)"

definition setopt :: "string \<Rightarrow> curl_val \<Rightarrow> (ruby_curl_easy, unit) cmd" where
  "setopt opt v = modify (curl_easy_setopt opt v)"

text \<open>An option set from a field of the structure.\<close>

definition setopt_of :: "string \<Rightarrow> (ruby_curl_easy \<Rightarrow> curl_val) \<Rightarrow> (ruby_curl_easy, unit) cmd" where
  "setopt_of opt f = modify (\<lambda>rbce. curl_easy_setopt opt (f rbce) rbce)"

text \<open>\<open>curl_easy_setopt(curl, opt, rb_easy_get_str(key))\<close>.\<close>

definition setopt_str :: "string \<Rightarrow> string \<Rightarrow> (ruby_curl_easy, unit) cmd" where
  "setopt_str opt key = bind (gets (rb_easy_get_str key)) (\<lambda>r.
     bind (lift_res r) (\<lambda>s. setopt opt (VStr s)))"

definition setopt_str_or_null :: "string \<Rightarrow> string \<Rightarrow> (ruby_curl_easy, unit) cmd" where
  "setopt_str_or_null opt key = if_state (rb_easy_nil key) (setopt opt VNull) (setopt_str opt key)"

definition setopt_str_unless_nil :: "string \<Rightarrow> string \<Rightarrow> (ruby_curl_easy, unit) cmd" where
  "setopt_str_unless_nil opt key = if_state (rb_easy_nil key) skip (setopt_str opt key)"

definition flag_arg :: "bool \<Rightarrow> curl_val" where
  "flag_arg b = VLong (of_bool b)"

text \<open>An unsigned field passed where libcurl reads a \<open>long\<close>.\<close>

definition ulong_arg :: "ulong \<Rightarrow> curl_val" where
  "ulong_arg w = VLong (sint w)"

section \<open>The string lists\<close>

text \<open>\<open>rb_ary_entry\<close>: nil past the end.\<close>

definition rb_ary_entry :: "rvalue list \<Rightarrow> nat \<Rightarrow> rvalue" where
  "rb_ary_entry xs i = (if i < length xs then xs ! i else Qnil)"

text \<open>\<open>*list = curl_slist_append(*list, StringValuePtr(s))\<close>.\<close>

definition append_or_raise :: "setup_env \<Rightarrow> string \<Rightarrow> string \<Rightarrow> (string list, unit) cmd" where
  "append_or_raise E msg s l =
     (case curl_slist_append E l (c_string s) of
        None \<Rightarrow> (Inl (Exc ''rb_eNoMemError'' msg), l)
      | Some l' \<Rightarrow> (Inr (), l'))"

definition cb_each_http_header :: "setup_env \<Rightarrow> rvalue \<Rightarrow> (string list, unit) cmd" where
  "cb_each_http_header E header =
     bind (case header of
             RArr pair \<Rightarrow>
               bind (lift_res (rb_obj_as_string (s_to_s E) (rb_ary_entry pair 0))) (\<lambda>name.
               bind (lift_res (rb_obj_as_string (s_to_s E) (rb_ary_entry pair 1))) (\<lambda>val.
                 if val = [] then ret (name @ '':'') else ret (name @ '': '' @ val)))
           | _ \<Rightarrow> lift_res (rb_obj_as_string (s_to_s E) header))
       (append_or_raise E ''Failed to append to header list'')"

definition cb_each_http_proxy_header :: "setup_env \<Rightarrow> rvalue \<Rightarrow> (string list, unit) cmd" where
  "cb_each_http_proxy_header E proxy_header =
     bind (case proxy_header of
             RArr pair \<Rightarrow>
               bind (lift_res (rb_obj_as_string (s_to_s E) (rb_ary_entry pair 0))) (\<lambda>name.
               bind (lift_res (rb_obj_as_string (s_to_s E) (rb_ary_entry pair 1))) (\<lambda>val.
                 ret (name @ '': '' @ val)))
           | _ \<Rightarrow> lift_res (rb_obj_as_string (s_to_s E) proxy_header))
       (append_or_raise E ''Failed to append to proxy header list'')"

definition append_as_string :: "setup_env \<Rightarrow> string \<Rightarrow> rvalue \<Rightarrow> (string list, unit) cmd" where
  "append_as_string E msg v =
     bind (lift_res (rb_obj_as_string (s_to_s E) v)) (append_or_raise E msg)"

definition cb_each_ftp_command :: "setup_env \<Rightarrow> rvalue \<Rightarrow> (string list, unit) cmd" where
  "cb_each_ftp_command E = append_as_string E ''Failed to append to FTP command list''"

definition cb_each_resolve :: "setup_env \<Rightarrow> rvalue \<Rightarrow> (string list, unit) cmd" where
  "cb_each_resolve E = append_as_string E ''Failed to append to resolve list''"

definition cb_each_connect_to :: "setup_env \<Rightarrow> rvalue \<Rightarrow> (string list, unit) cmd" where
  "cb_each_connect_to E = append_as_string E ''Failed to append to connect-to list''"

text \<open>\<open>each\<close> of an Array or a Hash: a Hash yields its pairs as arrays.\<close>

definition rb_each_items :: "rvalue \<Rightarrow> rvalue list" where
  "rb_each_items v = (case v of
      RArr xs \<Rightarrow> xs | RHash ps \<Rightarrow> map (\<lambda>(k, x). RArr [k, x]) ps | _ \<Rightarrow> [])"

definition is_array :: "rvalue \<Rightarrow> bool" where
  "is_array v = (case v of RArr _ \<Rightarrow> True | _ \<Rightarrow> False)"

definition is_hash :: "rvalue \<Rightarrow> bool" where
  "is_hash v = (case v of RHash _ \<Rightarrow> True | _ \<Rightarrow> False)"

text \<open>A list field of the structure, through the pointer \<open>hdrs\<close>, \<open>phdrs\<close>, ... .\<close>

definition on_list ::
  "(ruby_curl_easy \<Rightarrow> string list) \<Rightarrow> (string list \<Rightarrow> ruby_curl_easy \<Rightarrow> ruby_curl_easy) \<Rightarrow>
   (string list, 'a) cmd \<Rightarrow> (ruby_curl_easy, 'a) cmd" where
  "on_list get put m rbce = (case m (get rbce) of (r, l) \<Rightarrow> (r, put l rbce))"

text \<open>The blocks that fill a list from an option: an iterable value item by item, another
  value as one string (when \<open>single\<close> is given), then the option when the list is not
  empty.\<close>

definition setup_list ::
  "string \<Rightarrow> string \<Rightarrow> (rvalue \<Rightarrow> bool) \<Rightarrow> (rvalue \<Rightarrow> (string list, unit) cmd) \<Rightarrow>
   (rvalue \<Rightarrow> (string list, unit) cmd) \<Rightarrow>
   (ruby_curl_easy \<Rightarrow> string list) \<Rightarrow> (string list \<Rightarrow> ruby_curl_easy \<Rightarrow> ruby_curl_easy) \<Rightarrow>
   (ruby_curl_easy, unit) cmd" where
  "setup_list key opt iterable each single get put =
     bind (gets (rb_easy_get key)) (\<lambda>v.
       if v = Qnil then skip
       else steps [
         if iterable v then on_list get put (steps (map each (rb_each_items v)))
         else on_list get put (single v),
         if_state (\<lambda>rbce. get rbce \<noteq> []) (setopt_of opt (\<lambda>rbce. VSlist (get rbce))) skip])"

definition clear_list ::
  "(string \<Rightarrow> bool) \<Rightarrow> string \<Rightarrow> string option \<Rightarrow> (ruby_curl_easy \<Rightarrow> string list) \<Rightarrow>
   (string list \<Rightarrow> ruby_curl_easy \<Rightarrow> ruby_curl_easy) \<Rightarrow> ruby_curl_easy \<Rightarrow> ruby_curl_easy" where
  "clear_list has opt macro get put rbce =
     (if get rbce = [] then rbce
      else put [] (if (case macro of None \<Rightarrow> True | Some m \<Rightarrow> has m) \<and> curl rbce \<noteq> None
                   then curl_easy_setopt opt VNull rbce else rbce))"

abbreviation put_headers :: "string list \<Rightarrow> ruby_curl_easy \<Rightarrow> ruby_curl_easy" where
  "put_headers l rbce \<equiv> rbce\<lparr>curl_headers := l\<rparr>"

abbreviation put_proxy_headers :: "string list \<Rightarrow> ruby_curl_easy \<Rightarrow> ruby_curl_easy" where
  "put_proxy_headers l rbce \<equiv> rbce\<lparr>curl_proxy_headers := l\<rparr>"

abbreviation put_ftp_commands :: "string list \<Rightarrow> ruby_curl_easy \<Rightarrow> ruby_curl_easy" where
  "put_ftp_commands l rbce \<equiv> rbce\<lparr>curl_ftp_commands := l\<rparr>"

abbreviation put_resolve :: "string list \<Rightarrow> ruby_curl_easy \<Rightarrow> ruby_curl_easy" where
  "put_resolve l rbce \<equiv> rbce\<lparr>curl_resolve := l\<rparr>"

abbreviation put_connect_to :: "string list \<Rightarrow> ruby_curl_easy \<Rightarrow> ruby_curl_easy" where
  "put_connect_to l rbce \<equiv> rbce\<lparr>curl_connect_to := l\<rparr>"

definition ruby_curl_easy_clear_headers_list :: "curl_env \<Rightarrow> ruby_curl_easy \<Rightarrow> ruby_curl_easy" where
  "ruby_curl_easy_clear_headers_list env =
     clear_list (have_macro env) ''CURLOPT_HTTPHEADER'' None curl_headers put_headers"

definition ruby_curl_easy_clear_proxy_headers_list ::
  "curl_env \<Rightarrow> ruby_curl_easy \<Rightarrow> ruby_curl_easy" where
  "ruby_curl_easy_clear_proxy_headers_list env =
     clear_list (have_macro env) ''CURLOPT_PROXYHEADER'' (Some ''HAVE_CURLOPT_PROXYHEADER'')
       curl_proxy_headers put_proxy_headers"

definition ruby_curl_easy_clear_ftp_commands_list ::
  "curl_env \<Rightarrow> ruby_curl_easy \<Rightarrow> ruby_curl_easy" where
  "ruby_curl_easy_clear_ftp_commands_list env =
     clear_list (have_macro env) ''CURLOPT_QUOTE'' None curl_ftp_commands put_ftp_commands"

definition ruby_curl_easy_clear_resolve_list :: "curl_env \<Rightarrow> ruby_curl_easy \<Rightarrow> ruby_curl_easy" where
  "ruby_curl_easy_clear_resolve_list env =
     clear_list (have_macro env) ''CURLOPT_RESOLVE'' (Some ''HAVE_CURLOPT_RESOLVE'')
       curl_resolve put_resolve"

definition ruby_curl_easy_clear_connect_to_list ::
  "curl_env \<Rightarrow> ruby_curl_easy \<Rightarrow> ruby_curl_easy" where
  "ruby_curl_easy_clear_connect_to_list env =
     clear_list (have_macro env) ''CURLOPT_CONNECT_TO'' (Some ''HAVE_CURLOPT_CONNECT_TO'')
       curl_connect_to put_connect_to"

definition ruby_curl_easy_clear_setup_lists :: "curl_env \<Rightarrow> ruby_curl_easy \<Rightarrow> ruby_curl_easy" where
  "ruby_curl_easy_clear_setup_lists env rbce =
     ruby_curl_easy_clear_connect_to_list env (ruby_curl_easy_clear_resolve_list env
       (ruby_curl_easy_clear_ftp_commands_list env (ruby_curl_easy_clear_proxy_headers_list env
         (ruby_curl_easy_clear_headers_list env rbce))))"

section \<open>Setting up a transfer\<close>

definition public_policy :: "ruby_curl_easy \<Rightarrow> bool" where
  "public_policy rbce \<longleftrightarrow> network_policy rbce = 1"

definition public_policy_disables_proxy :: "ruby_curl_easy \<Rightarrow> bool" where
  "public_policy_disables_proxy rbce \<longleftrightarrow> network_policy rbce = 1 \<and> \<not> allow_proxy rbce"

definition have_prereq_policy :: "curl_env \<Rightarrow> bool" where
  "have_prereq_policy env \<longleftrightarrow>
     have_macro env ''HAVE_CURLOPT_PREREQFUNCTION'' \<and> have_macro env ''HAVE_CURLOPT_PREREQDATA''"

definition setup_reset :: "(ruby_curl_easy, unit) cmd" where
  "setup_reset = modify (\<lambda>rbce. rbce\<lparr>callback_error := None, unsafe_destination_blocked := False,
     unsafe_destination_error := []\<rparr>)"

text \<open>\<open>rb_check_string_type\<close> gives nil for a value that is no string, which
  \<open>StringValuePtr\<close> then rejects.\<close>

definition setup_location :: "setup_env \<Rightarrow> (ruby_curl_easy, unit) cmd" where
  "setup_location E = steps [
     if_state (rb_easy_nil ''url'') (rb_raise ''eCurlErrError'' ''No URL supplied'') skip,
     setopt_str ''CURLOPT_URL'' ''url'',
     defined E ''HAVE_CURLOPT_DOH_URL'' (setopt_str_or_null ''CURLOPT_DOH_URL'' ''doh_url'')]"

definition setup_dns :: "setup_env \<Rightarrow> (ruby_curl_easy, unit) cmd" where
  "setup_dns E =
     defined E ''HAVE_CURLOPT_DNS_SERVERS'' (steps [
       if_state (\<lambda>rbce. network_policy rbce = 1 \<and> \<not> rb_easy_nil ''dns_servers'' rbce)
         (rb_raise ''eCurlErrUnsafeDestination''
            ''DNS server overrides are disabled by public network policy'') skip,
       setopt_str_or_null ''CURLOPT_DNS_SERVERS'' ''dns_servers''])"

definition setup_url :: "setup_env \<Rightarrow> (ruby_curl_easy, unit) cmd" where
  "setup_url E = steps [setup_location E, setup_dns E]"

definition setup_allowed_hosts :: "setup_env \<Rightarrow> (ruby_curl_easy, unit) cmd" where
  "setup_allowed_hosts E =
     (if have_prereq_policy (s_env E) then
        if_state (\<lambda>rbce. \<not> rb_easy_nil ''allowed_hosts'' rbce)
          (steps [curb_prepare_network_allowed_hosts,
                  setopt ''CURLOPT_PREREQFUNCTION'' (VFun ''curb_host_allowlist_prereq''),
                  setopt ''CURLOPT_PREREQDATA'' VRbce])
          (steps [modify curb_clear_network_allowed_hosts,
                  setopt ''CURLOPT_PREREQFUNCTION'' VNull,
                  setopt ''CURLOPT_PREREQDATA'' VNull])
      else modify curb_clear_network_allowed_hosts)"

definition setup_network_policy :: "setup_env \<Rightarrow> (ruby_curl_easy, unit) cmd" where
  "setup_network_policy E =
     (if have_opensocket_policy (s_env E) then
        if_state public_policy
          (steps [curb_prepare_network_allowed_cidr_rules (s_pton4 E) (s_pton6 E),
                  setopt ''CURLOPT_OPENSOCKETFUNCTION'' (VFun ''curb_public_network_opensocket''),
                  setopt ''CURLOPT_OPENSOCKETDATA'' VRbce,
                  defined E ''HAVE_CURLOPT_FRESH_CONNECT'' (setopt ''CURLOPT_FRESH_CONNECT'' (VLong 1)),
                  defined E ''HAVE_CURLOPT_FORBID_REUSE'' (setopt ''CURLOPT_FORBID_REUSE'' (VLong 1)),
                  defined E ''HAVE_CURLOPT_UNIX_SOCKET_PATH''
                    (if_state allow_unix_socket skip (setopt ''CURLOPT_UNIX_SOCKET_PATH'' VNull))])
          (steps [modify curb_clear_network_allowed_cidr_rules,
                  setopt ''CURLOPT_OPENSOCKETFUNCTION'' VNull,
                  setopt ''CURLOPT_OPENSOCKETDATA'' VNull,
                  defined E ''HAVE_CURLOPT_FRESH_CONNECT'' (setopt ''CURLOPT_FRESH_CONNECT'' (VLong 0)),
                  defined E ''HAVE_CURLOPT_FORBID_REUSE''
                    (setopt_of ''CURLOPT_FORBID_REUSE''
                       (\<lambda>rbce. VLong (if forbid_reuse_set rbce then forbid_reuse rbce else 0)))])
      else skip)"

definition setup_auth :: "setup_env \<Rightarrow> (ruby_curl_easy, unit) cmd" where
  "setup_auth E =
     (let user_options = have_macro (s_env E) ''HAVE_CURLOPT_USERNAME'' \<and>
                         have_macro (s_env E) ''HAVE_CURLOPT_PASSWORD''
      in steps [
        setopt_str_or_null ''CURLOPT_INTERFACE'' ''interface_hm'',
        if user_options then steps [
          setopt_str_or_null ''CURLOPT_USERNAME'' ''username'',
          setopt_str_or_null ''CURLOPT_PASSWORD'' ''password''] else skip,
        if_state (\<lambda>rbce. \<not> rb_easy_nil ''userpwd'' rbce)
          (setopt_str ''CURLOPT_USERPWD'' ''userpwd'')
          (if_state (\<lambda>rbce. \<not> user_options \<or>
                            rb_easy_nil ''username'' rbce \<and> rb_easy_nil ''password'' rbce)
             (setopt ''CURLOPT_USERPWD'' VNull) skip)])"

definition setup_proxy :: "setup_env \<Rightarrow> (ruby_curl_easy, unit) cmd" where
  "setup_proxy E = steps [
     if_state public_policy_disables_proxy (setopt ''CURLOPT_PROXY'' (VStr []))
       (setopt_str_or_null ''CURLOPT_PROXY'' ''proxy_url''),
     if_state public_policy_disables_proxy (setopt ''CURLOPT_PROXYUSERPWD'' VNull)
       (setopt_str_or_null ''CURLOPT_PROXYUSERPWD'' ''proxypwd''),
     defined E ''HAVE_CURLOPT_NOPROXY'' (setopt_str_or_null ''CURLOPT_NOPROXY'' ''noproxy'')]"

text \<open>\<open>rb_str_buf_new\<close> gives an empty string; its capacity does not matter.\<close>

definition setup_data_procs :: "(ruby_curl_easy, unit) cmd" where
  "setup_data_procs = steps [
     modify (\<lambda>rbce. rbce\<lparr>downloaded_body_bytes := 0\<rparr>),
     if_state (\<lambda>rbce. \<not> rb_easy_nil ''body_proc'' rbce)
       (steps [setopt ''CURLOPT_WRITEFUNCTION'' (VFun ''proc_data_handler_body''),
               setopt ''CURLOPT_WRITEDATA'' VRbce,
               modify (rb_easy_del ''body_data'')])
       (steps [modify (rb_easy_set ''body_data'' (RStr [])),
               setopt ''CURLOPT_WRITEFUNCTION'' (VFun ''default_body_handler''),
               setopt ''CURLOPT_WRITEDATA'' VRbce]),
     if_state (\<lambda>rbce. \<not> rb_easy_nil ''header_proc'' rbce)
       (steps [setopt ''CURLOPT_HEADERFUNCTION'' (VFun ''proc_data_handler_header''),
               setopt ''CURLOPT_HEADERDATA'' VRbce,
               modify (rb_easy_del ''header_data'')])
       (steps [modify (rb_easy_set ''header_data'' (RStr [])),
               setopt ''CURLOPT_HEADERFUNCTION'' (VFun ''default_header_handler''),
               setopt ''CURLOPT_HEADERDATA'' VRbce])]"

definition setup_progress_debug :: "setup_env \<Rightarrow> (ruby_curl_easy, unit) cmd" where
  "setup_progress_debug E =
     (let xferinfo = have_macro (s_env E) ''HAVE_CURLOPT_XFERINFOFUNCTION''
      in steps [
        setopt_str_unless_nil ''CURLOPT_ENCODING'' ''encoding'',
        if_state (\<lambda>rbce. \<not> rb_easy_nil ''progress_proc'' rbce)
          (steps [if xferinfo then
                    steps [setopt ''CURLOPT_XFERINFOFUNCTION'' (VFun ''proc_xferinfo_handler''),
                           setopt ''CURLOPT_XFERINFODATA'' VRbce]
                  else
                    steps [setopt ''CURLOPT_PROGRESSFUNCTION'' (VFun ''proc_progress_handler''),
                           setopt ''CURLOPT_PROGRESSDATA'' VRbce],
                  setopt ''CURLOPT_NOPROGRESS'' (VLong 0)])
          (steps [setopt ''CURLOPT_NOPROGRESS'' (VLong 1),
                  if xferinfo then setopt ''CURLOPT_XFERINFODATA'' VRbce
                  else setopt ''CURLOPT_PROGRESSDATA'' VRbce]),
        if_state (\<lambda>rbce. \<not> rb_easy_nil ''debug_proc'' rbce)
          (steps [setopt ''CURLOPT_DEBUGFUNCTION'' (VFun ''proc_debug_handler''),
                  setopt ''CURLOPT_DEBUGDATA'' VRbce,
                  setopt ''CURLOPT_VERBOSE'' (VLong 1)])
          (steps [setopt ''CURLOPT_DEBUGFUNCTION'' VNull,
                  setopt ''CURLOPT_DEBUGDATA'' VRbce,
                  setopt_of ''CURLOPT_VERBOSE'' (\<lambda>rbce. flag_arg (verbose rbce))])])"

definition setup_redirects :: "setup_env \<Rightarrow> (ruby_curl_easy, unit) cmd" where
  "setup_redirects E =
     (let version = libcurl_version_num (s_env E)
      in steps [
        setopt_of ''CURLOPT_HEADER'' (\<lambda>rbce. flag_arg (header_in_body rbce)),
        setopt_of ''CURLOPT_FOLLOWLOCATION'' (\<lambda>rbce. flag_arg (follow_location rbce)),
        if_state (\<lambda>rbce. version = 0x081000 \<and> \<not> 0 \<le> max_redirs rbce) skip
          (setopt_of ''CURLOPT_MAXREDIRS'' (\<lambda>rbce. VLong (max_redirs rbce))),
        setopt_of ''CURLOPT_HTTPPROXYTUNNEL''
          (\<lambda>rbce. if public_policy_disables_proxy rbce then VLong 0 else flag_arg (proxy_tunnel rbce))])"

definition setup_timeouts :: "setup_env \<Rightarrow> (ruby_curl_easy, unit) cmd" where
  "setup_timeouts E =
     (let version = libcurl_version_num (s_env E)
      in steps [
        setopt_of ''CURLOPT_FILETIME'' (\<lambda>rbce. flag_arg (fetch_file_time rbce)),
        setopt_of ''CURLOPT_SSL_VERIFYPEER'' (\<lambda>rbce. flag_arg (ssl_verify_peer rbce)),
        setopt_of ''CURLOPT_SSL_VERIFYHOST'' (\<lambda>rbce. VLong (ssl_verify_host rbce)),
        setopt_of ''CURLOPT_NETRC'' (\<lambda>rbce. VLong (if use_netrc rbce then 1 else 0)),
        setopt_of ''CURLOPT_UNRESTRICTED_AUTH'' (\<lambda>rbce. flag_arg (unrestricted_auth rbce)),
        defined E ''HAVE_CURLOPT_TIMEOUT_MS''
          (setopt_of ''CURLOPT_TIMEOUT_MS'' (\<lambda>rbce. ulong_arg (timeout_ms rbce))),
        setopt_of ''CURLOPT_CONNECTTIMEOUT'' (\<lambda>rbce. ulong_arg (connect_timeout rbce)),
        defined E ''HAVE_CURLOPT_CONNECTTIMEOUT_MS''
          (setopt_of ''CURLOPT_CONNECTTIMEOUT_MS'' (\<lambda>rbce. ulong_arg (connect_timeout_ms rbce))),
        setopt_of ''CURLOPT_DNS_CACHE_TIMEOUT'' (\<lambda>rbce. VLong (dns_cache_timeout rbce)),
        setopt_of ''CURLOPT_IGNORE_CONTENT_LENGTH'' (\<lambda>rbce. flag_arg (ignore_content_length rbce)),
        setopt_of ''CURLOPT_IPRESOLVE'' (\<lambda>rbce. VLong (resolve_mode rbce)),
        defined E ''HAVE_CURLOPT_HTTP_VERSION''
          (setopt_of ''CURLOPT_HTTP_VERSION'' (\<lambda>rbce. VLong (http_version rbce))),
        if 0x070a08 \<le> version
          then setopt_of ''CURLOPT_FTP_RESPONSE_TIMEOUT'' (\<lambda>rbce. ulong_arg (ftp_response_timeout rbce))
          else skip,
        setopt_of ''CURLOPT_LOW_SPEED_LIMIT'' (\<lambda>rbce. VLong (low_speed_limit rbce)),
        setopt_of ''CURLOPT_LOW_SPEED_TIME'' (\<lambda>rbce. VLong (low_speed_time rbce)),
        setopt_of ''CURLOPT_MAX_RECV_SPEED_LARGE'' (\<lambda>rbce. VLong (max_recv_speed_large rbce)),
        setopt_of ''CURLOPT_MAX_SEND_SPEED_LARGE'' (\<lambda>rbce. VLong (max_send_speed_large rbce))])"

definition setup_general :: "setup_env \<Rightarrow> (ruby_curl_easy, unit) cmd" where
  "setup_general E = steps [setup_redirects E, setup_timeouts E]"

definition setup_ports :: "setup_env \<Rightarrow> (ruby_curl_easy, unit) cmd" where
  "setup_ports E =
     (let version = libcurl_version_num (s_env E)
      in steps [
        if_state (\<lambda>rbce. 0 < proxy_port rbce)
          (setopt_of ''CURLOPT_PROXYPORT'' (\<lambda>rbce. VLong (uint (proxy_port rbce)))) skip,
        if_state (\<lambda>rbce. 0 < local_port rbce \<and> 0x070f02 \<le> version)
          (steps [setopt_of ''CURLOPT_LOCALPORT'' (\<lambda>rbce. VLong (uint (local_port rbce))),
                  if_state (\<lambda>rbce. 0 < local_port_range rbce)
                    (setopt_of ''CURLOPT_LOCALPORTRANGE'' (\<lambda>rbce. VLong (uint (local_port_range rbce))))
                    skip]) skip,
        if 0x070a00 \<le> version then
          if_state (\<lambda>rbce. proxy_type rbce \<noteq> - 1)
            (if_state (\<lambda>rbce. proxy_type rbce = - 2) skip
               (setopt_of ''CURLOPT_PROXYTYPE'' (\<lambda>rbce. VLong (proxy_type rbce))))
            (setopt ''CURLOPT_PROXYTYPE'' (VLong 0))
        else skip,
        if_state (\<lambda>rbce. http_auth_types rbce \<noteq> 0 \<and> 0x070a06 \<le> version)
          (setopt_of ''CURLOPT_HTTPAUTH'' (\<lambda>rbce. VLong (http_auth_types rbce))) skip,
        if_state (\<lambda>rbce. proxy_auth_types rbce \<noteq> 0 \<and> 0x070a07 \<le> version)
          (setopt_of ''CURLOPT_PROXYAUTH'' (\<lambda>rbce. VLong (proxy_auth_types rbce))) skip])"

definition setup_cookies :: "(ruby_curl_easy, unit) cmd" where
  "setup_cookies = steps [
     if_state enable_cookies
       (steps [setopt_str_unless_nil ''CURLOPT_COOKIEJAR'' ''cookiejar'',
               if_state (rb_easy_nil ''cookiefile'') (setopt ''CURLOPT_COOKIEFILE'' (VStr []))
                 (setopt_str ''CURLOPT_COOKIEFILE'' ''cookiefile'')])
       (if_state cookielist_engine_enabled (setopt ''CURLOPT_COOKIEFILE'' (VStr [])) skip),
     setopt_str_unless_nil ''CURLOPT_COOKIE'' ''cookies'']"

definition setup_ssl :: "setup_env \<Rightarrow> (ruby_curl_easy, unit) cmd" where
  "setup_ssl E = steps [
     if_state (rb_easy_nil ''cert'') skip
       (steps [setopt_str_unless_nil ''CURLOPT_SSLCERTTYPE'' ''certtype'',
               setopt_str ''CURLOPT_SSLCERT'' ''cert'',
               setopt_str_unless_nil ''CURLOPT_SSLCERTPASSWD'' ''certpassword'',
               setopt_str_unless_nil ''CURLOPT_SSLKEY'' ''cert_key'']),
     if_state (\<lambda>rbce. \<not> rb_easy_nil ''cacert'' rbce) (setopt_str ''CURLOPT_CAINFO'' ''cacert'')
       (defined E ''HAVE_CURL_CONFIG_CA'' (setopt ''CURLOPT_CAINFO'' (VStr (CURL_CONFIG_CA E)))),
     defined E ''CURL_VERSION_SSL'' (steps [
       if_state (\<lambda>rbce. 0 < ssl_version rbce)
         (setopt_of ''CURLOPT_SSLVERSION'' (\<lambda>rbce. VLong (ssl_version rbce))) skip,
       if_state (\<lambda>rbce. 0 < use_ssl rbce)
         (setopt_of ''CURB_FTPSSL'' (\<lambda>rbce. VLong (use_ssl rbce))) skip]),
     if_state (\<lambda>rbce. 0 < ftp_filemethod rbce)
       (setopt_of ''CURLOPT_FTP_FILEMETHOD'' (\<lambda>rbce. VLong (ftp_filemethod rbce))) skip,
     setopt_str_unless_nil ''CURLOPT_USERAGENT'' ''useragent'']"

definition setup_http_headers :: "setup_env \<Rightarrow> (ruby_curl_easy, unit) cmd" where
  "setup_http_headers E = steps [
     setopt ''CURLOPT_HTTPHEADER'' VNull,
     setup_list ''headers'' ''CURLOPT_HTTPHEADER'' (\<lambda>v. is_array v \<or> is_hash v)
       (cb_each_http_header E) (append_as_string E ''Failed to append to headers list'')
       curl_headers put_headers,
     defined E ''HAVE_CURLOPT_PROXYHEADER'' (steps [
       setopt ''CURLOPT_PROXYHEADER'' VNull,
       setup_list ''proxy_headers'' ''CURLOPT_PROXYHEADER'' (\<lambda>v. is_array v \<or> is_hash v)
         (cb_each_http_proxy_header E) (append_as_string E ''Failed to append to proxy headers list'')
         curl_proxy_headers put_proxy_headers])]"

definition setup_other_lists :: "setup_env \<Rightarrow> (ruby_curl_easy, unit) cmd" where
  "setup_other_lists E = steps [
     setup_list ''ftp_commands'' ''CURLOPT_QUOTE'' is_array (cb_each_ftp_command E) (\<lambda>_. skip)
       curl_ftp_commands put_ftp_commands,
     defined E ''HAVE_CURLOPT_RESOLVE''
       (setup_list ''resolve'' ''CURLOPT_RESOLVE'' is_array (cb_each_resolve E)
          (append_as_string E ''Failed to append to resolve list'') curl_resolve put_resolve),
     defined E ''HAVE_CURLOPT_CONNECT_TO''
       (setup_list ''connect_to'' ''CURLOPT_CONNECT_TO'' is_array (cb_each_connect_to E)
          (append_as_string E ''Failed to append to connect-to list'') curl_connect_to
          put_connect_to)]"

definition ruby_curl_easy_setup_body :: "setup_env \<Rightarrow> (ruby_curl_easy, unit) cmd" where
  "ruby_curl_easy_setup_body E = steps [
     setup_reset,
     setup_url E,
     setup_allowed_hosts E,
     setup_network_policy E,
     setup_auth E,
     setup_proxy E,
     setup_data_procs,
     setup_progress_debug E,
     setup_general E,
     setup_ports E,
     setup_cookies,
     setup_ssl E,
     modify (ruby_curl_easy_clear_setup_lists (s_env E)),
     setup_http_headers E,
     setup_other_lists E]"

definition ruby_curl_easy_setup :: "setup_env \<Rightarrow> (ruby_curl_easy, unit) cmd" where
  "ruby_curl_easy_setup E =
     bind (modify ruby_curl_easy_enter_native) (\<lambda>_.
       rb_ensure (ruby_curl_easy_setup_body E) (modify ruby_curl_easy_leave_native))"

section \<open>Cleaning up after a transfer\<close>

definition cleanup_upload :: "curl_env \<Rightarrow> ruby_curl_easy \<Rightarrow> ruby_curl_easy" where
  "cleanup_upload env rbce =
     (if rb_easy_nil ''upload'' rbce then rbce
      else let rbce1 = curl_easy_setopt ''CURLOPT_READDATA'' VNull
                 (curl_easy_setopt ''CURLOPT_READFUNCTION'' VNull
                   (curl_easy_setopt ''CURLOPT_UPLOAD'' (VLong 0) (rb_easy_del ''upload'' rbce)));
               rbce2 = (if have_macro env ''HAVE_CURLOPT_SEEKFUNCTION''
                        then curl_easy_setopt ''CURLOPT_SEEKFUNCTION'' VNull rbce1 else rbce1);
               rbce3 = (if have_macro env ''HAVE_CURLOPT_SEEKDATA''
                        then curl_easy_setopt ''CURLOPT_SEEKDATA'' VNull rbce2 else rbce2)
           in curl_easy_setopt ''CURLOPT_INFILESIZE'' (VLong 0) rbce3)"

definition ruby_curl_easy_cleanup :: "curl_env \<Rightarrow> ruby_curl_easy \<Rightarrow> ruby_curl_easy" where
  "ruby_curl_easy_cleanup env rbce =
     (let rbce1 = ruby_curl_easy_clear_proxy_headers_list env
                    (ruby_curl_easy_clear_headers_list env rbce);
          rbce2 = (if curl_ftp_commands rbce1 \<noteq> []
                   then ruby_curl_easy_clear_ftp_commands_list env rbce1 else rbce1);
          rbce3 = (if curl_resolve rbce2 \<noteq> []
                   then ruby_curl_easy_clear_resolve_list env rbce2 else rbce2);
          rbce4 = (if curl_connect_to rbce3 \<noteq> []
                   then ruby_curl_easy_clear_connect_to_list env rbce3 else rbce3)
      in cleanup_upload env
           (curb_clear_network_allowed_hosts (curb_clear_network_allowed_cidr_rules rbce4)))"

end
