(* ===== verification/Curb_Setup_Facts.thy ===== *)
theory Curb_Setup_Facts
  imports Curb_Setup Curb_Network_Facts
begin

text \<open>
  What a prepared handle looks like to libcurl: which options each block of
  \<open>ruby_curl_easy_setup_body\<close> sets (the frame lemmas), that the \<open>:public\<close> policy is
  installed completely whenever setup returns, when setup returns, the contents of the header
  list, and that \<open>ruby_curl_easy_cleanup\<close> takes back what setup installed.
\<close>

section \<open>Relations kept by statements\<close>

text \<open>A reflexive and transitive relation between the states before and after: once the
  primitive statements keep it, every composition of them does.\<close>

locale step_relation =
  fixes R :: "'s \<Rightarrow> 's \<Rightarrow> bool"
  assumes reflexive: "R s s"
    and transitive: "R s t \<Longrightarrow> R t u \<Longrightarrow> R s u"
begin

lemma pure:
  "keeps R (ret a)" "keeps R (rb_raise c x)" "keeps R (rb_exc_raise e)" "keeps R (lift_res r)"
  "keeps R (gets f)"
  by (simp_all add: keeps_def cmd_defs reflexive)

lemma bound: "keeps R m \<Longrightarrow> (\<And>a. keeps R (f a)) \<Longrightarrow> keeps R (bind m f)"
  by (rule keeps_bind) (auto intro: transitive)

lemma sequence: "(\<And>c. c \<in> set cs \<Longrightarrow> keeps R c) \<Longrightarrow> keeps R (steps cs)"
  by (induction cs) (auto intro: bound pure)

lemma cons: "keeps R c \<Longrightarrow> keeps R (steps cs) \<Longrightarrow> keeps R (steps (c # cs))"
  by (auto intro: bound)

lemma empty: "keeps R (steps [])"
  by (simp add: pure)

lemma choice: "keeps R m \<Longrightarrow> keeps R n \<Longrightarrow> keeps R (if_state P m n)"
  by (simp add: keeps_def if_state_def)

lemma branch: "(b \<Longrightarrow> keeps R m) \<Longrightarrow> (\<not> b \<Longrightarrow> keeps R n) \<Longrightarrow> keeps R (if b then m else n)"
  by simp

lemma assign: "(\<And>s. R s (f s)) \<Longrightarrow> keeps R (modify f)"
  by (simp add: keeps_def modify_def)

end

text \<open>A relation that does not depend on the options given to libcurl.\<close>

locale option_relation = step_relation R
  for R :: "ruby_curl_easy \<Rightarrow> ruby_curl_easy \<Rightarrow> bool" +
  assumes option_set: "R s (curl_easy_setopt k v s)"
begin

lemma set_option: "keeps R (setopt opt v)" "keeps R (setopt_of opt f)"
  by (simp_all add: keeps_def setopt_def setopt_of_def modify_def option_set)

lemma set_string:
  "keeps R (setopt_str opt key)" "keeps R (setopt_str_or_null opt key)"
  "keeps R (setopt_str_unless_nil opt key)"
  unfolding setopt_str_or_null_def setopt_str_unless_nil_def setopt_str_def
  by (intro choice bound pure set_option)+

lemma conditional: "keeps R m \<Longrightarrow> keeps R (defined E macro m)"
  by (simp add: defined_def pure)

lemma list_option:
  assumes put: "\<And>l r. R r (put l r)"
  shows "keeps R (setup_list key opt iterable each single get put)"
proof -
  have on: "keeps R (on_list get put m)" for m :: "(string list, unit) cmd"
    using put by (auto simp: keeps_def on_list_def split: prod.splits)
  show ?thesis
    unfolding setup_list_def by (intro cons empty choice branch pure set_option bound on)
qed

lemma cleared_list:
  assumes put: "\<And>l r. R r (put l r)"
  shows "R r (clear_list has opt macro get put r)"
  using put reflexive transitive [OF option_set put] by (auto simp: clear_list_def)

lemmas intros = cons empty choice branch pure conditional set_option set_string list_option

end

text \<open>Everything but the options in \<open>S\<close> and the state a setup may change.\<close>

definition setup_frame :: "string set \<Rightarrow> ruby_curl_easy \<Rightarrow> ruby_curl_easy \<Rightarrow> bool" where
  "setup_frame S s t \<longleftrightarrow>
     (\<forall>opt. opt \<notin> S \<longrightarrow> curl_opt t opt = curl_opt s opt) \<and>
     (\<forall>k. k \<notin> {''body_data'', ''header_data''} \<longrightarrow> rb_easy_get k t = rb_easy_get k s) \<and>
     curl t = curl s \<and> multi t = multi s \<and> network_policy t = network_policy s \<and>
     allow_proxy t = allow_proxy s \<and> allow_unix_socket t = allow_unix_socket s \<and>
     native_active t = native_active s \<and> callback_active t = callback_active s \<and>
     multi_attachment_generation t = multi_attachment_generation s"

definition same_rules :: "ruby_curl_easy \<Rightarrow> ruby_curl_easy \<Rightarrow> bool" where
  "same_rules s t \<longleftrightarrow>
     network_allowed_cidr_rules t = network_allowed_cidr_rules s \<and>
     network_allowed_cidr_rule_count t = network_allowed_cidr_rule_count s \<and>
     network_allowed_hosts t = network_allowed_hosts s \<and>
     network_allowed_host_count t = network_allowed_host_count s"

definition same_errors :: "ruby_curl_easy \<Rightarrow> ruby_curl_easy \<Rightarrow> bool" where
  "same_errors s t \<longleftrightarrow> callback_error t = callback_error s \<and>
     unsafe_destination_blocked t = unsafe_destination_blocked s \<and>
     unsafe_destination_error t = unsafe_destination_error s"

interpretation frame: step_relation "setup_frame S" for S
  by unfold_locales (auto simp: setup_frame_def)

interpretation rules: option_relation same_rules
  by unfold_locales (auto simp: same_rules_def curl_easy_setopt_def)

interpretation errors: option_relation same_errors
  by unfold_locales (auto simp: same_errors_def curl_easy_setopt_def)

lemma setup_frame_mono: "setup_frame S s t \<Longrightarrow> S \<subseteq> T \<Longrightarrow> setup_frame T s t"
  by (auto simp: setup_frame_def)

lemma keeps_frame_mono: "keeps (setup_frame S) m \<Longrightarrow> S \<subseteq> T \<Longrightarrow> keeps (setup_frame T) m"
  by (auto simp: keeps_def intro: setup_frame_mono)

text \<open>The statements that set options.\<close>

lemma frame_setopt:
  "opt \<in> S \<Longrightarrow> keeps (setup_frame S) (setopt opt v)"
  "opt \<in> S \<Longrightarrow> keeps (setup_frame S) (setopt_of opt f)"
  by (auto simp: keeps_def setopt_def setopt_of_def cmd_defs setup_frame_def curl_opt_setopt)
     (auto simp: curl_easy_setopt_def rb_easy_get_def)

lemma frame_setopt_str:
  assumes "opt \<in> S"
  shows "keeps (setup_frame S) (setopt_str opt key)"
    and "keeps (setup_frame S) (setopt_str_or_null opt key)"
    and "keeps (setup_frame S) (setopt_str_unless_nil opt key)"
proof -
  show str: "keeps (setup_frame S) (setopt_str opt key)"
    unfolding setopt_str_def by (intro frame.bound frame.pure frame_setopt assms)
  show "keeps (setup_frame S) (setopt_str_or_null opt key)"
    and "keeps (setup_frame S) (setopt_str_unless_nil opt key)"
    unfolding setopt_str_or_null_def setopt_str_unless_nil_def
    by (intro frame.choice frame.pure str frame_setopt assms)+
qed

lemma frame_defined: "keeps (setup_frame S) m \<Longrightarrow> keeps (setup_frame S) (defined E macro m)"
  by (simp add: defined_def frame.pure)

lemmas frame_intros = frame.cons frame.empty frame.choice frame.branch frame.pure frame_defined
  frame_setopt frame_setopt_str

section \<open>The options each block sets\<close>

definition url_options :: "string set" where
  "url_options = {''CURLOPT_URL'', ''CURLOPT_DOH_URL'', ''CURLOPT_DNS_SERVERS''}"

definition policy_options :: "string set" where
  "policy_options = {''CURLOPT_OPENSOCKETFUNCTION'', ''CURLOPT_OPENSOCKETDATA'',
     ''CURLOPT_FRESH_CONNECT'', ''CURLOPT_FORBID_REUSE'', ''CURLOPT_UNIX_SOCKET_PATH''}"

definition host_options :: "string set" where
  "host_options = {''CURLOPT_PREREQFUNCTION'', ''CURLOPT_PREREQDATA''}"

definition auth_options :: "string set" where
  "auth_options = {''CURLOPT_INTERFACE'', ''CURLOPT_USERNAME'', ''CURLOPT_PASSWORD'',
     ''CURLOPT_USERPWD''}"

definition proxy_options :: "string set" where
  "proxy_options = {''CURLOPT_PROXY'', ''CURLOPT_PROXYUSERPWD'', ''CURLOPT_NOPROXY''}"

definition callback_options :: "string set" where
  "callback_options = {''CURLOPT_WRITEFUNCTION'', ''CURLOPT_WRITEDATA'',
     ''CURLOPT_HEADERFUNCTION'', ''CURLOPT_HEADERDATA'', ''CURLOPT_ENCODING'',
     ''CURLOPT_XFERINFOFUNCTION'', ''CURLOPT_XFERINFODATA'', ''CURLOPT_PROGRESSFUNCTION'',
     ''CURLOPT_PROGRESSDATA'', ''CURLOPT_NOPROGRESS'', ''CURLOPT_DEBUGFUNCTION'',
     ''CURLOPT_DEBUGDATA'', ''CURLOPT_VERBOSE''}"

definition general_options :: "string set" where
  "general_options = {''CURLOPT_HEADER'', ''CURLOPT_FOLLOWLOCATION'', ''CURLOPT_MAXREDIRS'',
     ''CURLOPT_HTTPPROXYTUNNEL'', ''CURLOPT_FILETIME'', ''CURLOPT_SSL_VERIFYPEER'',
     ''CURLOPT_SSL_VERIFYHOST'', ''CURLOPT_NETRC'', ''CURLOPT_UNRESTRICTED_AUTH'',
     ''CURLOPT_TIMEOUT_MS'', ''CURLOPT_CONNECTTIMEOUT'', ''CURLOPT_CONNECTTIMEOUT_MS'',
     ''CURLOPT_DNS_CACHE_TIMEOUT'', ''CURLOPT_IGNORE_CONTENT_LENGTH'', ''CURLOPT_IPRESOLVE'',
     ''CURLOPT_HTTP_VERSION'', ''CURLOPT_FTP_RESPONSE_TIMEOUT'', ''CURLOPT_LOW_SPEED_LIMIT'',
     ''CURLOPT_LOW_SPEED_TIME'', ''CURLOPT_MAX_RECV_SPEED_LARGE'',
     ''CURLOPT_MAX_SEND_SPEED_LARGE''}"

definition port_options :: "string set" where
  "port_options = {''CURLOPT_PROXYPORT'', ''CURLOPT_LOCALPORT'', ''CURLOPT_LOCALPORTRANGE'',
     ''CURLOPT_PROXYTYPE'', ''CURLOPT_HTTPAUTH'', ''CURLOPT_PROXYAUTH''}"

definition file_options :: "string set" where
  "file_options = {''CURLOPT_COOKIEJAR'', ''CURLOPT_COOKIEFILE'', ''CURLOPT_COOKIE'',
     ''CURLOPT_SSLCERTTYPE'', ''CURLOPT_SSLCERT'', ''CURLOPT_SSLCERTPASSWD'', ''CURLOPT_SSLKEY'',
     ''CURLOPT_CAINFO'', ''CURLOPT_SSLVERSION'', ''CURB_FTPSSL'', ''CURLOPT_FTP_FILEMETHOD'',
     ''CURLOPT_USERAGENT''}"

definition header_options :: "string set" where
  "header_options = {''CURLOPT_HTTPHEADER'', ''CURLOPT_PROXYHEADER''}"

definition list_options :: "string set" where
  "list_options = {''CURLOPT_QUOTE'', ''CURLOPT_RESOLVE'', ''CURLOPT_CONNECT_TO''}"

lemmas option_sets = url_options_def policy_options_def host_options_def auth_options_def
  proxy_options_def callback_options_def general_options_def port_options_def file_options_def
  header_options_def list_options_def

lemma setup_reset_frame:
  "keeps (setup_frame {}) setup_reset" "keeps same_rules setup_reset"
  by (auto simp: keeps_def setup_reset_def cmd_defs setup_frame_def same_rules_def
      curl_opt_def rb_easy_get_def)

lemma setup_location_frame: "keeps (setup_frame url_options) (setup_location E)"
  unfolding setup_location_def by (intro frame_intros) (simp_all add: url_options_def)

lemma setup_url_frame: "keeps (setup_frame url_options) (setup_url E)"
  unfolding setup_url_def setup_dns_def
  by (intro frame_intros setup_location_frame) (simp_all add: url_options_def)

lemma clear_rules_frame:
  "setup_frame {} s (curb_clear_network_allowed_cidr_rules s)"
  "setup_frame {} s (curb_clear_network_allowed_hosts s)"
  by (simp_all add: setup_frame_def curl_opt_def rb_easy_get_def
      curb_clear_network_allowed_cidr_rules_def curb_clear_network_allowed_hosts_def)

lemma prepare_frame:
  "keeps (setup_frame {}) curb_prepare_network_allowed_hosts"
  "keeps (setup_frame {}) (curb_prepare_network_allowed_cidr_rules p4 p6)"
proof -
  have set: "setup_frame {} s (t\<lparr>network_allowed_hosts := a, network_allowed_host_count := n\<rparr>)"
    "setup_frame {} s (t\<lparr>network_allowed_cidr_rules := b, network_allowed_cidr_rule_count := n\<rparr>)"
    if "setup_frame {} s t" for s t a b n
    using that by (simp_all add: setup_frame_def curl_opt_def rb_easy_get_def)
  show "keeps (setup_frame {}) curb_prepare_network_allowed_hosts"
    "keeps (setup_frame {}) (curb_prepare_network_allowed_cidr_rules p4 p6)"
    by (auto simp: keeps_def curb_prepare_network_allowed_hosts_def
        curb_prepare_network_allowed_cidr_rules_def Let_def
        intro!: set clear_rules_frame split: sum.splits)
qed

lemma setup_allowed_hosts_frame: "keeps (setup_frame host_options) (setup_allowed_hosts E)"
  unfolding setup_allowed_hosts_def
  by (intro frame_intros frame.assign keeps_frame_mono [OF prepare_frame(1)]
      setup_frame_mono [OF clear_rules_frame(2)]) (simp_all add: host_options_def)

lemma setup_network_policy_frame: "keeps (setup_frame policy_options) (setup_network_policy E)"
  unfolding setup_network_policy_def
  by (intro frame_intros frame.assign keeps_frame_mono [OF prepare_frame(2)]
      setup_frame_mono [OF clear_rules_frame(1)]) (simp_all add: policy_options_def)

lemma setup_auth_frame: "keeps (setup_frame auth_options) (setup_auth E)"
  unfolding setup_auth_def Let_def by (intro frame_intros) (simp_all add: auth_options_def)

lemma setup_proxy_frame: "keeps (setup_frame proxy_options) (setup_proxy E)"
  unfolding setup_proxy_def by (intro frame_intros) (simp_all add: proxy_options_def)

lemma setup_data_procs_frame: "keeps (setup_frame callback_options) setup_data_procs"
  unfolding setup_data_procs_def
  by (intro frame_intros frame.assign)
     (simp_all add: callback_options_def setup_frame_def curl_opt_def rb_easy_get_def
        rb_easy_set_def rb_easy_del_def)

lemma setup_progress_debug_frame: "keeps (setup_frame callback_options) (setup_progress_debug E)"
  unfolding setup_progress_debug_def Let_def
  by (intro frame_intros) (simp_all add: callback_options_def)

lemma setup_timeouts_frame:
  "keeps (setup_frame (general_options - {''CURLOPT_HTTPPROXYTUNNEL''})) (setup_timeouts E)"
  unfolding setup_timeouts_def Let_def
  by (intro frame_intros) (simp_all add: general_options_def)

lemma setup_general_frame: "keeps (setup_frame general_options) (setup_general E)"
  unfolding setup_general_def setup_redirects_def Let_def
  by (intro frame_intros keeps_frame_mono [OF setup_timeouts_frame])
     (auto simp: general_options_def)

lemma setup_ports_frame: "keeps (setup_frame port_options) (setup_ports E)"
  unfolding setup_ports_def Let_def by (intro frame_intros) (simp_all add: port_options_def)

lemma setup_cookies_frame: "keeps (setup_frame file_options) setup_cookies"
  unfolding setup_cookies_def by (intro frame_intros) (simp_all add: file_options_def)

lemma setup_ssl_frame: "keeps (setup_frame file_options) (setup_ssl E)"
  unfolding setup_ssl_def by (intro frame_intros) (simp_all add: file_options_def)

text \<open>The lists, with the laws of a field accessor pair.\<close>

lemma clear_list_frame:
  assumes "opt \<in> S" and put: "\<And>l r. setup_frame {} r (put l r)"
  shows "setup_frame S r (clear_list has opt macro get put r)"
proof -
  have "setup_frame S r (curl_easy_setopt opt VNull r)"
    using keepsD [OF frame_setopt(1) [OF assms(1)], of r VNull]
    by (simp add: setopt_def modify_def)
  then show ?thesis
    using frame.reflexive frame.transitive setup_frame_mono [OF put, of S]
    by (auto simp: clear_list_def)
qed

lemma setup_list_frame:
  assumes "opt \<in> S" and put: "\<And>l r. setup_frame {} r (put l r)"
  shows "keeps (setup_frame S) (setup_list key opt iterable each single get put)"
proof -
  have on: "keeps (setup_frame S) (on_list get put m)" for m :: "(string list, unit) cmd"
    using setup_frame_mono [OF put, of S]
    by (auto simp: keeps_def on_list_def split: prod.splits)
  show ?thesis
    unfolding setup_list_def
    by (intro frame_intros frame.bound on) (use assms in simp_all)
qed

lemma put_frames:
  "setup_frame {} r (put_headers l r)" "setup_frame {} r (put_proxy_headers l r)"
  "setup_frame {} r (put_ftp_commands l r)" "setup_frame {} r (put_resolve l r)"
  "setup_frame {} r (put_connect_to l r)"
  by (simp_all add: setup_frame_def curl_opt_def rb_easy_get_def)

lemmas clear_list_defs = ruby_curl_easy_clear_headers_list_def
  ruby_curl_easy_clear_proxy_headers_list_def ruby_curl_easy_clear_ftp_commands_list_def
  ruby_curl_easy_clear_resolve_list_def ruby_curl_easy_clear_connect_to_list_def

lemma clear_each_frame:
  assumes "header_options \<union> list_options \<subseteq> S"
  shows "setup_frame S r (ruby_curl_easy_clear_headers_list env r)"
    "setup_frame S r (ruby_curl_easy_clear_proxy_headers_list env r)"
    "setup_frame S r (ruby_curl_easy_clear_ftp_commands_list env r)"
    "setup_frame S r (ruby_curl_easy_clear_resolve_list env r)"
    "setup_frame S r (ruby_curl_easy_clear_connect_to_list env r)"
  using assms unfolding clear_list_defs header_options_def list_options_def
  by (auto intro!: clear_list_frame put_frames)

lemma clear_setup_lists_frame:
  "setup_frame (header_options \<union> list_options) r (ruby_curl_easy_clear_setup_lists env r)"
  unfolding ruby_curl_easy_clear_setup_lists_def
  by (rule frame.transitive [OF frame.transitive [OF frame.transitive [OF frame.transitive]]];
      rule clear_each_frame, rule order_refl)

lemma setup_http_headers_frame: "keeps (setup_frame header_options) (setup_http_headers E)"
  unfolding setup_http_headers_def
  by (intro frame_intros setup_list_frame put_frames) (simp_all add: header_options_def)

lemma setup_other_lists_frame: "keeps (setup_frame list_options) (setup_other_lists E)"
  unfolding setup_other_lists_def
  by (intro frame_intros setup_list_frame put_frames) (simp_all add: list_options_def)

section \<open>A completed setup\<close>

lemma keeps_run: "keeps R m \<Longrightarrow> m s = (r, t) \<Longrightarrow> R s t"
  by (metis keepsD snd_conv)

text \<open>The states between the blocks when nothing is raised.\<close>

lemma setup_body_states:
  assumes "ruby_curl_easy_setup_body E r = (Inr (), u)"
  obtains a h p w x g0 g f d where
    "setup_url E (snd (setup_reset r)) = (Inr (), a)" and
    "setup_allowed_hosts E a = (Inr (), h)" and "setup_network_policy E h = (Inr (), p)" and
    "setup_auth E p = (Inr (), w)" and "setup_proxy E w = (Inr (), x)" and
    "steps [setup_data_procs, setup_progress_debug E] x = (Inr (), g0)" and
    "setup_general E g0 = (Inr (), g)" and
    "steps [setup_ports E, setup_cookies, setup_ssl E] g = (Inr (), f)" and
    "setup_http_headers E (ruby_curl_easy_clear_setup_lists (s_env E) f) = (Inr (), d)" and
    "setup_other_lists E d = (Inr (), u)"
  using assms unfolding ruby_curl_easy_setup_body_def steps.simps
  by (elim bind_InrE) (auto simp: bind_def setup_reset_def cmd_defs)

lemma setup_frames_end:
  assumes "steps [setup_ports E, setup_cookies, setup_ssl E] g = (Inr (), f)"
    and "setup_http_headers E (ruby_curl_easy_clear_setup_lists (s_env E) f) = (Inr (), d)"
    and "setup_other_lists E d = (Inr (), u)"
  shows "setup_frame (port_options \<union> file_options) g f" and "setup_frame (header_options \<union> list_options) f u"
proof -
  let ?L = "header_options \<union> list_options" and ?F = "port_options \<union> file_options"
  let ?c = "ruby_curl_easy_clear_setup_lists (s_env E) f"
  have "keeps (setup_frame ?F) (steps [setup_ports E, setup_cookies, setup_ssl E])"
    by (intro frame_intros keeps_frame_mono [OF setup_ports_frame]
        keeps_frame_mono [OF setup_cookies_frame] keeps_frame_mono [OF setup_ssl_frame]) auto
  from keeps_run [OF this assms(1)] show "setup_frame ?F g f" .
  have "setup_frame ?L ?c d" "setup_frame ?L d u"
    using keeps_run [OF setup_http_headers_frame assms(2)] keeps_run [OF setup_other_lists_frame assms(3)]
    by (auto intro: setup_frame_mono)
  then show "setup_frame ?L f u"
    using clear_setup_lists_frame frame.transitive by blast
qed

lemma setup_frames:
  assumes "ruby_curl_easy_setup_body E r = (Inr (), u)"
  obtains a h p w x g0 g f where
    "setup_url E (snd (setup_reset r)) = (Inr (), a)" and "setup_frame url_options r a" and
    "setup_allowed_hosts E a = (Inr (), h)" and "setup_frame host_options a h" and
    "setup_network_policy E h = (Inr (), p)" and "setup_frame policy_options h p" and
    "setup_frame auth_options p w" and "setup_proxy E w = (Inr (), x)" and
    "setup_frame proxy_options w x" and "setup_frame callback_options x g0" and
    "setup_general E g0 = (Inr (), g)" and "setup_frame general_options g0 g" and
    "setup_frame (port_options \<union> file_options) g f" and
    "setup_frame (header_options \<union> list_options) f u"
proof -
  from assms obtain a h p w x g0 g f d where
    s: "setup_url E (snd (setup_reset r)) = (Inr (), a)"
      "setup_allowed_hosts E a = (Inr (), h)" "setup_network_policy E h = (Inr (), p)"
      "setup_auth E p = (Inr (), w)" "setup_proxy E w = (Inr (), x)"
      "steps [setup_data_procs, setup_progress_debug E] x = (Inr (), g0)"
      "setup_general E g0 = (Inr (), g)"
      "steps [setup_ports E, setup_cookies, setup_ssl E] g = (Inr (), f)"
      "setup_http_headers E (ruby_curl_easy_clear_setup_lists (s_env E) f) = (Inr (), d)"
      "setup_other_lists E d = (Inr (), u)"
    by (rule setup_body_states)
  have k1: "keeps (setup_frame callback_options) (steps [setup_data_procs, setup_progress_debug E])"
    by (intro frame_intros setup_data_procs_frame setup_progress_debug_frame)
  have "setup_frame url_options r a"
    using keeps_run [OF setup_url_frame s(1)] frame.transitive
      setup_frame_mono [OF keepsD [OF setup_reset_frame(1)], of url_options r] by blast
  then show thesis
    using that [OF s(1) _ s(2) keeps_run [OF setup_allowed_hosts_frame s(2)]
      s(3) keeps_run [OF setup_network_policy_frame s(3)] keeps_run [OF setup_auth_frame s(4)]
      s(5) keeps_run [OF setup_proxy_frame s(5)] keeps_run [OF k1 s(6)]
      s(7) keeps_run [OF setup_general_frame s(7)] setup_frames_end [OF s(8-10)]] by blast
qed

lemma setup_InrD:
  assumes "ruby_curl_easy_setup E r = (Inr (), t)"
  obtains u where "ruby_curl_easy_setup_body E (ruby_curl_easy_enter_native r) = (Inr (), u)"
    and "t = ruby_curl_easy_leave_native u"
  using assms
  by (auto simp: ruby_curl_easy_setup_def rb_ensure_def cmd_simps split: prod.splits sum.splits)

lemma native_same:
  "curl_opt (ruby_curl_easy_enter_native r) = curl_opt r"
  "curl_opt (ruby_curl_easy_leave_native r) = curl_opt r"
  "rb_easy_get k (ruby_curl_easy_enter_native r) = rb_easy_get k r"
  "rb_easy_get k (ruby_curl_easy_leave_native r) = rb_easy_get k r"
  "network_policy (ruby_curl_easy_enter_native r) = network_policy r"
  "allow_proxy (ruby_curl_easy_enter_native r) = allow_proxy r"
  "allow_unix_socket (ruby_curl_easy_enter_native r) = allow_unix_socket r"
  "same_rules r (ruby_curl_easy_enter_native r)" "same_rules r (ruby_curl_easy_leave_native r)"
  by (simp_all add: ruby_curl_easy_enter_native_def ruby_curl_easy_leave_native_def curl_opt_def
      rb_easy_get_def same_rules_def fun_eq_iff)

lemma frame_opt: "setup_frame S s t \<Longrightarrow> opt \<notin> S \<Longrightarrow> curl_opt t opt = curl_opt s opt"
  by (simp add: setup_frame_def)

lemma frame_fields:
  assumes "setup_frame S s t"
  shows "network_policy t = network_policy s" "allow_proxy t = allow_proxy s"
    "allow_unix_socket t = allow_unix_socket s" "native_active t = native_active s"
    "k \<notin> {''body_data'', ''header_data''} \<Longrightarrow> rb_easy_get k t = rb_easy_get k s"
  using assms by (simp_all add: setup_frame_def)

text \<open>After the policy block nothing touches the compiled allowlists.\<close>

lemma clear_setup_lists_rules: "same_rules r (ruby_curl_easy_clear_setup_lists env r)"
  unfolding ruby_curl_easy_clear_setup_lists_def clear_list_defs
  by (rule rules.transitive [OF rules.transitive [OF rules.transitive [OF rules.transitive]]];
      rule rules.cleared_list, simp add: same_rules_def)

lemma setup_rules_after_policy:
  "keeps same_rules (steps [setup_auth E, setup_proxy E, setup_data_procs, setup_progress_debug E,
     setup_general E, setup_ports E, setup_cookies, setup_ssl E,
     modify (ruby_curl_easy_clear_setup_lists (s_env E)), setup_http_headers E,
     setup_other_lists E])"
  unfolding setup_auth_def setup_proxy_def setup_data_procs_def setup_progress_debug_def
    setup_general_def setup_redirects_def setup_timeouts_def setup_ports_def setup_cookies_def setup_ssl_def setup_http_headers_def
    setup_other_lists_def Let_def
  by (intro rules.intros rules.assign clear_setup_lists_rules)
     (simp_all add: same_rules_def rb_easy_set_def rb_easy_del_def)

lemma setup_rules_same:
  assumes "ruby_curl_easy_setup_body E r = (Inr (), u)"
  obtains h p where "setup_network_policy E h = (Inr (), p)" and "same_rules p u"
    and "setup_allowed_hosts E (snd (setup_url E (snd (setup_reset r)))) = (Inr (), h)"
proof -
  let ?rest = "steps [setup_auth E, setup_proxy E, setup_data_procs, setup_progress_debug E,
     setup_general E, setup_ports E, setup_cookies, setup_ssl E,
     modify (ruby_curl_easy_clear_setup_lists (s_env E)), setup_http_headers E,
     setup_other_lists E]"
  have "ruby_curl_easy_setup_body E = bind setup_reset (\<lambda>_. bind (setup_url E) (\<lambda>_.
      bind (setup_allowed_hosts E) (\<lambda>_. bind (setup_network_policy E) (\<lambda>_. ?rest))))"
    by (simp only: ruby_curl_easy_setup_body_def steps.simps)
  with assms have "bind setup_reset (\<lambda>_. bind (setup_url E) (\<lambda>_.
      bind (setup_allowed_hosts E) (\<lambda>_. bind (setup_network_policy E) (\<lambda>_. ?rest)))) r = (Inr (), u)"
    by (simp only:)
  then obtain a h p where "setup_url E (snd (setup_reset r)) = (Inr (), a)"
    "setup_allowed_hosts E a = (Inr (), h)" "setup_network_policy E h = (Inr (), p)"
    "?rest p = (Inr (), u)"
    by (elim bind_InrE) (simp del: steps.simps)
  then show thesis
    using that keeps_run [OF setup_rules_after_policy] by simp
qed

section \<open>What the blocks install\<close>

lemmas step_defs = bind_def cmd_defs if_state_def defined_def setopt_def setopt_of_def

lemma setopt_fields [simp]:
  "network_policy (curl_easy_setopt k v r) = network_policy r"
  "allow_proxy (curl_easy_setopt k v r) = allow_proxy r"
  "allow_unix_socket (curl_easy_setopt k v r) = allow_unix_socket r"
  "rb_easy_get k' (curl_easy_setopt k v r) = rb_easy_get k' r"
  "rb_easy_nil k' (curl_easy_setopt k v r) = rb_easy_nil k' r"
  "same_rules s (curl_easy_setopt k v r) = same_rules s r"
  by (simp_all add: curl_easy_setopt_def rb_easy_get_def rb_easy_nil_def same_rules_def)

definition opensocket_installed :: "setup_env \<Rightarrow> bool \<Rightarrow> ruby_curl_easy \<Rightarrow> bool" where
  "opensocket_installed E unix_ok r \<longleftrightarrow>
     curl_opt r ''CURLOPT_OPENSOCKETFUNCTION'' = Some (VFun ''curb_public_network_opensocket'') \<and>
     curl_opt r ''CURLOPT_OPENSOCKETDATA'' = Some VRbce \<and>
     (have_macro (s_env E) ''HAVE_CURLOPT_FRESH_CONNECT'' \<longrightarrow>
        curl_opt r ''CURLOPT_FRESH_CONNECT'' = Some (VLong 1)) \<and>
     (have_macro (s_env E) ''HAVE_CURLOPT_FORBID_REUSE'' \<longrightarrow>
        curl_opt r ''CURLOPT_FORBID_REUSE'' = Some (VLong 1)) \<and>
     (have_macro (s_env E) ''HAVE_CURLOPT_UNIX_SOCKET_PATH'' \<and> \<not> unix_ok \<longrightarrow>
        curl_opt r ''CURLOPT_UNIX_SOCKET_PATH'' = Some VNull)"

definition proxy_disabled :: "ruby_curl_easy \<Rightarrow> bool" where
  "proxy_disabled r \<longleftrightarrow>
     curl_opt r ''CURLOPT_PROXY'' = Some (VStr []) \<and>
     curl_opt r ''CURLOPT_PROXYUSERPWD'' = Some VNull \<and>
     curl_opt r ''CURLOPT_HTTPPROXYTUNNEL'' = Some (VLong 0)"

text \<open>The rules compiled from the allowlist the Ruby object holds.\<close>

definition cidr_rules_compiled :: "setup_env \<Rightarrow> rvalue \<Rightarrow> ruby_curl_easy \<Rightarrow> bool" where
  "cidr_rules_compiled E cidrs r \<longleftrightarrow>
     (case map_res (cidr_value (s_pton4 E) (s_pton6 E)) (stored_array cidrs) of
        Inl _ \<Rightarrow> False
      | Inr rules \<Rightarrow> network_allowed_cidr_rule_count r = length rules \<and>
          network_allowed_cidr_rules r = (if rules = [] then None else Some rules))"

lemma prepare_cidr_compiled:
  assumes "cidr_rules_ok r"
    and "curb_prepare_network_allowed_cidr_rules (s_pton4 E) (s_pton6 E) r = (Inr (), t)"
  shows "cidr_rules_compiled E (rb_easy_get ''allowed_cidrs'' r) t"
proof (cases "stored_array (rb_easy_get ''allowed_cidrs'' r) = []")
  case True
  then show ?thesis
    using assms by (auto simp: curb_prepare_network_allowed_cidr_rules_def Let_def
        cidr_rules_compiled_def split: if_splits)
next
  case False
  then have "rb_easy_get ''allowed_cidrs'' r \<noteq> Qnil" by (auto simp: stored_array_def)
  with False show ?thesis
    using assms by (auto simp: curb_prepare_network_allowed_cidr_rules_def Let_def
        cidr_rules_compiled_def dest: map_res_length split: sum.splits)
qed

lemma compiled_same: "same_rules s t \<Longrightarrow> cidr_rules_compiled E v t = cidr_rules_compiled E v s"
  by (simp add: same_rules_def cidr_rules_compiled_def split: sum.splits)

lemma network_policy_installs:
  assumes "have_opensocket_policy (s_env E)" and "network_policy h = 1" and "cidr_rules_ok h"
    and "setup_network_policy E h = (Inr (), p)"
  shows "opensocket_installed E (allow_unix_socket h) p"
    and "cidr_rules_compiled E (rb_easy_get ''allowed_cidrs'' h) p"
proof -
  obtain t where t: "curb_prepare_network_allowed_cidr_rules (s_pton4 E) (s_pton6 E) h = (Inr (), t)"
    using assms by (auto simp: setup_network_policy_def if_state_def public_policy_def
        elim: bind_InrE)
  have unix: "allow_unix_socket t = allow_unix_socket h"
    using keeps_run [OF prepare_frame(2) t] by (rule frame_fields)
  note p = assms(4) [unfolded setup_network_policy_def public_policy_def]
  show "opensocket_installed E (allow_unix_socket h) p"
    using p assms(1,2) unix
    by (auto simp: t step_defs opensocket_installed_def curl_opt_setopt split: if_splits)
  have "same_rules t p"
    using p assms(1,2) rules.reflexive by (auto simp: t step_defs split: if_splits)
  then show "cidr_rules_compiled E (rb_easy_get ''allowed_cidrs'' h) p"
    using prepare_cidr_compiled [OF assms(3) t] by (simp add: compiled_same)
qed

lemma proxy_installs:
  assumes "public_policy_disables_proxy w" and "setup_proxy E w = (Inr (), x)"
  shows "curl_opt x ''CURLOPT_PROXY'' = Some (VStr [])"
    and "curl_opt x ''CURLOPT_PROXYUSERPWD'' = Some VNull"
proof -
  let ?y = "curl_easy_setopt ''CURLOPT_PROXYUSERPWD'' VNull
    (curl_easy_setopt ''CURLOPT_PROXY'' (VStr []) w)"
  have "defined E ''HAVE_CURLOPT_NOPROXY'' (setopt_str_or_null ''CURLOPT_NOPROXY'' ''noproxy'') ?y
      = (Inr (), x)"
    using assms by (auto simp: setup_proxy_def bind_def if_state_def setopt_def modify_def ret_def
        public_policy_disables_proxy_def split: prod.splits sum.splits)
  moreover have "keeps (setup_frame {''CURLOPT_NOPROXY''})
      (defined E ''HAVE_CURLOPT_NOPROXY'' (setopt_str_or_null ''CURLOPT_NOPROXY'' ''noproxy''))"
    by (intro frame_intros) simp_all
  ultimately have "setup_frame {''CURLOPT_NOPROXY''} ?y x" by (simp add: keeps_run)
  then show "curl_opt x ''CURLOPT_PROXY'' = Some (VStr [])"
    and "curl_opt x ''CURLOPT_PROXYUSERPWD'' = Some VNull"
    using frame_opt by (force simp: curl_opt_setopt)+
qed

lemma general_installs:
  assumes "public_policy_disables_proxy g0" and "setup_general E g0 = (Inr (), g)"
  shows "curl_opt g ''CURLOPT_HTTPPROXYTUNNEL'' = Some (VLong 0)"
proof -
  from assms(2) obtain a where a: "setup_redirects E g0 = (Inr (), a)"
    and g: "setup_timeouts E a = (Inr (), g)"
    by (auto simp: setup_general_def ret_def elim!: bind_InrE)
  have "curl_opt a ''CURLOPT_HTTPPROXYTUNNEL'' = Some (VLong 0)"
    using a assms(1)
    by (auto simp: setup_redirects_def Let_def step_defs curl_opt_setopt
        public_policy_disables_proxy_def split: if_splits)
  then show ?thesis using frame_opt [OF keeps_run [OF setup_timeouts_frame g]] by simp
qed

section \<open>The policy and the allowlists at the end of setup\<close>

lemma network_rules_ok_same: "same_rules s t \<Longrightarrow> network_rules_ok t = network_rules_ok s"
  by (auto simp: same_rules_def network_rules_ok_def cidr_rules_ok_def host_rules_ok_def
      split: option.splits)

lemma setup_url_rules: "keeps same_rules (setup_url E)"
  unfolding setup_url_def setup_location_def setup_dns_def by (intro rules.intros)

lemma setup_allowed_hosts_ok:
  assumes "network_rules_ok a"
  shows "network_rules_ok (snd (setup_allowed_hosts E a))"
proof -
  have same: "network_rules_ok (curl_easy_setopt k v s) = network_rules_ok s" for k v s
    by (rule network_rules_ok_same) (simp add: rules.reflexive)
  show ?thesis
    using clear_rules_ok(2) [OF assms] prepare_hosts_ok [OF assms]
    by (auto simp: setup_allowed_hosts_def step_defs same split: prod.splits sum.splits)
qed

lemma setup_policy_state:
  assumes "ruby_curl_easy_setup_body E r = (Inr (), u)" and "network_rules_ok r"
  obtains h p where "setup_network_policy E h = (Inr (), p)" and "same_rules p u"
    and "network_rules_ok h" and "setup_frame (url_options \<union> host_options) r h"
    and "setup_frame (- policy_options) p u"
proof -
  obtain h p where hp: "setup_network_policy E h = (Inr (), p)" "same_rules p u"
    "setup_allowed_hosts E (snd (setup_url E (snd (setup_reset r)))) = (Inr (), h)"
    using setup_rules_same [OF assms(1)] .
  obtain a h' p' w x g0 g f where s: "setup_url E (snd (setup_reset r)) = (Inr (), a)"
    "setup_frame url_options r a" "setup_allowed_hosts E a = (Inr (), h')"
    "setup_frame host_options a h'" "setup_network_policy E h' = (Inr (), p')"
    "setup_frame auth_options p' w" "setup_frame proxy_options w x"
    "setup_frame callback_options x g0" "setup_frame general_options g0 g"
    "setup_frame (port_options \<union> file_options) g f"
    "setup_frame (header_options \<union> list_options) f u"
    using setup_frames [OF assms(1)] by metis
  have eq: "h' = h" "p' = p" using hp s(1,3,5) by simp_all
  have "network_rules_ok (snd (setup_url E (snd (setup_reset r))))"
    using assms(2) network_rules_ok_same [OF keepsD [OF setup_url_rules]]
      network_rules_ok_same [OF keepsD [OF setup_reset_frame(2)]] by simp
  then have "network_rules_ok h" using setup_allowed_hosts_ok hp(3) by (metis snd_conv)
  moreover have "setup_frame (url_options \<union> host_options) r h"
    using s(2,4) eq by (blast intro: frame.transitive setup_frame_mono)
  moreover have disjoint: "auth_options \<subseteq> - policy_options" "proxy_options \<subseteq> - policy_options"
    "callback_options \<subseteq> - policy_options" "general_options \<subseteq> - policy_options"
    "port_options \<union> file_options \<subseteq> - policy_options"
    "header_options \<union> list_options \<subseteq> - policy_options"
    by (simp_all add: option_sets)
  have "setup_frame (- policy_options) p u"
    using setup_frame_mono [OF s(6) disjoint(1)] setup_frame_mono [OF s(7) disjoint(2)]
      setup_frame_mono [OF s(8) disjoint(3)] setup_frame_mono [OF s(9) disjoint(4)]
      setup_frame_mono [OF s(10) disjoint(5)] setup_frame_mono [OF s(11) disjoint(6)] eq
    by (blast intro: frame.transitive)
  ultimately show thesis using that hp(1,2) by blast
qed

lemma body_opensocket:
  assumes "ruby_curl_easy_setup_body E r = (Inr (), u)" and "network_rules_ok r"
    and "have_opensocket_policy (s_env E)" and "network_policy r = 1"
  shows "opensocket_installed E (allow_unix_socket r) u"
    and "cidr_rules_compiled E (rb_easy_get ''allowed_cidrs'' r) u"
proof -
  obtain h p where h: "setup_network_policy E h = (Inr (), p)" "same_rules p u"
    "network_rules_ok h" "setup_frame (url_options \<union> host_options) r h"
    "setup_frame (- policy_options) p u"
    using setup_policy_state [OF assms(1,2)] .
  have "network_policy h = 1" "cidr_rules_ok h" "allow_unix_socket h = allow_unix_socket r"
    "rb_easy_get ''allowed_cidrs'' h = rb_easy_get ''allowed_cidrs'' r"
    using h(3,4) assms(4) by (simp_all add: frame_fields network_rules_ok_def)
  then have installed: "opensocket_installed E (allow_unix_socket r) p"
    and compiled: "cidr_rules_compiled E (rb_easy_get ''allowed_cidrs'' r) p"
    using network_policy_installs [OF assms(3) _ _ h(1)] by simp_all
  show "cidr_rules_compiled E (rb_easy_get ''allowed_cidrs'' r) u"
    using compiled compiled_same [OF h(2)] by simp
  show "opensocket_installed E (allow_unix_socket r) u"
    using installed
    by (simp add: opensocket_installed_def frame_opt [OF h(5)] policy_options_def)
qed

lemma body_proxy:
  assumes "ruby_curl_easy_setup_body E r = (Inr (), u)" and "public_policy_disables_proxy r"
  shows "proxy_disabled u"
proof -
  obtain a h p w x g0 g f where s:
    "setup_frame url_options r a" "setup_frame host_options a h" "setup_frame policy_options h p"
    "setup_frame auth_options p w" "setup_proxy E w = (Inr (), x)" "setup_frame proxy_options w x"
    "setup_frame callback_options x g0" "setup_general E g0 = (Inr (), g)"
    "setup_frame general_options g0 g" "setup_frame (port_options \<union> file_options) g f"
    "setup_frame (header_options \<union> list_options) f u"
    using setup_frames [OF assms(1)] by metis
  note fields = s(1,2,3,4,6,7)[THEN frame_fields(1)] s(1,2,3,4,6,7)[THEN frame_fields(2)]
  have "public_policy_disables_proxy w" "public_policy_disables_proxy g0"
    using assms(2) by (simp_all add: public_policy_disables_proxy_def fields)
  then have "curl_opt x ''CURLOPT_PROXY'' = Some (VStr [])"
    "curl_opt x ''CURLOPT_PROXYUSERPWD'' = Some VNull"
    "curl_opt g ''CURLOPT_HTTPPROXYTUNNEL'' = Some (VLong 0)"
    using proxy_installs [OF _ s(5)] general_installs [OF _ s(8)] by simp_all
  then show ?thesis
    unfolding proxy_disabled_def
    by (simp add: frame_opt [OF s(11)] frame_opt [OF s(10)] frame_opt [OF s(9)]
        frame_opt [OF s(7)] option_sets)
qed

lemma body_dns:
  assumes "ruby_curl_easy_setup_body E r = (Inr (), u)"
    and "have_macro (s_env E) ''HAVE_CURLOPT_DNS_SERVERS''" and "network_policy r = 1"
  shows "rb_easy_nil ''dns_servers'' r"
proof (rule ccontr)
  assume dns: "\<not> rb_easy_nil ''dns_servers'' r"
  obtain a where "setup_url E (snd (setup_reset r)) = (Inr (), a)"
    using setup_frames [OF assms(1)] by metis
  then obtain b where b: "setup_location E (snd (setup_reset r)) = (Inr (), b)"
    "setup_dns E b = (Inr (), a)"
    by (auto simp: setup_url_def ret_def elim!: bind_InrE)
  have "setup_frame url_options (snd (setup_reset r)) b"
    by (rule keeps_run [OF setup_location_frame b(1)])
  moreover have "setup_frame {} r (snd (setup_reset r))" by (rule keepsD [OF setup_reset_frame(1)])
  ultimately have "network_policy b = 1" "\<not> rb_easy_nil ''dns_servers'' b"
    using assms(3) dns by (simp_all add: rb_easy_nil_def frame_fields)
  then show False using b(2) assms(2) by (simp add: setup_dns_def step_defs)
qed

section \<open>Every exit\<close>

lemma frame_run: "keeps (setup_frame S) m \<Longrightarrow> keeps (setup_frame UNIV) m"
  by (rule keeps_frame_mono) simp_all

lemma setup_body_frame: "keeps (setup_frame UNIV) (ruby_curl_easy_setup_body E)"
  unfolding ruby_curl_easy_setup_body_def
  by (intro frame.cons frame.empty frame.assign setup_frame_mono [OF clear_setup_lists_frame]
      setup_reset_frame(1) [THEN frame_run] setup_url_frame [THEN frame_run]
      setup_allowed_hosts_frame [THEN frame_run] setup_network_policy_frame [THEN frame_run]
      setup_auth_frame [THEN frame_run] setup_proxy_frame [THEN frame_run]
      setup_data_procs_frame [THEN frame_run] setup_progress_debug_frame [THEN frame_run]
      setup_general_frame [THEN frame_run] setup_ports_frame [THEN frame_run]
      setup_cookies_frame [THEN frame_run] setup_ssl_frame [THEN frame_run]
      setup_http_headers_frame [THEN frame_run] setup_other_lists_frame [THEN frame_run]) simp_all

lemma prepare_errors:
  "keeps same_errors curb_prepare_network_allowed_hosts"
  "keeps same_errors (curb_prepare_network_allowed_cidr_rules p4 p6)"
  "same_errors r (curb_clear_network_allowed_cidr_rules r)"
  "same_errors r (curb_clear_network_allowed_hosts r)"
  by (auto simp: keeps_def curb_prepare_network_allowed_hosts_def same_errors_def
      curb_prepare_network_allowed_cidr_rules_def Let_def curb_clear_network_allowed_cidr_rules_def
      curb_clear_network_allowed_hosts_def split: sum.splits)

lemma clear_setup_lists_errors: "same_errors r (ruby_curl_easy_clear_setup_lists env r)"
  unfolding ruby_curl_easy_clear_setup_lists_def clear_list_defs
  by (rule errors.transitive [OF errors.transitive [OF errors.transitive [OF errors.transitive]]];
      rule errors.cleared_list, simp add: same_errors_def)

lemma setup_errors_after_reset:
  "keeps same_errors (steps [setup_url E, setup_allowed_hosts E, setup_network_policy E,
     setup_auth E, setup_proxy E, setup_data_procs, setup_progress_debug E, setup_general E,
     setup_ports E, setup_cookies, setup_ssl E,
     modify (ruby_curl_easy_clear_setup_lists (s_env E)), setup_http_headers E,
     setup_other_lists E])"
  unfolding setup_url_def setup_location_def setup_dns_def setup_allowed_hosts_def
    setup_network_policy_def setup_auth_def setup_proxy_def setup_data_procs_def
    setup_progress_debug_def setup_general_def setup_redirects_def setup_timeouts_def
    setup_ports_def setup_cookies_def setup_ssl_def setup_http_headers_def
    setup_other_lists_def Let_def
  by (intro errors.intros errors.assign clear_setup_lists_errors prepare_errors)
     (simp_all add: same_errors_def rb_easy_set_def rb_easy_del_def)

lemma setup_body_errors:
  "callback_error (snd (ruby_curl_easy_setup_body E r)) = None \<and>
   \<not> unsafe_destination_blocked (snd (ruby_curl_easy_setup_body E r)) \<and>
   unsafe_destination_error (snd (ruby_curl_easy_setup_body E r)) = []"
proof -
  let ?r = "r\<lparr>callback_error := None, unsafe_destination_blocked := False,
     unsafe_destination_error := []\<rparr>"
  have "ruby_curl_easy_setup_body E r = steps [setup_url E, setup_allowed_hosts E,
     setup_network_policy E, setup_auth E, setup_proxy E, setup_data_procs, setup_progress_debug E,
     setup_general E, setup_ports E, setup_cookies, setup_ssl E,
     modify (ruby_curl_easy_clear_setup_lists (s_env E)), setup_http_headers E,
     setup_other_lists E] ?r"
    by (simp only: ruby_curl_easy_setup_body_def steps.simps setup_reset_def bind_modify)
  then show ?thesis
    using keepsD [OF setup_errors_after_reset, of ?r E] by (simp add: same_errors_def)
qed

lemma native_bracket:
  assumes "native_active r \<noteq> - 1" and "native_active u = native_active (ruby_curl_easy_enter_native r)"
  shows "native_active (ruby_curl_easy_leave_native u) = native_active r"
proof -
  have "native_active r + 1 \<noteq> 0" using assms(1) by (metis add.commute add_eq_0_iff)
  then have "0 < native_active u" using assms(2) by (simp add: ruby_curl_easy_enter_native_def word_neq_0_conv)
  then show ?thesis
    using assms(2) by (simp add: ruby_curl_easy_leave_native_def ruby_curl_easy_enter_native_def)
qed

lemma setup_snd:
  "snd (ruby_curl_easy_setup E r) = ruby_curl_easy_leave_native
     (snd (ruby_curl_easy_setup_body E (ruby_curl_easy_enter_native r)))"
  by (simp add: ruby_curl_easy_setup_def bind_modify rb_ensure_state) (simp add: modify_def)

lemma leave_native_fields:
  "callback_error (ruby_curl_easy_leave_native u) = callback_error u"
  "unsafe_destination_blocked (ruby_curl_easy_leave_native u) = unsafe_destination_blocked u"
  "unsafe_destination_error (ruby_curl_easy_leave_native u) = unsafe_destination_error u"
  by (simp_all add: ruby_curl_easy_leave_native_def)

section \<open>When setup returns\<close>

definition string_keys :: "string set" where
  "string_keys = {''url'', ''doh_url'', ''dns_servers'', ''interface_hm'', ''username'',
     ''password'', ''userpwd'', ''proxy_url'', ''proxypwd'', ''noproxy'', ''encoding'',
     ''cookiejar'', ''cookiefile'', ''cookies'', ''certtype'', ''cert'', ''certpassword'',
     ''cert_key'', ''cacert'', ''useragent''}"

text \<open>A URL is given, the options that are passed as C strings are strings or unset, no DNS
  server is named under the \<open>:public\<close> policy, the allowlists can be compiled, \<open>to_s\<close>
  answers and memory is available.\<close>

definition setup_ready :: "setup_env \<Rightarrow> ruby_curl_easy \<Rightarrow> bool" where
  "setup_ready E r \<longleftrightarrow>
     rb_easy_get ''url'' r \<noteq> Qnil \<and>
     (\<forall>k \<in> string_keys. rb_easy_get k r = Qnil \<or> (\<exists>s. rb_easy_get k r = RStr s)) \<and>
     (network_policy r = 1 \<longrightarrow> rb_easy_get ''dns_servers'' r = Qnil) \<and>
     (\<exists>hs. map_res StringValueCStr (stored_array (rb_easy_get ''allowed_hosts'' r)) = Inr hs) \<and>
     (\<exists>rs. map_res (cidr_value (s_pton4 E) (s_pton6 E))
             (stored_array (rb_easy_get ''allowed_cidrs'' r)) = Inr rs) \<and>
     (\<forall>v. \<exists>s. s_to_s E v = Inr s) \<and> (\<forall>l s. \<exists>l'. curl_slist_append E l s = Some l')"

lemma setup_ready_frame:
  assumes "setup_frame S s t" and "setup_ready E s"
  shows "setup_ready E t"
proof -
  have get: "rb_easy_get k t = rb_easy_get k s" if "k \<notin> {''body_data'', ''header_data''}" for k
    using assms(1) that by (rule frame_fields(5))
  have "\<forall>k \<in> string_keys. rb_easy_get k t = rb_easy_get k s"
    by (simp add: string_keys_def get)
  then show ?thesis
    using assms(2) unfolding setup_ready_def by (simp add: get frame_fields(1) [OF assms(1)])
qed

text \<open>A statement that raises nothing on a ready handle whose options \<open>K\<close> are set.\<close>

definition completes :: "setup_env \<Rightarrow> string set \<Rightarrow> (ruby_curl_easy, unit) cmd \<Rightarrow> bool" where
  "completes E K m \<longleftrightarrow> keeps (setup_frame UNIV) m \<and>
     (\<forall>s. setup_ready E s \<longrightarrow> (\<forall>k \<in> K. k \<in> string_keys \<and> \<not> rb_easy_nil k s) \<longrightarrow>
        fst (m s) = Inr ())"

lemma string_keys_frame:
  "setup_frame S s t \<Longrightarrow> k \<in> string_keys \<Longrightarrow> rb_easy_nil k t = rb_easy_nil k s"
  unfolding rb_easy_nil_def by (subst frame_fields(5)) (auto simp: string_keys_def)

lemma completes_cons:
  assumes "completes E K c" and "completes E K (steps cs)"
  shows "completes E K (steps (c # cs))"
  unfolding completes_def
proof (intro conjI allI impI)
  show "keeps (setup_frame UNIV) (steps (c # cs))"
    using assms by (intro frame.cons) (simp_all add: completes_def)
  fix s
  assume s: "setup_ready E s" "\<forall>k \<in> K. k \<in> string_keys \<and> \<not> rb_easy_nil k s"
  then obtain t where t: "c s = (Inr (), t)"
    using assms(1) by (metis completes_def prod.collapse)
  then have "setup_frame UNIV s t" using assms(1) by (auto simp: completes_def intro: keeps_run)
  then have "setup_ready E t" "\<forall>k \<in> K. k \<in> string_keys \<and> \<not> rb_easy_nil k t"
    using s setup_ready_frame string_keys_frame by blast+
  then show "fst (steps (c # cs) s) = Inr ()"
    using t assms(2) by (simp add: completes_def bind_def)
qed

lemma completes_state:
  assumes "keeps (setup_frame UNIV) m"
    and "\<And>s. setup_ready E s \<Longrightarrow> (\<forall>k \<in> K. k \<in> string_keys \<and> \<not> rb_easy_nil k s) \<Longrightarrow>
           fst (m s) = Inr ()"
  shows "completes E K m"
  using assms by (simp add: completes_def)

lemma completes_basic:
  "completes E K skip" "completes E K (steps [])"
  "completes E K (setopt opt v)" "completes E K (setopt_of opt f)"
  by (simp_all add: completes_def frame.pure frame_setopt)
     (simp_all add: cmd_defs setopt_def setopt_of_def)

lemma completes_choice:
  "completes E K m \<Longrightarrow> completes E K n \<Longrightarrow> completes E K (if_state P m n)"
  by (auto simp: completes_def if_state_def intro: frame.choice)

lemma completes_branch:
  "(b \<Longrightarrow> completes E K m) \<Longrightarrow> (\<not> b \<Longrightarrow> completes E K n) \<Longrightarrow> completes E K (if b then m else n)"
  by simp

lemma completes_defined: "completes E K m \<Longrightarrow> completes E K (defined F macro m)"
  by (simp add: defined_def completes_basic)

lemma completes_nil:
  assumes "key \<in> string_keys" and "completes E (insert key K) m" and "completes E K n"
  shows "completes E K (if_state (\<lambda>r. \<not> rb_easy_nil key r) m n)"
    and "completes E K (if_state (rb_easy_nil key) n m)"
  using assms by (auto simp: completes_def if_state_def intro: frame.choice)

lemma completes_str:
  assumes "key \<in> string_keys"
  shows "completes E (insert key K) (setopt_str opt key)"
    and "completes E K (setopt_str_or_null opt key)"
    and "completes E K (setopt_str_unless_nil opt key)"
proof -
  show "completes E (insert key K) (setopt_str opt key)" for K
    by (rule completes_state, rule frame_setopt_str, rule UNIV_I)
       (use assms in \<open>auto simp: setopt_str_def step_defs setup_ready_def rb_easy_nil_def
          rb_easy_get_str_def StringValue_def\<close>)
  from this [of "{}"] this [of K] show "completes E K (setopt_str_or_null opt key)"
    and "completes E K (setopt_str_unless_nil opt key)"
    unfolding setopt_str_or_null_def setopt_str_unless_nil_def
    by (auto intro!: completes_nil assms completes_basic)
qed

lemma completes_assign: "(\<And>s. setup_frame UNIV s (f s)) \<Longrightarrow> completes E K (modify f)"
  by (simp add: completes_def frame.assign) (simp add: modify_def)

lemma each_total:
  assumes "\<And>v l. fst (each v l) = Inr ()"
  shows "fst (steps (map each xs) l) = Inr ()"
proof (induction xs arbitrary: l)
  case (Cons x xs)
  obtain l' where "each x l = (Inr (), l')" using assms by (metis prod.collapse)
  then show ?case using Cons by (simp add: bind_def)
qed (simp add: ret_def)

lemma completes_list:
  assumes put: "\<And>l r. setup_frame {} r (put l r)"
    and each: "\<And>s v l. setup_ready E s \<Longrightarrow> fst (each v l) = Inr ()"
    and single: "\<And>s v l. setup_ready E s \<Longrightarrow> fst (single v l) = Inr ()"
  shows "completes E K (setup_list key opt iterable each single get put)"
proof (rule completes_state)
  show "keeps (setup_frame UNIV) (setup_list key opt iterable each single get put)"
    by (rule setup_list_frame [OF _ put]) simp
  fix s
  assume ready: "setup_ready E s"
  have on: "fst (on_list get put m r) = Inr ()" if "\<And>l. fst (m l) = Inr ()"
    for m :: "(string list, unit) cmd" and r
    using that by (auto simp: on_list_def split: prod.splits) (metis fst_conv)
  have all: "fst (steps (map each xs) l) = Inr ()" for xs l
    by (rule each_total) (rule each [OF ready])
  have fin: "fst (steps [m, if_state P (setopt_of opt f) skip] r) = Inr ()"
    if "fst (m r) = Inr ()" for m P f and r :: ruby_curl_easy
    using that by (cases "m r") (simp add: step_defs)
  show "fst (setup_list key opt iterable each single get put s) = Inr ()"
    unfolding setup_list_def bind_gets
    using fin [OF on [OF all]] fin [OF on [OF single [OF ready]]]
    by (auto simp: ret_def simp del: steps.simps)
qed

lemma append_total:
  assumes "setup_ready E s"
  shows "fst (append_or_raise E msg x l) = Inr ()" "fst (append_as_string E msg v l) = Inr ()"
    "fst (cb_each_http_header E v l) = Inr ()" "fst (cb_each_http_proxy_header E v l) = Inr ()"
proof -
  show add: "fst (append_or_raise E msg x l) = Inr ()" for msg x l
    using assms by (auto simp: setup_ready_def append_or_raise_def split: option.split)
  have "\<forall>v. \<exists>x. rb_obj_as_string (s_to_s E) v = Inr x"
    using assms by (auto simp: setup_ready_def rb_obj_as_string_def split: rvalue.split)
  then obtain str where "\<And>v. rb_obj_as_string (s_to_s E) v = Inr (str v)" by metis
  then have string: "lift_res (rb_obj_as_string (s_to_s E) v) = ret (str v)" for v
    by (simp add: fun_eq_iff lift_res_def ret_def)
  have appended: "fst (bind (ret x) (append_or_raise E msg) l) = Inr ()" for x msg l
    using add [of msg x l] by (simp add: bind_def ret_def)
  show "fst (append_as_string E msg v l) = Inr ()" by (simp add: append_as_string_def string appended)
  show "fst (cb_each_http_header E v l) = Inr ()"
    using add by (cases v) (simp_all add: cb_each_http_header_def string bind_def ret_def)
  show "fst (cb_each_http_proxy_header E v l) = Inr ()"
    using add by (cases v) (simp_all add: cb_each_http_proxy_header_def string bind_def ret_def)
qed

lemmas completes_intros = completes_cons completes_basic completes_nil completes_choice
  completes_branch completes_defined completes_str

lemma ready_url:
  assumes "setup_ready E s"
  shows "\<exists>u. rb_easy_get ''url'' s = RStr u"
proof -
  have "''url'' \<in> string_keys" by (simp add: string_keys_def)
  with assms show ?thesis unfolding setup_ready_def by blast
qed

lemma ready_dns: "setup_ready E s \<Longrightarrow> network_policy s = 1 \<Longrightarrow> rb_easy_nil ''dns_servers'' s"
  unfolding setup_ready_def rb_easy_nil_def by blast

lemma ready_allowlists:
  assumes "setup_ready E s"
  shows "\<exists>hs. map_res StringValueCStr (stored_array (rb_easy_get ''allowed_hosts'' s)) = Inr hs"
    and "\<exists>rs. map_res (cidr_value (s_pton4 E) (s_pton6 E))
           (stored_array (rb_easy_get ''allowed_cidrs'' s)) = Inr rs"
  using assms unfolding setup_ready_def by blast+

lemma location_completes: "completes E K (setup_location E)"
proof -
  have url: "completes E K (if_state (rb_easy_nil ''url'')
      (rb_raise ''eCurlErrError'' ''No URL supplied'') skip)"
    by (rule completes_state, intro frame_intros)
       (auto simp: if_state_def ret_def rb_easy_nil_def dest: ready_url)
  have set: "completes E K (setopt_str ''CURLOPT_URL'' ''url'')"
    by (rule completes_state, rule frame_setopt_str, rule UNIV_I)
       (auto simp: setopt_str_def step_defs rb_easy_get_str_def StringValue_def dest: ready_url)
  show ?thesis
    unfolding setup_location_def
    by (intro completes_cons url set completes_defined completes_str completes_basic)
       (simp add: string_keys_def)
qed

lemma dns_completes: "completes E K (setup_dns E)"
proof -
  have dns: "completes E K (if_state (\<lambda>r. network_policy r = 1 \<and> \<not> rb_easy_nil ''dns_servers'' r)
      (rb_raise ''eCurlErrUnsafeDestination''
         ''DNS server overrides are disabled by public network policy'') skip)"
    by (rule completes_state, intro frame_intros)
       (use ready_dns in \<open>auto simp: if_state_def ret_def\<close>)
  show ?thesis
    unfolding setup_dns_def
    by (intro completes_defined completes_cons dns completes_str completes_basic)
       (simp add: string_keys_def)
qed

lemma prepare_completes:
  "completes E K curb_prepare_network_allowed_hosts"
  "completes E K (curb_prepare_network_allowed_cidr_rules (s_pton4 E) (s_pton6 E))"
proof -
  show "completes E K curb_prepare_network_allowed_hosts"
    by (rule completes_state, rule prepare_frame(1) [THEN frame_run])
       (auto simp: curb_prepare_network_allowed_hosts_def Let_def dest!: ready_allowlists(1))
  show "completes E K (curb_prepare_network_allowed_cidr_rules (s_pton4 E) (s_pton6 E))"
    by (rule completes_state, rule prepare_frame(2) [THEN frame_run])
       (auto simp: curb_prepare_network_allowed_cidr_rules_def Let_def
         dest!: ready_allowlists(2))
qed

lemma network_completes: "completes E K (setup_allowed_hosts E)" "completes E K (setup_network_policy E)"
  unfolding setup_allowed_hosts_def setup_network_policy_def
  by (intro completes_cons completes_basic completes_choice completes_branch completes_defined
      completes_assign prepare_completes setup_frame_mono [OF clear_rules_frame(1)]
      setup_frame_mono [OF clear_rules_frame(2)] subset_UNIV)+

lemma strings_complete:
  "completes E K (setup_auth E)" "completes E K (setup_proxy E)" "completes E K setup_cookies"
  "completes E K (setup_ssl E)" "completes E K (setup_progress_debug E)"
  unfolding setup_auth_def setup_proxy_def setup_cookies_def setup_ssl_def
    setup_progress_debug_def Let_def
  by (intro completes_intros; simp add: string_keys_def)+

lemma general_completes:
  "completes E K (setup_general E)" "completes E K (setup_ports E)" "completes E K setup_data_procs"
  unfolding setup_general_def setup_redirects_def setup_timeouts_def setup_ports_def
    setup_data_procs_def Let_def
  by (intro completes_cons completes_basic completes_choice completes_branch completes_defined
      completes_assign;
      simp add: setup_frame_def rb_easy_get_def rb_easy_set_def rb_easy_del_def)+

lemma lists_complete: "completes E K (setup_http_headers E)" "completes E K (setup_other_lists E)"
  unfolding setup_http_headers_def setup_other_lists_def cb_each_ftp_command_def
    cb_each_resolve_def cb_each_connect_to_def
  by (intro completes_cons completes_basic completes_defined completes_list put_frames;
      simp add: append_total ret_def)+

lemma setup_body_completes: "completes E {} (ruby_curl_easy_setup_body E)"
  unfolding ruby_curl_easy_setup_body_def setup_url_def
  by (intro completes_cons completes_basic location_completes dns_completes network_completes
      strings_complete general_completes lists_complete completes_assign
      setup_frame_mono [OF clear_setup_lists_frame] subset_UNIV)
     (auto simp: setup_reset_def intro!: completes_assign simp: setup_frame_def rb_easy_get_def)

end
