(* ===== verification/Curb_Setup_Props.thy ===== *)
theory Curb_Setup_Props
  imports Curb_Setup_Facts
begin

text \<open>
  The properties of setting up and cleaning up a transfer.
\<close>

section \<open>The string lists libcurl holds\<close>

text \<open>libcurl keeps the pointer it is given, so an option that points to a list must point to the
  one the structure still owns.\<close>

datatype slist_id = Headers | ProxyHeaders | FtpCommands | Resolve | ConnectTo

fun slist_option :: "slist_id \<Rightarrow> string" where
  "slist_option Headers = ''CURLOPT_HTTPHEADER''"
| "slist_option ProxyHeaders = ''CURLOPT_PROXYHEADER''"
| "slist_option FtpCommands = ''CURLOPT_QUOTE''"
| "slist_option Resolve = ''CURLOPT_RESOLVE''"
| "slist_option ConnectTo = ''CURLOPT_CONNECT_TO''"

fun slist_field :: "slist_id \<Rightarrow> ruby_curl_easy \<Rightarrow> string list" where
  "slist_field Headers r = curl_headers r"
| "slist_field ProxyHeaders r = curl_proxy_headers r"
| "slist_field FtpCommands r = curl_ftp_commands r"
| "slist_field Resolve r = curl_resolve r"
| "slist_field ConnectTo r = curl_connect_to r"

definition lent :: "slist_id \<Rightarrow> ruby_curl_easy \<Rightarrow> string list option" where
  "lent x r = (case curl_opt r (slist_option x) of Some (VSlist l) \<Rightarrow> Some l | _ \<Rightarrow> None)"

text \<open>The options that exist only in some builds.\<close>

fun slist_macro :: "slist_id \<Rightarrow> string option" where
  "slist_macro Headers = None"
| "slist_macro ProxyHeaders = Some ''HAVE_CURLOPT_PROXYHEADER''"
| "slist_macro FtpCommands = None"
| "slist_macro Resolve = Some ''HAVE_CURLOPT_RESOLVE''"
| "slist_macro ConnectTo = Some ''HAVE_CURLOPT_CONNECT_TO''"

definition slist_built :: "curl_env \<Rightarrow> slist_id \<Rightarrow> bool" where
  "slist_built env x \<longleftrightarrow> (case slist_macro x of None \<Rightarrow> True | Some m \<Rightarrow> have_macro env m)"

definition slists_owned :: "curl_env \<Rightarrow> ruby_curl_easy \<Rightarrow> bool" where
  "slists_owned env r \<longleftrightarrow>
     (\<forall>x l. lent x r = Some l \<longrightarrow> slist_built env x \<and> l \<noteq> [] \<and> slist_field x r = l)"

text \<open>The lists in \<open>F\<close> are not lent at all.\<close>

definition owned_except :: "curl_env \<Rightarrow> slist_id set \<Rightarrow> ruby_curl_easy \<Rightarrow> bool" where
  "owned_except env F r \<longleftrightarrow> slists_owned env r \<and> curl r \<noteq> None \<and> (\<forall>x \<in> F. lent x r = None)"

definition same_lists :: "ruby_curl_easy \<Rightarrow> ruby_curl_easy \<Rightarrow> bool" where
  "same_lists s t \<longleftrightarrow> (\<forall>x. slist_field x t = slist_field x s)"

interpretation lists: option_relation same_lists
proof unfold_locales
  show "same_lists s (curl_easy_setopt k v s)" for s k v
    unfolding same_lists_def
  proof
    show "slist_field x (curl_easy_setopt k v s) = slist_field x s" for x
      by (cases x) (simp_all add: curl_easy_setopt_def)
  qed
qed (auto simp: same_lists_def)

lemma same_lists_iff:
  "same_lists s t \<longleftrightarrow> curl_headers t = curl_headers s \<and> curl_proxy_headers t = curl_proxy_headers s \<and>
     curl_ftp_commands t = curl_ftp_commands s \<and> curl_resolve t = curl_resolve s \<and>
     curl_connect_to t = curl_connect_to s"
  unfolding same_lists_def by (metis slist_field.simps slist_id.exhaust)

lemma prepare_lists:
  "keeps same_lists curb_prepare_network_allowed_hosts"
  "keeps same_lists (curb_prepare_network_allowed_cidr_rules p4 p6)"
  "same_lists r (curb_clear_network_allowed_cidr_rules r)"
  "same_lists r (curb_clear_network_allowed_hosts r)"
  by (auto simp: keeps_def curb_prepare_network_allowed_hosts_def same_lists_iff
      curb_prepare_network_allowed_cidr_rules_def Let_def curb_clear_network_allowed_cidr_rules_def
      curb_clear_network_allowed_hosts_def split: sum.splits)

abbreviation before_lists :: "setup_env \<Rightarrow> (ruby_curl_easy, unit) cmd list" where
  "before_lists E \<equiv> [setup_reset, setup_url E, setup_allowed_hosts E, setup_network_policy E,
     setup_auth E, setup_proxy E, setup_data_procs, setup_progress_debug E, setup_general E,
     setup_ports E, setup_cookies, setup_ssl E]"

lemma before_lists_same: "keeps same_lists (steps (before_lists E))"
  unfolding setup_reset_def setup_url_def setup_location_def setup_dns_def setup_allowed_hosts_def
    setup_network_policy_def setup_auth_def setup_proxy_def setup_data_procs_def
    setup_progress_debug_def setup_general_def setup_redirects_def setup_timeouts_def
    setup_ports_def setup_cookies_def setup_ssl_def Let_def
  by (intro lists.intros lists.assign prepare_lists)
     (simp_all add: same_lists_iff rb_easy_set_def rb_easy_del_def)

lemma before_lists_frame:
  "keeps (setup_frame (- (header_options \<union> list_options))) (steps (before_lists E))"
proof -
  have sub: "S \<subseteq> - (header_options \<union> list_options)"
    if "S \<in> {url_options, host_options, policy_options, auth_options, proxy_options,
      callback_options, general_options, port_options, file_options, {}}" for S
    using that by (elim insertE emptyE; simp only: option_sets; simp)
  show ?thesis
    by (intro frame.cons frame.empty
      keeps_frame_mono [OF setup_reset_frame(1)] keeps_frame_mono [OF setup_url_frame]
      keeps_frame_mono [OF setup_allowed_hosts_frame] keeps_frame_mono [OF setup_network_policy_frame]
      keeps_frame_mono [OF setup_auth_frame] keeps_frame_mono [OF setup_proxy_frame]
      keeps_frame_mono [OF setup_data_procs_frame] keeps_frame_mono [OF setup_progress_debug_frame]
      keeps_frame_mono [OF setup_general_frame] keeps_frame_mono [OF setup_ports_frame]
      keeps_frame_mono [OF setup_cookies_frame] keeps_frame_mono [OF setup_ssl_frame] sub) simp_all
qed

lemma setup_body_split:
  "ruby_curl_easy_setup_body E = bind (steps (before_lists E)) (\<lambda>_.
     bind (modify (ruby_curl_easy_clear_setup_lists (s_env E))) (\<lambda>_.
     bind (setup_http_headers E) (\<lambda>_. bind (setup_other_lists E) (\<lambda>_. skip))))"
  by (simp only: ruby_curl_easy_setup_body_def steps.simps bind_assoc bind_ret)

lemma slist_option_sets: "slist_option x \<in> header_options \<union> list_options"
  by (cases x) (simp_all add: header_options_def list_options_def)

lemma owned_frame:
  assumes "setup_frame (- (header_options \<union> list_options)) s t" and "same_lists s t"
    and "owned_except env F s"
  shows "owned_except env F t"
proof -
  have "lent x t = lent x s" for x
    using slist_option_sets [of x] frame_opt [OF assms(1), of "slist_option x"]
    by (simp add: lent_def)
  moreover have "curl t = curl s" using assms(1) by (simp add: setup_frame_def)
  ultimately show ?thesis
    using assms(2,3) by (simp add: owned_except_def slists_owned_def same_lists_def)
qed

fun slist_put :: "slist_id \<Rightarrow> string list \<Rightarrow> ruby_curl_easy \<Rightarrow> ruby_curl_easy" where
  "slist_put Headers l r = put_headers l r"
| "slist_put ProxyHeaders l r = put_proxy_headers l r"
| "slist_put FtpCommands l r = put_ftp_commands l r"
| "slist_put Resolve l r = put_resolve l r"
| "slist_put ConnectTo l r = put_connect_to l r"

lemma slist_put_laws:
  "slist_field y (slist_put x l r) = (if y = x then l else slist_field y r)"
  "curl_opt (slist_put x l r) = curl_opt r" "curl (slist_put x l r) = curl r"
  by (cases x; cases y; simp add: curl_opt_def fun_eq_iff)+

lemma slist_fields:
  "slist_field Headers = curl_headers" "slist_field ProxyHeaders = curl_proxy_headers"
  "slist_field FtpCommands = curl_ftp_commands" "slist_field Resolve = curl_resolve"
  "slist_field ConnectTo = curl_connect_to"
  "slist_put Headers = put_headers" "slist_put ProxyHeaders = put_proxy_headers"
  "slist_put FtpCommands = put_ftp_commands" "slist_put Resolve = put_resolve"
  "slist_put ConnectTo = put_connect_to"
  by (simp_all add: fun_eq_iff)

lemma slist_option_inject: "slist_option x = slist_option y \<longleftrightarrow> x = y"
  by (cases x; cases y) simp_all

lemma lent_setopt:
  "lent x (curl_easy_setopt (slist_option y) v r) =
     (if x = y then (case v of VSlist l \<Rightarrow> Some l | _ \<Rightarrow> None) else lent x r)"
  by (simp add: lent_def curl_opt_setopt slist_option_inject)

lemma lent_put: "lent x (slist_put y l r) = lent x r"
  by (simp add: lent_def slist_put_laws)

lemma setopt_slist_field: "slist_field x (curl_easy_setopt k v r) = slist_field x r"
  using lists.option_set by (simp add: same_lists_def)

lemma setopt_curl: "curl (curl_easy_setopt k v r) = curl r"
  by (simp add: curl_easy_setopt_def)

lemmas slist_laws = lent_setopt lent_put setopt_slist_field setopt_curl slist_put_laws

definition clear_slist :: "curl_env \<Rightarrow> slist_id \<Rightarrow> ruby_curl_easy \<Rightarrow> ruby_curl_easy" where
  "clear_slist env x = clear_list (have_macro env) (slist_option x) (slist_macro x)
     (slist_field x) (slist_put x)"

lemma clear_slist_eqs:
  "ruby_curl_easy_clear_headers_list env = clear_slist env Headers"
  "ruby_curl_easy_clear_proxy_headers_list env = clear_slist env ProxyHeaders"
  "ruby_curl_easy_clear_ftp_commands_list env = clear_slist env FtpCommands"
  "ruby_curl_easy_clear_resolve_list env = clear_slist env Resolve"
  "ruby_curl_easy_clear_connect_to_list env = clear_slist env ConnectTo"
  unfolding clear_list_defs clear_slist_def by (simp_all only: slist_fields slist_option.simps slist_macro.simps)

lemma clear_slist_field: "slist_field y (clear_slist env x r) = (if y = x then [] else slist_field y r)"
  by (auto simp: clear_slist_def clear_list_def slist_laws)

lemma clear_slist_owned:
  assumes "owned_except env F r"
  shows "owned_except env (insert x F) (clear_slist env x r)"
proof (cases "slist_field x r = []")
  case True
  then have "lent x r = None"
    using assms by (cases "lent x r") (auto simp: owned_except_def slists_owned_def)
  with True assms show ?thesis
    by (simp add: clear_slist_def clear_list_def owned_except_def)
next
  case False
  then have eq: "clear_slist env x r = slist_put x []
      (if slist_built env x \<and> curl r \<noteq> None then curl_easy_setopt (slist_option x) VNull r else r)"
    by (simp add: clear_slist_def clear_list_def slist_built_def)
  have "\<not> slist_built env x \<Longrightarrow> lent x r = None"
    using assms by (cases "lent x r") (auto simp: owned_except_def slists_owned_def)
  with assms show ?thesis
    unfolding eq by (auto simp: owned_except_def slists_owned_def slist_laws)
qed

lemma clear_setup_lists_empty: "slist_field y (ruby_curl_easy_clear_setup_lists env r) = []"
  unfolding ruby_curl_easy_clear_setup_lists_def clear_slist_eqs
  by (cases y) (simp_all add: clear_slist_field)

lemma clear_setup_lists_owned:
  assumes "owned_except env F r"
  shows "owned_except env UNIV (ruby_curl_easy_clear_setup_lists env r)"
proof -
  have "owned_except env {ConnectTo, Resolve, FtpCommands, ProxyHeaders, Headers}
      (ruby_curl_easy_clear_setup_lists env r)"
    unfolding ruby_curl_easy_clear_setup_lists_def clear_slist_eqs
    using assms by (intro clear_slist_owned) (simp add: owned_except_def)
  moreover have "x \<in> {ConnectTo, Resolve, FtpCommands, ProxyHeaders, Headers}" for x
    by (cases x) simp_all
  ultimately show ?thesis
    unfolding owned_except_def by blast
qed

section \<open>Ownership on every exit\<close>

text \<open>The state after a statement, whether it returns or raises.\<close>

definition exits :: "('s \<Rightarrow> bool) \<Rightarrow> ('s, 'a) cmd \<Rightarrow> ('s \<Rightarrow> bool) \<Rightarrow> bool" where
  "exits P m Q \<longleftrightarrow> (\<forall>s. P s \<longrightarrow> Q (snd (m s)))"

lemma exits_bind:
  assumes "exits P m Q" and "\<And>a. exits Q (f a) T" and "\<And>s. Q s \<Longrightarrow> T s"
  shows "exits P (bind m f) T"
  using assms by (auto simp: exits_def bind_def split: prod.splits sum.splits)

lemma exits_keeps: "keeps R m \<Longrightarrow> (\<And>s t. P s \<Longrightarrow> R s t \<Longrightarrow> Q t) \<Longrightarrow> exits P m Q"
  by (auto simp: exits_def keeps_def)

lemma exits_skip: "(\<And>s. P s \<Longrightarrow> Q s) \<Longrightarrow> exits P (ret a) Q"
  by (simp add: exits_def ret_def)

lemma owned_mono: "owned_except env F r \<Longrightarrow> G \<subseteq> F \<Longrightarrow> owned_except env G r"
  by (auto simp: owned_except_def)

lemma setup_list_owned:
  assumes "slist_built env x"
  shows "exits (owned_except env (insert x F))
     (setup_list key (slist_option x) iterable each single (slist_field x) (slist_put x))
     (owned_except env (F - {x}))"
proof -
  have put: "owned_except env (insert x F) (slist_put x l r)"
    if "owned_except env (insert x F) r" for l r
    using that by (auto simp: owned_except_def slists_owned_def slist_laws)
  have on: "exits (owned_except env (insert x F)) (on_list (slist_field x) (slist_put x) m)
      (owned_except env (insert x F))" for m :: "(string list, unit) cmd"
    by (auto simp: exits_def on_list_def put split: prod.splits)
  have opt: "exits (owned_except env (insert x F))
     (if_state (\<lambda>r. slist_field x r \<noteq> []) (setopt_of (slist_option x) (\<lambda>r. VSlist (slist_field x r))) skip)
     (owned_except env (F - {x}))"
    using assms
    by (auto simp: exits_def if_state_def setopt_of_def cmd_defs owned_except_def slists_owned_def
        slist_laws)
  show ?thesis
    unfolding setup_list_def steps.simps
  proof (rule exits_bind)
    show "exits (owned_except env (insert x F)) (gets (rb_easy_get key)) (owned_except env (insert x F))"
      by (simp add: exits_def gets_def)
  qed (auto intro!: exits_bind [OF on exits_bind [OF opt]] exits_skip elim: owned_mono)
qed

lemma setopt_null_owned:
  "exits (owned_except env F) (setopt (slist_option x) VNull) (owned_except env F)"
  by (auto simp: exits_def setopt_def modify_def owned_except_def slists_owned_def slist_laws)

lemmas list_blocks_owned =
  setup_list_owned [where x = Headers, unfolded slist_fields slist_option.simps]
  setup_list_owned [where x = ProxyHeaders, unfolded slist_fields slist_option.simps]
  setup_list_owned [where x = FtpCommands, unfolded slist_fields slist_option.simps]
  setup_list_owned [where x = Resolve, unfolded slist_fields slist_option.simps]
  setup_list_owned [where x = ConnectTo, unfolded slist_fields slist_option.simps]

lemma exits_conseq:
  "exits P m Q \<Longrightarrow> (\<And>s. P' s \<Longrightarrow> P s) \<Longrightarrow> (\<And>s. Q s \<Longrightarrow> Q' s) \<Longrightarrow> exits P' m Q'"
  by (auto simp: exits_def)

lemma setup_http_headers_owned:
  "exits (owned_except (s_env E) UNIV) (setup_http_headers E)
     (owned_except (s_env E) {FtpCommands, Resolve, ConnectTo})"
proof -
  let ?F = "{FtpCommands, Resolve, ConnectTo}" and ?o = "owned_except (s_env E)"
  have h: "exits (?o UNIV) (setopt ''CURLOPT_HTTPHEADER'' VNull) (?o UNIV)"
    "exits (?o (UNIV - {Headers})) (setopt ''CURLOPT_PROXYHEADER'' VNull) (?o (UNIV - {Headers}))"
    using setopt_null_owned [of "s_env E" _ Headers] setopt_null_owned [of "s_env E" _ ProxyHeaders]
    by simp_all
  have b: "exits (?o UNIV) (setup_list ''headers'' ''CURLOPT_HTTPHEADER'' (\<lambda>v. is_array v \<or> is_hash v)
       (cb_each_http_header E) (append_as_string E ''Failed to append to headers list'')
       curl_headers put_headers) (?o (UNIV - {Headers}))"
    by (rule exits_conseq [OF list_blocks_owned(1) [of "s_env E" UNIV]]) (simp_all add: slist_built_def)
  have p: "exits (?o (UNIV - {Headers})) (setup_list ''proxy_headers'' ''CURLOPT_PROXYHEADER''
       (\<lambda>v. is_array v \<or> is_hash v) (cb_each_http_proxy_header E)
       (append_as_string E ''Failed to append to proxy headers list'')
       curl_proxy_headers put_proxy_headers) (?o ?F)"
    if "have_macro (s_env E) ''HAVE_CURLOPT_PROXYHEADER''"
    by (rule exits_conseq [OF list_blocks_owned(2) [of "s_env E" "UNIV - {Headers}"]])
       (use that in \<open>auto simp: slist_built_def insert_absorb elim: owned_mono\<close>)
  have d: "exits (?o (UNIV - {Headers})) (defined E ''HAVE_CURLOPT_PROXYHEADER'' (steps [
       setopt ''CURLOPT_PROXYHEADER'' VNull,
       setup_list ''proxy_headers'' ''CURLOPT_PROXYHEADER'' (\<lambda>v. is_array v \<or> is_hash v)
         (cb_each_http_proxy_header E) (append_as_string E ''Failed to append to proxy headers list'')
         curl_proxy_headers put_proxy_headers])) (?o ?F)"
    unfolding defined_def steps.simps
    by (auto intro!: exits_bind [OF h(2) exits_bind [OF p]] exits_skip elim: owned_mono)
  show ?thesis
    unfolding setup_http_headers_def steps.simps
    by (rule exits_bind [OF h(1)], rule exits_bind [OF b], rule exits_bind [OF d [unfolded steps.simps]],
        rule exits_skip) (auto elim: owned_mono)
qed

lemma setup_other_lists_owned:
  "exits (owned_except (s_env E) {FtpCommands, Resolve, ConnectTo}) (setup_other_lists E)
     (owned_except (s_env E) {})"
proof -
  let ?o = "owned_except (s_env E)"
  have f: "exits (?o {FtpCommands, Resolve, ConnectTo}) (setup_list ''ftp_commands'' ''CURLOPT_QUOTE''
      is_array (cb_each_ftp_command E) (\<lambda>_. skip) curl_ftp_commands put_ftp_commands)
      (?o {Resolve, ConnectTo})"
    by (rule exits_conseq [OF list_blocks_owned(3) [of "s_env E" "{Resolve, ConnectTo}"]])
       (simp_all add: slist_built_def)
  have r: "exits (?o {Resolve, ConnectTo}) (defined E ''HAVE_CURLOPT_RESOLVE''
       (setup_list ''resolve'' ''CURLOPT_RESOLVE'' is_array (cb_each_resolve E)
          (append_as_string E ''Failed to append to resolve list'') curl_resolve put_resolve))
      (?o {ConnectTo})"
    unfolding defined_def
    by (auto intro!: exits_conseq [OF list_blocks_owned(4) [of "s_env E" "{ConnectTo}"]] exits_skip
        elim: owned_mono simp: slist_built_def)
  have c: "exits (?o {ConnectTo}) (defined E ''HAVE_CURLOPT_CONNECT_TO''
       (setup_list ''connect_to'' ''CURLOPT_CONNECT_TO'' is_array (cb_each_connect_to E)
          (append_as_string E ''Failed to append to connect-to list'') curl_connect_to
          put_connect_to)) (?o {})"
    unfolding defined_def
    by (auto intro!: exits_conseq [OF list_blocks_owned(5) [of "s_env E" "{}"]] exits_skip
        elim: owned_mono simp: slist_built_def)
  show ?thesis
    unfolding setup_other_lists_def steps.simps
    by (auto intro!: exits_bind [OF f exits_bind [OF r exits_bind [OF c]]] exits_skip
        elim: owned_mono)
qed

lemma setup_body_owned:
  "exits (owned_except (s_env E) {}) (ruby_curl_easy_setup_body E) (owned_except (s_env E) {})"
proof -
  have before: "exits (owned_except (s_env E) {}) (steps (before_lists E)) (owned_except (s_env E) {})"
    using keepsD [OF before_lists_frame] keepsD [OF before_lists_same] owned_frame
    unfolding exits_def by blast
  have clear: "exits (owned_except (s_env E) {})
      (modify (ruby_curl_easy_clear_setup_lists (s_env E))) (owned_except (s_env E) UNIV)"
    using clear_setup_lists_owned by (auto simp: exits_def modify_def)
  show ?thesis
    unfolding setup_body_split
    by (rule exits_bind [OF before exits_bind [OF clear exits_bind [OF setup_http_headers_owned
        exits_bind [OF setup_other_lists_owned]]]])
       (auto intro!: exits_skip elim: owned_mono)
qed

section \<open>Cleaning up\<close>

lemma clear_slist_nil: "slist_field x r = [] \<Longrightarrow> clear_slist env x r = r"
  by (simp add: clear_slist_def clear_list_def)

lemma cleanup_eq:
  "ruby_curl_easy_cleanup env r = cleanup_upload env (curb_clear_network_allowed_hosts
     (curb_clear_network_allowed_cidr_rules (ruby_curl_easy_clear_setup_lists env r)))"
proof -
  have skip: "(if slist_field x s \<noteq> [] then clear_slist env x s else s) = clear_slist env x s" for x s
    by (simp add: clear_slist_nil)
  show ?thesis
    unfolding ruby_curl_easy_cleanup_def ruby_curl_easy_clear_setup_lists_def Let_def clear_slist_eqs
      slist_fields [symmetric] skip by (rule refl)
qed

lemma cleanup_frame:
  "setup_frame {''CURLOPT_UPLOAD'', ''CURLOPT_READFUNCTION'', ''CURLOPT_READDATA'',
     ''CURLOPT_SEEKFUNCTION'', ''CURLOPT_SEEKDATA'', ''CURLOPT_INFILESIZE''} s
     ((cleanup_upload env s)\<lparr>opts := opts s\<rparr>)"
  by (simp add: cleanup_upload_def setup_frame_def Let_def curl_easy_setopt_def curl_opt_def
      rb_easy_del_def rb_easy_get_def)

lemma cleanup_upload_lists:
  "lent x (cleanup_upload env s) = lent x s" "slist_field x (cleanup_upload env s) = slist_field x s"
  "curl (cleanup_upload env s) = curl s"
proof -
  have "curl_opt (cleanup_upload env s) (slist_option x) = curl_opt s (slist_option x)"
    using frame_opt [OF cleanup_frame [of s env], of "slist_option x"]
    by (cases x) (simp_all add: curl_opt_def)
  then show "lent x (cleanup_upload env s) = lent x s" by (simp add: lent_def)
  show "slist_field x (cleanup_upload env s) = slist_field x s" "curl (cleanup_upload env s) = curl s"
    by (cases x; simp add: cleanup_upload_def Let_def curl_easy_setopt_def rb_easy_del_def)+
qed

lemma clear_rules_slists:
  "lent x (curb_clear_network_allowed_cidr_rules s) = lent x s"
  "slist_field x (curb_clear_network_allowed_cidr_rules s) = slist_field x s"
  "lent x (curb_clear_network_allowed_hosts s) = lent x s"
  "slist_field x (curb_clear_network_allowed_hosts s) = slist_field x s"
  "curl (curb_clear_network_allowed_cidr_rules s) = curl s"
  "curl (curb_clear_network_allowed_hosts s) = curl s"
  using prepare_lists(3) [of s] prepare_lists(4) [of s]
  by (simp_all add: lent_def frame_opt [OF clear_rules_frame(1)] frame_opt [OF clear_rules_frame(2)]
      same_lists_def)
     (simp_all add: curb_clear_network_allowed_cidr_rules_def curb_clear_network_allowed_hosts_def)

lemma cleanup_returns_lists:
  assumes "slists_owned env r" and "curl r \<noteq> None"
  shows "lent x (ruby_curl_easy_cleanup env r) = None"
    and "slist_field x (ruby_curl_easy_cleanup env r) = []"
proof -
  have "owned_except env {} r" using assms by (simp add: owned_except_def)
  then show "lent x (ruby_curl_easy_cleanup env r) = None"
    and "slist_field x (ruby_curl_easy_cleanup env r) = []"
    using clear_setup_lists_owned [of env "{}" r]
    by (simp_all add: cleanup_eq cleanup_upload_lists clear_rules_slists owned_except_def
        clear_setup_lists_empty)
qed

section \<open>The header list\<close>

text \<open>What \<open>curl_slist_append\<close> documents: the list with the string at its end, or failure.\<close>

definition slist_append_ok :: "setup_env \<Rightarrow> bool" where
  "slist_append_ok E \<longleftrightarrow> (\<forall>l s l'. curl_slist_append E l s = Some l' \<longrightarrow> l' = l @ [s])"

text \<open>The header line a name and a value stand for; an empty value asks libcurl to drop the
  header.\<close>

definition header_line :: "string \<times> string \<Rightarrow> string" where
  "header_line p = (if snd p = [] then fst p @ '':'' else fst p @ '': '' @ snd p)"

definition ruby_headers :: "(string \<times> string) list \<Rightarrow> rvalue" where
  "ruby_headers ps = RHash (map (\<lambda>p. (RStr (fst p), RStr (snd p))) ps)"

lemma each_header:
  assumes "slist_append_ok E"
    and "cb_each_http_header E (RArr [RStr (fst p), RStr (snd p)]) l = (Inr (), l')"
  shows "l' = l @ [c_string (header_line p)]"
  using assms
  by (auto simp: cb_each_http_header_def bind_def lift_res_def rb_ary_entry_def rb_obj_as_string_def
      append_or_raise_def slist_append_ok_def header_line_def ret_def split: option.splits if_splits)

lemma each_headers:
  assumes "slist_append_ok E"
    and "steps (map (cb_each_http_header E) (rb_each_items (ruby_headers ps))) l = (Inr (), l')"
  shows "l' = l @ map (\<lambda>p. c_string (header_line p)) ps"
  using assms(2)
proof (induction ps arbitrary: l)
  case Nil
  then show ?case by (simp add: ruby_headers_def rb_each_items_def ret_def)
next
  case (Cons p ps)
  from Cons.prems obtain l1 where
    l1: "cb_each_http_header E (RArr [RStr (fst p), RStr (snd p)]) l = (Inr (), l1)"
    and "steps (map (cb_each_http_header E) (rb_each_items (ruby_headers ps))) l1 = (Inr (), l')"
    by (auto simp: ruby_headers_def rb_each_items_def elim!: bind_InrE)
  then show ?case using Cons.IH [of l1] each_header [OF assms(1) l1] by simp
qed

definition same_headers :: "ruby_curl_easy \<Rightarrow> ruby_curl_easy \<Rightarrow> bool" where
  "same_headers s t \<longleftrightarrow> curl_headers t = curl_headers s"

interpretation headers: option_relation same_headers
  by unfold_locales (auto simp: same_headers_def curl_easy_setopt_def)

abbreviation proxy_header_block :: "setup_env \<Rightarrow> (ruby_curl_easy, unit) cmd" where
  "proxy_header_block E \<equiv> defined E ''HAVE_CURLOPT_PROXYHEADER'' (steps [
       setopt ''CURLOPT_PROXYHEADER'' VNull,
       setup_list ''proxy_headers'' ''CURLOPT_PROXYHEADER'' (\<lambda>v. is_array v \<or> is_hash v)
         (cb_each_http_proxy_header E) (append_as_string E ''Failed to append to proxy headers list'')
         curl_proxy_headers put_proxy_headers])"

lemma after_headers:
  "keeps same_headers (proxy_header_block E)" "keeps same_headers (setup_other_lists E)"
  "keeps (setup_frame (- {''CURLOPT_HTTPHEADER''})) (proxy_header_block E)"
  "keeps (setup_frame (- {''CURLOPT_HTTPHEADER''})) (setup_other_lists E)"
proof -
  show "keeps same_headers (proxy_header_block E)" "keeps same_headers (setup_other_lists E)"
    unfolding setup_other_lists_def
    by (intro headers.intros; simp add: same_headers_def)+
  show "keeps (setup_frame (- {''CURLOPT_HTTPHEADER''})) (proxy_header_block E)"
    by (intro frame_intros setup_list_frame put_frames) simp_all
  show "keeps (setup_frame (- {''CURLOPT_HTTPHEADER''})) (setup_other_lists E)"
    by (rule keeps_frame_mono [OF setup_other_lists_frame]) (simp add: list_options_def)
qed

lemma header_block:
  assumes "slist_append_ok E" and "rb_easy_get ''headers'' r = ruby_headers ps"
    and "curl_headers r = []" and "setup_http_headers E r = (Inr (), d)"
  defines "L \<equiv> map (\<lambda>p. c_string (header_line p)) ps"
  shows "curl_headers d = L"
    and "curl_opt d ''CURLOPT_HTTPHEADER'' = Some (if L = [] then VNull else VSlist L)"
proof -
  let ?r = "curl_easy_setopt ''CURLOPT_HTTPHEADER'' VNull r"
  have ne: "ruby_headers ps \<noteq> Qnil" "is_hash (ruby_headers ps)"
    by (simp_all add: ruby_headers_def is_hash_def)
  from assms(4) obtain s where
    s: "setup_list ''headers'' ''CURLOPT_HTTPHEADER'' (\<lambda>v. is_array v \<or> is_hash v)
       (cb_each_http_header E) (append_as_string E ''Failed to append to headers list'')
       curl_headers put_headers ?r = (Inr (), s)"
    and d: "proxy_header_block E s = (Inr (), d)"
    unfolding setup_http_headers_def steps.simps
    by (elim bind_InrE) (auto simp: setopt_def modify_def ret_def)
  obtain l where l: "steps (map (cb_each_http_header E) (rb_each_items (ruby_headers ps))) [] = (Inr (), l)"
    and s_eq: "s = (if l = [] then put_headers l ?r
       else curl_easy_setopt ''CURLOPT_HTTPHEADER'' (VSlist l) (put_headers l ?r))"
    using s assms(2,3) ne
    by (auto simp: setup_list_def bind_gets bind_def on_list_def if_state_def setopt_of_def cmd_defs
        curl_easy_setopt_def [of _ _ r] rb_easy_get_def split: prod.splits sum.splits if_splits)
  have "l = L" using each_headers [OF assms(1) l] by (simp add: L_def)
  then have "curl_headers s = L"
    "curl_opt s ''CURLOPT_HTTPHEADER'' = Some (if L = [] then VNull else VSlist L)"
    by (simp_all add: s_eq curl_opt_setopt) (simp_all add: curl_easy_setopt_def curl_opt_def)
  then show "curl_headers d = L"
    and "curl_opt d ''CURLOPT_HTTPHEADER'' = Some (if L = [] then VNull else VSlist L)"
    using keeps_run [OF after_headers(1) d] frame_opt [OF keeps_run [OF after_headers(3) d]]
    by (simp_all add: same_headers_def)
qed

lemma body_headers:
  assumes "slist_append_ok E" and "rb_easy_get ''headers'' r = ruby_headers ps"
    and "ruby_curl_easy_setup_body E r = (Inr (), u)"
  defines "L \<equiv> map (\<lambda>p. c_string (header_line p)) ps"
  shows "curl_headers u = L"
    and "curl_opt u ''CURLOPT_HTTPHEADER'' = Some (if L = [] then VNull else VSlist L)"
proof -
  from assms(3) obtain f d where f: "steps (before_lists E) r = (Inr (), f)"
    and d: "setup_http_headers E (ruby_curl_easy_clear_setup_lists (s_env E) f) = (Inr (), d)"
    and u: "setup_other_lists E d = (Inr (), u)"
    unfolding setup_body_split
    by (elim bind_InrE) (auto simp: modify_def ret_def simp del: steps.simps)
  let ?c = "ruby_curl_easy_clear_setup_lists (s_env E) f"
  have "rb_easy_get ''headers'' ?c = ruby_headers ps"
    using assms(2) frame_fields(5) [OF clear_setup_lists_frame [of f "s_env E"], of "''headers''"]
      frame_fields(5) [OF keeps_run [OF before_lists_frame f], of "''headers''"] by simp
  moreover have "curl_headers ?c = []" using clear_setup_lists_empty [of Headers] by simp
  ultimately have "curl_headers d = L"
    "curl_opt d ''CURLOPT_HTTPHEADER'' = Some (if L = [] then VNull else VSlist L)"
    using header_block [OF assms(1) _ _ d] by (simp_all add: L_def)
  then show "curl_headers u = L"
    and "curl_opt u ''CURLOPT_HTTPHEADER'' = Some (if L = [] then VNull else VSlist L)"
    using keeps_run [OF after_headers(2) u] frame_opt [OF keeps_run [OF after_headers(4) u]]
    by (simp_all add: same_headers_def)
qed

section \<open>A concrete handle\<close>

definition sample_setup :: setup_env where
  "sample_setup = \<lparr>
     s_env = \<lparr>have_macro = (\<lambda>_. True), libcurl_version_num = 0x080000,
        easy_strerror = (\<lambda>_. ''error''), multi_strerror = (\<lambda>_. ''error''),
        setopt_result = (\<lambda>_ _. 0)\<rparr>,
     s_pton4 = (\<lambda>_. Some [93, 184, 0, 0]), s_pton6 = (\<lambda>_. None), s_to_s = (\<lambda>_. Inr ''object''),
     curl_slist_append = (\<lambda>l s. Some (l @ [s])), CURL_CONFIG_CA = ''ca.pem''\<rparr>"

definition sample_easy :: ruby_curl_easy where
  "sample_easy = (ruby_curl_easy_allocate 0 0)\<lparr>curl := Some 1, network_policy := 1,
     opts := [''url'' \<mapsto> RStr ''http://example.com/'', ''allowed_cidrs'' \<mapsto> RArr [RStr ''93.184.0.0/16''],
       ''headers'' \<mapsto> ruby_headers [(''Accept'', ''text/html''), (''Expect'', [])]]\<rparr>"

lemma sample_get:
  "rb_easy_get k sample_easy =
     (if k = ''headers'' then ruby_headers [(''Accept'', ''text/html''), (''Expect'', [])]
      else if k = ''allowed_cidrs'' then RArr [RStr ''93.184.0.0/16'']
      else if k = ''url'' then RStr ''http://example.com/'' else Qnil)"
  by (simp add: rb_easy_get_def sample_easy_def)

lemma sample_fields:
  "curl sample_easy = Some 1" "network_policy sample_easy = 1" "allow_proxy sample_easy = False"
  "native_active sample_easy = 0" "curl_log sample_easy = []"
  "network_rules_ok sample_easy" "slists_owned env sample_easy"
  by (simp_all add: sample_easy_def ruby_curl_easy_allocate_def ruby_curl_easy_zero_def zero_flags_def
      zero_opts_def network_rules_ok_def cidr_rules_ok_def host_rules_ok_def slists_owned_def
      lent_def curl_opt_def)

lemma sample_ready: "setup_ready sample_setup sample_easy"
proof -
  have cidr: "\<exists>r. cidr_value (s_pton4 sample_setup) (s_pton6 sample_setup) (RStr ''93.184.0.0/16'') = Inr r"
    by (simp add: cidr_value_def StringValueCStr_def sample_setup_def curb_parse_cidr_rule_def
        cidr_split_def cidr_family_def cidr_prefix_def strtol10_def read_digits_def is_digit_def
        digit_value_def c_isspace_def)
  then show ?thesis
    unfolding setup_ready_def
    by (auto simp: sample_get stored_array_def string_keys_def)
       (simp_all add: sample_setup_def)
qed

lemma sample_envs:
  "have_opensocket_policy (s_env sample_setup)" "have_macro (s_env sample_setup) m"
  "slist_append_ok sample_setup"
  by (simp_all add: sample_setup_def have_opensocket_policy_def slist_append_ok_def)

lemma setup_ready_returns:
  assumes "setup_ready E r"
  shows "\<exists>t. ruby_curl_easy_setup E r = (Inr (), t)"
proof -
  have "setup_ready E (ruby_curl_easy_enter_native r)"
    using assms unfolding setup_ready_def by (simp add: native_same)
  then have "fst (ruby_curl_easy_setup_body E (ruby_curl_easy_enter_native r)) = Inr ()"
    using setup_body_completes [of E] by (simp add: completes_def)
  then show ?thesis
    by (cases "ruby_curl_easy_setup_body E (ruby_curl_easy_enter_native r)")
       (simp add: ruby_curl_easy_setup_def bind_modify rb_ensure_def modify_def)
qed

lemma body_url:
  assumes "ruby_curl_easy_setup_body E r = (Inr (), u)" and "rb_easy_get ''url'' r = RStr url"
  shows "curl_opt u ''CURLOPT_URL'' = Some (VStr (c_string url))"
proof -
  obtain a h p w x g0 g f where s: "setup_url E (snd (setup_reset r)) = (Inr (), a)"
    "setup_frame host_options a h" "setup_frame policy_options h p" "setup_frame auth_options p w"
    "setup_frame proxy_options w x" "setup_frame callback_options x g0"
    "setup_frame general_options g0 g" "setup_frame (port_options \<union> file_options) g f"
    "setup_frame (header_options \<union> list_options) f u"
    using setup_frames [OF assms(1)] by metis
  have url: "rb_easy_get ''url'' (snd (setup_reset r)) = RStr url"
    using assms(2) frame_fields(5) [OF keepsD [OF setup_reset_frame(1)], of "''url''" r] by simp
  let ?b = "curl_easy_setopt ''CURLOPT_URL'' (VStr (c_string url)) (snd (setup_reset r))"
  let ?rest = "steps [defined E ''HAVE_CURLOPT_DOH_URL'' (setopt_str_or_null ''CURLOPT_DOH_URL'' ''doh_url''),
    setup_dns E]"
  have "keeps (setup_frame (- {''CURLOPT_URL''})) ?rest"
    unfolding setup_dns_def by (intro frame_intros) simp_all
  moreover have "setup_url E (snd (setup_reset r)) = ?rest ?b"
    using url by (simp add: setup_url_def setup_location_def bind_assoc bind_ret)
       (simp add: bind_def if_state_def rb_easy_nil_def ret_def setopt_str_def gets_def lift_res_def
          rb_easy_get_str_def StringValue_def setopt_def modify_def split: prod.split sum.split)
  ultimately have "setup_frame (- {''CURLOPT_URL''}) ?b a" using s(1) keeps_run by metis
  then have "curl_opt a ''CURLOPT_URL'' = Some (VStr (c_string url))"
    by (auto dest: frame_opt simp: curl_opt_setopt)
  then show ?thesis
    by (simp add: frame_opt [OF s(9)] frame_opt [OF s(8)] frame_opt [OF s(7)] frame_opt [OF s(6)]
        frame_opt [OF s(5)] frame_opt [OF s(4)] frame_opt [OF s(3)] frame_opt [OF s(2)] option_sets)
qed

section \<open>Properties\<close>

lemma public_setup_rules:
  assumes "have_opensocket_policy (s_env E)" and "network_policy r = 1" and "network_rules_ok r"
    and "ruby_curl_easy_setup E r = (Inr (), t)"
  shows "opensocket_installed E (allow_unix_socket r) t"
    and "cidr_rules_compiled E (rb_easy_get ''allowed_cidrs'' r) t"
    and "\<not> allow_proxy r \<Longrightarrow> proxy_disabled t"
proof -
  let ?r = "ruby_curl_easy_enter_native r"
  obtain u where u: "ruby_curl_easy_setup_body E ?r = (Inr (), u)" and t: "t = ruby_curl_easy_leave_native u"
    using setup_InrD [OF assms(4)] .
  have ok: "network_rules_ok ?r" using assms(3) network_rules_ok_same [OF native_same(8)] by simp
  have pol: "network_policy ?r = 1" using assms(2) by (simp add: native_same)
  show "opensocket_installed E (allow_unix_socket r) t" "cidr_rules_compiled E (rb_easy_get ''allowed_cidrs'' r) t"
    using body_opensocket [OF u ok assms(1) pol] compiled_same [OF native_same(9), of E _ u]
    by (simp_all add: t opensocket_installed_def native_same)
  show "\<not> allow_proxy r \<Longrightarrow> proxy_disabled t"
    using body_proxy [OF u] pol by (simp add: t public_policy_disables_proxy_def native_same proxy_disabled_def)
qed

lemma setup_dns_refused:
  assumes "ruby_curl_easy_setup E r = (Inr (), t)" and "network_policy r = 1"
    and "have_macro (s_env E) ''HAVE_CURLOPT_DNS_SERVERS''"
  shows "rb_easy_nil ''dns_servers'' r"
proof -
  obtain u where u: "ruby_curl_easy_setup_body E (ruby_curl_easy_enter_native r) = (Inr (), u)"
    using setup_InrD [OF assms(1)] .
  show ?thesis
    using body_dns [OF u assms(3)] assms(2) by (simp add: rb_easy_nil_def native_same)
qed

text \<open>C4: whenever a handle under the \<open>:public\<close> policy has been set up, libcurl opens sockets only
  through \<open>curb_public_network_opensocket\<close>, opens fresh connections and does not reuse them,
  uses no Unix socket unless allowed, no proxy unless allowed, the compiled rules are those of
  \<open>allowed_cidrs\<close>, and no DNS server override was accepted.\<close>

theorem public_setup_enforces_policy:
  assumes "have_opensocket_policy (s_env E)" and "network_policy r = 1" and "network_rules_ok r"
    and "ruby_curl_easy_setup E r = (Inr (), t)"
  shows "opensocket_installed E (allow_unix_socket r) t \<and>
         (\<not> allow_proxy r \<longrightarrow> proxy_disabled t) \<and>
         cidr_rules_compiled E (rb_easy_get ''allowed_cidrs'' r) t \<and>
         (have_macro (s_env E) ''HAVE_CURLOPT_DNS_SERVERS'' \<longrightarrow> rb_easy_nil ''dns_servers'' r)"
  using public_setup_rules [OF assms] setup_dns_refused [OF assms(4,2)]
  by blast

theorem public_setup_enforces_policy_witness:
  "\<exists>t. ruby_curl_easy_setup sample_setup sample_easy = (Inr (), t) \<and>
       opensocket_installed sample_setup (allow_unix_socket sample_easy) t \<and> proxy_disabled t"
proof -
  obtain t where t: "ruby_curl_easy_setup sample_setup sample_easy = (Inr (), t)"
    using setup_ready_returns [OF sample_ready] by blast
  then show ?thesis
    using public_setup_enforces_policy [OF sample_envs(1) sample_fields(2,6) t]
    by (auto simp: sample_fields)
qed

text \<open>C5: libcurl never holds a string list that the handle has freed: whatever the exit of setup,
  every list option that is set points to the list the handle owns, and after cleanup no list is
  lent and none is left.\<close>

theorem lent_lists_stay_owned:
  assumes "slists_owned (s_env E) r" and "curl r \<noteq> None"
  shows "slists_owned (s_env E) (snd (ruby_curl_easy_setup E r)) \<and>
         (\<forall>x. lent x (ruby_curl_easy_cleanup (s_env E) r) = None \<and>
              slist_field x (ruby_curl_easy_cleanup (s_env E) r) = [])"
proof -
  let ?r = "ruby_curl_easy_enter_native r"
  have same: "owned_except env F (ruby_curl_easy_enter_native s) = owned_except env F s"
    "owned_except env F (ruby_curl_easy_leave_native s) = owned_except env F s" for env F s
  proof -
    have fields: "slist_field x (ruby_curl_easy_enter_native s) = slist_field x s"
      "slist_field x (ruby_curl_easy_leave_native s) = slist_field x s" for x
      by (cases x; simp add: ruby_curl_easy_enter_native_def ruby_curl_easy_leave_native_def)+
    show "owned_except env F (ruby_curl_easy_enter_native s) = owned_except env F s"
      "owned_except env F (ruby_curl_easy_leave_native s) = owned_except env F s"
      by (simp_all add: owned_except_def slists_owned_def lent_def native_same fields)
         (simp_all add: ruby_curl_easy_enter_native_def ruby_curl_easy_leave_native_def)
  qed
  have "owned_except (s_env E) {} ?r" using assms by (simp add: same) (simp add: owned_except_def)
  then have "owned_except (s_env E) {} (snd (ruby_curl_easy_setup_body E ?r))"
    using setup_body_owned [of E] by (simp add: exits_def)
  then have "owned_except (s_env E) {} (snd (ruby_curl_easy_setup E r))" by (simp add: setup_snd same)
  then show ?thesis
    using cleanup_returns_lists [OF assms] by (simp add: owned_except_def)
qed

theorem lent_lists_stay_owned_witness:
  "slists_owned (s_env sample_setup) (snd (ruby_curl_easy_setup sample_setup sample_easy)) \<and>
   curl_headers (ruby_curl_easy_cleanup (s_env sample_setup) sample_easy) = []"
proof -
  have "\<forall>x. slist_field x (ruby_curl_easy_cleanup (s_env sample_setup) sample_easy) = []"
    and "slists_owned (s_env sample_setup) (snd (ruby_curl_easy_setup sample_setup sample_easy))"
    using lent_lists_stay_owned [of sample_setup sample_easy] by (simp_all add: sample_fields)
  then show ?thesis by (metis slist_field.simps(1))
qed

text \<open>Setup leaves the native-call counter as it was on every exit, by return or by exception, and
  forgets the callback error and the blocked-destination report of an earlier transfer.\<close>

theorem setup_brackets_native:
  assumes "native_active r \<noteq> - 1"
  shows "native_active (snd (ruby_curl_easy_setup E r)) = native_active r \<and>
         callback_error (snd (ruby_curl_easy_setup E r)) = None \<and>
         ruby_curl_easy_unsafe_destination_error_get (snd (ruby_curl_easy_setup E r)) =
           (Inr Qnil, snd (ruby_curl_easy_setup E r))"
proof -
  let ?r = "ruby_curl_easy_enter_native r" and ?u = "snd (ruby_curl_easy_setup_body E (ruby_curl_easy_enter_native r))"
  have "native_active ?u = native_active ?r"
    using keepsD [OF setup_body_frame] by (rule frame_fields)
  then show ?thesis
    using native_bracket [OF assms] setup_body_errors [of E ?r]
    by (simp add: setup_snd leave_native_fields ruby_curl_easy_unsafe_destination_error_get_def)
qed

theorem setup_brackets_native_witness:
  "native_active (snd (ruby_curl_easy_setup sample_setup (sample_easy\<lparr>opts := Map.empty\<rparr>))) = 0"
  using setup_brackets_native [of "sample_easy\<lparr>opts := Map.empty\<rparr>" sample_setup] sample_fields(4)
  by simp

text \<open>C18: setup returns on every handle that is ready: a URL is given, the options passed as C strings
  are strings or unset, no DNS server is named under the \<open>:public\<close> policy, the allowlists can
  be compiled, \<open>to_s\<close> answers and memory is available. libcurl then has the URL.\<close>

theorem setup_of_ready_handle_returns:
  assumes "setup_ready E r" and "rb_easy_get ''url'' r = RStr url"
  shows "\<exists>t. ruby_curl_easy_setup E r = (Inr (), t) \<and>
             curl_opt t ''CURLOPT_URL'' = Some (VStr (c_string url))"
proof -
  let ?r = "ruby_curl_easy_enter_native r"
  obtain t where t: "ruby_curl_easy_setup E r = (Inr (), t)"
    using setup_ready_returns [OF assms(1)] by blast
  obtain u where u: "ruby_curl_easy_setup_body E ?r = (Inr (), u)" "t = ruby_curl_easy_leave_native u"
    using setup_InrD [OF t] .
  have "curl_opt u ''CURLOPT_URL'' = Some (VStr (c_string url))"
    by (rule body_url [OF u(1)]) (simp add: native_same assms(2))
  then show ?thesis using t u(2) by (simp add: native_same)
qed

theorem setup_of_ready_handle_returns_witness:
  "\<exists>t. ruby_curl_easy_setup sample_setup sample_easy = (Inr (), t) \<and>
       curl_opt t ''CURLOPT_URL'' = Some (VStr (c_string ''http://example.com/''))"
  using setup_of_ready_handle_returns [OF sample_ready, of "''http://example.com/''"]
  by (simp add: sample_get)

text \<open>Setup rebuilds the request headers from the Ruby object: for a Hash of names and values libcurl
  gets one line per pair in order, the name with a bare colon for an empty value, and nothing of
  an earlier setup.\<close>

theorem setup_sends_headers:
  assumes "slist_append_ok E" and "rb_easy_get ''headers'' r = ruby_headers ps"
    and "ruby_curl_easy_setup E r = (Inr (), t)"
  shows "curl_headers t = map (\<lambda>p. c_string (header_line p)) ps \<and>
         curl_opt t ''CURLOPT_HTTPHEADER'' =
           Some (if ps = [] then VNull else VSlist (map (\<lambda>p. c_string (header_line p)) ps))"
proof -
  let ?r = "ruby_curl_easy_enter_native r"
  obtain u where u: "ruby_curl_easy_setup_body E ?r = (Inr (), u)" "t = ruby_curl_easy_leave_native u"
    using setup_InrD [OF assms(3)] .
  have "rb_easy_get ''headers'' ?r = ruby_headers ps" using assms(2) by (simp add: native_same)
  then show ?thesis
    using body_headers [OF assms(1) _ u(1)]
    by (simp add: u(2) native_same) (simp add: ruby_curl_easy_leave_native_def)
qed

theorem setup_sends_headers_witness:
  "\<exists>t. ruby_curl_easy_setup sample_setup sample_easy = (Inr (), t) \<and>
       curl_headers t = [c_string ''Accept: text/html'', c_string ''Expect:'']"
proof -
  obtain t where t: "ruby_curl_easy_setup sample_setup sample_easy = (Inr (), t)"
    using setup_ready_returns [OF sample_ready] by blast
  then show ?thesis
    using setup_sends_headers [OF sample_envs(3) _ t, of "[(''Accept'', ''text/html''), (''Expect'', [])]"]
    by (simp add: sample_get header_line_def)
qed

end
