(* ===== verification/Curb_Multi.thy ===== *)
theory Curb_Multi
  imports Curb_Setup
begin

text \<open>
  The multi handle of \<open>ext/curb_multi.c\<close>: attaching easy handles to libcurl's multi handle,
  removing them, the completion of a transfer with its status callbacks, deferred exceptions and
  closing. Structures are addressed by number: a \<open>ruby_curl_easy *\<close> and the Ruby object that
  wraps it share one, so the \<open>attached\<close> table maps a number to itself. libcurl's multi interface
  and the Ruby methods the code calls are parameters (\<open>multi_env\<close>); both may change the whole
  state, since user code runs inside them. \<open>st_init_numtable\<close> never returns \<open>NULL\<close> (Ruby's
  allocator raises instead), so the checks for it are dead code and are left out.
\<close>

section \<open>State\<close>

text \<open>\<open>ruby_curl_multi\<close>. The counters are C \<open>int\<close>s; that they stay below \<open>2^31\<close> is not
  modelled.\<close>

record ruby_curl_multi =
  active :: int
  running :: int
  closed :: bool
  perform_active :: bool
  multi_callback_active :: bool
  allow_close_during_perform :: bool
  handle :: "nat option"
  attached :: "(nat, nat) st_table option"

text \<open>The Ruby object: the structure and its instance variables. A value that is no Hash is \<open>None\<close>;
  the idle references are the keys of a weak map only Ruby code uses.\<close>

record multi_object =
  rbcm :: ruby_curl_multi
  deferred_exception :: "exc option"
  deferred_exception_source_id :: "nat option"
  requests :: "(nat, nat) st_table option"
  native_safety_signatures :: "(nat, rvalue) st_table option"
  idle_easy_references :: "nat list option"

text \<open>The process-wide settings, the storage of the current Ractor (\<open>None\<close> on a Ruby without
  Ractor), and libcurl's own state.\<close>

record 'l world =
  easies :: "nat \<Rightarrow> ruby_curl_easy"
  multis :: "nat \<Rightarrow> multi_object"
  cCurlMutiDefaulttimeout :: int
  cCurlMutiAutoClose :: bool
  ractor_storage :: "(string \<rightharpoonup> rvalue) option"
  lib :: 'l

type_synonym ('l, 'a) mcmd = "('l world, 'a) cmd"

text \<open>libcurl's multi interface and the calls into Ruby. \<open>curl_multi_perform\<close> gives the result
  and the number of running transfers; the transfer callbacks it makes may change the state. A
  message of \<open>curl_multi_info_read\<close> says whether it is \<open>CURLMSG_DONE\<close>, for which easy
  handle, with which result. \<open>curl_info_private\<close> is the structure pointer kept with
  \<open>CURLINFO_PRIVATE\<close>. \<open>curl_multi_wait\<close> gives its result and the number of descriptors; other threads
  run meanwhile.\<close>

record 'l multi_env =
  me_setup :: setup_env
  curl_multi_init :: "'l \<Rightarrow> nat option \<times> 'l"
  curl_multi_cleanup :: "nat \<Rightarrow> 'l \<Rightarrow> 'l"
  curl_multi_add_handle :: "nat option \<Rightarrow> nat option \<Rightarrow> 'l \<Rightarrow> int \<times> 'l"
  curl_multi_remove_handle :: "nat option \<Rightarrow> nat option \<Rightarrow> 'l \<Rightarrow> int \<times> 'l"
  curl_multi_setopt :: "nat option \<Rightarrow> string \<Rightarrow> int \<Rightarrow> 'l \<Rightarrow> 'l"
  curl_multi_info_read :: "nat option \<Rightarrow> 'l \<Rightarrow> (bool \<times> nat \<times> int) option \<times> 'l"
  curl_info_private :: "nat \<Rightarrow> 'l \<Rightarrow> nat option"
  curl_info_response_code :: "nat option \<Rightarrow> 'l \<Rightarrow> int"
  curl_info_redirect_count :: "nat option \<Rightarrow> 'l \<Rightarrow> int"
  curl_multi_perform :: "nat option \<Rightarrow> 'l world \<Rightarrow> (int \<times> int) \<times> 'l world"
  curl_multi_timeout :: "nat option \<Rightarrow> 'l \<Rightarrow> (int \<times> int) \<times> 'l"
  curl_multi_fdset :: "nat option \<Rightarrow> 'l \<Rightarrow> (int \<times> int) \<times> 'l"
  curl_multi_wait :: "nat option \<Rightarrow> int \<Rightarrow> ('l world, int \<times> int) cmd"
  rb_send :: "rvalue \<Rightarrow> string \<Rightarrow> rvalue list \<Rightarrow> ('l world, rvalue) cmd"
  multi_respond_to :: "rvalue \<Rightarrow> string \<Rightarrow> bool"
  cRubyFiber :: rvalue
  rb_fiber_scheduler_current :: "('l world, rvalue) cmd"
  rb_fiber_scheduler_kernel_sleep :: "rvalue \<Rightarrow> rvalue \<Rightarrow> ('l world, rvalue) cmd"
  rb_float_new :: "int \<Rightarrow> int \<Rightarrow> rvalue"
  rb_thread_fd_select :: "int \<Rightarrow> int \<times> int \<Rightarrow> ('l world, int \<times> int) cmd"
  strerror :: "int \<Rightarrow> string"

abbreviation me_env :: "'l multi_env \<Rightarrow> curl_env" where
  "me_env X \<equiv> s_env (me_setup X)"

subsection \<open>Access\<close>

definition rbce_of :: "nat \<Rightarrow> 'l world \<Rightarrow> ruby_curl_easy" where
  "rbce_of e w = easies w e"

definition rbcm_of :: "nat \<Rightarrow> 'l world \<Rightarrow> ruby_curl_multi" where
  "rbcm_of m w = rbcm (multis w m)"

definition upd_rbce :: "nat \<Rightarrow> (ruby_curl_easy \<Rightarrow> ruby_curl_easy) \<Rightarrow> 'l world \<Rightarrow> 'l world" where
  "upd_rbce e f w = w\<lparr>easies := (easies w)(e := f (easies w e))\<rparr>"

definition upd_object :: "nat \<Rightarrow> (multi_object \<Rightarrow> multi_object) \<Rightarrow> 'l world \<Rightarrow> 'l world" where
  "upd_object m f w = w\<lparr>multis := (multis w)(m := f (multis w m))\<rparr>"

definition upd_rbcm :: "nat \<Rightarrow> (ruby_curl_multi \<Rightarrow> ruby_curl_multi) \<Rightarrow> 'l world \<Rightarrow> 'l world" where
  "upd_rbcm m f = upd_object m (\<lambda>ob. ob\<lparr>rbcm := f (rbcm ob)\<rparr>)"

definition on_rbce :: "nat \<Rightarrow> (ruby_curl_easy, 'a) cmd \<Rightarrow> ('l, 'a) mcmd" where
  "on_rbce e m w = (case m (easies w e) of (r, x) \<Rightarrow> (r, w\<lparr>easies := (easies w)(e := x)\<rparr>))"

definition on_lib :: "('l \<Rightarrow> 'a \<times> 'l) \<Rightarrow> ('l, 'a) mcmd" where
  "on_lib f w = (case f (lib w) of (a, l) \<Rightarrow> (Inr a, w\<lparr>lib := l\<rparr>))"

definition when_cmd :: "bool \<Rightarrow> ('s, unit) cmd \<Rightarrow> ('s, unit) cmd" where
  "when_cmd b m = (if b then m else ret ())"

section \<open>Deferred exceptions\<close>

definition build_aborted_by_callback_exception :: "exc \<Rightarrow> exc" where
  "build_aborted_by_callback_exception e = Exc ''eCurlErrAbortedByCallback'' (exc_message e)"

definition stash_multi_exception_if_unset :: "nat \<Rightarrow> exc \<Rightarrow> nat option \<Rightarrow> 'l world \<Rightarrow> 'l world" where
  "stash_multi_exception_if_unset m e source_easy w =
     (if deferred_exception (multis w m) \<noteq> None then w
      else upd_object m (\<lambda>ob. ob\<lparr>deferred_exception := Some e,
             deferred_exception_source_id :=
               (if source_easy = None then deferred_exception_source_id ob else source_easy)\<rparr>) w)"

definition clear_multi_deferred_exception_source_id_if_any :: "nat \<Rightarrow> 'l world \<Rightarrow> 'l world" where
  "clear_multi_deferred_exception_source_id_if_any m =
     upd_object m (\<lambda>ob. ob\<lparr>deferred_exception_source_id := None\<rparr>)"

definition clear_multi_deferred_exception_if_any :: "nat \<Rightarrow> ('l, exc option) mcmd" where
  "clear_multi_deferred_exception_if_any m w =
     (Inr (deferred_exception (multis w m)),
      upd_object m (\<lambda>ob. ob\<lparr>deferred_exception := None\<rparr>) w)"

definition raise_multi_deferred_exception_if_idle :: "nat \<Rightarrow> ('l, unit) mcmd" where
  "raise_multi_deferred_exception_if_idle m w =
     (case deferred_exception (multis w m) of
        None \<Rightarrow> (Inr (), w)
      | Some e \<Rightarrow>
          if 0 < active (rbcm_of m w) then (Inr (), w)
          else bind (clear_multi_deferred_exception_if_any m) (\<lambda>_. rb_exc_raise e) w)"

text \<open>The hash \<open>did_raise\<close> holds at most one entry: the exception of the last status
  callback.\<close>

definition take_status_callback_exception_if_any :: "exc option \<Rightarrow> exc option" where
  "take_status_callback_exception_if_any did_raise =
     (case did_raise of None \<Rightarrow> None | Some e \<Rightarrow> Some (build_aborted_by_callback_exception e))"

definition raise_completion_callback_error_if_any :: "exc option \<Rightarrow> exc option \<Rightarrow> ('l, unit) mcmd" where
  "raise_completion_callback_error_if_any did_raise easy_callback_error =
     (case easy_callback_error of
        Some e \<Rightarrow> rb_exc_raise e
      | None \<Rightarrow> (case take_status_callback_exception_if_any did_raise of
                  Some e \<Rightarrow> rb_exc_raise e | None \<Rightarrow> ret ()))"

section \<open>Attachment\<close>

definition rb_curl_multi_forget_easy :: "nat \<Rightarrow> nat \<Rightarrow> 'l world \<Rightarrow> 'l world" where
  "rb_curl_multi_forget_easy m e =
     upd_rbcm m (\<lambda>c. case attached c of None \<Rightarrow> c | Some t \<Rightarrow> c\<lparr>attached := Some (st_delete t e)\<rparr>)"

definition dec_active :: "ruby_curl_multi \<Rightarrow> ruby_curl_multi" where
  "dec_active c = (if 0 < active c then c\<lparr>active := active c - 1\<rparr> else c)"

text \<open>Called when an easy handle is closed or freed while attached.\<close>

definition rb_curl_multi_detach_easy :: "'l multi_env \<Rightarrow> nat \<Rightarrow> nat \<Rightarrow> ('l, int) mcmd" where
  "rb_curl_multi_detach_easy X m e w =
     (case attached (rbcm_of m w) of
        None \<Rightarrow> (Inr 0, w)
      | Some t \<Rightarrow>
          if st_lookup t e = None then (Inr 0, w)
          else let w1 = upd_rbcm m (\<lambda>c. c\<lparr>attached := Some (st_delete t e)\<rparr>) w in
            if handle (rbcm_of m w) \<noteq> None \<and> curl (rbce_of e w) \<noteq> None then
              bind (on_lib (curl_multi_remove_handle X (handle (rbcm_of m w)) (curl (rbce_of e w))))
                (\<lambda>result. if result \<noteq> 0 then ret result
                          else bind (modify (upd_rbcm m dec_active)) (\<lambda>_. ret 0)) w1
            else (Inr 0, upd_rbcm m dec_active w1))"

definition detach_easy_entry :: "'l multi_env \<Rightarrow> nat \<Rightarrow> nat \<Rightarrow> 'l world \<Rightarrow> 'l world" where
  "detach_easy_entry X m e w =
     upd_rbce e (\<lambda>r. r\<lparr>multi := None\<rparr>)
       (if handle (rbcm_of m w) \<noteq> None \<and> curl (rbce_of e w) \<noteq> None
        then snd (on_lib (curl_multi_remove_handle X (handle (rbcm_of m w)) (curl (rbce_of e w))) w)
        else w)"

definition rb_curl_multi_detach_all :: "'l multi_env \<Rightarrow> nat \<Rightarrow> 'l world \<Rightarrow> 'l world" where
  "rb_curl_multi_detach_all X m w =
     (case attached (rbcm_of m w) of
        None \<Rightarrow> w
      | Some t \<Rightarrow>
          upd_rbcm m (\<lambda>c. c\<lparr>active := 0, running := 0\<rparr>)
            (foldl (\<lambda>v p. detach_easy_entry X m (snd p) v)
               (upd_rbcm m (\<lambda>c. c\<lparr>attached := None\<rparr>) w) t))"

definition rb_curl_multi_has_easy :: "nat \<Rightarrow> nat \<Rightarrow> 'l world \<Rightarrow> bool" where
  "rb_curl_multi_has_easy m e w =
     (case attached (rbcm_of m w) of None \<Rightarrow> False | Some t \<Rightarrow> st_lookup t e \<noteq> None)"

definition rb_curl_multi_remove_request_reference :: "nat \<Rightarrow> nat \<Rightarrow> 'l world \<Rightarrow> 'l world" where
  "rb_curl_multi_remove_request_reference m e w =
     (case requests (multis w m) of
        None \<Rightarrow> w
      | Some rq \<Rightarrow>
          upd_object m (\<lambda>ob. ob\<lparr>requests := Some (st_delete rq e),
            native_safety_signatures :=
              (case native_safety_signatures ob of
                 None \<Rightarrow> None | Some sg \<Rightarrow> Some (st_delete sg e))\<rparr>) w)"

text \<open>\<open>curl_multi_free\<close>, the free function of the object.\<close>

definition curl_multi_free :: "'l multi_env \<Rightarrow> nat \<Rightarrow> 'l world \<Rightarrow> 'l world" where
  "curl_multi_free X m w =
     (let w1 = rb_curl_multi_detach_all X m w
      in case handle (rbcm_of m w1) of
           None \<Rightarrow> w1
         | Some h \<Rightarrow> upd_rbcm m (\<lambda>c. c\<lparr>handle := None\<rparr>) (w1\<lparr>lib := curl_multi_cleanup X h (lib w1)\<rparr>))"

definition ruby_curl_multi_init :: "'l multi_env \<Rightarrow> nat \<Rightarrow> ('l, unit) mcmd" where
  "ruby_curl_multi_init X m =
     bind (on_lib (curl_multi_init X)) (\<lambda>h.
     bind (modify (upd_rbcm m (\<lambda>c. c\<lparr>handle := h\<rparr>))) (\<lambda>_.
       if h = None then rb_raise ''mCurlErrFailedInit'' ''Failed to initialize multi handle''
       else modify (upd_rbcm m (\<lambda>c. c\<lparr>active := 0, running := 0, closed := False,
              perform_active := False, multi_callback_active := False,
              allow_close_during_perform := False, attached := Some st_init_numtable\<rparr>))))"

definition raise_multi :: "'l multi_env \<Rightarrow> int \<Rightarrow> ('l, 'a) mcmd" where
  "raise_multi X code = rb_exc_raise (multi_error (me_env X) code)"

text \<open>\<open>CURLM_BAD_HANDLE\<close> is 1.\<close>

definition ruby_curl_multi_ensure_handle :: "'l multi_env \<Rightarrow> nat \<Rightarrow> ('l, unit) mcmd" where
  "ruby_curl_multi_ensure_handle X m w =
     (if handle (rbcm_of m w) = None then
        (if closed (rbcm_of m w) then raise_multi X 1 w else ruby_curl_multi_init X m w)
      else (Inr (), w))"

definition ruby_curl_multi_alloc :: ruby_curl_multi where
  "ruby_curl_multi_alloc = \<lparr>active = 0, running = 0, closed = False, perform_active = False,
     multi_callback_active = False, allow_close_during_perform = False, handle = None,
     attached = None\<rparr>"

definition ruby_curl_multi_initialize :: "'l multi_env \<Rightarrow> nat \<Rightarrow> ('l, nat) mcmd" where
  "ruby_curl_multi_initialize X m = bind (ruby_curl_multi_init X m) (\<lambda>_. ret m)"

text \<open>\<open>CURLM_OK\<close> is 0 and \<open>CURLM_CALL_MULTI_PERFORM\<close> is -1.\<close>

definition ruby_curl_multi_add :: "'l multi_env \<Rightarrow> nat \<Rightarrow> nat \<Rightarrow> ('l, nat) mcmd" where
  "ruby_curl_multi_add X m e =
     bind (ruby_curl_multi_ensure_handle X m) (\<lambda>_ w.
       if rb_curl_multi_has_easy m e w then (Inr m, w)
       else if (case multi (rbce_of e w) of
                  Some m' \<Rightarrow> m' \<noteq> m \<and> rb_curl_multi_has_easy m' e w | None \<Rightarrow> False)
       then rb_raise ''rb_eRuntimeError''
              ''Cannot add an active Curl::Easy handle to another Curl::Multi'' w
       else bind (on_rbce e (ruby_curl_easy_setup (me_setup X))) (\<lambda>_ v.
         bind (on_lib (curl_multi_add_handle X (handle (rbcm_of m v)) (curl (rbce_of e v)))) (\<lambda>mcode.
           if mcode \<noteq> -1 \<and> mcode \<noteq> 0 then
             bind (modify (upd_rbce e (ruby_curl_easy_cleanup (me_env X)))) (\<lambda>_. raise_multi X mcode)
           else
             bind (modify (upd_rbcm m (\<lambda>c. c\<lparr>active := active c + 1, running := running c + 1,
               attached := Some (case attached c of None \<Rightarrow> st_init_numtable | Some t \<Rightarrow> t)\<rparr>))) (\<lambda>_.
             bind (modify (upd_rbce e (\<lambda>r. r\<lparr>multi_attachment_generation :=
               multi_attachment_generation r + 1\<rparr>))) (\<lambda>_.
             bind (modify (upd_rbcm m (\<lambda>c. case attached c of
               None \<Rightarrow> c | Some t \<Rightarrow> c\<lparr>attached := Some (st_insert t e e)\<rparr>))) (\<lambda>_.
             bind (modify (upd_rbce e (\<lambda>r. r\<lparr>multi := Some m\<rparr>))) (\<lambda>_. ret m))))) v) w)"

definition rb_curl_multi_remove :: "'l multi_env \<Rightarrow> nat \<Rightarrow> nat \<Rightarrow> ('l, unit) mcmd" where
  "rb_curl_multi_remove X m e w =
     bind (on_lib (curl_multi_remove_handle X (handle (rbcm_of m w)) (curl (rbce_of e w)))) (\<lambda>result.
       if result \<noteq> 0 then raise_multi X result
       else bind (modify (upd_rbcm m dec_active)) (\<lambda>_.
            bind (modify (upd_rbce e (\<lambda>r. ruby_curl_easy_cleanup (me_env X) (r\<lparr>multi := None\<rparr>)))) (\<lambda>_.
            modify (rb_curl_multi_forget_easy m e)))) w"

definition ruby_curl_multi_remove :: "'l multi_env \<Rightarrow> nat \<Rightarrow> nat \<Rightarrow> ('l, nat) mcmd" where
  "ruby_curl_multi_remove X m e = bind (rb_curl_multi_remove X m e) (\<lambda>_. ret m)"

text \<open>Closing; \<open>_mark_closed\<close> makes it permanent.\<close>

definition ruby_curl_multi_close :: "'l multi_env \<Rightarrow> nat \<Rightarrow> ('l, nat) mcmd" where
  "ruby_curl_multi_close X m w =
     (if (perform_active (rbcm_of m w) \<or> multi_callback_active (rbcm_of m w)) \<and>
         \<not> allow_close_during_perform (rbcm_of m w)
      then rb_raise ''rb_eRuntimeError''
             ''Cannot close an active Curl::Multi handle during perform'' w
      else let w1 = rb_curl_multi_detach_all X m w;
               w2 = (case handle (rbcm_of m w1) of
                       None \<Rightarrow> w1
                     | Some h \<Rightarrow> upd_rbcm m (\<lambda>c. c\<lparr>handle := None\<rparr>)
                                   (w1\<lparr>lib := curl_multi_cleanup X h (lib w1)\<rparr>));
               w3 = upd_rbcm m (\<lambda>c. c\<lparr>active := 0, running := 0\<rparr>) w2
           in bind (clear_multi_deferred_exception_if_any m) (\<lambda>_.
              bind (modify (clear_multi_deferred_exception_source_id_if_any m)) (\<lambda>_. ret m)) w3)"

definition ruby_curl_multi_mark_closed :: "nat \<Rightarrow> ('l, nat) mcmd" where
  "ruby_curl_multi_mark_closed m w = (Inr m, upd_rbcm m (\<lambda>c. c\<lparr>closed := True\<rparr>) w)"

section \<open>Completion of a transfer\<close>

text \<open>\<open>flush_stderr_if_any\<close>: the flush of the underlying \<open>FILE\<close> has no effect here.\<close>

definition flush_stderr_if_any :: "'l multi_env \<Rightarrow> nat \<Rightarrow> ('l, unit) mcmd" where
  "flush_stderr_if_any X e w =
     (let stderr_io = rb_easy_get ''stderr_io'' (rbce_of e w)
      in if stderr_io \<noteq> Qnil then bind (rb_send X stderr_io ''flush'' []) (\<lambda>_. ret ()) w
         else (Inr (), w))"

definition find_easy_by_handle :: "nat \<Rightarrow> nat \<Rightarrow> 'l world \<Rightarrow> nat option" where
  "find_easy_by_handle m easy_handle w =
     (case attached (rbcm_of m w) of
        None \<Rightarrow> None
      | Some t \<Rightarrow> map_option snd (find (\<lambda>p. curl (rbce_of (fst p) w) = Some easy_handle) t))"

text \<open>An object reference stands for a value of type \<open>T_DATA\<close>.\<close>

definition find_easy_value_for_handle :: "'l multi_env \<Rightarrow> nat \<Rightarrow> nat \<Rightarrow> 'l world \<Rightarrow> nat option" where
  "find_easy_value_for_handle X m easy_handle w =
     (case curl_info_private X easy_handle (lib w) of
        Some p \<Rightarrow> (case self (rbce_of p w) of
                     RObj e \<Rightarrow> Some e | _ \<Rightarrow> find_easy_by_handle m easy_handle w)
      | None \<Rightarrow> find_easy_by_handle m easy_handle w)"

text \<open>The attached handles with their attachment generations.\<close>

definition capture_attached_easy_snapshot :: "nat \<Rightarrow> 'l world \<Rightarrow> (nat, ulong) st_table" where
  "capture_attached_easy_snapshot m w =
     (case attached (rbcm_of m w) of
        None \<Rightarrow> st_init_numtable
      | Some t \<Rightarrow> foldl (\<lambda>s p. st_insert s (fst p) (multi_attachment_generation (rbce_of (fst p) w)))
                    st_init_numtable t)"

definition newly_attached :: "nat \<Rightarrow> (nat, ulong) st_table \<Rightarrow> 'l world \<Rightarrow> nat list" where
  "newly_attached m snapshot w =
     (case attached (rbcm_of m w) of
        None \<Rightarrow> []
      | Some t \<Rightarrow> map snd (filter (\<lambda>p. st_lookup snapshot (fst p) \<noteq>
                     Some (multi_attachment_generation (rbce_of (fst p) w))) t))"

fun remove_easies :: "'l multi_env \<Rightarrow> nat \<Rightarrow> nat list \<Rightarrow> ('l, unit) mcmd" where
  "remove_easies X m [] = ret ()"
| "remove_easies X m (e # es) =
     bind (\<lambda>w. if multi (rbce_of e w) \<noteq> Some m \<or> \<not> rb_curl_multi_has_easy m e w then (Inr (), w)
               else bind (modify (rb_curl_multi_remove_request_reference m e)) (\<lambda>_.
                    rb_curl_multi_remove X m e) w)
       (\<lambda>_. remove_easies X m es)"

definition rb_curl_multi_remove_added_easies_since_snapshot ::
  "'l multi_env \<Rightarrow> nat \<Rightarrow> (nat, ulong) st_table \<Rightarrow> ('l, unit) mcmd" where
  "rb_curl_multi_remove_added_easies_since_snapshot X m snapshot w =
     remove_easies X m (newly_attached m snapshot w) w"

definition stash_and_raise_status_callback_error_if_unmasked ::
  "'l multi_env \<Rightarrow> nat \<Rightarrow> nat \<Rightarrow> (nat, ulong) st_table \<Rightarrow> exc option \<Rightarrow> exc option \<Rightarrow> ('l, unit) mcmd" where
  "stash_and_raise_status_callback_error_if_unmasked X m e snapshot did_raise easy_callback_error =
     (if easy_callback_error \<noteq> None then ret ()
      else case take_status_callback_exception_if_any did_raise of
             None \<Rightarrow> ret ()
           | Some x \<Rightarrow>
               bind (modify (stash_multi_exception_if_unset m x (Some e))) (\<lambda>_.
               bind (rb_curl_multi_remove_added_easies_since_snapshot X m snapshot) (\<lambda>_.
               rb_exc_raise x)))"

text \<open>One status callback: \<open>rb_rescue\<close> around the call, with the handle's
  \<open>callback_active\<close> set. The result is \<open>did_raise\<close> after it.\<close>

definition run_status_callback ::
  "'l multi_env \<Rightarrow> nat \<Rightarrow> nat \<Rightarrow> (nat, ulong) st_table \<Rightarrow> exc option \<Rightarrow> rvalue \<Rightarrow> rvalue list \<Rightarrow>
   exc option \<Rightarrow> ('l, exc option) mcmd" where
  "run_status_callback X m e snapshot easy_callback_error callback args did_raise =
     bind (modify (upd_rbce e (\<lambda>r. r\<lparr>callback_active := True\<rparr>))) (\<lambda>_.
     bind (rb_rescue (bind (rb_send X callback ''call'' args) (\<lambda>_. ret did_raise))
             (\<lambda>x. ret (Some x))) (\<lambda>did.
     bind (modify (upd_rbce e (\<lambda>r. r\<lparr>callback_active := False\<rparr>))) (\<lambda>_.
     bind (stash_and_raise_status_callback_error_if_unmasked X m e snapshot did easy_callback_error) (\<lambda>_.
     ret did))))"

text \<open>Which callback the result calls for, and whether it gets the error as a second argument.\<close>

definition completion_callback :: "int \<Rightarrow> int \<Rightarrow> int \<Rightarrow> ruby_curl_easy \<Rightarrow> (string \<times> bool) option" where
  "completion_callback result response_code redirect_count rbce =
     (if result \<noteq> 0 then
        (if rb_easy_nil ''failure_proc'' rbce then None else Some (''failure_proc'', True))
      else if \<not> rb_easy_nil ''success_proc'' rbce \<and>
              (200 \<le> response_code \<and> response_code < 300 \<or> response_code = 0)
      then Some (''success_proc'', False)
      else if \<not> rb_easy_nil ''redirect_proc'' rbce \<and>
              (300 \<le> response_code \<and> response_code < 400 \<or> 0 < redirect_count)
      then (if \<not> follow_location rbce \<and> max_redirs rbce = 0 then None
            else Some (''redirect_proc'', True))
      else if \<not> rb_easy_nil ''missing_proc'' rbce \<and> 400 \<le> response_code \<and> response_code < 500
      then Some (''missing_proc'', True)
      else if \<not> rb_easy_nil ''failure_proc'' rbce \<and> 500 \<le> response_code \<and> response_code \<le> 999
      then Some (''failure_proc'', True)
      else None)"

definition easy_error_value :: "curl_env \<Rightarrow> int \<Rightarrow> rvalue" where
  "easy_error_value env code =
     (case rb_curl_easy_error (have_macro env) (libcurl_version_num env) (easy_strerror env) code of
        (exclz, msg) \<Rightarrow> RArr [RSym exclz, RStr msg])"

definition rb_curl_multi_run_completion_callbacks ::
  "'l multi_env \<Rightarrow> nat \<Rightarrow> nat \<Rightarrow> int \<Rightarrow> (nat, ulong) st_table \<Rightarrow> ('l, unit) mcmd" where
  "rb_curl_multi_run_completion_callbacks X m e result snapshot =
     bind (modify (upd_rbcm m (\<lambda>c. c\<lparr>multi_callback_active := True\<rparr>))) (\<lambda>_.
     bind (on_rbce e (\<lambda>r. case rb_curl_easy_take_callback_error r of (x, r') \<Rightarrow> (Inr x, r'))) (\<lambda>err.
     bind (modify (\<lambda>w. case err of
             None \<Rightarrow> w | Some x \<Rightarrow> stash_multi_exception_if_unset m x (Some e) w)) (\<lambda>_.
     bind (\<lambda>w. let complete = rb_easy_get ''complete_proc'' (rbce_of e w)
               in if complete = Qnil then (Inr None, w)
                  else run_status_callback X m e snapshot err complete [RObj e] None w) (\<lambda>did.
     bind (\<lambda>w. let rbce = rbce_of e w
               in case completion_callback result (curl_info_response_code X (curl rbce) (lib w))
                         (curl_info_redirect_count X (curl rbce) (lib w)) rbce of
                    None \<Rightarrow> (Inr did, w)
                  | Some (key, with_error) \<Rightarrow>
                      run_status_callback X m e snapshot err (rb_easy_get key rbce)
                        (RObj e # (if with_error then [easy_error_value (me_env X) result] else []))
                        did w) (\<lambda>did'.
     raise_completion_callback_error_if_any did' err)))))"

definition rb_curl_multi_finish_completion_callbacks :: "nat \<Rightarrow> nat \<Rightarrow> ('l, unit) mcmd" where
  "rb_curl_multi_finish_completion_callbacks m e w =
     (let w1 = upd_rbcm m (\<lambda>c. c\<lparr>multi_callback_active := False\<rparr>)
                 (upd_rbce e (\<lambda>r. r\<lparr>callback_active := False\<rparr>) w)
      in (Inr (), if multi (rbce_of e w1) = Some m \<and> \<not> rb_curl_multi_has_easy m e w1
                  then upd_rbce e (\<lambda>r. r\<lparr>multi := None\<rparr>) w1 else w1))"

text \<open>The steps between the identification of the handle and its callbacks.\<close>

definition detach_completed :: "'l multi_env \<Rightarrow> nat \<Rightarrow> nat \<Rightarrow> int \<Rightarrow> ('l, unit) mcmd" where
  "detach_completed X m e result =
     bind (modify (upd_rbce e (\<lambda>r. r\<lparr>last_result := result\<rparr>))) (\<lambda>_.
     bind (flush_stderr_if_any X e) (\<lambda>_.
     bind (\<lambda>w. on_lib (curl_multi_remove_handle X (handle (rbcm_of m w)) (curl (rbce_of e w))) w) (\<lambda>mcode.
       if mcode \<noteq> 0 then raise_multi X mcode
       else bind (modify (upd_rbcm m dec_active)) (\<lambda>_.
            bind (modify (rb_curl_multi_remove_request_reference m e)) (\<lambda>_.
            bind (modify (rb_curl_multi_forget_easy m e)) (\<lambda>_.
            bind (modify (upd_rbce e (\<lambda>r. (ruby_curl_easy_cleanup (me_env X) r)\<lparr>curl_headers := []\<rparr>))) (\<lambda>_.
            flush_stderr_if_any X e)))))))"

definition rb_curl_mutli_handle_complete :: "'l multi_env \<Rightarrow> nat \<Rightarrow> nat \<Rightarrow> int \<Rightarrow> ('l, unit) mcmd" where
  "rb_curl_mutli_handle_complete X m easy_handle result w =
     (case find_easy_value_for_handle X m easy_handle w of
        None \<Rightarrow>
          if handle (rbcm_of m w) \<noteq> None
          then bind (on_lib (curl_multi_remove_handle X (handle (rbcm_of m w)) (Some easy_handle)))
                 (\<lambda>_. ret ()) w
          else (Inr (), w)
      | Some e \<Rightarrow>
          bind (detach_completed X m e result) (\<lambda>_.
          bind (gets (capture_attached_easy_snapshot m)) (\<lambda>snapshot.
          rb_ensure (rb_curl_multi_run_completion_callbacks X m e result snapshot)
            (rb_curl_multi_finish_completion_callbacks m e))) w)"

end
