(* ===== verification/Curb_Multi_Perform.thy ===== *)
theory Curb_Multi_Perform
  imports Curb_Multi
begin

text \<open>
  Driving the transfers of a multi handle: the settings (per Ractor where Ruby has them), the
  fiber scheduler hooks, the loop of \<open>ruby_curl_multi_perform_impl\<close> with its waits, the
  reading of completion messages, and the guard around \<open>perform\<close>. The builds modelled are
  those of POSIX systems, with either way of waiting, \<open>curl_multi_wait\<close> or the descriptor sets; where Ruby
  has no \<open>rb_thread_fd_select\<close> the function of this name stands for the \<open>select\<close> in its place. A loop takes fuel, the number of iterations it may still make, and gives
  \<open>None\<close> when that is not enough.
\<close>

section \<open>Settings\<close>

definition default_timeout_key :: string where
  "default_timeout_key = ''__curb_multi_default_timeout''"

definition autoclose_key :: string where
  "autoclose_key = ''__curb_multi_autoclose''"

text \<open>\<open>None\<close> is \<open>Qundef\<close>.\<close>

definition curb_multi_ractor_setting :: "string \<Rightarrow> 'l world \<Rightarrow> rvalue option" where
  "curb_multi_ractor_setting key w =
     (case ractor_storage w of
        None \<Rightarrow> None
      | Some st \<Rightarrow> Some (case st key of None \<Rightarrow> Qnil | Some v \<Rightarrow> v))"

definition curb_multi_set_ractor_setting :: "string \<Rightarrow> rvalue \<Rightarrow> 'l world \<Rightarrow> 'l world" where
  "curb_multi_set_ractor_setting key v w =
     w\<lparr>ractor_storage := map_option (\<lambda>st. st(key \<mapsto> v)) (ractor_storage w)\<rparr>"

definition curb_multi_default_timeout :: "('l, int) mcmd" where
  "curb_multi_default_timeout w =
     (case curb_multi_ractor_setting default_timeout_key w of
        None \<Rightarrow> (Inr (cCurlMutiDefaulttimeout w), w)
      | Some v \<Rightarrow> if v = Qnil then (Inr (cCurlMutiDefaulttimeout w), w) else (NUM2LONG v, w))"

definition curb_multi_autoclose_enabled :: "'l world \<Rightarrow> bool" where
  "curb_multi_autoclose_enabled w =
     (case curb_multi_ractor_setting autoclose_key w of
        None \<Rightarrow> cCurlMutiAutoClose w
      | Some v \<Rightarrow> if v = Qnil then cCurlMutiAutoClose w else RTEST v)"

definition ruby_curl_multi_set_default_timeout :: "rvalue \<Rightarrow> ('l, rvalue) mcmd" where
  "ruby_curl_multi_set_default_timeout t =
     bind (lift_res (NUM2LONG t)) (\<lambda>v w.
       (Inr t,
        if ractor_storage w = None then w\<lparr>cCurlMutiDefaulttimeout := v\<rparr>
        else curb_multi_set_ractor_setting default_timeout_key (RInt v) w))"

definition ruby_curl_multi_get_default_timeout :: "('l, rvalue) mcmd" where
  "ruby_curl_multi_get_default_timeout = bind curb_multi_default_timeout (\<lambda>t. ret (RInt t))"

definition ruby_curl_multi_set_autoclose :: "rvalue \<Rightarrow> ('l, rvalue) mcmd" where
  "ruby_curl_multi_set_autoclose onoff w =
     (let v = (if onoff = Qtrue then Qtrue else Qfalse)
      in (Inr onoff,
          if ractor_storage w = None then w\<lparr>cCurlMutiAutoClose := RTEST v\<rparr>
          else curb_multi_set_ractor_setting autoclose_key v w))"

definition ruby_curl_multi_get_autoclose :: "('l, rvalue) mcmd" where
  "ruby_curl_multi_get_autoclose w =
     (Inr (if curb_multi_autoclose_enabled w then Qtrue else Qfalse), w)"

definition set_multi_long :: "'l multi_env \<Rightarrow> nat \<Rightarrow> string \<Rightarrow> int res \<Rightarrow> ('l, unit) mcmd" where
  "set_multi_long X m opt r =
     bind (lift_res r) (\<lambda>v w.
       (Inr (), w\<lparr>lib := curl_multi_setopt X (handle (rbcm_of m w)) opt v (lib w)\<rparr>))"

definition ruby_curl_multi_max_connects :: "'l multi_env \<Rightarrow> nat \<Rightarrow> rvalue \<Rightarrow> ('l, rvalue) mcmd" where
  "ruby_curl_multi_max_connects X m count =
     bind (if have_macro (me_env X) ''HAVE_CURLMOPT_MAXCONNECTS''
           then bind (ruby_curl_multi_ensure_handle X m) (\<lambda>_.
                set_multi_long X m ''CURLMOPT_MAXCONNECTS'' (NUM2LONG count))
           else ret ()) (\<lambda>_. ret count)"

definition ruby_curl_multi_max_host_connections ::
  "'l multi_env \<Rightarrow> nat \<Rightarrow> rvalue \<Rightarrow> ('l, rvalue) mcmd" where
  "ruby_curl_multi_max_host_connections X m count =
     bind (if have_macro (me_env X) ''HAVE_CURLMOPT_MAX_HOST_CONNECTIONS''
           then bind (ruby_curl_multi_ensure_handle X m) (\<lambda>_.
                set_multi_long X m ''CURLMOPT_MAX_HOST_CONNECTIONS'' (NUM2LONG count))
           else ret ()) (\<lambda>_. ret count)"

text \<open>The C function returns the numbers 1 and 0 as \<open>VALUE\<close>s: the word 1 is the Fixnum 0 and
  the word 0 is \<open>false\<close>.\<close>

definition ruby_curl_multi_pipeline :: "'l multi_env \<Rightarrow> nat \<Rightarrow> rvalue \<Rightarrow> ('l, rvalue) mcmd" where
  "ruby_curl_multi_pipeline X m method =
     bind (if have_macro (me_env X) ''HAVE_CURLMOPT_PIPELINING''
           then bind (lift_res (if method = Qtrue then Inr 1 else if method = Qfalse then Inr 0
                                else NUM2LONG method)) (\<lambda>v.
                bind (ruby_curl_multi_ensure_handle X m) (\<lambda>_.
                set_multi_long X m ''CURLMOPT_PIPELINING'' (Inr v)))
           else ret ()) (\<lambda>_. ret (if method = Qtrue then RInt 0 else Qfalse))"

section \<open>The fiber scheduler\<close>

definition curb_fiber_scheduler_current :: "'l multi_env \<Rightarrow> ('l, rvalue) mcmd" where
  "curb_fiber_scheduler_current X =
     (if have_macro (me_env X) ''HAVE_RB_FIBER_SCHEDULER_CURRENT'' then rb_fiber_scheduler_current X
      else if \<not> multi_respond_to X (cRubyFiber X) ''scheduler'' then ret Qnil
      else bind (rb_send X (cRubyFiber X) ''scheduler'' []) (\<lambda>sch.
        if sch = Qnil then ret Qnil
        else if multi_respond_to X (cRubyFiber X) ''blocking?'' then
          bind (rb_send X (cRubyFiber X) ''blocking?'' []) (\<lambda>b.
            if RTEST b then ret Qnil else ret sch)
        else ret sch))"

definition curb_fiber_scheduler_kernel_sleep :: "'l multi_env \<Rightarrow> rvalue \<Rightarrow> rvalue \<Rightarrow> ('l, rvalue) mcmd" where
  "curb_fiber_scheduler_kernel_sleep X sch t =
     (if have_macro (me_env X) ''HAVE_RB_FIBER_SCHEDULER_KERNEL_SLEEP''
      then rb_fiber_scheduler_kernel_sleep X sch t
      else rb_send X sch ''kernel_sleep'' [t])"

text \<open>\<open>tv\<close> is seconds and microseconds.\<close>

definition curb_multi_scheduler_sleep :: "'l multi_env \<Rightarrow> int \<times> int \<Rightarrow> ('l, unit) mcmd" where
  "curb_multi_scheduler_sleep X tv =
     bind (curb_fiber_scheduler_current X) (\<lambda>sch.
       if sch \<noteq> Qnil then
         bind (curb_fiber_scheduler_kernel_sleep X sch (rb_float_new X (fst tv) (snd tv))) (\<lambda>_. ret ())
       else bind (rb_thread_fd_select X 0 tv) (\<lambda>_. ret ()))"

definition curb_multi_scheduler_yield :: "'l multi_env \<Rightarrow> ('l, unit) mcmd" where
  "curb_multi_scheduler_yield X =
     bind (curb_fiber_scheduler_current X) (\<lambda>sch.
       if sch \<noteq> Qnil
       then bind (curb_fiber_scheduler_kernel_sleep X sch (RInt 0)) (\<lambda>_. ret ()) else ret ())"

section \<open>Programs that may not end\<close>

type_synonym ('s, 'a) prog = "'s \<Rightarrow> ('a res \<times> 's) option"

definition run :: "('s, 'a) cmd \<Rightarrow> ('s, 'a) prog" where
  "run m s = Some (m s)"

definition pbind :: "('s, 'a) prog \<Rightarrow> ('a \<Rightarrow> ('s, 'b) prog) \<Rightarrow> ('s, 'b) prog" where
  "pbind m f s = (case m s of
      None \<Rightarrow> None | Some (Inl e, t) \<Rightarrow> Some (Inl e, t) | Some (Inr a, t) \<Rightarrow> f a t)"

text \<open>\<open>rb_ensure\<close> around a program.\<close>

definition pensure :: "('s, 'a) prog \<Rightarrow> ('s, 'b) cmd \<Rightarrow> ('s, 'a) prog" where
  "pensure m fin s = (case m s of
      None \<Rightarrow> None
    | Some (r, t) \<Rightarrow> Some (case fin t of (Inl e, u) \<Rightarrow> (Inl e, u) | (Inr _, u) \<Rightarrow> (r, u)))"

section \<open>One round of libcurl\<close>

definition rb_curl_multi_yield_if_given :: "'l multi_env \<Rightarrow> nat \<Rightarrow> rvalue \<Rightarrow> ('l, unit) mcmd" where
  "rb_curl_multi_yield_if_given X m block =
     (if block = Qnil then ret ()
      else bind (rb_send X block ''call'' [RObj m]) (\<lambda>_. ret ()))"

text \<open>\<open>rb_curl_multi_run\<close>: \<open>curl_multi_perform\<close> writes the running count through the pointer
  to \<open>rbcm->running\<close>; the caller passes the handle.\<close>

fun rb_curl_multi_run :: "nat \<Rightarrow> 'l multi_env \<Rightarrow> nat \<Rightarrow> nat option \<Rightarrow> ('l world, unit) prog" where
  "rb_curl_multi_run 0 X m mh w = None"
| "rb_curl_multi_run (Suc n) X m mh w =
     (case curl_multi_perform X mh w of ((mcode, still_running), w1) \<Rightarrow>
        let w2 = upd_rbcm m (\<lambda>c. c\<lparr>running := still_running\<rparr>) w1
        in if mcode = -1 then rb_curl_multi_run n X m mh w2
           else if mcode \<noteq> 0 then Some (raise_multi X mcode w2)
           else Some (Inr (), w2))"

text \<open>The message loop of \<open>rb_curl_multi_read_info\<close>: the handle is read once, before it.\<close>

fun read_messages :: "nat \<Rightarrow> 'l multi_env \<Rightarrow> nat \<Rightarrow> nat option \<Rightarrow> ('l world, unit) prog" where
  "read_messages 0 X m mh w = None"
| "read_messages (Suc n) X m mh w =
     (case on_lib (curl_multi_info_read X mh) w of
        (Inr (Some (True, easy_handle, result)), w1) \<Rightarrow>
          (case rb_protect (rb_curl_mutli_handle_complete X m easy_handle result) w1 of
             (Inr (Some x), w2) \<Rightarrow>
               read_messages n X m mh
                 (stash_multi_exception_if_unset m x (find_easy_value_for_handle X m easy_handle w2) w2)
           | (_, w2) \<Rightarrow> read_messages n X m mh w2)
      | (Inr (Some (False, _, _)), w1) \<Rightarrow> read_messages n X m mh w1
      | (_, w1) \<Rightarrow> Some (Inr (), w1))"

definition rb_curl_multi_read_info :: "nat \<Rightarrow> 'l multi_env \<Rightarrow> nat \<Rightarrow> ('l world, unit) prog" where
  "rb_curl_multi_read_info n X m w =
     pbind (read_messages n X m (handle (rbcm_of m w)))
       (\<lambda>_. run (raise_multi_deferred_exception_if_idle m)) w"

section \<open>The perform loop\<close>

text \<open>\<open>rb_curl_multi_run\<close>, \<open>rb_curl_multi_read_info\<close> and the block, as they follow every
  wait.\<close>

definition perform_round :: "nat \<Rightarrow> 'l multi_env \<Rightarrow> nat \<Rightarrow> rvalue \<Rightarrow> ('l world, unit) prog" where
  "perform_round n X m block =
     pbind (\<lambda>w. rb_curl_multi_run n X m (handle (rbcm_of m w)) w) (\<lambda>_.
     pbind (rb_curl_multi_read_info n X m) (\<lambda>_.
     run (rb_curl_multi_yield_if_given X m block)))"

text \<open>The cap on the wait libcurl suggests.\<close>

definition wait_milliseconds :: "int \<Rightarrow> ('l, int) mcmd" where
  "wait_milliseconds suggested =
     (if suggested < 0 then curb_multi_default_timeout
      else bind curb_multi_default_timeout (\<lambda>limit.
        if suggested > limit then curb_multi_default_timeout else ret suggested))"

text \<open>\<open>tv_usec\<close>: the product is cast to \<open>int\<close>.\<close>

definition select_microseconds :: "int \<Rightarrow> int" where
  "select_microseconds ms = to_signed 32 (ms * 1000)"

text \<open>The time libcurl suggests; a build without \<open>curl_multi_timeout\<close> leaves it to the default.\<close>

definition suggested_timeout :: "'l multi_env \<Rightarrow> nat \<Rightarrow> ('l, int \<times> int) mcmd" where
  "suggested_timeout X m w =
     (if have_macro (me_env X) ''HAVE_CURL_MULTI_TIMEOUT'' then on_lib (curl_multi_timeout X (handle (rbcm_of m w))) w
      else (Inr (0, -1), w))"

text \<open>The two ways of waiting. \<open>EINTR\<close> is 4.\<close>

definition perform_multi_wait :: "nat \<Rightarrow> 'l multi_env \<Rightarrow> nat \<Rightarrow> rvalue \<Rightarrow> int \<Rightarrow> ('l world, unit) prog" where
  "perform_multi_wait n X m block ms =
     pbind (run (\<lambda>w. curl_multi_wait X (handle (rbcm_of m w)) ms w)) (\<lambda>(wait_rc, numfds).
       if wait_rc \<noteq> 0 then run (raise_multi X wait_rc)
       else pbind (run (if numfds = 0 then curb_multi_scheduler_sleep X (0, 100000) else ret ()))
              (\<lambda>_. perform_round n X m block))"

definition perform_fdset_wait :: "nat \<Rightarrow> 'l multi_env \<Rightarrow> nat \<Rightarrow> rvalue \<Rightarrow> int \<Rightarrow> ('l world, unit) prog" where
  "perform_fdset_wait n X m block ms =
     pbind (run (\<lambda>w. on_lib (curl_multi_fdset X (handle (rbcm_of m w))) w)) (\<lambda>(fcode, maxfd).
       if fcode \<noteq> 0 then run (raise_multi X fcode)
       else if maxfd = -1 then
         pbind (run (curb_multi_scheduler_sleep X (0, 100000))) (\<lambda>_. perform_round n X m block)
       else pbind (run (rb_thread_fd_select X (maxfd + 1) (0, select_microseconds ms))) (\<lambda>(rc, errno).
         if rc = -1 \<and> errno \<noteq> 4
         then run (rb_raise ''rb_eRuntimeError'' (''select(): '' @ strerror X errno))
         else perform_round n X m block))"

text \<open>The body of the inner loop.\<close>

definition perform_wait :: "nat \<Rightarrow> 'l multi_env \<Rightarrow> nat \<Rightarrow> rvalue \<Rightarrow> ('l world, unit) prog" where
  "perform_wait n X m block =
     pbind (run (suggested_timeout X m)) (\<lambda>(mcode, suggested).
       if mcode \<noteq> 0 then run (raise_multi X mcode)
       else if suggested = 0 then
         pbind (perform_round n X m block) (\<lambda>_. run (curb_multi_scheduler_yield X))
       else pbind (run (wait_milliseconds suggested)) (\<lambda>ms.
         if have_macro (me_env X) ''HAVE_CURL_MULTI_WAIT'' \<and> \<not> have_macro (me_env X) ''HAVE_RB_THREAD_FD_SELECT''
         then perform_multi_wait n X m block ms else perform_fdset_wait n X m block ms))"

text \<open>Both loops: while transfers run, wait; otherwise read the messages and call the block once
  more, and stop if that started nothing.\<close>

fun perform_loop :: "nat \<Rightarrow> 'l multi_env \<Rightarrow> nat \<Rightarrow> rvalue \<Rightarrow> ('l world, unit) prog" where
  "perform_loop 0 X m block w = None"
| "perform_loop (Suc n) X m block w =
     (if running (rbcm_of m w) \<noteq> 0 then
        pbind (perform_wait (Suc n) X m block) (\<lambda>_. perform_loop n X m block) w
      else
        pbind (rb_curl_multi_read_info (Suc n) X m) (\<lambda>_.
        pbind (run (rb_curl_multi_yield_if_given X m block)) (\<lambda>_ v.
          if running (rbcm_of m v) \<noteq> 0 then perform_loop n X m block v else Some (Inr (), v))) w)"

definition autoclose :: "'l multi_env \<Rightarrow> nat \<Rightarrow> ('l, unit) mcmd" where
  "autoclose X m w =
     (if curb_multi_autoclose_enabled w then
        bind (modify (upd_rbcm m (\<lambda>c. c\<lparr>allow_close_during_perform := True\<rparr>))) (\<lambda>_.
        bind (rb_send X (RObj m) ''_autoclose'' []) (\<lambda>_.
        modify (upd_rbcm m (\<lambda>c. c\<lparr>allow_close_during_perform := False\<rparr>)))) w
      else (Inr (), w))"

definition ruby_curl_multi_perform_impl :: "nat \<Rightarrow> 'l multi_env \<Rightarrow> rvalue \<Rightarrow> nat \<Rightarrow> ('l world, rvalue) prog" where
  "ruby_curl_multi_perform_impl n X block m =
     pbind (run (ruby_curl_multi_ensure_handle X m)) (\<lambda>_.
     pbind (run (modify (\<lambda>w. if deferred_exception (multis w m) = None
        then clear_multi_deferred_exception_source_id_if_any m w else w))) (\<lambda>_.
     pbind (run curb_multi_default_timeout) (\<lambda>_.
     pbind (perform_round n X m block) (\<lambda>_.
     pbind (perform_loop n X m block) (\<lambda>_.
     pbind (run (autoclose X m)) (\<lambda>_. run (ret Qtrue)))))))"

section \<open>The guard\<close>

definition ruby_curl_multi_perform_guard_ensure :: "nat \<Rightarrow> ('l, unit) mcmd" where
  "ruby_curl_multi_perform_guard_ensure m =
     modify (upd_rbcm m (\<lambda>c. c\<lparr>perform_active := False, multi_callback_active := False,
       allow_close_during_perform := False\<rparr>))"

definition ruby_curl_multi_with_perform_guard ::
  "(nat \<Rightarrow> ('l world, rvalue) prog) \<Rightarrow> nat \<Rightarrow> ('l world, rvalue) prog" where
  "ruby_curl_multi_with_perform_guard func m w =
     (if perform_active (rbcm_of m w)
      then run (rb_raise ''rb_eRuntimeError''
             ''Cannot recursively perform an active Curl::Multi handle'') w
      else pensure (func m) (ruby_curl_multi_perform_guard_ensure m)
             (upd_rbcm m (\<lambda>c. c\<lparr>perform_active := True\<rparr>) w))"

text \<open>\<open>ruby_curl_multi_perform\<close>: with a fiber scheduler the socket-action loop is used instead, an
  argument here; \<open>Curb_Socket\<close> models it and puts both together (\<open>multi_perform\<close>).\<close>

definition have_socket_action :: "curl_env \<Rightarrow> bool" where
  "have_socket_action env \<longleftrightarrow>
     have_macro env ''HAVE_CURL_MULTI_SOCKET_ACTION'' \<and>
     have_macro env ''HAVE_CURLMOPT_SOCKETFUNCTION'' \<and>
     have_macro env ''HAVE_CURLMOPT_TIMERFUNCTION'' \<and> have_macro env ''HAVE_RB_THREAD_FD_SELECT''"

definition ruby_curl_multi_perform ::
  "nat \<Rightarrow> 'l multi_env \<Rightarrow> (nat \<Rightarrow> ('l world, rvalue) prog) \<Rightarrow> rvalue \<Rightarrow> nat \<Rightarrow> ('l world, rvalue) prog" where
  "ruby_curl_multi_perform n X socket_perform_impl block m =
     pbind (run (if have_socket_action (me_env X) then curb_fiber_scheduler_current X else ret Qnil)) (\<lambda>sch.
       if sch \<noteq> Qnil then ruby_curl_multi_with_perform_guard socket_perform_impl m
       else ruby_curl_multi_with_perform_guard (ruby_curl_multi_perform_impl n X block) m)"

end
