(* ===== verification/Curb_Multi_Facts.thy ===== *)
theory Curb_Multi_Facts
  imports Curb_Multi_Perform Curb_Setup_Props
begin

text \<open>
  Properties of the multi handle: the attachment table, the \<open>active\<close> counter, the
  \<open>multi\<close> references of the easy handles and libcurl's own membership agree, and every
  operation keeps it so on every exit; adding and removing are inverse; a completed handle is
  detached before its callbacks run; exceptions of callbacks wait until the handle is idle; the
  guards against closing and performing recursively.
\<close>

named_theorems world_simps \<open>reading the state after an update\<close>

section \<open>Reading after writing\<close>

lemma rbce_of_upd [world_simps]:
  "rbce_of e (upd_rbce e' f w) = (if e = e' then f (rbce_of e w) else rbce_of e w)"
  "rbce_of e (upd_object m g w) = rbce_of e w" "rbce_of e (upd_rbcm m h w) = rbce_of e w"
  "rbce_of e (w\<lparr>lib := l\<rparr>) = rbce_of e w"
  by (simp_all add: rbce_of_def upd_rbce_def upd_object_def upd_rbcm_def)

lemma rbcm_of_upd [world_simps]:
  "rbcm_of m (upd_rbcm m' f w) = (if m = m' then f (rbcm_of m w) else rbcm_of m w)"
  "rbcm_of m (upd_rbce e g w) = rbcm_of m w" "rbcm_of m (w\<lparr>lib := l\<rparr>) = rbcm_of m w"
  by (simp_all add: rbcm_of_def upd_rbce_def upd_object_def upd_rbcm_def)

lemma rbcm_of_upd_object [world_simps]:
  "(\<And>ob. rbcm (f ob) = rbcm ob) \<Longrightarrow> rbcm_of m (upd_object m' f w) = rbcm_of m w"
  by (simp add: rbcm_of_def upd_object_def)

lemma lib_upd [world_simps]:
  "lib (w\<lparr>lib := l\<rparr>) = l" "lib (upd_rbce e g w) = lib w" "lib (upd_object m f w) = lib w" "lib (upd_rbcm m h w) = lib w"
  by (simp_all add: upd_rbce_def upd_object_def upd_rbcm_def)

lemma multis_upd [world_simps]:
  "multis (upd_rbce e g w) = multis w"
  "multis (upd_object m f w) m' = (if m' = m then f (multis w m) else multis w m')"
  "multis (upd_rbcm m h w) m' = (if m' = m then (multis w m)\<lparr>rbcm := h (rbcm (multis w m))\<rparr> else multis w m')"
  by (simp_all add: upd_rbce_def upd_object_def upd_rbcm_def)

lemma stash_reads [world_simps]:
  "rbcm_of m (stash_multi_exception_if_unset m' x e w) = rbcm_of m w"
  "rbce_of i (stash_multi_exception_if_unset m' x e w) = rbce_of i w"
  "lib (stash_multi_exception_if_unset m' x e w) = lib w"
  by (simp_all add: stash_multi_exception_if_unset_def world_simps)

lemma reference_reads [world_simps]:
  "rbcm_of m (rb_curl_multi_remove_request_reference m' e w) = rbcm_of m w"
  "rbce_of i (rb_curl_multi_remove_request_reference m' e w) = rbce_of i w"
  "lib (rb_curl_multi_remove_request_reference m' e w) = lib w"
  by (simp_all add: rb_curl_multi_remove_request_reference_def world_simps split: option.splits)

lemma forget_reads [world_simps]:
  "rbce_of i (rb_curl_multi_forget_easy m e w) = rbce_of i w"
  "lib (rb_curl_multi_forget_easy m e w) = lib w"
  by (simp_all add: rb_curl_multi_forget_easy_def world_simps)

lemma dec_active_fields [simp]:
  "attached (dec_active c) = attached c" "handle (dec_active c) = handle c"
  "closed (dec_active c) = closed c" "running (dec_active c) = running c"
  by (simp_all add: dec_active_def)

section \<open>Consistency\<close>

text \<open>What libcurl documents of its multi interface, over the easy handles added to each live
  multi handle: an add or a remove that reports success does it, one that reports an error does
  nothing, \<open>NULL\<close> handles are refused, a new handle is fresh and empty, and a message of
  \<open>curl_multi_info_read\<close> or an option changes no membership.\<close>

definition libcurl_multi_ok :: "'l multi_env \<Rightarrow> ('l \<Rightarrow> nat \<rightharpoonup> nat set) \<Rightarrow> bool" where
  "libcurl_multi_ok X members \<longleftrightarrow>
     (\<forall>h c l code l'. curl_multi_add_handle X h c l = (code, l') \<longrightarrow>
        (if code = 0 \<or> code = -1
         then \<exists>i x S. h = Some i \<and> c = Some x \<and> members l i = Some S \<and>
                members l' = (members l)(i \<mapsto> insert x S)
         else members l' = members l)) \<and>
     (\<forall>h c l code l'. curl_multi_remove_handle X h c l = (code, l') \<longrightarrow>
        (if code = 0
         then \<exists>i x S. h = Some i \<and> c = Some x \<and> members l i = Some S \<and>
                members l' = (members l)(i \<mapsto> S - {x})
         else members l' = members l)) \<and>
     (\<forall>h l. members (curl_multi_cleanup X h l) = (members l)(h := None)) \<and>
     (\<forall>l h l'. curl_multi_init X l = (h, l') \<longrightarrow>
        (case h of None \<Rightarrow> members l' = members l
         | Some i \<Rightarrow> members l i = None \<and> members l' = (members l)(i \<mapsto> {}))) \<and>
     (\<forall>h l. members (snd (curl_multi_info_read X h l)) = members l) \<and>
     (\<forall>h opt v l. members (curl_multi_setopt X h opt v l) = members l)"

text \<open>The table of one multi handle, which exists with its libcurl handle: no duplicates, the counter is its size, and every easy
  handle in it refers back to the multi handle.\<close>

definition table_ok :: "nat \<Rightarrow> 'l world \<Rightarrow> bool" where
  "table_ok m w \<longleftrightarrow>
     (case attached (rbcm_of m w) of
        None \<Rightarrow> active (rbcm_of m w) = 0 \<and> handle (rbcm_of m w) = None
      | Some t \<Rightarrow> st_wf t \<and> active (rbcm_of m w) = int (length t) \<and> handle (rbcm_of m w) \<noteq> None \<and>
          (\<forall>e v. (e, v) \<in> set t \<longrightarrow> v = e \<and> multi (rbce_of e w) = Some m))"

text \<open>libcurl has exactly the attached handles.\<close>

definition members_ok :: "('l \<Rightarrow> nat \<rightharpoonup> nat set) \<Rightarrow> nat \<Rightarrow> 'l world \<Rightarrow> bool" where
  "members_ok members m w \<longleftrightarrow>
     (\<forall>h. handle (rbcm_of m w) = Some h \<longrightarrow>
        (\<exists>S. members (lib w) h = Some S \<and>
           Some ` S = (\<lambda>e. curl (rbce_of e w)) ` {e. rb_curl_multi_has_easy m e w}))"

text \<open>Every structure has its own libcurl handle.\<close>

definition handles_distinct :: "'l world \<Rightarrow> bool" where
  "handles_distinct w \<longleftrightarrow>
     (\<forall>e i. curl (rbce_of e w) \<noteq> None \<longrightarrow> curl (rbce_of e w) = curl (rbce_of i w) \<longrightarrow> e = i) \<and>
     (\<forall>m n. handle (rbcm_of m w) \<noteq> None \<longrightarrow> handle (rbcm_of m w) = handle (rbcm_of n w) \<longrightarrow> m = n)"

definition world_ok :: "('l \<Rightarrow> nat \<rightharpoonup> nat set) \<Rightarrow> 'l world \<Rightarrow> bool" where
  "world_ok members w \<longleftrightarrow>
     handles_distinct w \<and> (\<forall>m. table_ok m w \<and> members_ok members m w)"

lemma has_easy_iff:
  "rb_curl_multi_has_easy m e w \<longleftrightarrow>
     (\<exists>t. attached (rbcm_of m w) = Some t \<and> e \<in> set (st_keys t))"
  by (simp add: rb_curl_multi_has_easy_def st.keys_lookup split: option.splits)

lemma has_easy_multi:
  assumes "table_ok m w" and "rb_curl_multi_has_easy m e w"
  shows "multi (rbce_of e w) = Some m" and "handle (rbcm_of m w) \<noteq> None"
  using assms by (fastforce simp: has_easy_iff table_ok_def st_keys_def)+

text \<open>Two worlds with the same tables, counters, references and libcurl handles.\<close>

definition same_attachment :: "'l world \<Rightarrow> 'l world \<Rightarrow> bool" where
  "same_attachment w v \<longleftrightarrow>
     (\<forall>m. attached (rbcm_of m v) = attached (rbcm_of m w) \<and> active (rbcm_of m v) = active (rbcm_of m w) \<and>
          handle (rbcm_of m v) = handle (rbcm_of m w)) \<and>
     (\<forall>e. multi (rbce_of e v) = multi (rbce_of e w) \<and> curl (rbce_of e v) = curl (rbce_of e w)) \<and>
     lib v = lib w"

lemma world_ok_same:
  assumes "same_attachment w v" and "world_ok members w"
  shows "world_ok members v"
proof -
  have m: "attached (rbcm_of m v) = attached (rbcm_of m w)" "active (rbcm_of m v) = active (rbcm_of m w)"
    "handle (rbcm_of m v) = handle (rbcm_of m w)" for m
    using assms(1) by (auto simp: same_attachment_def)
  have e: "multi (rbce_of e v) = multi (rbce_of e w)" "curl (rbce_of e v) = curl (rbce_of e w)" for e
    using assms(1) by (auto simp: same_attachment_def)
  have h: "rb_curl_multi_has_easy m e v = rb_curl_multi_has_easy m e w" for m e
    by (simp add: rb_curl_multi_has_easy_def m)
  have l: "lib v = lib w" using assms(1) by (simp add: same_attachment_def)
  show ?thesis
    using assms(2)
    unfolding world_ok_def handles_distinct_def table_ok_def members_ok_def m e h l .
qed

section \<open>The abstract steps\<close>

text \<open>Attaching and detaching one easy handle, seen through the consistency conditions.\<close>

definition attach_step :: "('l \<Rightarrow> nat \<rightharpoonup> nat set) \<Rightarrow> nat \<Rightarrow> nat \<Rightarrow> 'l world \<Rightarrow> 'l world \<Rightarrow> bool" where
  "attach_step members m e w v \<longleftrightarrow>
     (\<exists>t h x S. attached (rbcm_of m w) = Some t \<and> attached (rbcm_of m v) = Some (st_insert t e e) \<and>
        active (rbcm_of m v) = active (rbcm_of m w) + 1 \<and>
        handle (rbcm_of m w) = Some h \<and> handle (rbcm_of m v) = Some h \<and>
        curl (rbce_of e w) = Some x \<and> members (lib w) h = Some S \<and>
        members (lib v) = (members (lib w))(h \<mapsto> insert x S)) \<and>
     (\<forall>n. n \<noteq> m \<longrightarrow> attached (rbcm_of n v) = attached (rbcm_of n w) \<and>
        active (rbcm_of n v) = active (rbcm_of n w) \<and> handle (rbcm_of n v) = handle (rbcm_of n w)) \<and>
     (\<forall>i. curl (rbce_of i v) = curl (rbce_of i w) \<and>
        multi (rbce_of i v) = (if i = e then Some m else multi (rbce_of i w)))"

definition detach_step :: "('l \<Rightarrow> nat \<rightharpoonup> nat set) \<Rightarrow> nat \<Rightarrow> nat \<Rightarrow> 'l world \<Rightarrow> 'l world \<Rightarrow> bool" where
  "detach_step members m e w v \<longleftrightarrow>
     (\<exists>t h x S. attached (rbcm_of m w) = Some t \<and> attached (rbcm_of m v) = Some (st_delete t e) \<and>
        active (rbcm_of m v) = active (rbcm_of m w) - 1 \<and>
        handle (rbcm_of m w) = Some h \<and> handle (rbcm_of m v) = Some h \<and>
        curl (rbce_of e w) = Some x \<and> members (lib w) h = Some S \<and>
        members (lib v) = (members (lib w))(h \<mapsto> S - {x})) \<and>
     (\<forall>n. n \<noteq> m \<longrightarrow> attached (rbcm_of n v) = attached (rbcm_of n w) \<and>
        active (rbcm_of n v) = active (rbcm_of n w) \<and> handle (rbcm_of n v) = handle (rbcm_of n w)) \<and>
     (\<forall>i. curl (rbce_of i v) = curl (rbce_of i w) \<and>
        (i \<noteq> e \<longrightarrow> multi (rbce_of i v) = multi (rbce_of i w)))"

lemma has_easy_attach:
  assumes "attach_step members m e w v"
  shows "rb_curl_multi_has_easy n i v \<longleftrightarrow> (n = m \<and> i = e) \<or> rb_curl_multi_has_easy n i w"
  using assms by (cases "n = m") (auto simp: attach_step_def rb_curl_multi_has_easy_def st_simps split: if_splits)

lemma has_easy_detach:
  assumes "detach_step members m e w v"
  shows "rb_curl_multi_has_easy n i v \<longleftrightarrow> rb_curl_multi_has_easy n i w \<and> \<not> (n = m \<and> i = e)"
  using assms by (cases "n = m") (auto simp: detach_step_def rb_curl_multi_has_easy_def st_simps split: if_splits)

lemma st_length: "length t = length (st_keys t)"
  by (simp add: st_keys_def)

lemma st_pairs_insert:
  assumes "st_wf t" and "(i, j) \<in> set (st_insert t e e)"
  shows "i = e \<and> j = e \<or> (i, j) \<in> set t"
proof -
  have "st_wf (st_insert t e e)" using assms(1) by (rule st.wf_insert)
  then have "st_lookup (st_insert t e e) i = Some j"
    using assms(2) by (simp add: st_lookup_def st_wf_def)
  then have "i = e \<and> j = e \<or> st_lookup t i = Some j" by (auto simp: st_simps split: if_splits)
  then show ?thesis by (auto simp: st_lookup_def dest: map_of_SomeD)
qed

lemma attach_table:
  assumes "attach_step members m e w v" and "\<And>n. table_ok n w" and "\<And>n. \<not> rb_curl_multi_has_easy n e w"
  shows "table_ok n v"
proof (cases "n = m")
  case True
  obtain t where t: "attached (rbcm_of m w) = Some t" "attached (rbcm_of m v) = Some (st_insert t e e)"
    "active (rbcm_of m v) = active (rbcm_of m w) + 1" "handle (rbcm_of m v) \<noteq> None"
    using assms(1) by (auto simp: attach_step_def)
  have multi: "multi (rbce_of i v) = (if i = e then Some m else multi (rbce_of i w))" for i
    using assms(1) by (simp add: attach_step_def)
  have wf: "st_wf t" "active (rbcm_of m w) = int (length t)" "st_lookup t e = None"
    using assms(2) [of m] assms(3) [of m] t(1)
    by (auto simp: table_ok_def rb_curl_multi_has_easy_def)
  have "length (st_insert t e e) = Suc (length t)"
    unfolding st_length using st.length_keys_insert_new [OF wf(1,3)] .
  moreover have "j = i \<and> multi (rbce_of i v) = Some m" if "(i, j) \<in> set (st_insert t e e)" for i j
    using st_pairs_insert [OF wf(1) that] multi assms(2) [of m] t(1) by (auto simp: table_ok_def)
  ultimately show ?thesis
    using True t wf st.wf_insert [OF wf(1)] by (auto simp: table_ok_def)
next
  case False
  then have same: "attached (rbcm_of n v) = attached (rbcm_of n w)"
    "active (rbcm_of n v) = active (rbcm_of n w)" "handle (rbcm_of n v) = handle (rbcm_of n w)"
    using assms(1) by (auto simp: attach_step_def)
  have "i \<noteq> e" if "attached (rbcm_of n w) = Some t" "(i, j) \<in> set t" for t i j
    using assms(3) [of n] that by (auto simp: has_easy_iff st_keys_def image_iff)
  moreover have "multi (rbce_of i v) = (if i = e then Some m else multi (rbce_of i w))" for i
    using assms(1) by (simp add: attach_step_def)
  ultimately show ?thesis
    using assms(2) [of n] unfolding table_ok_def same by (fastforce split: option.splits)
qed

lemma detach_table:
  assumes "detach_step members m e w v" and "\<And>n. table_ok n w" and "rb_curl_multi_has_easy m e w"
  shows "table_ok n v"
proof (cases "n = m")
  case True
  obtain t where t: "attached (rbcm_of m w) = Some t" "attached (rbcm_of m v) = Some (st_delete t e)"
    "active (rbcm_of m v) = active (rbcm_of m w) - 1" "handle (rbcm_of m v) \<noteq> None"
    using assms(1) by (auto simp: detach_step_def)
  have wf: "st_wf t" "active (rbcm_of m w) = int (length t)" "st_lookup t e \<noteq> None"
    using assms(2) [of m] assms(3) t(1) by (auto simp: table_ok_def rb_curl_multi_has_easy_def)
  have "t \<noteq> []" using wf(3) by (auto simp: st_lookup_def)
  have "length (st_delete t e) = length t - 1"
    unfolding st_length using st.length_keys_delete [OF wf(1), of e] wf(3) by auto
  with \<open>t \<noteq> []\<close> have "int (length (st_delete t e)) = int (length t) - 1" by (cases t) auto
  moreover have "j = i \<and> multi (rbce_of i v) = Some m" if "(i, j) \<in> set (st_delete t e)" for i j
    using that assms(1) assms(2) [of m] t(1) by (auto simp: table_ok_def detach_step_def st_delete_def)
  ultimately show ?thesis
    using True t wf st.wf_delete [OF wf(1)] by (auto simp: table_ok_def)
next
  case False
  then have same: "attached (rbcm_of n v) = attached (rbcm_of n w)"
    "active (rbcm_of n v) = active (rbcm_of n w)" "handle (rbcm_of n v) = handle (rbcm_of n w)"
    using assms(1) by (auto simp: detach_step_def)
  have "multi (rbce_of e w) = Some m" using has_easy_multi(1) [OF assms(2,3)] .
  then have "i \<noteq> e" if "attached (rbcm_of n w) = Some t" "(i, j) \<in> set t" for t i j
    using assms(2) [of n] that False by (auto simp: table_ok_def)
  moreover have "i \<noteq> e \<Longrightarrow> multi (rbce_of i v) = multi (rbce_of i w)" for i
    using assms(1) by (simp add: detach_step_def)
  ultimately show ?thesis
    using assms(2) [of n] unfolding table_ok_def same by (fastforce split: option.splits)
qed

lemma attach_handles:
  assumes "attach_step members m e w v \<or> detach_step members m e w v"
  shows "curl (rbce_of i v) = curl (rbce_of i w)" and "handle (rbcm_of n v) = handle (rbcm_of n w)"
  using assms by (cases "n = m"; auto simp: attach_step_def detach_step_def)+

lemma distinct_curl:
  "world_ok members w \<Longrightarrow> curl (rbce_of e w) = Some x \<Longrightarrow> curl (rbce_of i w) = Some x \<Longrightarrow> e = i"
  unfolding world_ok_def handles_distinct_def by (metis option.distinct(1))

lemma distinct_handle:
  "world_ok members w \<Longrightarrow> handle (rbcm_of m w) = Some h \<Longrightarrow> handle (rbcm_of n w) = Some h \<Longrightarrow> m = n"
  unfolding world_ok_def handles_distinct_def by (metis option.distinct(1))

lemma attach_keeps_ok:
  assumes "world_ok members w" and "attach_step members m e w v"
    and "\<And>n. \<not> rb_curl_multi_has_easy n e w"
  shows "world_ok members v"
proof -
  note curl = attach_handles(1) [OF disjI1 [OF assms(2)]] and hd = attach_handles(2) [OF disjI1 [OF assms(2)]]
  obtain h x S where s: "handle (rbcm_of m w) = Some h" "curl (rbce_of e w) = Some x"
    "members (lib w) h = Some S" "members (lib v) = (members (lib w))(h \<mapsto> insert x S)"
    using assms(2) by (auto simp: attach_step_def)
  have ok: "members_ok members n w" "table_ok n w" for n using assms(1) by (auto simp: world_ok_def)
  have "members_ok members n v" for n
  proof (cases "n = m")
    case True
    have "{i. rb_curl_multi_has_easy m i v} = insert e {i. rb_curl_multi_has_easy m i w}"
      by (auto simp: has_easy_attach [OF assms(2)])
    then show ?thesis using ok(1) [of m] s True by (simp add: members_ok_def hd curl)
  next
    case False
    then have "handle (rbcm_of n w) \<noteq> Some h" using distinct_handle [OF assms(1) s(1)] by blast
    moreover have "rb_curl_multi_has_easy n i v = rb_curl_multi_has_easy n i w" for i
      using False by (simp add: has_easy_attach [OF assms(2)])
    ultimately show ?thesis using ok(1) [of n] s by (auto simp: members_ok_def hd curl)
  qed
  moreover have "table_ok n v" for n using attach_table [OF assms(2) ok(2) assms(3)] .
  moreover have "handles_distinct v"
    using assms(1) unfolding world_ok_def handles_distinct_def curl hd by blast
  ultimately show ?thesis by (simp add: world_ok_def)
qed

lemma detach_keeps_ok:
  assumes "world_ok members w" and "detach_step members m e w v" and "rb_curl_multi_has_easy m e w"
  shows "world_ok members v"
proof -
  note curl = attach_handles(1) [OF disjI2 [OF assms(2)]] and hd = attach_handles(2) [OF disjI2 [OF assms(2)]]
  obtain h x S where s: "handle (rbcm_of m w) = Some h" "curl (rbce_of e w) = Some x"
    "members (lib w) h = Some S" "members (lib v) = (members (lib w))(h \<mapsto> S - {x})"
    using assms(2) by (auto simp: detach_step_def)
  have ok: "members_ok members n w" "table_ok n w" for n using assms(1) by (auto simp: world_ok_def)
  have "members_ok members n v" for n
  proof (cases "n = m")
    case True
    have "{i. rb_curl_multi_has_easy m i v} = {i. rb_curl_multi_has_easy m i w} - {e}"
      by (auto simp: has_easy_detach [OF assms(2)])
    moreover have "(\<lambda>i. curl (rbce_of i w)) ` (A - {e}) = (\<lambda>i. curl (rbce_of i w)) ` A - {Some x}" for A
      using s(2) by (auto dest: distinct_curl [OF assms(1) s(2)] distinct_curl [OF assms(1) s(2) sym])
    moreover have "Some ` (S - {x}) = Some ` S - {Some x}" by auto
    ultimately show ?thesis using ok(1) [of m] s True by (simp add: members_ok_def hd curl)
  next
    case False
    then have "handle (rbcm_of n w) \<noteq> Some h" using distinct_handle [OF assms(1) s(1)] by blast
    moreover have "rb_curl_multi_has_easy n i v = rb_curl_multi_has_easy n i w" for i
      using False by (simp add: has_easy_detach [OF assms(2)])
    ultimately show ?thesis using ok(1) [of n] s by (auto simp: members_ok_def hd curl)
  qed
  moreover have "table_ok n v" for n using detach_table [OF assms(2) ok(2) assms(3)] .
  moreover have "handles_distinct v"
    using assms(1) unfolding world_ok_def handles_distinct_def curl hd by blast
  ultimately show ?thesis by (simp add: world_ok_def)
qed

section \<open>The operations refine the steps\<close>

lemma setup_keeps_fields:
  "multi (snd (ruby_curl_easy_setup E r)) = multi r" "curl (snd (ruby_curl_easy_setup E r)) = curl r"
proof -
  have "setup_frame UNIV (ruby_curl_easy_enter_native r)
      (snd (ruby_curl_easy_setup_body E (ruby_curl_easy_enter_native r)))"
    by (rule keepsD [OF setup_body_frame])
  then show "multi (snd (ruby_curl_easy_setup E r)) = multi r"
    "curl (snd (ruby_curl_easy_setup E r)) = curl r"
    by (simp_all add: setup_snd setup_frame_def ruby_curl_easy_enter_native_def
        ruby_curl_easy_leave_native_def)
qed

lemma cleanup_keeps_fields:
  "multi (ruby_curl_easy_cleanup env r) = multi r" "curl (ruby_curl_easy_cleanup env r) = curl r"
proof -
  have "setup_frame (header_options \<union> list_options) r (curb_clear_network_allowed_hosts
     (curb_clear_network_allowed_cidr_rules (ruby_curl_easy_clear_setup_lists env r)))"
    by (rule frame.transitive [OF frame.transitive [OF clear_setup_lists_frame
        setup_frame_mono [OF clear_rules_frame(1)]] setup_frame_mono [OF clear_rules_frame(2)]]) simp_all
  then show "multi (ruby_curl_easy_cleanup env r) = multi r" "curl (ruby_curl_easy_cleanup env r) = curl r"
    by (simp_all add: cleanup_eq setup_frame_def cleanup_upload_def Let_def curl_easy_setopt_def
        rb_easy_del_def)
qed

lemma on_rbce_reads [world_simps]:
  "snd (on_rbce e c w) = upd_rbce e (\<lambda>_. snd (c (rbce_of e w))) w"
  "fst (on_rbce e c w) = fst (c (rbce_of e w))"
  by (simp_all add: on_rbce_def upd_rbce_def rbce_of_def split: prod.splits)

lemma on_lib_eq:
  "on_lib f w = (Inr (fst (f (lib w))), w\<lparr>lib := snd (f (lib w))\<rparr>)"
  by (simp add: on_lib_def split: prod.splits)

lemma same_attachment_upd:
  assumes "\<And>r. multi (f r) = multi r \<and> curl (f r) = curl r"
  shows "same_attachment w (upd_rbce e f w)"
  using assms by (simp add: same_attachment_def world_simps)

lemma same_attachment_refl: "same_attachment w w"
  and same_attachment_trans: "same_attachment w v \<Longrightarrow> same_attachment v u \<Longrightarrow> same_attachment w u"
  by (simp_all add: same_attachment_def)

interpretation attachment: step_relation same_attachment
  by unfold_locales (rule same_attachment_refl, rule same_attachment_trans)

lemma libcurl_laws:
  assumes "libcurl_multi_ok X members"
  shows "curl_multi_add_handle X h c l = (code, l') \<Longrightarrow> code = 0 \<or> code = -1 \<Longrightarrow>
      \<exists>i x S. h = Some i \<and> c = Some x \<and> members l i = Some S \<and> members l' = (members l)(i \<mapsto> insert x S)"
    and "curl_multi_add_handle X h c l = (code, l') \<Longrightarrow> code \<noteq> 0 \<Longrightarrow> code \<noteq> -1 \<Longrightarrow>
      members l' = members l"
    and "curl_multi_remove_handle X h c l = (0, l') \<Longrightarrow>
      \<exists>i x S. h = Some i \<and> c = Some x \<and> members l i = Some S \<and> members l' = (members l)(i \<mapsto> S - {x})"
    and "curl_multi_remove_handle X h c l = (code, l') \<Longrightarrow> code \<noteq> 0 \<Longrightarrow> members l' = members l"
    and "members (curl_multi_cleanup X i l) = (members l)(i := None)"
    and "curl_multi_init X l = (None, l') \<Longrightarrow> members l' = members l"
    and "curl_multi_init X l = (Some i, l') \<Longrightarrow> members l i = None \<and> members l' = (members l)(i \<mapsto> {})"
    and "members (snd (curl_multi_info_read X h l)) = members l"
    and "members (curl_multi_setopt X h opt n l) = members l"
  using assms unfolding libcurl_multi_ok_def by (fastforce split: if_splits)+

text \<open>A change of libcurl's state that keeps its memberships.\<close>

lemma world_ok_lib:
  assumes "world_ok members w" and "members l = members (lib w)"
  shows "world_ok members (w\<lparr>lib := l\<rparr>)"
proof -
  have has: "rb_curl_multi_has_easy m e (w\<lparr>lib := l\<rparr>) = rb_curl_multi_has_easy m e w" for m e
    by (simp add: rb_curl_multi_has_easy_def world_simps)
  have "world_ok members (w\<lparr>lib := l\<rparr>) = world_ok members w"
    unfolding world_ok_def handles_distinct_def table_ok_def members_ok_def has
    by (simp only: world_simps assms(2))
  then show ?thesis using assms(1) by simp
qed

lemma init_ok:
  assumes "libcurl_multi_ok X members" and "world_ok members w" and "handle (rbcm_of m w) = None"
  shows "world_ok members (snd (ruby_curl_multi_init X m w))"
    and "fst (ruby_curl_multi_init X m w) = Inr () \<Longrightarrow> handle (rbcm_of m (snd (ruby_curl_multi_init X m w))) \<noteq> None"
    and "rb_curl_multi_has_easy n e (snd (ruby_curl_multi_init X m w)) = rb_curl_multi_has_easy n e w"
proof -
  obtain h l where hl: "curl_multi_init X (lib w) = (h, l)" by fastforce
  have "table_ok m w" using assms(2) by (simp add: world_ok_def)
  then have none: "attached (rbcm_of m w) = None"
    using assms(3) by (auto simp: table_ok_def split: option.splits)
  show has: "rb_curl_multi_has_easy n e (snd (ruby_curl_multi_init X m w)) = rb_curl_multi_has_easy n e w"
    for n e
    using none by (cases h) (auto simp: ruby_curl_multi_init_def bind_def on_lib_eq hl cmd_defs
        rb_curl_multi_has_easy_def world_simps st_simps)
  show "fst (ruby_curl_multi_init X m w) = Inr () \<Longrightarrow> handle (rbcm_of m (snd (ruby_curl_multi_init X m w))) \<noteq> None"
    by (cases h) (simp_all add: ruby_curl_multi_init_def bind_def on_lib_eq hl cmd_defs world_simps)
  show "world_ok members (snd (ruby_curl_multi_init X m w))"
  proof (cases h)
    case None
    then have "snd (ruby_curl_multi_init X m w) = upd_rbcm m (\<lambda>c. c\<lparr>handle := None\<rparr>) (w\<lparr>lib := l\<rparr>)"
      by (simp add: ruby_curl_multi_init_def bind_def on_lib_eq hl cmd_defs)
    moreover have "same_attachment (w\<lparr>lib := l\<rparr>) (upd_rbcm m (\<lambda>c. c\<lparr>handle := None\<rparr>) (w\<lparr>lib := l\<rparr>))"
      using assms(3) by (simp add: same_attachment_def world_simps)
    ultimately show ?thesis
      using None hl libcurl_laws(6) [OF assms(1)] world_ok_lib [OF assms(2)] world_ok_same by metis
  next
    case (Some i)
    let ?v = "snd (ruby_curl_multi_init X m w)"
    have fresh: "members (lib w) i = None" "members l = (members (lib w))(i \<mapsto> {})"
      using libcurl_laws(7) [OF assms(1)] hl Some by simp_all
    have v: "attached (rbcm_of m ?v) = Some []" "active (rbcm_of m ?v) = 0"
      "handle (rbcm_of m ?v) = Some i" "lib ?v = l" "rbce_of e ?v = rbce_of e w"
      "n \<noteq> m \<Longrightarrow> rbcm_of n ?v = rbcm_of n w" for e n
      using Some by (simp_all add: ruby_curl_multi_init_def bind_def on_lib_eq hl cmd_defs world_simps
          st_init_numtable_def)
    have members_of: "members_ok members n w" for n using assms(2) by (simp add: world_ok_def)
    have unused: "handle (rbcm_of n w) \<noteq> Some i" for n
    proof
      assume "handle (rbcm_of n w) = Some i"
      then show False using fresh(1) members_of [of n] unfolding members_ok_def by fastforce
    qed
    have hn: "handle (rbcm_of n ?v) = (if n = m then Some i else handle (rbcm_of n w))" for n
      by (simp add: v)
    have "handles_distinct ?v"
      using assms(2) unused unused [THEN not_sym]
      unfolding world_ok_def handles_distinct_def v(5) hn by (auto split: if_splits)
    moreover have "table_ok n ?v" for n
    proof (cases "n = m")
      case False
      have "table_ok n w" using assms(2) by (simp add: world_ok_def)
      then show ?thesis unfolding table_ok_def v(5) v(6) [OF False] .
    qed (simp add: table_ok_def v st_wf_def)
    moreover have "members_ok members n ?v" for n
    proof (cases "n = m")
      case True
      have "\<not> rb_curl_multi_has_easy m e ?v" for e
        by (simp add: rb_curl_multi_has_easy_def v st_lookup_def)
      then show ?thesis using True by (simp add: members_ok_def v fresh(2))
    next
      case False
      then show ?thesis
        using members_of unused [of n] unfolding members_ok_def v(4,5) has hn
        by (auto simp: fresh(2))
    qed
    ultimately show ?thesis by (simp add: world_ok_def)
  qed
qed

lemma ensure_handle_ok:
  assumes "libcurl_multi_ok X members" and "world_ok members w"
    and "ruby_curl_multi_ensure_handle X m w = (r, v)"
  shows "world_ok members v" and "rb_curl_multi_has_easy n e v = rb_curl_multi_has_easy n e w"
    and "r = Inr () \<Longrightarrow> handle (rbcm_of m v) \<noteq> None" and "rbce_of i v = rbce_of i w"
proof -
  have eq: "v = snd (ruby_curl_multi_ensure_handle X m w)" "r = fst (ruby_curl_multi_ensure_handle X m w)"
    using assms(3) by simp_all
  show "world_ok members v" "rb_curl_multi_has_easy n e v = rb_curl_multi_has_easy n e w"
    "r = Inr () \<Longrightarrow> handle (rbcm_of m v) \<noteq> None"
    using init_ok [OF assms(1,2)] assms(2)
    by (auto simp: eq ruby_curl_multi_ensure_handle_def raise_multi_def rb_exc_raise_def split: if_splits)
  show "rbce_of i v = rbce_of i w"
    by (auto simp: eq ruby_curl_multi_ensure_handle_def raise_multi_def rb_exc_raise_def
        ruby_curl_multi_init_def bind_def on_lib_eq cmd_defs world_simps)
qed

text \<open>Adding, in the case that reaches libcurl: the state after setup, then either the attachment
  or the cleanup.\<close>

definition after_setup :: "'l multi_env \<Rightarrow> nat \<Rightarrow> 'l world \<Rightarrow> 'l world" where
  "after_setup X e w = upd_rbce e (\<lambda>_. snd (ruby_curl_easy_setup (me_setup X) (rbce_of e w))) w"

definition attach_easy :: "nat \<Rightarrow> nat \<Rightarrow> 'l \<Rightarrow> 'l world \<Rightarrow> 'l world" where
  "attach_easy m e l w =
     upd_rbce e (\<lambda>r. r\<lparr>multi := Some m\<rparr>)
       (upd_rbcm m (\<lambda>c. case attached c of None \<Rightarrow> c | Some t \<Rightarrow> c\<lparr>attached := Some (st_insert t e e)\<rparr>)
         (upd_rbce e (\<lambda>r. r\<lparr>multi_attachment_generation := multi_attachment_generation r + 1\<rparr>)
           (upd_rbcm m (\<lambda>c. c\<lparr>active := active c + 1, running := running c + 1,
               attached := Some (case attached c of None \<Rightarrow> st_init_numtable | Some t \<Rightarrow> t)\<rparr>)
             (w\<lparr>lib := l\<rparr>))))"

definition in_other_multi :: "nat \<Rightarrow> nat \<Rightarrow> 'l world \<Rightarrow> bool" where
  "in_other_multi m e w \<longleftrightarrow>
     (\<exists>n. multi (rbce_of e w) = Some n \<and> n \<noteq> m \<and> rb_curl_multi_has_easy n e w)"

text \<open>Every way \<open>ruby_curl_multi_add\<close> can end, in the order of the code.\<close>

lemma add_cases:
  assumes "ruby_curl_multi_ensure_handle X m w = (r0, w0)"
  shows "ruby_curl_multi_add X m e w =
     (case r0 of Inl x \<Rightarrow> (Inl x, w0)
      | Inr _ \<Rightarrow>
          if rb_curl_multi_has_easy m e w0 then (Inr m, w0)
          else if in_other_multi m e w0 then
            (Inl (Exc ''rb_eRuntimeError'' ''Cannot add an active Curl::Easy handle to another Curl::Multi''), w0)
          else (case fst (ruby_curl_easy_setup (me_setup X) (rbce_of e w0)) of
                  Inl x \<Rightarrow> (Inl x, after_setup X e w0)
                | Inr _ \<Rightarrow>
                    let w1 = after_setup X e w0 in
                    case curl_multi_add_handle X (handle (rbcm_of m w1)) (curl (rbce_of e w1)) (lib w1) of
                      (code, l) \<Rightarrow>
                        if code \<noteq> -1 \<and> code \<noteq> 0
                        then (Inl (multi_error (me_env X) code),
                              upd_rbce e (ruby_curl_easy_cleanup (me_env X)) (w1\<lparr>lib := l\<rparr>))
                        else (Inr m, attach_easy m e l w1)))"
proof (cases r0)
  case (Inl x)
  then show ?thesis using assms by (simp add: ruby_curl_multi_add_def bind_def)
next
  case (Inr u)
  have other: "(case multi (rbce_of e w0) of Some n \<Rightarrow> n \<noteq> m \<and> rb_curl_multi_has_easy n e w0 | None \<Rightarrow> False)
      = in_other_multi m e w0"
    by (simp add: in_other_multi_def split: option.splits)
  have su: "on_rbce e (ruby_curl_easy_setup (me_setup X)) w0 =
      (fst (ruby_curl_easy_setup (me_setup X) (rbce_of e w0)), after_setup X e w0)"
    by (rule prod_eqI) (simp_all add: world_simps after_setup_def)
  show ?thesis
    using assms Inr
    by (simp add: ruby_curl_multi_add_def bind_def other su on_lib_eq modify_def ret_def
        raise_multi_def rb_exc_raise_def rb_raise_def attach_easy_def Let_def
        split: sum.splits prod.splits)
qed

lemma after_setup_same: "same_attachment w (after_setup X e w)"
  by (simp add: after_setup_def same_attachment_def world_simps setup_keeps_fields)

lemma same_has_easy: "same_attachment w v \<Longrightarrow> rb_curl_multi_has_easy m e v = rb_curl_multi_has_easy m e w"
  by (simp add: same_attachment_def rb_curl_multi_has_easy_def)

lemma cleanup_same: "same_attachment w (upd_rbce e (ruby_curl_easy_cleanup env) w)"
  by (rule same_attachment_upd) (simp add: cleanup_keeps_fields)

lemma attach_easy_step:
  assumes "libcurl_multi_ok X members" and "world_ok members w"
    and "curl_multi_add_handle X (handle (rbcm_of m w)) (curl (rbce_of e w)) (lib w) = (code, l)"
    and "code = 0 \<or> code = -1"
  shows "attach_step members m e w (attach_easy m e l w)"
proof -
  from libcurl_laws(1) [OF assms(1,3,4)]
  obtain h x S where lib: "handle (rbcm_of m w) = Some h" "curl (rbce_of e w) = Some x"
    "members (lib w) h = Some S" "members l = (members (lib w))(h \<mapsto> insert x S)" by blast
  have "table_ok m w" using assms(2) by (simp add: world_ok_def)
  then obtain t where t: "attached (rbcm_of m w) = Some t"
    using lib(1) by (auto simp: table_ok_def split: option.splits)
  show ?thesis
    unfolding attach_step_def attach_easy_def using lib t by (simp add: world_simps)
qed

lemma not_attached:
  assumes "world_ok members w" and "\<not> rb_curl_multi_has_easy m e w" and "\<not> in_other_multi m e w"
  shows "\<not> rb_curl_multi_has_easy n e w"
proof
  assume has: "rb_curl_multi_has_easy n e w"
  moreover have "table_ok n w" using assms(1) by (simp add: world_ok_def)
  ultimately have "multi (rbce_of e w) = Some n" by (rule has_easy_multi(1) [rotated])
  then show False using has assms(2,3) by (auto simp: in_other_multi_def)
qed

lemma add_result:
  assumes lib: "libcurl_multi_ok X members" and ok: "world_ok members w"
    and add: "ruby_curl_multi_add X m e w = (r, v)"
  shows "world_ok members v"
    and "r = Inr k \<Longrightarrow> rb_curl_multi_has_easy n i v \<longleftrightarrow> n = m \<and> i = e \<or> rb_curl_multi_has_easy n i w"
    and "r = Inl x \<Longrightarrow> rb_curl_multi_has_easy n i v = rb_curl_multi_has_easy n i w"
proof -
  obtain r0 w0 where e0: "ruby_curl_multi_ensure_handle X m w = (r0, w0)" by fastforce
  note w0 = ensure_handle_ok [OF lib ok e0]
  let ?w1 = "after_setup X e w0"
  have ok1: "world_ok members ?w1" using w0(1) after_setup_same world_ok_same by blast
  have has1: "rb_curl_multi_has_easy n i ?w1 = rb_curl_multi_has_easy n i w" for n i
    by (simp add: same_has_easy [OF after_setup_same] w0(2))
  obtain code l where cl: "curl_multi_add_handle X (handle (rbcm_of m ?w1)) (curl (rbce_of e ?w1))
      (lib ?w1) = (code, l)" by fastforce
  have fail: "world_ok members (upd_rbce e (ruby_curl_easy_cleanup env) (?w1\<lparr>lib := l\<rparr>))"
    "rb_curl_multi_has_easy n i (upd_rbce e (ruby_curl_easy_cleanup env) (?w1\<lparr>lib := l\<rparr>)) =
       rb_curl_multi_has_easy n i w" if "code \<noteq> 0" "code \<noteq> -1" for env n i
    using world_ok_same [OF cleanup_same world_ok_lib [OF ok1 libcurl_laws(2) [OF lib cl that]]]
      same_has_easy [OF cleanup_same] has1
    by (simp_all add: rb_curl_multi_has_easy_def world_simps)
  have succ: "world_ok members (attach_easy m e l ?w1)"
    "rb_curl_multi_has_easy n i (attach_easy m e l ?w1) \<longleftrightarrow>
       n = m \<and> i = e \<or> rb_curl_multi_has_easy n i w"
    if "code = 0 \<or> code = -1" "\<not> rb_curl_multi_has_easy m e w0" "\<not> in_other_multi m e w0" for n i
  proof -
    have step: "attach_step members m e ?w1 (attach_easy m e l ?w1)"
      by (rule attach_easy_step [OF lib ok1 cl that(1)])
    have "\<not> rb_curl_multi_has_easy n e ?w1" for n
      using not_attached [OF w0(1) that(2,3)] by (simp add: has1 w0(2))
    then show "world_ok members (attach_easy m e l ?w1)" by (rule attach_keeps_ok [OF ok1 step])
    show "rb_curl_multi_has_easy n i (attach_easy m e l ?w1) \<longleftrightarrow>
       n = m \<and> i = e \<or> rb_curl_multi_has_easy n i w"
      by (simp add: has_easy_attach [OF step] has1)
  qed
  note c = add [unfolded add_cases [OF e0] cl Let_def]
  show "world_ok members v"
    using c w0(1) ok1 fail succ by (auto simp: cl split: sum.splits if_splits)
  show "r = Inr k \<Longrightarrow> rb_curl_multi_has_easy n i v \<longleftrightarrow> n = m \<and> i = e \<or> rb_curl_multi_has_easy n i w"
    using c succ(2) w0(2) by (auto simp: cl split: sum.splits if_splits)
  show "r = Inl x \<Longrightarrow> rb_curl_multi_has_easy n i v = rb_curl_multi_has_easy n i w"
    using c w0(2) fail(2) has1 by (auto simp: cl split: sum.splits if_splits)
qed

end
