(* ===== verification/Curb_Multi_Ops.thy ===== *)
theory Curb_Multi_Ops
  imports Curb_Multi_Facts
begin

text \<open>
  Removing, completing and closing on the consistency invariant of
  \<open>Curb_Multi_Facts\<close>, and the step relation of the multi handle's operations with its
  reachable states.
\<close>

section \<open>Removing\<close>

text \<open>Two worlds that agree but for the \<open>multi\<close> reference of one easy handle.\<close>

definition same_but :: "nat \<Rightarrow> 'l world \<Rightarrow> 'l world \<Rightarrow> bool" where
  "same_but e w v \<longleftrightarrow>
     (\<forall>m. attached (rbcm_of m v) = attached (rbcm_of m w) \<and> active (rbcm_of m v) = active (rbcm_of m w) \<and>
          handle (rbcm_of m v) = handle (rbcm_of m w)) \<and>
     (\<forall>i. curl (rbce_of i v) = curl (rbce_of i w) \<and>
          (i \<noteq> e \<longrightarrow> multi (rbce_of i v) = multi (rbce_of i w))) \<and>
     lib v = lib w"

lemma same_but_refl: "same_but e w w"
  and same_but_trans: "same_but e w v \<Longrightarrow> same_but e v u \<Longrightarrow> same_but e w u"
  by (simp_all add: same_but_def)

interpretation but: step_relation "same_but e"
  by unfold_locales (rule same_but_refl, rule same_but_trans)

lemma detach_same_but:
  "detach_step members m e w u \<Longrightarrow> same_but e u v \<Longrightarrow> detach_step members m e w v"
  unfolding detach_step_def same_but_def by metis

text \<open>The counter and the table after libcurl let the handle go.\<close>

definition forget_active :: "nat \<Rightarrow> nat \<Rightarrow> 'l world \<Rightarrow> 'l world" where
  "forget_active m e w = rb_curl_multi_forget_easy m e (upd_rbcm m dec_active w)"

lemma forget_active_step:
  assumes "libcurl_multi_ok X members" and "world_ok members w" and "rb_curl_multi_has_easy m e w"
    and "curl_multi_remove_handle X (handle (rbcm_of m w)) (curl (rbce_of e w)) (lib w) = (0, l)"
  shows "detach_step members m e w (forget_active m e (w\<lparr>lib := l\<rparr>))"
proof -
  from libcurl_laws(3) [OF assms(1,4)]
  obtain h x S where lib: "handle (rbcm_of m w) = Some h" "curl (rbce_of e w) = Some x"
    "members (lib w) h = Some S" "members l = (members (lib w))(h \<mapsto> S - {x})" by blast
  obtain t where t: "attached (rbcm_of m w) = Some t" "st_lookup t e \<noteq> None"
    using assms(3) by (auto simp: rb_curl_multi_has_easy_def split: option.splits)
  have "table_ok m w" using assms(2) by (simp add: world_ok_def)
  then have "active (rbcm_of m w) = int (length t)" using t(1) by (simp add: table_ok_def)
  moreover have "t \<noteq> []" using t(2) by (auto simp: st_lookup_def)
  ultimately have "0 < active (rbcm_of m w)" by simp
  then show ?thesis
    unfolding detach_step_def forget_active_def rb_curl_multi_forget_easy_def
    using lib t(1) by (simp add: world_simps dec_active_def)
qed

lemma remove_cases:
  "rb_curl_multi_remove X m e w =
     (case curl_multi_remove_handle X (handle (rbcm_of m w)) (curl (rbce_of e w)) (lib w) of
        (code, l) \<Rightarrow>
          if code \<noteq> 0 then (Inl (multi_error (me_env X) code), w\<lparr>lib := l\<rparr>)
          else (Inr (), rb_curl_multi_forget_easy m e
             (upd_rbce e (\<lambda>r. ruby_curl_easy_cleanup (me_env X) (r\<lparr>multi := None\<rparr>))
               (upd_rbcm m dec_active (w\<lparr>lib := l\<rparr>)))))"
  by (simp add: rb_curl_multi_remove_def bind_def on_lib_eq raise_multi_def cmd_defs split: prod.splits)

lemma removed_same_but:
  "same_but e (forget_active m e w)
     (rb_curl_multi_forget_easy m e
        (upd_rbce e (\<lambda>r. ruby_curl_easy_cleanup env (r\<lparr>multi := None\<rparr>)) (upd_rbcm m dec_active w)))"
  by (simp add: same_but_def forget_active_def rb_curl_multi_forget_easy_def world_simps
      cleanup_keeps_fields split: option.splits)

lemma remove_attached:
  assumes lib: "libcurl_multi_ok X members" and ok: "world_ok members w"
    and has: "rb_curl_multi_has_easy m e w" and remove: "rb_curl_multi_remove X m e w = (r, v)"
  shows "world_ok members v"
    and "r = Inr () \<Longrightarrow> detach_step members m e w v \<and> multi (rbce_of e v) = None"
    and "r = Inl x \<Longrightarrow> rb_curl_multi_has_easy n i v = rb_curl_multi_has_easy n i w"
proof -
  obtain code l where cl: "curl_multi_remove_handle X (handle (rbcm_of m w)) (curl (rbce_of e w)) (lib w)
     = (code, l)" by fastforce
  note c = remove [unfolded remove_cases cl]
  have fail: "world_ok members (w\<lparr>lib := l\<rparr>)" if "code \<noteq> 0"
    using world_ok_lib [OF ok libcurl_laws(4) [OF lib cl that]] .
  have step: "detach_step members m e w v" if "code = 0"
  proof -
    have "same_but e (forget_active m e (w\<lparr>lib := l\<rparr>)) v"
      using c that removed_same_but by auto
    moreover have "detach_step members m e w (forget_active m e (w\<lparr>lib := l\<rparr>))"
      using forget_active_step [OF lib ok has] cl that by simp
    ultimately show ?thesis using detach_same_but by blast
  qed
  show "world_ok members v"
    using c fail detach_keeps_ok [OF ok step has] by (cases "code = 0") auto
  show "r = Inr () \<Longrightarrow> detach_step members m e w v \<and> multi (rbce_of e v) = None"
    using c step by (cases "code = 0") (auto simp: world_simps cleanup_keeps_fields)
  show "r = Inl x \<Longrightarrow> rb_curl_multi_has_easy n i v = rb_curl_multi_has_easy n i w"
    using c by (cases "code = 0") (auto simp: rb_curl_multi_has_easy_def world_simps)
qed

section \<open>Code that keeps the invariant\<close>

text \<open>Commands after which the invariant holds, however they end; the rules follow the shape of a
  command.\<close>

definition keeps_ok :: "('l \<Rightarrow> nat \<rightharpoonup> nat set) \<Rightarrow> ('l, 'a) mcmd \<Rightarrow> bool" where
  "keeps_ok members c = exits (world_ok members) c (world_ok members)"

named_theorems ok_intros \<open>introduction rules of \<open>keeps_ok\<close>\<close>

lemma keeps_okD: "keeps_ok members c \<Longrightarrow> world_ok members w \<Longrightarrow> world_ok members (snd (c w))"
  by (simp add: keeps_ok_def exits_def)

lemma keeps_okI: "(\<And>w. world_ok members w \<Longrightarrow> world_ok members (snd (c w))) \<Longrightarrow> keeps_ok members c"
  by (simp add: keeps_ok_def exits_def)

lemma keeps_ok_pure [ok_intros]:
  "keeps_ok members (ret a)" "keeps_ok members (rb_raise k x)" "keeps_ok members (rb_exc_raise y)"
  "keeps_ok members (gets f)" "keeps_ok members (raise_multi X code)" "keeps_ok members (lift_res z)"
  by (simp_all add: keeps_ok_def exits_def cmd_defs raise_multi_def)

lemma keeps_ok_bind [ok_intros]:
  "keeps_ok members c \<Longrightarrow> (\<And>a. keeps_ok members (f a)) \<Longrightarrow> keeps_ok members (bind c f)"
  unfolding keeps_ok_def by (rule exits_bind)

lemma keeps_ok_if [ok_intros]:
  "keeps_ok members c \<Longrightarrow> keeps_ok members d \<Longrightarrow> keeps_ok members (if b then c else d)"
  by simp

lemma keeps_ok_modify: "(\<And>w. same_attachment w (f w)) \<Longrightarrow> keeps_ok members (modify f)"
  by (rule keeps_okI) (auto simp: modify_def intro: world_ok_same)

lemma keeps_ok_rescue [ok_intros]:
  "keeps_ok members c \<Longrightarrow> (\<And>e. keeps_ok members (h e)) \<Longrightarrow> keeps_ok members (rb_rescue c h)"
proof (rule keeps_okI)
  fix w assume c: "keeps_ok members c" and h: "\<And>e. keeps_ok members (h e)" and ok: "world_ok members w"
  obtain r v where v: "c w = (r, v)" by fastforce
  then have "world_ok members v" using keeps_okD [OF c ok] by simp
  then show "world_ok members (snd (rb_rescue c h w))"
    using v keeps_okD [OF h] by (simp add: rb_rescue_def split: sum.split)
qed

lemma keeps_ok_ensure [ok_intros]:
  "keeps_ok members c \<Longrightarrow> keeps_ok members d \<Longrightarrow> keeps_ok members (rb_ensure c d)"
  by (rule keeps_okI) (simp add: rb_ensure_state keeps_okD)

lemma same_attachment_upds [world_simps]:
  "(\<And>r. multi (f r) = multi r \<and> curl (f r) = curl r) \<Longrightarrow> same_attachment w (upd_rbce e f w)"
  "(\<And>c. attached (g c) = attached c \<and> active (g c) = active c \<and> handle (g c) = handle c) \<Longrightarrow>
     same_attachment w (upd_rbcm m g w)"
  "(\<And>ob. rbcm (h ob) = rbcm ob) \<Longrightarrow> same_attachment w (upd_object m h w)"
  "same_attachment w (stash_multi_exception_if_unset m x i w)"
  "same_attachment w (rb_curl_multi_remove_request_reference m e w)"
  by (simp_all add: same_attachment_def world_simps)

text \<open>What is asked of user code: the methods Ruby calls keep the invariant, and flushing the
  stream of \<open>stderr=\<close> attaches and detaches nothing and leaves the requests alone.\<close>

definition user_ok :: "('l \<Rightarrow> nat \<rightharpoonup> nat set) \<Rightarrow> 'l multi_env \<Rightarrow> bool" where
  "user_ok members X \<longleftrightarrow>
     (\<forall>obj name args. keeps_ok members (rb_send X obj name args)) \<and>
     (\<forall>obj w. same_attachment w (snd (rb_send X obj ''flush'' [] w)) \<and>
        (\<forall>m. requests (multis (snd (rb_send X obj ''flush'' [] w)) m) = requests (multis w m)))"

lemma user_okD:
  assumes "user_ok members X"
  shows "keeps_ok members (rb_send X obj name args)"
    and "same_attachment w (snd (rb_send X obj ''flush'' [] w))"
    and "requests (multis (snd (rb_send X obj ''flush'' [] w)) m) = requests (multis w m)"
  using assms by (simp_all add: user_ok_def)

lemma remove_easies_keeps:
  assumes "libcurl_multi_ok X members"
  shows "keeps_ok members (remove_easies X m es)"
proof (induction es)
  case (Cons e es)
  have "keeps_ok members (\<lambda>w. if multi (rbce_of e w) \<noteq> Some m \<or> \<not> rb_curl_multi_has_easy m e w
      then (Inr (), w)
      else bind (modify (rb_curl_multi_remove_request_reference m e)) (\<lambda>_. rb_curl_multi_remove X m e) w)"
    (is "keeps_ok members ?c")
  proof (rule keeps_okI)
    fix w assume ok: "world_ok members w"
    let ?v = "rb_curl_multi_remove_request_reference m e w"
    have same: "same_attachment w ?v" by (simp add: world_simps)
    have "world_ok members (snd (rb_curl_multi_remove X m e ?v))" if "rb_curl_multi_has_easy m e w"
      using that remove_attached(1) [OF assms world_ok_same [OF same ok], of m e] same_has_easy [OF same]
      by (metis prod.collapse)
    then show "world_ok members (snd (?c w))" using ok by (simp add: bind_modify)
  qed
  then show ?case using Cons by (auto intro!: ok_intros)
qed (simp add: ok_intros)

lemma run_status_callback_keeps:
  assumes "libcurl_multi_ok X members" and "user_ok members X"
  shows "keeps_ok members (run_status_callback X m e s err callback args did)"
proof -
  have remove: "keeps_ok members (rb_curl_multi_remove_added_easies_since_snapshot X m s)"
    by (rule keeps_okI)
      (simp add: rb_curl_multi_remove_added_easies_since_snapshot_def keeps_okD [OF remove_easies_keeps [OF assms(1)]])
  have "keeps_ok members (stash_and_raise_status_callback_error_if_unmasked X m e s d err)" for d
    unfolding stash_and_raise_status_callback_error_if_unmasked_def
    by (auto simp: world_simps intro!: ok_intros remove keeps_ok_modify split: option.splits)
  then show ?thesis
    unfolding run_status_callback_def
    by (intro ok_intros keeps_ok_modify user_okD(1) [OF assms(2)]) (auto simp: world_simps)
qed

section \<open>Completing\<close>

lemma flush_same:
  assumes "user_ok members X" and "flush_stderr_if_any X e w = (r, v)"
  shows "same_attachment w v" and "requests (multis v m) = requests (multis w m)"
proof -
  have v: "v = snd (flush_stderr_if_any X e w)" using assms(2) by simp
  obtain r1 v1 where send: "rb_send X (rb_easy_get ''stderr_io'' (rbce_of e w)) ''flush'' [] w = (r1, v1)"
    by fastforce
  show "same_attachment w v" "requests (multis v m) = requests (multis w m)"
    using user_okD(2) [OF assms(1), of w "rb_easy_get ''stderr_io'' (rbce_of e w)"]
      user_okD(3) [OF assms(1), of "rb_easy_get ''stderr_io'' (rbce_of e w)" w m] same_attachment_refl
    by (auto simp: v flush_stderr_if_any_def bind_def send ret_def Let_def split: sum.splits)
qed

lemma detach_step_same:
  assumes "same_attachment w u" and "detach_step members m e u v"
  shows "detach_step members m e w v"
proof -
  have m: "attached (rbcm_of m u) = attached (rbcm_of m w)" "active (rbcm_of m u) = active (rbcm_of m w)"
    "handle (rbcm_of m u) = handle (rbcm_of m w)" for m
    using assms(1) by (auto simp: same_attachment_def)
  have e: "multi (rbce_of e u) = multi (rbce_of e w)" "curl (rbce_of e u) = curl (rbce_of e w)" "lib u = lib w" for e
    using assms(1) by (auto simp: same_attachment_def)
  show ?thesis using assms(2) unfolding detach_step_def m e .
qed

lemma same_attachment_but: "same_attachment w v \<Longrightarrow> same_but e w v"
  by (simp add: same_attachment_def same_but_def)

lemma same_attachmentD:
  assumes "same_attachment w v"
  shows "handle (rbcm_of m v) = handle (rbcm_of m w)" and "curl (rbce_of e v) = curl (rbce_of e w)"
    and "multi (rbce_of e v) = multi (rbce_of e w)" and "lib v = lib w"
  using assms by (simp_all add: same_attachment_def)

text \<open>The state libcurl's removal leaves, up to the second flush.\<close>

definition completed :: "'l multi_env \<Rightarrow> nat \<Rightarrow> nat \<Rightarrow> 'l world \<Rightarrow> 'l world" where
  "completed X m e w =
     upd_rbce e (\<lambda>r. (ruby_curl_easy_cleanup (me_env X) r)\<lparr>curl_headers := []\<rparr>)
       (rb_curl_multi_forget_easy m e
         (rb_curl_multi_remove_request_reference m e (upd_rbcm m dec_active w)))"

lemma completed_same: "same_attachment (forget_active m e w) (completed X m e w)"
  by (simp add: same_attachment_def completed_def forget_active_def rb_curl_multi_forget_easy_def world_simps
      cleanup_keeps_fields split: option.splits)

lemma completed_requests:
  "requests (multis (completed X m e w) m) =
     (case requests (multis w m) of None \<Rightarrow> None | Some rq \<Rightarrow> Some (st_delete rq e))"
  by (simp add: completed_def rb_curl_multi_forget_easy_def rb_curl_multi_remove_request_reference_def
      world_simps split: option.splits)

lemma bind_read: "bind (\<lambda>w. (Inr (a w), g w)) f w = f (a w) (g w)"
  by (simp add: bind_def)

lemma detach_completed_cases:
  assumes "flush_stderr_if_any X e (upd_rbce e (\<lambda>r. r\<lparr>last_result := result\<rparr>) w) = (r1, w1)"
  shows "detach_completed X m e result w =
     (case r1 of Inl x \<Rightarrow> (Inl x, w1)
      | Inr _ \<Rightarrow>
          (case curl_multi_remove_handle X (handle (rbcm_of m w1)) (curl (rbce_of e w1)) (lib w1) of
             (code, l) \<Rightarrow>
               if code \<noteq> 0 then (Inl (multi_error (me_env X) code), w1\<lparr>lib := l\<rparr>)
               else flush_stderr_if_any X e (completed X m e (w1\<lparr>lib := l\<rparr>))))"
  by (simp add: detach_completed_def bind_modify bind_def [of "flush_stderr_if_any X e"] assms
      bind_read on_lib_eq raise_multi_def rb_exc_raise_def completed_def
      split: sum.splits prod.splits)

lemma detach_completed_result:
  assumes lib: "libcurl_multi_ok X members" and user: "user_ok members X" and ok: "world_ok members w"
    and has: "rb_curl_multi_has_easy m e w" and run: "detach_completed X m e result w = (r, v)"
  shows "world_ok members v"
    and "r = Inr () \<Longrightarrow> detach_step members m e w v \<and> multi (rbce_of e v) = Some m \<and>
       requests (multis v m) = map_option (\<lambda>rq. st_delete rq e) (requests (multis w m))"
    and "r = Inl x \<Longrightarrow> detach_step members m e w v \<or>
       (\<forall>n i. rb_curl_multi_has_easy n i v = rb_curl_multi_has_easy n i w)"
proof -
  let ?w0 = "upd_rbce e (\<lambda>r. r\<lparr>last_result := result\<rparr>) w"
  have s0: "same_attachment w ?w0" "requests (multis ?w0 m) = requests (multis w m)"
    by (simp_all add: world_simps)
  obtain r1 w1 where f1: "flush_stderr_if_any X e ?w0 = (r1, w1)" by fastforce
  note s1 = flush_same [OF user f1]
  have sw: "same_attachment w w1" using same_attachment_trans [OF s0(1) s1(1)] .
  have ok1: "world_ok members w1" and has1: "rb_curl_multi_has_easy m e w1"
    using world_ok_same [OF sw ok] same_has_easy [OF sw] has by simp_all
  obtain code l where cl: "curl_multi_remove_handle X (handle (rbcm_of m w1)) (curl (rbce_of e w1)) (lib w1)
     = (code, l)" by fastforce
  let ?u = "completed X m e (w1\<lparr>lib := l\<rparr>)"
  obtain r2 w2 where f2: "flush_stderr_if_any X e ?u = (r2, w2)" by fastforce
  note s2 = flush_same [OF user f2]
  note c = run [unfolded detach_completed_cases [OF f1] cl f2]
  have fail: "world_ok members (w1\<lparr>lib := l\<rparr>)" if "code \<noteq> 0"
    using world_ok_lib [OF ok1 libcurl_laws(4) [OF lib cl that]] .
  have step: "detach_step members m e w w2" if "code = 0"
  proof -
    have "detach_step members m e w1 (forget_active m e (w1\<lparr>lib := l\<rparr>))"
      using forget_active_step [OF lib ok1 has1] cl that by simp
    then show ?thesis
      using detach_same_but [OF _ same_attachment_but [OF same_attachment_trans [OF completed_same s2(1)]]]
        detach_step_same [OF sw] by blast
  qed
  have mult: "multi (rbce_of e w2) = Some m"
  proof -
    have "multi (rbce_of e w2) = multi (rbce_of e w1)"
      using same_attachmentD(3) [OF s2(1)]
      by (simp add: completed_def rb_curl_multi_forget_easy_def world_simps cleanup_keeps_fields)
    also have "\<dots> = Some m" using has_easy_multi(1) [OF _ has1] ok1 by (simp add: world_ok_def)
    finally show ?thesis .
  qed
  show "world_ok members v"
    using c f2 fail ok1 detach_keeps_ok [OF ok step has] by (auto split: sum.splits if_splits)
  show "r = Inr () \<Longrightarrow> detach_step members m e w v \<and> multi (rbce_of e v) = Some m \<and>
       requests (multis v m) = map_option (\<lambda>rq. st_delete rq e) (requests (multis w m))"
    using c f2 step mult s2(2) [of m] s1(2) [of m] s0(2)
    by (auto simp: completed_requests map_option_case split: sum.splits if_splits)
  have "rb_curl_multi_has_easy n i (w1\<lparr>lib := l\<rparr>) = rb_curl_multi_has_easy n i w" for n i
    using same_has_easy [OF sw] by (simp add: rb_curl_multi_has_easy_def world_simps)
  then show "r = Inl x \<Longrightarrow> detach_step members m e w v \<or>
       (\<forall>n i. rb_curl_multi_has_easy n i v = rb_curl_multi_has_easy n i w)"
    using c f2 step same_has_easy [OF sw] by (auto split: sum.splits if_splits)
qed

lemma clear_multi_ok:
  assumes "world_ok members w" and "\<And>n. \<not> rb_curl_multi_has_easy n e w"
  shows "world_ok members (upd_rbce e (\<lambda>r. r\<lparr>multi := k\<rparr>) w)"
proof -
  let ?v = "upd_rbce e (\<lambda>r. r\<lparr>multi := k\<rparr>) w"
  have has: "rb_curl_multi_has_easy n i ?v = rb_curl_multi_has_easy n i w" for n i
    by (simp add: rb_curl_multi_has_easy_def world_simps)
  have c: "curl (rbce_of i ?v) = curl (rbce_of i w)" for i by (simp add: world_simps)
  have "table_ok n w" for n using assms(1) by (simp add: world_ok_def)
  then have "table_ok n ?v" for n
    using assms(2) [of n]
    by (fastforce simp: table_ok_def world_simps has_easy_iff st_keys_def image_iff split: option.splits)
  moreover have "members_ok members n ?v" for n
    using assms(1) by (simp add: world_ok_def members_ok_def has c) (simp add: world_simps)
  moreover have "handles_distinct ?v"
    using assms(1) [THEN conjunct1 [OF iffD1 [OF world_ok_def]]]
    unfolding handles_distinct_def c by (simp only: world_simps)
  ultimately show ?thesis by (simp add: world_ok_def)
qed

lemma finish_keeps:
  "keeps_ok members (rb_curl_multi_finish_completion_callbacks m e)"
proof (rule keeps_okI)
  fix w :: "'a world" assume ok: "world_ok members w"
  let ?w1 = "upd_rbcm m (\<lambda>c. c\<lparr>multi_callback_active := False\<rparr>)
    (upd_rbce e (\<lambda>r. r\<lparr>callback_active := False\<rparr>) w)"
  have "same_attachment w ?w1"
    by (simp add: same_attachment_def world_simps)
  then have ok1: "world_ok members ?w1" using ok by (rule world_ok_same)
  then have "\<not> rb_curl_multi_has_easy n e ?w1"
    if "multi (rbce_of e ?w1) = Some m" "\<not> rb_curl_multi_has_easy m e ?w1" for n
    using that has_easy_multi(1) [of n ?w1 e] by (auto simp: world_ok_def)
  with ok1 show "world_ok members (snd (rb_curl_multi_finish_completion_callbacks m e w))"
    by (simp add: rb_curl_multi_finish_completion_callbacks_def Let_def clear_multi_ok)
qed

lemma run_callbacks_keeps:
  assumes "libcurl_multi_ok X members" and "user_ok members X"
  shows "keeps_ok members (rb_curl_multi_run_completion_callbacks X m e result s)"
proof -
  note status = run_status_callback_keeps [OF assms]
  have take: "keeps_ok members (on_rbce e (\<lambda>r. case rb_curl_easy_take_callback_error r of (x, r') \<Rightarrow> (Inr x, r')))"
  proof (rule keeps_okI)
    fix w assume ok: "world_ok members w"
    have "same_attachment w (snd (on_rbce e (\<lambda>r. case rb_curl_easy_take_callback_error r of (x, r') \<Rightarrow> (Inr x, r')) w))"
      by (simp add: world_simps same_attachment_def rb_curl_easy_take_callback_error_def
          split: prod.splits)
    then show "world_ok members (snd (on_rbce e
        (\<lambda>r. case rb_curl_easy_take_callback_error r of (x, r') \<Rightarrow> (Inr x, r')) w))"
      using ok by (rule world_ok_same)
  qed
  have complete: "keeps_ok members (\<lambda>w. let complete = rb_easy_get ''complete_proc'' (rbce_of e w)
       in if complete = Qnil then (Inr None, w)
          else run_status_callback X m e s err complete [RObj e] None w)" for err
    by (rule keeps_okI) (simp add: Let_def keeps_okD [OF status])
  have dispatch: "keeps_ok members (\<lambda>w. let rbce = rbce_of e w
       in case completion_callback result (curl_info_response_code X (curl rbce) (lib w))
                 (curl_info_redirect_count X (curl rbce) (lib w)) rbce of
            None \<Rightarrow> (Inr did, w)
          | Some (key, with_error) \<Rightarrow>
              run_status_callback X m e s err (rb_easy_get key rbce)
                (RObj e # (if with_error then [easy_error_value (me_env X) result] else []))
                did w)" for err did
    by (rule keeps_okI) (simp add: Let_def keeps_okD [OF status] split: option.split prod.split)
  have final: "keeps_ok members (raise_completion_callback_error_if_any did err)" for did err
    by (simp add: raise_completion_callback_error_if_any_def ok_intros split: option.splits)
  show ?thesis
    unfolding rb_curl_multi_run_completion_callbacks_def
    by (intro keeps_ok_bind take complete dispatch final keeps_ok_modify)
      (auto simp: world_simps same_attachment_refl split: option.splits)
qed

lemma find_easy_by_handle_None:
  assumes "find_easy_by_handle m h w = None" and "rb_curl_multi_has_easy m e w"
  shows "curl (rbce_of e w) \<noteq> Some h"
  using assms
  by (auto simp: find_easy_by_handle_def has_easy_iff st_keys_def find_None_iff split: option.splits)

lemma remove_unknown_ok:
  assumes lib: "libcurl_multi_ok X members" and ok: "world_ok members w"
    and none: "find_easy_by_handle m c w = None"
    and cl: "curl_multi_remove_handle X (handle (rbcm_of m w)) (Some c) (lib w) = (code, l)"
  shows "world_ok members (w\<lparr>lib := l\<rparr>)"
proof (rule world_ok_lib [OF ok])
  show "members l = members (lib w)"
  proof (cases "code = 0")
    case True
    with cl libcurl_laws(3) [OF lib] obtain h S where h: "handle (rbcm_of m w) = Some h"
      "members (lib w) h = Some S" "members l = (members (lib w))(h \<mapsto> S - {c})" by fastforce
    have "members_ok members m w" using ok by (simp add: world_ok_def)
    then have "Some ` S = (\<lambda>e. curl (rbce_of e w)) ` {e. rb_curl_multi_has_easy m e w}"
      using h by (simp add: members_ok_def)
    moreover have "Some c \<notin> (\<lambda>e. curl (rbce_of e w)) ` {e. rb_curl_multi_has_easy m e w}"
      using find_easy_by_handle_None [OF none] by force
    ultimately have "c \<notin> S" by blast
    then show ?thesis using h by auto
  next
    case False
    then show ?thesis using libcurl_laws(4) [OF lib cl] by simp
  qed
qed

lemma handle_complete_ok:
  assumes lib: "libcurl_multi_ok X members" and user: "user_ok members X" and ok: "world_ok members w"
    and known: "\<And>e. find_easy_value_for_handle X m c w = Some e \<Longrightarrow> rb_curl_multi_has_easy m e w"
  shows "world_ok members (snd (rb_curl_mutli_handle_complete X m c result w))"
proof (cases "find_easy_value_for_handle X m c w")
  case None
  then have "find_easy_by_handle m c w = None"
    by (auto simp: find_easy_value_for_handle_def split: option.splits rvalue.splits)
  then show ?thesis
    using None ok remove_unknown_ok [OF lib ok]
    by (cases "curl_multi_remove_handle X (handle (rbcm_of m w)) (Some c) (lib w)")
      (simp add: rb_curl_mutli_handle_complete_def bind_def on_lib_eq ret_def)
next
  case (Some e)
  obtain r u where d: "detach_completed X m e result w = (r, u)" by fastforce
  have "world_ok members u" using detach_completed_result(1) [OF lib user ok known [OF Some] d] .
  then show ?thesis
    using Some d
    by (auto simp: rb_curl_mutli_handle_complete_def bind_def [of "detach_completed X m e result"] bind_gets
        intro: keeps_okD [OF keeps_ok_ensure [OF run_callbacks_keeps [OF lib user] finish_keeps]]
        split: sum.splits)
qed

section \<open>Closing\<close>

lemma detach_easy_entry_reads:
  "rbcm_of n (detach_easy_entry X m e w) = rbcm_of n w"
  "multis (detach_easy_entry X m e w) = multis w"
  "curl (rbce_of i (detach_easy_entry X m e w)) = curl (rbce_of i w)"
  "multi (rbce_of i (detach_easy_entry X m e w)) = (if i = e then None else multi (rbce_of i w))"
  by (simp_all add: detach_easy_entry_def world_simps on_lib_eq)

lemma detach_easy_entry_members:
  assumes "libcurl_multi_ok X members" and "handle (rbcm_of m w) \<noteq> Some h"
  shows "members (lib (detach_easy_entry X m e w)) h = members (lib w) h"
proof -
  obtain code l where cl: "curl_multi_remove_handle X (handle (rbcm_of m w)) (curl (rbce_of e w)) (lib w)
    = (code, l)" by fastforce
  have "members l h = members (lib w) h"
    using libcurl_laws(3) [OF assms(1)] libcurl_laws(4) [OF assms(1) cl] cl assms(2)
    by (cases "code = 0") fastforce+
  then show ?thesis by (simp add: detach_easy_entry_def world_simps on_lib_eq cl)
qed

lemma detach_entries:
  assumes v: "v = foldl (\<lambda>v p. detach_easy_entry X m (snd p) v) w t"
  shows "rbcm_of n v = rbcm_of n w" and "multis v = multis w" and "curl (rbce_of i v) = curl (rbce_of i w)"
    and "multi (rbce_of i v) = (if i \<in> snd ` set t then None else multi (rbce_of i w))"
    and "libcurl_multi_ok X members \<Longrightarrow> handle (rbcm_of m w) \<noteq> Some h \<Longrightarrow>
      members (lib v) h = members (lib w) h"
  unfolding v
  by (induction t arbitrary: w) (auto simp: detach_easy_entry_reads detach_easy_entry_members)

text \<open>Closing, seen through the consistency conditions.\<close>

definition close_step :: "('l \<Rightarrow> nat \<rightharpoonup> nat set) \<Rightarrow> nat \<Rightarrow> 'l world \<Rightarrow> 'l world \<Rightarrow> bool" where
  "close_step members m w v \<longleftrightarrow>
     attached (rbcm_of m v) = None \<and> handle (rbcm_of m v) = None \<and> active (rbcm_of m v) = 0 \<and>
     (\<forall>n. n \<noteq> m \<longrightarrow> attached (rbcm_of n v) = attached (rbcm_of n w) \<and>
        active (rbcm_of n v) = active (rbcm_of n w) \<and> handle (rbcm_of n v) = handle (rbcm_of n w)) \<and>
     (\<forall>i. curl (rbce_of i v) = curl (rbce_of i w) \<and>
        multi (rbce_of i v) = (if rb_curl_multi_has_easy m i w then None else multi (rbce_of i w))) \<and>
     (\<forall>h. members (lib v) h = (if handle (rbcm_of m w) = Some h then None else members (lib w) h))"

lemma has_easy_close:
  "close_step members m w v \<Longrightarrow> rb_curl_multi_has_easy n i v \<longleftrightarrow> n \<noteq> m \<and> rb_curl_multi_has_easy n i w"
  by (cases "n = m") (simp_all add: close_step_def rb_curl_multi_has_easy_def)

lemma close_step_keeps:
  assumes ok: "world_ok members w" and step: "close_step members m w v"
  shows "world_ok members v"
proof -
  have c: "curl (rbce_of i v) = curl (rbce_of i w)" for i using step by (simp add: close_step_def)
  have hd: "handle (rbcm_of n v) = (if n = m then None else handle (rbcm_of n w))" for n
    using step by (simp add: close_step_def)
  have okn: "table_ok n w" "members_ok members n w" "handles_distinct w" for n
    using ok by (auto simp: world_ok_def)
  have "table_ok n v" for n
  proof (cases "n = m")
    case True
    then show ?thesis using step by (simp add: close_step_def table_ok_def)
  next
    case False
    then have same: "attached (rbcm_of n v) = attached (rbcm_of n w)"
      "active (rbcm_of n v) = active (rbcm_of n w)" "handle (rbcm_of n v) = handle (rbcm_of n w)"
      using step by (auto simp: close_step_def)
    have "multi (rbce_of i v) = Some n" if "attached (rbcm_of n w) = Some t" "(i, j) \<in> set t" for t i j
    proof -
      have "multi (rbce_of i w) = Some n" using okn(1) [of n] that by (auto simp: table_ok_def)
      moreover have "\<not> rb_curl_multi_has_easy m i w"
        using has_easy_multi(1) [OF okn(1)] False calculation by fastforce
      ultimately show ?thesis using step by (simp add: close_step_def)
    qed
    then show ?thesis using okn(1) [of n] unfolding table_ok_def same by (auto split: option.splits)
  qed
  moreover have "members_ok members n v" for n
  proof (cases "n = m")
    case False
    have "members (lib v) h = members (lib w) h" if "handle (rbcm_of n w) = Some h" for h
      using step that distinct_handle [OF ok that, of m] False by (auto simp: close_step_def)
    then show ?thesis
      using okn(2) [of n] False by (simp add: members_ok_def has_easy_close [OF step] c hd)
  qed (simp add: members_ok_def hd)
  moreover have "handles_distinct v"
    using okn(3) unfolding handles_distinct_def c hd by (auto split: if_splits)
  ultimately show ?thesis by (simp add: world_ok_def)
qed

text \<open>Detaching everything and freeing libcurl's handle, which closing and the free function
  share.\<close>

lemma free_close_step:
  assumes lib: "libcurl_multi_ok X members" and ok: "world_ok members w"
  shows "close_step members m w (curl_multi_free X m w)"
proof (cases "attached (rbcm_of m w)")
  case None
  moreover have "table_ok m w" using ok by (simp add: world_ok_def)
  ultimately show ?thesis
    by (simp add: close_step_def curl_multi_free_def rb_curl_multi_detach_all_def table_ok_def
        rb_curl_multi_has_easy_def)
next
  case (Some t)
  have tab: "table_ok m w" using ok by (simp add: world_ok_def)
  then obtain h where h: "handle (rbcm_of m w) = Some h" using Some by (auto simp: table_ok_def)
  let ?w0 = "upd_rbcm m (\<lambda>c. c\<lparr>attached := None\<rparr>) w"
  let ?w1 = "foldl (\<lambda>v p. detach_easy_entry X m (snd p) v) ?w0 t"
  let ?v = "upd_rbcm m (\<lambda>c. c\<lparr>handle := None\<rparr>)
     ((upd_rbcm m (\<lambda>c. c\<lparr>active := 0, running := 0\<rparr>) ?w1)\<lparr>lib := curl_multi_cleanup X h (lib ?w1)\<rparr>)"
  have free: "curl_multi_free X m w = ?v"
    using Some h by (simp add: curl_multi_free_def rb_curl_multi_detach_all_def world_simps detach_entries [OF refl])
  have keys: "i \<in> snd ` set t \<longleftrightarrow> rb_curl_multi_has_easy m i w" for i
    using tab Some by (force simp: table_ok_def has_easy_iff st_keys_def)
  have "members (lib ?v) h' = (if h' = h then None else members (lib w) h')" for h'
    by (simp add: world_simps libcurl_laws(5) [OF lib] detach_entries(5) [OF refl lib] h)
  then show ?thesis
    unfolding free close_step_def using h by (auto simp: world_simps detach_entries [OF refl] keys)
qed

lemma close_eq:
  assumes "(perform_active (rbcm_of m w) \<or> multi_callback_active (rbcm_of m w)) \<longrightarrow>
    allow_close_during_perform (rbcm_of m w)"
  shows "ruby_curl_multi_close X m w = (Inr m,
     upd_object m (\<lambda>ob. ob\<lparr>deferred_exception := None, deferred_exception_source_id := None\<rparr>)
       (upd_rbcm m (\<lambda>c. c\<lparr>active := 0, running := 0\<rparr>) (curl_multi_free X m w)))"
  using assms
  by (auto simp: ruby_curl_multi_close_def curl_multi_free_def Let_def bind_def cmd_defs
      clear_multi_deferred_exception_if_any_def clear_multi_deferred_exception_source_id_if_any_def
      upd_object_def split: option.splits)

lemma close_close_step:
  assumes lib: "libcurl_multi_ok X members" and ok: "world_ok members w"
    and close: "ruby_curl_multi_close X m w = (Inr k, v)"
  shows "close_step members m w v"
proof -
  have free: "close_step members m w (curl_multi_free X m w)" by (rule free_close_step [OF lib ok])
  have "v = upd_object m (\<lambda>ob. ob\<lparr>deferred_exception := None, deferred_exception_source_id := None\<rparr>)
       (upd_rbcm m (\<lambda>c. c\<lparr>active := 0, running := 0\<rparr>) (curl_multi_free X m w))"
    using close close_eq [of m w X] by (auto simp: ruby_curl_multi_close_def rb_raise_def split: if_splits)
  with free show ?thesis by (simp add: close_step_def world_simps)
qed

section \<open>The operations as a step relation\<close>

text \<open>An invariant of a step relation holds in every state the steps reach.\<close>

locale invariant_of_steps =
  fixes step :: "'s \<Rightarrow> 's \<Rightarrow> bool" and inv :: "'s \<Rightarrow> bool"
  assumes kept: "step s t \<Longrightarrow> inv s \<Longrightarrow> inv t"
begin

lemma reached: "step\<^sup>*\<^sup>* s t \<Longrightarrow> inv s \<Longrightarrow> inv t"
  by (induction rule: rtranclp_induct) (auto intro: kept)

end

text \<open>What Ruby code and the perform loop do to the multi handles, each on any handle and with any
  result. \<open>remove\<close> is restricted to attached handles, and a completion to handles that libcurl
  reports for attached structures; user code stands for every Ruby method called between.\<close>

inductive multi_step :: "'l multi_env \<Rightarrow> 'l world \<Rightarrow> 'l world \<Rightarrow> bool" for X where
  add: "ruby_curl_multi_add X m e w = (ra, v) \<Longrightarrow> multi_step X w v"
| remove: "rb_curl_multi_has_easy m e w \<Longrightarrow> ruby_curl_multi_remove X m e w = (ra, v) \<Longrightarrow> multi_step X w v"
| complete: "(\<And>e. find_easy_value_for_handle X m c w = Some e \<Longrightarrow> rb_curl_multi_has_easy m e w) \<Longrightarrow>
    rb_curl_mutli_handle_complete X m c result w = (ru, v) \<Longrightarrow> multi_step X w v"
| close: "ruby_curl_multi_close X m w = (ra, v) \<Longrightarrow> multi_step X w v"
| mark_closed: "ruby_curl_multi_mark_closed m w = (ra, v) \<Longrightarrow> multi_step X w v"
| free: "multi_step X w (curl_multi_free X m w)"
| ensure_handle: "ruby_curl_multi_ensure_handle X m w = (ru, v) \<Longrightarrow> multi_step X w v"
| raise_deferred: "raise_multi_deferred_exception_if_idle m w = (ru, v) \<Longrightarrow> multi_step X w v"
| user: "rb_send X obj name args w = (rv, v) \<Longrightarrow> multi_step X w v"

lemma raise_deferred_same:
  "raise_multi_deferred_exception_if_idle m w = (r, v) \<Longrightarrow> same_attachment w v"
  by (auto simp: raise_multi_deferred_exception_if_idle_def clear_multi_deferred_exception_if_any_def
      bind_def rb_exc_raise_def same_attachment_refl world_simps split: option.splits if_splits)

lemma close_keeps:
  assumes "libcurl_multi_ok X members" and "world_ok members w" and "ruby_curl_multi_close X m w = (r, v)"
  shows "world_ok members v"
proof (cases r)
  case (Inl x)
  then have "v = w"
    using assms(3) by (auto simp: ruby_curl_multi_close_def rb_raise_def bind_def cmd_defs Let_def
        clear_multi_deferred_exception_if_any_def split: if_splits)
  then show ?thesis using assms(2) by simp
next
  case (Inr k)
  then show ?thesis using close_step_keeps [OF assms(2)] close_close_step [OF assms(1,2)] assms(3) by blast
qed

lemma multi_step_keeps:
  assumes lib: "libcurl_multi_ok X members" and user: "user_ok members X"
    and "multi_step X w v" and ok: "world_ok members w"
  shows "world_ok members v"
  using assms(3)
proof cases
  case (add m e ra)
  then show ?thesis using add_result(1) [OF lib ok] by blast
next
  case (remove m e ra)
  obtain r u where u: "rb_curl_multi_remove X m e w = (r, u)" by fastforce
  then have "v = u" using remove(2) by (auto simp: ruby_curl_multi_remove_def bind_def ret_def split: sum.splits)
  then show ?thesis using remove_attached(1) [OF lib ok remove(1) u] by simp
next
  case (complete m c result ru)
  then show ?thesis using handle_complete_ok [OF lib user ok, of m c result] by simp
next
  case (close m ra)
  then show ?thesis using close_keeps [OF lib ok] by blast
next
  case (mark_closed m ra)
  then have "same_attachment w v" by (auto simp: ruby_curl_multi_mark_closed_def world_simps)
  then show ?thesis using ok world_ok_same by blast
next
  case (free m)
  then show ?thesis using close_step_keeps [OF ok free_close_step [OF lib ok]] by simp
next
  case (ensure_handle m ru)
  then show ?thesis using ensure_handle_ok(1) [OF lib ok] by blast
next
  case (raise_deferred m ru)
  then show ?thesis using raise_deferred_same ok world_ok_same by blast
next
  case (user obj name args rv)
  then show ?thesis using keeps_okD [OF user_okD(1) [OF assms(2)] ok, of obj name args] by simp
qed

text \<open>The multi interface modelled as a step relation under the hypotheses about libcurl and user
  code; without them no step is considered.\<close>

definition good_step :: "('l \<Rightarrow> nat \<rightharpoonup> nat set) \<Rightarrow> 'l multi_env \<Rightarrow> 'l world \<Rightarrow> 'l world \<Rightarrow> bool" where
  "good_step members X w v \<longleftrightarrow> libcurl_multi_ok X members \<and> user_ok members X \<and> multi_step X w v"

interpretation multi: invariant_of_steps "good_step members X" "world_ok members"
  by unfold_locales (auto simp: good_step_def intro: multi_step_keeps)

lemma good_steps:
  assumes "libcurl_multi_ok X members" and "user_ok members X"
  shows "good_step members X = multi_step X"
  using assms by (simp add: good_step_def fun_eq_iff)

lemma attach_step_same:
  assumes "same_attachment w u" and "attach_step members m e u v"
  shows "attach_step members m e w v"
proof -
  have m: "attached (rbcm_of m u) = attached (rbcm_of m w)" "active (rbcm_of m u) = active (rbcm_of m w)"
    "handle (rbcm_of m u) = handle (rbcm_of m w)" for m
    using assms(1) by (auto simp: same_attachment_def)
  have e: "multi (rbce_of e u) = multi (rbce_of e w)" "curl (rbce_of e u) = curl (rbce_of e w)" "lib u = lib w" for e
    using assms(1) by (auto simp: same_attachment_def)
  show ?thesis using assms(2) unfolding attach_step_def m e .
qed

lemma add_success:
  assumes lib: "libcurl_multi_ok X members" and ok: "world_ok members w"
    and new: "\<not> rb_curl_multi_has_easy m e w" "handle (rbcm_of m w) \<noteq> None"
    and add: "ruby_curl_multi_add X m e w = (Inr k, v)"
  shows "attach_step members m e w v" and "\<not> rb_curl_multi_has_easy n e w"
proof -
  have e0: "ruby_curl_multi_ensure_handle X m w = (Inr (), w)"
    using new(2) by (auto simp: ruby_curl_multi_ensure_handle_def)
  let ?w1 = "after_setup X e w"
  obtain code l where cl: "curl_multi_add_handle X (handle (rbcm_of m ?w1)) (curl (rbce_of e ?w1))
      (lib ?w1) = (code, l)" by fastforce
  have ok1: "world_ok members ?w1" using ok after_setup_same world_ok_same by blast
  have "\<not> in_other_multi m e w \<and> (code = 0 \<or> code = -1) \<and> v = attach_easy m e l ?w1"
    using add [unfolded add_cases [OF e0]] new(1) cl by (auto simp: Let_def split: sum.splits if_splits)
  then show "attach_step members m e w v" "\<not> rb_curl_multi_has_easy n e w"
    using attach_step_same [OF after_setup_same attach_easy_step [OF lib ok1 cl]]
      not_attached [OF ok new(1)] by blast+
qed

lemma st_delete_insert_new: "st_lookup t k = None \<Longrightarrow> st_delete (st_insert t k v) k = t"
proof (induction t)
  case (Cons p t)
  then show ?case by (cases p) (auto simp: st_lookup_def st_delete_def split: if_splits)
qed (simp add: st_delete_def)

lemma attach_detach:
  assumes ok: "world_ok members w" and new: "\<not> rb_curl_multi_has_easy m e w"
    and attach: "attach_step members m e w v" and detach: "detach_step members m e v u"
  shows "attached (rbcm_of n u) = attached (rbcm_of n w)" and "active (rbcm_of n u) = active (rbcm_of n w)"
    and "members (lib u) = members (lib w)"
proof -
  obtain t h x S where w: "attached (rbcm_of m w) = Some t" "handle (rbcm_of m w) = Some h"
    "curl (rbce_of e w) = Some x" "members (lib w) h = Some S"
    and v: "attached (rbcm_of m v) = Some (st_insert t e e)" "active (rbcm_of m v) = active (rbcm_of m w) + 1"
    "handle (rbcm_of m v) = Some h" "members (lib v) = (members (lib w))(h \<mapsto> insert x S)"
    "curl (rbce_of e v) = Some x"
    using attach by (auto simp: attach_step_def)
  have t: "st_lookup t e = None" using new w(1) by (simp add: rb_curl_multi_has_easy_def)
  show "attached (rbcm_of n u) = attached (rbcm_of n w)"
    using attach detach t w(1) v(1)
    by (cases "n = m") (auto simp: attach_step_def detach_step_def st_delete_insert_new)
  show "active (rbcm_of n u) = active (rbcm_of n w)"
    using attach detach by (cases "n = m") (auto simp: attach_step_def detach_step_def)
  have "members_ok members m w" using ok by (simp add: world_ok_def)
  then have "Some ` S = (\<lambda>e. curl (rbce_of e w)) ` {e. rb_curl_multi_has_easy m e w}"
    using w by (simp add: members_ok_def)
  moreover have "Some x \<notin> (\<lambda>e. curl (rbce_of e w)) ` {e. rb_curl_multi_has_easy m e w}"
    using new distinct_curl [OF ok w(3)] by (metis (mono_tags, lifting) imageE mem_Collect_eq)
  ultimately have "x \<notin> S" by blast
  moreover have "members (lib u) = (members (lib v))(h \<mapsto> insert x S - {x})"
    using detach v by (auto simp: detach_step_def)
  ultimately show "members (lib u) = members (lib w)" using v(4) w(4) by (simp add: fun_eq_iff)
qed

end
