(* ===== verification/Curb_Multi_Sample.thy ===== *)
theory Curb_Multi_Sample
  imports Curb_Multi_Ops
begin

text \<open>
  A concrete libcurl, user code and world, in which the hypotheses about them hold: the multi
  interface over a table of added handles, a queue of messages and a number of rounds the
  transfers still need. A status callback \<open>RObj 666\<close> raises, every other one returns.
\<close>

record sample_lib =
  handles_made :: nat
  added :: "nat \<Rightarrow> nat set option"
  messages :: "(nat \<times> int) list"
  rounds :: nat

definition sample_members :: "sample_lib \<Rightarrow> nat \<Rightarrow> nat set option" where
  "sample_members l i = (if i < handles_made l then added l i else None)"

definition sample_change :: "(nat \<Rightarrow> nat set \<Rightarrow> nat set) \<Rightarrow> nat option \<Rightarrow> nat option \<Rightarrow> sample_lib \<Rightarrow> int \<times> sample_lib" where
  "sample_change f h c l =
     (case h of None \<Rightarrow> (1, l)
      | Some i \<Rightarrow> (case c of None \<Rightarrow> (2, l)
        | Some x \<Rightarrow> (case sample_members l i of None \<Rightarrow> (1, l)
          | Some S \<Rightarrow> (0, l\<lparr>added := (added l)(i \<mapsto> f x S)\<rparr>))))"

definition sample_multi :: "sample_lib multi_env" where
  "sample_multi = \<lparr>
     me_setup = sample_setup,
     curl_multi_init = (\<lambda>l. (Some (handles_made l), l\<lparr>handles_made := Suc (handles_made l),
        added := (added l)(handles_made l \<mapsto> {})\<rparr>)),
     curl_multi_cleanup = (\<lambda>h l. l\<lparr>added := (added l)(h := None)\<rparr>),
     curl_multi_add_handle = sample_change insert,
     curl_multi_remove_handle = sample_change (\<lambda>x S. S - {x}),
     curl_multi_setopt = (\<lambda>_ _ _ l. l),
     curl_multi_info_read = (\<lambda>_ l. case messages l of [] \<Rightarrow> (None, l)
        | (c, code) # rest \<Rightarrow> (Some (True, c, code), l\<lparr>messages := rest\<rparr>)),
     curl_info_private = (\<lambda>_ _. None),
     curl_info_response_code = (\<lambda>_ _. 200),
     curl_info_redirect_count = (\<lambda>_ _. 0),
     curl_multi_perform = (\<lambda>_ w. ((0, int (rounds (lib w) - 1)), w\<lparr>lib := (lib w)\<lparr>rounds := rounds (lib w) - 1\<rparr>\<rparr>)),
     curl_multi_timeout = (\<lambda>_ l. ((0, 50), l)),
     curl_multi_fdset = (\<lambda>_ l. ((0, 3), l)),
     curl_multi_wait = (\<lambda>_ _. ret (0, 1)),
     rb_send = (\<lambda>obj name args. if obj = RObj 666 \<and> name = ''call''
        then rb_raise ''rb_eRuntimeError'' ''callback failed'' else ret Qnil),
     multi_respond_to = (\<lambda>_ _. False),
     cRubyFiber = Qnil,
     rb_fiber_scheduler_current = ret Qnil,
     rb_fiber_scheduler_kernel_sleep = (\<lambda>_ _. ret Qnil),
     rb_float_new = (\<lambda>s _. RInt s),
     rb_thread_fd_select = (\<lambda>_ _. ret (1, 0)),
     strerror = (\<lambda>_. ''error'')\<rparr>"

definition sample_object :: multi_object where
  "sample_object = \<lparr>rbcm = ruby_curl_multi_alloc, deferred_exception = None,
     deferred_exception_source_id = None, requests = Some [], native_safety_signatures = None,
     idle_easy_references = None\<rparr>"

definition sample_world :: "sample_lib world" where
  "sample_world = \<lparr>
     easies = (\<lambda>e. sample_easy\<lparr>curl := Some e, self := RObj e\<rparr>),
     multis = (\<lambda>_. sample_object),
     cCurlMutiDefaulttimeout = 100, cCurlMutiAutoClose = False, ractor_storage = None,
     lib = \<lparr>handles_made = 0, added = Map.empty, messages = [], rounds = 0\<rparr>\<rparr>"

lemmas sample_multi_simps = sample_multi_def multi_env.simps

lemma sample_ops:
  "curl_multi_add_handle sample_multi = sample_change insert"
  "curl_multi_remove_handle sample_multi = sample_change (\<lambda>x S. S - {x})"
  "curl_multi_cleanup sample_multi i l = l\<lparr>added := (added l)(i := None)\<rparr>"
  "curl_multi_init sample_multi l = (Some (handles_made l), l\<lparr>handles_made := Suc (handles_made l),
        added := (added l)(handles_made l \<mapsto> {})\<rparr>)"
  "curl_multi_setopt sample_multi h opt v l = l"
  "curl_multi_info_read sample_multi h l = (case messages l of [] \<Rightarrow> (None, l)
        | (c, code) # rest \<Rightarrow> (Some (True, c, code), l\<lparr>messages := rest\<rparr>))"
  by (simp_all add: sample_multi_simps)

lemma sample_members_update:
  "sample_members l i = Some S \<Longrightarrow> sample_members (l\<lparr>added := (added l)(i \<mapsto> T)\<rparr>) = (sample_members l)(i \<mapsto> T)"
  by (auto simp: sample_members_def fun_eq_iff split: if_splits)

lemma sample_change_law:
  assumes "sample_change f h c l = (code, l')"
  shows "code = 0 \<and> (\<exists>i x S. h = Some i \<and> c = Some x \<and> sample_members l i = Some S \<and>
           sample_members l' = (sample_members l)(i \<mapsto> f x S)) \<or>
         0 < code \<and> l' = l"
  using assms by (auto simp: sample_change_def sample_members_update split: option.splits)

lemma sample_lib_ok: "libcurl_multi_ok sample_multi sample_members"
  unfolding libcurl_multi_ok_def sample_ops
proof (intro conjI allI impI)
  fix h c l code l' assume "sample_change insert h c l = (code, l')"
  from sample_change_law [OF this]
  show "if code = 0 \<or> code = - 1
       then \<exists>i x S. h = Some i \<and> c = Some x \<and> sample_members l i = Some S \<and>
              sample_members l' = (sample_members l)(i \<mapsto> insert x S)
       else sample_members l' = sample_members l" by fastforce
next
  fix h c l code l' assume "sample_change (\<lambda>x S. S - {x}) h c l = (code, l')"
  from sample_change_law [OF this]
  show "if code = 0
       then \<exists>i x S. h = Some i \<and> c = Some x \<and> sample_members l i = Some S \<and>
              sample_members l' = (sample_members l)(i \<mapsto> S - {x})
       else sample_members l' = sample_members l" by fastforce
qed (auto simp: sample_members_def fun_eq_iff split: option.splits list.splits prod.splits)

lemma sample_user_ok: "user_ok sample_members sample_multi"
  by (simp add: user_ok_def sample_multi_simps keeps_ok_pure same_attachment_refl cmd_defs)

lemma sample_flush: "flush_stderr_if_any sample_multi e w = (Inr (), w)"
  by (simp add: flush_stderr_if_any_def sample_multi_simps bind_def ret_def Let_def)

lemma sample_fields_multi [simp]:
  "curl (rbce_of e sample_world) = Some e" "multi (rbce_of e sample_world) = None"
  "self (rbce_of e sample_world) = RObj e" "rbcm_of m sample_world = ruby_curl_multi_alloc"
  "multis sample_world m = sample_object"
  by (simp_all add: sample_world_def rbce_of_def rbcm_of_def sample_object_def sample_easy_def
      ruby_curl_easy_allocate_def ruby_curl_easy_zero_def zero_flags_def zero_opts_def)

lemma sample_not_attached [simp]: "\<not> rb_curl_multi_has_easy m e sample_world"
  by (simp add: rb_curl_multi_has_easy_def ruby_curl_multi_alloc_def)

lemma sample_world_ok: "world_ok sample_members sample_world"
  by (simp add: world_ok_def handles_distinct_def table_ok_def members_ok_def ruby_curl_multi_alloc_def)

text \<open>Adding an easy handle to a new multi handle there.\<close>

lemma sample_easy_ready: "setup_ready sample_setup (rbce_of e sample_world)"
proof -
  have "rb_easy_get k (rbce_of e sample_world) = rb_easy_get k sample_easy"
    "network_policy (rbce_of e sample_world) = network_policy sample_easy" for k
    by (simp_all add: sample_world_def rbce_of_def rb_easy_get_def)
  then show ?thesis using sample_ready by (simp add: setup_ready_def)
qed

definition sample_ensured :: "nat \<Rightarrow> sample_lib world" where
  "sample_ensured m = snd (ruby_curl_multi_ensure_handle sample_multi m sample_world)"

lemma sample_ensure:
  "ruby_curl_multi_ensure_handle sample_multi m sample_world = (Inr (), sample_ensured m)"
  by (simp add: sample_ensured_def ruby_curl_multi_ensure_handle_def ruby_curl_multi_alloc_def
      ruby_curl_multi_init_def bind_def on_lib_eq cmd_defs sample_ops)

lemma sample_ensured_fields:
  "rbce_of e (sample_ensured m) = rbce_of e sample_world" "handle (rbcm_of m (sample_ensured m)) = Some 0"
  "sample_members (lib (sample_ensured m)) 0 = Some {}"
  "\<not> rb_curl_multi_has_easy n e (sample_ensured m)"
  "attached (rbcm_of m (sample_ensured m)) = Some []" "active (rbcm_of m (sample_ensured m)) = 0"
  by (simp_all add: sample_ensured_def ruby_curl_multi_ensure_handle_def ruby_curl_multi_alloc_def
      ruby_curl_multi_init_def bind_def on_lib_eq cmd_defs sample_ops world_simps sample_members_def
      rb_curl_multi_has_easy_def st_init_numtable_def st_lookup_def)
    (simp_all add: sample_world_def)

lemma sample_add_from:
  assumes "ruby_curl_multi_ensure_handle sample_multi m w = (Inr (), sample_ensured m)"
  shows "\<exists>v. ruby_curl_multi_add sample_multi m e w = (Inr m, v)"
proof -
  have env: "me_setup sample_multi = sample_setup" by (simp add: sample_multi_simps)
  obtain t where t: "ruby_curl_easy_setup sample_setup (rbce_of e sample_world) = (Inr (), t)"
    using setup_ready_returns [OF sample_easy_ready] by blast
  have "curl t = Some e" using setup_keeps_fields(2) [of sample_setup "rbce_of e sample_world"] t by simp
  then show ?thesis
    unfolding add_cases [OF assms]
    using sample_ensured_fields t
    by (simp add: in_other_multi_def env after_setup_def Let_def world_simps sample_ops sample_change_def)
qed

lemma sample_add: "\<exists>v. ruby_curl_multi_add sample_multi m e sample_world = (Inr m, v)"
  by (rule sample_add_from [OF sample_ensure])

lemma sample_add_ensured: "\<exists>v. ruby_curl_multi_add sample_multi m e (sample_ensured m) = (Inr m, v)"
  by (rule sample_add_from) (simp add: ruby_curl_multi_ensure_handle_def sample_ensured_fields)

lemma sample_added:
  assumes "ruby_curl_multi_add sample_multi 0 7 (sample_ensured 0) = (Inr 0, v)"
  shows "world_ok sample_members v" and "rb_curl_multi_has_easy 0 7 v" and "\<not> rb_curl_multi_has_easy 0 8 v"
    and "active (rbcm_of 0 v) = 1" and "handle (rbcm_of 0 v) = Some 0" and "curl (rbce_of i v) = Some i"
    and "sample_members (lib v) 0 = Some {7}" and "attached (rbcm_of 0 v) = Some [(7, 7)]"
    and "find_easy_value_for_handle sample_multi 0 7 v = Some 7"
proof -
  have ok: "world_ok sample_members (sample_ensured 0)"
    using ensure_handle_ok(1) [OF sample_lib_ok sample_world_ok sample_ensure] .
  show "world_ok sample_members v" using add_result(1) [OF sample_lib_ok ok assms] .
  have attach: "attach_step sample_members 0 7 (sample_ensured 0) v"
    by (rule add_success(1) [OF sample_lib_ok ok sample_ensured_fields(4) _ assms])
      (simp add: sample_ensured_fields)
  show "rb_curl_multi_has_easy 0 7 v" "\<not> rb_curl_multi_has_easy 0 8 v"
    by (simp_all add: has_easy_attach [OF attach] sample_ensured_fields)
  show "active (rbcm_of 0 v) = 1" "handle (rbcm_of 0 v) = Some 0" "sample_members (lib v) 0 = Some {7}"
    and c: "curl (rbce_of i v) = Some i"
    and a: "attached (rbcm_of 0 v) = Some [(7, 7)]" for i
    using attach sample_ensured_fields by (auto simp: attach_step_def)
  show "find_easy_value_for_handle sample_multi 0 7 v = Some 7"
    by (simp add: a c find_easy_value_for_handle_def find_easy_by_handle_def sample_multi_simps)
qed

lemma sample_flags:
  assumes "ruby_curl_multi_add sample_multi 0 7 (sample_ensured 0) = (Inr 0, v)"
  shows "\<not> perform_active (rbcm_of 0 v)" and "\<not> multi_callback_active (rbcm_of 0 v)"
proof -
  have e0: "ruby_curl_multi_ensure_handle sample_multi 0 (sample_ensured 0) = (Inr (), sample_ensured 0)"
    by (simp add: ruby_curl_multi_ensure_handle_def sample_ensured_fields)
  obtain l where "v = attach_easy 0 7 l (after_setup sample_multi 7 (sample_ensured 0))"
    using assms [unfolded add_cases [OF e0]] sample_ensured_fields(4)
    by (auto simp: Let_def split: sum.splits if_splits prod.splits)
  moreover have "\<not> perform_active (rbcm_of 0 (sample_ensured 0))" "\<not> multi_callback_active (rbcm_of 0 (sample_ensured 0))"
    by (simp_all add: sample_ensured_def ruby_curl_multi_ensure_handle_def ruby_curl_multi_alloc_def
      ruby_curl_multi_init_def bind_def on_lib_eq cmd_defs sample_ops world_simps)
  ultimately show "\<not> perform_active (rbcm_of 0 v)" "\<not> multi_callback_active (rbcm_of 0 v)"
    by (simp_all add: attach_easy_def after_setup_def world_simps split: option.split)
qed

end
