(* ===== verification/Curb_Multi_Loop.thy ===== *)
theory Curb_Multi_Loop
  imports Curb_Multi_Sample
begin

text \<open>
  The perform loop: relations between the states before and after that the completion of a transfer
  keeps whenever the single writes and user code keep them, the two instances that matter (a deferred
  exception stays, the outstanding work does not grow), and from them the order in which exceptions
  surface, the termination of the loops, the bounds of the waits and the guard around \<open>perform\<close>.
\<close>

section \<open>Relations kept by a completion\<close>

context step_relation
begin

lemma rescued: "keeps R m \<Longrightarrow> (\<And>e. keeps R (h e)) \<Longrightarrow> keeps R (rb_rescue m h)"
  by (rule keeps_rb_rescue) (auto intro: transitive)

lemma ensured:
  assumes "keeps R m" and "keeps R f"
  shows "keeps R (rb_ensure m f)"
proof (rule keepsI)
  fix s
  show "R s (snd (rb_ensure m f s))"
    unfolding rb_ensure_state by (rule transitive [OF keepsD [OF assms(1)] keepsD [OF assms(2)]])
qed

end

text \<open>A relation that the single writes of the multi handle and the calls out of it keep.\<close>

locale multi_relation = step_relation R
  for R :: "'l world \<Rightarrow> 'l world \<Rightarrow> bool" +
  fixes X :: "'l multi_env"
  assumes easy_write: "R w (upd_rbce e f w)"
    and multi_write: "(\<And>c. running (g c) = running c) \<Longrightarrow> R w (upd_rbcm m g w)"
    and request_removed: "R w (rb_curl_multi_remove_request_reference m e w)"
    and exception_stashed: "R w (stash_multi_exception_if_unset m x i w)"
    and handle_removed: "R w (w\<lparr>lib := snd (curl_multi_remove_handle X h c (lib w))\<rparr>)"
    and user_code: "keeps R (rb_send X obj name args)"
begin

lemma writes:
  "keeps R (modify (upd_rbce e f))"
  "keeps R (modify (rb_curl_multi_remove_request_reference m e))"
  "keeps R (modify (stash_multi_exception_if_unset m x i))"
  "(\<And>c. running (g c) = running c) \<Longrightarrow> keeps R (modify (upd_rbcm m g))"
  by (auto intro!: assign easy_write request_removed exception_stashed multi_write)

lemma forgotten: "keeps R (modify (rb_curl_multi_forget_easy m e))"
  unfolding rb_curl_multi_forget_easy_def by (rule writes(4)) (simp split: option.split)

lemma lib_removed:
  "keeps R (\<lambda>w. on_lib (curl_multi_remove_handle X (h w) (c w)) w)"
  "keeps R (on_lib (curl_multi_remove_handle X a b))"
  by (simp_all add: keeps_def on_lib_eq handle_removed)

lemma raised: "keeps R (raise_multi X code)"
  by (simp add: raise_multi_def pure)

lemma flushed: "keeps R (flush_stderr_if_any X e)"
proof -
  have "keeps R (bind (rb_send X obj ''flush'' []) (\<lambda>_. ret ()))" for obj
    by (intro bound pure user_code)
  then show ?thesis by (simp add: keeps_def flush_stderr_if_any_def Let_def reflexive)
qed

lemma removed: "keeps R (rb_curl_multi_remove X m e)"
  by (rule keepsI, subst rb_curl_multi_remove_def, rule keepsD)
    (intro bound lib_removed branch raised writes forgotten dec_active_fields)

lemma easies_removed: "keeps R (remove_easies X m es)"
proof (induction es)
  case (Cons e es)
  have "keeps R (bind (modify (rb_curl_multi_remove_request_reference m e)) (\<lambda>_. rb_curl_multi_remove X m e))"
    by (intro bound writes removed)
  then have "keeps R (\<lambda>w. if multi (rbce_of e w) \<noteq> Some m \<or> \<not> rb_curl_multi_has_easy m e w then (Inr (), w)
      else bind (modify (rb_curl_multi_remove_request_reference m e)) (\<lambda>_. rb_curl_multi_remove X m e) w)"
    by (simp add: keeps_def reflexive)
  then show ?case using Cons by (auto intro: bound)
qed (simp add: pure)

lemma status_run: "keeps R (run_status_callback X m e s err callback args did)"
proof -
  have "keeps R (rb_curl_multi_remove_added_easies_since_snapshot X m s)"
    using easies_removed by (simp add: keeps_def rb_curl_multi_remove_added_easies_since_snapshot_def)
  then have "keeps R (stash_and_raise_status_callback_error_if_unmasked X m e s d err)" for d
    unfolding stash_and_raise_status_callback_error_if_unmasked_def
    by (auto intro!: bound pure writes split: option.splits)
  then show ?thesis
    unfolding run_status_callback_def by (intro bound rescued pure writes user_code)
qed

lemma callbacks_run: "keeps R (rb_curl_multi_run_completion_callbacks X m e result s)"
proof -
  have take: "keeps R (on_rbce e c)" for c :: "(ruby_curl_easy, 'a) cmd"
    by (simp add: keeps_def world_simps easy_write)
  have stash: "keeps R (modify (\<lambda>w. case err of None \<Rightarrow> w
      | Some x \<Rightarrow> stash_multi_exception_if_unset m x (Some e) w))" for err
    by (rule assign) (simp add: reflexive exception_stashed split: option.split)
  have complete: "keeps R (\<lambda>w. let complete = rb_easy_get ''complete_proc'' (rbce_of e w)
       in if complete = Qnil then (Inr None, w)
          else run_status_callback X m e s err complete [RObj e] None w)" for err
    using status_run by (simp add: keeps_def Let_def reflexive)
  have dispatch: "keeps R (\<lambda>w. let rbce = rbce_of e w
       in case completion_callback result (curl_info_response_code X (curl rbce) (lib w))
                 (curl_info_redirect_count X (curl rbce) (lib w)) rbce of
            None \<Rightarrow> (Inr did, w)
          | Some (key, with_error) \<Rightarrow>
              run_status_callback X m e s err (rb_easy_get key rbce)
                (RObj e # (if with_error then [easy_error_value (me_env X) result] else []))
                did w)" for err did
    using status_run by (simp add: keeps_def Let_def reflexive split: option.split prod.split)
  have final: "keeps R (raise_completion_callback_error_if_any did err)" for did err
    by (simp add: raise_completion_callback_error_if_any_def pure split: option.splits)
  show ?thesis
    unfolding rb_curl_multi_run_completion_callbacks_def
    by (intro bound take stash complete dispatch final writes(4)) simp
qed

lemma finished: "keeps R (rb_curl_multi_finish_completion_callbacks m e)"
proof (rule keepsI)
  fix w :: "'l world"
  let ?w1 = "upd_rbcm m (\<lambda>c. c\<lparr>multi_callback_active := False\<rparr>)
    (upd_rbce e (\<lambda>r. r\<lparr>callback_active := False\<rparr>) w)"
  have "R w ?w1" by (rule transitive [OF easy_write multi_write]) simp
  then show "R w (snd (rb_curl_multi_finish_completion_callbacks m e w))"
    by (auto simp: rb_curl_multi_finish_completion_callbacks_def Let_def intro: transitive easy_write)
qed

lemma completed_kept: "keeps R (rb_curl_mutli_handle_complete X m c result)"
proof -
  have detach: "keeps R (detach_completed X m e result)" for e
    unfolding detach_completed_def
    by (intro bound writes forgotten lib_removed flushed branch raised dec_active_fields)
  have known: "keeps R (bind (detach_completed X m e result) (\<lambda>_.
      bind (gets (capture_attached_easy_snapshot m)) (\<lambda>snapshot.
      rb_ensure (rb_curl_multi_run_completion_callbacks X m e result snapshot)
        (rb_curl_multi_finish_completion_callbacks m e))))" for e
    by (intro bound detach pure ensured callbacks_run finished)
  have unknown: "keeps R (bind (on_lib (curl_multi_remove_handle X h (Some c))) (\<lambda>_. ret ()))" for h
    by (intro bound lib_removed pure)
  show ?thesis
    using known unknown
    by (simp add: keeps_def rb_curl_mutli_handle_complete_def reflexive split: option.split)
qed

end

section \<open>Deferred exceptions\<close>

text \<open>User code that leaves a pending exception alone.\<close>

definition user_keeps_exceptions :: "'l multi_env \<Rightarrow> nat \<Rightarrow> bool" where
  "user_keeps_exceptions X m \<longleftrightarrow>
     (\<forall>obj name args w y. deferred_exception (multis w m) = Some y \<longrightarrow>
        deferred_exception (multis (snd (rb_send X obj name args w)) m) = Some y)"

definition pending_kept :: "'l multi_env \<Rightarrow> nat \<Rightarrow> 'l world \<Rightarrow> 'l world \<Rightarrow> bool" where
  "pending_kept X m w v \<longleftrightarrow>
     (user_keeps_exceptions X m \<longrightarrow>
        (\<forall>y. deferred_exception (multis w m) = Some y \<longrightarrow> deferred_exception (multis v m) = Some y))"

interpretation pending: multi_relation "pending_kept X m" X
proof unfold_locales
  show "keeps (pending_kept X m) (rb_send X obj name args)" for obj name args
    unfolding keeps_def pending_kept_def user_keeps_exceptions_def by blast
qed (auto simp: pending_kept_def world_simps rb_curl_multi_remove_request_reference_def
    stash_multi_exception_if_unset_def split: option.splits)

lemma read_messages_rel:
  assumes complete: "\<And>c result. keeps R (rb_curl_mutli_handle_complete X m c result)"
    and stash: "\<And>x i w. R w (stash_multi_exception_if_unset m x i w)"
    and read: "\<And>h w. R w (w\<lparr>lib := snd (curl_multi_info_read X h (lib w))\<rparr>)"
    and refl: "\<And>w. R w w" and trans: "\<And>w u v. R w u \<Longrightarrow> R u v \<Longrightarrow> R w v"
    and run: "read_messages n X m mh w = Some (r, v)"
  shows "r = Inr () \<and> R w v"
  using run
proof (induction n arbitrary: w)
  case (Suc n)
  obtain msg l where info: "curl_multi_info_read X mh (lib w) = (msg, l)" by fastforce
  let ?w1 = "w\<lparr>lib := l\<rparr>"
  have w1: "R w ?w1" using read [of w mh] info by simp
  show ?case
  proof (cases msg)
    case None
    then show ?thesis using Suc.prems info w1 by (simp add: on_lib_eq)
  next
    case (Some p)
    obtain isdone c result where p: "p = (isdone, c, result)" by (cases p)
    show ?thesis
    proof (cases isdone)
      case False
      then show ?thesis using Suc info w1 Some p trans by (auto simp: on_lib_eq)
    next
      case True
      obtain r2 w2 where w2: "rb_curl_mutli_handle_complete X m c result ?w1 = (r2, w2)" by fastforce
      have "R ?w1 w2" using keepsD [OF complete, of ?w1 c result] w2 by simp
      then have kept: "R w w2" "R w (stash_multi_exception_if_unset m x i w2)" for x i
        using w1 trans stash by blast+
      obtain u where u: "R w u" "read_messages n X m mh u = Some (r, v)"
        using Suc.prems info Some p True w2 kept
        by (cases r2) (auto simp: on_lib_eq rb_protect_def)
      show ?thesis using Suc.IH [OF u(2)] u(1) trans by blast
    qed
  qed
qed simp

lemma read_messages_pending:
  assumes "read_messages n X m mh w = Some (r, v)"
  shows "r = Inr () \<and> pending_kept X m w v"
  by (rule read_messages_rel [OF pending.completed_kept pending.exception_stashed _ pending.reflexive
        pending.transitive assms]) (simp add: pending_kept_def)

text \<open>
  C13: Exceptions of callbacks wait until the handle is idle. Handling the completion messages never
  raises itself; at the end the pending exception is raised, and cleared, exactly when no transfer is
  active, and otherwise it stays pending. Where user code leaves a pending exception alone, the one
  that was pending first is the one that stays or is raised, whatever the completions raise.
\<close>

theorem exceptions_wait_until_idle:
  assumes "rb_curl_multi_read_info n X m w = Some (r, v)"
  shows "(case r of
            Inl x \<Rightarrow> active (rbcm_of m v) \<le> 0 \<and> deferred_exception (multis v m) = None
          | Inr _ \<Rightarrow> deferred_exception (multis v m) = None \<or> 0 < active (rbcm_of m v)) \<and>
         (user_keeps_exceptions X m \<longrightarrow>
            (\<forall>y. deferred_exception (multis w m) = Some y \<longrightarrow>
               (case r of Inl x \<Rightarrow> x = y | Inr _ \<Rightarrow> deferred_exception (multis v m) = Some y)))"
proof -
  obtain r1 u where u: "read_messages n X m (handle (rbcm_of m w)) w = Some (r1, u)"
    using assms by (auto simp: rb_curl_multi_read_info_def pbind_def split: option.splits prod.splits)
  have r1: "r1 = Inr ()" "pending_kept X m w u" using read_messages_pending [OF u] by simp_all
  then have "raise_multi_deferred_exception_if_idle m u = (r, v)"
    using assms u by (simp add: rb_curl_multi_read_info_def pbind_def run_def)
  then show ?thesis
    using r1(2)
    by (auto simp: raise_multi_deferred_exception_if_idle_def clear_multi_deferred_exception_if_any_def
        bind_def rb_exc_raise_def pending_kept_def world_simps split: option.splits if_splits)
qed

theorem exceptions_wait_until_idle_witness:
  "\<exists>v. rb_curl_multi_read_info 1 sample_multi 0
     (upd_object 0 (\<lambda>ob. ob\<lparr>deferred_exception := Some (Exc ''rb_eRuntimeError'' ''first'')\<rparr>) sample_world) =
     Some (Inl (Exc ''rb_eRuntimeError'' ''first''), v) \<and> deferred_exception (multis v 0) = None"
proof -
  let ?w = "upd_object 0 (\<lambda>ob. ob\<lparr>deferred_exception := Some (Exc ''rb_eRuntimeError'' ''first'')\<rparr>) sample_world"
  have msg: "messages (lib sample_world) = []" by (simp add: sample_world_def)
  obtain v where run: "rb_curl_multi_read_info 1 sample_multi 0 ?w =
      Some (Inl (Exc ''rb_eRuntimeError'' ''first''), v)"
    by (simp add: rb_curl_multi_read_info_def pbind_def on_lib_eq sample_ops world_simps msg run_def
        raise_multi_deferred_exception_if_idle_def ruby_curl_multi_alloc_def bind_def rb_exc_raise_def
        clear_multi_deferred_exception_if_any_def)
  then show ?thesis using exceptions_wait_until_idle [OF run] by auto
qed

section \<open>Termination\<close>

text \<open>A program that comes to an end, and the state it returns in.\<close>

definition ends :: "('s \<Rightarrow> bool) \<Rightarrow> ('s, 'a) prog \<Rightarrow> ('s \<Rightarrow> bool) \<Rightarrow> bool" where
  "ends P c Q \<longleftrightarrow> (\<forall>s. P s \<longrightarrow> (\<exists>r t. c s = Some (r, t) \<and> (\<forall>a. r = Inr a \<longrightarrow> Q t)))"

lemma ends_bind:
  assumes "ends P c Q" and "\<And>a. ends Q (f a) T"
  shows "ends P (pbind c f) T"
  unfolding ends_def
proof (intro allI impI)
  fix s assume "P s"
  then obtain r t where c: "c s = Some (r, t)" "\<And>a. r = Inr a \<Longrightarrow> Q t"
    using assms(1) unfolding ends_def by blast
  show "\<exists>r t. pbind c f s = Some (r, t) \<and> (\<forall>a. r = Inr a \<longrightarrow> T t)"
    using c assms(2) by (cases r) (auto simp: pbind_def ends_def)
qed

lemma ends_run: "(\<And>s. P s \<Longrightarrow> Q (snd (c s))) \<Longrightarrow> ends P (run c) Q"
  unfolding ends_def run_def by (metis prod.collapse)

lemma ends_conseq: "ends P c Q \<Longrightarrow> (\<And>s. P' s \<Longrightarrow> P s) \<Longrightarrow> (\<And>s. Q s \<Longrightarrow> Q' s) \<Longrightarrow> ends P' c Q'"
  unfolding ends_def by blast

lemma ends_if: "ends P c Q \<Longrightarrow> ends P d Q \<Longrightarrow> ends P (if b then c else d) Q"
  by simp

text \<open>
  The work a multi handle still has to do: \<open>todo\<close> counts libcurl's outstanding transfers, messages
  and whatever user code may still start; a set \<open>running\<close> counts once. What is asked of libcurl:
  \<open>curl_multi_perform\<close> never asks to be called again (it does not since 7.20.0) and, while transfers
  are left running, gets something done; reading a message takes it from the queue; nothing else adds
  work. User code and waits may start a transfer only against work that was counted.
\<close>

definition outstanding :: "('l \<Rightarrow> nat) \<Rightarrow> nat \<Rightarrow> 'l world \<Rightarrow> nat" where
  "outstanding todo m w = 2 * todo (lib w) + (if running (rbcm_of m w) = 0 then 0 else 1)"

definition adds_no_work :: "('l \<Rightarrow> nat) \<Rightarrow> nat \<Rightarrow> ('l, 'a) mcmd \<Rightarrow> bool" where
  "adds_no_work todo m c \<longleftrightarrow> keeps (\<lambda>w v. outstanding todo m v \<le> outstanding todo m w) c"

definition progress_ok :: "'l multi_env \<Rightarrow> nat \<Rightarrow> ('l \<Rightarrow> nat) \<Rightarrow> bool" where
  "progress_ok X m todo \<longleftrightarrow>
     (\<forall>h w code k v. curl_multi_perform X h w = ((code, k), v) \<longrightarrow>
        code \<noteq> -1 \<and> todo (lib v) \<le> todo (lib w) \<and> (k \<noteq> 0 \<longrightarrow> todo (lib v) < todo (lib w))) \<and>
     (\<forall>h l msg l'. curl_multi_info_read X h l = (msg, l') \<longrightarrow>
        todo l' \<le> todo l \<and> (msg \<noteq> None \<longrightarrow> todo l' < todo l)) \<and>
     (\<forall>h c l. todo (snd (curl_multi_remove_handle X h c l)) \<le> todo l) \<and>
     (\<forall>h l. todo (snd (curl_multi_timeout X h l)) \<le> todo l) \<and>
     (\<forall>h l. todo (snd (curl_multi_fdset X h l)) \<le> todo l) \<and>
     (\<forall>l. todo (snd (curl_multi_init X l)) \<le> todo l) \<and>
     (\<forall>obj name args. adds_no_work todo m (rb_send X obj name args)) \<and>
     adds_no_work todo m (rb_fiber_scheduler_current X) \<and>
     (\<forall>sch t. adds_no_work todo m (rb_fiber_scheduler_kernel_sleep X sch t)) \<and>
     (\<forall>n tv. adds_no_work todo m (rb_thread_fd_select X n tv)) \<and>
     (\<forall>h ms. adds_no_work todo m (curl_multi_wait X h ms))"

lemma progress_okD:
  assumes "progress_ok X m todo"
  shows "curl_multi_perform X h w = ((code, k), v) \<Longrightarrow>
      code \<noteq> -1 \<and> todo (lib v) \<le> todo (lib w) \<and> (k \<noteq> 0 \<longrightarrow> todo (lib v) < todo (lib w))"
    and "curl_multi_info_read X h l = (msg, l') \<Longrightarrow> todo l' \<le> todo l \<and> (msg \<noteq> None \<longrightarrow> todo l' < todo l)"
    and "todo (snd (curl_multi_remove_handle X h c l)) \<le> todo l"
    and "todo (snd (curl_multi_timeout X h l)) \<le> todo l"
    and "todo (snd (curl_multi_fdset X h l)) \<le> todo l"
    and "todo (snd (curl_multi_init X l)) \<le> todo l"
    and "adds_no_work todo m (rb_send X obj name args)"
    and "adds_no_work todo m (rb_fiber_scheduler_current X)"
    and "adds_no_work todo m (rb_fiber_scheduler_kernel_sleep X sch t)"
    and "adds_no_work todo m (rb_thread_fd_select X n tv)"
    and "adds_no_work todo m (curl_multi_wait X h ms)"
proof -
  note d = assms [unfolded progress_ok_def]
  show "curl_multi_perform X h w = ((code, k), v) \<Longrightarrow>
      code \<noteq> -1 \<and> todo (lib v) \<le> todo (lib w) \<and> (k \<noteq> 0 \<longrightarrow> todo (lib v) < todo (lib w))"
    using d [THEN conjunct1] by blast
  note d = d [THEN conjunct2]
  show "curl_multi_info_read X h l = (msg, l') \<Longrightarrow> todo l' \<le> todo l \<and> (msg \<noteq> None \<longrightarrow> todo l' < todo l)"
    using d [THEN conjunct1] by blast
  note d = d [THEN conjunct2]
  show "todo (snd (curl_multi_remove_handle X h c l)) \<le> todo l" using d [THEN conjunct1] by simp
  note d = d [THEN conjunct2]
  show "todo (snd (curl_multi_timeout X h l)) \<le> todo l" using d [THEN conjunct1] by simp
  note d = d [THEN conjunct2]
  show "todo (snd (curl_multi_fdset X h l)) \<le> todo l" "todo (snd (curl_multi_init X l)) \<le> todo l"
    "adds_no_work todo m (rb_send X obj name args)" "adds_no_work todo m (rb_fiber_scheduler_current X)"
    "adds_no_work todo m (rb_fiber_scheduler_kernel_sleep X sch t)" "adds_no_work todo m (rb_thread_fd_select X n tv)"
    "adds_no_work todo m (curl_multi_wait X h ms)"
    using d by (simp_all del: split_paired_All)
qed

definition no_more_work :: "'l multi_env \<Rightarrow> ('l \<Rightarrow> nat) \<Rightarrow> nat \<Rightarrow> 'l world \<Rightarrow> 'l world \<Rightarrow> bool" where
  "no_more_work X todo m w v \<longleftrightarrow> (progress_ok X m todo \<longrightarrow> outstanding todo m v \<le> outstanding todo m w)"

lemma outstanding_reads:
  "outstanding todo m (upd_rbce e f w) = outstanding todo m w"
  "(\<And>c. running (g c) = running c) \<Longrightarrow> outstanding todo m (upd_rbcm n g w) = outstanding todo m w"
  "outstanding todo m (rb_curl_multi_remove_request_reference n e w) = outstanding todo m w"
  "outstanding todo m (stash_multi_exception_if_unset n x i w) = outstanding todo m w"
  by (simp_all add: outstanding_def world_simps)

lemma outstanding_lib: "todo l \<le> todo (lib w) \<Longrightarrow> outstanding todo m (w\<lparr>lib := l\<rparr>) \<le> outstanding todo m w"
  by (simp add: outstanding_def world_simps)

interpretation work: multi_relation "no_more_work X todo m" X
proof unfold_locales
  show "keeps (no_more_work X todo m) (rb_send X obj name args)" for obj name args
    unfolding keeps_def no_more_work_def progress_ok_def adds_no_work_def by blast
  show "no_more_work X todo m w (w\<lparr>lib := snd (curl_multi_remove_handle X h c (lib w))\<rparr>)" for w h c
    unfolding no_more_work_def by (intro impI outstanding_lib progress_okD(3))
qed (auto simp: no_more_work_def outstanding_reads)

abbreviation within :: "('l \<Rightarrow> nat) \<Rightarrow> nat \<Rightarrow> nat \<Rightarrow> 'l world \<Rightarrow> bool" where
  "within todo m B w \<equiv> outstanding todo m w \<le> B"

lemma read_messages_end:
  assumes ok: "progress_ok X m todo"
  shows "outstanding todo m w < 2 * n \<Longrightarrow>
    \<exists>v. read_messages n X m mh w = Some (Inr (), v) \<and> outstanding todo m v \<le> outstanding todo m w"
proof (induction n arbitrary: w)
  case (Suc n)
  obtain msg l where info: "curl_multi_info_read X mh (lib w) = (msg, l)" by fastforce
  let ?w1 = "w\<lparr>lib := l\<rparr>"
  have less: "todo l \<le> todo (lib w)" "msg \<noteq> None \<Longrightarrow> todo l < todo (lib w)"
    using progress_okD(2) [OF ok info] by simp_all
  show ?case
  proof (cases msg)
    case None
    then show ?thesis using info outstanding_lib [of todo, OF less(1)] by (simp add: on_lib_eq)
  next
    case (Some p)
    obtain isdone c result where p: "p = (isdone, c, result)" by (cases p)
    have w1: "outstanding todo m ?w1 + 2 \<le> outstanding todo m w"
      using less(2) Some by (simp add: outstanding_def world_simps)
    show ?thesis
    proof (cases isdone)
      case False
      then show ?thesis using Suc.IH [of ?w1] Suc.prems w1 info Some p by (auto simp: on_lib_eq)
    next
      case True
      obtain r2 w2 where w2: "rb_curl_mutli_handle_complete X m c result ?w1 = (r2, w2)" by fastforce
      have "outstanding todo m w2 \<le> outstanding todo m ?w1"
        using keepsD [OF work.completed_kept, of X todo m ?w1 m c result] w2 ok by (simp add: no_more_work_def)
      moreover define u where "u = (case r2 of Inr _ \<Rightarrow> w2
        | Inl x \<Rightarrow> stash_multi_exception_if_unset m x (find_easy_value_for_handle X m c w2) w2)"
      ultimately have u: "outstanding todo m u + 2 \<le> outstanding todo m w"
        "read_messages (Suc n) X m mh w = read_messages n X m mh u"
        using info Some p True w2 w1
        by (auto simp: on_lib_eq rb_protect_def outstanding_reads split: sum.split)
      show ?thesis using Suc.IH [of u] u Suc.prems by auto
    qed
  qed
qed simp

interpretation quiet: step_relation "\<lambda>w v. outstanding todo m v \<le> outstanding todo m w"
  by unfold_locales simp_all

lemmas quiet_intros = quiet.bound quiet.pure quiet.branch

lemma quiet_calls:
  assumes ok: "progress_ok X m todo"
  shows "adds_no_work todo m (suggested_timeout X m)"
    and "adds_no_work todo m (\<lambda>w. on_lib (curl_multi_fdset X (handle (rbcm_of m w))) w)"
    and "adds_no_work todo m (wait_milliseconds ms)"
    and "adds_no_work todo m (curb_multi_scheduler_sleep X tv)"
    and "adds_no_work todo m (curb_multi_scheduler_yield X)"
    and "adds_no_work todo m (rb_curl_multi_yield_if_given X m block)"
    and "adds_no_work todo m (raise_multi_deferred_exception_if_idle m)"
    and "adds_no_work todo m (\<lambda>w. curl_multi_wait X (handle (rbcm_of m w)) ms w)"
proof -
  note calls = progress_okD(7-10) [OF ok, unfolded adds_no_work_def]
  show "adds_no_work todo m (\<lambda>w. curl_multi_wait X (handle (rbcm_of m w)) ms w)"
    using progress_okD(11) [OF ok] by (simp add: adds_no_work_def keeps_def)
  show "adds_no_work todo m (suggested_timeout X m)"
    "adds_no_work todo m (\<lambda>w. on_lib (curl_multi_fdset X (handle (rbcm_of m w))) w)"
    using progress_okD(4,5) [OF ok] by (simp_all add: adds_no_work_def keeps_def on_lib_eq suggested_timeout_def outstanding_lib)
  have default: "snd (curb_multi_default_timeout w) = w" for w :: "'a world"
    by (simp add: curb_multi_default_timeout_def split: option.split)
  then have "keeps (\<lambda>w v. outstanding todo m v \<le> outstanding todo m w) curb_multi_default_timeout"
    by (simp add: keeps_def)
  then show "adds_no_work todo m (wait_milliseconds ms)"
    unfolding adds_no_work_def wait_milliseconds_def by (intro quiet_intros)
  have current: "keeps (\<lambda>w v. outstanding todo m v \<le> outstanding todo m w) (curb_fiber_scheduler_current X)"
    unfolding curb_fiber_scheduler_current_def by (intro quiet_intros calls)
  have sleep: "keeps (\<lambda>w v. outstanding todo m v \<le> outstanding todo m w)
      (curb_fiber_scheduler_kernel_sleep X sch t)" for sch t
    unfolding curb_fiber_scheduler_kernel_sleep_def by (intro quiet_intros calls)
  show "adds_no_work todo m (curb_multi_scheduler_sleep X tv)" "adds_no_work todo m (curb_multi_scheduler_yield X)"
    "adds_no_work todo m (rb_curl_multi_yield_if_given X m block)"
    unfolding adds_no_work_def curb_multi_scheduler_sleep_def curb_multi_scheduler_yield_def
      rb_curl_multi_yield_if_given_def
    by (intro quiet_intros calls current sleep)+
  show "adds_no_work todo m (raise_multi_deferred_exception_if_idle m)"
    by (auto simp: adds_no_work_def keeps_def raise_multi_deferred_exception_if_idle_def bind_def
        clear_multi_deferred_exception_if_any_def rb_exc_raise_def outstanding_def world_simps
        split: option.splits)
qed

lemma quiet_ends: "adds_no_work todo m c \<Longrightarrow> ends (within todo m B) (run c) (within todo m B)"
  by (rule ends_run) (auto simp: adds_no_work_def keeps_def intro: le_trans)

lemma run_ends:
  assumes ok: "progress_ok X m todo" and "0 < n"
  shows "ends (within todo m (2 * k + 1)) (\<lambda>w. rb_curl_multi_run n X m (handle (rbcm_of m w)) w)
     (within todo m (2 * k))"
  unfolding ends_def
proof (intro allI impI)
  fix w assume w: "within todo m (2 * k + 1) w"
  obtain code j v where p: "curl_multi_perform X (handle (rbcm_of m w)) w = ((code, j), v)"
    by (metis prod.collapse)
  note progress = progress_okD(1) [OF ok p]
  have "todo (lib w) \<le> k" using w by (simp add: outstanding_def split: if_splits)
  then have "within todo m (2 * k) (upd_rbcm m (\<lambda>c. c\<lparr>running := j\<rparr>) v)"
    using progress by (auto simp: outstanding_def world_simps)
  then show "\<exists>r t. rb_curl_multi_run n X m (handle (rbcm_of m w)) w = Some (r, t) \<and>
      (\<forall>a. r = Inr a \<longrightarrow> within todo m (2 * k) t)"
    using assms(2) p progress by (cases n) (simp_all add: raise_multi_def rb_exc_raise_def Let_def)
qed

lemma read_info_ends:
  assumes ok: "progress_ok X m todo" and "B < 2 * n"
  shows "ends (within todo m B) (rb_curl_multi_read_info n X m) (within todo m B)"
proof -
  have "ends (within todo m B) (\<lambda>w. read_messages n X m (handle (rbcm_of m w)) w) (within todo m B)"
    unfolding ends_def
  proof (intro allI impI)
    fix w assume w: "within todo m B w"
    then have "outstanding todo m w < 2 * n" using assms(2) by simp
    from read_messages_end [OF ok this, of "handle (rbcm_of m w)"] w
    show "\<exists>r t. read_messages n X m (handle (rbcm_of m w)) w = Some (r, t) \<and>
      (\<forall>a. r = Inr a \<longrightarrow> within todo m B t)" by fastforce
  qed
  from ends_bind [OF this quiet_ends [OF quiet_calls(7) [OF ok]]] show ?thesis
    unfolding ends_def by (simp add: rb_curl_multi_read_info_def pbind_def)
qed

lemma round_ends:
  assumes ok: "progress_ok X m todo" and "k < n"
  shows "ends (within todo m (2 * k + 1)) (perform_round n X m block) (within todo m (2 * k))"
proof -
  have "0 < n" "2 * k < 2 * n" using assms(2) by simp_all
  then show ?thesis
    unfolding perform_round_def
    by (intro ends_bind [OF run_ends [OF ok] ends_bind [OF read_info_ends [OF ok]
          quiet_ends [OF quiet_calls(6) [OF ok]]]])
qed

lemma raise_ends: "ends P (run (raise_multi X code)) Q" "ends P (run (rb_raise cls x)) Q"
  by (simp_all add: ends_def run_def raise_multi_def rb_exc_raise_def rb_raise_def)

lemma wait_ends:
  assumes ok: "progress_ok X m todo" and "k < n"
  shows "ends (within todo m (2 * k + 1)) (perform_wait n X m block) (within todo m (2 * k))"
proof -
  note next_round = round_ends [OF ok assms(2), of block]
  note step = ends_bind [OF quiet_ends]
  have pause: "adds_no_work todo m (if numfds = 0 then curb_multi_scheduler_sleep X (0, 100000) else ret ())"
    for numfds :: int
    using quiet_calls(4) [OF ok] unfolding adds_no_work_def by (intro quiet_intros)
  show ?thesis
    unfolding perform_wait_def perform_multi_wait_def perform_fdset_wait_def split_def
    by (intro step [OF quiet_calls(1) [OF ok]] step [OF quiet_calls(2) [OF ok]] step [OF quiet_calls(3) [OF ok]]
        step [OF quiet_calls(4) [OF ok]] step [OF progress_okD(10) [OF ok]] step [OF quiet_calls(8) [OF ok]] step [OF pause]
        ends_bind [OF next_round quiet_ends [OF quiet_calls(5) [OF ok]]] ends_if raise_ends next_round)
qed

lemma loop_ends:
  assumes ok: "progress_ok X m todo"
  shows "outstanding todo m w < n \<Longrightarrow> \<exists>r v. perform_loop n X m block w = Some (r, v)"
proof (induction n arbitrary: w)
  case (Suc n)
  show ?case
  proof (cases "running (rbcm_of m w) = 0")
    case False
    let ?k = "todo (lib w)"
    have w: "outstanding todo m w = 2 * ?k + 1" using False by (simp add: outstanding_def)
    then have "?k < Suc n" using Suc.prems by simp
    from wait_ends [OF ok this] obtain r v where v: "perform_wait (Suc n) X m block w = Some (r, v)"
      "\<And>a. r = Inr a \<Longrightarrow> outstanding todo m v \<le> 2 * ?k"
      using w unfolding ends_def by (metis order_refl)
    then show ?thesis
      using False Suc.IH [of v] Suc.prems w by (cases r) (auto simp: pbind_def)
  next
    case True
    let ?B = "2 * todo (lib w)"
    have w: "outstanding todo m w = ?B" using True by (simp add: outstanding_def)
    then have "?B < 2 * Suc n" using Suc.prems by simp
    from read_info_ends [OF ok this]
    have "ends (within todo m ?B) (pbind (rb_curl_multi_read_info (Suc n) X m)
        (\<lambda>_. run (rb_curl_multi_yield_if_given X m block))) (within todo m ?B)"
      by (rule ends_bind) (rule quiet_ends [OF quiet_calls(6) [OF ok]])
    then obtain r v where v: "pbind (rb_curl_multi_read_info (Suc n) X m)
        (\<lambda>_. run (rb_curl_multi_yield_if_given X m block)) w = Some (r, v)"
      "\<And>a. r = Inr a \<Longrightarrow> outstanding todo m v \<le> ?B"
      using w unfolding ends_def by (metis order_refl)
    have "outstanding todo m v < n" if "r = Inr a" "running (rbcm_of m v) \<noteq> 0" for a
    proof -
      have "2 * todo (lib v) + 1 \<le> 2 * todo (lib w)" "2 * todo (lib w) < Suc n"
        using v(2) [OF that(1)] that(2) Suc.prems w by (simp_all add: outstanding_def)
      then have "2 * todo (lib v) + 1 < n" by presburger
      then show ?thesis using that(2) by (simp add: outstanding_def)
    qed
    then show ?thesis
      using True v(1) Suc.IH [of v]
      by (cases r) (auto simp: pbind_def split: option.splits sum.splits prod.splits)
  qed
qed simp

lemma ensure_quiet:
  assumes ok: "progress_ok X m todo"
  shows "adds_no_work todo m (ruby_curl_multi_ensure_handle X m)"
proof -
  have "outstanding todo m (snd (ruby_curl_multi_init X m w)) \<le> outstanding todo m w" for w
    using progress_okD(6) [OF ok, of "lib w"]
    by (auto simp: ruby_curl_multi_init_def bind_def on_lib_eq cmd_defs outstanding_def world_simps)
  then show ?thesis
    by (simp add: adds_no_work_def keeps_def ruby_curl_multi_ensure_handle_def raise_multi_def rb_exc_raise_def)
qed

lemma impl_ends:
  assumes ok: "progress_ok X m todo" and fuel: "2 * todo (lib w) + 1 < n"
  shows "\<exists>r v. ruby_curl_multi_perform_impl n X block m w = Some (r, v)"
proof -
  let ?k = "todo (lib w)"
  note step = ends_bind [OF quiet_ends [where B = "2 * ?k + 1" and m = m and todo = todo]]
  have source: "adds_no_work todo m (modify (\<lambda>w. if deferred_exception (multis w m) = None
      then clear_multi_deferred_exception_source_id_if_any m w else w))"
    by (simp add: adds_no_work_def keeps_def modify_def clear_multi_deferred_exception_source_id_if_any_def
        outstanding_def world_simps)
  have limit: "adds_no_work todo m curb_multi_default_timeout"
    by (simp add: adds_no_work_def keeps_def curb_multi_default_timeout_def split: option.split)
  have loop: "ends (within todo m (2 * ?k)) (perform_loop n X m block) (\<lambda>_. True)"
    unfolding ends_def using loop_ends [OF ok] fuel by fastforce
  have "?k < n" using fuel by simp
  then have "ends (within todo m (2 * ?k + 1)) (ruby_curl_multi_perform_impl n X block m) (\<lambda>_. True)"
    unfolding ruby_curl_multi_perform_impl_def
    by (intro step [OF ensure_quiet [OF ok]] step [OF source] step [OF limit]
        ends_bind [OF round_ends [OF ok] ends_bind [OF loop ends_bind [OF ends_run ends_run]]]) simp_all
  moreover have "within todo m (2 * ?k + 1) w" by (simp add: outstanding_def)
  ultimately show ?thesis unfolding ends_def by blast
qed

text \<open>
  \<open>perform\<close> terminates. Whenever libcurl makes progress (\<open>progress_ok\<close>: each call that leaves
  transfers running reduces the outstanding work, a message that was read is gone, user code starts
  transfers only against counted work), a fuel larger than twice the outstanding work is enough for
  \<open>perform\<close> to come to an end, through the waits, the message loops and the rounds that the block
  starts anew, with or without an exception.
\<close>

theorem perform_terminates:
  assumes "progress_ok X m todo" and "2 * todo (lib w) + 1 < n"
  shows "\<exists>r v. ruby_curl_multi_perform_impl n X block m w = Some (r, v)"
  by (rule impl_ends [OF assms])

lemma sample_progress: "progress_ok sample_multi m (\<lambda>l. rounds l + length (messages l))"
proof -
  have quiet: "adds_no_work todo m (ret a)" "adds_no_work todo m (rb_raise k x)" for todo a k x
    by (simp_all add: adds_no_work_def quiet.pure)
  show ?thesis
    unfolding progress_ok_def sample_ops
    by (intro conjI allI impI)
      (auto simp: sample_multi_simps sample_change_def quiet split: option.splits list.splits)
qed

theorem perform_terminates_witness:
  "\<exists>r v. ruby_curl_multi_perform_impl 20 sample_multi Qnil 0
     (sample_world\<lparr>lib := (lib sample_world)\<lparr>rounds := 5, messages := [(7, 0), (8, 28)]\<rparr>\<rparr>) = Some (r, v)"
  by (rule perform_terminates [OF sample_progress]) simp

section \<open>Waits\<close>

text \<open>
  The wait of the loop is what libcurl suggests, capped by the default timeout, and the default
  timeout where libcurl has no suggestion. Up to 2147483 milliseconds it reaches \<open>select\<close> as that many
  microseconds; a default timeout just above makes it negative, since the product is truncated to an
  \<open>int\<close>.
\<close>

theorem waits_are_capped:
  assumes "curb_multi_default_timeout w = (Inr limit, w)" and "0 \<le> limit"
  shows "(\<exists>ms. wait_milliseconds suggested w = (Inr ms, w) \<and> 0 \<le> ms \<and> ms \<le> limit \<and>
           ms = (if suggested < 0 then limit else min suggested limit) \<and>
           (limit \<le> 2147483 \<longrightarrow> select_microseconds ms = ms * 1000)) \<and>
         select_microseconds 2147484 < 0"
proof -
  have "to_signed 32 (ms * 1000) = ms * 1000" if "0 \<le> ms" "ms \<le> 2147483" for ms
    by (rule to_signed_id) (use that in simp_all)
  then show ?thesis
    using assms by (auto simp: wait_milliseconds_def bind_def select_microseconds_def ret_def) (simp add: to_signed_def)
qed

theorem waits_are_capped_witness:
  "\<exists>ms. wait_milliseconds 5000 sample_world = (Inr ms, sample_world) \<and> ms = 100"
proof -
  have "curb_multi_default_timeout sample_world = (Inr 100, sample_world)"
    by (simp add: curb_multi_default_timeout_def curb_multi_ractor_setting_def sample_world_def)
  from waits_are_capped [OF this, of 5000] show ?thesis by auto
qed

end
