(* ===== verification/Curb_Multi_Props.thy ===== *)
theory Curb_Multi_Props
  imports Curb_Multi_Loop
begin

text \<open>
  The properties of the multi handle: what adding, removing, completing and closing do on every
  branch, the consistency of the handle in every reachable state, and the order of detachment and
  callbacks.
\<close>

section \<open>Every reachable state\<close>

lemma one_multi:
  assumes "world_ok members w" and "rb_curl_multi_has_easy m e w" and "rb_curl_multi_has_easy n e w"
  shows "m = n"
  using assms has_easy_multi(1) [of m w e] has_easy_multi(1) [of n w e] by (simp add: world_ok_def)



section \<open>Adding and removing\<close>

lemma add_elsewhere:
  assumes "libcurl_multi_ok X members" and "world_ok members w" and "rb_curl_multi_has_easy n e w" and "n \<noteq> m"
  shows "\<exists>x. fst (ruby_curl_multi_add X m e w) = Inl x"
proof -
  obtain r0 w0 where e0: "ruby_curl_multi_ensure_handle X m w = (r0, w0)" by fastforce
  note w0 = ensure_handle_ok [OF assms(1,2) e0]
  have has: "rb_curl_multi_has_easy n e w0" using assms(3) by (simp add: w0(2))
  moreover have "table_ok n w0" using w0(1) by (simp add: world_ok_def)
  ultimately have "multi (rbce_of e w0) = Some n" by (rule has_easy_multi(1) [rotated])
  moreover have "\<not> rb_curl_multi_has_easy m e w0" using one_multi [OF w0(1) has] assms(4) by blast
  ultimately show ?thesis
    using has assms(4) by (simp add: add_cases [OF e0] in_other_multi_def split: sum.split)
qed

text \<open>
  Adding an easy handle either returns the multi handle, with the easy handle attached to it and
  every other attachment as before, or raises with every attachment as before; in both cases the
  handles stay consistent. An easy handle attached elsewhere is refused.
\<close>

theorem add_attaches_or_raises:
  assumes "libcurl_multi_ok X members" and "world_ok members w" and "ruby_curl_multi_add X m e w = (r, v)"
  shows "world_ok members v \<and>
         (case r of
            Inr k \<Rightarrow> k = m \<and> multi (rbce_of e v) = Some m \<and>
              (\<forall>n i. rb_curl_multi_has_easy n i v \<longleftrightarrow> n = m \<and> i = e \<or> rb_curl_multi_has_easy n i w)
          | Inl x \<Rightarrow> \<forall>n i. rb_curl_multi_has_easy n i v = rb_curl_multi_has_easy n i w) \<and>
         ((\<exists>n. n \<noteq> m \<and> rb_curl_multi_has_easy n e w) \<longrightarrow> (\<exists>x. r = Inl x))"
proof -
  note res = add_result [OF assms]
  have "k = m" if "r = Inr k" for k
    using assms(3) that by (cases "ruby_curl_multi_ensure_handle X m w")
      (auto simp: add_cases Let_def split: sum.splits prod.splits if_splits)
  moreover have "multi (rbce_of e v) = Some m" if "r = Inr k" for k
    using res(1) res(2) [OF that] has_easy_multi(1) [of m v e] by (simp add: world_ok_def)
  ultimately show ?thesis
    using res add_elsewhere [OF assms(1,2)] assms(3) by (auto split: sum.split) force
qed

theorem add_attaches_or_raises_witness:
  "\<exists>v. ruby_curl_multi_add sample_multi 0 7 sample_world = (Inr 0, v) \<and> rb_curl_multi_has_easy 0 7 v"
proof -
  obtain v where add: "ruby_curl_multi_add sample_multi 0 7 sample_world = (Inr 0, v)"
    using sample_add by blast
  then show ?thesis
    using add_attaches_or_raises [OF sample_lib_ok sample_world_ok add] add by auto
qed

text \<open>
  C19: Removing undoes adding. When an easy handle that was not attached is added to a ready multi
  handle and then removed, every attachment table, every \<open>active\<close> counter and libcurl's own
  membership are what they were, and the easy handle refers to no multi handle.
\<close>

theorem remove_undoes_add:
  assumes "libcurl_multi_ok X members" and "world_ok members w"
    and "\<not> rb_curl_multi_has_easy m e w" and "handle (rbcm_of m w) \<noteq> None"
    and "ruby_curl_multi_add X m e w = (Inr k, v)" and "ruby_curl_multi_remove X m e v = (Inr k', u)"
  shows "(\<forall>n. attached (rbcm_of n u) = attached (rbcm_of n w) \<and>
              active (rbcm_of n u) = active (rbcm_of n w)) \<and>
         members (lib u) = members (lib w) \<and> multi (rbce_of e u) = None"
proof -
  note attach = add_success(1) [OF assms(1-5)]
  have ok: "world_ok members v" using add_result(1) [OF assms(1,2,5)] .
  have has: "rb_curl_multi_has_easy m e v" by (simp add: has_easy_attach [OF attach])
  have "rb_curl_multi_remove X m e v = (Inr (), u)"
    using assms(6) by (auto simp: ruby_curl_multi_remove_def bind_def ret_def split: sum.splits prod.splits)
  from remove_attached(2) [OF assms(1) ok has this]
  have "detach_step members m e v u" "multi (rbce_of e u) = None" by simp_all
  then show ?thesis using attach_detach [OF assms(2,3) attach] by blast
qed

theorem remove_undoes_add_witness:
  "\<exists>v u. ruby_curl_multi_add sample_multi 0 7 (sample_ensured 0) = (Inr 0, v) \<and>
     ruby_curl_multi_remove sample_multi 0 7 v = (Inr 0, u) \<and>
     active (rbcm_of 0 u) = active (rbcm_of 0 (sample_ensured 0))"
proof -
  have ok: "world_ok sample_members (sample_ensured 0)"
    using ensure_handle_ok(1) [OF sample_lib_ok sample_world_ok sample_ensure] .
  obtain v where add: "ruby_curl_multi_add sample_multi 0 7 (sample_ensured 0) = (Inr 0, v)"
    using sample_add_ensured by blast
  note attach = add_success(1) [OF sample_lib_ok ok sample_ensured_fields(4) _ add]
  have "handle (rbcm_of 0 v) = Some 0" "curl (rbce_of 7 v) = Some 7" "sample_members (lib v) 0 \<noteq> None"
    using attach sample_ensured_fields by (auto simp: attach_step_def)
  then obtain u where remove: "ruby_curl_multi_remove sample_multi 0 7 v = (Inr 0, u)"
    by (auto simp: ruby_curl_multi_remove_def bind_def remove_cases sample_ops sample_change_def ret_def)
  show ?thesis
    using remove_undoes_add [OF sample_lib_ok ok sample_ensured_fields(4) _ add remove]
      sample_ensured_fields(2) add remove by blast
qed

text \<open>
  Removing an easy handle that is not attached does not raise when libcurl accepts it (libcurl
  answers \<open>CURLM_OK\<close> for a handle that is in no multi handle), although the comment of
  \<open>remove\<close> promises an exception. It changes no table but lowers \<open>active\<close>, which from then on is
  less than the number of attached handles.
\<close>

theorem remove_unattached_undercounts:
  assumes "world_ok members w" and "\<not> rb_curl_multi_has_easy m e w" and "0 < active (rbcm_of m w)"
    and "ruby_curl_multi_remove X m e w = (Inr k, v)"
  shows "attached (rbcm_of m v) = attached (rbcm_of m w) \<and>
         (\<exists>t. attached (rbcm_of m v) = Some t \<and> active (rbcm_of m v) = int (length t) - 1)"
proof -
  have "table_ok m w" using assms(1) by (simp add: world_ok_def)
  then obtain t where t: "attached (rbcm_of m w) = Some t" "active (rbcm_of m w) = int (length t)"
    using assms(3) by (auto simp: table_ok_def split: option.splits)
  have "e \<notin> set (st_keys t)" using assms(2) t(1) by (simp add: has_easy_iff)
  then have "st_delete t e = t" by (auto simp: st_delete_def st_keys_def intro!: filter_True)
  moreover have "rb_curl_multi_remove X m e w = (Inr (), v)"
    using assms(4) by (auto simp: ruby_curl_multi_remove_def bind_def ret_def split: sum.splits prod.splits)
  ultimately show ?thesis
    using t assms(3)
    by (auto simp: remove_cases rb_curl_multi_forget_easy_def dec_active_def world_simps
        split: prod.splits if_splits)
qed

theorem remove_unattached_undercounts_witness:
  "\<exists>v u. ruby_curl_multi_add sample_multi 0 7 (sample_ensured 0) = (Inr 0, v) \<and>
     ruby_curl_multi_remove sample_multi 0 8 v = (Inr 0, u) \<and> active (rbcm_of 0 u) = 0 \<and>
     rb_curl_multi_has_easy 0 7 v"
proof -
  obtain v where add: "ruby_curl_multi_add sample_multi 0 7 (sample_ensured 0) = (Inr 0, v)"
    using sample_add_ensured by blast
  note v = sample_added [OF add]
  obtain u where remove: "ruby_curl_multi_remove sample_multi 0 8 v = (Inr 0, u)"
    using v by (auto simp: ruby_curl_multi_remove_def bind_def remove_cases sample_ops sample_change_def ret_def)
  have "active (rbcm_of 0 u) = 0"
    using remove_unattached_undercounts [OF v(1) _ _ remove] v by auto
  then show ?thesis using add remove v(2) by blast
qed

section \<open>Completing\<close>

lemma finish_flags:
  assumes "rb_curl_multi_finish_completion_callbacks m e w = (r, v)"
  shows "\<not> callback_active (rbce_of e v)" and "\<not> multi_callback_active (rbcm_of m v)"
    and "multi (rbce_of e v) = Some m \<Longrightarrow> rb_curl_multi_has_easy m e v" and "r = Inr ()"
  using assms
  by (auto simp: rb_curl_multi_finish_completion_callbacks_def Let_def world_simps
      rb_curl_multi_has_easy_def split: if_splits)

text \<open>
  C12: A completed transfer is detached before its status callbacks run, and the callback flags never
  outlive them. Either detaching raises and no status callback runs; or the handle has left the
  attachment table and the requests, \<open>active\<close> is one lower and the \<open>multi\<close> reference is still there
  when the callbacks start. Whether they return or raise, at the end neither the easy nor the multi
  handle is marked as inside a callback, and the \<open>multi\<close> reference is kept only if a callback attached
  the easy handle again.
\<close>

theorem completion_detaches_before_callbacks:
  assumes "libcurl_multi_ok X members" and "user_ok members X" and "world_ok members w"
    and "find_easy_value_for_handle X m c w = Some e" and "rb_curl_multi_has_easy m e w"
    and "rb_curl_mutli_handle_complete X m c result w = (r, v)"
  shows "(\<exists>x. detach_completed X m e result w = (Inl x, v) \<and> r = Inl x) \<or>
     (\<exists>u. detach_completed X m e result w = (Inr (), u) \<and>
        \<not> rb_curl_multi_has_easy m e u \<and> active (rbcm_of m u) = active (rbcm_of m w) - 1 \<and>
        requests (multis u m) = map_option (\<lambda>rq. st_delete rq e) (requests (multis w m)) \<and>
        multi (rbce_of e u) = Some m \<and>
        r = fst (rb_curl_multi_run_completion_callbacks X m e result (capture_attached_easy_snapshot m u) u) \<and>
        \<not> callback_active (rbce_of e v) \<and> \<not> multi_callback_active (rbcm_of m v) \<and>
        (multi (rbce_of e v) = Some m \<longrightarrow> rb_curl_multi_has_easy m e v))"
proof -
  obtain d u where d: "detach_completed X m e result w = (d, u)" by fastforce
  have complete: "rb_curl_mutli_handle_complete X m c result w =
     (case d of Inl x \<Rightarrow> (Inl x, u)
      | Inr _ \<Rightarrow> rb_ensure (rb_curl_multi_run_completion_callbacks X m e result (capture_attached_easy_snapshot m u))
                  (rb_curl_multi_finish_completion_callbacks m e) u)"
    using assms(4) d
    by (simp add: rb_curl_mutli_handle_complete_def bind_def [of "detach_completed X m e result"] bind_gets
        split: sum.splits)
  show ?thesis
  proof (cases d)
    case (Inl x)
    then show ?thesis using complete d assms(6) by auto
  next
    case (Inr a)
    have step: "detach_step members m e w u" "multi (rbce_of e u) = Some m"
      "requests (multis u m) = map_option (\<lambda>rq. st_delete rq e) (requests (multis w m))"
      using detach_completed_result(2) [OF assms(1-3,5) d] Inr by simp_all
    obtain r1 u1 where run: "rb_curl_multi_run_completion_callbacks X m e result
      (capture_attached_easy_snapshot m u) u = (r1, u1)" by fastforce
    obtain f where fin: "rb_curl_multi_finish_completion_callbacks m e u1 = (Inr (), f)"
      using finish_flags(4) by (metis prod.collapse)
    have "r = r1" "v = f" using complete Inr run fin assms(6) by (simp_all add: rb_ensure_def)
    then show ?thesis
      using d Inr step finish_flags(1-3) [OF fin] run
      by (auto simp: has_easy_detach [OF step(1)]) (auto simp: detach_step_def)
  qed
qed

theorem completion_detaches_before_callbacks_witness:
  "\<exists>v. ruby_curl_multi_add sample_multi 0 7 (sample_ensured 0) = (Inr 0, v) \<and>
     rb_curl_multi_has_easy 0 7 v \<and>
     \<not> callback_active (rbce_of 7 (snd (rb_curl_mutli_handle_complete sample_multi 0 7 0 v)))"
proof -
  obtain v where add: "ruby_curl_multi_add sample_multi 0 7 (sample_ensured 0) = (Inr 0, v)"
    using sample_add_ensured by blast
  note v = sample_added [OF add]
  have "fst (detach_completed sample_multi 0 7 0 v) = Inr ()"
    using v by (simp add: detach_completed_cases [OF sample_flush] sample_flush sample_ops sample_change_def
        world_simps)
  then show ?thesis
    using completion_detaches_before_callbacks [OF sample_lib_ok sample_user_ok v(1) v(9) v(2)
        prod.collapse [symmetric], of 0] add v(2) by auto
qed

section \<open>Closing\<close>

text \<open>
  Closing lets everything go or does nothing. During a perform or a callback (and unless the handle
  closes itself at the end of \<open>perform\<close>) it raises and changes nothing. Otherwise it returns the
  handle with no easy handle attached, each of them free of its \<open>multi\<close> reference, no libcurl handle,
  both counters zero and no pending exception; other multi handles keep their attachments, and the
  state stays consistent.
\<close>

theorem close_lets_go_or_does_nothing:
  assumes "libcurl_multi_ok X members" and "world_ok members w" and "ruby_curl_multi_close X m w = (r, v)"
  shows "(case r of
            Inl x \<Rightarrow> v = w \<and> (perform_active (rbcm_of m w) \<or> multi_callback_active (rbcm_of m w)) \<and>
              \<not> allow_close_during_perform (rbcm_of m w)
          | Inr k \<Rightarrow> k = m \<and> attached (rbcm_of m v) = None \<and> handle (rbcm_of m v) = None \<and>
              active (rbcm_of m v) = 0 \<and> running (rbcm_of m v) = 0 \<and>
              deferred_exception (multis v m) = None \<and> deferred_exception_source_id (multis v m) = None \<and>
              (\<forall>h. handle (rbcm_of m w) = Some h \<longrightarrow> members (lib v) h = None) \<and>
              (\<forall>e. rb_curl_multi_has_easy m e w \<longrightarrow> multi (rbce_of e v) = None) \<and>
              (\<forall>n e. n \<noteq> m \<longrightarrow> rb_curl_multi_has_easy n e v = rb_curl_multi_has_easy n e w)) \<and>
         world_ok members v"
proof (cases "(perform_active (rbcm_of m w) \<or> multi_callback_active (rbcm_of m w)) \<and>
    \<not> allow_close_during_perform (rbcm_of m w)")
  case True
  then show ?thesis using assms(2,3) by (auto simp: ruby_curl_multi_close_def rb_raise_def)
next
  case False
  then have eq: "r = Inr m" "v = upd_object m (\<lambda>ob. ob\<lparr>deferred_exception := None, deferred_exception_source_id := None\<rparr>)
       (upd_rbcm m (\<lambda>c. c\<lparr>active := 0, running := 0\<rparr>) (curl_multi_free X m w))"
    using assms(3) close_eq [of m w X] by auto
  have step: "close_step members m w v" using close_close_step [OF assms(1,2)] assms(3) eq(1) by blast
  have "running (rbcm_of m v) = 0" "deferred_exception (multis v m) = None"
    "deferred_exception_source_id (multis v m) = None"
    by (simp_all add: eq(2) world_simps)
  then show ?thesis
    using eq(1) step has_easy_close [OF step] close_keeps [OF assms] by (auto simp: close_step_def)
qed

theorem close_lets_go_or_does_nothing_witness:
  "\<exists>v u. ruby_curl_multi_add sample_multi 0 7 (sample_ensured 0) = (Inr 0, v) \<and>
     ruby_curl_multi_close sample_multi 0 v = (Inr 0, u) \<and> multi (rbce_of 7 u) = None"
proof -
  obtain v where add: "ruby_curl_multi_add sample_multi 0 7 (sample_ensured 0) = (Inr 0, v)"
    using sample_add_ensured by blast
  note v = sample_added [OF add]
  have "\<not> perform_active (rbcm_of 0 v) \<and> \<not> multi_callback_active (rbcm_of 0 v)"
    using sample_flags [OF add] by simp
  then obtain u where close: "ruby_curl_multi_close sample_multi 0 v = (Inr 0, u)"
    using close_eq [of 0 v sample_multi] by simp
  then show ?thesis
    using close_lets_go_or_does_nothing [OF sample_lib_ok v(1) close] v(2) add by auto
qed

section \<open>Status callbacks that raise\<close>

text \<open>
  C20: A status callback that raises a \<open>StandardError\<close> aborts the completion. Where no exception is
  pending and user code leaves pending ones alone, the completion raises, and the pending exception is
  the callback's, rewrapped as \<open>Curl::Err::AbortedByCallbackError\<close> with its message, with the easy
  handle as its source.
\<close>

theorem raising_status_callback_is_deferred:
  assumes "user_keeps_exceptions X m" and "rb_send X callback ''call'' args (upd_rbce e (\<lambda>r. r\<lparr>callback_active := True\<rparr>) w) = (Inl x, u)"
    and "standard_error x" and "deferred_exception (multis u m) = None"
    and "run_status_callback X m e snapshot None callback args did w = (r, v)"
  shows "(\<exists>y. r = Inl y) \<and>
         deferred_exception (multis v m) = Some (Exc ''eCurlErrAbortedByCallback'' (exc_message x))"
proof -
  let ?x = "build_aborted_by_callback_exception x"
  let ?u = "upd_rbce e (\<lambda>r. r\<lparr>callback_active := False\<rparr>) u"
  let ?s = "stash_multi_exception_if_unset m ?x (Some e) ?u"
  obtain r1 v1 where remove: "rb_curl_multi_remove_added_easies_since_snapshot X m snapshot ?s = (r1, v1)"
    by fastforce
  have "deferred_exception (multis ?s m) = Some ?x"
    using assms(4) by (simp add: stash_multi_exception_if_unset_def world_simps)
  moreover have "pending_kept X m ?s v1"
    using keepsD [OF pending.easies_removed, of X m ?s m "newly_attached m snapshot ?s"] remove
    by (simp add: rb_curl_multi_remove_added_easies_since_snapshot_def)
  ultimately have v1: "deferred_exception (multis v1 m) = Some ?x"
    using assms(1) by (simp add: pending_kept_def)
  have "bind (rb_send X callback ''call'' args) (\<lambda>_. ret did) (upd_rbce e (\<lambda>r. r\<lparr>callback_active := True\<rparr>) w) = (Inl x, u)"
    using assms(2) by (simp add: bind_def)
  then have "run_status_callback X m e snapshot None callback args did w =
      (case r1 of Inl y \<Rightarrow> (Inl y, v1) | Inr _ \<Rightarrow> (Inl ?x, v1))"
    using assms(3) remove
    by (simp add: run_status_callback_def bind_modify rb_rescue_def bind_def [of "rb_rescue c h" for c h]
        stash_and_raise_status_callback_error_if_unmasked_def take_status_callback_exception_if_any_def
        bind_def [of "bind (modify f) g" for f g] bind_def [of "rb_curl_multi_remove_added_easies_since_snapshot X m snapshot"]
        ret_def rb_exc_raise_def split: sum.split)
  then show ?thesis
    using assms(5) v1 by (auto simp: build_aborted_by_callback_exception_def split: sum.splits)
qed

lemma sample_raises:
  "rb_send sample_multi (RObj 666) ''call'' args w = (Inl (Exc ''rb_eRuntimeError'' ''callback failed''), w)"
  by (simp add: sample_multi_simps rb_raise_def)

lemma sample_user_keeps: "user_keeps_exceptions sample_multi m"
  by (simp add: user_keeps_exceptions_def sample_multi_simps rb_raise_def ret_def)

theorem raising_status_callback_is_deferred_witness:
  "deferred_exception (multis (snd (run_status_callback sample_multi 0 7 [] None (RObj 666) [RObj 7] None
     sample_world)) 0) = Some (Exc ''eCurlErrAbortedByCallback'' ''callback failed'')"
  using raising_status_callback_is_deferred [OF sample_user_keeps sample_raises _ _ prod.collapse [symmetric],
      where m = 0 and e = 7 and w = sample_world and snapshot = "[]" and args = "[RObj 7]" and did = None]
  by (simp add: standard_error_def world_simps sample_object_def)

section \<open>The guard around perform\<close>

text \<open>
  C14: \<open>perform\<close> excludes itself and closing. A perform on a handle that is performing raises and
  touches nothing, and so does closing the handle, except at the end of its own \<open>perform\<close>. A perform
  that is let in runs its loop with the mark set, returns or raises what the loop does, and on every
  exit leaves the handle with no mark, so that a later perform or close is let in.
\<close>

theorem perform_excludes_perform_and_close:
  assumes "ruby_curl_multi_with_perform_guard func m w = Some (r, v)"
  shows "if perform_active (rbcm_of m w)
         then (\<exists>msg. r = Inl (Exc ''rb_eRuntimeError'' msg)) \<and> v = w \<and>
              (\<not> allow_close_during_perform (rbcm_of m w) \<longrightarrow>
                 (\<exists>msg. ruby_curl_multi_close X m w = (Inl (Exc ''rb_eRuntimeError'' msg), w)))
         else \<not> perform_active (rbcm_of m v) \<and> \<not> multi_callback_active (rbcm_of m v) \<and>
              \<not> allow_close_during_perform (rbcm_of m v) \<and> (\<exists>u. ruby_curl_multi_close X m v = (Inr m, u)) \<and>
              (\<exists>start u. perform_active (rbcm_of m start) \<and> lib start = lib w \<and> func m start = Some (r, u))"
proof (cases "perform_active (rbcm_of m w)")
  case True
  then show ?thesis
    using assms by (auto simp: ruby_curl_multi_with_perform_guard_def run_def rb_raise_def ruby_curl_multi_close_def)
next
  case False
  let ?w = "upd_rbcm m (\<lambda>c. c\<lparr>perform_active := True\<rparr>) w"
  obtain u where u: "func m ?w = Some (r, u)"
    "v = upd_rbcm m (\<lambda>c. c\<lparr>perform_active := False, multi_callback_active := False,
       allow_close_during_perform := False\<rparr>) u"
    using assms False
    by (auto simp: ruby_curl_multi_with_perform_guard_def pensure_def ruby_curl_multi_perform_guard_ensure_def
        modify_def split: option.splits prod.splits)
  have "perform_active (rbcm_of m ?w)" "lib ?w = lib w" by (simp_all add: world_simps)
  then have "\<exists>start u. perform_active (rbcm_of m start) \<and> lib start = lib w \<and> func m start = Some (r, u)"
    using u(1) by blast
  moreover have "\<not> perform_active (rbcm_of m v)" "\<not> multi_callback_active (rbcm_of m v)"
    "\<not> allow_close_during_perform (rbcm_of m v)"
    by (simp_all add: u(2) world_simps)
  ultimately show ?thesis using False close_eq [of m v X] by simp
qed

theorem perform_excludes_perform_and_close_witness:
  "\<exists>r v. ruby_curl_multi_with_perform_guard (ruby_curl_multi_perform_impl 20 sample_multi Qnil) 0 sample_world =
      Some (r, v) \<and> \<not> perform_active (rbcm_of 0 v)"
proof -
  have start: "2 * (rounds (lib sample_world) + length (messages (lib sample_world))) + 1 < 20"
    by (simp add: sample_world_def)
  obtain r v where perform: "ruby_curl_multi_with_perform_guard (ruby_curl_multi_perform_impl 20 sample_multi Qnil) 0
      sample_world = Some (r, v)"
    using impl_ends [OF sample_progress, where m = 0 and block = Qnil and n = 20 and
        w = "upd_rbcm 0 (\<lambda>c. c\<lparr>perform_active := True\<rparr>) sample_world", unfolded lib_upd, OF start]
    by (auto simp: ruby_curl_multi_with_perform_guard_def pensure_def ruby_curl_multi_alloc_def
        ruby_curl_multi_perform_guard_ensure_def modify_def)
  show ?thesis
    using perform_excludes_perform_and_close [OF perform, of sample_multi] perform
    by (simp add: ruby_curl_multi_alloc_def)
qed

end
