(* ===== verification/Curb_Lifecycle.thy ===== *)
theory Curb_Lifecycle
  imports Curb_Multi
begin

text \<open>
  The life of a \<open>Curl::Easy\<close> object in \<open>ext/curb_easy.c\<close>: initialising, cloning, resetting,
  closing and freeing the handle, and the \<open>multi=\<close> attribute that moves it between multi handles.
  The log of the options given to libcurl starts empty with a new libcurl handle, is emptied by
  \<open>curl_easy_reset\<close> and copied by \<open>curl_easy_duphandle\<close>.
\<close>

record 'l easy_lib =
  curl_easy_init :: "'l \<Rightarrow> nat option \<times> 'l"
  curl_easy_cleanup :: "nat \<Rightarrow> 'l \<Rightarrow> 'l"

section \<open>Freeing\<close>

text \<open>Leaving the multi handle, without a call that may raise.\<close>

definition free_detach :: "'l multi_env \<Rightarrow> nat \<Rightarrow> 'l world \<Rightarrow> 'l world" where
  "free_detach X e w =
     (case multi (rbce_of e w) of
        None \<Rightarrow> w
      | Some m \<Rightarrow>
          let w1 = upd_rbce e (\<lambda>r. r\<lparr>multi := None\<rparr>) w;
              w2 = (if handle (rbcm_of m w1) \<noteq> None \<and> curl (rbce_of e w1) \<noteq> None
                    then snd (on_lib (curl_multi_remove_handle X (handle (rbcm_of m w1)) (curl (rbce_of e w1))) w1)
                    else w1)
          in rb_curl_multi_forget_easy m e w2)"

definition free_lists :: "curl_env \<Rightarrow> ruby_curl_easy \<Rightarrow> ruby_curl_easy" where
  "free_lists env r =
     curb_clear_network_allowed_hosts (curb_clear_network_allowed_cidr_rules
       (ruby_curl_easy_clear_connect_to_list env (ruby_curl_easy_clear_resolve_list env
         (ruby_curl_easy_clear_ftp_commands_list env (ruby_curl_easy_clear_proxy_headers_list env
           (ruby_curl_easy_clear_headers_list env r))))))"

definition free_callbacks :: "curl_env \<Rightarrow> ruby_curl_easy \<Rightarrow> ruby_curl_easy" where
  "free_callbacks env r =
     fold (\<lambda>(opt, v). curl_easy_setopt opt v)
       [(''CURLOPT_WRITEFUNCTION'', VNull), (''CURLOPT_WRITEDATA'', VNull),
        (''CURLOPT_HEADERFUNCTION'', VNull), (''CURLOPT_HEADERDATA'', VNull),
        (''CURLOPT_DEBUGFUNCTION'', VNull), (''CURLOPT_DEBUGDATA'', VNull),
        (''CURLOPT_VERBOSE'', VLong 0),
        (if have_macro env ''HAVE_CURLOPT_XFERINFOFUNCTION'' then ''CURLOPT_XFERINFOFUNCTION''
         else ''CURLOPT_PROGRESSFUNCTION'', VNull),
        (''CURLOPT_NOPROGRESS'', VLong 1)] r"

definition ruby_curl_easy_free :: "'l multi_env \<Rightarrow> 'l easy_lib \<Rightarrow> nat \<Rightarrow> 'l world \<Rightarrow> 'l world" where
  "ruby_curl_easy_free X L e w =
     (let w1 = upd_rbce e (free_lists (me_env X)) (free_detach X e w);
          w2 = (case curl (rbce_of e w1) of
                  None \<Rightarrow> w1
                | Some h \<Rightarrow> upd_rbce e (\<lambda>r. r\<lparr>curl := None\<rparr>)
                    ((upd_rbce e (free_callbacks (me_env X)) w1)\<lparr>lib := curl_easy_cleanup L h (lib w1)\<rparr>))
      in upd_rbce e (\<lambda>r. r\<lparr>self := Qnil\<rparr>) w2)"

section \<open>Preparing a new libcurl handle\<close>

definition set_error_buffer :: "ruby_curl_easy \<Rightarrow> ruby_curl_easy" where
  "set_error_buffer = curl_easy_setopt ''CURLOPT_ERRORBUFFER'' (VField ''err_buf'')"

text \<open>The pointer back to the structure, whose result is checked.\<close>

definition set_private :: "curl_env \<Rightarrow> (ruby_curl_easy, unit) cmd" where
  "set_private env r =
     (let ecode = setopt_result env ''CURLOPT_PRIVATE'' VRbce; r' = curl_easy_setopt ''CURLOPT_PRIVATE'' VRbce r
      in if ecode \<noteq> 0 then (Inl (easy_error env ecode), r') else (Inr (), r'))"

text \<open>The structure as it is before the options are set.\<close>

definition blank_handle :: "nat \<Rightarrow> ruby_curl_easy \<Rightarrow> ruby_curl_easy" where
  "blank_handle e r = (ruby_curl_easy_zero r)\<lparr>self := RObj e\<rparr>"

definition init_handle :: "'l easy_lib \<Rightarrow> nat \<Rightarrow> ('l, unit) mcmd" where
  "init_handle L e =
     bind (on_lib (curl_easy_init L)) (\<lambda>h.
     bind (modify (upd_rbce e (\<lambda>r. r\<lparr>curl := h, curl_log := []\<rparr>))) (\<lambda>_.
       if h = None then rb_raise ''eCurlErrFailedInit'' ''Failed to initialize easy handle'' else ret ()))"

definition ruby_curl_easy_initialize ::
  "'l multi_env \<Rightarrow> 'l easy_lib \<Rightarrow> rvalue \<Rightarrow> rvalue \<Rightarrow> nat \<Rightarrow> ('l, nat) mcmd" where
  "ruby_curl_easy_initialize X L url blk e =
     bind (init_handle L e) (\<lambda>_.
     bind (modify (upd_rbce e (\<lambda>r. blank_handle e (r\<lparr>multi := None\<rparr>)))) (\<lambda>_.
     bind (on_rbce e (curb_easy_apply_thread_defaults (me_env X))) (\<lambda>_.
     bind (modify (upd_rbce e (\<lambda>r. rb_easy_set ''url'' url (set_error_buffer r)))) (\<lambda>_.
     bind (on_rbce e (set_private (me_env X))) (\<lambda>_.
     bind (if blk \<noteq> Qnil then rb_send X blk ''call'' [RObj e] else ret Qnil) (\<lambda>_. ret e))))))"

section \<open>Closing and resetting\<close>

definition refuse_while_active :: "string \<Rightarrow> nat \<Rightarrow> ('l, unit) mcmd" where
  "refuse_while_active native_msg e w =
     (if callback_active (rbce_of e w)
      then rb_raise ''rb_eRuntimeError'' ''Cannot close an active curl handle within a callback'' w
      else if native_active (rbce_of e w) \<noteq> 0 then rb_raise ''rb_eRuntimeError'' native_msg w
      else (Inr (), w))"

definition ruby_curl_easy_close :: "'l multi_env \<Rightarrow> 'l easy_lib \<Rightarrow> nat \<Rightarrow> ('l, rvalue) mcmd" where
  "ruby_curl_easy_close X L e =
     bind (refuse_while_active ''Cannot close an active curl handle during native operation'' e) (\<lambda>_.
     bind (modify (ruby_curl_easy_free X L e)) (\<lambda>_.
     bind (init_handle L e) (\<lambda>_.
     bind (modify (upd_rbce e (\<lambda>r. blank_handle e (r\<lparr>multi := None\<rparr>)))) (\<lambda>_.
     bind (on_rbce e (curb_easy_apply_thread_defaults (me_env X))) (\<lambda>_.
     bind (modify (upd_rbce e set_error_buffer)) (\<lambda>_.
     bind (on_rbce e (set_private (me_env X))) (\<lambda>_. ret Qnil)))))))"

text \<open>\<open>reset\<close> returns a copy of the attributes.\<close>

definition ruby_curl_easy_reset :: "'l multi_env \<Rightarrow> nat \<Rightarrow> ('l, string \<rightharpoonup> rvalue) mcmd" where
  "ruby_curl_easy_reset X e =
     bind (refuse_while_active ''Cannot reset an active curl handle during native operation'' e) (\<lambda>_.
     bind (gets (\<lambda>w. opts (rbce_of e w))) (\<lambda>opts_dup.
     bind (modify (upd_rbce e (\<lambda>r. blank_handle e ((ruby_curl_easy_cleanup (me_env X) r)\<lparr>curl_log := []\<rparr>)))) (\<lambda>_.
     bind (on_rbce e (curb_easy_apply_thread_defaults (me_env X))) (\<lambda>_.
     bind (modify (upd_rbce e set_error_buffer)) (\<lambda>_.
     bind (on_rbce e (set_private (me_env X))) (\<lambda>_. ret opts_dup))))))"

section \<open>Cloning\<close>

fun duplicate_slist_from :: "setup_env \<Rightarrow> string list \<Rightarrow> string list \<Rightarrow> string list res" where
  "duplicate_slist_from E dup [] = Inr dup"
| "duplicate_slist_from E dup (s # list) =
     (case curl_slist_append E dup s of
        None \<Rightarrow> Inl (Exc ''rb_eNoMemError'' ''Failed to duplicate curl_slist'')
      | Some l \<Rightarrow> duplicate_slist_from E l list)"

definition duplicate_curl_slist :: "setup_env \<Rightarrow> string list \<Rightarrow> string list res" where
  "duplicate_curl_slist E list = duplicate_slist_from E [] list"

text \<open>\<open>duplicate_upload\<close>: a new object (of the given number) with the stream and offset of the old
  one. The upload object of a handle is the second component of a \<open>transfer\<close>.\<close>

definition duplicate_upload :: "nat \<Rightarrow> rvalue \<Rightarrow> ruby_curl_upload \<Rightarrow> rvalue \<times> ruby_curl_upload" where
  "duplicate_upload obj v up =
     (if v = Qnil then (Qnil, ruby_curl_upload_new)
      else (RObj obj, ruby_curl_upload_new\<lparr>stream := stream up, offset := offset up\<rparr>))"

text \<open>The structure of the clone before its attributes are copied.\<close>

definition clone_structure :: "setup_env \<Rightarrow> nat \<Rightarrow> ruby_curl_easy \<Rightarrow> ruby_curl_easy res" where
  "clone_structure E h r =
     (case map_res (duplicate_curl_slist E)
             [curl_headers r, curl_proxy_headers r, curl_ftp_commands r, curl_resolve r, curl_connect_to r] of
        Inl x \<Rightarrow> Inl x
      | Inr ls \<Rightarrow> Inr (r\<lparr>curl := Some h,
          curl_headers := ls ! 0, curl_proxy_headers := ls ! 1, curl_ftp_commands := ls ! 2,
          curl_resolve := ls ! 3, curl_connect_to := ls ! 4,
          network_allowed_cidr_rules := None, network_allowed_cidr_rule_count := 0,
          network_allowed_hosts := None, network_allowed_host_count := 0,
          multi := None, callback_error := None, unsafe_destination_blocked := False,
          unsafe_destination_error := [], native_active := 0\<rparr>))"

definition clone_upload :: "curl_env \<Rightarrow> nat \<Rightarrow> transfer \<Rightarrow> transfer" where
  "clone_upload env upload_obj t =
     (let upload = rb_easy_get ''upload'' (xfer_easy t)
      in if upload = Qnil then t
         else case duplicate_upload upload_obj upload (xfer_upload t) of (v, up) \<Rightarrow>
           let r1 = curl_easy_setopt ''CURLOPT_READDATA'' VRbce
                      (curl_easy_setopt ''CURLOPT_READFUNCTION'' (VFun ''read_data_handler'')
                        (rb_easy_set ''upload'' v (xfer_easy t)));
               r2 = (if have_macro env ''HAVE_CURLOPT_SEEKFUNCTION''
                     then curl_easy_setopt ''CURLOPT_SEEKFUNCTION'' (VFun ''seek_data_handler'') r1 else r1);
               r3 = (if have_macro env ''HAVE_CURLOPT_SEEKDATA''
                     then curl_easy_setopt ''CURLOPT_SEEKDATA'' VRbce r2 else r2)
           in t\<lparr>xfer_easy := r3, xfer_upload := up\<rparr>)"

text \<open>\<open>curl_easy_duphandle\<close> gives the new libcurl handle; the numbers of the new Ruby objects are
  arguments.\<close>

definition ruby_curl_easy_clone ::
  "setup_env \<Rightarrow> (nat option \<Rightarrow> nat option) \<Rightarrow> nat \<Rightarrow> nat \<Rightarrow> transfer \<Rightarrow> transfer res" where
  "ruby_curl_easy_clone E curl_easy_duphandle clone_obj upload_obj t =
     (case curl_easy_duphandle (curl (xfer_easy t)) of
        None \<Rightarrow> Inl (Exc ''rb_eNoMemError'' ''Failed to duplicate Curl::Easy handle'')
      | Some h \<Rightarrow>
          (case clone_structure E h (xfer_easy t) of
             Inl x \<Rightarrow> Inl x
           | Inr r \<Rightarrow>
               let t1 = clone_upload (s_env E) upload_obj (t\<lparr>xfer_easy := set_error_buffer r\<rparr>)
               in Inr (t1\<lparr>xfer_easy := curl_easy_setopt ''CURLOPT_PRIVATE'' VRbce
                            ((xfer_easy t1)\<lparr>self := RObj clone_obj\<rparr>)\<rparr>)))"

section \<open>The multi attribute\<close>

definition ruby_curl_easy_multi_get :: "nat \<Rightarrow> ('l, nat option) mcmd" where
  "ruby_curl_easy_multi_get e = gets (\<lambda>w. multi (rbce_of e w))"

text \<open>The argument is \<open>nil\<close>, a multi handle, or (\<open>Inl\<close>) something else.\<close>

definition ruby_curl_easy_multi_set :: "'l multi_env \<Rightarrow> rvalue + nat option \<Rightarrow> nat \<Rightarrow> ('l, nat option) mcmd" where
  "ruby_curl_easy_multi_set X arg e w =
     (case arg of
        Inl _ \<Rightarrow> rb_raise ''rb_eTypeError'' ''expected Curl::Multi or nil'' w
      | Inr m \<Rightarrow>
          let old = multi (rbce_of e w) in
          if old = m then (Inr old, w)
          else bind (case old of None \<Rightarrow> ret 0 | Some n \<Rightarrow> rb_curl_multi_detach_easy X n e) (\<lambda>result.
                 if result \<noteq> 0 then raise_multi X result
                 else bind (modify (upd_rbce e (\<lambda>r. r\<lparr>multi := m\<rparr>))) (\<lambda>_. ret m)) w)"

definition ruby_curl_easy_last_result :: "(ruby_curl_easy, rvalue) cmd" where
  "ruby_curl_easy_last_result r = (Inr (RInt (last_result r)), r)"

definition ruby_curl_easy_last_error :: "(ruby_curl_easy, rvalue) cmd" where
  "ruby_curl_easy_last_error r = (Inr (if c_string (err_buf r) \<noteq> [] then RStr (c_string (err_buf r)) else Qnil), r)"

end
