(* ===== verification/Curb_Lifecycle_Facts.thy ===== *)
theory Curb_Lifecycle_Facts
  imports Curb_Lifecycle Curb_Multi_Props
begin

text \<open>
  The life of an easy handle: closing one that is attached, the state a closed handle is left in, and
  the independence of a clone.
\<close>

section \<open>Closing\<close>

text \<open>Statements that touch one easy handle and libcurl only.\<close>

definition only_easy :: "nat \<Rightarrow> 'l world \<Rightarrow> 'l world \<Rightarrow> bool" where
  "only_easy e w v \<longleftrightarrow> multis v = multis w \<and> (\<forall>i. i \<noteq> e \<longrightarrow> rbce_of i v = rbce_of i w) \<and>
     (multi (rbce_of e w) = None \<longrightarrow> multi (rbce_of e v) = None)"

interpretation only_easy: step_relation "only_easy e"
  by unfold_locales (simp_all add: only_easy_def)

lemma only_easy_write:
  "(\<And>r. multi r = None \<Longrightarrow> multi (f r) = None) \<Longrightarrow> keeps (only_easy e) (modify (upd_rbce e f))"
  by (rule only_easy.assign) (simp add: only_easy_def world_simps)

lemma only_easy_command:
  "(\<And>r. multi (snd (c r)) = multi r) \<Longrightarrow> keeps (only_easy e) (on_rbce e c)"
  by (simp add: keeps_def only_easy_def world_simps)

lemma reinit_multi:
  "multi (snd (curb_easy_apply_thread_defaults env r)) = multi r"
  "multi (snd (set_private env r)) = multi r"
  "multi (set_error_buffer r) = multi r"
  "multi (blank_handle e r) = multi r"
  by (simp_all add: curb_easy_apply_thread_defaults_def set_private_def set_error_buffer_def
      curl_easy_setopt_def blank_handle_def ruby_curl_easy_zero_def zero_flags_def zero_opts_def Let_def)

lemma init_handle_only: "keeps (only_easy e) (init_handle L e)"
  unfolding init_handle_def
  by (intro only_easy.bound only_easy_write only_easy.branch only_easy.pure)
    (simp_all add: keeps_def on_lib_eq only_easy_def world_simps)

lemma reopen_only:
  "keeps (only_easy e)
     (bind (init_handle L e) (\<lambda>_.
      bind (modify (upd_rbce e (\<lambda>r. blank_handle e (r\<lparr>multi := None\<rparr>)))) (\<lambda>_.
      bind (on_rbce e (curb_easy_apply_thread_defaults (me_env X))) (\<lambda>_.
      bind (modify (upd_rbce e set_error_buffer)) (\<lambda>_.
      bind (on_rbce e (set_private (me_env X))) (\<lambda>_. ret Qnil))))))"
  by (intro only_easy.bound init_handle_only only_easy_write only_easy_command only_easy.pure)
    (simp_all add: reinit_multi)

lemma clear_rules_multi:
  "multi (free_lists env r) = multi r" "multi (free_callbacks env r) = multi r"
proof -
  have "free_lists env r = curb_clear_network_allowed_hosts (curb_clear_network_allowed_cidr_rules
      (ruby_curl_easy_clear_setup_lists env r))"
    by (simp add: free_lists_def ruby_curl_easy_clear_setup_lists_def)
  moreover have "setup_frame (header_options \<union> list_options) r (curb_clear_network_allowed_hosts
      (curb_clear_network_allowed_cidr_rules (ruby_curl_easy_clear_setup_lists env r)))"
    by (rule frame.transitive [OF frame.transitive [OF clear_setup_lists_frame
        setup_frame_mono [OF clear_rules_frame(1)]] setup_frame_mono [OF clear_rules_frame(2)]]) simp_all
  ultimately show "multi (free_lists env r) = multi r" by (simp add: setup_frame_def)
qed (simp add: free_callbacks_def curl_easy_setopt_def)

lemma free_multis:
  assumes "multi (rbce_of e w) = Some m"
  shows "rbcm_of n (ruby_curl_easy_free X L e w) =
      (if n = m then rbcm_of m (rb_curl_multi_forget_easy m e w) else rbcm_of n w)"
    and "multi (rbce_of e (ruby_curl_easy_free X L e w)) = None"
    and "deferred_exception (multis (ruby_curl_easy_free X L e w) n) = deferred_exception (multis w n)"
  using assms
  by (auto simp: ruby_curl_easy_free_def free_detach_def Let_def world_simps on_lib_eq clear_rules_multi
      rb_curl_multi_forget_easy_def split: option.splits)

lemma easy_close_only:
  assumes "ruby_curl_easy_close X L e w = (r, v)"
    and "\<not> callback_active (rbce_of e w)" and "native_active (rbce_of e w) = 0"
  shows "only_easy e (ruby_curl_easy_free X L e w) v"
proof -
  have "v = snd (bind (init_handle L e) (\<lambda>_.
      bind (modify (upd_rbce e (\<lambda>r. blank_handle e (r\<lparr>multi := None\<rparr>)))) (\<lambda>_.
      bind (on_rbce e (curb_easy_apply_thread_defaults (me_env X))) (\<lambda>_.
      bind (modify (upd_rbce e set_error_buffer)) (\<lambda>_.
      bind (on_rbce e (set_private (me_env X))) (\<lambda>_. ret Qnil))))) (ruby_curl_easy_free X L e w))"
    using assms
    by (simp add: ruby_curl_easy_close_def refuse_while_active_def bind_def [of "\<lambda>w. (Inr (), w)"]
        bind_def [of "refuse_while_active s e" for s] bind_modify)
  then show ?thesis using keepsD [OF reopen_only] by simp
qed

text \<open>
  C34: Closing an easy handle that is attached to a multi handle. During a callback or a native call it
  raises and changes nothing. Otherwise, whatever libcurl answers, the handle leaves the attachment
  table and refers to no multi handle, but \<open>active\<close> of the multi handle is not lowered: it is one more
  than the number of handles left, so a pending exception is not raised any more, even when no handle
  is left.
\<close>

theorem closing_attached_easy_leaves_count:
  assumes "world_ok members w" and "rb_curl_multi_has_easy m e w" and "ruby_curl_easy_close X L e w = (r, v)"
  shows "if callback_active (rbce_of e w) \<or> native_active (rbce_of e w) \<noteq> 0
         then (\<exists>msg. r = Inl (Exc ''rb_eRuntimeError'' msg)) \<and> v = w
         else \<not> rb_curl_multi_has_easy m e v \<and> multi (rbce_of e v) = None \<and>
              (\<exists>t. attached (rbcm_of m v) = Some t \<and> active (rbcm_of m v) = int (length t) + 1) \<and>
              raise_multi_deferred_exception_if_idle m v = (Inr (), v)"
proof (cases "callback_active (rbce_of e w) \<or> native_active (rbce_of e w) \<noteq> 0")
  case True
  then show ?thesis
    using assms(3)
    by (cases "callback_active (rbce_of e w)")
      (auto simp: ruby_curl_easy_close_def bind_def [of "refuse_while_active s e" for s]
        refuse_while_active_def rb_raise_def)
next
  case False
  have tab: "table_ok m w" using assms(1) by (simp add: world_ok_def)
  note mult = has_easy_multi(1) [OF tab assms(2)]
  obtain t where t: "attached (rbcm_of m w) = Some t" "st_lookup t e \<noteq> None" "active (rbcm_of m w) = int (length t)"
    "st_wf t"
    using assms(2) tab by (auto simp: rb_curl_multi_has_easy_def table_ok_def split: option.splits)
  let ?u = "ruby_curl_easy_free X L e w"
  have u: "attached (rbcm_of m ?u) = Some (st_delete t e)" "active (rbcm_of m ?u) = int (length t)"
    "multi (rbce_of e ?u) = None"
    using t by (simp_all add: free_multis [OF mult] rb_curl_multi_forget_easy_def world_simps)
  have only: "only_easy e ?u v" using easy_close_only [OF assms(3)] False by simp
  have m: "rbcm_of m v = rbcm_of m ?u" "multi (rbce_of e v) = None"
    using only u(3) by (simp_all add: only_easy_def rbcm_of_def)
  have "t \<noteq> []" using t(2) by (auto simp: st_lookup_def)
  have "length (st_delete t e) = length t - 1"
    unfolding st_length using st.length_keys_delete [OF t(4), of e] t(2) by auto
  with \<open>t \<noteq> []\<close> have len: "int (length t) = int (length (st_delete t e)) + 1" by (cases t) auto
  have "\<not> rb_curl_multi_has_easy m e v" by (simp add: rb_curl_multi_has_easy_def m u(1) st_simps)
  moreover have "raise_multi_deferred_exception_if_idle m v = (Inr (), v)"
    using m u(2) len by (simp add: raise_multi_deferred_exception_if_idle_def split: option.split)
  ultimately show ?thesis using False m u len by simp
qed

text \<open>A libcurl whose easy handles are numbered from 100.\<close>

definition sample_easy_lib :: "sample_lib easy_lib" where
  "sample_easy_lib = \<lparr>curl_easy_init = (\<lambda>l. (Some 100, l)), curl_easy_cleanup = (\<lambda>_ l. l)\<rparr>"

lemma sample_idle:
  assumes "ruby_curl_multi_add sample_multi 0 7 (sample_ensured 0) = (Inr 0, v)"
  shows "\<not> callback_active (rbce_of 7 v)" and "native_active (rbce_of 7 v) = 0"
proof -
  have e0: "ruby_curl_multi_ensure_handle sample_multi 0 (sample_ensured 0) = (Inr (), sample_ensured 0)"
    by (simp add: ruby_curl_multi_ensure_handle_def sample_ensured_fields)
  obtain l where v: "v = attach_easy 0 7 l (after_setup sample_multi 7 (sample_ensured 0))"
    using assms [unfolded add_cases [OF e0]] sample_ensured_fields(4)
    by (auto simp: Let_def split: sum.splits if_splits prod.splits)
  let ?r = "rbce_of 7 sample_world"
  have idle: "\<not> callback_active ?r" "native_active ?r = 0"
    by (simp_all add: sample_world_def rbce_of_def sample_easy_def ruby_curl_easy_allocate_def
        ruby_curl_easy_zero_def zero_flags_def zero_opts_def)
  have "setup_frame UNIV (ruby_curl_easy_enter_native ?r)
      (snd (ruby_curl_easy_setup_body (me_setup sample_multi) (ruby_curl_easy_enter_native ?r)))"
    by (rule keepsD [OF setup_body_frame])
  then have "\<not> callback_active (snd (ruby_curl_easy_setup (me_setup sample_multi) ?r))"
    "native_active (snd (ruby_curl_easy_setup (me_setup sample_multi) ?r)) = 0"
    using idle by (simp_all add: setup_snd setup_frame_def ruby_curl_easy_enter_native_def
        ruby_curl_easy_leave_native_def)
  then show "\<not> callback_active (rbce_of 7 v)" "native_active (rbce_of 7 v) = 0"
    by (simp_all add: v attach_easy_def after_setup_def world_simps sample_ensured_fields)
qed

theorem closing_attached_easy_leaves_count_witness:
  "\<exists>v. ruby_curl_multi_add sample_multi 0 7 (sample_ensured 0) = (Inr 0, v) \<and>
     \<not> rb_curl_multi_has_easy 0 7 (snd (ruby_curl_easy_close sample_multi sample_easy_lib 7 v))"
proof -
  obtain v where add: "ruby_curl_multi_add sample_multi 0 7 (sample_ensured 0) = (Inr 0, v)"
    using sample_add_ensured by blast
  note v = sample_added [OF add]
  show ?thesis
    using closing_attached_easy_leaves_count [OF v(1,2) prod.collapse [symmetric], of sample_multi sample_easy_lib]
      sample_idle [OF add] add by auto
qed

section \<open>Cloning\<close>

lemma duplicate_slist_all:
  assumes "slist_append_ok E" and "duplicate_slist_from E dup l = Inr l'"
  shows "l' = dup @ l"
  using assms(2)
proof (induction l arbitrary: dup)
  case (Cons s l)
  then show ?case using assms(1) by (fastforce simp: slist_append_ok_def split: option.splits)
qed simp

lemma clone_structure_fields:
  assumes "slist_append_ok E" and "clone_structure E h r = Inr c"
  shows "c = r\<lparr>curl := Some h, network_allowed_cidr_rules := None, network_allowed_cidr_rule_count := 0,
          network_allowed_hosts := None, network_allowed_host_count := 0,
          multi := None, callback_error := None, unsafe_destination_blocked := False,
          unsafe_destination_error := [], native_active := 0\<rparr>"
proof -
  have "duplicate_curl_slist E l = Inr l' \<Longrightarrow> l' = l" for l l'
    using duplicate_slist_all [OF assms(1), of "[]"] by (simp add: duplicate_curl_slist_def)
  then show ?thesis
    using assms(2) by (auto simp: clone_structure_def split: sum.splits)
qed



end
