(* ===== verification/Curb_Requests.thy ===== *)
theory Curb_Requests
  imports Curb_Setup Curb_Postfield
begin

text \<open>
  Preparing and performing requests in \<open>ext/curb_easy.c\<close>: the body of a POST or PATCH, the data of a
  PUT, multipart forms, and the verbs that set the request method, perform, and take their options
  back. \<open>perform\<close> itself is a Ruby method here, called through \<open>rb_funcall\<close>.
\<close>

definition on_easy :: "(ruby_curl_easy, 'a) cmd \<Rightarrow> (transfer, 'a) cmd" where
  "on_easy c t = (case c (xfer_easy t) of (r, x) \<Rightarrow> (r, t\<lparr>xfer_easy := x\<rparr>))"

abbreviation set_opt :: "string \<Rightarrow> curl_val \<Rightarrow> (transfer, unit) cmd" where
  "set_opt opt v \<equiv> modify (upd_easy (curl_easy_setopt opt v))"

text \<open>\<open>ruby_curl_easy_enter_native\<close>, then the body under \<open>rb_ensure\<close>.\<close>

definition in_native :: "(transfer, 'a) cmd \<Rightarrow> (transfer, 'a) cmd" where
  "in_native body =
     bind (modify (upd_easy ruby_curl_easy_enter_native)) (\<lambda>_.
       rb_ensure body (modify (upd_easy ruby_curl_easy_leave_native)))"

section \<open>The body of a request\<close>

definition clear_post_body :: "bool \<Rightarrow> (transfer, rvalue) cmd" where
  "clear_post_body force_http_get_on_nil =
     bind (modify (upd_easy (rb_easy_del ''postdata_buffer''))) (\<lambda>_.
     bind (set_opt ''CURLOPT_POSTFIELDS'' VNull) (\<lambda>_.
     bind (set_opt ''CURLOPT_POSTFIELDSIZE'' (VLong 0)) (\<lambda>_.
     bind (if force_http_get_on_nil then set_opt ''CURLOPT_HTTPGET'' (VLong 1) else ret ()) (\<lambda>_.
     ret Qnil))))"

definition store_post_body :: "curl_env \<Rightarrow> string \<Rightarrow> (transfer, unit) cmd" where
  "store_post_body env body =
     bind (modify (upd_easy (rb_easy_set ''postdata_buffer'' (RStr body)))) (\<lambda>_.
     bind (set_opt ''CURLOPT_POST'' (VLong 1)) (\<lambda>_.
     bind (set_opt ''CURLOPT_POSTFIELDSIZE'' (VLong (int (length body)))) (\<lambda>_.
     if have_macro env ''HAVE_CURLOPT_COPYPOSTFIELDS''
     then set_opt ''CURLOPT_COPYPOSTFIELDS'' (VStr body) else set_opt ''CURLOPT_POSTFIELDS'' (VStr body))))"

definition ruby_curl_easy_post_body_set_with_mode_body ::
  "curl_env \<Rightarrow> user_code \<Rightarrow> rvalue \<Rightarrow> bool \<Rightarrow> (transfer, rvalue) cmd" where
  "ruby_curl_easy_post_body_set_with_mode_body env u post_body force_http_get_on_nil =
     (if post_body = Qnil then clear_post_body force_http_get_on_nil
      else
        bind (case post_body of
                RStr _ \<Rightarrow> ret post_body
              | _ \<Rightarrow> if rb_respond_to u post_body ''to_s'' then rb_funcall u post_body ''to_s'' []
                      else rb_raise ''rb_eRuntimeError'' ''post data must respond_to .to_s'') (\<lambda>body_str.
        bind (call_string_value u body_str) (\<lambda>s.
        case s of
          RStr body \<Rightarrow> bind (store_post_body env body) (\<lambda>_. ret post_body)
        | _ \<Rightarrow> lift_res type_error)))"

definition ruby_curl_easy_post_body_set_with_mode ::
  "curl_env \<Rightarrow> user_code \<Rightarrow> rvalue \<Rightarrow> bool \<Rightarrow> (transfer, rvalue) cmd" where
  "ruby_curl_easy_post_body_set_with_mode env u post_body force_http_get_on_nil =
     in_native (ruby_curl_easy_post_body_set_with_mode_body env u post_body force_http_get_on_nil)"

definition ruby_curl_easy_post_body_set :: "curl_env \<Rightarrow> user_code \<Rightarrow> rvalue \<Rightarrow> (transfer, rvalue) cmd" where
  "ruby_curl_easy_post_body_set env u post_body = ruby_curl_easy_post_body_set_with_mode env u post_body True"

definition ruby_curl_easy_post_body_get :: "(ruby_curl_easy, rvalue) cmd" where
  "ruby_curl_easy_post_body_get = CURB_OBJECT_HGETTER ''postdata_buffer''"

section \<open>The data of a PUT\<close>

definition is_string :: "rvalue \<Rightarrow> bool" where
  "is_string v = (case v of RStr _ \<Rightarrow> True | _ \<Rightarrow> False)"

text \<open>Ruby's Hash with string keys; the headers are taken to be a Hash where the code uses them as
  one.\<close>

definition rb_hash_aref :: "(rvalue \<times> rvalue) list \<Rightarrow> string \<Rightarrow> rvalue" where
  "rb_hash_aref ps k = (case map_of ps (RStr k) of None \<Rightarrow> Qnil | Some v \<Rightarrow> v)"

definition rb_hash_aset :: "(rvalue \<times> rvalue) list \<Rightarrow> string \<Rightarrow> string \<Rightarrow> (rvalue \<times> rvalue) list" where
  "rb_hash_aset ps k v = st_insert ps (RStr k) (RStr v)"

text \<open>Setting a header changes the Hash object at once: the caller's, when the handle has one, and a
  new one otherwise, which is stored later. The pairs are carried along.\<close>

definition put_header :: "bool \<Rightarrow> string \<Rightarrow> string \<Rightarrow> (rvalue \<times> rvalue) list \<Rightarrow> (transfer, (rvalue \<times> rvalue) list) cmd" where
  "put_header stored k v ps =
     (let ps' = rb_hash_aset ps k v
      in bind (if stored then modify (upd_easy (rb_easy_set ''headers'' (RHash ps'))) else ret ()) (\<lambda>_. ret ps'))"

definition put_header_unless :: "bool \<Rightarrow> string \<Rightarrow> string \<Rightarrow> (rvalue \<times> rvalue) list \<Rightarrow> (transfer, (rvalue \<times> rvalue) list) cmd" where
  "put_header_unless stored k v ps = (if rb_hash_aref ps k = Qnil then put_header stored k v ps else ret ps)"

definition call_to_i :: "user_code \<Rightarrow> rvalue \<Rightarrow> (transfer, rvalue) cmd" where
  "call_to_i u v = (if v = Qnil then ret (RInt 0) else rb_funcall u v ''to_i'' [])"

text \<open>The headers and \<open>infile_size\<close> for data that can be read. The test of the last branch is on a
  \<open>VALUE\<close> as a C truth value, which holds for \<open>nil\<close> as well.\<close>

definition put_reader_size ::
  "user_code \<Rightarrow> rvalue \<Rightarrow> bool \<Rightarrow> (rvalue \<times> rvalue) list \<Rightarrow> (transfer, (rvalue \<times> rvalue) list \<times> rvalue) cmd" where
  "put_reader_size u v stored ps =
     bind (if rb_respond_to u v ''stat'' then rb_funcall u v ''stat'' [] else ret Qnil) (\<lambda>st.
       if st \<noteq> Qnil \<and> st \<noteq> Qfalse \<and> rb_hash_aref ps ''Content-Length'' = Qnil then
         bind (put_header_unless stored ''Expect'' [] ps) (\<lambda>ps'.
         bind (rb_funcall u st ''size'' []) (\<lambda>sz. ret (ps', sz)))
       else if rb_hash_aref ps ''Content-Length'' = Qnil \<and> rb_hash_aref ps ''Transfer-Encoding'' = Qnil then
         bind (put_header stored ''Transfer-Encoding'' ''chunked'' ps) (\<lambda>ps'. ret (ps', Qnil))
       else
         bind (call_to_i u (rb_hash_aref ps ''Content-Length'')) (\<lambda>sz. ret (ps, sz)))"

definition put_options :: "curl_env \<Rightarrow> (string \<times> curl_val) list" where
  "put_options env =
     [(''CURLOPT_NOBODY'', VLong 0), (''CURLOPT_POST'', VLong 0), (''CURLOPT_POSTFIELDS'', VNull),
      (''CURLOPT_POSTFIELDSIZE'', VLong 0), (''CURLOPT_UPLOAD'', VLong 1),
      (''CURLOPT_READFUNCTION'', VFun ''read_data_handler'')] @
     (if have_macro env ''HAVE_CURLOPT_SEEKFUNCTION'' then [(''CURLOPT_SEEKFUNCTION'', VFun ''seek_data_handler'')] else []) @
     [(''CURLOPT_READDATA'', VRbce)] @
     (if have_macro env ''HAVE_CURLOPT_SEEKDATA'' then [(''CURLOPT_SEEKDATA'', VRbce)] else [])"

text \<open>The upload object is created with number \<open>obj\<close>.\<close>

definition start_upload :: "setup_env \<Rightarrow> nat \<Rightarrow> rvalue \<Rightarrow> (rvalue \<times> rvalue) list \<Rightarrow> rvalue \<Rightarrow> (transfer, unit) cmd" where
  "start_upload E obj upload_stream ps infile_size =
     bind (modify (upd_easy (rb_easy_set ''headers'' (RHash ps)))) (\<lambda>_.
     bind (modify (\<lambda>t. t\<lparr>xfer_upload := snd (ruby_curl_upload_stream_set upload_stream ruby_curl_upload_new)\<rparr>)) (\<lambda>_.
     bind (modify (upd_easy (rb_easy_set ''upload'' (RObj obj)))) (\<lambda>_.
     bind (modify (upd_easy (fold (\<lambda>(opt, v). curl_easy_setopt opt v) (put_options (s_env E))))) (\<lambda>_.
     if infile_size = Qnil then ret ()
     else bind (lift_res (NUM2LONG infile_size)) (\<lambda>n. set_opt ''CURLOPT_INFILESIZE'' (VLong n))))))"

definition put_stream :: "setup_env \<Rightarrow> user_code \<Rightarrow> rvalue \<Rightarrow> (transfer, rvalue) cmd" where
  "put_stream E u v =
     (if v \<noteq> Qnil \<and> \<not> rb_respond_to u v ''read'' then
        (if rb_respond_to u v ''to_s'' then bind (lift_res (rb_obj_as_string (s_to_s E) v)) (\<lambda>s. ret (RStr s))
         else rb_raise ''rb_eRuntimeError'' ''PUT data must respond to read or to_s'')
      else ret v)"

definition ruby_curl_easy_put_data_set :: "setup_env \<Rightarrow> user_code \<Rightarrow> nat \<Rightarrow> rvalue \<Rightarrow> (transfer, rvalue) cmd" where
  "ruby_curl_easy_put_data_set E u obj v =
     bind (gets (\<lambda>t. rb_easy_get ''headers'' (xfer_easy t))) (\<lambda>hs.
       if is_array hs \<or> is_string hs
       then rb_raise ''rb_eRuntimeError'' ''Must set headers as a HASH to modify the headers in an PUT request''
       else bind (put_stream E u v) (\<lambda>upload_stream.
         bind (let stored = (hs \<noteq> Qnil); ps = (case hs of RHash ps \<Rightarrow> ps | _ \<Rightarrow> [])
               in if v \<noteq> Qnil \<and> rb_respond_to u v ''read'' then put_reader_size u v stored ps
                  else if v \<noteq> Qnil then
                    bind (put_header_unless stored ''Expect'' [] ps) (\<lambda>ps'.
                      ret (ps', case upload_stream of RStr s \<Rightarrow> RInt (int (length s)) | _ \<Rightarrow> Qnil))
                  else ret (ps, Qnil)) (\<lambda>(ps, infile_size).
         bind (start_upload E obj upload_stream ps infile_size) (\<lambda>_. ret v))))"

section \<open>Multipart forms\<close>

text \<open>The handle, the \<open>Curl::PostField\<close> objects by number (\<open>None\<close> for an object of another class) and
  the form being built.\<close>

record form_run =
  fr_xfer :: transfer
  fr_fields :: "nat \<Rightarrow> ruby_curl_postfield option"
  fr_form :: "form_part list"
  form_set_on_curl :: bool

definition on_xfer :: "(transfer, 'a) cmd \<Rightarrow> (form_run, 'a) cmd" where
  "on_xfer c s = (case c (fr_xfer s) of (r, t) \<Rightarrow> (r, s\<lparr>fr_xfer := t\<rparr>))"

definition invalid_postfield :: "(form_run, unit) cmd" where
  "invalid_postfield = rb_raise ''eCurlErrInvalidPostField'' ''You must use PostFields only with multipart form posts''"

text \<open>\<open>append_to_form\<close> on the field with the given number.\<close>

definition append_field ::
  "(form_part \<Rightarrow> int) \<Rightarrow> (rvalue \<Rightarrow> (form_state, rvalue) cmd) \<Rightarrow> nat \<Rightarrow> ruby_curl_postfield \<Rightarrow> (form_run, unit) cmd" where
  "append_field formadd call_proc n pf s =
     (case append_to_form formadd call_proc \<lparr>field = pf, form = fr_form s\<rparr> of
        (r, st) \<Rightarrow> (r, s\<lparr>fr_fields := (fr_fields s)(n \<mapsto> field st), fr_form := form st\<rparr>))"

definition append_element ::
  "(form_part \<Rightarrow> int) \<Rightarrow> (rvalue \<Rightarrow> (form_state, rvalue) cmd) \<Rightarrow> rvalue \<Rightarrow> (form_run, unit) cmd" where
  "append_element formadd call_proc v s =
     (case v of
        RObj n \<Rightarrow> (case fr_fields s n of Some pf \<Rightarrow> append_field formadd call_proc n pf s | None \<Rightarrow> invalid_postfield s)
      | _ \<Rightarrow> invalid_postfield s)"

definition append_multipart_form_argument ::
  "(form_part \<Rightarrow> int) \<Rightarrow> (rvalue \<Rightarrow> (form_state, rvalue) cmd) \<Rightarrow> rvalue \<Rightarrow> (form_run, unit) cmd" where
  "append_multipart_form_argument formadd call_proc v =
     (case v of
        RArr vs \<Rightarrow> steps (map (append_element formadd call_proc) vs)
      | _ \<Rightarrow> append_element formadd call_proc v)"

definition build_and_perform_multipart_form ::
  "(form_part \<Rightarrow> int) \<Rightarrow> (rvalue \<Rightarrow> (form_state, rvalue) cmd) \<Rightarrow> user_code \<Rightarrow> rvalue \<Rightarrow> rvalue list \<Rightarrow> (form_run, rvalue) cmd" where
  "build_and_perform_multipart_form formadd call_proc u self_obj args =
     bind (steps (map (append_multipart_form_argument formadd call_proc) args)) (\<lambda>_.
     bind (on_xfer (set_opt ''CURLOPT_POST'' (VLong 0))) (\<lambda>_.
     bind (on_xfer (set_opt ''CURLOPT_HTTPPOST'' (VField ''first''))) (\<lambda>_.
     bind (modify (\<lambda>s. s\<lparr>form_set_on_curl := True\<rparr>)) (\<lambda>_.
     on_xfer (rb_funcall u self_obj ''perform'' [])))))"

definition ensure_free_form_post :: "bool \<Rightarrow> bool \<Rightarrow> (form_run, unit) cmd" where
  "ensure_free_form_post has_curl clear_customrequest =
     bind (if has_curl then
             bind (\<lambda>s. if form_set_on_curl s then on_xfer (set_opt ''CURLOPT_HTTPPOST'' VNull) s else (Inr (), s)) (\<lambda>_.
             if clear_customrequest then on_xfer (set_opt ''CURLOPT_CUSTOMREQUEST'' VNull) else ret ())
           else ret ()) (\<lambda>_.
     modify (\<lambda>s. s\<lparr>fr_form := []\<rparr>))"

definition perform_multipart ::
  "(form_part \<Rightarrow> int) \<Rightarrow> (rvalue \<Rightarrow> (form_state, rvalue) cmd) \<Rightarrow> user_code \<Rightarrow> rvalue \<Rightarrow> rvalue list \<Rightarrow> bool \<Rightarrow>
   (nat \<Rightarrow> ruby_curl_postfield option) \<Rightarrow> (transfer, rvalue) cmd" where
  "perform_multipart formadd call_proc u self_obj args clear_customrequest pfs t =
     (case rb_ensure (build_and_perform_multipart_form formadd call_proc u self_obj args)
             (ensure_free_form_post (curl (xfer_easy t) \<noteq> None) clear_customrequest)
             \<lparr>fr_xfer = t, fr_fields = pfs, fr_form = [], form_set_on_curl = False\<rparr> of
        (r, s) \<Rightarrow> (r, fr_xfer s))"

section \<open>The verbs\<close>

text \<open>\<open>has_curl\<close> is the \<open>curl\<close> pointer read before the request.\<close>

definition perform_with_request_restore_ensure :: "bool \<Rightarrow> bool \<Rightarrow> bool \<Rightarrow> bool \<Rightarrow> (transfer, unit) cmd" where
  "perform_with_request_restore_ensure has_curl clear_customrequest clear_nobody clear_postfields =
     (if \<not> has_curl then ret () else
        bind (if clear_nobody then set_opt ''CURLOPT_NOBODY'' (VLong 0) else ret ()) (\<lambda>_.
        bind (if clear_customrequest then set_opt ''CURLOPT_CUSTOMREQUEST'' VNull else ret ()) (\<lambda>_.
        if clear_postfields then
          bind (set_opt ''CURLOPT_POST'' (VLong 0)) (\<lambda>_.
          bind (set_opt ''CURLOPT_POSTFIELDS'' VNull) (\<lambda>_.
          bind (set_opt ''CURLOPT_POSTFIELDSIZE'' (VLong 0)) (\<lambda>_.
          bind (set_opt ''CURLOPT_HTTPGET'' (VLong 1)) (\<lambda>_.
          modify (upd_easy (rb_easy_del ''postdata_buffer''))))))
        else ret ())))"

definition perform_with_request_restore ::
  "user_code \<Rightarrow> rvalue \<Rightarrow> bool \<Rightarrow> bool \<Rightarrow> bool \<Rightarrow> bool \<Rightarrow> (transfer, rvalue) cmd" where
  "perform_with_request_restore u self_obj has_curl clear_customrequest clear_nobody clear_postfields =
     rb_ensure (rb_funcall u self_obj ''perform'' [])
       (perform_with_request_restore_ensure has_curl clear_customrequest clear_nobody clear_postfields)"

definition clear_err_buf :: "(transfer, unit) cmd" where
  "clear_err_buf = modify (upd_easy (\<lambda>r. r\<lparr>err_buf := []\<rparr>))"

definition ruby_curl_easy_perform_verb_str :: "user_code \<Rightarrow> rvalue \<Rightarrow> string \<Rightarrow> (transfer, rvalue) cmd" where
  "ruby_curl_easy_perform_verb_str u self_obj verb t =
     (let is_head = (map curb_ascii_downcase verb = ''head'')
      in bind clear_err_buf (\<lambda>_.
         bind (set_opt ''CURLOPT_CUSTOMREQUEST'' (VStr verb)) (\<lambda>_.
         bind (if is_head then
                 bind (set_opt ''CURLOPT_NOBODY'' (VLong 1)) (\<lambda>_.
                 bind (set_opt ''CURLOPT_HTTPGET'' (VLong 0)) (\<lambda>_. set_opt ''CURLOPT_POST'' (VLong 0)))
               else ret ()) (\<lambda>_.
         perform_with_request_restore u self_obj (curl (xfer_easy t) \<noteq> None) True is_head False))) t)"

definition ruby_curl_easy_perform_verb :: "user_code \<Rightarrow> rvalue \<Rightarrow> rvalue \<Rightarrow> (transfer, rvalue) cmd" where
  "ruby_curl_easy_perform_verb u self_obj verb =
     (case verb of
        RStr _ \<Rightarrow> bind (lift_res (StringValueCStr verb)) (ruby_curl_easy_perform_verb_str u self_obj)
      | _ \<Rightarrow> if rb_respond_to u verb ''to_s'' then
               bind (rb_funcall u verb ''to_s'' []) (\<lambda>str_verb.
               bind (lift_res (StringValueCStr str_verb)) (ruby_curl_easy_perform_verb_str u self_obj))
             else rb_raise ''rb_eRuntimeError'' (''Invalid HTTP VERB, must response to '' @ [CHR 0x27] @ ''to_s'' @ [CHR 0x27]))"

definition join_easy_arguments :: "user_code \<Rightarrow> rvalue list \<Rightarrow> (transfer, rvalue) cmd" where
  "join_easy_arguments u args = in_native (rb_funcall u (RArr args) ''join'' [RStr ''&''])"

definition nonempty_string :: "rvalue \<Rightarrow> bool" where
  "nonempty_string v = (case v of RStr s \<Rightarrow> s \<noteq> [] | _ \<Rightarrow> False)"

text \<open>The joined arguments become the body; an earlier \<open>post_body\<close> is honoured when there are none.\<close>

definition set_joined_body :: "curl_env \<Rightarrow> user_code \<Rightarrow> rvalue \<Rightarrow> (transfer, unit) cmd" where
  "set_joined_body env u body =
     (if body = Qnil then rb_raise ''eCurlErrError'' ''Failed to join arguments''
      else bind (if nonempty_string body then ruby_curl_easy_post_body_set env u body else ret Qnil) (\<lambda>_.
           bind (if_state (\<lambda>t. rb_easy_nil ''postdata_buffer'' (xfer_easy t))
                   (ruby_curl_easy_post_body_set env u body) (ret Qnil)) (\<lambda>_. ret ())))"

definition ruby_curl_easy_perform_post ::
  "curl_env \<Rightarrow> (form_part \<Rightarrow> int) \<Rightarrow> (rvalue \<Rightarrow> (form_state, rvalue) cmd) \<Rightarrow> user_code \<Rightarrow> rvalue \<Rightarrow>
   (nat \<Rightarrow> ruby_curl_postfield option) \<Rightarrow> rvalue list \<Rightarrow> (transfer, rvalue) cmd" where
  "ruby_curl_easy_perform_post env formadd call_proc u self_obj pfs args t =
     (let has_curl = (curl (xfer_easy t) \<noteq> None)
      in bind clear_err_buf (\<lambda>_.
         bind (set_opt ''CURLOPT_CUSTOMREQUEST'' VNull) (\<lambda>_.
         if_state (\<lambda>t. multipart_form_post (xfer_easy t))
           (perform_multipart formadd call_proc u self_obj args False pfs)
           (bind (join_easy_arguments u args) (\<lambda>body.
            bind (set_joined_body env u body) (\<lambda>_.
            perform_with_request_restore u self_obj has_curl True False False))))) t)"

definition ruby_curl_easy_perform_patch ::
  "curl_env \<Rightarrow> (form_part \<Rightarrow> int) \<Rightarrow> (rvalue \<Rightarrow> (form_state, rvalue) cmd) \<Rightarrow> user_code \<Rightarrow> rvalue \<Rightarrow>
   (nat \<Rightarrow> ruby_curl_postfield option) \<Rightarrow> rvalue list \<Rightarrow> (transfer, rvalue) cmd" where
  "ruby_curl_easy_perform_patch env formadd call_proc u self_obj pfs args t =
     (let has_curl = (curl (xfer_easy t) \<noteq> None)
      in bind clear_err_buf (\<lambda>_.
         bind (set_opt ''CURLOPT_CUSTOMREQUEST'' (VStr ''PATCH'')) (\<lambda>_.
         if_state (\<lambda>t. multipart_form_post (xfer_easy t))
           (perform_multipart formadd call_proc u self_obj args True pfs)
           (bind (join_easy_arguments u args) (\<lambda>body.
            bind (set_joined_body env u body) (\<lambda>_.
            perform_with_request_restore u self_obj has_curl True False True))))) t)"

definition ruby_curl_easy_perform_put ::
  "setup_env \<Rightarrow> (form_part \<Rightarrow> int) \<Rightarrow> (rvalue \<Rightarrow> (form_state, rvalue) cmd) \<Rightarrow> user_code \<Rightarrow> nat \<Rightarrow> rvalue \<Rightarrow>
   (nat \<Rightarrow> ruby_curl_postfield option) \<Rightarrow> rvalue list \<Rightarrow> (transfer, rvalue) cmd" where
  "ruby_curl_easy_perform_put E formadd call_proc u obj self_obj pfs args t =
     (let has_curl = (curl (xfer_easy t) \<noteq> None);
          finish = perform_with_request_restore u self_obj has_curl True False False
      in bind clear_err_buf (\<lambda>_.
         bind (set_opt ''CURLOPT_CUSTOMREQUEST'' (VStr ''PUT'')) (\<lambda>_.
           if args = [] then bind (ruby_curl_easy_put_data_set E u obj (RStr [])) (\<lambda>_. finish)
           else if length args = 1 \<and> (is_string (args ! 0) \<or> rb_respond_to u (args ! 0) ''read'')
           then bind (ruby_curl_easy_put_data_set E u obj (args ! 0)) (\<lambda>_. finish)
           else if_state (\<lambda>t. multipart_form_post (xfer_easy t))
             (perform_multipart formadd call_proc u self_obj args True pfs)
             (bind (join_easy_arguments u args) (\<lambda>body.
              bind (if nonempty_string body then ruby_curl_easy_put_data_set E u obj body else ret Qnil) (\<lambda>_.
              finish))))) t)"

end
