(* ===== verification/Curb_Requests_Facts.thy ===== *)
theory Curb_Requests_Facts
  imports Curb_Requests Curb_Setup_Props Curb_Callbacks_Facts
begin

text \<open>
  What the verbs leave behind on the handle: the request method and the form are taken back on every
  exit from \<open>perform\<close>, and where they are not.
\<close>

lemma on_easy_simps:
  "set_opt opt v t = (Inr (), t\<lparr>xfer_easy := curl_easy_setopt opt v (xfer_easy t)\<rparr>)"
  "clear_err_buf t = (Inr (), t\<lparr>xfer_easy := (xfer_easy t)\<lparr>err_buf := []\<rparr>\<rparr>)"
  by (simp_all add: modify_def clear_err_buf_def)

lemma curl_opt_other [simp]:
  "curl_opt (rb_easy_del k r) opt = curl_opt r opt"
  "curl_opt (r\<lparr>err_buf := b\<rparr>) opt = curl_opt r opt"
  by (simp_all add: curl_opt_def rb_easy_del_def)

definition method_of :: "transfer \<Rightarrow> curl_val option" where
  "method_of t = curl_opt (xfer_easy t) ''CURLOPT_CUSTOMREQUEST''"

text \<open>What the ensure clause of the verbs establishes.\<close>

definition restored :: "bool \<Rightarrow> bool \<Rightarrow> transfer \<Rightarrow> bool" where
  "restored nobody postfields t \<longleftrightarrow> method_of t = Some VNull \<and>
     (nobody \<longrightarrow> curl_opt (xfer_easy t) ''CURLOPT_NOBODY'' = Some (VLong 0)) \<and>
     (postfields \<longrightarrow> curl_opt (xfer_easy t) ''CURLOPT_POSTFIELDS'' = Some VNull \<and>
        curl_opt (xfer_easy t) ''CURLOPT_HTTPGET'' = Some (VLong 1) \<and> rb_easy_nil ''postdata_buffer'' (xfer_easy t))"

lemma restore_ensure_restores:
  "restored nobody postfields (snd (perform_with_request_restore_ensure True True nobody postfields t))"
  by (simp add: perform_with_request_restore_ensure_def bind_def modify_def ret_def restored_def method_of_def
      curl_opt_setopt rb_easy_nil_def rb_easy_get_del)

lemma request_restores:
  assumes "perform_with_request_restore u self_obj True True nobody postfields t = (r, t')"
  shows "restored nobody postfields t'"
  using assms restore_ensure_restores rb_ensure_state [of "rb_funcall u self_obj ''perform'' []"]
  unfolding perform_with_request_restore_def by (metis snd_conv)

lemma free_form_effect:
  "ensure_free_form_post True clear s =
     (Inr (), s\<lparr>fr_form := [],
        fr_xfer := (let t = (if form_set_on_curl s then snd (set_opt ''CURLOPT_HTTPPOST'' VNull (fr_xfer s)) else fr_xfer s)
                    in if clear then snd (set_opt ''CURLOPT_CUSTOMREQUEST'' VNull t) else t)\<rparr>)"
  by (simp add: ensure_free_form_post_def bind_def on_xfer_def ret_def modify_def Let_def)

lemma multipart_effect:
  assumes "perform_multipart formadd call_proc u self_obj args clear pfs t = (r, t')"
    and "curl (xfer_easy t) \<noteq> None"
  shows "clear \<Longrightarrow> method_of t' = Some VNull"
    and "r = Inr v \<Longrightarrow> curl_opt (xfer_easy t') ''CURLOPT_HTTPPOST'' = Some VNull"
proof -
  let ?body = "build_and_perform_multipart_form formadd call_proc u self_obj args"
  let ?s0 = "\<lparr>fr_xfer = t, fr_fields = pfs, fr_form = [], form_set_on_curl = False\<rparr>"
  obtain r1 s1 where body: "?body ?s0 = (r1, s1)" by fastforce
  have t': "r = r1" "t' = fr_xfer (snd (ensure_free_form_post True clear s1))"
    using assms body by (auto simp: perform_multipart_def rb_ensure_def free_form_effect)
  show "clear \<Longrightarrow> method_of t' = Some VNull"
    by (simp add: t' free_form_effect method_of_def on_easy_simps curl_opt_setopt Let_def)
  assume "r = Inr v"
  then have "form_set_on_curl s1"
    using body t'(1)
    by (auto simp: build_and_perform_multipart_form_def on_xfer_def modify_def elim!: bind_InrE split: prod.splits)
  then show "curl_opt (xfer_easy t') ''CURLOPT_HTTPPOST'' = Some VNull"
    by (simp add: t' free_form_effect on_easy_simps curl_opt_setopt Let_def)
qed

definition with_method :: "curl_val \<Rightarrow> transfer \<Rightarrow> transfer" where
  "with_method v t = t\<lparr>xfer_easy := curl_easy_setopt ''CURLOPT_CUSTOMREQUEST'' v ((xfer_easy t)\<lparr>err_buf := []\<rparr>)\<rparr>"

lemma with_method:
  "bind clear_err_buf (\<lambda>_. bind (set_opt ''CURLOPT_CUSTOMREQUEST'' v) f) t = f () (with_method v t)"
  by (simp add: with_method_def bind_def [of clear_err_buf] bind_modify on_easy_simps)

lemma with_method_fields [simp]:
  "curl (xfer_easy (with_method v t)) = curl (xfer_easy t)"
  "multipart_form_post (xfer_easy (with_method v t)) = multipart_form_post (xfer_easy t)"
  "method_of (with_method v t) = Some v"
  by (simp_all add: with_method_def curl_easy_setopt_def method_of_def curl_opt_def)

lemma verb_str_restores:
  assumes "curl (xfer_easy t) = Some h" and "ruby_curl_easy_perform_verb_str u self_obj verb t = (r, t')"
  shows "restored (map curb_ascii_downcase verb = ''head'') False t'"
proof -
  define is_head where "is_head = (map curb_ascii_downcase verb = ''head'')"
  obtain t1 where "perform_with_request_restore u self_obj True True is_head False t1 = (r, t')"
    using assms
    by (auto simp: ruby_curl_easy_perform_verb_str_def bind_def ret_def on_easy_simps Let_def is_head_def [symmetric]
        split: if_splits)
  then show ?thesis unfolding is_head_def by (rule request_restores)
qed

lemma patch_restores:
  assumes "curl (xfer_easy t) = Some h"
    and "ruby_curl_easy_perform_patch env formadd call_proc u self_obj pfs args t = (Inr v, t')"
  shows "if multipart_form_post (xfer_easy t) then method_of t' = Some VNull else restored False True t'"
proof (cases "multipart_form_post (xfer_easy t)")
  case True
  then have "perform_multipart formadd call_proc u self_obj args True pfs (with_method (VStr ''PATCH'') t) = (Inr v, t')"
    using assms(2) by (simp add: ruby_curl_easy_perform_patch_def with_method if_state_def Let_def)
  then show ?thesis using True assms(1) multipart_effect(1) by fastforce
next
  case False
  then show ?thesis
    using assms
    by (auto simp: ruby_curl_easy_perform_patch_def with_method if_state_def Let_def elim!: bind_InrE
        dest: request_restores)
qed

lemma put_restores:
  assumes "curl (xfer_easy t) = Some h"
    and "ruby_curl_easy_perform_put E formadd call_proc u obj self_obj pfs args t = (Inr v, t')"
  shows "method_of t' = Some VNull"
proof -
  have fin: "perform_with_request_restore u self_obj True True False False s = (Inr v, t') \<Longrightarrow>
      method_of t' = Some VNull" for s
    by (drule request_restores) (simp add: restored_def)
  have "perform_multipart formadd call_proc u self_obj args True pfs (with_method (VStr ''PUT'') t) = (Inr v, t') \<Longrightarrow>
      method_of t' = Some VNull"
    by (erule multipart_effect(1)) (use assms(1) in simp_all)
  then show ?thesis
    using assms
    by (auto simp: ruby_curl_easy_perform_put_def with_method if_state_def Let_def elim!: bind_InrE dest: fin
        split: if_splits)
qed


lemma setup_keeps_method:
  "curl_opt (snd (ruby_curl_easy_setup E r)) ''CURLOPT_CUSTOMREQUEST'' = curl_opt r ''CURLOPT_CUSTOMREQUEST''"
proof -
  let ?S = "- {''CURLOPT_CUSTOMREQUEST''}"
  note within = keeps_frame_mono [where T = ?S]
  have "keeps (setup_frame ?S) (ruby_curl_easy_setup_body E)"
    unfolding ruby_curl_easy_setup_body_def
    by (intro frame.cons frame.empty frame.assign setup_frame_mono [OF clear_setup_lists_frame]
      setup_reset_frame(1) [THEN within] setup_url_frame [THEN within]
      setup_allowed_hosts_frame [THEN within] setup_network_policy_frame [THEN within]
      setup_auth_frame [THEN within] setup_proxy_frame [THEN within]
      setup_data_procs_frame [THEN within] setup_progress_debug_frame [THEN within]
      setup_general_frame [THEN within] setup_ports_frame [THEN within]
      setup_cookies_frame [THEN within] setup_ssl_frame [THEN within]
      setup_http_headers_frame [THEN within] setup_other_lists_frame [THEN within])
     (simp_all add: url_options_def policy_options_def host_options_def auth_options_def proxy_options_def
       callback_options_def general_options_def port_options_def file_options_def header_options_def list_options_def)
  then have "setup_frame ?S (ruby_curl_easy_enter_native r)
      (snd (ruby_curl_easy_setup_body E (ruby_curl_easy_enter_native r)))" by (rule keepsD)
  then show ?thesis
    by (simp add: setup_snd setup_frame_def curl_opt_def ruby_curl_easy_enter_native_def
        ruby_curl_easy_leave_native_def)
qed

definition sample_request :: transfer where
  "sample_request = \<lparr>xfer_easy = sample_easy, xfer_upload = ruby_curl_upload_new\<rparr>"

lemma sample_request_easy: "curl (xfer_easy sample_request) = Some 1" "\<not> multipart_form_post (xfer_easy sample_request)"
  by (simp_all add: sample_request_def sample_easy_def ruby_curl_easy_allocate_def ruby_curl_easy_zero_def
      zero_flags_def zero_opts_def)


text \<open>
  C22: Where a request method is left behind. When joining the arguments of a PATCH raises, the error
  goes to the caller with \<open>CURLOPT_CUSTOMREQUEST\<close> still \<open>PATCH\<close>, and setting the handle up for the next
  transfer does not change that: the next plain \<open>perform\<close> sends a PATCH. The same holds of a PUT
  with several arguments.
\<close>

theorem failed_arguments_leave_method:
  assumes "\<not> multipart_form_post (xfer_easy t)"
    and "rb_funcall u (RArr (a # b # args)) ''join'' [RStr ''&''] = rb_exc_raise e"
  shows "\<exists>t1 t2.
     ruby_curl_easy_perform_patch env formadd call_proc u self_obj pfs (a # b # args) t = (Inl e, t1) \<and>
     ruby_curl_easy_perform_put E formadd call_proc u obj self_obj pfs (a # b # args) t = (Inl e, t2) \<and>
     curl_opt (snd (ruby_curl_easy_setup E' (xfer_easy t1))) ''CURLOPT_CUSTOMREQUEST'' = Some (VStr ''PATCH'') \<and>
     curl_opt (snd (ruby_curl_easy_setup E' (xfer_easy t2))) ''CURLOPT_CUSTOMREQUEST'' = Some (VStr ''PUT'')"
proof -
  have join: "\<exists>s'. bind (join_easy_arguments u (a # b # args)) k s = (Inl e, s') \<and> method_of s' = method_of s" for k s
    by (simp add: join_easy_arguments_def in_native_def bind_def rb_ensure_def assms(2) rb_exc_raise_def modify_def method_of_def curl_opt_def
        ruby_curl_easy_enter_native_def ruby_curl_easy_leave_native_def)
  obtain t1 where t1: "ruby_curl_easy_perform_patch env formadd call_proc u self_obj pfs (a # b # args) t = (Inl e, t1)"
    "method_of t1 = Some (VStr ''PATCH'')"
    using join [of _ "with_method (VStr ''PATCH'') t"] assms(1)
    by (force simp: ruby_curl_easy_perform_patch_def with_method if_state_def Let_def)
  obtain t2 where t2: "ruby_curl_easy_perform_put E formadd call_proc u obj self_obj pfs (a # b # args) t = (Inl e, t2)"
    "method_of t2 = Some (VStr ''PUT'')"
    using join [of _ "with_method (VStr ''PUT'') t"] assms(1)
    by (force simp: ruby_curl_easy_perform_put_def with_method if_state_def Let_def)
  show ?thesis
    using t1 t2 by (auto simp: setup_keeps_method method_of_def)
qed

theorem failed_arguments_leave_method_witness:
  "\<exists>t1. ruby_curl_easy_perform_patch sample_env (\<lambda>_. 0) (\<lambda>_. ret Qnil)
       ((sample_user [])\<lparr>rb_funcall := \<lambda>_ _ _. rb_exc_raise (Exc ''rb_eArgError'' ''recursive array join'')\<rparr>)
       (RObj 0) (\<lambda>_. None) [RObj 1, RObj 2] sample_request = (Inl (Exc ''rb_eArgError'' ''recursive array join''), t1) \<and>
     curl_opt (snd (ruby_curl_easy_setup sample_setup (xfer_easy t1))) ''CURLOPT_CUSTOMREQUEST'' = Some (VStr ''PATCH'')"
  using failed_arguments_leave_method [OF sample_request_easy(2), where a = "RObj 1" and b = "RObj 2" and args = "[]"
      and u = "(sample_user [])\<lparr>rb_funcall := \<lambda>_ _ _. rb_exc_raise (Exc ''rb_eArgError'' ''recursive array join'')\<rparr>"
      and e = "Exc ''rb_eArgError'' ''recursive array join''" and E' = sample_setup and env = sample_env
      and formadd = "\<lambda>_. 0" and call_proc = "\<lambda>_. ret Qnil" and self_obj = "RObj 0" and pfs = "\<lambda>_. None"]
  by auto

end
