(* ===== verification/Curb_Attributes.thy ===== *)
theory Curb_Attributes
  imports Curb_Callbacks
begin

text \<open>
  The attributes of \<open>Curl::Easy\<close> in \<open>ext/curb_easy.c\<close>, one definition per accessor over the macros of
  \<open>curb_macros.h\<close>, and the table of the readable attributes as \<open>init_curb_easy\<close> registers them. The
  attributes of the network policy are with it in \<open>Curb_Network\<close>, \<open>max_body_bytes\<close> in
  \<open>Curb_Callbacks\<close>, the bodies in \<open>Curb_Requests\<close>.
\<close>

section \<open>Ruby values\<close>

text \<open>Kept in the \<open>opts\<close> hash under the name of the attribute. Attributes with no setter here are set through
  \<open>setopt\<close>.\<close>

definition ruby_curl_easy_url_get :: "(ruby_curl_easy, rvalue) cmd" where
  "ruby_curl_easy_url_get = CURB_OBJECT_HGETTER ''url''"

definition ruby_curl_easy_proxy_url_get :: "(ruby_curl_easy, rvalue) cmd" where
  "ruby_curl_easy_proxy_url_get = CURB_OBJECT_HGETTER ''proxy_url''"

definition ruby_curl_easy_userpwd_get :: "(ruby_curl_easy, rvalue) cmd" where
  "ruby_curl_easy_userpwd_get = CURB_OBJECT_HGETTER ''userpwd''"

definition ruby_curl_easy_proxypwd_get :: "(ruby_curl_easy, rvalue) cmd" where
  "ruby_curl_easy_proxypwd_get = CURB_OBJECT_HGETTER ''proxypwd''"

definition ruby_curl_easy_cookies_get :: "(ruby_curl_easy, rvalue) cmd" where
  "ruby_curl_easy_cookies_get = CURB_OBJECT_HGETTER ''cookies''"

definition ruby_curl_easy_cookiefile_get :: "(ruby_curl_easy, rvalue) cmd" where
  "ruby_curl_easy_cookiefile_get = CURB_OBJECT_HGETTER ''cookiefile''"

definition ruby_curl_easy_cookiejar_get :: "(ruby_curl_easy, rvalue) cmd" where
  "ruby_curl_easy_cookiejar_get = CURB_OBJECT_HGETTER ''cookiejar''"

definition ruby_curl_easy_dns_servers_get :: "(ruby_curl_easy, rvalue) cmd" where
  "ruby_curl_easy_dns_servers_get = CURB_OBJECT_HGETTER ''dns_servers''"

definition ruby_curl_easy_interface_get :: "(ruby_curl_easy, rvalue) cmd" where
  "ruby_curl_easy_interface_get = CURB_OBJECT_HGETTER ''interface_hm''"

definition ruby_curl_easy_body_str_get :: "(ruby_curl_easy, rvalue) cmd" where
  "ruby_curl_easy_body_str_get = CURB_OBJECT_HGETTER ''body_data''"

definition ruby_curl_easy_header_str_get :: "(ruby_curl_easy, rvalue) cmd" where
  "ruby_curl_easy_header_str_get = CURB_OBJECT_HGETTER ''header_data''"

definition ruby_curl_easy_unix_socket_path_get :: "(ruby_curl_easy, rvalue) cmd" where
  "ruby_curl_easy_unix_socket_path_get = CURB_OBJECT_HGETTER ''unix_socket_path''"

definition ruby_curl_easy_cert_set :: "rvalue \<Rightarrow> (ruby_curl_easy, rvalue) cmd" where
  "ruby_curl_easy_cert_set cert = CURB_OBJECT_HSETTER ''cert'' cert"

definition ruby_curl_easy_cert_get :: "(ruby_curl_easy, rvalue) cmd" where
  "ruby_curl_easy_cert_get = CURB_OBJECT_HGETTER ''cert''"

definition ruby_curl_easy_cert_key_set :: "rvalue \<Rightarrow> (ruby_curl_easy, rvalue) cmd" where
  "ruby_curl_easy_cert_key_set cert_key = CURB_OBJECT_HSETTER ''cert_key'' cert_key"

definition ruby_curl_easy_cert_key_get :: "(ruby_curl_easy, rvalue) cmd" where
  "ruby_curl_easy_cert_key_get = CURB_OBJECT_HGETTER ''cert_key''"

definition ruby_curl_easy_cacert_set :: "rvalue \<Rightarrow> (ruby_curl_easy, rvalue) cmd" where
  "ruby_curl_easy_cacert_set cacert = CURB_OBJECT_HSETTER ''cacert'' cacert"

definition ruby_curl_easy_cacert_get :: "(ruby_curl_easy, rvalue) cmd" where
  "ruby_curl_easy_cacert_get = CURB_OBJECT_HGETTER ''cacert''"

definition ruby_curl_easy_certtype_set :: "rvalue \<Rightarrow> (ruby_curl_easy, rvalue) cmd" where
  "ruby_curl_easy_certtype_set certtype = CURB_OBJECT_HSETTER ''certtype'' certtype"

definition ruby_curl_easy_certtype_get :: "(ruby_curl_easy, rvalue) cmd" where
  "ruby_curl_easy_certtype_get = CURB_OBJECT_HGETTER ''certtype''"

definition ruby_curl_easy_encoding_set :: "rvalue \<Rightarrow> (ruby_curl_easy, rvalue) cmd" where
  "ruby_curl_easy_encoding_set encoding = CURB_OBJECT_HSETTER ''encoding'' encoding"

definition ruby_curl_easy_encoding_get :: "(ruby_curl_easy, rvalue) cmd" where
  "ruby_curl_easy_encoding_get = CURB_OBJECT_HGETTER ''encoding''"

definition ruby_curl_easy_useragent_set :: "rvalue \<Rightarrow> (ruby_curl_easy, rvalue) cmd" where
  "ruby_curl_easy_useragent_set useragent = CURB_OBJECT_HSETTER ''useragent'' useragent"

definition ruby_curl_easy_useragent_get :: "(ruby_curl_easy, rvalue) cmd" where
  "ruby_curl_easy_useragent_get = CURB_OBJECT_HGETTER ''useragent''"

definition ruby_curl_easy_ftp_commands_set :: "rvalue \<Rightarrow> (ruby_curl_easy, rvalue) cmd" where
  "ruby_curl_easy_ftp_commands_set ftp_commands = CURB_OBJECT_HSETTER ''ftp_commands'' ftp_commands"

definition ruby_curl_easy_ftp_commands_get :: "(ruby_curl_easy, rvalue) cmd" where
  "ruby_curl_easy_ftp_commands_get = CURB_OBJECT_HGETTER ''ftp_commands''"

definition ruby_curl_easy_resolve_set :: "rvalue \<Rightarrow> (ruby_curl_easy, rvalue) cmd" where
  "ruby_curl_easy_resolve_set resolve = CURB_OBJECT_HSETTER ''resolve'' resolve"

definition ruby_curl_easy_resolve_get :: "(ruby_curl_easy, rvalue) cmd" where
  "ruby_curl_easy_resolve_get = CURB_OBJECT_HGETTER ''resolve''"

definition ruby_curl_easy_connect_to_set :: "rvalue \<Rightarrow> (ruby_curl_easy, rvalue) cmd" where
  "ruby_curl_easy_connect_to_set connect_to = CURB_OBJECT_HSETTER ''connect_to'' connect_to"

definition ruby_curl_easy_connect_to_get :: "(ruby_curl_easy, rvalue) cmd" where
  "ruby_curl_easy_connect_to_get = CURB_OBJECT_HGETTER ''connect_to''"

definition ruby_curl_easy_doh_url_set :: "rvalue \<Rightarrow> (ruby_curl_easy, rvalue) cmd" where
  "ruby_curl_easy_doh_url_set doh_url = CURB_OBJECT_HSETTER ''doh_url'' doh_url"

definition ruby_curl_easy_doh_url_get :: "(ruby_curl_easy, rvalue) cmd" where
  "ruby_curl_easy_doh_url_get = CURB_OBJECT_HGETTER ''doh_url''"

definition ruby_curl_easy_certpassword_set :: "rvalue \<Rightarrow> (ruby_curl_easy, rvalue) cmd" where
  "ruby_curl_easy_certpassword_set certpassword = CURB_OBJECT_HSETTER ''certpassword'' certpassword"

section \<open>Header hashes\<close>

text \<open>The getter stores an empty Hash when there is none yet.\<close>

definition ruby_curl_easy_headers_set :: "rvalue \<Rightarrow> (ruby_curl_easy, rvalue) cmd" where
  "ruby_curl_easy_headers_set headers = CURB_OBJECT_HSETTER ''headers'' headers"

definition ruby_curl_easy_headers_get :: "(ruby_curl_easy, rvalue) cmd" where
  "ruby_curl_easy_headers_get rbce =
     (let headers = rb_easy_get ''headers'' rbce
      in if headers = Qnil then (Inr (RHash []), rb_easy_set ''headers'' (RHash []) rbce) else (Inr headers, rbce))"

definition ruby_curl_easy_proxy_headers_set :: "rvalue \<Rightarrow> (ruby_curl_easy, rvalue) cmd" where
  "ruby_curl_easy_proxy_headers_set proxy_headers = CURB_OBJECT_HSETTER ''proxy_headers'' proxy_headers"

definition ruby_curl_easy_proxy_headers_get :: "(ruby_curl_easy, rvalue) cmd" where
  "ruby_curl_easy_proxy_headers_get rbce =
     (let proxy_headers = rb_easy_get ''proxy_headers'' rbce
      in if proxy_headers = Qnil then (Inr (RHash []), rb_easy_set ''proxy_headers'' (RHash []) rbce) else (Inr proxy_headers, rbce))"

section \<open>User name and password\<close>

text \<open>Without the option in libcurl the attribute is always \<open>nil\<close>.\<close>

definition ruby_curl_easy_username_set :: "curl_env \<Rightarrow> rvalue \<Rightarrow> (ruby_curl_easy, rvalue) cmd" where
  "ruby_curl_easy_username_set env username =
     (if have_macro env ''HAVE_CURLOPT_USERNAME'' then CURB_OBJECT_HSETTER ''username'' username else ret Qnil)"

definition ruby_curl_easy_username_get :: "curl_env \<Rightarrow> (ruby_curl_easy, rvalue) cmd" where
  "ruby_curl_easy_username_get env =
     (if have_macro env ''HAVE_CURLOPT_USERNAME'' then CURB_OBJECT_HGETTER ''username'' else ret Qnil)"

definition ruby_curl_easy_password_set :: "curl_env \<Rightarrow> rvalue \<Rightarrow> (ruby_curl_easy, rvalue) cmd" where
  "ruby_curl_easy_password_set env password =
     (if have_macro env ''HAVE_CURLOPT_PASSWORD'' then CURB_OBJECT_HSETTER ''password'' password else ret Qnil)"

definition ruby_curl_easy_password_get :: "curl_env \<Rightarrow> (ruby_curl_easy, rvalue) cmd" where
  "ruby_curl_easy_password_get env =
     (if have_macro env ''HAVE_CURLOPT_PASSWORD'' then CURB_OBJECT_HGETTER ''password'' else ret Qnil)"

section \<open>Ports\<close>

definition ruby_curl_easy_local_port_set :: "rvalue \<Rightarrow> (ruby_curl_easy, rvalue) cmd" where
  "ruby_curl_easy_local_port_set = CURB_IMMED_PORT_SETTER (\<lambda>p r. r\<lparr>local_port := p\<rparr>) ''port''"

definition ruby_curl_easy_local_port_get :: "(ruby_curl_easy, rvalue) cmd" where
  "ruby_curl_easy_local_port_get = CURB_IMMED_PORT_GETTER local_port"

definition ruby_curl_easy_local_port_range_set :: "rvalue \<Rightarrow> (ruby_curl_easy, rvalue) cmd" where
  "ruby_curl_easy_local_port_range_set = CURB_IMMED_PORT_SETTER (\<lambda>p r. r\<lparr>local_port_range := p\<rparr>) ''port range''"

definition ruby_curl_easy_local_port_range_get :: "(ruby_curl_easy, rvalue) cmd" where
  "ruby_curl_easy_local_port_range_get = CURB_IMMED_PORT_GETTER local_port_range"

definition ruby_curl_easy_proxy_port_set :: "rvalue \<Rightarrow> (ruby_curl_easy, rvalue) cmd" where
  "ruby_curl_easy_proxy_port_set = CURB_IMMED_PORT_SETTER (\<lambda>p r. r\<lparr>proxy_port := p\<rparr>) ''port''"

definition ruby_curl_easy_proxy_port_get :: "(ruby_curl_easy, rvalue) cmd" where
  "ruby_curl_easy_proxy_port_get = CURB_IMMED_PORT_GETTER proxy_port"

section \<open>Numbers\<close>

text \<open>The field keeps a C \<open>long\<close> unless it is narrower: \<open>proxy_type\<close> is an \<open>int\<close> and \<open>ssl_verify_host\<close> a
  \<open>char\<close>, and the assignment truncates. An \<open>unsigned long\<close> field is read back as a \<open>long\<close>.\<close>

definition ruby_curl_easy_proxy_type_set :: "rvalue \<Rightarrow> (ruby_curl_easy, rvalue) cmd" where
  "ruby_curl_easy_proxy_type_set = CURB_IMMED_SETTER (\<lambda>n r. r\<lparr>proxy_type := to_signed 32 n\<rparr>) (- 1)"

definition ruby_curl_easy_proxy_type_get :: "(ruby_curl_easy, rvalue) cmd" where
  "ruby_curl_easy_proxy_type_get = CURB_IMMED_GETTER proxy_type (- 1)"

definition ruby_curl_easy_proxy_auth_types_set :: "rvalue \<Rightarrow> (ruby_curl_easy, rvalue) cmd" where
  "ruby_curl_easy_proxy_auth_types_set = CURB_IMMED_SETTER (\<lambda>n r. r\<lparr>proxy_auth_types := n\<rparr>) 0"

definition ruby_curl_easy_proxy_auth_types_get :: "(ruby_curl_easy, rvalue) cmd" where
  "ruby_curl_easy_proxy_auth_types_get = CURB_IMMED_GETTER proxy_auth_types 0"

definition ruby_curl_easy_max_redirects_set :: "rvalue \<Rightarrow> (ruby_curl_easy, rvalue) cmd" where
  "ruby_curl_easy_max_redirects_set = CURB_IMMED_SETTER (\<lambda>n r. r\<lparr>max_redirs := n\<rparr>) (- 1)"

definition ruby_curl_easy_max_redirects_get :: "(ruby_curl_easy, rvalue) cmd" where
  "ruby_curl_easy_max_redirects_get = CURB_IMMED_GETTER max_redirs (- 1)"

definition ruby_curl_easy_connect_timeout_set :: "rvalue \<Rightarrow> (ruby_curl_easy, rvalue) cmd" where
  "ruby_curl_easy_connect_timeout_set = CURB_IMMED_SETTER (\<lambda>n r. r\<lparr>connect_timeout := word_of_int n\<rparr>) 0"

definition ruby_curl_easy_connect_timeout_get :: "(ruby_curl_easy, rvalue) cmd" where
  "ruby_curl_easy_connect_timeout_get = CURB_IMMED_GETTER (\<lambda>r. sint (connect_timeout r)) 0"

definition ruby_curl_easy_connect_timeout_ms_set :: "rvalue \<Rightarrow> (ruby_curl_easy, rvalue) cmd" where
  "ruby_curl_easy_connect_timeout_ms_set = CURB_IMMED_SETTER (\<lambda>n r. r\<lparr>connect_timeout_ms := word_of_int n\<rparr>) 0"

definition ruby_curl_easy_connect_timeout_ms_get :: "(ruby_curl_easy, rvalue) cmd" where
  "ruby_curl_easy_connect_timeout_ms_get = CURB_IMMED_GETTER (\<lambda>r. sint (connect_timeout_ms r)) 0"

definition ruby_curl_easy_dns_cache_timeout_set :: "rvalue \<Rightarrow> (ruby_curl_easy, rvalue) cmd" where
  "ruby_curl_easy_dns_cache_timeout_set = CURB_IMMED_SETTER (\<lambda>n r. r\<lparr>dns_cache_timeout := n\<rparr>) (- 1)"

definition ruby_curl_easy_dns_cache_timeout_get :: "(ruby_curl_easy, rvalue) cmd" where
  "ruby_curl_easy_dns_cache_timeout_get = CURB_IMMED_GETTER dns_cache_timeout (- 1)"

definition ruby_curl_easy_ftp_response_timeout_set :: "rvalue \<Rightarrow> (ruby_curl_easy, rvalue) cmd" where
  "ruby_curl_easy_ftp_response_timeout_set = CURB_IMMED_SETTER (\<lambda>n r. r\<lparr>ftp_response_timeout := word_of_int n\<rparr>) 0"

definition ruby_curl_easy_ftp_response_timeout_get :: "(ruby_curl_easy, rvalue) cmd" where
  "ruby_curl_easy_ftp_response_timeout_get = CURB_IMMED_GETTER (\<lambda>r. sint (ftp_response_timeout r)) 0"

definition ruby_curl_easy_low_speed_limit_set :: "rvalue \<Rightarrow> (ruby_curl_easy, rvalue) cmd" where
  "ruby_curl_easy_low_speed_limit_set = CURB_IMMED_SETTER (\<lambda>n r. r\<lparr>low_speed_limit := n\<rparr>) 0"

definition ruby_curl_easy_low_speed_limit_get :: "(ruby_curl_easy, rvalue) cmd" where
  "ruby_curl_easy_low_speed_limit_get = CURB_IMMED_GETTER low_speed_limit 0"

definition ruby_curl_easy_low_speed_time_set :: "rvalue \<Rightarrow> (ruby_curl_easy, rvalue) cmd" where
  "ruby_curl_easy_low_speed_time_set = CURB_IMMED_SETTER (\<lambda>n r. r\<lparr>low_speed_time := n\<rparr>) 0"

definition ruby_curl_easy_low_speed_time_get :: "(ruby_curl_easy, rvalue) cmd" where
  "ruby_curl_easy_low_speed_time_get = CURB_IMMED_GETTER low_speed_time 0"

definition ruby_curl_easy_max_send_speed_large_set :: "rvalue \<Rightarrow> (ruby_curl_easy, rvalue) cmd" where
  "ruby_curl_easy_max_send_speed_large_set = CURB_IMMED_SETTER (\<lambda>n r. r\<lparr>max_send_speed_large := n\<rparr>) 0"

definition ruby_curl_easy_max_send_speed_large_get :: "(ruby_curl_easy, rvalue) cmd" where
  "ruby_curl_easy_max_send_speed_large_get = CURB_IMMED_GETTER max_send_speed_large 0"

definition ruby_curl_easy_max_recv_speed_large_set :: "rvalue \<Rightarrow> (ruby_curl_easy, rvalue) cmd" where
  "ruby_curl_easy_max_recv_speed_large_set = CURB_IMMED_SETTER (\<lambda>n r. r\<lparr>max_recv_speed_large := n\<rparr>) 0"

definition ruby_curl_easy_max_recv_speed_large_get :: "(ruby_curl_easy, rvalue) cmd" where
  "ruby_curl_easy_max_recv_speed_large_get = CURB_IMMED_GETTER max_recv_speed_large 0"

definition ruby_curl_easy_ssl_version_set :: "rvalue \<Rightarrow> (ruby_curl_easy, rvalue) cmd" where
  "ruby_curl_easy_ssl_version_set = CURB_IMMED_SETTER (\<lambda>n r. r\<lparr>ssl_version := n\<rparr>) (- 1)"

definition ruby_curl_easy_ssl_version_get :: "(ruby_curl_easy, rvalue) cmd" where
  "ruby_curl_easy_ssl_version_get = CURB_IMMED_GETTER ssl_version (- 1)"

definition ruby_curl_easy_use_ssl_set :: "rvalue \<Rightarrow> (ruby_curl_easy, rvalue) cmd" where
  "ruby_curl_easy_use_ssl_set = CURB_IMMED_SETTER (\<lambda>n r. r\<lparr>use_ssl := n\<rparr>) (- 1)"

definition ruby_curl_easy_use_ssl_get :: "(ruby_curl_easy, rvalue) cmd" where
  "ruby_curl_easy_use_ssl_get = CURB_IMMED_GETTER use_ssl (- 1)"

definition ruby_curl_easy_ftp_filemethod_set :: "rvalue \<Rightarrow> (ruby_curl_easy, rvalue) cmd" where
  "ruby_curl_easy_ftp_filemethod_set = CURB_IMMED_SETTER (\<lambda>n r. r\<lparr>ftp_filemethod := n\<rparr>) (- 1)"

definition ruby_curl_easy_ftp_filemethod_get :: "(ruby_curl_easy, rvalue) cmd" where
  "ruby_curl_easy_ftp_filemethod_get = CURB_IMMED_GETTER ftp_filemethod (- 1)"

definition ruby_curl_easy_ssl_verify_host_set :: "rvalue \<Rightarrow> (ruby_curl_easy, rvalue) cmd" where
  "ruby_curl_easy_ssl_verify_host_set = CURB_IMMED_SETTER (\<lambda>n r. r\<lparr>ssl_verify_host := to_signed 8 n\<rparr>) 0"

definition ruby_curl_easy_ssl_verify_host_get :: "(ruby_curl_easy, rvalue) cmd" where
  "ruby_curl_easy_ssl_verify_host_get = CURB_IMMED_GETTER ssl_verify_host 0"

definition ruby_curl_easy_http_auth_types_get :: "(ruby_curl_easy, rvalue) cmd" where
  "ruby_curl_easy_http_auth_types_get = CURB_IMMED_GETTER http_auth_types 0"

definition ruby_curl_easy_http_version_set :: "rvalue \<Rightarrow> (ruby_curl_easy, rvalue) cmd" where
  "ruby_curl_easy_http_version_set version r =
     (case if version = Qnil then Inr 0 else NUM2LONG version of
        Inl e \<Rightarrow> (Inl e, r) | Inr n \<Rightarrow> (Inr version, r\<lparr>http_version := n\<rparr>))"

definition ruby_curl_easy_http_version_get :: "(ruby_curl_easy, rvalue) cmd" where
  "ruby_curl_easy_http_version_get r = (Inr (RInt (http_version r)), r)"

text \<open>\<open>NUM2DBL\<close> of an Integer has its sign.\<close>

definition ruby_curl_easy_timeout_ms_set :: "rvalue \<Rightarrow> (ruby_curl_easy, rvalue) cmd" where
  "ruby_curl_easy_timeout_ms_set v r =
     (case v of
        Qnil \<Rightarrow> (Inr (RInt 0), r\<lparr>timeout_ms := 0\<rparr>)
      | RInt i \<Rightarrow>
          if i \<le> 0 then (Inr (RInt 0), r\<lparr>timeout_ms := 0\<rparr>)
          else (case NUM2ULONG v of
                  Inl e \<Rightarrow> (Inl e, r) | Inr n \<Rightarrow> (Inr (RInt (uint n)), r\<lparr>timeout_ms := n\<rparr>))
      | _ \<Rightarrow> (type_error, r))"

definition ruby_curl_easy_timeout_ms_get :: "(ruby_curl_easy, rvalue) cmd" where
  "ruby_curl_easy_timeout_ms_get r = (Inr (RInt (sint (timeout_ms r))), r)"

section \<open>Flags\<close>

definition ruby_curl_easy_proxy_tunnel_set :: "rvalue \<Rightarrow> (ruby_curl_easy, rvalue) cmd" where
  "ruby_curl_easy_proxy_tunnel_set = CURB_BOOLEAN_SETTER (\<lambda>b r. r\<lparr>proxy_tunnel := b\<rparr>)"

definition ruby_curl_easy_proxy_tunnel_q :: "(ruby_curl_easy, rvalue) cmd" where
  "ruby_curl_easy_proxy_tunnel_q = CURB_BOOLEAN_GETTER proxy_tunnel"

definition ruby_curl_easy_fetch_file_time_set :: "rvalue \<Rightarrow> (ruby_curl_easy, rvalue) cmd" where
  "ruby_curl_easy_fetch_file_time_set = CURB_BOOLEAN_SETTER (\<lambda>b r. r\<lparr>fetch_file_time := b\<rparr>)"

definition ruby_curl_easy_fetch_file_time_q :: "(ruby_curl_easy, rvalue) cmd" where
  "ruby_curl_easy_fetch_file_time_q = CURB_BOOLEAN_GETTER fetch_file_time"

definition ruby_curl_easy_ssl_verify_peer_set :: "rvalue \<Rightarrow> (ruby_curl_easy, rvalue) cmd" where
  "ruby_curl_easy_ssl_verify_peer_set = CURB_BOOLEAN_SETTER (\<lambda>b r. r\<lparr>ssl_verify_peer := b\<rparr>)"

definition ruby_curl_easy_ssl_verify_peer_q :: "(ruby_curl_easy, rvalue) cmd" where
  "ruby_curl_easy_ssl_verify_peer_q = CURB_BOOLEAN_GETTER ssl_verify_peer"

definition ruby_curl_easy_header_in_body_set :: "rvalue \<Rightarrow> (ruby_curl_easy, rvalue) cmd" where
  "ruby_curl_easy_header_in_body_set = CURB_BOOLEAN_SETTER (\<lambda>b r. r\<lparr>header_in_body := b\<rparr>)"

definition ruby_curl_easy_header_in_body_q :: "(ruby_curl_easy, rvalue) cmd" where
  "ruby_curl_easy_header_in_body_q = CURB_BOOLEAN_GETTER header_in_body"

definition ruby_curl_easy_use_netrc_set :: "rvalue \<Rightarrow> (ruby_curl_easy, rvalue) cmd" where
  "ruby_curl_easy_use_netrc_set = CURB_BOOLEAN_SETTER (\<lambda>b r. r\<lparr>use_netrc := b\<rparr>)"

definition ruby_curl_easy_use_netrc_q :: "(ruby_curl_easy, rvalue) cmd" where
  "ruby_curl_easy_use_netrc_q = CURB_BOOLEAN_GETTER use_netrc"

definition ruby_curl_easy_unrestricted_auth_set :: "rvalue \<Rightarrow> (ruby_curl_easy, rvalue) cmd" where
  "ruby_curl_easy_unrestricted_auth_set = CURB_BOOLEAN_SETTER (\<lambda>b r. r\<lparr>unrestricted_auth := b\<rparr>)"

definition ruby_curl_easy_unrestricted_auth_q :: "(ruby_curl_easy, rvalue) cmd" where
  "ruby_curl_easy_unrestricted_auth_q = CURB_BOOLEAN_GETTER unrestricted_auth"

definition ruby_curl_easy_verbose_set :: "rvalue \<Rightarrow> (ruby_curl_easy, rvalue) cmd" where
  "ruby_curl_easy_verbose_set = CURB_BOOLEAN_SETTER (\<lambda>b r. r\<lparr>verbose := b\<rparr>)"

definition ruby_curl_easy_verbose_q :: "(ruby_curl_easy, rvalue) cmd" where
  "ruby_curl_easy_verbose_q = CURB_BOOLEAN_GETTER verbose"

definition ruby_curl_easy_multipart_form_post_set :: "rvalue \<Rightarrow> (ruby_curl_easy, rvalue) cmd" where
  "ruby_curl_easy_multipart_form_post_set = CURB_BOOLEAN_SETTER (\<lambda>b r. r\<lparr>multipart_form_post := b\<rparr>)"

definition ruby_curl_easy_multipart_form_post_q :: "(ruby_curl_easy, rvalue) cmd" where
  "ruby_curl_easy_multipart_form_post_q = CURB_BOOLEAN_GETTER multipart_form_post"

definition ruby_curl_easy_enable_cookies_set :: "rvalue \<Rightarrow> (ruby_curl_easy, rvalue) cmd" where
  "ruby_curl_easy_enable_cookies_set = CURB_BOOLEAN_SETTER (\<lambda>b r. r\<lparr>enable_cookies := b\<rparr>)"

definition ruby_curl_easy_enable_cookies_q :: "(ruby_curl_easy, rvalue) cmd" where
  "ruby_curl_easy_enable_cookies_q = CURB_BOOLEAN_GETTER enable_cookies"

definition ruby_curl_easy_ignore_content_length_set :: "rvalue \<Rightarrow> (ruby_curl_easy, rvalue) cmd" where
  "ruby_curl_easy_ignore_content_length_set = CURB_BOOLEAN_SETTER (\<lambda>b r. r\<lparr>ignore_content_length := b\<rparr>)"

definition ruby_curl_easy_ignore_content_length_q :: "(ruby_curl_easy, rvalue) cmd" where
  "ruby_curl_easy_ignore_content_length_q = CURB_BOOLEAN_GETTER ignore_content_length"

definition ruby_curl_easy_follow_location_q :: "(ruby_curl_easy, rvalue) cmd" where
  "ruby_curl_easy_follow_location_q = CURB_BOOLEAN_GETTER follow_location"

definition ruby_curl_easy_allow_unix_socket_set :: "rvalue \<Rightarrow> (ruby_curl_easy, rvalue) cmd" where
  "ruby_curl_easy_allow_unix_socket_set allow r = (Inr allow, r\<lparr>allow_unix_socket := RTEST allow\<rparr>)"

definition ruby_curl_easy_allow_proxy_set :: "rvalue \<Rightarrow> (ruby_curl_easy, rvalue) cmd" where
  "ruby_curl_easy_allow_proxy_set allow r = (Inr allow, r\<lparr>allow_proxy := RTEST allow\<rparr>)"

definition ruby_curl_easy_autoreferer_set :: "rvalue \<Rightarrow> (ruby_curl_easy, rvalue) cmd" where
  "ruby_curl_easy_autoreferer_set autoreferer r =
     (Inr autoreferer, curl_easy_setopt ''CURLOPT_AUTOREFERER'' (VLong (if autoreferer = Qtrue then 1 else 0)) r)"

section \<open>The resolve mode\<close>

text \<open>\<open>CURL_IPRESOLVE_WHATEVER\<close>, \<open>V4\<close> and \<open>V6\<close> are 0, 1 and 2.\<close>

definition ruby_curl_easy_resolve_mode :: "(ruby_curl_easy, rvalue) cmd" where
  "ruby_curl_easy_resolve_mode r =
     (Inr (RSym (if resolve_mode r = 1 then ''ipv4'' else if resolve_mode r = 2 then ''ipv6'' else ''auto'')), r)"

definition ruby_curl_easy_resolve_mode_set :: "rvalue \<Rightarrow> (ruby_curl_easy, rvalue) cmd" where
  "ruby_curl_easy_resolve_mode_set mode r =
     (case mode of
        RSym s \<Rightarrow>
          if s = ''auto'' then (Inr mode, r\<lparr>resolve_mode := 0\<rparr>)
          else if s = ''ipv4'' then (Inr mode, r\<lparr>resolve_mode := 1\<rparr>)
          else if s = ''ipv6'' then (Inr mode, r\<lparr>resolve_mode := 2\<rparr>)
          else (Inl (Exc ''rb_eArgError'' ''Must set to one of :auto, :ipv4, :ipv6''), r)
      | _ \<Rightarrow> (Inl (Exc ''rb_eTypeError'' ''Must pass a symbol''), r))"

section \<open>Event handlers\<close>

text \<open>Each takes the block and returns the handler that was there.\<close>

definition ruby_curl_easy_on_body_set :: "rvalue \<Rightarrow> (ruby_curl_easy, rvalue) cmd" where
  "ruby_curl_easy_on_body_set = CURB_HANDLER_PROC_HSETTER ''body_proc''"

definition ruby_curl_easy_on_success_set :: "rvalue \<Rightarrow> (ruby_curl_easy, rvalue) cmd" where
  "ruby_curl_easy_on_success_set = CURB_HANDLER_PROC_HSETTER ''success_proc''"

definition ruby_curl_easy_on_failure_set :: "rvalue \<Rightarrow> (ruby_curl_easy, rvalue) cmd" where
  "ruby_curl_easy_on_failure_set = CURB_HANDLER_PROC_HSETTER ''failure_proc''"

definition ruby_curl_easy_on_missing_set :: "rvalue \<Rightarrow> (ruby_curl_easy, rvalue) cmd" where
  "ruby_curl_easy_on_missing_set = CURB_HANDLER_PROC_HSETTER ''missing_proc''"

definition ruby_curl_easy_on_redirect_set :: "rvalue \<Rightarrow> (ruby_curl_easy, rvalue) cmd" where
  "ruby_curl_easy_on_redirect_set = CURB_HANDLER_PROC_HSETTER ''redirect_proc''"

definition ruby_curl_easy_on_complete_set :: "rvalue \<Rightarrow> (ruby_curl_easy, rvalue) cmd" where
  "ruby_curl_easy_on_complete_set = CURB_HANDLER_PROC_HSETTER ''complete_proc''"

definition ruby_curl_easy_on_header_set :: "rvalue \<Rightarrow> (ruby_curl_easy, rvalue) cmd" where
  "ruby_curl_easy_on_header_set = CURB_HANDLER_PROC_HSETTER ''header_proc''"

definition ruby_curl_easy_on_progress_set :: "rvalue \<Rightarrow> (ruby_curl_easy, rvalue) cmd" where
  "ruby_curl_easy_on_progress_set = CURB_HANDLER_PROC_HSETTER ''progress_proc''"

definition ruby_curl_easy_on_debug_set :: "rvalue \<Rightarrow> (ruby_curl_easy, rvalue) cmd" where
  "ruby_curl_easy_on_debug_set = CURB_HANDLER_PROC_HSETTER ''debug_proc''"

section \<open>Authentication types\<close>

text \<open>\<open>CURL_HTTPAUTH_STR_TO_NUM\<close>, with the values of the \<open>CURLAUTH_\<close> constants of \<open>curl.h\<close> as a
  parameter. \<open>strncmp\<close> with the length of the name asks for a prefix.\<close>

definition has_prefix :: "string \<Rightarrow> string \<Rightarrow> bool" where
  "has_prefix p s \<longleftrightarrow> take (length p) s = p"

definition CURL_HTTPAUTH_STR_TO_NUM :: "(string \<Rightarrow> bool) \<Rightarrow> (string \<Rightarrow> int) \<Rightarrow> string \<Rightarrow> int" where
  "CURL_HTTPAUTH_STR_TO_NUM have CURLAUTH node =
     (if has_prefix ''basic'' node then CURLAUTH ''CURLAUTH_BASIC''
      else if have ''HAVE_CURLAUTH_DIGEST_IE'' \<and> has_prefix ''digest_ie'' node then CURLAUTH ''CURLAUTH_DIGEST_IE''
      else if has_prefix ''digest'' node then CURLAUTH ''CURLAUTH_DIGEST''
      else if has_prefix ''gssnegotiate'' node then CURLAUTH ''CURLAUTH_GSSNEGOTIATE''
      else if has_prefix ''ntlm'' node then CURLAUTH ''CURLAUTH_NTLM''
      else if has_prefix ''anysafe'' node then CURLAUTH ''CURLAUTH_ANYSAFE''
      else if has_prefix ''any'' node then CURLAUTH ''CURLAUTH_ANY''
      else 0)"

text \<open>\<open>rb_ary_entry\<close> is \<open>nil\<close> past the end. A \<open>to_s\<close> that gives no string, which C reads as one
  unchecked, raises here.\<close>

definition auth_node :: "user_code \<Rightarrow> rvalue \<Rightarrow> (transfer, string) cmd" where
  "auth_node u v =
     bind (rb_funcall u v ''to_s'' []) (\<lambda>str. case str of RStr s \<Rightarrow> ret (c_string s) | _ \<Rightarrow> lift_res type_error)"

fun auth_mask :: "(string \<Rightarrow> int) \<Rightarrow> user_code \<Rightarrow> int \<Rightarrow> rvalue list \<Rightarrow> (transfer, int) cmd" where
  "auth_mask str_to_num u bits [] = ret bits"
| "auth_mask str_to_num u bits (v # vs) =
     bind (auth_node u v) (\<lambda>node. auth_mask str_to_num u (or bits (str_to_num node)) vs)"

definition ruby_curl_easy_http_auth_types_set ::
  "curl_env \<Rightarrow> (string \<Rightarrow> int) \<Rightarrow> user_code \<Rightarrow> rvalue list \<Rightarrow> (transfer, rvalue) cmd" where
  "ruby_curl_easy_http_auth_types_set env CURLAUTH u args =
     bind (case args of
             [Qnil] \<Rightarrow> ret 0
           | [RInt i] \<Rightarrow> lift_res (NUM2LONG (RInt i))
           | _ \<Rightarrow> (let str_to_num = CURL_HTTPAUTH_STR_TO_NUM (have_macro env) CURLAUTH
                  in bind (auth_node u (case args of [] \<Rightarrow> Qnil | v # _ \<Rightarrow> v)) (\<lambda>node.
                     auth_mask str_to_num u (str_to_num node) (tl args)))) (\<lambda>bits.
     bind (modify (upd_easy (\<lambda>r. r\<lparr>http_auth_types := bits\<rparr>))) (\<lambda>_.
     ret (RInt bits)))"

section \<open>The table of attributes\<close>

text \<open>What an attribute keeps of a value: the value itself, a Hash for \<open>nil\<close>, a truth value, a port, a
  number of \<open>w\<close> bits that is \<open>nil\<close> when it has the value of a missing one, a protocol version, a
  resolve mode.\<close>

datatype attribute_kind =
    Object | Header_Hash | Flag | Port string | Number nat int | Version | Mode

record easy_attribute =
  attr_name :: string
  attr_kind :: attribute_kind
  attr_set :: "rvalue \<Rightarrow> (ruby_curl_easy, rvalue) cmd"
  attr_get :: "(ruby_curl_easy, rvalue) cmd"

definition attribute :: "string \<Rightarrow> attribute_kind \<Rightarrow> (rvalue \<Rightarrow> (ruby_curl_easy, rvalue) cmd) \<Rightarrow>
    (ruby_curl_easy, rvalue) cmd \<Rightarrow> easy_attribute" where
  "attribute name kind setter getter = \<lparr>attr_name = name, attr_kind = kind, attr_set = setter, attr_get = getter\<rparr>"

definition object_attributes :: "easy_attribute list" where
  "object_attributes = [
     attribute ''cert'' Object ruby_curl_easy_cert_set ruby_curl_easy_cert_get,
     attribute ''cert_key'' Object ruby_curl_easy_cert_key_set ruby_curl_easy_cert_key_get,
     attribute ''cacert'' Object ruby_curl_easy_cacert_set ruby_curl_easy_cacert_get,
     attribute ''certtype'' Object ruby_curl_easy_certtype_set ruby_curl_easy_certtype_get,
     attribute ''encoding'' Object ruby_curl_easy_encoding_set ruby_curl_easy_encoding_get,
     attribute ''useragent'' Object ruby_curl_easy_useragent_set ruby_curl_easy_useragent_get,
     attribute ''ftp_commands'' Object ruby_curl_easy_ftp_commands_set ruby_curl_easy_ftp_commands_get,
     attribute ''resolve'' Object ruby_curl_easy_resolve_set ruby_curl_easy_resolve_get,
     attribute ''connect_to'' Object ruby_curl_easy_connect_to_set ruby_curl_easy_connect_to_get,
     attribute ''doh_url'' Object ruby_curl_easy_doh_url_set ruby_curl_easy_doh_url_get,
     attribute ''headers'' Header_Hash ruby_curl_easy_headers_set ruby_curl_easy_headers_get,
     attribute ''proxy_headers'' Header_Hash ruby_curl_easy_proxy_headers_set ruby_curl_easy_proxy_headers_get]"

definition number_attributes :: "easy_attribute list" where
  "number_attributes = [
     attribute ''local_port'' (Port ''port'') ruby_curl_easy_local_port_set ruby_curl_easy_local_port_get,
     attribute ''local_port_range'' (Port ''port range'') ruby_curl_easy_local_port_range_set ruby_curl_easy_local_port_range_get,
     attribute ''proxy_port'' (Port ''port'') ruby_curl_easy_proxy_port_set ruby_curl_easy_proxy_port_get,
     attribute ''proxy_type'' (Number 32 (- 1)) ruby_curl_easy_proxy_type_set ruby_curl_easy_proxy_type_get,
     attribute ''proxy_auth_types'' (Number 64 0) ruby_curl_easy_proxy_auth_types_set ruby_curl_easy_proxy_auth_types_get,
     attribute ''max_redirects'' (Number 64 (- 1)) ruby_curl_easy_max_redirects_set ruby_curl_easy_max_redirects_get,
     attribute ''connect_timeout'' (Number 64 0) ruby_curl_easy_connect_timeout_set ruby_curl_easy_connect_timeout_get,
     attribute ''connect_timeout_ms'' (Number 64 0) ruby_curl_easy_connect_timeout_ms_set ruby_curl_easy_connect_timeout_ms_get,
     attribute ''dns_cache_timeout'' (Number 64 (- 1)) ruby_curl_easy_dns_cache_timeout_set ruby_curl_easy_dns_cache_timeout_get,
     attribute ''ftp_response_timeout'' (Number 64 0) ruby_curl_easy_ftp_response_timeout_set ruby_curl_easy_ftp_response_timeout_get,
     attribute ''low_speed_limit'' (Number 64 0) ruby_curl_easy_low_speed_limit_set ruby_curl_easy_low_speed_limit_get,
     attribute ''low_speed_time'' (Number 64 0) ruby_curl_easy_low_speed_time_set ruby_curl_easy_low_speed_time_get,
     attribute ''max_send_speed_large'' (Number 64 0) ruby_curl_easy_max_send_speed_large_set ruby_curl_easy_max_send_speed_large_get,
     attribute ''max_recv_speed_large'' (Number 64 0) ruby_curl_easy_max_recv_speed_large_set ruby_curl_easy_max_recv_speed_large_get,
     attribute ''ssl_version'' (Number 64 (- 1)) ruby_curl_easy_ssl_version_set ruby_curl_easy_ssl_version_get,
     attribute ''use_ssl'' (Number 64 (- 1)) ruby_curl_easy_use_ssl_set ruby_curl_easy_use_ssl_get,
     attribute ''ftp_filemethod'' (Number 64 (- 1)) ruby_curl_easy_ftp_filemethod_set ruby_curl_easy_ftp_filemethod_get,
     attribute ''ssl_verify_host'' (Number 8 0) ruby_curl_easy_ssl_verify_host_set ruby_curl_easy_ssl_verify_host_get,
     attribute ''http_version'' Version ruby_curl_easy_http_version_set ruby_curl_easy_http_version_get,
     attribute ''resolve_mode'' Mode ruby_curl_easy_resolve_mode_set ruby_curl_easy_resolve_mode]"

definition flag_attributes :: "easy_attribute list" where
  "flag_attributes = [
     attribute ''proxy_tunnel'' Flag ruby_curl_easy_proxy_tunnel_set ruby_curl_easy_proxy_tunnel_q,
     attribute ''fetch_file_time'' Flag ruby_curl_easy_fetch_file_time_set ruby_curl_easy_fetch_file_time_q,
     attribute ''ssl_verify_peer'' Flag ruby_curl_easy_ssl_verify_peer_set ruby_curl_easy_ssl_verify_peer_q,
     attribute ''header_in_body'' Flag ruby_curl_easy_header_in_body_set ruby_curl_easy_header_in_body_q,
     attribute ''use_netrc'' Flag ruby_curl_easy_use_netrc_set ruby_curl_easy_use_netrc_q,
     attribute ''unrestricted_auth'' Flag ruby_curl_easy_unrestricted_auth_set ruby_curl_easy_unrestricted_auth_q,
     attribute ''verbose'' Flag ruby_curl_easy_verbose_set ruby_curl_easy_verbose_q,
     attribute ''multipart_form_post'' Flag ruby_curl_easy_multipart_form_post_set ruby_curl_easy_multipart_form_post_q,
     attribute ''enable_cookies'' Flag ruby_curl_easy_enable_cookies_set ruby_curl_easy_enable_cookies_q,
     attribute ''ignore_content_length'' Flag ruby_curl_easy_ignore_content_length_set ruby_curl_easy_ignore_content_length_q]"

definition easy_attributes :: "easy_attribute list" where
  "easy_attributes = object_attributes @ number_attributes @ flag_attributes"

end
