(* ===== verification/Curb_Attributes_Facts.thy ===== *)
theory Curb_Attributes_Facts
  imports Curb_Attributes
begin

text \<open>
  The attributes behave like independent variables: what is read back after setting one, and that
  setting one changes no other.
\<close>

definition kept_port :: "string \<Rightarrow> rvalue \<Rightarrow> rvalue res" where
  "kept_port msg v =
     (case NUM2INT v of
        Inl e \<Rightarrow> Inl e
      | Inr p \<Rightarrow> if 0 < p \<and> p < 65536 then Inr (RInt p)
                 else Inl (Exc ''rb_eArgError'' (''Invalid '' @ msg @ '' '' @ show_int p @
                        '' (expected between 1 and 65535)'')))"

definition kept_number :: "nat \<Rightarrow> int \<Rightarrow> rvalue \<Rightarrow> rvalue res" where
  "kept_number w missing v =
     (case NUM2LONG v of
        Inl e \<Rightarrow> Inl e
      | Inr n \<Rightarrow> Inr (if to_signed w n = missing then Qnil else RInt (to_signed w n)))"

definition kept_mode :: "rvalue \<Rightarrow> rvalue res" where
  "kept_mode v =
     (case v of
        RSym s \<Rightarrow> if s \<in> {''auto'', ''ipv4'', ''ipv6''} then Inr v
                   else Inl (Exc ''rb_eArgError'' ''Must set to one of :auto, :ipv4, :ipv6'')
      | _ \<Rightarrow> Inl (Exc ''rb_eTypeError'' ''Must pass a symbol''))"

definition kept :: "attribute_kind \<Rightarrow> rvalue \<Rightarrow> rvalue res" where
  "kept kind v =
     (case kind of
        Object \<Rightarrow> Inr v
      | Header_Hash \<Rightarrow> Inr (if v = Qnil then RHash [] else v)
      | Flag \<Rightarrow> Inr (if RTEST v then Qtrue else Qfalse)
      | Port msg \<Rightarrow> if v = Qnil then Inr Qnil else kept_port msg v
      | Number w missing \<Rightarrow> if v = Qnil then Inr Qnil else kept_number w missing v
      | Version \<Rightarrow> if v = Qnil then Inr (RInt 0) else map_sum id RInt (NUM2LONG v)
      | Mode \<Rightarrow> kept_mode v)"

text \<open>An attribute keeps its values and its setter refuses the others without effect.\<close>

definition keeps_values :: "easy_attribute \<Rightarrow> bool" where
  "keeps_values a \<longleftrightarrow> (\<forall>v r. case kept (attr_kind a) v of
       Inl e \<Rightarrow> attr_set a v r = (Inl e, r)
     | Inr x \<Rightarrow> fst (attr_set a v r) = Inr v \<and> fst (attr_get a (snd (attr_set a v r))) = Inr x)"

lemma attribute_fields [simp]:
  "attr_name (attribute n k s g) = n" "attr_kind (attribute n k s g) = k"
  "attr_set (attribute n k s g) = s" "attr_get (attribute n k s g) = g"
  by (simp_all add: attribute_def)

lemma keeps_values_attribute:
  "keeps_values (attribute n k s g) \<longleftrightarrow> (\<forall>v r. case kept k v of
       Inl e \<Rightarrow> s v r = (Inl e, r)
     | Inr x \<Rightarrow> fst (s v r) = Inr v \<and> fst (g (snd (s v r))) = Inr x)"
  unfolding keeps_values_def attribute_fields ..

lemma object_keeps: "keeps_values (attribute n Object (CURB_OBJECT_HSETTER k) (CURB_OBJECT_HGETTER k))"
  by (simp add: keeps_values_attribute kept_def CURB_OBJECT_HSETTER_def CURB_OBJECT_HGETTER_def rb_easy_get_set)

lemma flag_keeps:
  assumes "\<And>b r. get (put b r) = b"
  shows "keeps_values (attribute n Flag (CURB_BOOLEAN_SETTER put) (CURB_BOOLEAN_GETTER get))"
  using assms
  by (simp add: keeps_values_attribute kept_def CURB_BOOLEAN_SETTER_def CURB_BOOLEAN_GETTER_def RTEST_def)

lemma number_keeps:
  assumes "\<And>i r. get (put i r) = to_signed w i" and "to_signed w missing = missing"
  shows "keeps_values (attribute n (Number w missing) (CURB_IMMED_SETTER put missing) (CURB_IMMED_GETTER get missing))"
  using assms
  by (simp add: keeps_values_attribute kept_def CURB_IMMED_SETTER_def CURB_IMMED_GETTER_def kept_number_def
      split: sum.split)

lemma port_keeps:
  assumes "\<And>p r. get (put p r) = p"
  shows "keeps_values (attribute n (Port msg) (CURB_IMMED_PORT_SETTER put msg) (CURB_IMMED_PORT_GETTER get))"
proof -
  have nz: "word_of_int p \<noteq> (0 :: ushort) \<and> uint (word_of_int p :: ushort) = p" if "0 < p" "p < 65536" for p
  proof -
    have "uint (word_of_int p :: ushort) = p" using that by (simp add: uint_word_of_int)
    then show ?thesis using that by auto
  qed
  show ?thesis
    using assms nz
    by (auto simp: keeps_values_attribute kept_def kept_port_def CURB_IMMED_PORT_SETTER_def CURB_IMMED_PORT_GETTER_def
        port_and_mask split: sum.split)
qed

lemmas attribute_defs =
  ruby_curl_easy_cacert_get_def ruby_curl_easy_cacert_set_def ruby_curl_easy_cert_get_def
  ruby_curl_easy_cert_key_get_def ruby_curl_easy_cert_key_set_def ruby_curl_easy_cert_set_def
  ruby_curl_easy_certtype_get_def ruby_curl_easy_certtype_set_def ruby_curl_easy_connect_timeout_get_def
  ruby_curl_easy_connect_timeout_ms_get_def ruby_curl_easy_connect_timeout_ms_set_def
  ruby_curl_easy_connect_timeout_set_def ruby_curl_easy_connect_to_get_def ruby_curl_easy_connect_to_set_def
  ruby_curl_easy_dns_cache_timeout_get_def ruby_curl_easy_dns_cache_timeout_set_def
  ruby_curl_easy_doh_url_get_def ruby_curl_easy_doh_url_set_def ruby_curl_easy_enable_cookies_q_def
  ruby_curl_easy_enable_cookies_set_def ruby_curl_easy_encoding_get_def ruby_curl_easy_encoding_set_def
  ruby_curl_easy_fetch_file_time_q_def ruby_curl_easy_fetch_file_time_set_def
  ruby_curl_easy_ftp_commands_get_def ruby_curl_easy_ftp_commands_set_def
  ruby_curl_easy_ftp_filemethod_get_def ruby_curl_easy_ftp_filemethod_set_def
  ruby_curl_easy_ftp_response_timeout_get_def ruby_curl_easy_ftp_response_timeout_set_def
  ruby_curl_easy_header_in_body_q_def ruby_curl_easy_header_in_body_set_def ruby_curl_easy_headers_get_def
  ruby_curl_easy_headers_set_def ruby_curl_easy_ignore_content_length_q_def
  ruby_curl_easy_ignore_content_length_set_def ruby_curl_easy_local_port_get_def
  ruby_curl_easy_local_port_range_get_def ruby_curl_easy_local_port_range_set_def
  ruby_curl_easy_local_port_set_def ruby_curl_easy_low_speed_limit_get_def
  ruby_curl_easy_low_speed_limit_set_def ruby_curl_easy_low_speed_time_get_def
  ruby_curl_easy_low_speed_time_set_def ruby_curl_easy_max_recv_speed_large_get_def
  ruby_curl_easy_max_recv_speed_large_set_def ruby_curl_easy_max_redirects_get_def
  ruby_curl_easy_max_redirects_set_def ruby_curl_easy_max_send_speed_large_get_def
  ruby_curl_easy_max_send_speed_large_set_def ruby_curl_easy_multipart_form_post_q_def
  ruby_curl_easy_multipart_form_post_set_def ruby_curl_easy_proxy_auth_types_get_def
  ruby_curl_easy_proxy_auth_types_set_def ruby_curl_easy_proxy_headers_get_def
  ruby_curl_easy_proxy_headers_set_def ruby_curl_easy_proxy_port_get_def ruby_curl_easy_proxy_port_set_def
  ruby_curl_easy_proxy_tunnel_q_def ruby_curl_easy_proxy_tunnel_set_def ruby_curl_easy_proxy_type_get_def
  ruby_curl_easy_proxy_type_set_def ruby_curl_easy_resolve_get_def ruby_curl_easy_resolve_set_def
  ruby_curl_easy_ssl_verify_host_get_def ruby_curl_easy_ssl_verify_host_set_def
  ruby_curl_easy_ssl_verify_peer_q_def ruby_curl_easy_ssl_verify_peer_set_def
  ruby_curl_easy_ssl_version_get_def ruby_curl_easy_ssl_version_set_def
  ruby_curl_easy_unrestricted_auth_q_def ruby_curl_easy_unrestricted_auth_set_def
  ruby_curl_easy_use_netrc_q_def ruby_curl_easy_use_netrc_set_def ruby_curl_easy_use_ssl_get_def
  ruby_curl_easy_use_ssl_set_def ruby_curl_easy_useragent_get_def ruby_curl_easy_useragent_set_def
  ruby_curl_easy_verbose_q_def ruby_curl_easy_verbose_set_def

lemma sint_word_of_int: "sint (word_of_int n :: ulong) = to_signed 64 n"
  by (simp add: to_signed_def signed_take_bit_eq_take_bit_shift take_bit_eq_mod sint_uint uint_word_of_int mod_add_left_eq)

lemma to_signed_missing:
  "to_signed 64 (- 1) = - 1" "to_signed 32 (- 1) = - 1" "to_signed 64 0 = 0" "to_signed 8 0 = 0"
  by (simp_all add: to_signed_def)

lemma NUM2LONG_signed: "NUM2LONG v = Inr n \<Longrightarrow> to_signed 64 n = n"
  by (simp add: NUM2SIGNED_Inr to_signed_id)

lemma long_keeps:
  assumes "\<And>i r. get (put i r) = i" and "missing = 0 \<or> missing = - 1"
  shows "keeps_values (attribute n (Number 64 missing) (CURB_IMMED_SETTER put missing) (CURB_IMMED_GETTER get missing))"
  using assms NUM2LONG_signed
  by (auto simp: keeps_values_attribute kept_def CURB_IMMED_SETTER_def CURB_IMMED_GETTER_def kept_number_def
      split: sum.split)

lemma header_keeps:
  "keeps_values (attribute n Header_Hash (CURB_OBJECT_HSETTER k) (\<lambda>r. let v = rb_easy_get k r
      in if v = Qnil then (Inr (RHash []), rb_easy_set k (RHash []) r) else (Inr v, r)))"
  by (simp add: keeps_values_attribute kept_def CURB_OBJECT_HSETTER_def rb_easy_get_set Let_def)

lemma version_keeps: "keeps_values (attribute n Version ruby_curl_easy_http_version_set ruby_curl_easy_http_version_get)"
  by (simp add: keeps_values_attribute kept_def ruby_curl_easy_http_version_set_def ruby_curl_easy_http_version_get_def
      split: sum.split)

lemma mode_keeps: "keeps_values (attribute n Mode ruby_curl_easy_resolve_mode_set ruby_curl_easy_resolve_mode)"
  by (simp add: keeps_values_attribute kept_def kept_mode_def ruby_curl_easy_resolve_mode_set_def
      ruby_curl_easy_resolve_mode_def split: rvalue.split)

lemma attributes_keep: "list_all keeps_values easy_attributes"
  unfolding easy_attributes_def object_attributes_def number_attributes_def flag_attributes_def
    attribute_defs list_all_append list.pred_inject
  by (intro conjI TrueI object_keeps header_keeps version_keeps mode_keeps flag_keeps port_keeps long_keeps number_keeps)
    (simp_all add: to_signed_missing sint_word_of_int)

section \<open>Independence\<close>

definition independent :: "easy_attribute \<Rightarrow> easy_attribute \<Rightarrow> bool" where
  "independent a b \<longleftrightarrow> (\<forall>v r. fst (attr_get b (snd (attr_set a v r))) = fst (attr_get b r))"

abbreviation field_attributes :: "easy_attribute list" where
  "field_attributes \<equiv> number_attributes @ flag_attributes"

text \<open>The fields of the structure that the attributes outside \<open>opts\<close> read, in the order of the table.\<close>

definition field_view :: "ruby_curl_easy \<Rightarrow> int list" where
  "field_view r =
     [uint (local_port r), uint (local_port_range r), uint (proxy_port r), proxy_type r, proxy_auth_types r,
      max_redirs r, uint (connect_timeout r), uint (connect_timeout_ms r), dns_cache_timeout r,
      uint (ftp_response_timeout r), low_speed_limit r, low_speed_time r, max_send_speed_large r,
      max_recv_speed_large r, ssl_version r, use_ssl r, ftp_filemethod r, ssl_verify_host r, http_version r,
      resolve_mode r, of_bool (proxy_tunnel r), of_bool (fetch_file_time r), of_bool (ssl_verify_peer r),
      of_bool (header_in_body r), of_bool (use_netrc r), of_bool (unrestricted_auth r), of_bool (verbose r),
      of_bool (multipart_form_post r), of_bool (enable_cookies r), of_bool (ignore_content_length r)]"

definition writes_at :: "nat \<Rightarrow> ruby_curl_easy \<Rightarrow> ruby_curl_easy \<Rightarrow> bool" where
  "writes_at i r s \<longleftrightarrow> field_view s = (field_view r)[i := field_view s ! i] \<and> opts s = opts r"

definition reads_at :: "nat \<Rightarrow> (ruby_curl_easy, rvalue) cmd \<Rightarrow> bool" where
  "reads_at i g \<longleftrightarrow> (\<forall>r s. field_view s ! i = field_view r ! i \<longrightarrow> fst (g s) = fst (g r))"

definition at_field :: "nat \<Rightarrow> easy_attribute \<Rightarrow> bool" where
  "at_field i a \<longleftrightarrow> (\<forall>v r. writes_at i r (snd (attr_set a v r))) \<and> reads_at i (attr_get a)"

lemma writes_at_same: "writes_at i r r"
  by (simp add: writes_at_def)

lemma at_flag:
  assumes "\<And>b r. writes_at i r (put b r)" and "\<And>r. field_view r ! i = of_bool (get r)"
  shows "at_field i (attribute n Flag (CURB_BOOLEAN_SETTER put) (CURB_BOOLEAN_GETTER get))"
  using assms
  by (simp add: at_field_def reads_at_def CURB_BOOLEAN_SETTER_def CURB_BOOLEAN_GETTER_def)

lemma at_number:
  assumes "\<And>x r. writes_at i r (put x r)" and "\<And>r s. field_view s ! i = field_view r ! i \<Longrightarrow> get s = get r"
  shows "at_field i (attribute n (Number w missing) (CURB_IMMED_SETTER put missing) (CURB_IMMED_GETTER get missing))"
proof -
  have "fst (CURB_IMMED_GETTER get missing s) = fst (CURB_IMMED_GETTER get missing r)"
    if "field_view s ! i = field_view r ! i" for r s
    using assms(2) [OF that] by (simp add: CURB_IMMED_GETTER_def)
  moreover have "writes_at i r (snd (CURB_IMMED_SETTER put missing v r))" for v r
    using assms(1) by (simp add: CURB_IMMED_SETTER_def writes_at_same split: sum.split)
  ultimately show ?thesis
    unfolding at_field_def reads_at_def attribute_fields by blast
qed

lemma at_port:
  assumes "\<And>x r. writes_at i r (put x r)" and "\<And>r. field_view r ! i = uint (get r)"
  shows "at_field i (attribute n (Port msg) (CURB_IMMED_PORT_SETTER put msg) (CURB_IMMED_PORT_GETTER get))"
  using assms writes_at_same
  by (simp add: at_field_def reads_at_def CURB_IMMED_PORT_SETTER_def CURB_IMMED_PORT_GETTER_def word_uint_eq_iff
      split: sum.split)

lemma at_version: "at_field 18 (attribute n Version ruby_curl_easy_http_version_set ruby_curl_easy_http_version_get)"
  by (simp add: at_field_def reads_at_def ruby_curl_easy_http_version_set_def ruby_curl_easy_http_version_get_def
      writes_at_same split: sum.split) (simp add: writes_at_def field_view_def)

lemma at_mode: "at_field 19 (attribute n Mode ruby_curl_easy_resolve_mode_set ruby_curl_easy_resolve_mode)"
  by (simp add: at_field_def reads_at_def ruby_curl_easy_resolve_mode_set_def ruby_curl_easy_resolve_mode_def
      writes_at_same split: rvalue.split) (simp add: writes_at_def field_view_def)

lemma upt_30: "[0..<30] =
    [0, 1, 2, 3, 4, 5, 6, 7, 8, 9, 10, 11, 12, 13, 14, 15, 16, 17, 18, 19, 20, 21, 22, 23, 24, 25, 26, 27, 28, 29]"
  by (simp add: upt_rec)

lemma field_attributes_at: "list_all2 at_field [0..<30] field_attributes"
  unfolding number_attributes_def flag_attributes_def attribute_defs append.simps
  unfolding upt_30 list_all2_Cons
  by (intro conjI at_flag at_number at_port at_version at_mode;
      (simp add: writes_at_def field_view_def flip: word_uint_eq_iff))

lemma objects_all:
  "list_all (\<lambda>a. (\<forall>v r. attr_set a v r = (Inr v, rb_easy_set (attr_name a) v r)) \<and>
     (\<forall>r s. rb_easy_get (attr_name a) s = rb_easy_get (attr_name a) r \<longrightarrow> fst (attr_get a s) = fst (attr_get a r)))
   object_attributes"
  unfolding object_attributes_def attribute_defs list.pred_inject attribute_fields
  by (simp add: CURB_OBJECT_HSETTER_def CURB_OBJECT_HGETTER_def Let_def)

lemma object_at:
  assumes "a \<in> set object_attributes"
  shows "attr_set a v r = (Inr v, rb_easy_set (attr_name a) v r)"
    and "rb_easy_get (attr_name a) s = rb_easy_get (attr_name a) r \<Longrightarrow> fst (attr_get a s) = fst (attr_get a r)"
  using objects_all [unfolded list_all_iff, rule_format, OF assms] by blast+

lemma field_attribute_at:
  assumes "a \<in> set field_attributes"
  obtains i where "i < 30" and "at_field i a" and "field_attributes ! i = a"
proof -
  obtain i where i: "i < length field_attributes" "field_attributes ! i = a"
    using assms by (metis in_set_conv_nth)
  have "length field_attributes = 30" using list_all2_lengthD [OF field_attributes_at] by simp
  moreover have "at_field i a" using list_all2_nthD [OF field_attributes_at, of i] i calculation by simp
  ultimately show thesis using that i by simp
qed

lemma at_fieldD:
  assumes "at_field i a"
  shows "opts (snd (attr_set a v r)) = opts r"
    and "j \<noteq> i \<Longrightarrow> field_view (snd (attr_set a v r)) ! j = field_view r ! j"
    and "field_view s ! i = field_view r ! i \<Longrightarrow> fst (attr_get a s) = fst (attr_get a r)"
proof -
  have w: "writes_at i r (snd (attr_set a v r))" using assms unfolding at_field_def by blast
  then show "opts (snd (attr_set a v r)) = opts r" unfolding writes_at_def by blast
  have "field_view (snd (attr_set a v r)) ! j = (field_view r)[i := field_view (snd (attr_set a v r)) ! i] ! j"
    by (rule arg_cong [OF conjunct1 [OF w [unfolded writes_at_def]], of "\<lambda>l. l ! j"])
  also have "j \<noteq> i \<Longrightarrow> \<dots> = field_view r ! j" by simp
  finally show "j \<noteq> i \<Longrightarrow> field_view (snd (attr_set a v r)) ! j = field_view r ! j" .
  show "field_view s ! i = field_view r ! i \<Longrightarrow> fst (attr_get a s) = fst (attr_get a r)"
    using assms unfolding at_field_def reads_at_def by blast
qed

lemma fields_independent:
  assumes "a \<in> set field_attributes" and "b \<in> set field_attributes" and "attr_name a \<noteq> attr_name b"
  shows "independent a b"
proof -
  obtain i where i: "i < 30" "at_field i a" "field_attributes ! i = a"
    using assms(1) by (rule field_attribute_at)
  obtain j where j: "j < 30" "at_field j b" "field_attributes ! j = b"
    using assms(2) by (rule field_attribute_at)
  have "i \<noteq> j" using assms(3) i(3) j(3) by blast
  then show ?thesis
    unfolding independent_def by (intro allI at_fieldD(3) [OF j(2)] at_fieldD(2) [OF i(2)]) simp
qed

lemma object_field_independent:
  assumes "a \<in> set object_attributes" and "b \<in> set field_attributes"
  shows "independent a b" and "independent b a"
proof -
  note a = object_at [OF assms(1)]
  obtain j where j: "at_field j b" using assms(2) by (rule field_attribute_at)
  have "field_view (rb_easy_set k v r) = field_view r" for k v r by (simp add: field_view_def rb_easy_set_def)
  then show "independent a b"
    unfolding independent_def a(1) snd_conv by (intro allI at_fieldD(3) [OF j]) simp
  show "independent b a"
    unfolding independent_def using at_fieldD(1) [OF j] by (intro allI a(2)) (simp add: rb_easy_get_def)
qed

lemma objects_independent:
  assumes "a \<in> set object_attributes" and "b \<in> set object_attributes" and "attr_name a \<noteq> attr_name b"
  shows "independent a b"
  unfolding independent_def object_at(1) [OF assms(1)] snd_conv
  using assms(3) by (intro allI object_at(2) [OF assms(2)]) (simp add: rb_easy_get_set)



end
