(* ===== verification/Curb_Options.thy ===== *)
theory Curb_Options
  imports Curb_Requests Curb_Attributes
begin

text \<open>
  \<open>setopt\<close> of \<open>Curl::Easy\<close> in \<open>ext/curb_easy.c\<close>: options by number, stored on the handle, passed to
  libcurl or both, and the small methods after it. The switch over the option numbers is a list of
  cases in the order of the source, each with the preprocessor conditional it stands under.
\<close>

text \<open>\<open>option_name\<close> gives the constant of \<open>curl.h\<close> the code uses for a number; \<open>stdio_file\<close> is
  \<open>Check_Type(val, T_FILE)\<close>, \<open>GetOpenFile\<close> and \<open>rb_io_stdio_file\<close>.\<close>

record opt_env =
  oe_setup :: setup_env
  option_name :: "int \<Rightarrow> string option"
  stdio_file :: "rvalue \<Rightarrow> curl_val res"

definition ruby_curl_easy_option_to_long :: "user_code \<Rightarrow> rvalue \<Rightarrow> (transfer, int) cmd" where
  "ruby_curl_easy_option_to_long u v =
     (if v = Qtrue then ret 1 else if v = Qfalse then ret 0
      else bind (rb_funcall u v ''to_i'' []) (\<lambda>n. lift_res (NUM2LONG n)))"

section \<open>What the cases do\<close>

definition opt_store :: "string \<Rightarrow> rvalue \<Rightarrow> (transfer, unit) cmd" where
  "opt_store key v = modify (upd_easy (rb_easy_set key v))"

definition opt_long :: "string \<Rightarrow> rvalue \<Rightarrow> (transfer, unit) cmd" where
  "opt_long opt v = bind (lift_res (NUM2LONG v)) (\<lambda>n. set_opt opt (VLong n))"

definition opt_flag :: "user_code \<Rightarrow> string \<Rightarrow> rvalue \<Rightarrow> (transfer, unit) cmd" where
  "opt_flag u opt v = bind (ruby_curl_easy_option_to_long u v) (\<lambda>n. set_opt opt (VLong n))"

definition opt_string :: "string \<Rightarrow> rvalue \<Rightarrow> (transfer, unit) cmd" where
  "opt_string opt v = bind (lift_res (StringValueCStr v)) (\<lambda>s. set_opt opt (VStr s))"

definition opt_string_or_null :: "string \<Rightarrow> rvalue \<Rightarrow> (transfer, unit) cmd" where
  "opt_string_or_null opt v = (if v = Qnil then set_opt opt VNull else opt_string opt v)"

definition opt_store_string :: "string \<Rightarrow> string \<Rightarrow> rvalue \<Rightarrow> (transfer, unit) cmd" where
  "opt_store_string key opt v = bind (opt_store key v) (\<lambda>_. opt_string_or_null opt v)"

text \<open>A macro that returns from the function: the value is returned at the end in any case.\<close>

definition opt_attribute :: "(rvalue \<Rightarrow> (ruby_curl_easy, rvalue) cmd) \<Rightarrow> rvalue \<Rightarrow> (transfer, unit) cmd" where
  "opt_attribute put v = bind (on_easy (put v)) (\<lambda>_. ret ())"

definition opt_http_version :: "rvalue \<Rightarrow> (transfer, unit) cmd" where
  "opt_http_version v =
     bind (if v = Qnil then ret 0 else lift_res (NUM2LONG v)) (\<lambda>n.
     bind (modify (upd_easy (\<lambda>r. r\<lparr>http_version := n\<rparr>))) (\<lambda>_. set_opt ''CURLOPT_HTTP_VERSION'' (VLong n)))"

definition opt_ftp_response_timeout :: "user_code \<Rightarrow> rvalue \<Rightarrow> (transfer, unit) cmd" where
  "opt_ftp_response_timeout u v =
     bind (ruby_curl_easy_option_to_long u v) (\<lambda>n.
     bind (modify (upd_easy (\<lambda>r. r\<lparr>ftp_response_timeout := word_of_int n\<rparr>))) (\<lambda>_.
     set_opt ''CURLOPT_FTP_RESPONSE_TIMEOUT'' (ulong_arg (word_of_int n))))"

definition opt_ftp_filemethod :: "user_code \<Rightarrow> rvalue \<Rightarrow> (transfer, unit) cmd" where
  "opt_ftp_filemethod u v =
     bind (ruby_curl_easy_option_to_long u v) (\<lambda>n.
     bind (modify (upd_easy (\<lambda>r. r\<lparr>ftp_filemethod := n\<rparr>))) (\<lambda>_. set_opt ''CURLOPT_FTP_FILEMETHOD'' (VLong n)))"

definition opt_forbid_reuse :: "rvalue \<Rightarrow> (transfer, unit) cmd" where
  "opt_forbid_reuse v =
     bind (lift_res (NUM2LONG v)) (\<lambda>n.
     bind (modify (upd_easy (\<lambda>r. r\<lparr>forbid_reuse := n, forbid_reuse_set := True\<rparr>))) (\<lambda>_.
     set_opt ''CURLOPT_FORBID_REUSE'' (VLong n)))"

definition opt_stderr :: "opt_env \<Rightarrow> rvalue \<Rightarrow> (transfer, unit) cmd" where
  "opt_stderr X v =
     bind (lift_res (stdio_file X v)) (\<lambda>f.
     bind (set_opt ''CURLOPT_STDERR'' f) (\<lambda>_. opt_store ''stderr_io'' v))"

definition opt_cookielist :: "rvalue \<Rightarrow> (transfer, unit) cmd" where
  "opt_cookielist v =
     bind (lift_res (StringValueCStr v)) (\<lambda>s.
     bind (set_opt ''CURLOPT_COOKIELIST'' (VStr s)) (\<lambda>_.
     if s \<notin> {''ALL'', ''SESS'', ''FLUSH'', ''RELOAD''}
     then modify (upd_easy (\<lambda>r. r\<lparr>cookielist_engine_enabled := True\<rparr>)) else ret ()))"

text \<open>A string list: the old one is freed first, so that a value that is refused leaves none.\<close>

fun append_items ::
  "(string list \<Rightarrow> string \<Rightarrow> string list option) \<Rightarrow> string \<Rightarrow> string list \<Rightarrow> rvalue list \<Rightarrow> (transfer, string list) cmd" where
  "append_items append_to msg l [] = ret l"
| "append_items append_to msg l (v # vs) =
     bind (lift_res (StringValueCStr v)) (\<lambda>s.
       case append_to l s of
         None \<Rightarrow> rb_raise ''rb_eNoMemError'' msg
       | Some l' \<Rightarrow> append_items append_to msg l' vs)"

definition list_items ::
  "(string list \<Rightarrow> string \<Rightarrow> string list option) \<Rightarrow> string \<Rightarrow> rvalue \<Rightarrow> (transfer, string list) cmd" where
  "list_items append_to what v =
     (case v of
        Qnil \<Rightarrow> ret []
      | RArr vs \<Rightarrow> append_items append_to (''Failed to append to '' @ what @ '' list'') [] vs
      | _ \<Rightarrow> append_items append_to (''Failed to create '' @ what @ '' list'') [] [v])"

definition list_arg :: "string list \<Rightarrow> curl_val" where
  "list_arg l = (if l = [] then VNull else VSlist l)"

definition opt_resolve :: "setup_env \<Rightarrow> rvalue \<Rightarrow> (transfer, unit) cmd" where
  "opt_resolve E v =
     bind (modify (upd_easy (ruby_curl_easy_clear_resolve_list (s_env E)))) (\<lambda>_.
     bind (list_items (curl_slist_append E) ''resolve'' v) (\<lambda>l.
     bind (modify (upd_easy (put_resolve l))) (\<lambda>_.
     bind (opt_store ''resolve'' v) (\<lambda>_. set_opt ''CURLOPT_RESOLVE'' (list_arg l)))))"

definition opt_connect_to :: "setup_env \<Rightarrow> rvalue \<Rightarrow> (transfer, unit) cmd" where
  "opt_connect_to E v =
     bind (modify (upd_easy (ruby_curl_easy_clear_connect_to_list (s_env E)))) (\<lambda>_.
     bind (list_items (curl_slist_append E) ''connect-to'' v) (\<lambda>l.
     bind (modify (upd_easy (put_connect_to l))) (\<lambda>_.
     bind (opt_store ''connect_to'' v) (\<lambda>_. set_opt ''CURLOPT_CONNECT_TO'' (list_arg l)))))"

section \<open>The switch\<close>

record opt_case =
  case_macro :: "string option"
  case_name :: string
  case_action :: "rvalue \<Rightarrow> (transfer, unit) cmd"

definition opt_case :: "string \<Rightarrow> (rvalue \<Rightarrow> (transfer, unit) cmd) \<Rightarrow> opt_case" where
  "opt_case name act = \<lparr>case_macro = None, case_name = name, case_action = act\<rparr>"

definition opt_case_if :: "string \<Rightarrow> string \<Rightarrow> (rvalue \<Rightarrow> (transfer, unit) cmd) \<Rightarrow> opt_case" where
  "opt_case_if macro name act = \<lparr>case_macro = Some macro, case_name = name, case_action = act\<rparr>"

definition request_cases :: "opt_env \<Rightarrow> user_code \<Rightarrow> opt_case list" where
  "request_cases X u = [
     opt_case ''CURLOPT_VERBOSE'' (opt_attribute ruby_curl_easy_verbose_set),
     opt_case ''CURLOPT_FOLLOWLOCATION'' (opt_attribute (CURB_BOOLEAN_SETTER (\<lambda>b r. r\<lparr>follow_location := b\<rparr>))),
     opt_case ''CURLOPT_URL'' (opt_attribute (CURB_OBJECT_HSETTER ''url'')),
     opt_case ''CURLOPT_CUSTOMREQUEST'' (opt_string_or_null ''CURLOPT_CUSTOMREQUEST''),
     opt_case ''CURLOPT_HTTP_VERSION'' opt_http_version,
     opt_case ''CURLOPT_PROXY'' (opt_attribute (CURB_OBJECT_HSETTER ''proxy_url'')),
     opt_case ''CURLOPT_INTERFACE'' (opt_attribute (CURB_OBJECT_HSETTER ''interface_hm'')),
     opt_case ''CURLOPT_HEADER'' (opt_flag u ''CURLOPT_HEADER''),
     opt_case ''CURLOPT_NOPROGRESS'' (opt_flag u ''CURLOPT_NOPROGRESS''),
     opt_case ''CURLOPT_NOSIGNAL'' (opt_flag u ''CURLOPT_NOSIGNAL''),
     opt_case_if ''HAVE_CURLOPT_PATH_AS_IS'' ''CURLOPT_PATH_AS_IS'' (opt_flag u ''CURLOPT_PATH_AS_IS''),
     opt_case_if ''HAVE_CURLOPT_PIPEWAIT'' ''CURLOPT_PIPEWAIT'' (opt_flag u ''CURLOPT_PIPEWAIT''),
     opt_case ''CURLOPT_HTTPGET'' (opt_flag u ''CURLOPT_HTTPGET''),
     opt_case ''CURLOPT_NOBODY'' (opt_flag u ''CURLOPT_NOBODY''),
     opt_case ''CURLOPT_POST'' (\<lambda>v. set_opt ''CURLOPT_POST'' (flag_arg (v = Qtrue))),
     opt_case ''CURLOPT_MAXCONNECTS'' (opt_long ''CURLOPT_MAXCONNECTS''),
     opt_case ''CURLOPT_POSTFIELDS'' (\<lambda>v. bind (ruby_curl_easy_post_body_set_with_mode (s_env (oe_setup X)) u v False) (\<lambda>_. ret ())),
     opt_case ''CURLOPT_USERPWD'' (opt_attribute (CURB_OBJECT_HSETTER ''userpwd'')),
     opt_case ''CURLOPT_PROXYUSERPWD'' (opt_attribute (CURB_OBJECT_HSETTER ''proxypwd'')),
     opt_case_if ''HAVE_CURLOPT_NOPROXY'' ''CURLOPT_NOPROXY'' (opt_attribute (CURB_OBJECT_HSETTER ''noproxy'')),
     opt_case ''CURLOPT_COOKIE'' (opt_attribute (CURB_OBJECT_HSETTER ''cookies'')),
     opt_case ''CURLOPT_COOKIEFILE'' (opt_attribute (CURB_OBJECT_HSETTER ''cookiefile'')),
     opt_case ''CURLOPT_COOKIEJAR'' (opt_attribute (CURB_OBJECT_HSETTER ''cookiejar'')),
     opt_case_if ''HAVE_CURLOPT_REQUEST_TARGET'' ''CURLOPT_REQUEST_TARGET'' (opt_string_or_null ''CURLOPT_REQUEST_TARGET''),
     opt_case_if ''HAVE_CURLOPT_DOH_URL'' ''CURLOPT_DOH_URL'' (opt_store_string ''doh_url'' ''CURLOPT_DOH_URL''),
     opt_case ''CURLOPT_TCP_NODELAY'' (opt_long ''CURLOPT_TCP_NODELAY'')]"

definition ftp_cases :: "user_code \<Rightarrow> opt_case list" where
  "ftp_cases u = [
     opt_case_if ''HAVE_CURLOPT_DIRLISTONLY'' ''CURLOPT_DIRLISTONLY'' (opt_flag u ''CURLOPT_DIRLISTONLY''),
     opt_case_if ''HAVE_CURLOPT_FTPPORT'' ''CURLOPT_FTPPORT'' (opt_string_or_null ''CURLOPT_FTPPORT''),
     opt_case_if ''HAVE_CURLOPT_APPEND'' ''CURLOPT_APPEND'' (opt_flag u ''CURLOPT_APPEND''),
     opt_case_if ''HAVE_CURLOPT_FTP_USE_EPSV'' ''CURLOPT_FTP_USE_EPSV'' (opt_flag u ''CURLOPT_FTP_USE_EPSV''),
     opt_case_if ''HAVE_CURLOPT_FTP_USE_EPRT'' ''CURLOPT_FTP_USE_EPRT'' (opt_flag u ''CURLOPT_FTP_USE_EPRT''),
     opt_case_if ''HAVE_CURLOPT_FTP_USE_PRET'' ''CURLOPT_FTP_USE_PRET'' (opt_flag u ''CURLOPT_FTP_USE_PRET''),
     opt_case_if ''HAVE_CURLOPT_FTP_CREATE_MISSING_DIRS'' ''CURLOPT_FTP_CREATE_MISSING_DIRS'' (\<lambda>v. bind (opt_store ''ftp_create_missing_dirs'' v) (\<lambda>_. opt_flag u ''CURLOPT_FTP_CREATE_MISSING_DIRS'' v)),
     opt_case_if ''HAVE_CURLOPT_FTP_RESPONSE_TIMEOUT'' ''CURLOPT_FTP_RESPONSE_TIMEOUT'' (opt_ftp_response_timeout u),
     opt_case_if ''HAVE_CURLOPT_FTP_ALTERNATIVE_TO_USER'' ''CURLOPT_FTP_ALTERNATIVE_TO_USER'' (opt_string_or_null ''CURLOPT_FTP_ALTERNATIVE_TO_USER''),
     opt_case_if ''HAVE_CURLOPT_FTP_SKIP_PASV_IP'' ''CURLOPT_FTP_SKIP_PASV_IP'' (opt_flag u ''CURLOPT_FTP_SKIP_PASV_IP''),
     opt_case_if ''HAVE_CURLOPT_FTPSSLAUTH'' ''CURLOPT_FTPSSLAUTH'' (opt_flag u ''CURLOPT_FTPSSLAUTH''),
     opt_case_if ''HAVE_CURLOPT_FTP_SSL_CCC'' ''CURLOPT_FTP_SSL_CCC'' (opt_flag u ''CURLOPT_FTP_SSL_CCC''),
     opt_case_if ''HAVE_CURLOPT_FTP_ACCOUNT'' ''CURLOPT_FTP_ACCOUNT'' (opt_string_or_null ''CURLOPT_FTP_ACCOUNT''),
     opt_case_if ''HAVE_CURLOPT_FTP_FILEMETHOD'' ''CURLOPT_FTP_FILEMETHOD'' (opt_ftp_filemethod u)]"

definition limit_cases :: "opt_case list" where
  "limit_cases = [
     opt_case ''CURLOPT_RANGE'' (opt_string ''CURLOPT_RANGE''),
     opt_case ''CURLOPT_RESUME_FROM'' (opt_long ''CURLOPT_RESUME_FROM''),
     opt_case ''CURLOPT_FAILONERROR'' (opt_long ''CURLOPT_FAILONERROR''),
     opt_case ''CURLOPT_SSL_CIPHER_LIST'' (opt_string ''CURLOPT_SSL_CIPHER_LIST''),
     opt_case ''CURLOPT_FORBID_REUSE'' opt_forbid_reuse,
     opt_case_if ''HAVE_CURLOPT_GSSAPI_DELEGATION'' ''CURLOPT_GSSAPI_DELEGATION'' (opt_long ''CURLOPT_GSSAPI_DELEGATION''),
     opt_case_if ''HAVE_CURLOPT_UNIX_SOCKET_PATH'' ''CURLOPT_UNIX_SOCKET_PATH'' (opt_store_string ''unix_socket_path'' ''CURLOPT_UNIX_SOCKET_PATH''),
     opt_case_if ''HAVE_CURLOPT_DNS_SERVERS'' ''CURLOPT_DNS_SERVERS'' (opt_store_string ''dns_servers'' ''CURLOPT_DNS_SERVERS''),
     opt_case_if ''HAVE_CURLOPT_MAX_SEND_SPEED_LARGE'' ''CURLOPT_MAX_SEND_SPEED_LARGE'' (opt_long ''CURLOPT_MAX_SEND_SPEED_LARGE''),
     opt_case_if ''HAVE_CURLOPT_MAX_RECV_SPEED_LARGE'' ''CURLOPT_MAX_RECV_SPEED_LARGE'' (opt_long ''CURLOPT_MAX_RECV_SPEED_LARGE''),
     opt_case_if ''HAVE_CURLOPT_MAXFILESIZE'' ''CURLOPT_MAXFILESIZE'' (opt_long ''CURLOPT_MAXFILESIZE''),
     opt_case_if ''HAVE_CURLOPT_MAXFILESIZE_LARGE'' ''CURLOPT_MAXFILESIZE_LARGE'' (opt_long ''CURLOPT_MAXFILESIZE_LARGE''),
     opt_case_if ''HAVE_CURLOPT_TCP_KEEPALIVE'' ''CURLOPT_TCP_KEEPALIVE'' (opt_long ''CURLOPT_TCP_KEEPALIVE''),
     opt_case_if ''HAVE_CURLOPT_TCP_KEEPALIVE'' ''CURLOPT_TCP_KEEPIDLE'' (opt_long ''CURLOPT_TCP_KEEPIDLE''),
     opt_case_if ''HAVE_CURLOPT_TCP_KEEPALIVE'' ''CURLOPT_TCP_KEEPINTVL'' (opt_long ''CURLOPT_TCP_KEEPINTVL''),
     opt_case_if ''HAVE_CURLOPT_HAPROXYPROTOCOL'' ''CURLOPT_HAPROXYPROTOCOL'' (opt_long ''CURLOPT_HAPROXYPROTOCOL'')]"

definition other_cases :: "opt_env \<Rightarrow> opt_case list" where
  "other_cases X = [
     opt_case ''CURLOPT_STDERR'' (opt_stderr X),
     opt_case ''CURLOPT_PROTOCOLS'' (opt_long ''CURLOPT_PROTOCOLS''),
     opt_case ''CURLOPT_REDIR_PROTOCOLS'' (opt_long ''CURLOPT_REDIR_PROTOCOLS''),
     opt_case_if ''HAVE_CURLOPT_PROTOCOLS_STR'' ''CURLOPT_PROTOCOLS_STR'' (opt_string_or_null ''CURLOPT_PROTOCOLS_STR''),
     opt_case_if ''HAVE_CURLOPT_REDIR_PROTOCOLS_STR'' ''CURLOPT_REDIR_PROTOCOLS_STR'' (opt_string_or_null ''CURLOPT_REDIR_PROTOCOLS_STR''),
     opt_case_if ''HAVE_CURLOPT_SSL_SESSIONID_CACHE'' ''CURLOPT_SSL_SESSIONID_CACHE'' (opt_long ''CURLOPT_SSL_SESSIONID_CACHE''),
     opt_case_if ''HAVE_CURLOPT_COOKIELIST'' ''CURLOPT_COOKIELIST'' opt_cookielist,
     opt_case_if ''HAVE_CURLOPT_PROXY_SSL_VERIFYHOST'' ''CURLOPT_PROXY_SSL_VERIFYHOST'' (opt_long ''CURLOPT_PROXY_SSL_VERIFYHOST''),
     opt_case_if ''HAVE_CURLOPT_DOH_SSL_VERIFYPEER'' ''CURLOPT_DOH_SSL_VERIFYPEER'' (opt_long ''CURLOPT_DOH_SSL_VERIFYPEER''),
     opt_case_if ''HAVE_CURLOPT_DOH_SSL_VERIFYHOST'' ''CURLOPT_DOH_SSL_VERIFYHOST'' (opt_long ''CURLOPT_DOH_SSL_VERIFYHOST''),
     opt_case_if ''HAVE_CURLOPT_DOH_SSL_VERIFYSTATUS'' ''CURLOPT_DOH_SSL_VERIFYSTATUS'' (opt_long ''CURLOPT_DOH_SSL_VERIFYSTATUS''),
     opt_case_if ''HAVE_CURLOPT_RESOLVE'' ''CURLOPT_RESOLVE'' (opt_resolve (oe_setup X)),
     opt_case_if ''HAVE_CURLOPT_CONNECT_TO'' ''CURLOPT_CONNECT_TO'' (opt_connect_to (oe_setup X))]"

definition opt_cases :: "opt_env \<Rightarrow> user_code \<Rightarrow> opt_case list" where
  "opt_cases X u = request_cases X u @ ftp_cases u @ limit_cases @ other_cases X"

definition compiled_in :: "curl_env \<Rightarrow> opt_case \<Rightarrow> bool" where
  "compiled_in env c = (case case_macro c of None \<Rightarrow> True | Some m \<Rightarrow> have_macro env m)"

definition select_case :: "opt_env \<Rightarrow> user_code \<Rightarrow> int \<Rightarrow> opt_case option" where
  "select_case X u option =
     find (\<lambda>c. compiled_in (s_env (oe_setup X)) c \<and> option_name X option = Some (case_name c)) (opt_cases X u)"

definition ruby_curl_easy_set_opt :: "opt_env \<Rightarrow> user_code \<Rightarrow> rvalue \<Rightarrow> rvalue \<Rightarrow> (transfer, rvalue) cmd" where
  "ruby_curl_easy_set_opt X u opt val =
     bind (lift_res (NUM2LONG opt)) (\<lambda>option.
       case select_case X u option of
         None \<Rightarrow> rb_raise ''rb_eTypeError'' ''Curb unsupported option''
       | Some c \<Rightarrow> bind (case_action c val) (\<lambda>_. ret val))"

definition ruby_curl_easy_ftp_create_missing_dirs_set ::
  "opt_env \<Rightarrow> (string \<Rightarrow> int) \<Rightarrow> user_code \<Rightarrow> rvalue \<Rightarrow> (transfer, rvalue) cmd" where
  "ruby_curl_easy_ftp_create_missing_dirs_set X option_number u v =
     ruby_curl_easy_set_opt X u (RInt (option_number ''CURLOPT_FTP_CREATE_MISSING_DIRS'')) v"

definition ruby_curl_easy_ftp_create_missing_dirs_get :: "(ruby_curl_easy, rvalue) cmd" where
  "ruby_curl_easy_ftp_create_missing_dirs_get = CURB_OBJECT_HGETTER ''ftp_create_missing_dirs''"

definition ruby_curl_easy_get_opt :: "rvalue \<Rightarrow> (ruby_curl_easy, rvalue) cmd" where
  "ruby_curl_easy_get_opt opt = ret Qnil"

section \<open>Methods of a handle\<close>

text \<open>At most fifty bytes of the URL are shown; the buffer holds sixty-four.\<close>

definition ruby_curl_easy_inspect :: "(ruby_curl_easy, rvalue) cmd" where
  "ruby_curl_easy_inspect r =
     (case rb_easy_get ''url'' r of
        RStr url \<Rightarrow>
          (case StringValueCStr (RStr url) of
             Inl e \<Rightarrow> (Inl e, r)
           | Inr s \<Rightarrow> (Inr (RStr (''#<Curl::Easy '' @ take (if 50 < length url then 50 else length url) s @ ''>'')), r))
      | _ \<Rightarrow> (Inr (RStr ''#<Curl::Easy>''), r))"

text \<open>\<open>curl_easy_escape\<close> takes the length as an \<open>int\<close>; a result of \<open>NULL\<close>, which
  \<open>rb_str_new2\<close> refuses with an \<open>ArgumentError\<close>, is \<open>None\<close>.\<close>

definition ruby_curl_easy_escape ::
  "(string \<Rightarrow> int \<Rightarrow> string option) \<Rightarrow> user_code \<Rightarrow> rvalue \<Rightarrow> (transfer, rvalue) cmd" where
  "ruby_curl_easy_escape curl_escape u svalue =
     bind (case svalue of RStr _ \<Rightarrow> ret svalue | _ \<Rightarrow> rb_funcall u svalue ''to_s'' []) (\<lambda>str.
     bind (lift_res (StringValue str)) (\<lambda>s.
       case curl_escape s (to_signed 32 (int (length s))) of
         None \<Rightarrow> rb_raise ''rb_eArgError'' ''NULL pointer given''
       | Some result \<Rightarrow> ret (RStr (c_string result))))"

definition ruby_curl_easy_error_message :: "curl_env \<Rightarrow> rvalue \<Rightarrow> (err_class \<times> string) res" where
  "ruby_curl_easy_error_message env code =
     map_sum id (rb_curl_easy_error (have_macro env) (libcurl_version_num env) (easy_strerror env)) (NUM2INT code)"

end
