(* ===== verification/Curb_Options_Facts.thy ===== *)
theory Curb_Options_Facts
  imports Curb_Options Curb_Attributes_Facts Curb_Requests_Facts
begin

text \<open>
  What configuring a handle can and cannot do: no option and no attribute touches the network policy, so
  that the next transfer of a \<open>:public\<close> handle stays within it; options that are refused but kept, and
  options that setup overwrites.
\<close>

section \<open>Configuration leaves the network policy alone\<close>

text \<open>The part of the structure the network policy consists of.\<close>

definition policy_of :: "ruby_curl_easy \<Rightarrow>
    (nat \<times> bool \<times> bool) \<times> (curb_cidr_rule list option \<times> nat \<times> string list option \<times> nat) \<times> (rvalue \<times> rvalue)" where
  "policy_of r = ((network_policy r, allow_proxy r, allow_unix_socket r),
     (network_allowed_cidr_rules r, network_allowed_cidr_rule_count r, network_allowed_hosts r,
      network_allowed_host_count r),
     (rb_easy_get ''allowed_cidrs'' r, rb_easy_get ''allowed_hosts'' r))"

definition same_policy :: "transfer \<Rightarrow> transfer \<Rightarrow> bool" where
  "same_policy s t \<longleftrightarrow> policy_of (xfer_easy t) = policy_of (xfer_easy s)"

interpretation policy: step_relation same_policy
  by unfold_locales (simp_all add: same_policy_def)

lemma policy_of_set [simp]:
  "policy_of (curl_easy_setopt opt v r) = policy_of r"
  "k \<noteq> ''allowed_cidrs'' \<Longrightarrow> k \<noteq> ''allowed_hosts'' \<Longrightarrow> policy_of (rb_easy_set k x r) = policy_of r"
  "k \<noteq> ''allowed_cidrs'' \<Longrightarrow> k \<noteq> ''allowed_hosts'' \<Longrightarrow> policy_of (rb_easy_del k r) = policy_of r"
  by (simp_all add: policy_of_def curl_easy_setopt_def rb_easy_get_def rb_easy_set_def rb_easy_del_def)

lemma policy_upd: "(\<And>r. policy_of (f r) = policy_of r) \<Longrightarrow> keeps same_policy (modify (upd_easy f))"
  by (rule policy.assign) (simp add: same_policy_def)

lemma policy_setopt: "keeps same_policy (set_opt opt v)"
  by (rule policy_upd) simp

lemma policy_on_easy: "(\<And>r. policy_of (snd (c r)) = policy_of r) \<Longrightarrow> keeps same_policy (on_easy c)"
  by (rule keepsI) (simp add: same_policy_def on_easy_def case_prod_beta)

lemma policy_ensure: "keeps same_policy m \<Longrightarrow> keeps same_policy n \<Longrightarrow> keeps same_policy (rb_ensure m n)"
  by (rule keepsI) (metis rb_ensure_state keepsD policy.transitive)

text \<open>User code that leaves the policy alone.\<close>

definition policy_user :: "user_code \<Rightarrow> bool" where
  "policy_user u \<longleftrightarrow> (\<forall>v m args. keeps same_policy (rb_funcall u v m args))"

lemma policy_funcall: "policy_user u \<Longrightarrow> keeps same_policy (rb_funcall u v m args)"
  by (simp add: policy_user_def)

lemmas policy_intros = policy.bound policy.pure policy.choice policy.branch policy_setopt policy_upd policy_ensure
  policy_funcall policy_on_easy

lemma policy_native: "keeps same_policy m \<Longrightarrow> keeps same_policy (in_native m)"
  unfolding in_native_def
  by (intro policy_intros)
    (simp_all add: policy_of_def ruby_curl_easy_enter_native_def ruby_curl_easy_leave_native_def rb_easy_get_def)

lemma policy_string_value: "policy_user u \<Longrightarrow> keeps same_policy (call_string_value u v)"
  unfolding call_string_value_def by (cases v; simp; intro conjI impI policy_intros) (auto split: rvalue.split intro: policy_intros)

lemma policy_post_body:
  assumes "policy_user u"
  shows "keeps same_policy (ruby_curl_easy_post_body_set_with_mode env u v force_get)"
proof -
  have "keeps same_policy (store_post_body env s)" "keeps same_policy (clear_post_body force_get)" for s
    unfolding store_post_body_def clear_post_body_def by (intro policy_intros; simp)+
  moreover have "keeps same_policy (case v of RStr s \<Rightarrow> ret v | _ \<Rightarrow> if rb_respond_to u v ''to_s'' then rb_funcall u v ''to_s'' []
      else rb_raise c m)" for c m
    by (cases v; simp; intro conjI impI policy_intros assms)
  ultimately show ?thesis
    unfolding ruby_curl_easy_post_body_set_with_mode_def ruby_curl_easy_post_body_set_with_mode_body_def
    by (intro policy_native policy.branch policy.bound policy_string_value assms)
      (auto split: rvalue.split intro!: policy_intros)
qed

lemma policy_clear_list:
  "(\<And>l r. policy_of (put l r) = policy_of r) \<Longrightarrow> policy_of (clear_list has opt macro get put r) = policy_of r"
  by (simp add: clear_list_def)

lemma policy_of_fields [simp]:
  "policy_of (put_resolve l r) = policy_of r" "policy_of (put_connect_to l r) = policy_of r"
  "policy_of (r\<lparr>http_version := n\<rparr>) = policy_of r" "policy_of (r\<lparr>ftp_response_timeout := m\<rparr>) = policy_of r"
  "policy_of (r\<lparr>ftp_filemethod := n\<rparr>) = policy_of r" "policy_of (r\<lparr>verbose := b\<rparr>) = policy_of r"
  "policy_of (r\<lparr>follow_location := b\<rparr>) = policy_of r" "policy_of (r\<lparr>cookielist_engine_enabled := b\<rparr>) = policy_of r"
  "policy_of (r\<lparr>forbid_reuse := n, forbid_reuse_set := b\<rparr>) = policy_of r"
  by (simp_all add: policy_of_def rb_easy_get_def)

lemma policy_long: "policy_user u \<Longrightarrow> keeps same_policy (ruby_curl_easy_option_to_long u v)"
  unfolding ruby_curl_easy_option_to_long_def by (intro policy_intros)

lemma policy_actions:
  "keeps same_policy (opt_long opt v)" "policy_user u \<Longrightarrow> keeps same_policy (opt_flag u opt v)"
  "keeps same_policy (opt_string opt v)" "keeps same_policy (opt_string_or_null opt v)"
  "key \<noteq> ''allowed_cidrs'' \<Longrightarrow> key \<noteq> ''allowed_hosts'' \<Longrightarrow> keeps same_policy (opt_store key v)"
  "key \<noteq> ''allowed_cidrs'' \<Longrightarrow> key \<noteq> ''allowed_hosts'' \<Longrightarrow> keeps same_policy (opt_store_string key opt v)"
  "(\<And>v r. policy_of (snd (f v r)) = policy_of r) \<Longrightarrow> keeps same_policy (opt_attribute f v)"
  unfolding opt_long_def opt_flag_def opt_store_string_def opt_string_or_null_def opt_string_def opt_store_def
    opt_attribute_def
  by (intro policy_intros policy_long; simp)+

lemma policy_append: "keeps same_policy (append_items append_to msg l vs)"
  by (induction vs arbitrary: l) (auto intro!: policy_intros split: option.split)

lemma policy_special:
  "keeps same_policy (opt_http_version v)" "policy_user u \<Longrightarrow> keeps same_policy (opt_ftp_response_timeout u v)"
  "policy_user u \<Longrightarrow> keeps same_policy (opt_ftp_filemethod u v)" "keeps same_policy (opt_forbid_reuse v)"
  "keeps same_policy (opt_stderr X v)" "keeps same_policy (opt_cookielist v)"
  "keeps same_policy (opt_resolve E v)" "keeps same_policy (opt_connect_to E v)"
proof -
  have "keeps same_policy (list_items append_to what v)" for append_to what
    unfolding list_items_def by (cases v) (simp_all only: rvalue.case policy_append policy.pure)
  then show "keeps same_policy (opt_resolve E v)" "keeps same_policy (opt_connect_to E v)"
    unfolding opt_resolve_def opt_connect_to_def ruby_curl_easy_clear_resolve_list_def ruby_curl_easy_clear_connect_to_list_def
    by (intro policy_intros policy_actions; simp add: policy_clear_list)+
qed (unfold opt_http_version_def opt_ftp_response_timeout_def opt_ftp_filemethod_def opt_forbid_reuse_def
    opt_stderr_def opt_cookielist_def, (intro policy_intros policy_long policy_actions; simp)+)

definition policy_case :: "opt_case \<Rightarrow> bool" where
  "policy_case c \<longleftrightarrow> (\<forall>v. keeps same_policy (case_action c v))"

lemma policy_caseI:
  "(\<And>v. keeps same_policy (act v)) \<Longrightarrow> policy_case (opt_case name act)"
  "(\<And>v. keeps same_policy (act v)) \<Longrightarrow> policy_case (opt_case_if macro name act)"
  by (simp_all add: policy_case_def opt_case_def opt_case_if_def)

lemma policy_cases: "policy_user u \<Longrightarrow> list_all policy_case (opt_cases X u)"
  unfolding opt_cases_def request_cases_def ftp_cases_def limit_cases_def other_cases_def list_all_append list.pred_inject
  by (intro conjI TrueI policy_caseI policy_actions policy_special policy_post_body policy_intros)
    (simp_all add: CURB_OBJECT_HSETTER_def CURB_BOOLEAN_SETTER_def ruby_curl_easy_verbose_set_def)

lemma policy_set_opt:
  assumes "policy_user u"
  shows "keeps same_policy (ruby_curl_easy_set_opt X u opt v)"
proof -
  have "keeps same_policy (case_action c v)" if "select_case X u n = Some c" for n c
  proof -
    have "c \<in> set (opt_cases X u)" using that by (auto simp: select_case_def find_Some_iff)
    then show ?thesis using policy_cases [OF assms] by (auto simp: list_all_iff policy_case_def)
  qed
  then show ?thesis
    unfolding ruby_curl_easy_set_opt_def by (auto intro!: policy_intros split: option.split)
qed

section \<open>Sequences of configuration calls\<close>

text \<open>The calls that configure a handle, whether they return or raise.\<close>

definition handler_keys :: "string list" where
  "handler_keys = [''body_proc'', ''header_proc'', ''progress_proc'', ''debug_proc'', ''success_proc'', ''failure_proc'',
     ''missing_proc'', ''redirect_proc'', ''complete_proc'']"

inductive config_step :: "opt_env \<Rightarrow> user_code \<Rightarrow> transfer \<Rightarrow> transfer \<Rightarrow> bool" for X u where
  set_option: "config_step X u t (snd (ruby_curl_easy_set_opt X u opt v t))"
| set_attribute: "a \<in> set easy_attributes \<Longrightarrow> config_step X u t (snd (on_easy (attr_set a v) t))"
| set_handler: "k \<in> set handler_keys \<Longrightarrow> config_step X u t (snd (on_easy (CURB_HANDLER_PROC_HSETTER k v) t))"
| set_body: "config_step X u t (snd (ruby_curl_easy_post_body_set env u v t))"

lemma object_names: "list_all (\<lambda>a. attr_name a \<notin> {''allowed_cidrs'', ''allowed_hosts''}) object_attributes"
  unfolding object_attributes_def list.pred_inject attribute_fields by simp

lemma policy_fields_attributes:
  "list_all (\<lambda>a. \<forall>v r. policy_of (snd (attr_set a v r)) = policy_of r) field_attributes"
proof -
  have imm: "policy_of (snd (CURB_IMMED_SETTER put m v r)) = policy_of r" if "\<And>n r. policy_of (put n r) = policy_of r" for put m v r
    using that by (simp add: CURB_IMMED_SETTER_def split: sum.split)
  have flag: "policy_of (snd (CURB_BOOLEAN_SETTER put v r)) = policy_of r" if "\<And>n r. policy_of (put n r) = policy_of r" for put v r
    using that by (simp add: CURB_BOOLEAN_SETTER_def)
  have port: "policy_of (snd (CURB_IMMED_PORT_SETTER put m v r)) = policy_of r" if "\<And>n r. policy_of (put n r) = policy_of r" for put m v r
    using that by (simp add: CURB_IMMED_PORT_SETTER_def split: sum.split)
  have version: "policy_of (snd (ruby_curl_easy_http_version_set v r)) = policy_of r" for v r
    by (simp add: ruby_curl_easy_http_version_set_def split: sum.split)
  have mode: "policy_of (snd (ruby_curl_easy_resolve_mode_set v r)) = policy_of r" for v r
    by (cases v) (simp_all add: ruby_curl_easy_resolve_mode_set_def, simp_all add: policy_of_def rb_easy_get_def)
  show ?thesis
    unfolding number_attributes_def flag_attributes_def attribute_defs append.simps list.pred_inject attribute_fields
    by (intro conjI allI TrueI imm flag port version mode; simp add: policy_of_def rb_easy_get_def)
qed

lemma policy_attribute:
  assumes "a \<in> set easy_attributes"
  shows "policy_of (snd (attr_set a v r)) = policy_of r"
proof (cases "a \<in> set object_attributes")
  case True
  then show ?thesis
    using object_at(1) [OF True] object_names by (auto simp: list_all_iff)
next
  case False
  then have "a \<in> set field_attributes" using assms unfolding easy_attributes_def by (metis Un_iff set_append)
  then show ?thesis using policy_fields_attributes unfolding list_all_iff by blast
qed

lemma policy_config_step:
  assumes "policy_user u" and "config_step X u s t"
  shows "same_policy s t"
  using assms(2)
proof cases
  case (set_option opt v)
  then show ?thesis using keepsD [OF policy_set_opt [OF assms(1)]] by simp
next
  case (set_attribute a v)
  then show ?thesis using keepsD [OF policy_on_easy [OF policy_attribute]] by simp
next
  case (set_handler k v)
  have "keeps same_policy (on_easy (CURB_HANDLER_PROC_HSETTER k v))"
    using set_handler(2) by (intro policy_on_easy) (auto simp: CURB_HANDLER_PROC_HSETTER_def handler_keys_def)
  then show ?thesis using set_handler(1) keepsD by auto
next
  case (set_body env v)
  then show ?thesis
    using keepsD [OF policy_post_body [OF assms(1)]] by (simp add: ruby_curl_easy_post_body_set_def)
qed

lemma policy_config:
  assumes "policy_user u" and "(config_step X u)\<^sup>*\<^sup>* s t"
  shows "same_policy s t"
  using assms(2)
  by (induction rule: rtranclp_induct) (auto intro: policy.reflexive policy.transitive policy_config_step [OF assms(1)])

lemma compiled_rules_ok:
  assumes "pton_ok (s_pton4 E) (s_pton6 E)" and "cidr_rules_compiled E cidrs r"
  shows "cidr_rules_ok r"
proof -
  obtain rules where "map_res (cidr_value (s_pton4 E) (s_pton6 E)) (stored_array cidrs) = Inr rules"
    and r: "network_allowed_cidr_rule_count r = length rules"
      "network_allowed_cidr_rules r = (if rules = [] then None else Some rules)"
    using assms(2) by (auto simp: cidr_rules_compiled_def split: sum.splits)
  then have "list_all cidr_rule_ok rules" using map_res_list_all cidr_value_ok [OF assms(1)] by metis
  then show ?thesis using r by (simp add: cidr_rules_ok_def)
qed

section \<open>Options that setup takes back\<close>

definition same_speed :: "ruby_curl_easy \<Rightarrow> ruby_curl_easy \<Rightarrow> bool" where
  "same_speed s t \<longleftrightarrow> max_recv_speed_large t = max_recv_speed_large s \<and> max_send_speed_large t = max_send_speed_large s"

interpretation speed: option_relation same_speed
  by unfold_locales (auto simp: same_speed_def curl_easy_setopt_def)

lemma prepare_speed:
  "keeps same_speed curb_prepare_network_allowed_hosts"
  "keeps same_speed (curb_prepare_network_allowed_cidr_rules p4 p6)"
  "same_speed r (curb_clear_network_allowed_cidr_rules r)" "same_speed r (curb_clear_network_allowed_hosts r)"
  by (auto simp: keeps_def curb_prepare_network_allowed_hosts_def same_speed_def
      curb_prepare_network_allowed_cidr_rules_def Let_def curb_clear_network_allowed_cidr_rules_def
      curb_clear_network_allowed_hosts_def split: sum.splits)

lemma setup_parts_speed:
  "keeps same_speed (setup_url E)" "keeps same_speed (setup_allowed_hosts E)" "keeps same_speed (setup_network_policy E)"
  "keeps same_speed (setup_auth E)" "keeps same_speed (setup_proxy E)"
  "keeps same_speed (steps [setup_data_procs, setup_progress_debug E])" "keeps same_speed (setup_redirects E)"
  unfolding setup_url_def setup_location_def setup_dns_def setup_allowed_hosts_def
    setup_network_policy_def setup_auth_def setup_proxy_def setup_data_procs_def setup_progress_debug_def
    setup_redirects_def Let_def
  by (intro speed.intros speed.assign prepare_speed; simp add: same_speed_def rb_easy_set_def rb_easy_del_def)+

abbreviation speed_statements :: "(ruby_curl_easy, unit) cmd list" where
  "speed_statements \<equiv>
     [setopt_of ''CURLOPT_MAX_RECV_SPEED_LARGE'' (\<lambda>rbce. VLong (max_recv_speed_large rbce)),
      setopt_of ''CURLOPT_MAX_SEND_SPEED_LARGE'' (\<lambda>rbce. VLong (max_send_speed_large rbce))]"

lemma steps_append: "steps (xs @ ys) = bind (steps xs) (\<lambda>_. steps ys)"
  by (induction xs) (simp_all add: bind_ret bind_assoc)

lemma timeouts_split:
  obtains cs where "setup_timeouts E = steps (cs @ speed_statements)" and "list_all (keeps same_speed) cs"
proof -
  have "\<exists>l. setup_timeouts E = steps l \<and> l = butlast (butlast l) @ speed_statements \<and> list_all (keeps same_speed) l"
    by (rule exI, rule conjI, rule setup_timeouts_def [unfolded Let_def], rule conjI)
      (simp, simp only: list.pred_inject, intro conjI TrueI speed.intros)
  then show thesis using that by (metis list_all_append)
qed

lemma setup_timeouts_speed:
  assumes "setup_timeouts E s = (Inr (), t)"
  shows "curl_opt t ''CURLOPT_MAX_RECV_SPEED_LARGE'' = Some (VLong (max_recv_speed_large s))"
    and "curl_opt t ''CURLOPT_MAX_SEND_SPEED_LARGE'' = Some (VLong (max_send_speed_large s))"
proof -
  obtain cs where cs: "setup_timeouts E = steps (cs @ speed_statements)" "list_all (keeps same_speed) cs"
    by (rule timeouts_split)
  obtain a where a: "steps cs s = (Inr (), a)" "steps speed_statements a = (Inr (), t)"
    using assms unfolding cs(1) steps_append by (elim bind_InrE) simp
  have "keeps same_speed (steps cs)" using cs(2) by (intro speed.sequence) (simp add: list_all_iff)
  from keeps_run [OF this a(1)] have "same_speed s a" .
  then show "curl_opt t ''CURLOPT_MAX_RECV_SPEED_LARGE'' = Some (VLong (max_recv_speed_large s))"
    "curl_opt t ''CURLOPT_MAX_SEND_SPEED_LARGE'' = Some (VLong (max_send_speed_large s))"
    using a(2) by (auto simp: step_defs same_speed_def curl_opt_setopt) (simp_all add: curl_easy_setopt_def curl_opt_def)
qed

lemma setup_speed:
  assumes "ruby_curl_easy_setup E r = (Inr (), t)"
  shows "curl_opt t ''CURLOPT_MAX_RECV_SPEED_LARGE'' = Some (VLong (max_recv_speed_large r))"
    and "curl_opt t ''CURLOPT_MAX_SEND_SPEED_LARGE'' = Some (VLong (max_send_speed_large r))"
proof -
  let ?r = "ruby_curl_easy_enter_native r"
  obtain u where u: "ruby_curl_easy_setup_body E ?r = (Inr (), u)" and t: "t = ruby_curl_easy_leave_native u"
    using setup_InrD [OF assms] .
  obtain a h p w x g0 g f d where s: "setup_url E (snd (setup_reset ?r)) = (Inr (), a)"
    "setup_allowed_hosts E a = (Inr (), h)" "setup_network_policy E h = (Inr (), p)"
    "setup_auth E p = (Inr (), w)" "setup_proxy E w = (Inr (), x)"
    "steps [setup_data_procs, setup_progress_debug E] x = (Inr (), g0)" "setup_general E g0 = (Inr (), g)"
    "steps [setup_ports E, setup_cookies, setup_ssl E] g = (Inr (), f)"
    "setup_http_headers E (ruby_curl_easy_clear_setup_lists (s_env E) f) = (Inr (), d)"
    "setup_other_lists E d = (Inr (), u)"
    using setup_body_states [OF u] .
  obtain b where b: "setup_redirects E g0 = (Inr (), b)" "setup_timeouts E b = (Inr (), g)"
    using s(7) by (auto simp: setup_general_def ret_def elim!: bind_InrE)
  have "same_speed ?r (snd (setup_reset ?r))" by (simp add: setup_reset_def cmd_defs same_speed_def)
  then have "same_speed ?r b"
    using keeps_run [OF setup_parts_speed(1) s(1)] keeps_run [OF setup_parts_speed(2) s(2)]
      keeps_run [OF setup_parts_speed(3) s(3)] keeps_run [OF setup_parts_speed(4) s(4)]
      keeps_run [OF setup_parts_speed(5) s(5)] keeps_run [OF setup_parts_speed(6) s(6)]
      keeps_run [OF setup_parts_speed(7) b(1)] by (simp add: same_speed_def)
  then have "max_recv_speed_large b = max_recv_speed_large r" "max_send_speed_large b = max_send_speed_large r"
    by (simp_all add: same_speed_def ruby_curl_easy_enter_native_def)
  moreover have "setup_frame (port_options \<union> file_options) g f" "setup_frame (header_options \<union> list_options) f u"
    using setup_frames_end [OF s(8-10)] .
  ultimately show "curl_opt t ''CURLOPT_MAX_RECV_SPEED_LARGE'' = Some (VLong (max_recv_speed_large r))"
    "curl_opt t ''CURLOPT_MAX_SEND_SPEED_LARGE'' = Some (VLong (max_send_speed_large r))"
    using setup_timeouts_speed [OF b(2)] by (simp_all add: t native_same frame_opt option_sets)
qed

lemma select_case_speed:
  assumes "option_name X n = Some ''CURLOPT_MAX_RECV_SPEED_LARGE''"
    and "have_macro (s_env (oe_setup X)) ''HAVE_CURLOPT_MAX_RECV_SPEED_LARGE''"
  shows "select_case X u n = Some (opt_case_if ''HAVE_CURLOPT_MAX_RECV_SPEED_LARGE'' ''CURLOPT_MAX_RECV_SPEED_LARGE''
      (opt_long ''CURLOPT_MAX_RECV_SPEED_LARGE''))"
  using assms
  by (simp add: select_case_def opt_cases_def request_cases_def ftp_cases_def limit_cases_def compiled_in_def
      opt_case_def opt_case_if_def)

text \<open>
  C24: A transfer rate limit given to \<open>setopt\<close> is lost. \<open>setopt\<close> hands it to libcurl and returns, but keeps no
  copy on the handle, and every setup that returns gives libcurl the value of the attribute instead,
  which is no limit unless the attribute was set as well.
\<close>

theorem rate_limit_of_setopt_is_lost:
  assumes "option_name X n = Some ''CURLOPT_MAX_RECV_SPEED_LARGE''" and "NUM2LONG (RInt n) = Inr n"
    and "have_macro (s_env (oe_setup X)) ''HAVE_CURLOPT_MAX_RECV_SPEED_LARGE''" and "NUM2LONG (RInt limit) = Inr limit"
  shows "\<exists>t'. ruby_curl_easy_set_opt X u (RInt n) (RInt limit) t = (Inr (RInt limit), t') \<and>
     curl_opt (xfer_easy t') ''CURLOPT_MAX_RECV_SPEED_LARGE'' = Some (VLong limit) \<and>
     (\<forall>r. ruby_curl_easy_setup E (xfer_easy t') = (Inr (), r) \<longrightarrow>
        curl_opt r ''CURLOPT_MAX_RECV_SPEED_LARGE'' = Some (VLong (max_recv_speed_large (xfer_easy t))))"
proof -
  let ?t = "t\<lparr>xfer_easy := curl_easy_setopt ''CURLOPT_MAX_RECV_SPEED_LARGE'' (VLong limit) (xfer_easy t)\<rparr>"
  have "ruby_curl_easy_set_opt X u (RInt n) (RInt limit) t = (Inr (RInt limit), ?t)"
    using assms(2,4)
    by (simp add: ruby_curl_easy_set_opt_def bind_def lift_res_def select_case_speed [OF assms(1,3)] opt_case_if_def
        opt_long_def on_easy_simps ret_def)
  moreover have "max_recv_speed_large (xfer_easy ?t) = max_recv_speed_large (xfer_easy t)"
    by (simp add: curl_easy_setopt_def)
  ultimately show ?thesis using setup_speed(1) by (fastforce simp: curl_opt_setopt)
qed

text \<open>Three options with their numbers in \<open>curl.h\<close>.\<close>

definition sample_options :: opt_env where
  "sample_options = \<lparr>oe_setup = sample_setup,
     option_name = (\<lambda>n. map_of [(30146, ''CURLOPT_MAX_RECV_SPEED_LARGE''), (10211, ''CURLOPT_DNS_SERVERS''),
        (10002, ''CURLOPT_URL'')] n),
     stdio_file = (\<lambda>_. type_error)\<rparr>"

definition sample_limited :: transfer where
  "sample_limited = sample_request\<lparr>xfer_easy := curl_easy_setopt ''CURLOPT_MAX_RECV_SPEED_LARGE'' (VLong 1000) sample_easy\<rparr>"

lemma sample_limit:
  "ruby_curl_easy_set_opt sample_options u (RInt 30146) (RInt 1000) sample_request = (Inr (RInt 1000), sample_limited)"
  by (simp add: ruby_curl_easy_set_opt_def bind_def lift_res_def select_case_speed opt_case_if_def opt_long_def
      on_easy_simps ret_def NUM2SIGNED_def sample_options_def sample_setup_def sample_request_def sample_limited_def)

lemma sample_limited_returns: "\<exists>r. ruby_curl_easy_setup sample_setup (xfer_easy sample_limited) = (Inr (), r)"
proof -
  have "setup_frame UNIV sample_easy (xfer_easy sample_limited)"
    by (simp add: sample_limited_def setup_frame_def curl_easy_setopt_def rb_easy_get_def)
  then show ?thesis using setup_ready_frame sample_ready setup_ready_returns by blast
qed

theorem rate_limit_of_setopt_is_lost_witness:
  "\<exists>t' r. ruby_curl_easy_set_opt sample_options (sample_user []) (RInt 30146) (RInt 1000) sample_request = (Inr (RInt 1000), t') \<and>
     ruby_curl_easy_setup sample_setup (xfer_easy t') = (Inr (), r) \<and>
     curl_opt r ''CURLOPT_MAX_RECV_SPEED_LARGE'' = Some (VLong 0)"
proof -
  let ?o = "''CURLOPT_MAX_RECV_SPEED_LARGE''"
  have "\<exists>t'. ruby_curl_easy_set_opt sample_options (sample_user []) (RInt 30146) (RInt 1000) sample_request = (Inr (RInt 1000), t') \<and>
     curl_opt (xfer_easy t') ?o = Some (VLong 1000) \<and>
     (\<forall>r. ruby_curl_easy_setup sample_setup (xfer_easy t') = (Inr (), r) \<longrightarrow>
        curl_opt r ?o = Some (VLong (max_recv_speed_large (xfer_easy sample_request))))"
    by (rule rate_limit_of_setopt_is_lost)
      (simp_all add: sample_options_def sample_setup_def NUM2SIGNED_def)
  moreover have "max_recv_speed_large (xfer_easy sample_request) = 0"
    by (simp add: sample_request_def sample_easy_def ruby_curl_easy_allocate_def ruby_curl_easy_zero_def
        zero_flags_def zero_opts_def)
  ultimately show ?thesis using sample_limited_returns by (auto simp: sample_limit)
qed

lemma setup_dns_servers:
  assumes "ruby_curl_easy_setup E r = (Inr (), t)" and "have_macro (s_env E) ''HAVE_CURLOPT_DNS_SERVERS''"
    and "rb_easy_get ''dns_servers'' r = RStr s"
  shows "curl_opt t ''CURLOPT_DNS_SERVERS'' = Some (VStr (c_string s))"
proof -
  let ?r = "ruby_curl_easy_enter_native r"
  obtain u where u: "ruby_curl_easy_setup_body E ?r = (Inr (), u)" and t: "t = ruby_curl_easy_leave_native u"
    using setup_InrD [OF assms(1)] .
  obtain a h p w x g0 g f where s: "setup_url E (snd (setup_reset ?r)) = (Inr (), a)"
    "setup_frame host_options a h" "setup_frame policy_options h p" "setup_frame auth_options p w"
    "setup_frame proxy_options w x" "setup_frame callback_options x g0"
    "setup_frame general_options g0 g" "setup_frame (port_options \<union> file_options) g f"
    "setup_frame (header_options \<union> list_options) f u"
    using setup_frames [OF u] by metis
  obtain b where b: "setup_location E (snd (setup_reset ?r)) = (Inr (), b)" "setup_dns E b = (Inr (), a)"
    using s(1) by (auto simp: setup_url_def ret_def elim!: bind_InrE)
  have "setup_frame url_options (snd (setup_reset ?r)) b" by (rule keeps_run [OF setup_location_frame b(1)])
  moreover have "setup_frame {} ?r (snd (setup_reset ?r))" by (rule keepsD [OF setup_reset_frame(1)])
  ultimately have "rb_easy_get ''dns_servers'' b = RStr s"
    using assms(3) by (simp add: frame_fields native_same)
  then have "curl_opt a ''CURLOPT_DNS_SERVERS'' = Some (VStr (c_string s))"
    using b(2) assms(2)
    by (auto simp: setup_dns_def step_defs setopt_str_or_null_def setopt_str_def rb_easy_nil_def rb_easy_get_str_def
        StringValue_def curl_opt_setopt split: if_splits)
  then show ?thesis
    by (simp add: t native_same frame_opt [OF s(9)] frame_opt [OF s(8)] frame_opt [OF s(7)] frame_opt [OF s(6)]
        frame_opt [OF s(5)] frame_opt [OF s(4)] frame_opt [OF s(3)] frame_opt [OF s(2)] option_sets)
qed

lemma select_case_dns:
  assumes "option_name X n = Some ''CURLOPT_DNS_SERVERS''"
    and "have_macro (s_env (oe_setup X)) ''HAVE_CURLOPT_DNS_SERVERS''"
  shows "select_case X u n = Some (opt_case_if ''HAVE_CURLOPT_DNS_SERVERS'' ''CURLOPT_DNS_SERVERS''
      (opt_store_string ''dns_servers'' ''CURLOPT_DNS_SERVERS''))"
  using assms
  by (simp add: select_case_def opt_cases_def request_cases_def ftp_cases_def limit_cases_def compiled_in_def
      opt_case_def opt_case_if_def)

text \<open>
  An option value that \<open>setopt\<close> refuses is used all the same. The list of DNS servers is stored on the
  handle before it is checked, so that a string with a NUL byte raises an \<open>ArgumentError\<close> and stays;
  every later setup that returns gives libcurl its part before the NUL.
\<close>

theorem refused_option_value_is_used:
  assumes "option_name X n = Some ''CURLOPT_DNS_SERVERS''" and "NUM2LONG (RInt n) = Inr n"
    and "have_macro (s_env (oe_setup X)) ''HAVE_CURLOPT_DNS_SERVERS''" and "CHR 0x00 \<in> set s"
  shows "\<exists>t'. ruby_curl_easy_set_opt X u (RInt n) (RStr s) t =
       (Inl (Exc ''rb_eArgError'' ''string contains null byte''), t') \<and>
     rb_easy_get ''dns_servers'' (xfer_easy t') = RStr s \<and>
     curl_opt (xfer_easy t') ''CURLOPT_DNS_SERVERS'' = curl_opt (xfer_easy t) ''CURLOPT_DNS_SERVERS'' \<and>
     (\<forall>r. ruby_curl_easy_setup (oe_setup X) (xfer_easy t') = (Inr (), r) \<longrightarrow>
        curl_opt r ''CURLOPT_DNS_SERVERS'' = Some (VStr (c_string s)))"
proof -
  let ?t = "t\<lparr>xfer_easy := rb_easy_set ''dns_servers'' (RStr s) (xfer_easy t)\<rparr>"
  have "ruby_curl_easy_set_opt X u (RInt n) (RStr s) t = (Inl (Exc ''rb_eArgError'' ''string contains null byte''), ?t)"
    using assms(2,4)
    by (simp add: ruby_curl_easy_set_opt_def bind_def lift_res_def select_case_dns [OF assms(1,3)] opt_case_if_def
        opt_store_string_def opt_store_def opt_string_or_null_def opt_string_def StringValueCStr_def modify_def)
  moreover have "rb_easy_get ''dns_servers'' (xfer_easy ?t) = RStr s" by (simp add: rb_easy_get_set)
  moreover have "curl_opt (xfer_easy ?t) ''CURLOPT_DNS_SERVERS'' = curl_opt (xfer_easy t) ''CURLOPT_DNS_SERVERS''"
    by (simp add: curl_opt_def rb_easy_set_def)
  ultimately show ?thesis using setup_dns_servers [OF _ assms(3)] by blast
qed

theorem refused_option_value_is_used_witness:
  "\<exists>t'. ruby_curl_easy_set_opt sample_options (sample_user []) (RInt 10211) (RStr (''10.0.0.1'' @ [CHR 0x00] @ ''x'')) sample_request =
       (Inl (Exc ''rb_eArgError'' ''string contains null byte''), t') \<and>
     rb_easy_get ''dns_servers'' (xfer_easy t') = RStr (''10.0.0.1'' @ [CHR 0x00] @ ''x'')"
proof -
  have "option_name sample_options 10211 = Some ''CURLOPT_DNS_SERVERS''" "NUM2LONG (RInt 10211) = Inr 10211"
    "have_macro (s_env (oe_setup sample_options)) ''HAVE_CURLOPT_DNS_SERVERS''"
    by (simp_all add: sample_options_def sample_setup_def NUM2SIGNED_def)
  moreover have "CHR 0x00 \<in> set (''10.0.0.1'' @ [CHR 0x00] @ ''x'')" by simp
  ultimately show ?thesis using refused_option_value_is_used by blast
qed

end
