(* ===== verification/Curb_Socket.thy ===== *)
theory Curb_Socket
  imports Curb_Multi_Perform "HOL-Library.Signed_Division"
begin

text \<open>
  The socket-action loop of \<open>ext/curb_multi.c\<close>, which \<open>perform\<close> uses under a fiber scheduler: libcurl
  reports the descriptors it waits for and its timer through two callbacks, and the loop waits for
  them, tells libcurl what happened and handles the completed transfers.

  The context of the callbacks (\<open>multi_socket_ctx\<close>) is a local variable of the C function whose address
  libcurl holds, so every call of libcurl, and user code that calls it, may change it: it lives in the
  part of the state that libcurl's calls change, one for each multi handle. The descriptor sets of
  \<open>select\<close> are lists. The debug output, which is not compiled, is left out.
\<close>

unbundle bit_operations_syntax

section \<open>The context\<close>

text \<open>The table from descriptors to \<open>CURL_POLL_*\<close>, the deadline of libcurl's timer, and the hash from
  descriptors to the IO objects made for them; \<open>None\<close> is \<open>NULL\<close> and \<open>Qnil\<close>.\<close>

record multi_socket_ctx =
  sock_map :: "(int, int) st_table option"
  timeout_deadline_ms :: int
  io_cache :: "(int, rvalue) st_table option"

text \<open>libcurl's own state, the contexts, and whether the multi object has the instance variable that
  keeps the hash alive.\<close>

record 'k socket_state =
  native :: 'k
  ctxs :: "nat \<Rightarrow> multi_socket_ctx"
  io_cache_ivar :: "nat \<Rightarrow> bool"

type_synonym 'k sworld = "'k socket_state world"
type_synonym ('k, 'a) scmd = "('k sworld, 'a) cmd"

text \<open>What the loop calls beyond \<open>multi_env\<close>: the clocks (seconds with nanoseconds, seconds with
  microseconds), \<open>fcntl(fd, F_GETFD)\<close> with \<open>errno\<close>, \<open>curl_multi_socket_action\<close> with its result
  and the running count, the hooks of the scheduler (\<open>None\<close> is \<open>Qundef\<close>), and the waits of Ruby with
  their result and \<open>errno\<close>; \<open>select\<close> also gives the sets it leaves.\<close>

record 'k socket_env =
  se_multi :: "'k socket_state multi_env"
  clock_gettime :: "'k \<Rightarrow> (int \<times> int) option \<times> 'k"
  gettimeofday :: "'k \<Rightarrow> (int \<times> int) \<times> 'k"
  fcntl_getfd :: "int \<Rightarrow> 'k \<Rightarrow> (int \<times> int) \<times> 'k"
  curl_multi_socket_action :: "nat option \<Rightarrow> int \<Rightarrow> int \<Rightarrow> 'k sworld \<Rightarrow> (int \<times> int) \<times> 'k sworld"
  cRubyIO :: rvalue
  rb_fiber_scheduler_io_select :: "rvalue \<Rightarrow> rvalue list \<Rightarrow> rvalue list \<Rightarrow> rvalue list \<Rightarrow> rvalue \<Rightarrow> ('k, rvalue option) scmd"
  rb_fiber_scheduler_io_wait :: "rvalue \<Rightarrow> rvalue \<Rightarrow> rvalue \<Rightarrow> rvalue \<Rightarrow> ('k, rvalue) scmd"
  rb_wait_for_single_fd :: "int \<Rightarrow> int \<Rightarrow> int \<times> int \<Rightarrow> ('k, int \<times> int) scmd"
  rb_select_fds :: "int \<Rightarrow> int list \<times> int list \<times> int list \<Rightarrow> int \<times> int \<Rightarrow>
     ('k, (int \<times> int) \<times> int list \<times> int list \<times> int list) scmd"

abbreviation se_env :: "'k socket_env \<Rightarrow> curl_env" where
  "se_env S \<equiv> me_env (se_multi S)"

definition ctx_of :: "nat \<Rightarrow> 'k sworld \<Rightarrow> multi_socket_ctx" where
  "ctx_of m w = ctxs (lib w) m"

definition upd_ctx :: "nat \<Rightarrow> (multi_socket_ctx \<Rightarrow> multi_socket_ctx) \<Rightarrow> 'k sworld \<Rightarrow> 'k sworld" where
  "upd_ctx m f w = w\<lparr>lib := (lib w)\<lparr>ctxs := (ctxs (lib w))(m := f (ctxs (lib w) m))\<rparr>\<rparr>"

definition on_native :: "('k \<Rightarrow> 'a \<times> 'k) \<Rightarrow> ('k, 'a) scmd" where
  "on_native f w = (case f (native (lib w)) of (a, k) \<Rightarrow> (Inr a, w\<lparr>lib := (lib w)\<lparr>native := k\<rparr>\<rparr>))"

section \<open>Time\<close>

definition multi_socket_current_time_ms :: "'k socket_env \<Rightarrow> ('k, int) scmd" where
  "multi_socket_current_time_ms S =
     bind (if have_macro (se_env S) ''CLOCK_MONOTONIC'' then on_native (clock_gettime S) else ret None)
       (\<lambda>ts. case ts of
          Some (sec, nsec) \<Rightarrow> ret (sec * 1000 + nsec sdiv 1000000)
        | None \<Rightarrow> bind (on_native (gettimeofday S)) (\<lambda>(sec, usec). ret (sec * 1000 + usec sdiv 1000)))"

definition multi_socket_timer_due :: "'k socket_env \<Rightarrow> nat \<Rightarrow> ('k, bool) scmd" where
  "multi_socket_timer_due S m w =
     (if 0 \<le> timeout_deadline_ms (ctx_of m w)
      then bind (multi_socket_current_time_ms S) (\<lambda>now.
        ret (timeout_deadline_ms (ctx_of m w) \<le> now)) w
      else (Inr False, w))"

section \<open>Events\<close>

definition CURL_POLL_IN :: int where "CURL_POLL_IN = 1"
definition CURL_POLL_OUT :: int where "CURL_POLL_OUT = 2"
definition CURL_POLL_INOUT :: int where "CURL_POLL_INOUT = 3"
definition CURL_POLL_REMOVE :: int where "CURL_POLL_REMOVE = 4"
definition CURL_CSELECT_IN :: int where "CURL_CSELECT_IN = 1"
definition CURL_CSELECT_OUT :: int where "CURL_CSELECT_OUT = 2"
definition CURL_CSELECT_ERR :: int where "CURL_CSELECT_ERR = 4"
definition RB_WAITFD_IN :: int where "RB_WAITFD_IN = 1"
definition RB_WAITFD_PRI :: int where "RB_WAITFD_PRI = 2"
definition RB_WAITFD_OUT :: int where "RB_WAITFD_OUT = 4"
definition CURL_SOCKET_TIMEOUT :: int where "CURL_SOCKET_TIMEOUT = -1"

lemmas socket_constants = CURL_POLL_IN_def CURL_POLL_OUT_def CURL_POLL_INOUT_def CURL_POLL_REMOVE_def
  CURL_CSELECT_IN_def CURL_CSELECT_OUT_def CURL_CSELECT_ERR_def RB_WAITFD_IN_def RB_WAITFD_PRI_def
  RB_WAITFD_OUT_def CURL_SOCKET_TIMEOUT_def

definition multi_socket_wait_events_for_curl_poll :: "int \<Rightarrow> int" where
  "multi_socket_wait_events_for_curl_poll what =
     (if what = CURL_POLL_IN then RB_WAITFD_IN
      else if what = CURL_POLL_OUT then RB_WAITFD_OUT
      else if what = CURL_POLL_INOUT then RB_WAITFD_IN OR RB_WAITFD_OUT
      else RB_WAITFD_IN OR RB_WAITFD_OUT)"

definition multi_socket_cselect_flags_for_curl_poll :: "int \<Rightarrow> int" where
  "multi_socket_cselect_flags_for_curl_poll what =
     (let flags = (if what = CURL_POLL_IN \<or> what = CURL_POLL_INOUT then CURL_CSELECT_IN else 0) OR
                  (if what = CURL_POLL_OUT \<or> what = CURL_POLL_INOUT then CURL_CSELECT_OUT else 0)
      in if flags = 0 then CURL_CSELECT_IN OR CURL_CSELECT_OUT else flags)"

definition multi_socket_cselect_flags_for_wait_events :: "int \<Rightarrow> int" where
  "multi_socket_cselect_flags_for_wait_events events =
     (if events AND RB_WAITFD_IN \<noteq> 0 then CURL_CSELECT_IN else 0) OR
     (if events AND RB_WAITFD_OUT \<noteq> 0 then CURL_CSELECT_OUT else 0) OR
     (if events AND RB_WAITFD_PRI \<noteq> 0 then CURL_CSELECT_ERR else 0)"

text \<open>The flags of a descriptor found in three sets, as the collectors build them.\<close>

definition ready_flags_in :: "bool \<Rightarrow> bool \<Rightarrow> bool \<Rightarrow> int" where
  "ready_flags_in r w e =
     (if r then CURL_CSELECT_IN else 0) OR (if w then CURL_CSELECT_OUT else 0) OR
     (if e then CURL_CSELECT_ERR else 0)"

section \<open>The callbacks\<close>

definition multi_socket_forget_fd :: "int \<Rightarrow> multi_socket_ctx \<Rightarrow> multi_socket_ctx" where
  "multi_socket_forget_fd fd c =
     c\<lparr>sock_map := (case sock_map c of None \<Rightarrow> None | Some t \<Rightarrow> Some (st_delete t fd)),
       io_cache := (case io_cache c of None \<Rightarrow> None | Some h \<Rightarrow> Some (st_delete h fd))\<rparr>"

definition multi_socket_cb :: "int \<Rightarrow> int \<Rightarrow> multi_socket_ctx \<Rightarrow> multi_socket_ctx" where
  "multi_socket_cb fd what c =
     (case sock_map c of
        None \<Rightarrow> c
      | Some t \<Rightarrow>
          if fd < 0 then c
          else if what = CURL_POLL_REMOVE then multi_socket_forget_fd fd c
          else
            (case st_lookup t fd of
               Some old_what \<Rightarrow> if old_what \<noteq> what
                 then c\<lparr>io_cache := (case io_cache c of None \<Rightarrow> None | Some h \<Rightarrow> Some (st_delete h fd))\<rparr>
                 else c
             | None \<Rightarrow> c)\<lparr>sock_map := Some (st_insert t fd what)\<rparr>)"

text \<open>\<open>now\<close> is what \<open>multi_socket_current_time_ms\<close> gives when libcurl calls back.\<close>

definition multi_timer_cb :: "int \<Rightarrow> int \<Rightarrow> multi_socket_ctx \<Rightarrow> multi_socket_ctx" where
  "multi_timer_cb ms now c =
     c\<lparr>timeout_deadline_ms := (if ms < 0 then -1 else now + ms)\<rparr>"

section \<open>Descriptors and IO objects\<close>

text \<open>\<open>EBADF\<close> is 9.\<close>

definition multi_socket_fd_valid_p :: "'k socket_env \<Rightarrow> int \<Rightarrow> ('k, bool) scmd" where
  "multi_socket_fd_valid_p S fd =
     (if fd < 0 then ret False
      else bind (on_native (fcntl_getfd S fd)) (\<lambda>(rc, errno). ret (rc \<noteq> -1 \<or> errno \<noteq> 9)))"

definition multi_socket_io_mode_for_curl_poll :: "int \<Rightarrow> string" where
  "multi_socket_io_mode_for_curl_poll what =
     (if what = CURL_POLL_IN then ''r'' else if what = CURL_POLL_OUT then ''w'' else ''r+'')"

definition cached_io :: "nat \<Rightarrow> int \<Rightarrow> 'k sworld \<Rightarrow> rvalue" where
  "cached_io m fd w =
     (case io_cache (ctx_of m w) of
        None \<Rightarrow> Qnil
      | Some h \<Rightarrow> (case st_lookup h fd of None \<Rightarrow> Qnil | Some io \<Rightarrow> io))"

text \<open>\<open>IO.for_fd\<close> without closing the descriptor when the object is collected. An exception of
  \<open>rb_protect\<close> is raised again by the callers, so the protected variant is this one.\<close>

definition multi_socket_io_for_fd :: "'k socket_env \<Rightarrow> nat \<Rightarrow> int \<Rightarrow> int \<Rightarrow> ('k, rvalue) scmd" where
  "multi_socket_io_for_fd S m fd what w =
     (let io = cached_io m fd w
      in if io \<noteq> Qnil then (Inr io, w)
         else bind (rb_send (se_multi S) (cRubyIO S) ''for_fd''
                     [RInt fd, RStr (multi_socket_io_mode_for_curl_poll what)]) (\<lambda>io.
              bind (rb_send (se_multi S) io ''autoclose='' [Qfalse]) (\<lambda>_.
              bind (modify (upd_ctx m (\<lambda>c. c\<lparr>io_cache := (case io_cache c of None \<Rightarrow> None
                      | Some h \<Rightarrow> Some (st_insert h fd io))\<rparr>))) (\<lambda>_. ret io))) w)"

text \<open>The descriptor sets of \<open>select\<close> from the table, and the largest descriptor.\<close>

definition rb_fdset_from_sockmap :: "(int, int) st_table option \<Rightarrow> int list \<times> int list \<times> int list \<times> int" where
  "rb_fdset_from_sockmap map_opt =
     (case map_opt of
        None \<Rightarrow> ([], [], [], -1)
      | Some t \<Rightarrow>
          (concat (map (\<lambda>(fd, what). if what AND CURL_POLL_IN \<noteq> 0 then [fd] else []) t),
           concat (map (\<lambda>(fd, what). if what AND CURL_POLL_OUT \<noteq> 0 then [fd] else []) t),
           map fst t,
           foldl (\<lambda>maxfd (fd, what). if fd > maxfd then fd else maxfd) (-1) t))"

text \<open>Both collectors walk the table, keeping at most \<open>capacity\<close> descriptors that are ready.\<close>

fun collect_ready :: "(int \<Rightarrow> int) \<Rightarrow> nat \<Rightarrow> (int, int) st_table \<Rightarrow> (int \<times> int) list \<Rightarrow> (int \<times> int) list" where
  "collect_ready flags_of capacity [] fds = fds"
| "collect_ready flags_of capacity ((fd, what) # t) fds =
     (let flags = flags_of fd
      in collect_ready flags_of capacity t
           (if flags \<noteq> 0 \<and> length fds < capacity then fds @ [(fd, flags)] else fds))"

definition collect_ready_fd_i :: "int list \<times> int list \<times> int list \<Rightarrow> int \<Rightarrow> int" where
  "collect_ready_fd_i sets fd =
     (case sets of (r, w, e) \<Rightarrow> ready_flags_in (fd \<in> set r) (fd \<in> set w) (fd \<in> set e))"

definition collect_io_select_ready_i ::
  "nat \<Rightarrow> rvalue list \<times> rvalue list \<times> rvalue list \<Rightarrow> 'k sworld \<Rightarrow> int \<Rightarrow> int" where
  "collect_io_select_ready_i m sets v fd =
     (case sets of (r, w, e) \<Rightarrow>
        let io = cached_io m fd v
        in if io = Qnil then 0 else ready_flags_in (io \<in> set r) (io \<in> set w) (io \<in> set e))"

definition tracked :: "nat \<Rightarrow> 'k sworld \<Rightarrow> (int, int) st_table" where
  "tracked m w = (case sock_map (ctx_of m w) of None \<Rightarrow> [] | Some t \<Rightarrow> t)"

text \<open>\<open>build_io_select_arrays_i\<close> over the table: \<open>None\<close> is \<open>failed\<close> without an exception.\<close>

fun build_io_select_arrays :: "'k socket_env \<Rightarrow> nat \<Rightarrow> (int, int) st_table \<Rightarrow> rvalue list \<times> rvalue list \<times> rvalue list \<Rightarrow>
    ('k, (rvalue list \<times> rvalue list \<times> rvalue list) option) scmd" where
  "build_io_select_arrays S m [] (r, w, e) = ret (Some (r, w, e))"
| "build_io_select_arrays S m ((fd, what) # t) (r, w, e) =
     bind (multi_socket_fd_valid_p S fd) (\<lambda>valid.
       if \<not> valid then ret None
       else bind (multi_socket_io_for_fd S m fd what) (\<lambda>io.
         if io = Qnil then ret None
         else build_io_select_arrays S m t
           (if what = CURL_POLL_IN \<or> what = CURL_POLL_INOUT then r @ [io] else r,
            if what = CURL_POLL_OUT \<or> what = CURL_POLL_INOUT then w @ [io] else w,
            e @ [io])))"

section \<open>Telling libcurl\<close>

definition socket_action :: "'k socket_env \<Rightarrow> nat \<Rightarrow> int \<Rightarrow> int \<Rightarrow> ('k, unit) scmd" where
  "socket_action S m fd flags w =
     (case curl_multi_socket_action S (handle (rbcm_of m w)) fd flags w of ((mrc, k), v) \<Rightarrow>
        (if mrc \<noteq> 0 then raise_multi (se_multi S) mrc else ret ())
          (upd_rbcm m (\<lambda>c. c\<lparr>running := k\<rparr>) v))"

text \<open>The timer: the deadline is cleared first, so that libcurl can set a new one.\<close>

definition socket_timeout :: "'k socket_env \<Rightarrow> nat \<Rightarrow> ('k, unit) scmd" where
  "socket_timeout S m =
     bind (modify (upd_ctx m (\<lambda>c. c\<lparr>timeout_deadline_ms := -1\<rparr>))) (\<lambda>_.
       socket_action S m CURL_SOCKET_TIMEOUT 0)"

definition socket_actions :: "'k socket_env \<Rightarrow> nat \<Rightarrow> (int \<times> int) list \<Rightarrow> ('k, unit) scmd" where
  "socket_actions S m fds = steps (map (\<lambda>(fd, flags). socket_action S m fd flags) fds)"

section \<open>Waiting\<close>

text \<open>What a wait says: it was interrupted (the C code continues the loop), or \<open>did_timeout\<close>,
  \<open>any_ready\<close> and \<open>ready_flags\<close>.\<close>

datatype wait_outcome = Interrupted | Waited (did_timeout: bool) (any_ready: bool) (ready_flags: int)

text \<open>The milliseconds to wait: the default timeout, and no longer than until the deadline; and \<open>tv\<close>,
  with the truncating division of C.\<close>

definition socket_wait_ms :: "'k socket_env \<Rightarrow> nat \<Rightarrow> int \<Rightarrow> ('k, int) scmd" where
  "socket_wait_ms S m wait_ms w =
     (if 0 \<le> timeout_deadline_ms (ctx_of m w)
      then bind (multi_socket_current_time_ms S) (\<lambda>now.
        let remaining_ms = timeout_deadline_ms (ctx_of m w) - now
        in ret (if remaining_ms < wait_ms then (if remaining_ms < 0 then 0 else remaining_ms) else wait_ms)) w
      else (Inr wait_ms, w))"

definition wait_timeval :: "int \<Rightarrow> int \<times> int" where
  "wait_timeval wait_ms = (wait_ms sdiv 1000, (wait_ms smod 1000) * 1000)"

definition wait_seconds :: "'k socket_env \<Rightarrow> int \<times> int \<Rightarrow> rvalue" where
  "wait_seconds S tv = rb_float_new (se_multi S) (fst tv) (snd tv)"

definition curb_fiber_scheduler_io_wait ::
  "'k socket_env \<Rightarrow> rvalue \<Rightarrow> rvalue \<Rightarrow> rvalue \<Rightarrow> rvalue \<Rightarrow> ('k, rvalue) scmd" where
  "curb_fiber_scheduler_io_wait S sch io events t =
     (if have_macro (se_env S) ''HAVE_RB_FIBER_SCHEDULER_IO_WAIT''
      then rb_fiber_scheduler_io_wait S sch io events t
      else rb_send (se_multi S) sch ''io_wait'' [io, events, t])"

definition timed_out :: "'k socket_env \<Rightarrow> nat \<Rightarrow> ('k, wait_outcome) scmd" where
  "timed_out S m = bind (multi_socket_timer_due S m) (\<lambda>due. ret (Waited due False 0))"

text \<open>A failed wait: \<open>EINTR\<close> is 4.\<close>

definition wait_failed :: "'k socket_env \<Rightarrow> string \<Rightarrow> int \<Rightarrow> ('k, wait_outcome) scmd" where
  "wait_failed S name errno =
     (if errno \<noteq> 4 then rb_raise ''rb_eRuntimeError'' (name @ ''(): '' @ strerror (se_multi S) errno)
      else ret Interrupted)"

definition entry_list :: "rvalue list \<Rightarrow> nat \<Rightarrow> rvalue list" where
  "entry_list vs i = (case (if i < length vs then vs ! i else Qnil) of RArr xs \<Rightarrow> xs | _ \<Rightarrow> [])"

subsection \<open>Several descriptors\<close>

text \<open>The scheduler's \<open>io_select\<close>; \<open>None\<close> where it did not handle the wait. \<open>count\<close> is the number
  of descriptors counted before the wait.\<close>

definition wait_io_select :: "'k socket_env \<Rightarrow> nat \<Rightarrow> nat \<Rightarrow> int \<times> int \<Rightarrow> ('k, wait_outcome option) scmd" where
  "wait_io_select S m count tv =
     (if have_macro (se_env S) ''HAVE_RB_FIBER_SCHEDULER_IO_SELECT'' \<and>
         have_macro (se_env S) ''HAVE_RB_FIBER_SCHEDULER_CURRENT'' then
        bind (curb_fiber_scheduler_current (se_multi S)) (\<lambda>sch.
        if sch = Qnil then ret None
        else bind (\<lambda>w. build_io_select_arrays S m (tracked m w) ([], [], []) w) (\<lambda>arrays.
          case arrays of
            None \<Rightarrow> ret None
          | Some (r, wr, e) \<Rightarrow>
              bind (rb_fiber_scheduler_io_select S sch r wr e (wait_seconds S tv)) (\<lambda>ready.
              case ready of
                None \<Rightarrow> ret None
              | Some (RArr vs) \<Rightarrow>
                  bind (gets (\<lambda>w. collect_ready (collect_io_select_ready_i m
                    (entry_list vs 0, entry_list vs 1, entry_list vs 2) w) count (tracked m w) [])) (\<lambda>fds.
                  bind (if fds \<noteq> [] then ret (Waited False True 0) else timed_out S m) (\<lambda>outcome.
                  bind (socket_actions S m fds) (\<lambda>_. ret (Some outcome))))
              | Some _ \<Rightarrow> bind (timed_out S m) (\<lambda>outcome. ret (Some outcome)))))
      else ret None)"

text \<open>The cooperative wait on one descriptor, after which \<open>select\<close> only polls: an outcome, or the time
  \<open>select\<close> may take.\<close>

definition wait_representative ::
  "'k socket_env \<Rightarrow> nat \<Rightarrow> int \<Rightarrow> int \<Rightarrow> int \<times> int \<Rightarrow> ('k, wait_outcome + int \<times> int) scmd" where
  "wait_representative S m wait_fd wait_what tv =
     (if wait_fd < 0 then ret (Inr tv)
      else bind (curb_fiber_scheduler_current (se_multi S)) (\<lambda>sch.
        if sch = Qnil then ret (Inr tv)
        else bind (multi_socket_fd_valid_p S wait_fd) (\<lambda>valid.
          if \<not> valid then
            bind (modify (upd_ctx m (multi_socket_forget_fd wait_fd))) (\<lambda>_. ret (Inl (Waited True False 0)))
          else bind (multi_socket_io_for_fd S m wait_fd wait_what) (\<lambda>io.
            if io = Qnil then ret (Inr tv)
            else bind (curb_fiber_scheduler_io_wait S sch io
                   (RInt (multi_socket_wait_events_for_curl_poll wait_what)) (wait_seconds S tv)) (\<lambda>_.
                 ret (Inr (0, 0)))))))"

definition wait_select :: "'k socket_env \<Rightarrow> nat \<Rightarrow> nat \<Rightarrow> int \<times> int \<Rightarrow> ('k, wait_outcome) scmd" where
  "wait_select S m count tv =
     bind (gets (\<lambda>w. rb_fdset_from_sockmap (sock_map (ctx_of m w)))) (\<lambda>(r, wr, e, maxfd).
     bind (rb_select_fds S (maxfd + 1) (r, wr, e) tv) (\<lambda>((rc, errno), sets).
       if rc < 0 then wait_failed S ''select'' errno
       else if 0 < rc then
         bind (gets (\<lambda>w. collect_ready (collect_ready_fd_i sets) count (tracked m w) [])) (\<lambda>fds.
         bind (socket_actions S m fds) (\<lambda>_. ret (Waited False True 0)))
       else timed_out S m))"

definition wait_many :: "'k socket_env \<Rightarrow> nat \<Rightarrow> nat \<Rightarrow> int \<Rightarrow> int \<Rightarrow> int \<times> int \<Rightarrow> ('k, wait_outcome) scmd" where
  "wait_many S m count wait_fd wait_what tv =
     bind (wait_io_select S m count tv) (\<lambda>handled.
     case handled of
       Some outcome \<Rightarrow> ret outcome
     | None \<Rightarrow> bind (wait_representative S m wait_fd wait_what tv) (\<lambda>next_wait.
         case next_wait of Inl outcome \<Rightarrow> ret outcome | Inr rest \<Rightarrow> wait_select S m count rest))"

subsection \<open>One descriptor\<close>

text \<open>What the scheduler's \<open>io_wait\<close> returned: \<open>true\<close>, the events as an Integer, or another true value.\<close>

definition io_wait_outcome :: "'k socket_env \<Rightarrow> nat \<Rightarrow> int \<Rightarrow> rvalue \<Rightarrow> ('k, wait_outcome) scmd" where
  "io_wait_outcome S m wait_what ready =
     (if ready = Qfalse \<or> ready = Qnil then timed_out S m
      else case ready of
        RInt i \<Rightarrow>
          bind (lift_res (NUM2INT (RInt i))) (\<lambda>events.
            let flags = multi_socket_cselect_flags_for_wait_events events
            in if flags = 0 then timed_out S m else ret (Waited False True flags))
      | _ \<Rightarrow> ret (Waited False True (multi_socket_cselect_flags_for_curl_poll wait_what)))"

definition wait_io_wait ::
  "'k socket_env \<Rightarrow> nat \<Rightarrow> int \<Rightarrow> int \<Rightarrow> int \<times> int \<Rightarrow> ('k, wait_outcome option) scmd" where
  "wait_io_wait S m wait_fd wait_what tv =
     bind (curb_fiber_scheduler_current (se_multi S)) (\<lambda>sch.
     if sch = Qnil then ret None
     else if wait_fd < 0 then
       bind (curb_multi_scheduler_sleep (se_multi S) tv) (\<lambda>_.
       bind (timed_out S m) (\<lambda>outcome. ret (Some outcome)))
     else bind (multi_socket_fd_valid_p S wait_fd) (\<lambda>valid.
       if \<not> valid then
         bind (modify (upd_ctx m (multi_socket_forget_fd wait_fd))) (\<lambda>_. ret (Some (Waited True False 0)))
       else bind (multi_socket_io_for_fd S m wait_fd wait_what) (\<lambda>io.
         if io = Qnil then ret None
         else bind (curb_fiber_scheduler_io_wait S sch io
                (RInt (multi_socket_wait_events_for_curl_poll wait_what)) (wait_seconds S tv)) (\<lambda>ready.
              bind (io_wait_outcome S m wait_what ready) (\<lambda>outcome. ret (Some outcome))))))"

definition wait_single_fd :: "'k socket_env \<Rightarrow> nat \<Rightarrow> int \<Rightarrow> int \<Rightarrow> int \<times> int \<Rightarrow> ('k, wait_outcome) scmd" where
  "wait_single_fd S m wait_fd wait_what tv =
     bind (rb_wait_for_single_fd S wait_fd (multi_socket_wait_events_for_curl_poll wait_what) tv) (\<lambda>(rc, errno).
       if rc < 0 then wait_failed S ''wait_for_single_fd'' errno
       else if rc \<noteq> 0 then ret (Waited False True (multi_socket_cselect_flags_for_wait_events rc))
       else timed_out S m)"

definition wait_single_select :: "'k socket_env \<Rightarrow> nat \<Rightarrow> int \<Rightarrow> int \<Rightarrow> int \<times> int \<Rightarrow> ('k, wait_outcome) scmd" where
  "wait_single_select S m wait_fd wait_what tv =
     (let readable = 0 \<le> wait_fd \<and> (wait_what = CURL_POLL_IN \<or> wait_what = CURL_POLL_INOUT);
          writable = 0 \<le> wait_fd \<and> (wait_what = CURL_POLL_OUT \<or> wait_what = CURL_POLL_INOUT);
          maxfd = (if 0 \<le> wait_fd then wait_fd else -1)
      in bind (rb_select_fds S (maxfd + 1) (if readable then [wait_fd] else [], if writable then [wait_fd] else [],
                 if 0 \<le> wait_fd then [wait_fd] else []) tv) (\<lambda>((rc, errno), sets).
           if rc < 0 then wait_failed S ''select'' errno
           else if 0 < rc then
             ret (Waited False True (if 0 \<le> wait_fd then collect_ready_fd_i sets wait_fd else 0))
           else timed_out S m))"

definition wait_one :: "'k socket_env \<Rightarrow> nat \<Rightarrow> int \<Rightarrow> int \<Rightarrow> int \<times> int \<Rightarrow> ('k, wait_outcome) scmd" where
  "wait_one S m wait_fd wait_what tv =
     bind (wait_io_wait S m wait_fd wait_what tv) (\<lambda>handled.
     case handled of
       Some outcome \<Rightarrow> ret outcome
     | None \<Rightarrow>
         if have_macro (se_env S) ''HAVE_RB_WAIT_FOR_SINGLE_FD'' \<and> 0 \<le> wait_fd
         then wait_single_fd S m wait_fd wait_what tv
         else wait_single_select S m wait_fd wait_what tv)"

section \<open>The loop\<close>

text \<open>\<open>st_pick_one_i\<close> and \<open>st_count_i\<close>: the first entry of the table and their number.\<close>

definition pick_one :: "(int, int) st_table \<Rightarrow> int \<times> int" where
  "pick_one t = (case t of [] \<Rightarrow> (-1, 0) | (fd, what) # _ \<Rightarrow> (fd, what))"

definition socket_wait :: "'k socket_env \<Rightarrow> nat \<Rightarrow> int \<Rightarrow> nat \<Rightarrow> int \<times> int \<Rightarrow> ('k, wait_outcome) scmd" where
  "socket_wait S m wait_ms count_tracked picked =
     (let tv = wait_timeval wait_ms
      in if 1 < count_tracked then wait_many S m count_tracked (fst picked) (snd picked) tv
         else if count_tracked = 1 then wait_one S m (fst picked) (snd picked) tv
         else bind (curb_multi_scheduler_sleep (se_multi S) tv) (\<lambda>_. ret (Waited True False 0)))"

text \<open>What libcurl is told after a wait.\<close>

definition socket_dispatch :: "'k socket_env \<Rightarrow> nat \<Rightarrow> nat \<Rightarrow> int \<times> int \<Rightarrow> wait_outcome \<Rightarrow> ('k, unit) scmd" where
  "socket_dispatch S m count_tracked picked outcome =
     (if did_timeout outcome then socket_timeout S m
      else if any_ready outcome \<and> count_tracked = 1 \<and> 0 \<le> fst picked then
        socket_action S m (fst picked)
          (if ready_flags outcome = 0 then multi_socket_cselect_flags_for_curl_poll (snd picked)
           else ready_flags outcome)
      else ret ())"

definition read_and_yield :: "nat \<Rightarrow> 'k socket_env \<Rightarrow> nat \<Rightarrow> rvalue \<Rightarrow> ('k sworld, unit) prog" where
  "read_and_yield n S m block =
     pbind (rb_curl_multi_read_info n (se_multi S) m) (\<lambda>_.
       run (rb_curl_multi_yield_if_given (se_multi S) m block))"

text \<open>One pass of the inner loop: the timer where it is due, else a wait.\<close>

definition socket_timer_pass :: "nat \<Rightarrow> 'k socket_env \<Rightarrow> nat \<Rightarrow> rvalue \<Rightarrow> ('k sworld, unit) prog" where
  "socket_timer_pass n S m block =
     pbind (run (socket_timeout S m)) (\<lambda>_.
     pbind (read_and_yield n S m block) (\<lambda>_.
     run (\<lambda>w. if running (rbcm_of m w) \<noteq> 0
       then bind (multi_socket_timer_due S m) (\<lambda>due.
              if due then curb_multi_scheduler_yield (se_multi S) else ret ()) w
       else (Inr (), w))))"

definition socket_wait_pass :: "nat \<Rightarrow> 'k socket_env \<Rightarrow> nat \<Rightarrow> rvalue \<Rightarrow> int \<Rightarrow> ('k sworld, unit) prog" where
  "socket_wait_pass n S m block limit =
     pbind (run (socket_wait_ms S m limit)) (\<lambda>wait_ms.
     pbind (run (gets (tracked m))) (\<lambda>t.
     pbind (run (socket_wait S m wait_ms (length t) (pick_one t))) (\<lambda>outcome.
       if outcome = Interrupted then run (ret ())
       else pbind (run (socket_dispatch S m (length t) (pick_one t) outcome)) (\<lambda>_.
         read_and_yield n S m block))))"

definition socket_pass :: "nat \<Rightarrow> 'k socket_env \<Rightarrow> nat \<Rightarrow> rvalue \<Rightarrow> ('k sworld, unit) prog" where
  "socket_pass n S m block =
     pbind (run curb_multi_default_timeout) (\<lambda>limit.
     pbind (run (multi_socket_timer_due S m)) (\<lambda>due.
       if due then socket_timer_pass n S m block else socket_wait_pass n S m block limit))"

text \<open>The inner loop while transfers run; the outer one starts libcurl, and runs again while the last
  call of the block started transfers.\<close>

fun socket_while :: "nat \<Rightarrow> 'k socket_env \<Rightarrow> nat \<Rightarrow> rvalue \<Rightarrow> ('k sworld, unit) prog" where
  "socket_while 0 S m block w = None"
| "socket_while (Suc n) S m block w =
     (if running (rbcm_of m w) \<noteq> 0
      then pbind (socket_pass n S m block) (\<lambda>_. socket_while n S m block) w
      else Some (Inr (), w))"

fun rb_curl_multi_socket_drive :: "nat \<Rightarrow> 'k socket_env \<Rightarrow> nat \<Rightarrow> rvalue \<Rightarrow> ('k sworld, unit) prog" where
  "rb_curl_multi_socket_drive 0 S m block w = None"
| "rb_curl_multi_socket_drive (Suc n) S m block w =
     pbind (run (socket_action S m CURL_SOCKET_TIMEOUT 0)) (\<lambda>_.
     pbind (read_and_yield n S m block) (\<lambda>_.
     pbind (socket_while n S m block) (\<lambda>_.
     pbind (read_and_yield n S m block) (\<lambda>_ v.
       if running (rbcm_of m v) \<noteq> 0 then rb_curl_multi_socket_drive n S m block v
       else Some (Inr (), v))))) w"

text \<open>The ensure block. Pointers given to libcurl are 1 for the functions and the context, 0 for
  \<open>NULL\<close>.\<close>

definition set_socket_options :: "'k socket_env \<Rightarrow> nat \<Rightarrow> int \<Rightarrow> 'k sworld \<Rightarrow> 'k sworld" where
  "set_socket_options S m p w =
     w\<lparr>lib := foldl (\<lambda>l opt. curl_multi_setopt (se_multi S) (handle (rbcm_of m w)) opt p l) (lib w)
       [''CURLMOPT_SOCKETFUNCTION'', ''CURLMOPT_SOCKETDATA'', ''CURLMOPT_TIMERFUNCTION'', ''CURLMOPT_TIMERDATA'']\<rparr>"

definition ruby_curl_multi_socket_drive_ensure :: "'k socket_env \<Rightarrow> nat \<Rightarrow> ('k, unit) scmd" where
  "ruby_curl_multi_socket_drive_ensure S m =
     bind (modify (\<lambda>w. if handle (rbcm_of m w) = None then w else set_socket_options S m 0 w)) (\<lambda>_.
     bind (modify (upd_ctx m (\<lambda>c. c\<lparr>sock_map := None, io_cache := None\<rparr>))) (\<lambda>_.
     modify (\<lambda>w. w\<lparr>lib := (lib w)\<lparr>io_cache_ivar := (io_cache_ivar (lib w))(m := False)\<rparr>\<rparr>)))"

definition socket_context_installed :: "'k socket_env \<Rightarrow> nat \<Rightarrow> 'k sworld \<Rightarrow> 'k sworld" where
  "socket_context_installed S m w =
     (let w1 = upd_ctx m (\<lambda>_. \<lparr>sock_map = Some st_init_numtable, timeout_deadline_ms = -1,
                                io_cache = Some st_init_numtable\<rparr>) w
      in set_socket_options S m 1
           (w1\<lparr>lib := (lib w1)\<lparr>io_cache_ivar := (io_cache_ivar (lib w1))(m := True)\<rparr>\<rparr>))"

definition socket_driven :: "nat \<Rightarrow> 'k socket_env \<Rightarrow> nat \<Rightarrow> rvalue \<Rightarrow> ('k sworld, unit) prog" where
  "socket_driven n S m block w =
     pensure (rb_curl_multi_socket_drive n S m block) (ruby_curl_multi_socket_drive_ensure S m)
       (socket_context_installed S m w)"

definition ruby_curl_multi_socket_perform_impl ::
  "nat \<Rightarrow> 'k socket_env \<Rightarrow> rvalue \<Rightarrow> nat \<Rightarrow> ('k sworld, rvalue) prog" where
  "ruby_curl_multi_socket_perform_impl n S block m =
     pbind (run (ruby_curl_multi_ensure_handle (se_multi S) m)) (\<lambda>_.
     pbind (run (modify (\<lambda>w. if deferred_exception (multis w m) = None
        then clear_multi_deferred_exception_source_id_if_any m w else w))) (\<lambda>_.
     pbind (socket_driven n S m block) (\<lambda>_.
     pbind (run (autoclose (se_multi S) m)) (\<lambda>_. run (ret Qtrue)))))"

text \<open>\<open>perform\<close> with both loops, and the method that always uses this one.\<close>

definition ruby_curl_multi_socket_perform :: "nat \<Rightarrow> 'k socket_env \<Rightarrow> rvalue \<Rightarrow> nat \<Rightarrow> ('k sworld, rvalue) prog" where
  "ruby_curl_multi_socket_perform n S block =
     ruby_curl_multi_with_perform_guard (ruby_curl_multi_socket_perform_impl n S block)"

definition multi_perform :: "nat \<Rightarrow> 'k socket_env \<Rightarrow> rvalue \<Rightarrow> nat \<Rightarrow> ('k sworld, rvalue) prog" where
  "multi_perform n S block =
     ruby_curl_multi_perform n (se_multi S) (ruby_curl_multi_socket_perform_impl n S block) block"

end
