(* ===== verification/Curb_Socket_Facts.thy ===== *)
theory Curb_Socket_Facts
  imports Curb_Socket Curb_Multi_Loop
begin

text \<open>
  The socket-action loop: the descriptors and flags that reach libcurl, the time of a wait, the IO
  objects, which always belong to a tracked descriptor and are open in the mode of its current interest,
  and the end of the context on every exit.
\<close>

section \<open>Events\<close>

lemma poll_flags:
  "multi_socket_cselect_flags_for_curl_poll CURL_POLL_IN = CURL_CSELECT_IN"
  "multi_socket_cselect_flags_for_curl_poll CURL_POLL_OUT = CURL_CSELECT_OUT"
  "multi_socket_cselect_flags_for_curl_poll CURL_POLL_INOUT = CURL_CSELECT_IN OR CURL_CSELECT_OUT"
  "multi_socket_cselect_flags_for_curl_poll what \<noteq> 0"
  by (simp_all add: multi_socket_cselect_flags_for_curl_poll_def socket_constants)

lemma ready_flags_bits:
  "ready_flags_in r w e = (if r then 1 else 0) + (if w then 2 else 0) + (if e then 4 else 0)"
  by (simp add: ready_flags_in_def socket_constants)

lemma wait_event_flags:
  "multi_socket_cselect_flags_for_wait_events events = ready_flags_in (bit events 0) (bit events 2) (bit events 1)"
proof -
  have "events AND 1 \<noteq> 0 \<longleftrightarrow> bit events 0" "events AND 2 \<noteq> 0 \<longleftrightarrow> bit events 1" "events AND 4 \<noteq> 0 \<longleftrightarrow> bit events 2"
    using and_exp_eq_0_iff_not_bit [of events 0] and_exp_eq_0_iff_not_bit [of events 1]
      and_exp_eq_0_iff_not_bit [of events 2] by simp_all
  then show ?thesis
    by (simp add: multi_socket_cselect_flags_for_wait_events_def ready_flags_in_def socket_constants)
qed

lemma collect_ready_reference:
  "length fds \<le> capacity \<Longrightarrow> collect_ready f capacity t fds =
     fds @ take (capacity - length fds) (filter (\<lambda>p. snd p \<noteq> 0) (map (\<lambda>p. (fst p, f (fst p))) t))"
proof (induction f capacity t fds rule: collect_ready.induct)
  case (2 f capacity fd what t fds)
  then show ?case
    by (cases "length fds < capacity") (auto simp: Let_def Suc_diff_Suc take_Cons' diff_Suc split: nat.split)
qed simp

text \<open>
  C17: After \<open>select\<close>, libcurl is told of the tracked descriptors that are in one of the returned sets, each
  once, in the order of the table, with the flags of exactly the sets that hold it. Whatever has
  happened to the table during the wait, no more descriptors are stored than there is room for, and
  with room for the whole table none is missing.
\<close>

theorem ready_descriptors_reported:
  "collect_ready (collect_ready_fd_i (r, w, e)) capacity t [] =
     take capacity (filter (\<lambda>p. snd p \<noteq> 0)
       (map (\<lambda>p. (fst p, (if fst p \<in> set r then 1 else 0) + (if fst p \<in> set w then 2 else 0) +
                          (if fst p \<in> set e then 4 else 0))) t)) \<and>
   length (collect_ready (collect_ready_fd_i (r, w, e)) capacity t []) \<le> capacity \<and>
   fst ` set (collect_ready (collect_ready_fd_i (r, w, e)) (length t) t []) =
     fst ` set t \<inter> (set r \<union> set w \<union> set e)"
proof -
  define f where "f fd = (if fd \<in> set r then 1 else 0) + (if fd \<in> set w then 2 else 0) +
    (if fd \<in> set e then 4 else 0 :: int)" for fd
  have f: "collect_ready_fd_i (r, w, e) = f"
    by (simp add: collect_ready_fd_i_def ready_flags_bits f_def fun_eq_iff)
  have nonzero: "f fd \<noteq> 0 \<longleftrightarrow> fd \<in> set r \<union> set w \<union> set e" for fd by (simp add: f_def)
  let ?ready = "filter (\<lambda>p. snd p \<noteq> 0) (map (\<lambda>p. (fst p, f (fst p))) t)"
  have eq: "collect_ready f n t [] = take n ?ready" for n
    using collect_ready_reference [where fds = "[]" and f = f and t = t and capacity = n] by simp
  have "length ?ready \<le> length t" using length_filter_le [of _ "map (\<lambda>p. (fst p, f (fst p))) t"] by simp
  then have all: "collect_ready f (length t) t [] = ?ready" by (simp add: eq)
  have "fst ` set ?ready = {fd \<in> fst ` set t. f fd \<noteq> 0}" by force
  also have "\<dots> = fst ` set t \<inter> (set r \<union> set w \<union> set e)" using nonzero by blast
  finally show ?thesis
    unfolding f all eq [of capacity] by (simp add: f_def)
qed

section \<open>Time\<close>

lemma clock_native: "ctxs (lib (snd (multi_socket_current_time_ms S w))) = ctxs (lib w)"
  by (auto simp: multi_socket_current_time_ms_def bind_def on_native_def ret_def split: option.split prod.split sum.split)

text \<open>
  C33: A wait lasts at most the default timeout and does not pass libcurl's deadline; \<open>tv\<close> holds exactly
  that time, with less than a second in its microseconds.
\<close>

theorem socket_wait_within_deadline:
  assumes "socket_wait_ms S m limit w = (Inr ms, v)" and "0 \<le> limit" and "wait_timeval ms = (sec, usec)"
  shows "0 \<le> ms \<and> ms \<le> limit \<and> sec * 1000000 + usec = ms * 1000 \<and> 0 \<le> usec \<and> usec < 1000000 \<and>
     (timeout_deadline_ms (ctx_of m w) < 0 \<and> ms = limit \<or>
      (\<exists>now. multi_socket_current_time_ms S w = (Inr now, v) \<and>
         ms = min limit (max 0 (timeout_deadline_ms (ctx_of m w) - now))))"
proof -
  have ms: "(timeout_deadline_ms (ctx_of m w) < 0 \<and> ms = limit \<or>
      (\<exists>now. multi_socket_current_time_ms S w = (Inr now, v) \<and>
         ms = min limit (max 0 (timeout_deadline_ms (ctx_of m w) - now))))"
  proof (cases "timeout_deadline_ms (ctx_of m w) < 0")
    case False
    then obtain now where "multi_socket_current_time_ms S w = (Inr now, v)"
      using assms(1)
      by (cases "multi_socket_current_time_ms S w")
        (auto simp: socket_wait_ms_def bind_def Let_def ret_def split: if_splits sum.splits)
    then show ?thesis using False assms(1,2) by (auto simp: socket_wait_ms_def bind_def Let_def ret_def split: if_splits)
  qed (use assms(1) in \<open>simp add: socket_wait_ms_def\<close>)
  then have range: "0 \<le> ms" "ms \<le> limit" using assms(2) by auto
  have "sec = ms div 1000" "usec = (ms mod 1000) * 1000"
    using assms(3) range(1)
    by (cases "ms = 0"; simp add: wait_timeval_def signed_divide_int_def signed_modulo_int_def sgn_if)+
  moreover have "ms div 1000 * 1000000 + (ms mod 1000) * 1000 = ms * 1000"
    using div_mult_mod_eq [of ms 1000] by linarith
  ultimately show ?thesis using ms range by simp
qed

section \<open>What the callbacks do to the context\<close>

text \<open>One call of a callback, and any number of them.\<close>

inductive socket_event :: "multi_socket_ctx \<Rightarrow> multi_socket_ctx \<Rightarrow> bool" where
  socket: "socket_event c (multi_socket_cb fd what c)"
| timer: "socket_event c (multi_timer_cb ms now c)"

definition calls_back :: "nat \<Rightarrow> 'k sworld \<Rightarrow> 'k sworld \<Rightarrow> bool" where
  "calls_back m w v \<longleftrightarrow> socket_event\<^sup>*\<^sup>* (ctx_of m w) (ctx_of m v)"

definition same_ctx :: "nat \<Rightarrow> 'k sworld \<Rightarrow> 'k sworld \<Rightarrow> bool" where
  "same_ctx m w v \<longleftrightarrow> ctx_of m v = ctx_of m w"

text \<open>The invariant: the table holds no negative descriptor and no \<open>CURL_POLL_REMOVE\<close>, and every cached
  IO object is for a tracked descriptor, in the mode of its current interest. \<open>io_of\<close> gives the
  descriptor and mode of an IO object.\<close>

definition ctx_ok :: "(rvalue \<Rightarrow> int \<times> string) \<Rightarrow> multi_socket_ctx \<Rightarrow> bool" where
  "ctx_ok io_of c \<longleftrightarrow>
     (\<forall>t. sock_map c = Some t \<longrightarrow> st_wf t \<and>
        (\<forall>fd what. st_lookup t fd = Some what \<longrightarrow> 0 \<le> fd \<and> what \<noteq> CURL_POLL_REMOVE)) \<and>
     (\<forall>h fd io. io_cache c = Some h \<longrightarrow> st_lookup h fd = Some io \<longrightarrow>
        (\<exists>t what. sock_map c = Some t \<and> st_lookup t fd = Some what \<and>
           io_of io = (fd, multi_socket_io_mode_for_curl_poll what)))"

lemma ctx_okI:
  assumes "\<And>t. sock_map c = Some t \<Longrightarrow> st_wf t"
    and "\<And>t fd what. sock_map c = Some t \<Longrightarrow> st_lookup t fd = Some what \<Longrightarrow> 0 \<le> fd \<and> what \<noteq> CURL_POLL_REMOVE"
    and "\<And>h fd io. io_cache c = Some h \<Longrightarrow> st_lookup h fd = Some io \<Longrightarrow>
      \<exists>t what. sock_map c = Some t \<and> st_lookup t fd = Some what \<and>
        io_of io = (fd, multi_socket_io_mode_for_curl_poll what)"
  shows "ctx_ok io_of c"
  using assms unfolding ctx_ok_def by blast

lemma ctx_ok_table:
  assumes "ctx_ok io_of c" and "sock_map c = Some t"
  shows "st_wf t" and "st_lookup t fd = Some what \<Longrightarrow> 0 \<le> fd \<and> what \<noteq> CURL_POLL_REMOVE"
  using assms unfolding ctx_ok_def by blast+

lemma ctx_ok_cache:
  assumes "ctx_ok io_of c" and "io_cache c = Some h" and "st_lookup h fd = Some io"
  obtains t what where "sock_map c = Some t" "st_lookup t fd = Some what"
    "io_of io = (fd, multi_socket_io_mode_for_curl_poll what)"
  using assms unfolding ctx_ok_def by blast

lemma ctx_ok_timer: "ctx_ok io_of (c\<lparr>timeout_deadline_ms := d\<rparr>) = ctx_ok io_of c"
  by (simp add: ctx_ok_def)

lemma ctx_ok_forget: "ctx_ok io_of c \<Longrightarrow> ctx_ok io_of (multi_socket_forget_fd fd c)"
  by (rule ctx_okI)
    (auto simp: multi_socket_forget_fd_def st_lookup_delete intro: st.wf_delete
      elim: ctx_ok_cache dest: ctx_ok_table split: option.splits if_splits)

lemma ctx_ok_cb:
  assumes ok: "ctx_ok io_of c"
  shows "ctx_ok io_of (multi_socket_cb fd what c)"
proof (cases "sock_map c = None \<or> fd < 0 \<or> what = CURL_POLL_REMOVE")
  case True
  then show ?thesis using ok ctx_ok_forget [OF ok] by (auto simp: multi_socket_cb_def split: option.splits)
next
  case False
  then obtain t where t: "sock_map c = Some t" "0 \<le> fd" "what \<noteq> CURL_POLL_REMOVE" by auto
  have cb: "sock_map (multi_socket_cb fd what c) = Some (st_insert t fd what)"
    using t by (simp add: multi_socket_cb_def split: option.split)
  have cache: "st_lookup h' g = Some io \<Longrightarrow> (\<exists>h. io_cache c = Some h \<and> st_lookup h g = Some io) \<and>
      (g = fd \<longrightarrow> st_lookup t fd = None \<or> st_lookup t fd = Some what)"
    if "io_cache (multi_socket_cb fd what c) = Some h'" for h' g io
    using that t by (auto simp: multi_socket_cb_def st_lookup_delete split: option.splits if_splits)
  show ?thesis
  proof (rule ctx_okI)
    fix h' g io assume "io_cache (multi_socket_cb fd what c) = Some h'" "st_lookup h' g = Some io"
    from cache [OF this] obtain h where h: "io_cache c = Some h" "st_lookup h g = Some io"
      "g = fd \<Longrightarrow> st_lookup t fd = None \<or> st_lookup t fd = Some what" by blast
    from ctx_ok_cache [OF ok h(1,2)] t(1) obtain what'
      where "st_lookup t g = Some what'" "io_of io = (g, multi_socket_io_mode_for_curl_poll what')" by auto
    then show "\<exists>t' what'. sock_map (multi_socket_cb fd what c) = Some t' \<and> st_lookup t' g = Some what' \<and>
        io_of io = (g, multi_socket_io_mode_for_curl_poll what')"
      using h(3) cb by (auto simp: st_lookup_insert)
  qed (use cb t ctx_ok_table(1) [OF ok t(1)] in
      \<open>auto simp: st_lookup_insert intro: st.wf_insert dest: ctx_ok_table(2) [OF ok t(1)] split: if_splits\<close>)
qed

lemma ctx_ok_event: "socket_event c c' \<Longrightarrow> ctx_ok io_of c \<Longrightarrow> ctx_ok io_of c'"
  by (induction rule: socket_event.induct) (simp_all add: ctx_ok_cb multi_timer_cb_def ctx_ok_timer)

lemma ctx_ok_events: "socket_event\<^sup>*\<^sup>* c c' \<Longrightarrow> ctx_ok io_of c \<Longrightarrow> ctx_ok io_of c'"
  by (induction rule: rtranclp_induct) (auto intro: ctx_ok_event)

lemma ctx_ok_new: "ctx_ok io_of \<lparr>sock_map = Some st_init_numtable, timeout_deadline_ms = d, io_cache = Some st_init_numtable\<rparr>"
  by (simp add: ctx_ok_def st_init_laws)

lemma ctx_ok_cached:
  assumes "ctx_ok io_of c" and "sock_map c = Some t" and "st_lookup t fd = Some what"
    and "io_of io = (fd, multi_socket_io_mode_for_curl_poll what)"
  shows "ctx_ok io_of (c\<lparr>io_cache := (case io_cache c of None \<Rightarrow> None | Some h \<Rightarrow> Some (st_insert h fd io))\<rparr>)"
  by (rule ctx_okI)
    (use assms ctx_ok_table [OF assms(1,2)] in
      \<open>auto simp: st_lookup_insert elim: ctx_ok_cache [OF assms(1)] split: option.splits if_splits\<close>)

section \<open>What is asked of libcurl and Ruby\<close>

text \<open>
  The context is a local variable whose address only libcurl has: libcurl, user code and the waits,
  during which other threads and fibers run, change it by the callbacks only. Asking for the scheduler,
  making an IO object and an \<open>io_select\<close> that is not implemented run no libcurl code.
\<close>

definition quiet_method :: "string \<Rightarrow> bool" where
  "quiet_method name \<longleftrightarrow> name \<in> {''scheduler'', ''blocking?'', ''for_fd'', ''autoclose=''}"

definition io_objects_ok :: "'k socket_env \<Rightarrow> (rvalue \<Rightarrow> int \<times> string) \<Rightarrow> bool" where
  "io_objects_ok S io_of \<longleftrightarrow>
     (\<forall>fd mode w io v. rb_send (se_multi S) (cRubyIO S) ''for_fd'' [RInt fd, RStr mode] w = (Inr io, v) \<longrightarrow>
        io_of io = (fd, mode))"

definition socket_env_ok :: "'k socket_env \<Rightarrow> nat \<Rightarrow> (rvalue \<Rightarrow> int \<times> string) \<Rightarrow> bool" where
  "socket_env_ok S m io_of \<longleftrightarrow>
     (\<forall>h fd flags w. calls_back m w (snd (curl_multi_socket_action S h fd flags w))) \<and>
     (\<forall>w h c. calls_back m w (w\<lparr>lib := snd (curl_multi_remove_handle (se_multi S) h c (lib w))\<rparr>)) \<and>
     (\<forall>w h. calls_back m w (w\<lparr>lib := snd (curl_multi_info_read (se_multi S) h (lib w))\<rparr>)) \<and>
     (\<forall>obj name args. keeps (calls_back m) (rb_send (se_multi S) obj name args)) \<and>
     (\<forall>sch t. keeps (calls_back m) (rb_fiber_scheduler_kernel_sleep (se_multi S) sch t)) \<and>
     (\<forall>n tv. keeps (calls_back m) (rb_thread_fd_select (se_multi S) n tv)) \<and>
     (\<forall>sch r w e t. keeps (calls_back m) (rb_fiber_scheduler_io_select S sch r w e t)) \<and>
     (\<forall>sch io ev t. keeps (calls_back m) (rb_fiber_scheduler_io_wait S sch io ev t)) \<and>
     (\<forall>fd ev tv. keeps (calls_back m) (rb_wait_for_single_fd S fd ev tv)) \<and>
     (\<forall>n sets tv. keeps (calls_back m) (rb_select_fds S n sets tv)) \<and>
     keeps (same_ctx m) (rb_fiber_scheduler_current (se_multi S)) \<and>
     (\<forall>obj name args. quiet_method name \<longrightarrow>
        keeps (same_ctx m) (rb_send (se_multi S) obj name args)) \<and>
     (\<forall>sch r wr e t w v. rb_fiber_scheduler_io_select S sch r wr e t w = (Inr None, v) \<longrightarrow> same_ctx m w v) \<and>
     io_objects_ok S io_of"

lemma socket_env_okD:
  assumes "socket_env_ok S m io_of"
  shows "calls_back m w (snd (curl_multi_socket_action S h fd flags w))"
    and "calls_back m w (w\<lparr>lib := snd (curl_multi_remove_handle (se_multi S) h c (lib w))\<rparr>)"
    and "calls_back m w (w\<lparr>lib := snd (curl_multi_info_read (se_multi S) h (lib w))\<rparr>)"
    and "keeps (calls_back m) (rb_send (se_multi S) obj name args)"
    and "keeps (calls_back m) (rb_fiber_scheduler_kernel_sleep (se_multi S) sch t)"
    and "keeps (calls_back m) (rb_thread_fd_select (se_multi S) n tv)"
    and "keeps (calls_back m) (rb_fiber_scheduler_io_select S sch r wr e t)"
    and "keeps (calls_back m) (rb_fiber_scheduler_io_wait S sch io ev t)"
    and "keeps (calls_back m) (rb_wait_for_single_fd S fd events tv)"
    and "keeps (calls_back m) (rb_select_fds S n sets tv)"
    and "keeps (same_ctx m) (rb_fiber_scheduler_current (se_multi S))"
    and "quiet_method name \<Longrightarrow>
      keeps (same_ctx m) (rb_send (se_multi S) obj name args)"
    and "rb_fiber_scheduler_io_select S sch r wr e t w = (Inr None, v) \<Longrightarrow> same_ctx m w v"
    and "io_objects_ok S io_of"
  using assms unfolding socket_env_ok_def
  by (simp_all del: split_paired_All)

lemma quiet_methods [simp]:
  "quiet_method ''scheduler''" "quiet_method ''blocking?''" "quiet_method ''for_fd''" "quiet_method ''autoclose=''"
  by (simp_all add: quiet_method_def)

section \<open>The invariant of the loop\<close>

definition sock_inv :: "(rvalue \<Rightarrow> int \<times> string) \<Rightarrow> nat \<Rightarrow> 'k sworld \<Rightarrow> bool" where
  "sock_inv io_of m w \<longleftrightarrow> ctx_ok io_of (ctx_of m w)"

definition ctx_kept :: "'k socket_env \<Rightarrow> (rvalue \<Rightarrow> int \<times> string) \<Rightarrow> nat \<Rightarrow> 'k sworld \<Rightarrow> 'k sworld \<Rightarrow> bool" where
  "ctx_kept S io_of m w v \<longleftrightarrow> (socket_env_ok S m io_of \<longrightarrow> sock_inv io_of m w \<longrightarrow> sock_inv io_of m v)"

lemma ctx_of_writes [simp]:
  "ctx_of m (upd_rbce e f w) = ctx_of m w" "ctx_of m (upd_rbcm n g w) = ctx_of m w"
  "ctx_of m (upd_object n h w) = ctx_of m w"
  "ctx_of m (rb_curl_multi_remove_request_reference n e w) = ctx_of m w"
  "ctx_of m (stash_multi_exception_if_unset n x i w) = ctx_of m w"
  by (simp_all add: ctx_of_def world_simps rb_curl_multi_remove_request_reference_def
      stash_multi_exception_if_unset_def split: option.split)

lemma ctx_of_upd_ctx [simp]: "ctx_of m (upd_ctx n f w) = (if n = m then f (ctx_of m w) else ctx_of m w)"
  by (simp add: ctx_of_def upd_ctx_def)

lemma calls_back_kept: "calls_back m w v \<Longrightarrow> ctx_kept S io_of m w v"
  by (auto simp: calls_back_def ctx_kept_def sock_inv_def intro: ctx_ok_events)

lemma calls_back_keeps: "(socket_env_ok S m io_of \<Longrightarrow> keeps (calls_back m) c) \<Longrightarrow> keeps (ctx_kept S io_of m) c"
  using calls_back_kept by (fastforce simp: keeps_def ctx_kept_def)

interpretation socket_loop: multi_relation "ctx_kept S io_of m" "se_multi S"
proof unfold_locales
  show "keeps (ctx_kept S io_of m) (rb_send (se_multi S) obj name args)" for obj name args
    by (rule calls_back_keeps) (rule socket_env_okD)
  show "ctx_kept S io_of m w (w\<lparr>lib := snd (curl_multi_remove_handle (se_multi S) h c (lib w))\<rparr>)" for w h c
    using socket_env_okD(2) [THEN calls_back_kept, of S m io_of] by (auto simp: ctx_kept_def)
qed (auto simp: ctx_kept_def sock_inv_def)

section \<open>Triples\<close>

text \<open>From \<open>P\<close>, a command that returns ends in \<open>Q\<close> and one that raises in \<open>I\<close>.\<close>

definition triple :: "('s \<Rightarrow> bool) \<Rightarrow> ('s \<Rightarrow> bool) \<Rightarrow> ('s, 'a) cmd \<Rightarrow> ('a \<Rightarrow> 's \<Rightarrow> bool) \<Rightarrow> bool" where
  "triple I P c Q \<longleftrightarrow> (\<forall>w. P w \<longrightarrow> (case c w of (Inl e, v) \<Rightarrow> I v | (Inr a, v) \<Rightarrow> Q a v))"

lemma triple_bind: "triple I P c Q \<Longrightarrow> (\<And>a. triple I (Q a) (f a) T) \<Longrightarrow> triple I P (bind c f) T"
  by (fastforce simp: triple_def bind_def split: sum.splits prod.splits)

lemma triple_ret: "(\<And>w. P w \<Longrightarrow> Q a w) \<Longrightarrow> triple I P (ret a) Q"
  by (simp add: triple_def ret_def)

lemma triple_gets: "(\<And>w. P w \<Longrightarrow> Q (f w) w) \<Longrightarrow> triple I P (gets f) Q"
  by (simp add: triple_def gets_def)

lemma triple_modify: "(\<And>w. P w \<Longrightarrow> Q () (f w)) \<Longrightarrow> triple I P (modify f) Q"
  by (simp add: triple_def modify_def)

lemma triple_if: "(b \<Longrightarrow> triple I P c Q) \<Longrightarrow> (\<not> b \<Longrightarrow> triple I P d Q) \<Longrightarrow> triple I P (if b then c else d) Q"
  by simp

lemma triple_pre: "triple I P c Q \<Longrightarrow> (\<And>w. P' w \<Longrightarrow> P w) \<Longrightarrow> triple I P' c Q"
  by (simp add: triple_def)

lemma triple_post: "triple I P c Q \<Longrightarrow> (\<And>a w. Q a w \<Longrightarrow> Q' a w) \<Longrightarrow> triple I P c Q'"
  by (fastforce simp: triple_def split: sum.splits prod.splits)

lemma triple_keeps:
  "keeps R c \<Longrightarrow> (\<And>w v. R w v \<Longrightarrow> I w \<Longrightarrow> I v) \<Longrightarrow> triple I I c (\<lambda>_. I)"
  unfolding triple_def keeps_def by (metis (mono_tags, lifting) case_prodI2 prod.sel(2) sum.case_eq_if)

text \<open>The states in which the table is \<open>M\<close>.\<close>

abbreviation known :: "(rvalue \<Rightarrow> int \<times> string) \<Rightarrow> nat \<Rightarrow> (int, int) st_table option \<Rightarrow> 'k sworld \<Rightarrow> bool" where
  "known io_of m M w \<equiv> sock_inv io_of m w \<and> sock_map (ctx_of m w) = M"

lemma triple_quiet:
  assumes "keeps (same_ctx m) c"
  shows "triple (sock_inv io_of m) (known io_of m M) c (\<lambda>_. known io_of m M)"
proof -
  have "ctx_of m (snd (c w)) = ctx_of m w" for w using keepsD [OF assms, of w] by (simp add: same_ctx_def)
  then have "c w = (r, v) \<Longrightarrow> ctx_of m v = ctx_of m w" for w r v by (metis snd_conv)
  then show ?thesis by (auto simp: triple_def sock_inv_def split: sum.split prod.split)
qed

interpretation quiet_ctx: step_relation "same_ctx m"
  by unfold_locales (simp_all add: same_ctx_def)

lemma native_quiet: "keeps (same_ctx m) (on_native f)"
  by (simp add: keeps_def same_ctx_def on_native_def ctx_of_def split: prod.split)

lemma clock_read_quiet: "keeps (same_ctx m) (bind (multi_socket_current_time_ms S) (\<lambda>now. ret (f now)))"
  by (intro quiet_ctx.bound quiet_ctx.pure) (simp add: keeps_def same_ctx_def ctx_of_def clock_native)

lemma quiet_reads:
  "keeps (same_ctx m) (multi_socket_current_time_ms S)" "keeps (same_ctx m) (multi_socket_timer_due S n)"
  "keeps (same_ctx m) (multi_socket_fd_valid_p S fd)" "keeps (same_ctx m) (socket_wait_ms S n limit)"
  "keeps (same_ctx m) (timed_out S n)"
proof -
  show "keeps (same_ctx m) (multi_socket_current_time_ms S)"
    by (simp add: keeps_def same_ctx_def ctx_of_def clock_native)
  show due: "keeps (same_ctx m) (multi_socket_timer_due S n)"
    by (rule keepsI) (auto simp: multi_socket_timer_due_def intro: keepsD [OF clock_read_quiet] quiet_ctx.reflexive)
  show "keeps (same_ctx m) (socket_wait_ms S n limit)"
    by (rule keepsI)
      (auto simp: socket_wait_ms_def Let_def intro: keepsD [OF clock_read_quiet] quiet_ctx.reflexive)
  show "keeps (same_ctx m) (multi_socket_fd_valid_p S fd)"
    unfolding multi_socket_fd_valid_p_def split_def by (intro quiet_ctx.branch quiet_ctx.bound quiet_ctx.pure native_quiet)
  show "keeps (same_ctx m) (timed_out S n)"
    unfolding timed_out_def by (intro quiet_ctx.bound quiet_ctx.pure due)
qed

lemma scheduler_quiet:
  "socket_env_ok S m io_of \<Longrightarrow> keeps (same_ctx m) (curb_fiber_scheduler_current (se_multi S))"
  unfolding curb_fiber_scheduler_current_def
  by (intro quiet_ctx.branch quiet_ctx.bound quiet_ctx.pure socket_env_okD(11,12)) simp_all

section \<open>IO objects\<close>

lemma io_for_fd:
  assumes ok: "socket_env_ok S m io_of" and t: "M = Some t" "st_lookup t fd = Some what"
  shows "triple (sock_inv io_of m) (known io_of m M) (multi_socket_io_for_fd S m fd what)
    (\<lambda>io w. known io_of m M w \<and> (io \<noteq> Qnil \<longrightarrow> io_of io = (fd, multi_socket_io_mode_for_curl_poll what)))"
  unfolding triple_def
proof (intro allI impI)
  fix w :: "'a sworld" assume w: "known io_of m M w"
  let ?mode = "multi_socket_io_mode_for_curl_poll what"
  let ?Q = "\<lambda>io w. known io_of m M w \<and> (io \<noteq> Qnil \<longrightarrow> io_of io = (fd, ?mode))"
  have quiet: "case rb_send (se_multi S) obj name args u of (Inl e, v) \<Rightarrow> sock_inv io_of m v
      | (Inr a, v) \<Rightarrow> known io_of m M v"
    if "quiet_method name" "known io_of m M u" for obj name args u
    by (rule triple_quiet [OF socket_env_okD(12) [OF ok that(1)], of io_of M, unfolded triple_def, rule_format,
          OF that(2)])
  show "case multi_socket_io_for_fd S m fd what w of (Inl e, v) \<Rightarrow> sock_inv io_of m v | (Inr io, v) \<Rightarrow> ?Q io v"
  proof (cases "cached_io m fd w = Qnil")
    case False
    then obtain h where "io_cache (ctx_of m w) = Some h" "st_lookup h fd = Some (cached_io m fd w)"
      by (auto simp: cached_io_def split: option.splits)
    then show ?thesis
      using False w t by (auto simp: multi_socket_io_for_fd_def sock_inv_def elim: ctx_ok_cache)
  next
    case True
    obtain r1 w1 where r1: "rb_send (se_multi S) (cRubyIO S) ''for_fd'' [RInt fd, RStr ?mode] w = (r1, w1)" by fastforce
    have w1: "case r1 of Inl e \<Rightarrow> sock_inv io_of m w1 | Inr a \<Rightarrow> known io_of m M w1"
      using quiet [of "''for_fd''" w "cRubyIO S" "[RInt fd, RStr ?mode]"] w r1 by (auto split: sum.splits)
    show ?thesis
    proof (cases r1)
      case (Inl e)
      then show ?thesis using True r1 w1 by (simp add: multi_socket_io_for_fd_def bind_def)
    next
      case (Inr io)
      have io: "io_of io = (fd, ?mode)"
        using socket_env_okD(14) [OF ok] r1 Inr unfolding io_objects_ok_def by blast
      obtain r2 w2 where r2: "rb_send (se_multi S) io ''autoclose='' [Qfalse] w1 = (r2, w2)" by fastforce
      have w2: "case r2 of Inl e \<Rightarrow> sock_inv io_of m w2 | Inr a \<Rightarrow> known io_of m M w2"
        using quiet [of "''autoclose=''" w1 io "[Qfalse]"] w1 Inr r2 by (auto split: sum.splits)
      show ?thesis
        using True r1 Inr r2 w2 io t
        by (cases r2) (auto simp: multi_socket_io_for_fd_def bind_def modify_def ret_def sock_inv_def intro: ctx_ok_cached)
    qed
  qed
qed

section \<open>The waits\<close>

text \<open>Whatever keeps the context relation keeps the invariant.\<close>

lemma kept_triple:
  assumes "socket_env_ok S m io_of" and "keeps (ctx_kept S io_of m) c"
  shows "triple (sock_inv io_of m) (sock_inv io_of m) c (\<lambda>_. sock_inv io_of m)"
  by (rule triple_keeps [OF assms(2)]) (use assms(1) in \<open>simp add: ctx_kept_def\<close>)

lemma quiet_kept: "keeps (same_ctx m) c \<Longrightarrow> keeps (ctx_kept S io_of m) c"
  by (simp add: keeps_def same_ctx_def ctx_kept_def sock_inv_def)

lemma kept_calls:
  "keeps (ctx_kept S io_of m) (rb_fiber_scheduler_io_wait S sch io ev t)"
  "keeps (ctx_kept S io_of m) (rb_wait_for_single_fd S fd events tv)"
  "keeps (ctx_kept S io_of m) (rb_select_fds S n sets tv)"
  "keeps (ctx_kept S io_of m) (rb_fiber_scheduler_kernel_sleep (se_multi S) sch t)"
  "keeps (ctx_kept S io_of m) (rb_thread_fd_select (se_multi S) n tv)"
  "keeps (ctx_kept S io_of m) (rb_fiber_scheduler_io_select S sch r wr e t)"
  by (rule calls_back_keeps, rule socket_env_okD, assumption)+

lemma current_kept: "keeps (ctx_kept S io_of m) (curb_fiber_scheduler_current (se_multi S))"
proof (cases "socket_env_ok S m io_of")
  case True
  then show ?thesis by (intro quiet_kept scheduler_quiet)
qed (simp add: keeps_def ctx_kept_def)

lemma sleeps_kept:
  "keeps (ctx_kept S io_of m) (curb_multi_scheduler_sleep (se_multi S) tv)"
  "keeps (ctx_kept S io_of m) (curb_multi_scheduler_yield (se_multi S))"
  "keeps (ctx_kept S io_of m) (rb_curl_multi_yield_if_given (se_multi S) m block)"
  unfolding curb_multi_scheduler_sleep_def curb_multi_scheduler_yield_def curb_fiber_scheduler_kernel_sleep_def
    rb_curl_multi_yield_if_given_def
  by (intro socket_loop.bound socket_loop.branch socket_loop.pure current_kept kept_calls socket_loop.user_code)+

lemma io_wait_kept: "keeps (ctx_kept S io_of m) (curb_fiber_scheduler_io_wait S sch io ev t)"
  unfolding curb_fiber_scheduler_io_wait_def by (intro socket_loop.branch kept_calls socket_loop.user_code)

lemma action_kept: "keeps (ctx_kept S io_of m) (socket_action S m fd flags)"
proof (rule keepsI)
  fix w :: "'a sworld"
  obtain mrc k v where v: "curl_multi_socket_action S (handle (rbcm_of m w)) fd flags w = ((mrc, k), v)"
    by (metis prod.collapse)
  have "calls_back m w v" if "socket_env_ok S m io_of"
    using socket_env_okD(1) [OF that, of w "handle (rbcm_of m w)" fd flags] v by simp
  from calls_back_kept [OF this, of S io_of] have "ctx_kept S io_of m w v" by (simp add: ctx_kept_def)
  then show "ctx_kept S io_of m w (snd (socket_action S m fd flags w))"
    using v by (simp add: socket_action_def raise_multi_def cmd_defs ctx_kept_def sock_inv_def)
qed

lemma timeout_kept: "keeps (ctx_kept S io_of m) (socket_timeout S m)"
  unfolding socket_timeout_def
  by (intro socket_loop.bound socket_loop.assign action_kept) (simp add: ctx_kept_def sock_inv_def ctx_ok_timer)

lemma actions_kept: "keeps (ctx_kept S io_of m) (socket_actions S m fds)"
  unfolding socket_actions_def by (rule socket_loop.sequence) (auto intro: action_kept)

lemma forget_kept: "keeps (ctx_kept S io_of m) (modify (upd_ctx m (multi_socket_forget_fd fd)))"
  by (rule socket_loop.assign) (simp add: ctx_kept_def sock_inv_def ctx_ok_forget)

lemma failed_kept: "keeps (ctx_kept S io_of m) (wait_failed S name errno)"
  unfolding wait_failed_def by (intro socket_loop.branch socket_loop.pure)

lemmas reads_kept = quiet_reads [THEN quiet_kept]

lemmas kept_intros = socket_loop.bound socket_loop.branch socket_loop.pure sleeps_kept current_kept kept_calls
  io_wait_kept action_kept timeout_kept actions_kept forget_kept failed_kept reads_kept

lemma select_kept: "keeps (ctx_kept S io_of m) (wait_select S m count tv)"
  unfolding wait_select_def split_def by (intro kept_intros)

lemma single_kept:
  "keeps (ctx_kept S io_of m) (wait_single_fd S m wait_fd wait_what tv)"
  "keeps (ctx_kept S io_of m) (wait_single_select S m wait_fd wait_what tv)"
  unfolding wait_single_fd_def wait_single_select_def split_def Let_def by (intro kept_intros)+

lemma outcome_kept: "keeps (ctx_kept S io_of m) (io_wait_outcome S m wait_what ready)"
proof -
  have "keeps (ctx_kept S io_of m) (bind (lift_res r) (\<lambda>events.
      let flags = multi_socket_cselect_flags_for_wait_events events
      in if flags = 0 then timed_out S m else ret (Waited False True flags)))" for r
    unfolding Let_def by (intro kept_intros)
  then show ?thesis
    unfolding io_wait_outcome_def by (intro socket_loop.branch) (auto intro: reads_kept socket_loop.pure split: rvalue.split)
qed

lemma dispatch_kept: "keeps (ctx_kept S io_of m) (socket_dispatch S m count picked outcome)"
  unfolding socket_dispatch_def by (intro kept_intros)

text \<open>Up to the wait itself the table is known, so the IO objects are made for tracked descriptors.\<close>

lemma known_entry: "known io_of m (Some t) w \<Longrightarrow> (fd, what) \<in> set t \<Longrightarrow> st_lookup t fd = Some what"
  using ctx_ok_table(1) by (fastforce simp: sock_inv_def st_wf_def st_lookup_def)

lemma arrays_kept:
  assumes ok: "socket_env_ok S m io_of"
  shows "(\<And>fd what. (fd, what) \<in> set t \<Longrightarrow> \<exists>t'. M = Some t' \<and> st_lookup t' fd = Some what) \<Longrightarrow>
    triple (sock_inv io_of m) (known io_of m M) (build_io_select_arrays S m t sets) (\<lambda>_. known io_of m M)"
proof (induction t arbitrary: sets)
  case Nil
  then show ?case by (cases sets) (simp add: triple_ret)
next
  case (Cons p t)
  obtain fd what where p: "p = (fd, what)" by (cases p)
  obtain r w e where sets: "sets = (r, w, e)" by (cases sets)
  obtain t' where t': "M = Some t'" "st_lookup t' fd = Some what" using Cons.prems [of fd what] p by auto
  note io = triple_post [OF io_for_fd [OF ok t'], of "\<lambda>_. known io_of m M"]
  show ?case
    unfolding p sets build_io_select_arrays.simps
    by (intro triple_bind [OF triple_quiet [OF quiet_reads(3)]] triple_if triple_bind [OF io] triple_ret Cons.IH)
      (use Cons.prems in auto)
qed

lemma io_select_kept:
  assumes ok: "socket_env_ok S m io_of"
  shows "triple (sock_inv io_of m) (known io_of m M) (wait_io_select S m count tv)
    (\<lambda>handled w. case handled of None \<Rightarrow> known io_of m M w | Some _ \<Rightarrow> sock_inv io_of m w)"
    (is "triple ?I ?K _ ?Q")
proof -
  note kept = kept_triple [OF ok]
  have build: "triple ?I ?K (\<lambda>w. build_io_select_arrays S m (tracked m w) ([], [], []) w) (\<lambda>_. ?K)"
  proof (cases M)
    case None
    then show ?thesis by (simp add: triple_def tracked_def ret_def)
  next
    case (Some t)
    have "triple ?I ?K (build_io_select_arrays S m t ([], [], [])) (\<lambda>_. ?K)" if "known io_of m M w" for w :: "'a sworld"
      using known_entry [of io_of m w t] that by (intro arrays_kept [OF ok]) (auto simp: Some)
    then show ?thesis by (fastforce simp: triple_def tracked_def Some)
  qed
  have hook: "triple ?I ?K (rb_fiber_scheduler_io_select S sch r wr e t)
      (\<lambda>ready w. case ready of None \<Rightarrow> ?K w | Some _ \<Rightarrow> ?I w)" for sch r wr e t
  proof -
    have "triple ?I ?I (rb_fiber_scheduler_io_select S sch r wr e t) (\<lambda>_. ?I)" by (rule kept [OF kept_calls(6)])
    moreover have "rb_fiber_scheduler_io_select S sch r wr e t w = (Inr None, v) \<Longrightarrow> same_ctx m w v" for w v
      by (rule socket_env_okD(13) [OF ok])
    ultimately show ?thesis
      by (fastforce simp: triple_def same_ctx_def sock_inv_def split: sum.splits option.splits prod.splits)
  qed
  have collected: "triple ?I ?I (bind (gets f) (\<lambda>fds. bind (if fds \<noteq> [] then ret (Waited False True 0) else timed_out S m)
      (\<lambda>outcome. bind (socket_actions S m fds) (\<lambda>_. ret (Some outcome))))) (\<lambda>handled w. handled \<noteq> None \<and> ?I w)" for f
    by (rule triple_bind [OF triple_gets [where Q = "\<lambda>_. ?I"]], assumption)
      (intro triple_bind [OF kept] triple_ret kept_intros; simp)
  have late: "triple ?I ?I (bind (timed_out S m) (\<lambda>outcome. ret (Some outcome))) (\<lambda>handled w. handled \<noteq> None \<and> ?I w)"
    by (intro triple_bind [OF kept] triple_ret kept_intros; simp)
  have after: "triple ?I (\<lambda>w. case ready of None \<Rightarrow> ?K w | Some _ \<Rightarrow> ?I w)
      (case ready of None \<Rightarrow> ret None
        | Some (RArr vs) \<Rightarrow>
            bind (gets (\<lambda>w. collect_ready (collect_io_select_ready_i m
              (entry_list vs 0, entry_list vs 1, entry_list vs 2) w) count (tracked m w) [])) (\<lambda>fds.
            bind (if fds \<noteq> [] then ret (Waited False True 0) else timed_out S m) (\<lambda>outcome.
            bind (socket_actions S m fds) (\<lambda>_. ret (Some outcome))))
        | Some _ \<Rightarrow> bind (timed_out S m) (\<lambda>outcome. ret (Some outcome))) ?Q" for ready
  proof (cases ready)
    case None
    then show ?thesis by (simp add: triple_ret)
  next
    case (Some v)
    show ?thesis
      by (cases v; simp only: Some option.case rvalue.case; rule triple_post [OF late] triple_post [OF collected]; force)
  qed
  have select: "triple ?I ?K (case arrays of None \<Rightarrow> ret None
      | Some (r, wr, e) \<Rightarrow> bind (rb_fiber_scheduler_io_select S sch r wr e (wait_seconds S tv)) (\<lambda>ready.
          case ready of None \<Rightarrow> ret None
          | Some (RArr vs) \<Rightarrow>
              bind (gets (\<lambda>w. collect_ready (collect_io_select_ready_i m
                (entry_list vs 0, entry_list vs 1, entry_list vs 2) w) count (tracked m w) [])) (\<lambda>fds.
              bind (if fds \<noteq> [] then ret (Waited False True 0) else timed_out S m) (\<lambda>outcome.
              bind (socket_actions S m fds) (\<lambda>_. ret (Some outcome))))
          | Some _ \<Rightarrow> bind (timed_out S m) (\<lambda>outcome. ret (Some outcome)))) ?Q" for sch arrays
    using triple_bind [OF hook after] by (cases arrays) (auto simp: triple_ret)
  show ?thesis
    unfolding wait_io_select_def
    by (intro triple_if triple_bind [OF triple_quiet [OF scheduler_quiet [OF ok]]] triple_bind [OF build] triple_ret select)
      simp_all
qed

text \<open>The entry the loop waits on.\<close>

definition entry_of :: "(int, int) st_table option \<Rightarrow> int \<Rightarrow> int \<Rightarrow> bool" where
  "entry_of M fd what \<longleftrightarrow> fd < 0 \<or> (\<exists>t. M = Some t \<and> st_lookup t fd = Some what)"

lemma entry_io:
  assumes "socket_env_ok S m io_of" and "entry_of M fd what" and "\<not> fd < 0"
  shows "triple (sock_inv io_of m) (known io_of m M) (multi_socket_io_for_fd S m fd what) (\<lambda>_. sock_inv io_of m)"
proof -
  obtain t where "M = Some t" "st_lookup t fd = Some what" using assms(2,3) by (auto simp: entry_of_def)
  from triple_post [OF io_for_fd [OF assms(1) this]] show ?thesis by simp
qed

lemma forget_triple:
  assumes "socket_env_ok (S :: 'k socket_env) m io_of"
  shows "triple (sock_inv io_of m) (known io_of m M)
    (modify (upd_ctx m (multi_socket_forget_fd fd)) :: ('k, unit) scmd) (\<lambda>_. sock_inv io_of m)"
  by (rule triple_pre [OF kept_triple [OF assms forget_kept]]) simp

lemma representative_kept:
  assumes ok: "socket_env_ok S m io_of" and entry: "entry_of M fd what"
  shows "triple (sock_inv io_of m) (known io_of m M) (wait_representative S m fd what tv) (\<lambda>_. sock_inv io_of m)"
  unfolding wait_representative_def
  by (intro triple_if triple_bind [OF triple_quiet [OF scheduler_quiet [OF ok]]]
      triple_bind [OF triple_quiet [OF quiet_reads(3)]] triple_bind [OF forget_triple [OF ok]]
      triple_bind [OF entry_io [OF ok entry]] triple_bind [OF kept_triple [OF ok io_wait_kept]] triple_ret) simp_all

lemma io_wait_kept_one:
  assumes ok: "socket_env_ok S m io_of" and entry: "entry_of M fd what"
  shows "triple (sock_inv io_of m) (known io_of m M) (wait_io_wait S m fd what tv) (\<lambda>_. sock_inv io_of m)"
proof -
  have slept: "triple (sock_inv io_of m) (known io_of m M) (bind (curb_multi_scheduler_sleep (se_multi S) tv)
      (\<lambda>_. bind (timed_out S m) (\<lambda>outcome. ret (Some outcome)))) (\<lambda>_. sock_inv io_of m)"
    by (rule triple_pre [OF kept_triple [OF ok]]) (intro kept_intros, simp)
  show ?thesis
    unfolding wait_io_wait_def
    by (intro triple_if triple_bind [OF triple_quiet [OF scheduler_quiet [OF ok]]] slept
        triple_bind [OF triple_quiet [OF quiet_reads(3)]] triple_bind [OF forget_triple [OF ok]]
        triple_bind [OF entry_io [OF ok entry]] triple_bind [OF kept_triple [OF ok io_wait_kept]]
        triple_bind [OF kept_triple [OF ok outcome_kept]] triple_ret) simp_all
qed

lemma pick_one_entry: "sock_inv io_of m w \<Longrightarrow> entry_of (sock_map (ctx_of m w)) (fst (pick_one (tracked m w))) (snd (pick_one (tracked m w)))"
  using known_entry
  by (cases "tracked m w") (auto simp: entry_of_def pick_one_def tracked_def st_lookup_def split: option.splits)

lemma socket_wait_kept:
  assumes ok: "socket_env_ok S m io_of" and entry: "entry_of M (fst picked) (snd picked)"
  shows "triple (sock_inv io_of m) (known io_of m M) (socket_wait S m ms count picked) (\<lambda>_. sock_inv io_of m)"
proof -
  note kept = kept_triple [OF ok]
  have many: "triple (sock_inv io_of m) (known io_of m M) (wait_many S m count (fst picked) (snd picked) tv)
      (\<lambda>_. sock_inv io_of m)" for tv
  proof -
    have next_wait: "triple (sock_inv io_of m) (sock_inv io_of m)
        (case next_wait of Inl outcome \<Rightarrow> ret outcome | Inr rest \<Rightarrow> wait_select S m count rest) (\<lambda>_. sock_inv io_of m)" for next_wait
      by (cases next_wait) (auto intro: triple_ret kept select_kept)
    show ?thesis
      unfolding wait_many_def
      by (rule triple_bind [OF io_select_kept [OF ok]])
        (auto intro!: triple_ret triple_bind [OF representative_kept [OF ok entry] next_wait] split: option.split)
  qed
  have one: "triple (sock_inv io_of m) (known io_of m M) (wait_one S m (fst picked) (snd picked) tv)
      (\<lambda>_. sock_inv io_of m)" for tv
    unfolding wait_one_def
    by (rule triple_bind [OF io_wait_kept_one [OF ok entry]])
      (auto intro!: triple_ret kept single_kept socket_loop.pure split: option.split)
  have none: "triple (sock_inv io_of m) (known io_of m M) (bind (curb_multi_scheduler_sleep (se_multi S) tv)
      (\<lambda>_. ret (Waited True False 0))) (\<lambda>_. sock_inv io_of m)" for tv
    by (rule triple_pre [OF kept]) (intro kept_intros, simp)
  show ?thesis
    unfolding socket_wait_def Let_def by (intro triple_if many one none)
qed

section \<open>The loop\<close>

definition prog_keeps :: "('s \<Rightarrow> bool) \<Rightarrow> ('s, 'a) prog \<Rightarrow> bool" where
  "prog_keeps I c \<longleftrightarrow> (\<forall>w r v. I w \<longrightarrow> c w = Some (r, v) \<longrightarrow> I v)"

lemma prog_keepsD: "prog_keeps I c \<Longrightarrow> I w \<Longrightarrow> c w = Some (r, v) \<Longrightarrow> I v"
  unfolding prog_keeps_def by blast

lemma prog_bind: "prog_keeps I c \<Longrightarrow> (\<And>a. prog_keeps I (f a)) \<Longrightarrow> prog_keeps I (pbind c f)"
  unfolding prog_keeps_def
proof (intro allI impI)
  fix w r v assume keep: "\<forall>w r v. I w \<longrightarrow> c w = Some (r, v) \<longrightarrow> I v" "\<And>a. \<forall>w r v. I w \<longrightarrow> f a w = Some (r, v) \<longrightarrow> I v"
    and w: "I w" and eq: "pbind c f w = Some (r, v)"
  from eq obtain r1 u where u: "c w = Some (r1, u)" by (auto simp: pbind_def split: option.splits)
  then have "I u" using keep(1) w by blast
  show "I v"
  proof (cases r1)
    case (Inl e)
    then show ?thesis using eq u \<open>I u\<close> by (simp add: pbind_def)
  next
    case (Inr a)
    then have "f a u = Some (r, v)" using eq u by (simp add: pbind_def)
    then show ?thesis using keep(2) [of a] \<open>I u\<close> by blast
  qed
qed

lemma prog_if: "prog_keeps I c \<Longrightarrow> prog_keeps I d \<Longrightarrow> prog_keeps I (if b then c else d)"
  by simp

lemma prog_run:
  assumes "socket_env_ok S m io_of" and "keeps (ctx_kept S io_of m) c"
  shows "prog_keeps (sock_inv io_of m) (run c)"
  using keepsD [OF assms(2)] assms(1) by (fastforce simp: prog_keeps_def run_def ctx_kept_def)

lemma default_timeout_kept: "keeps (ctx_kept S io_of m) curb_multi_default_timeout"
  by (simp add: keeps_def curb_multi_default_timeout_def ctx_kept_def split: option.split)

lemma read_info_kept:
  assumes ok: "socket_env_ok S m io_of"
  shows "prog_keeps (sock_inv io_of m) (rb_curl_multi_read_info n (se_multi S) m)"
proof -
  have read: "ctx_kept S io_of m w (w\<lparr>lib := snd (curl_multi_info_read (se_multi S) h (lib w))\<rparr>)" for h w
    by (rule calls_back_kept) (rule socket_env_okD(3) [OF ok])
  have messages: "prog_keeps (sock_inv io_of m) (\<lambda>w. read_messages n (se_multi S) m (handle (rbcm_of m w)) w)"
    unfolding prog_keeps_def
  proof (intro allI impI)
    fix w r v assume w: "sock_inv io_of m w" and "read_messages n (se_multi S) m (handle (rbcm_of m w)) w = Some (r, v)"
    from read_messages_rel [OF socket_loop.completed_kept socket_loop.exception_stashed read socket_loop.reflexive
        socket_loop.transitive this(2)]
    show "sock_inv io_of m v" using ok w by (simp add: ctx_kept_def)
  qed
  have idle: "prog_keeps (sock_inv io_of m) (run (raise_multi_deferred_exception_if_idle m :: ('a, unit) scmd))"
    by (rule prog_run [OF ok])
      (auto simp: keeps_def raise_multi_deferred_exception_if_idle_def bind_def
        clear_multi_deferred_exception_if_any_def rb_exc_raise_def ctx_kept_def sock_inv_def split: option.splits)
  have "rb_curl_multi_read_info n (se_multi S) m =
      pbind (\<lambda>w. read_messages n (se_multi S) m (handle (rbcm_of m w)) w) (\<lambda>_. run (raise_multi_deferred_exception_if_idle m))"
    by (simp add: fun_eq_iff rb_curl_multi_read_info_def pbind_def)
  then show ?thesis using prog_bind [OF messages idle] by simp
qed

lemma yield_kept:
  assumes ok: "socket_env_ok S m io_of"
  shows "prog_keeps (sock_inv io_of m) (read_and_yield n S m block)"
  unfolding read_and_yield_def by (intro prog_bind read_info_kept [OF ok] prog_run [OF ok] kept_intros)

lemma wait_pass_kept:
  assumes ok: "socket_env_ok S m io_of"
  shows "prog_keeps (sock_inv io_of m) (socket_wait_pass n S m block limit)"
proof -
  have wait: "sock_inv io_of m v"
    if "sock_inv io_of m w" "socket_wait S m ms (length (tracked m w)) (pick_one (tracked m w)) w = (r, v)" for ms w r v
  proof -
    have "triple (sock_inv io_of m) (known io_of m (sock_map (ctx_of m w)))
        (socket_wait S m ms (length (tracked m w)) (pick_one (tracked m w))) (\<lambda>_. sock_inv io_of m)"
      by (rule socket_wait_kept [OF ok pick_one_entry [OF that(1)]])
    then show ?thesis using that unfolding triple_def by (cases r) fastforce+
  qed
  have next_round: "prog_keeps (sock_inv io_of m) (if outcome = Interrupted then run (ret ())
      else pbind (run (socket_dispatch S m count picked outcome)) (\<lambda>_. read_and_yield n S m block))" for outcome count picked
    by (intro prog_if prog_bind prog_run [OF ok] dispatch_kept yield_kept [OF ok] socket_loop.pure)
  have after: "prog_keeps (sock_inv io_of m) (pbind (run (gets (tracked m))) (\<lambda>t.
      pbind (run (socket_wait S m ms (length t) (pick_one t))) (\<lambda>outcome.
        if outcome = Interrupted then run (ret ())
        else pbind (run (socket_dispatch S m (length t) (pick_one t) outcome)) (\<lambda>_. read_and_yield n S m block))))" for ms
    unfolding prog_keeps_def
  proof (intro allI impI)
    fix w r v assume w: "sock_inv io_of m w" and eq: "pbind (run (gets (tracked m))) (\<lambda>t.
      pbind (run (socket_wait S m ms (length t) (pick_one t))) (\<lambda>outcome.
        if outcome = Interrupted then run (ret ())
        else pbind (run (socket_dispatch S m (length t) (pick_one t) outcome)) (\<lambda>_. read_and_yield n S m block))) w = Some (r, v)"
    obtain r1 w1 where w1: "socket_wait S m ms (length (tracked m w)) (pick_one (tracked m w)) w = (r1, w1)" by fastforce
    show "sock_inv io_of m v"
      using eq w1 wait [OF w w1] prog_keepsD [OF next_round]
      by (cases r1) (auto simp: pbind_def run_def gets_def simp del: if_split)
  qed
  show ?thesis
    unfolding socket_wait_pass_def by (intro prog_bind [OF prog_run [OF ok reads_kept(4)]] after)
qed

lemma pass_kept:
  assumes ok: "socket_env_ok S m io_of"
  shows "prog_keeps (sock_inv io_of m) (socket_pass n S m block)"
proof -
  have "keeps (ctx_kept S io_of m) (\<lambda>w. if running (rbcm_of m w) \<noteq> 0
       then bind (multi_socket_timer_due S m) (\<lambda>due.
              if due then curb_multi_scheduler_yield (se_multi S) else ret ()) w
       else (Inr (), w))"
  proof -
    have "keeps (ctx_kept S io_of m) (bind (multi_socket_timer_due S m) (\<lambda>due.
              if due then curb_multi_scheduler_yield (se_multi S) else ret ()))"
      by (intro kept_intros)
    then show ?thesis by (simp add: keeps_def socket_loop.reflexive)
  qed
  then have "prog_keeps (sock_inv io_of m) (socket_timer_pass n S m block)"
    unfolding socket_timer_pass_def by (intro prog_bind prog_run [OF ok] yield_kept [OF ok] timeout_kept)
  then show ?thesis
    unfolding socket_pass_def
    by (intro prog_bind prog_if prog_run [OF ok] default_timeout_kept reads_kept wait_pass_kept [OF ok])
qed

lemma while_kept:
  assumes ok: "socket_env_ok S m io_of"
  shows "prog_keeps (sock_inv io_of m) (socket_while n S m block)"
proof (induction n)
  case (Suc n)
  have "prog_keeps (sock_inv io_of m) (pbind (socket_pass n S m block) (\<lambda>_. socket_while n S m block))"
    by (intro prog_bind pass_kept [OF ok] Suc)
  then show ?case unfolding prog_keeps_def by (auto split: if_splits)
qed (simp add: prog_keeps_def)

lemma drive_kept:
  assumes ok: "socket_env_ok S m io_of"
  shows "prog_keeps (sock_inv io_of m) (rb_curl_multi_socket_drive n S m block)"
proof (induction n)
  case (Suc n)
  have again: "prog_keeps (sock_inv io_of m) (\<lambda>v. if running (rbcm_of m v) \<noteq> 0
      then rb_curl_multi_socket_drive n S m block v else Some (Inr (), v))"
    using Suc unfolding prog_keeps_def by auto
  have "prog_keeps (sock_inv io_of m) (\<lambda>w. rb_curl_multi_socket_drive (Suc n) S m block w)"
    unfolding rb_curl_multi_socket_drive.simps
    by (intro prog_bind prog_run [OF ok] action_kept yield_kept [OF ok] while_kept [OF ok] again)
  then show ?case .
qed (simp add: prog_keeps_def)

section \<open>A concrete libcurl and scheduler\<close>

text \<open>One transfer: the timer makes libcurl track descriptor 5 for reading, its event ends the transfer.
  The native state holds the options set; an IO object is represented by its arguments.\<close>

definition sample_socket_multi :: "(string \<Rightarrow> int) socket_state multi_env" where
  "sample_socket_multi = \<lparr>
     me_setup = sample_setup,
     curl_multi_init = (\<lambda>l. (Some 0, l)),
     curl_multi_cleanup = (\<lambda>_ l. l),
     curl_multi_add_handle = (\<lambda>_ _ l. (0, l)),
     curl_multi_remove_handle = (\<lambda>_ _ l. (0, l)),
     curl_multi_setopt = (\<lambda>_ opt v l. l\<lparr>native := (native l)(opt := v)\<rparr>),
     curl_multi_info_read = (\<lambda>_ l. (None, l)),
     curl_info_private = (\<lambda>_ _. None),
     curl_info_response_code = (\<lambda>_ _. 200),
     curl_info_redirect_count = (\<lambda>_ _. 0),
     curl_multi_perform = (\<lambda>_ w. ((0, 0), w)),
     curl_multi_timeout = (\<lambda>_ l. ((0, 50), l)),
     curl_multi_fdset = (\<lambda>_ l. ((0, 3), l)),
     curl_multi_wait = (\<lambda>_ _. ret (0, 1)),
     rb_send = (\<lambda>obj name args. if name = ''for_fd'' then ret (RArr args) else ret Qnil),
     multi_respond_to = (\<lambda>_ _. False),
     cRubyFiber = Qnil,
     rb_fiber_scheduler_current = ret (RObj 1),
     rb_fiber_scheduler_kernel_sleep = (\<lambda>_ _. ret Qnil),
     rb_float_new = (\<lambda>s _. RInt s),
     rb_thread_fd_select = (\<lambda>_ _. ret (1, 0)),
     strerror = (\<lambda>_. ''error'')\<rparr>"

definition sample_socket :: "(string \<Rightarrow> int) socket_env" where
  "sample_socket = \<lparr>
     se_multi = sample_socket_multi,
     clock_gettime = (\<lambda>k. (Some (1, 0), k)),
     gettimeofday = (\<lambda>k. ((1, 0), k)),
     fcntl_getfd = (\<lambda>_ k. ((0, 0), k)),
     curl_multi_socket_action = (\<lambda>_ fd flags w.
        if fd = CURL_SOCKET_TIMEOUT then ((0, 1), upd_ctx 0 (multi_socket_cb 5 CURL_POLL_IN) w)
        else ((0, 0), upd_ctx 0 (multi_socket_cb fd CURL_POLL_REMOVE) w)),
     cRubyIO = Qtrue,
     rb_fiber_scheduler_io_select = (\<lambda>_ _ _ _ _. ret None),
     rb_fiber_scheduler_io_wait = (\<lambda>_ _ events _. ret events),
     rb_wait_for_single_fd = (\<lambda>_ events _. ret (events, 0)),
     rb_select_fds = (\<lambda>_ sets _. ret ((1, 0), sets))\<rparr>"

fun sample_io :: "rvalue \<Rightarrow> int \<times> string" where
  "sample_io (RArr [RInt fd, RStr mode]) = (fd, mode)"
| "sample_io _ = (0, [])"

definition sample_socket_world :: "(string \<Rightarrow> int) sworld" where
  "sample_socket_world = \<lparr>
     easies = (\<lambda>_. sample_easy),
     multis = (\<lambda>_. \<lparr>rbcm = ruby_curl_multi_alloc\<lparr>handle := Some 0\<rparr>, deferred_exception = None,
        deferred_exception_source_id = None, requests = Some [], native_safety_signatures = None,
        idle_easy_references = None\<rparr>),
     cCurlMutiDefaulttimeout = 100, cCurlMutiAutoClose = False, ractor_storage = None,
     lib = \<lparr>native = (\<lambda>_. 0), ctxs = (\<lambda>_. \<lparr>sock_map = None, timeout_deadline_ms = -1, io_cache = None\<rparr>),
        io_cache_ivar = (\<lambda>_. False)\<rparr>\<rparr>"

lemmas sample_socket_simps = sample_socket_def sample_socket_multi_def multi_env.simps socket_env.simps

lemma sample_socket_ok: "socket_env_ok sample_socket 0 sample_io"
proof -
  have quiet: "calls_back 0 w w" "same_ctx 0 w w" for w :: "(string \<Rightarrow> int) sworld"
    by (simp_all add: calls_back_def same_ctx_def)
  have cb: "calls_back 0 w (upd_ctx 0 (multi_socket_cb fd what) w)" for fd what and w :: "(string \<Rightarrow> int) sworld"
    by (auto simp: calls_back_def intro: socket_event.socket)
  show ?thesis
    unfolding socket_env_ok_def io_objects_ok_def
    by (intro conjI allI impI) (auto simp: sample_socket_simps keeps_def ret_def quiet cb split: if_splits)
qed

lemma sample_macro [simp]: "have_macro (se_env sample_socket) x"
  by (simp add: sample_socket_simps sample_setup_def)

lemma sample_scheduler [simp]: "curb_fiber_scheduler_current (se_multi sample_socket) = ret (RObj 1)"
  using sample_macro by (simp add: curb_fiber_scheduler_current_def sample_socket_simps)

lemma sample_timer_action: "socket_action sample_socket 0 CURL_SOCKET_TIMEOUT 0 w =
    (Inr (), upd_rbcm 0 (\<lambda>c. c\<lparr>running := 1\<rparr>) (upd_ctx 0 (multi_socket_cb 5 CURL_POLL_IN) w))"
  by (simp add: socket_action_def sample_socket_simps ret_def)

lemma sample_fd_action: "0 \<le> fd \<Longrightarrow> socket_action sample_socket 0 fd flags w =
    (Inr (), upd_rbcm 0 (\<lambda>c. c\<lparr>running := 0\<rparr>) (upd_ctx 0 (multi_socket_cb fd CURL_POLL_REMOVE) w))"
  by (simp add: socket_action_def sample_socket_simps ret_def socket_constants)

lemma sample_read: "deferred_exception (multis w 0) = None \<Longrightarrow>
    read_and_yield (Suc n) sample_socket 0 Qnil w = Some (Inr (), w)"
  by (simp add: read_and_yield_def rb_curl_multi_read_info_def pbind_def run_def on_lib_eq sample_socket_simps
      raise_multi_deferred_exception_if_idle_def rb_curl_multi_yield_if_given_def ret_def)

definition sample_opened :: "multi_socket_ctx \<Rightarrow> multi_socket_ctx" where
  "sample_opened c = c\<lparr>io_cache := Some [(5, RArr [RInt 5, RStr ''r''])]\<rparr>"

lemma sample_io_for_fd:
  assumes "io_cache (ctx_of 0 w) = Some []"
  shows "multi_socket_io_for_fd sample_socket 0 5 CURL_POLL_IN w =
    (Inr (RArr [RInt 5, RStr ''r'']), upd_ctx 0 sample_opened w)"
proof -
  have "upd_ctx 0 (\<lambda>c. c\<lparr>io_cache := (case io_cache c of None \<Rightarrow> None
      | Some h \<Rightarrow> Some (st_insert h 5 (RArr [RInt 5, RStr ''r''])))\<rparr>) w = upd_ctx 0 sample_opened w"
    using assms by (simp add: upd_ctx_def ctx_of_def sample_opened_def)
  then show ?thesis
    using assms
    by (simp add: multi_socket_io_for_fd_def cached_io_def st_lookup_def sample_socket_simps bind_def ret_def
        modify_def multi_socket_io_mode_for_curl_poll_def)
qed

lemma sample_wait:
  assumes "io_cache (ctx_of 0 w) = Some []"
  shows "socket_wait sample_socket 0 ms (Suc 0) (5, CURL_POLL_IN) w =
    (Inr (Waited False True CURL_CSELECT_IN), upd_ctx 0 sample_opened w)"
proof -
  have valid: "multi_socket_fd_valid_p sample_socket 5 v = (Inr True, v)" for v
    by (simp add: multi_socket_fd_valid_p_def on_native_def sample_socket_simps bind_def ret_def)
  have wait: "curb_fiber_scheduler_io_wait sample_socket sch io (RInt (multi_socket_wait_events_for_curl_poll CURL_POLL_IN)) d =
      ret (RInt RB_WAITFD_IN)" for sch io d
    using sample_macro
    by (simp add: curb_fiber_scheduler_io_wait_def sample_socket_simps multi_socket_wait_events_for_curl_poll_def)
  have outcome: "io_wait_outcome sample_socket 0 what (RInt RB_WAITFD_IN) v = (Inr (Waited False True CURL_CSELECT_IN), v)" for what v
    by (simp add: io_wait_outcome_def NUM2SIGNED_def socket_constants bind_def lift_res_def ret_def
        multi_socket_cselect_flags_for_wait_events_def)
  show ?thesis
    using assms
    by (simp add: socket_wait_def wait_one_def wait_io_wait_def Let_def bind_def ret_def valid wait outcome sample_io_for_fd)
qed

lemma sample_dispatch: "socket_dispatch sample_socket 0 (Suc 0) (5, CURL_POLL_IN) (Waited False True CURL_CSELECT_IN) w =
    (Inr (), upd_rbcm 0 (\<lambda>c. c\<lparr>running := 0\<rparr>) (upd_ctx 0 (multi_socket_cb 5 CURL_POLL_REMOVE) w))"
  by (simp add: socket_dispatch_def sample_fd_action)

lemma upd_ctx_reads [simp]:
  "multis (upd_ctx m f w) = multis w" "ractor_storage (upd_ctx m f w) = ractor_storage w"
  "rbcm_of n (upd_ctx m f w) = rbcm_of n w"
  by (simp_all add: upd_ctx_def rbcm_of_def)

lemma upd_rbcm_reads [simp]:
  "deferred_exception (multis (upd_rbcm m g w) n) = deferred_exception (multis w n)"
  "ractor_storage (upd_rbcm m g w) = ractor_storage w"
  by (simp_all add: upd_rbcm_def upd_object_def)

lemma sample_pass:
  assumes "ctx_of 0 w = \<lparr>sock_map = Some [(5, CURL_POLL_IN)], timeout_deadline_ms = -1, io_cache = Some []\<rparr>"
    and "deferred_exception (multis w 0) = None" and "ractor_storage w = None"
  shows "socket_pass (Suc n) sample_socket 0 Qnil w = Some (Inr (),
    upd_rbcm 0 (\<lambda>c. c\<lparr>running := 0\<rparr>) (upd_ctx 0 (multi_socket_cb 5 CURL_POLL_REMOVE) (upd_ctx 0 sample_opened w)))"
  using assms
  by (simp add: socket_pass_def pbind_def run_def curb_multi_default_timeout_def curb_multi_ractor_setting_def
      multi_socket_timer_due_def socket_wait_pass_def socket_wait_ms_def gets_def tracked_def pick_one_def sample_wait
      sample_dispatch sample_read)

lemma sample_drive:
  "\<exists>v. rb_curl_multi_socket_drive 4 sample_socket 0 Qnil
       (socket_context_installed sample_socket 0 sample_socket_world) = Some (Inr (), v) \<and>
     sock_map (ctx_of 0 v) = Some [] \<and> handle (rbcm_of 0 v) = Some 0"
proof -
  let ?w = "socket_context_installed sample_socket 0 sample_socket_world"
  let ?w1 = "upd_rbcm 0 (\<lambda>c. c\<lparr>running := 1\<rparr>) (upd_ctx 0 (multi_socket_cb 5 CURL_POLL_IN) ?w)"
  let ?w2 = "upd_rbcm 0 (\<lambda>c. c\<lparr>running := 0\<rparr>) (upd_ctx 0 (multi_socket_cb 5 CURL_POLL_REMOVE) (upd_ctx 0 sample_opened ?w1))"
  have idle: "deferred_exception (multis ?w 0) = None" "ractor_storage ?w = None"
    by (simp_all add: socket_context_installed_def set_socket_options_def sample_socket_world_def Let_def)
  have w: "ctx_of 0 ?w = \<lparr>sock_map = Some [], timeout_deadline_ms = -1, io_cache = Some []\<rparr>"
    by (simp add: socket_context_installed_def set_socket_options_def Let_def ctx_of_def upd_ctx_def sample_socket_simps
        st_init_numtable_def)
  have w1: "ctx_of 0 ?w1 = \<lparr>sock_map = Some [(5, CURL_POLL_IN)], timeout_deadline_ms = -1, io_cache = Some []\<rparr>"
    using w by (simp add: multi_socket_cb_def socket_constants st_lookup_def)
  have run: "running (rbcm_of 0 ?w1) = 1" "running (rbcm_of 0 ?w2) = 0" by (simp_all add: world_simps)
  have "socket_pass (Suc n) sample_socket 0 Qnil ?w1 = Some (Inr (), ?w2)" for n
    using sample_pass [OF w1] idle by simp
  then have loop: "socket_while (Suc (Suc (Suc n))) sample_socket 0 Qnil ?w1 = Some (Inr (), ?w2)" for n
    using run by (simp add: pbind_def)
  have "rb_curl_multi_socket_drive (Suc (Suc (Suc (Suc n)))) sample_socket 0 Qnil ?w = Some (Inr (), ?w2)" for n
    unfolding rb_curl_multi_socket_drive.simps pbind_def run_def
    using run idle loop [of n] by (simp add: sample_timer_action sample_read)
  then have "rb_curl_multi_socket_drive 4 sample_socket 0 Qnil ?w = Some (Inr (), ?w2)" by (simp add: numeral_eq_Suc)
  moreover have "sock_map (ctx_of 0 ?w2) = Some []"
    using w1 by (simp add: multi_socket_cb_def multi_socket_forget_fd_def sample_opened_def st_delete_def socket_constants)
  moreover have "handle (rbcm_of 0 ?w2) = Some 0"
    by (simp add: world_simps socket_context_installed_def set_socket_options_def Let_def)
      (simp add: sample_socket_world_def rbcm_of_def)
  ultimately show ?thesis by blast
qed

section \<open>Properties of the loop\<close>

text \<open>
  C15: The IO objects of the loop always match what libcurl waits for. Whatever callbacks libcurl, user
  code and other fibers cause, and however the loop ends, the table holds valid descriptors with an
  interest, every cached IO object belongs to a tracked descriptor, and asking for the IO object of a
  tracked descriptor gives one for this descriptor that is open in the mode of its current interest.
\<close>

theorem io_objects_match_interest:
  assumes "socket_env_ok S m io_of" and "ctx_ok io_of (ctx_of m w)"
    and "rb_curl_multi_socket_drive n S m block w = Some (r, v)"
  shows "ctx_ok io_of (ctx_of m v) \<and>
     (\<forall>fd what io u. st_lookup (tracked m v) fd = Some what \<longrightarrow>
        multi_socket_io_for_fd S m fd what v = (Inr io, u) \<longrightarrow> io \<noteq> Qnil \<longrightarrow>
        0 \<le> fd \<and> io_of io = (fd, multi_socket_io_mode_for_curl_poll what) \<and>
        tracked m u = tracked m v \<and> ctx_ok io_of (ctx_of m u))"
proof -
  have v: "sock_inv io_of m v"
    using prog_keepsD [OF drive_kept [OF assms(1)] _ assms(3)] assms(2) by (simp add: sock_inv_def)
  have "0 \<le> fd \<and> io_of io = (fd, multi_socket_io_mode_for_curl_poll what) \<and> known io_of m (sock_map (ctx_of m v)) u"
    if look: "st_lookup (tracked m v) fd = Some what" and io: "multi_socket_io_for_fd S m fd what v = (Inr io, u)" "io \<noteq> Qnil"
    for fd what io u
  proof -
    obtain t where t: "sock_map (ctx_of m v) = Some t" "st_lookup t fd = Some what"
      using look by (auto simp: tracked_def st_lookup_def split: option.splits)
    have "0 \<le> fd" using ctx_ok_table(2) [OF _ t] v by (simp add: sock_inv_def)
    moreover have "known io_of m (sock_map (ctx_of m v)) v" using v by simp
    ultimately show ?thesis using io_for_fd [OF assms(1) t] io unfolding triple_def by fastforce
  qed
  then show ?thesis using v unfolding sock_inv_def tracked_def by fastforce
qed

theorem io_objects_match_interest_witness:
  "\<exists>v. rb_curl_multi_socket_drive 4 sample_socket 0 Qnil
       (socket_context_installed sample_socket 0 sample_socket_world) = Some (Inr (), v) \<and>
     ctx_ok sample_io (ctx_of 0 v)"
proof -
  obtain v where v: "rb_curl_multi_socket_drive 4 sample_socket 0 Qnil
       (socket_context_installed sample_socket 0 sample_socket_world) = Some (Inr (), v)"
    using sample_drive by blast
  have "ctx_of 0 (socket_context_installed sample_socket 0 sample_socket_world) =
      \<lparr>sock_map = Some st_init_numtable, timeout_deadline_ms = -1, io_cache = Some st_init_numtable\<rparr>"
    by (simp add: socket_context_installed_def set_socket_options_def Let_def ctx_of_def upd_ctx_def sample_socket_simps)
  then have "ctx_ok sample_io (ctx_of 0 (socket_context_installed sample_socket 0 sample_socket_world))"
    by (simp add: ctx_ok_new)
  from io_objects_match_interest [OF sample_socket_ok this v] v show ?thesis by blast
qed

theorem socket_wait_within_deadline_witness:
  "\<exists>v. socket_wait_ms sample_socket 0 2500 sample_socket_world = (Inr 2500, v) \<and> wait_timeval 2500 = (2, 500000)"
proof -
  have wait: "socket_wait_ms sample_socket 0 2500 sample_socket_world = (Inr 2500, sample_socket_world)"
    by (simp add: socket_wait_ms_def ctx_of_def sample_socket_world_def)
  have tv: "wait_timeval 2500 = (2, 500000)" by (simp add: wait_timeval_def signed_divide_int_def signed_modulo_int_def)
  from socket_wait_within_deadline [OF wait _ tv] wait tv show ?thesis by blast
qed

text \<open>
  C16: The context does not outlive the loop. However the loop ends, by returning or raising, libcurl has
  no callback and no pointer to the context any more, the table and the hash of IO objects are gone,
  and a callback that came late would change nothing of the table and the hash. \<open>options\<close> is what
  libcurl keeps of the options it was given.
\<close>

theorem socket_context_ends_with_loop:
  assumes "\<And>h opt p l. options (curl_multi_setopt (se_multi S) h opt p l) = (options l)(opt := p)"
    and "\<And>l l'. native l = native l' \<Longrightarrow> options l = options l'"
    and "socket_driven n S m block w = Some (r, v)"
  shows "(handle (rbcm_of m v) \<noteq> None \<longrightarrow> (\<forall>opt \<in> {''CURLMOPT_SOCKETFUNCTION'', ''CURLMOPT_SOCKETDATA'',
       ''CURLMOPT_TIMERFUNCTION'', ''CURLMOPT_TIMERDATA''}. options (lib v) opt = 0)) \<and>
     sock_map (ctx_of m v) = None \<and> io_cache (ctx_of m v) = None \<and> \<not> io_cache_ivar (lib v) m \<and>
     multi_socket_cb fd what (ctx_of m v) = ctx_of m v"
proof -
  obtain r1 u where u: "rb_curl_multi_socket_drive n S m block (socket_context_installed S m w) = Some (r1, u)"
    using assms(3) by (auto simp: socket_driven_def pensure_def split: option.splits)
  let ?u = "if handle (rbcm_of m u) = None then u else set_socket_options S m 0 u"
  let ?v = "upd_ctx m (\<lambda>c. c\<lparr>sock_map := None, io_cache := None\<rparr>) ?u"
  have v: "v = ?v\<lparr>lib := (lib ?v)\<lparr>io_cache_ivar := (io_cache_ivar (lib ?v))(m := False)\<rparr>\<rparr>"
    using assms(3) u
    by (simp add: socket_driven_def pensure_def ruby_curl_multi_socket_drive_ensure_def bind_def modify_def)
  have "native (lib v) = native (lib ?u)" by (simp add: v upd_ctx_def)
  then have options: "options (lib v) = options (lib ?u)" by (rule assms(2))
  have "handle (rbcm_of m v) = handle (rbcm_of m u)" by (simp add: v upd_ctx_def set_socket_options_def rbcm_of_def)
  then show ?thesis
    using options by (auto simp: set_socket_options_def assms(1)) (simp_all add: v ctx_of_def upd_ctx_def multi_socket_cb_def)
qed

theorem socket_context_ends_with_loop_witness:
  "\<exists>v. socket_driven 4 sample_socket 0 Qnil sample_socket_world = Some (Inr (), v) \<and>
     native (lib v) ''CURLMOPT_SOCKETDATA'' = 0 \<and> sock_map (ctx_of 0 v) = None"
proof -
  obtain u where u: "rb_curl_multi_socket_drive 4 sample_socket 0 Qnil
       (socket_context_installed sample_socket 0 sample_socket_world) = Some (Inr (), u)" "handle (rbcm_of 0 u) = Some 0"
    using sample_drive by blast
  then obtain v where v: "socket_driven 4 sample_socket 0 Qnil sample_socket_world = Some (Inr (), v)"
      "handle (rbcm_of 0 v) = Some 0"
    by (simp add: socket_driven_def pensure_def ruby_curl_multi_socket_drive_ensure_def bind_def modify_def
        set_socket_options_def world_simps)
  have law: "native (curl_multi_setopt (se_multi sample_socket) h opt p l) = (native l)(opt := p)" for h opt p l
    by (simp add: sample_socket_simps)
  from socket_context_ends_with_loop [OF law _ v(1), of undefined undefined] v show ?thesis by simp
qed

end
