(* ===== verification/Curb_Core.thy ===== *)
theory Curb_Core
  imports Curb_Easy_State
begin

text \<open>
  The \<open>Curl\<close> module of \<open>ext/curb.c\<close>: the constants \<open>Init_curb_core\<close> defines, with the preprocessor
  conditions around each, the warnings Ruby gives for a constant that is defined again, the mark for
  Ractors and the questions about the features of the installed libcurl. The values of the C macros, the
  version data and the feature bits of libcurl are parameters (\<open>core_env\<close>).
\<close>

unbundle bit_operations_syntax

section \<open>Parameters\<close>

record core_env =
  ce_env :: curl_env
  macro_number :: "string \<Rightarrow> int"
  version_features :: int
  version_text :: string
  curl_version_text :: string

section \<open>Constants\<close>

text \<open>A value is a C macro, a number, or one of both depending on a macro; a constant is defined where
  all the conditions around it hold.\<close>

datatype const_value = Macro string | Number int | IfDefined string const_value const_value

datatype preproc_guard = Defined string | Undefined string | Version nat

type_synonym core_constant = "preproc_guard list \<times> string \<times> const_value"

fun const_number :: "core_env \<Rightarrow> const_value \<Rightarrow> int" where
  "const_number C (Macro n) = macro_number C n"
| "const_number C (Number i) = i"
| "const_number C (IfDefined m v w) = (if have_macro (ce_env C) m then const_number C v else const_number C w)"

fun guard_holds :: "curl_env \<Rightarrow> preproc_guard \<Rightarrow> bool" where
  "guard_holds env (Defined m) = have_macro env m"
| "guard_holds env (Undefined m) = (\<not> have_macro env m)"
| "guard_holds env (Version n) = (n \<le> libcurl_version_num env)"

definition always :: "string \<times> const_value \<Rightarrow> core_constant" where
  "always c = ([], c)"

definition only_if :: "preproc_guard list \<Rightarrow> string \<times> const_value \<Rightarrow> core_constant" where
  "only_if gs c = (gs, c)"

definition CURB_DEFINE :: "string \<Rightarrow> string \<times> const_value" where
  "CURB_DEFINE name = (name, Macro name)"

definition defined_if_available :: "string \<Rightarrow> core_constant" where
  "defined_if_available name = only_if [Defined (''HAVE_'' @ name)] (CURB_DEFINE name)"

definition core_constants_1 :: "core_constant list" where
  "core_constants_1 = [
     always (''CURLINFO_TEXT'', Macro ''CURLINFO_TEXT''),
     always (''CURLINFO_HEADER_IN'', Macro ''CURLINFO_HEADER_IN''),
     always (''CURLINFO_HEADER_OUT'', Macro ''CURLINFO_HEADER_OUT''),
     always (''CURLINFO_DATA_IN'', Macro ''CURLINFO_DATA_IN''),
     always (''CURLINFO_DATA_OUT'', Macro ''CURLINFO_DATA_OUT''),
     only_if [Defined ''HAVE_CURLFTPMETHOD_MULTICWD''] (''CURL_MULTICWD'', Macro ''CURLFTPMETHOD_MULTICWD''),
     only_if [Defined ''HAVE_CURLFTPMETHOD_NOCWD''] (''CURL_NOCWD'', Macro ''CURLFTPMETHOD_NOCWD''),
     only_if [Defined ''HAVE_CURLFTPMETHOD_SINGLECWD''] (''CURL_SINGLECWD'', Macro ''CURLFTPMETHOD_SINGLECWD''),
     always (''CURLPROXY_HTTP'', IfDefined ''HAVE_CURLPROXY_HTTP'' (Macro ''CURLPROXY_HTTP'') (Number (-1))),
     only_if [Defined ''CURL_VERSION_SSL''] (''CURL_SSLVERSION_DEFAULT'', Macro ''CURL_SSLVERSION_DEFAULT''),
     only_if [Defined ''CURL_VERSION_SSL''] (''CURL_SSLVERSION_MAX_DEFAULT'', Macro ''CURL_SSLVERSION_MAX_DEFAULT''),
     only_if [Defined ''CURL_VERSION_SSL''] (''CURL_SSLVERSION_TLSv1'', Macro ''CURL_SSLVERSION_TLSv1''),
     only_if [Defined ''CURL_VERSION_SSL''] (''CURL_SSLVERSION_SSLv2'', Macro ''CURL_SSLVERSION_SSLv2''),
     only_if [Defined ''CURL_VERSION_SSL''] (''CURL_SSLVERSION_SSLv3'', Macro ''CURL_SSLVERSION_SSLv3''),
     only_if [Defined ''CURL_VERSION_SSL'', Defined ''HAVE_CURL_SSLVERSION_TLSV1_0''] (''CURL_SSLVERSION_TLSv1_0'', Macro ''CURL_SSLVERSION_TLSv1_0''),
     only_if [Defined ''CURL_VERSION_SSL'', Defined ''HAVE_CURL_SSLVERSION_TLSV1_0''] (''CURL_SSLVERSION_MAX_TLSv1_0'', Macro ''CURL_SSLVERSION_MAX_TLSv1_0''),
     only_if [Defined ''CURL_VERSION_SSL'', Defined ''HAVE_CURL_SSLVERSION_TLSV1_1''] (''CURL_SSLVERSION_TLSv1_1'', Macro ''CURL_SSLVERSION_TLSv1_1''),
     only_if [Defined ''CURL_VERSION_SSL'', Defined ''HAVE_CURL_SSLVERSION_TLSV1_1''] (''CURL_SSLVERSION_MAX_TLSv1_1'', Macro ''CURL_SSLVERSION_MAX_TLSv1_1''),
     only_if [Defined ''CURL_VERSION_SSL'', Defined ''HAVE_CURL_SSLVERSION_TLSV1_2''] (''CURL_SSLVERSION_TLSv1_2'', Macro ''CURL_SSLVERSION_TLSv1_2''),
     only_if [Defined ''CURL_VERSION_SSL'', Defined ''HAVE_CURL_SSLVERSION_TLSV1_2''] (''CURL_SSLVERSION_MAX_TLSv1_2'', Macro ''CURL_SSLVERSION_MAX_TLSv1_2''),
     only_if [Defined ''CURL_VERSION_SSL'', Defined ''HAVE_CURL_SSLVERSION_TLSV1_3''] (''CURL_SSLVERSION_TLSv1_3'', Macro ''CURL_SSLVERSION_TLSv1_3''),
     only_if [Defined ''CURL_VERSION_SSL'', Defined ''HAVE_CURL_SSLVERSION_TLSV1_3''] (''CURL_SSLVERSION_MAX_TLSv1_3'', Macro ''CURL_SSLVERSION_MAX_TLSv1_3''),
     only_if [Defined ''CURL_VERSION_SSL''] (''CURL_USESSL_CONTROL'', Macro ''CURB_FTPSSL_CONTROL''),
     only_if [Defined ''CURL_VERSION_SSL''] (''CURL_USESSL_NONE'', Macro ''CURB_FTPSSL_NONE''),
     only_if [Defined ''CURL_VERSION_SSL''] (''CURL_USESSL_TRY'', Macro ''CURB_FTPSSL_TRY''),
     only_if [Defined ''CURL_VERSION_SSL''] (''CURL_USESSL_ALL'', Macro ''CURB_FTPSSL_ALL''),
     only_if [Undefined ''CURL_VERSION_SSL''] (''CURL_SSLVERSION_DEFAULT'', Number (-1)),
     only_if [Undefined ''CURL_VERSION_SSL''] (''CURL_SSLVERSION_TLSv1'', Number (-1)),
     only_if [Undefined ''CURL_VERSION_SSL''] (''CURL_SSLVERSION_SSLv2'', Number (-1)),
     only_if [Undefined ''CURL_VERSION_SSL''] (''CURL_SSLVERSION_SSLv3'', Number (-1)),
     only_if [Undefined ''CURL_VERSION_SSL'', Defined ''HAVE_CURL_SSLVERSION_TLSv1_0''] (''CURL_SSLVERSION_TLSv1_0'', Number (-1)),
     only_if [Undefined ''CURL_VERSION_SSL'', Defined ''HAVE_CURL_SSLVERSION_TLSv1_0''] (''CURL_SSLVERSION_MAX_TLSv1_0'', Number (-1)),
     only_if [Undefined ''CURL_VERSION_SSL'', Defined ''HAVE_CURL_SSLVERSION_TLSv1_1''] (''CURL_SSLVERSION_TLSv1_1'', Number (-1)),
     only_if [Undefined ''CURL_VERSION_SSL'', Defined ''HAVE_CURL_SSLVERSION_TLSv1_1''] (''CURL_SSLVERSION_MAX_TLSv1_1'', Number (-1)),
     only_if [Undefined ''CURL_VERSION_SSL'', Defined ''HAVE_CURL_SSLVERSION_TLSv1_2''] (''CURL_SSLVERSION_TLSv1_2'', Number (-1)),
     only_if [Undefined ''CURL_VERSION_SSL'', Defined ''HAVE_CURL_SSLVERSION_TLSv1_2''] (''CURL_SSLVERSION_MAX_TLSv1_2'', Number (-1)),
     only_if [Undefined ''CURL_VERSION_SSL'', Defined ''HAVE_CURL_SSLVERSION_TLSv1_3''] (''CURL_SSLVERSION_TLSv1_3'', Number (-1)),
     only_if [Undefined ''CURL_VERSION_SSL'', Defined ''HAVE_CURL_SSLVERSION_TLSv1_3''] (''CURL_SSLVERSION_MAX_TLSv1_3'', Number (-1)),
     only_if [Undefined ''CURL_VERSION_SSL''] (''CURL_USESSL_CONTROL'', Number (-1)),
     only_if [Undefined ''CURL_VERSION_SSL''] (''CURL_USESSL_NONE'', Number (-1)),
     only_if [Undefined ''CURL_VERSION_SSL''] (''CURL_USESSL_TRY'', Number (-1)),
     only_if [Undefined ''CURL_VERSION_SSL''] (''CURL_USESSL_ALL'', Number (-1)),
     always (''CURLPROXY_SOCKS4'', IfDefined ''HAVE_CURLPROXY_SOCKS4'' (Macro ''CURLPROXY_SOCKS4'') (Number (-2))),
     always (''CURLPROXY_SOCKS4A'', IfDefined ''HAVE_CURLPROXY_SOCKS4A'' (Macro ''CURLPROXY_SOCKS4A'') (Number (-2))),
     always (''CURLPROXY_SOCKS5'', IfDefined ''HAVE_CURLPROXY_SOCKS5'' (Macro ''CURLPROXY_SOCKS5'') (Number (-2))),
     always (''CURLPROXY_SOCKS5_HOSTNAME'', IfDefined ''HAVE_CURLPROXY_SOCKS5_HOSTNAME'' (Macro ''CURLPROXY_SOCKS5_HOSTNAME'') (Number (-2))),
     always (''CURLAUTH_BASIC'', IfDefined ''HAVE_CURLAUTH_BASIC'' (Macro ''CURLAUTH_BASIC'') (Number 0)),
     always (''CURLAUTH_DIGEST'', IfDefined ''HAVE_CURLAUTH_DIGEST'' (Macro ''CURLAUTH_DIGEST'') (Number 0)),
     always (''CURLAUTH_GSSNEGOTIATE'', IfDefined ''HAVE_CURLAUTH_GSSNEGOTIATE'' (Macro ''CURLAUTH_GSSNEGOTIATE'') (Number 0)),
     always (''CURLAUTH_NTLM'', IfDefined ''HAVE_CURLAUTH_NTLM'' (Macro ''CURLAUTH_NTLM'') (Number 0))]"

definition core_constants_2 :: "core_constant list" where
  "core_constants_2 = [
     always (''CURLAUTH_ANYSAFE'', IfDefined ''HAVE_CURLAUTH_ANYSAFE'' (Macro ''CURLAUTH_ANYSAFE'') (Number 0)),
     always (''CURLAUTH_ANY'', IfDefined ''HAVE_CURLAUTH_ANY'' (Macro ''CURLAUTH_ANY'') (Number 0)),
     always (CURB_DEFINE ''CURLOPT_VERBOSE''),
     always (CURB_DEFINE ''CURLOPT_HEADER''),
     always (CURB_DEFINE ''CURLOPT_NOPROGRESS''),
     always (CURB_DEFINE ''CURLOPT_NOSIGNAL''),
     defined_if_available ''CURLOPT_PATH_AS_IS'',
     always (CURB_DEFINE ''CURLOPT_WRITEFUNCTION''),
     always (CURB_DEFINE ''CURLOPT_WRITEDATA''),
     always (CURB_DEFINE ''CURLOPT_READFUNCTION''),
     always (CURB_DEFINE ''CURLOPT_READDATA''),
     defined_if_available ''CURLOPT_IOCTLFUNCTION'',
     defined_if_available ''CURLOPT_IOCTLDATA'',
     defined_if_available ''CURLOPT_SEEKFUNCTION'',
     defined_if_available ''CURLOPT_SEEKDATA'',
     defined_if_available ''CURLOPT_SOCKOPTFUNCTION'',
     defined_if_available ''CURLOPT_SOCKOPTDATA'',
     defined_if_available ''CURLOPT_OPENSOCKETFUNCTION'',
     defined_if_available ''CURLOPT_OPENSOCKETDATA'',
     defined_if_available ''CURLOPT_PREREQFUNCTION'',
     defined_if_available ''CURLOPT_PREREQDATA'',
     defined_if_available ''CURLOPT_PROGRESSFUNCTION'',
     defined_if_available ''CURLOPT_PROGRESSDATA'',
     defined_if_available ''CURLOPT_XFERINFOFUNCTION'',
     defined_if_available ''CURLOPT_XFERINFODATA'',
     always (CURB_DEFINE ''CURLOPT_HEADERFUNCTION''),
     always (CURB_DEFINE ''CURLOPT_WRITEHEADER''),
     always (CURB_DEFINE ''CURLOPT_DEBUGFUNCTION''),
     always (CURB_DEFINE ''CURLOPT_DEBUGDATA''),
     always (CURB_DEFINE ''CURLOPT_SSL_CTX_FUNCTION''),
     always (CURB_DEFINE ''CURLOPT_SSL_CTX_DATA''),
     defined_if_available ''CURLOPT_CONV_TO_NETWORK_FUNCTION'',
     defined_if_available ''CURLOPT_CONV_FROM_NETWORK_FUNCTION'',
     defined_if_available ''CURLOPT_CONV_FROM_UTF8_FUNCTION'',
     defined_if_available ''CURLOPT_INTERLEAVEFUNCTION'',
     defined_if_available ''CURLOPT_INTERLEAVEDATA'',
     defined_if_available ''CURLOPT_CHUNK_BGN_FUNCTION'',
     defined_if_available ''CURLOPT_CHUNK_END_FUNCTION'',
     defined_if_available ''CURLOPT_CHUNK_DATA'',
     defined_if_available ''CURLOPT_FNMATCH_FUNCTION'',
     defined_if_available ''CURLOPT_FNMATCH_DATA'',
     defined_if_available ''CURLOPT_ERRORBUFFER'',
     defined_if_available ''CURLOPT_STDERR'',
     defined_if_available ''CURLOPT_FAILONERROR'',
     always (CURB_DEFINE ''CURLOPT_URL''),
     defined_if_available ''CURLOPT_PROTOCOLS'',
     defined_if_available ''CURLOPT_PROTOCOLS_STR'',
     defined_if_available ''CURLOPT_REDIR_PROTOCOLS'',
     defined_if_available ''CURLOPT_REDIR_PROTOCOLS_STR'',
     always (CURB_DEFINE ''CURLOPT_PROXY''),
     always (CURB_DEFINE ''CURLOPT_PROXYPORT''),
     defined_if_available ''CURLOPT_PROXYTYPE'',
     defined_if_available ''CURLOPT_NOPROXY'',
     always (CURB_DEFINE ''CURLOPT_HTTPPROXYTUNNEL''),
     defined_if_available ''CURLOPT_SOCKS5_GSSAPI_SERVICE'']"

definition core_constants_3 :: "core_constant list" where
  "core_constants_3 = [
     defined_if_available ''CURLOPT_PROXY_SERVICE_NAME'',
     defined_if_available ''CURLOPT_SOCKS5_GSSAPI_NEC'',
     always (CURB_DEFINE ''CURLOPT_INTERFACE''),
     defined_if_available ''CURLOPT_LOCALPORT'',
     always (CURB_DEFINE ''CURLOPT_DNS_CACHE_TIMEOUT''),
     defined_if_available ''CURLOPT_DNS_SERVERS'',
     defined_if_available ''CURLOPT_DNS_USE_GLOBAL_CACHE'',
     always (CURB_DEFINE ''CURLOPT_BUFFERSIZE''),
     always (CURB_DEFINE ''CURLOPT_PORT''),
     always (CURB_DEFINE ''CURLOPT_TCP_NODELAY''),
     defined_if_available ''CURLOPT_ADDRESS_SCOPE'',
     always (CURB_DEFINE ''CURLOPT_NETRC''),
     always (CURB_DEFINE ''CURL_NETRC_OPTIONAL''),
     always (CURB_DEFINE ''CURL_NETRC_IGNORED''),
     always (CURB_DEFINE ''CURL_NETRC_REQUIRED''),
     defined_if_available ''CURLOPT_NETRC_FILE'',
     always (CURB_DEFINE ''CURLOPT_USERPWD''),
     always (CURB_DEFINE ''CURLOPT_PROXYUSERPWD''),
     defined_if_available ''CURLOPT_USERNAME'',
     defined_if_available ''CURLOPT_PASSWORD'',
     only_if [Defined ''HAVE_CURLOPT_PROXYUSERNAME''] (CURB_DEFINE ''CURLOPT_PASSWORD''),
     only_if [Defined ''HAVE_CURLOPT_PROXYPASSWORD''] (CURB_DEFINE ''CURLOPT_PASSWORD''),
     defined_if_available ''CURLOPT_HTTPAUTH'',
     defined_if_available ''CURLAUTH_DIGEST_IE'',
     defined_if_available ''CURLAUTH_ONLY'',
     defined_if_available ''CURLOPT_TLSAUTH_TYPE'',
     defined_if_available ''CURLOPT_TLSAUTH_SRP'',
     defined_if_available ''CURLOPT_TLSAUTH_USERNAME'',
     defined_if_available ''CURLOPT_TLSAUTH_PASSWORD'',
     defined_if_available ''CURLOPT_PROXYAUTH'',
     defined_if_available ''CURLOPT_AUTOREFERER'',
     defined_if_available ''CURLOPT_ENCODING'',
     defined_if_available ''CURLOPT_FOLLOWLOCATION'',
     defined_if_available ''CURLOPT_UNRESTRICTED_AUTH'',
     defined_if_available ''CURLOPT_MAXREDIRS'',
     defined_if_available ''CURLOPT_POSTREDIR'',
     defined_if_available ''CURLOPT_PUT'',
     defined_if_available ''CURLOPT_POST'',
     always (CURB_DEFINE ''CURLOPT_POSTFIELDS''),
     always (CURB_DEFINE ''CURLOPT_POSTFIELDSIZE''),
     defined_if_available ''CURLOPT_POSTFIELDSIZE_LARGE'',
     defined_if_available ''CURLOPT_COPYPOSTFIELDS'',
     defined_if_available ''CURLOPT_HTTPPOST'',
     defined_if_available ''CURLOPT_MIMEPOST'',
     always (CURB_DEFINE ''CURLOPT_REFERER''),
     always (CURB_DEFINE ''CURLOPT_USERAGENT''),
     always (CURB_DEFINE ''CURLOPT_HTTPHEADER''),
     defined_if_available ''CURLOPT_PROXYHEADER'',
     defined_if_available ''CURLOPT_REQUEST_TARGET'',
     defined_if_available ''CURLOPT_HTTP200ALIASES'',
     always (CURB_DEFINE ''CURLOPT_COOKIE''),
     always (CURB_DEFINE ''CURLOPT_COOKIEFILE''),
     always (CURB_DEFINE ''CURLOPT_COOKIEJAR''),
     defined_if_available ''CURLOPT_COOKIESESSION'',
     defined_if_available ''CURLOPT_COOKIELIST'',
     defined_if_available ''CURLOPT_HTTPGET'',
     always (CURB_DEFINE ''CURLOPT_HTTP_VERSION''),
     always (CURB_DEFINE ''CURL_HTTP_VERSION_NONE''),
     always (CURB_DEFINE ''CURL_HTTP_VERSION_1_0''),
     always (CURB_DEFINE ''CURL_HTTP_VERSION_1_1'')]"

definition core_constants_4 :: "core_constant list" where
  "core_constants_4 = [
     only_if [Version 0x072100] (CURB_DEFINE ''CURL_HTTP_VERSION_2_0''),
     only_if [Version 0x072f00] (CURB_DEFINE ''CURL_HTTP_VERSION_2TLS''),
     defined_if_available ''CURLOPT_IGNORE_CONTENT_LENGTH'',
     defined_if_available ''CURLOPT_HTTP_CONTENT_DECODING'',
     defined_if_available ''CURLOPT_HTTP_TRANSFER_DECODING'',
     defined_if_available ''CURLOPT_MAIL_FROM'',
     defined_if_available ''CURLOPT_MAIL_RCPT'',
     defined_if_available ''CURLOPT_TFTP_BLKSIZE'',
     defined_if_available ''CURLOPT_FTPPORT'',
     defined_if_available ''CURLOPT_QUOTE'',
     defined_if_available ''CURLOPT_POSTQUOTE'',
     defined_if_available ''CURLOPT_PREQUOTE'',
     defined_if_available ''CURLOPT_DIRLISTONLY'',
     defined_if_available ''CURLOPT_APPEND'',
     defined_if_available ''CURLOPT_FTP_USE_EPRT'',
     defined_if_available ''CURLOPT_FTP_USE_EPSV'',
     defined_if_available ''CURLOPT_FTP_USE_PRET'',
     defined_if_available ''CURLOPT_FTP_CREATE_MISSING_DIRS'',
     defined_if_available ''CURLFTP_CREATE_DIR_NONE'',
     defined_if_available ''CURLFTP_CREATE_DIR'',
     defined_if_available ''CURLFTP_CREATE_DIR_RETRY'',
     defined_if_available ''CURLOPT_FTP_RESPONSE_TIMEOUT'',
     defined_if_available ''CURLOPT_FTP_ALTERNATIVE_TO_USER'',
     defined_if_available ''CURLOPT_FTP_SKIP_PASV_IP'',
     defined_if_available ''CURLOPT_FTPSSLAUTH'',
     defined_if_available ''CURLFTPAUTH_DEFAULT'',
     defined_if_available ''CURLFTPAUTH_SSL'',
     defined_if_available ''CURLFTPAUTH_TLS'',
     defined_if_available ''CURLOPT_FTP_SSL_CCC'',
     defined_if_available ''CURLFTPSSL_CCC_NONE'',
     defined_if_available ''CURLFTPSSL_CCC_PASSIVE'',
     defined_if_available ''CURLFTPSSL_CCC_ACTIVE'',
     defined_if_available ''CURLOPT_FTP_ACCOUNT'',
     defined_if_available ''CURLOPT_FTP_FILEMETHOD'',
     defined_if_available ''CURLFTPMETHOD_MULTICWD'',
     defined_if_available ''CURLFTPMETHOD_NOCWD'',
     defined_if_available ''CURLFTPMETHOD_SINGLECWD'',
     defined_if_available ''CURLOPT_RTSP_REQUEST'',
     defined_if_available ''CURL_RTSPREQ_OPTIONS'',
     defined_if_available ''CURL_RTSPREQ_DESCRIBE'',
     defined_if_available ''CURL_RTSPREQ_ANNOUNCE'',
     defined_if_available ''CURL_RTSPREQ_SETUP'',
     defined_if_available ''CURL_RTSPREQ_PLAY'',
     defined_if_available ''CURL_RTSPREQ_PAUSE'',
     defined_if_available ''CURL_RTSPREQ_TEARDOWN'',
     defined_if_available ''CURL_RTSPREQ_GET_PARAMETER'',
     defined_if_available ''CURL_RTSPREQ_SET_PARAMETER'']"

definition core_constants_5 :: "core_constant list" where
  "core_constants_5 = [
     defined_if_available ''CURL_RTSPREQ_RECORD'',
     defined_if_available ''CURL_RTSPREQ_RECEIVE'',
     defined_if_available ''CURLOPT_RTSP_SESSION_ID'',
     defined_if_available ''CURLOPT_RTSP_STREAM_URI'',
     defined_if_available ''CURLOPT_RTSP_TRANSPORT'',
     defined_if_available ''CURLOPT_RTSP_HEADER'',
     defined_if_available ''CURLOPT_RTSP_CLIENT_CSEQ'',
     defined_if_available ''CURLOPT_RTSP_SERVER_CSEQ'',
     always (CURB_DEFINE ''CURLOPT_TRANSFERTEXT''),
     defined_if_available ''CURLOPT_PROXY_TRANSFER_MODE'',
     defined_if_available ''CURLOPT_CRLF'',
     defined_if_available ''CURLOPT_RANGE'',
     defined_if_available ''CURLOPT_RESUME_FROM'',
     defined_if_available ''CURLOPT_RESUME_FROM_LARGE'',
     defined_if_available ''CURLOPT_CUSTOMREQUEST'',
     defined_if_available ''CURLOPT_FILETIME'',
     defined_if_available ''CURLOPT_NOBODY'',
     defined_if_available ''CURLOPT_INFILESIZE'',
     defined_if_available ''CURLOPT_INFILESIZE_LARGE'',
     defined_if_available ''CURLOPT_UPLOAD'',
     defined_if_available ''CURLOPT_MAXFILESIZE'',
     defined_if_available ''CURLOPT_MAXFILESIZE_LARGE'',
     defined_if_available ''CURLOPT_TIMECONDITION'',
     defined_if_available ''CURLOPT_TIMEVALUE'',
     defined_if_available ''CURLOPT_TIMEOUT'',
     defined_if_available ''CURLOPT_TIMEOUT_MS'',
     defined_if_available ''CURLOPT_LOW_SPEED_LIMIT'',
     defined_if_available ''CURLOPT_LOW_SPEED_TIME'',
     defined_if_available ''CURLOPT_MAX_SEND_SPEED_LARGE'',
     defined_if_available ''CURLOPT_MAX_RECV_SPEED_LARGE'',
     defined_if_available ''CURLOPT_MAXCONNECTS'',
     defined_if_available ''CURLOPT_CLOSEPOLICY'',
     defined_if_available ''CURLOPT_FRESH_CONNECT'',
     defined_if_available ''CURLOPT_FORBID_REUSE'',
     defined_if_available ''CURLOPT_CONNECTTIMEOUT'',
     defined_if_available ''CURLOPT_CONNECTTIMEOUT_MS'',
     defined_if_available ''CURLOPT_IPRESOLVE'',
     defined_if_available ''CURL_IPRESOLVE_WHATEVER'',
     defined_if_available ''CURL_IPRESOLVE_V4'',
     defined_if_available ''CURL_IPRESOLVE_V6'',
     defined_if_available ''CURLOPT_CONNECT_ONLY'',
     defined_if_available ''CURLOPT_USE_SSL'',
     defined_if_available ''CURLUSESSL_NONE'',
     defined_if_available ''CURLUSESSL_TRY'',
     defined_if_available ''CURLUSESSL_CONTROL'',
     defined_if_available ''CURLUSESSL_ALL'',
     defined_if_available ''CURLOPT_CONNECT_TO'']"

definition core_constants_6 :: "core_constant list" where
  "core_constants_6 = [
     defined_if_available ''CURLOPT_RESOLVE'',
     defined_if_available ''CURLOPT_SSLCERT'',
     defined_if_available ''CURLOPT_SSLCERTTYPE'',
     defined_if_available ''CURLOPT_SSLKEY'',
     defined_if_available ''CURLOPT_SSLKEYTYPE'',
     defined_if_available ''CURLOPT_KEYPASSWD'',
     defined_if_available ''CURLOPT_SSLENGINE'',
     defined_if_available ''CURLOPT_SSLENGINE_DEFAULT'',
     defined_if_available ''CURLOPT_SSLVERSION'',
     defined_if_available ''CURL_SSLVERSION_TLSv1'',
     defined_if_available ''CURL_SSLVERSION_SSLv2'',
     defined_if_available ''CURL_SSLVERSION_SSLv3'',
     defined_if_available ''CURL_SSLVERSION_TLSv1_0'',
     only_if [Defined ''HAVE_CURL_SSLVERSION_TLSv1_0''] (CURB_DEFINE ''CURL_SSLVERSION_MAX_TLSv1_0''),
     defined_if_available ''CURL_SSLVERSION_TLSv1_1'',
     only_if [Defined ''HAVE_CURL_SSLVERSION_TLSv1_1''] (CURB_DEFINE ''CURL_SSLVERSION_MAX_TLSv1_1''),
     defined_if_available ''CURL_SSLVERSION_TLSv1_2'',
     only_if [Defined ''HAVE_CURL_SSLVERSION_TLSv1_2''] (CURB_DEFINE ''CURL_SSLVERSION_MAX_TLSv1_2''),
     defined_if_available ''CURL_SSLVERSION_TLSv1_3'',
     only_if [Defined ''HAVE_CURL_SSLVERSION_TLSv1_3''] (CURB_DEFINE ''CURL_SSLVERSION_MAX_TLSv1_3''),
     defined_if_available ''CURLOPT_SSL_VERIFYPEER'',
     defined_if_available ''CURLOPT_DOH_URL'',
     defined_if_available ''CURLOPT_DOH_SSL_VERIFYPEER'',
     defined_if_available ''CURLOPT_DOH_SSL_VERIFYHOST'',
     defined_if_available ''CURLOPT_DOH_SSL_VERIFYSTATUS'',
     defined_if_available ''CURLOPT_CAINFO'',
     defined_if_available ''CURLOPT_ISSUERCERT'',
     defined_if_available ''CURLOPT_CAPATH'',
     defined_if_available ''CURLOPT_CRLFILE'',
     defined_if_available ''CURLOPT_SSL_VERIFYHOST'',
     defined_if_available ''CURLOPT_CERTINFO'',
     defined_if_available ''CURLOPT_RANDOM_FILE'',
     defined_if_available ''CURLOPT_EGDSOCKET'',
     defined_if_available ''CURLOPT_SSL_CIPHER_LIST'',
     defined_if_available ''CURLOPT_SSL_SESSIONID_CACHE'',
     defined_if_available ''CURLOPT_KRBLEVEL'',
     defined_if_available ''CURLOPT_SSH_AUTH_TYPES'',
     defined_if_available ''CURLOPT_SSH_HOST_PUBLIC_KEY_MD5'',
     defined_if_available ''CURLOPT_SSH_PUBLIC_KEYFILE'',
     defined_if_available ''CURLOPT_SSH_PRIVATE_KEYFILE'',
     defined_if_available ''CURLOPT_SSH_KNOWNHOSTS'',
     defined_if_available ''CURLOPT_SSH_KEYFUNCTION'',
     defined_if_available ''CURLKHSTAT_FINE_ADD_TO_FILE'',
     defined_if_available ''CURLKHSTAT_FINE'',
     defined_if_available ''CURLKHSTAT_REJECT'',
     defined_if_available ''CURLKHSTAT_DEFER'',
     defined_if_available ''CURLOPT_SSH_KEYDATA'',
     defined_if_available ''CURLOPT_PRIVATE'']"

definition core_constants_7 :: "core_constant list" where
  "core_constants_7 = [
     defined_if_available ''CURLOPT_SHARE'',
     defined_if_available ''CURLOPT_NEW_FILE_PERMS'',
     defined_if_available ''CURLOPT_NEW_DIRECTORY_PERMS'',
     defined_if_available ''CURLOPT_TELNETOPTIONS'',
     defined_if_available ''CURLOPT_GSSAPI_DELEGATION'',
     defined_if_available ''CURLGSSAPI_DELEGATION_FLAG'',
     defined_if_available ''CURLGSSAPI_DELEGATION_POLICY_FLAG'',
     defined_if_available ''CURLOPT_UNIX_SOCKET_PATH'',
     defined_if_available ''CURLOPT_PIPEWAIT'',
     defined_if_available ''CURLOPT_TCP_KEEPALIVE'',
     only_if [Defined ''HAVE_CURLOPT_TCP_KEEPALIVE''] (CURB_DEFINE ''CURLOPT_TCP_KEEPIDLE''),
     only_if [Defined ''HAVE_CURLOPT_TCP_KEEPALIVE''] (CURB_DEFINE ''CURLOPT_TCP_KEEPINTVL''),
     defined_if_available ''CURLOPT_HAPROXYPROTOCOL'',
     defined_if_available ''CURLOPT_PROXY_SSL_VERIFYHOST'',
     defined_if_available ''CURLPROTO_RTMPTE'',
     defined_if_available ''CURLPROTO_RTMPTS'',
     defined_if_available ''CURLPROTO_SMBS'',
     defined_if_available ''CURLPROTO_LDAP'',
     defined_if_available ''CURLPROTO_FTP'',
     defined_if_available ''CURLPROTO_SMTPS'',
     defined_if_available ''CURLPROTO_HTTP'',
     defined_if_available ''CURLPROTO_SMTP'',
     defined_if_available ''CURLPROTO_TFTP'',
     defined_if_available ''CURLPROTO_LDAPS'',
     defined_if_available ''CURLPROTO_IMAPS'',
     defined_if_available ''CURLPROTO_SCP'',
     defined_if_available ''CURLPROTO_SFTP'',
     defined_if_available ''CURLPROTO_TELNET'',
     defined_if_available ''CURLPROTO_FILE'',
     defined_if_available ''CURLPROTO_FTPS'',
     defined_if_available ''CURLPROTO_HTTPS'',
     defined_if_available ''CURLPROTO_IMAP'',
     defined_if_available ''CURLPROTO_POP3'',
     defined_if_available ''CURLPROTO_GOPHER'',
     defined_if_available ''CURLPROTO_DICT'',
     defined_if_available ''CURLPROTO_SMB'',
     defined_if_available ''CURLPROTO_RTMP'',
     defined_if_available ''CURLPROTO_ALL'']"

definition core_constants_8 :: "core_constant list" where
  "core_constants_8 = [
     defined_if_available ''CURLPROTO_RTMPE'',
     defined_if_available ''CURLPROTO_RTMPS'',
     defined_if_available ''CURLPROTO_RTMPT'',
     defined_if_available ''CURLPROTO_POP3S'',
     defined_if_available ''CURLPROTO_RTSP'',
     only_if [Version 0x072B00] (CURB_DEFINE ''CURLPIPE_NOTHING''),
     only_if [Version 0x072B00] (CURB_DEFINE ''CURLPIPE_HTTP1''),
     only_if [Version 0x072B00] (CURB_DEFINE ''CURLPIPE_MULTIPLEX''),
     only_if [Version 0x072B00] (''PIPE_NOTHING'', Macro ''CURLPIPE_NOTHING''),
     only_if [Version 0x072B00] (''PIPE_HTTP1'', Macro ''CURLPIPE_HTTP1''),
     only_if [Version 0x072B00] (''PIPE_MULTIPLEX'', Macro ''CURLPIPE_MULTIPLEX''),
     only_if [Version 0x072100] (''HTTP_2_0'', Macro ''CURL_HTTP_VERSION_2_0''),
     only_if [Defined ''CURL_HTTP_VERSION_2TLS''] (''HTTP_2TLS'', Macro ''CURL_HTTP_VERSION_2TLS''),
     only_if [Defined ''CURL_HTTP_VERSION_2_PRIOR_KNOWLEDGE''] (''HTTP_2_PRIOR_KNOWLEDGE'', Macro ''CURL_HTTP_VERSION_2_PRIOR_KNOWLEDGE''),
     always (''HTTP_1_1'', Macro ''CURL_HTTP_VERSION_1_1''),
     always (''HTTP_1_0'', Macro ''CURL_HTTP_VERSION_1_0''),
     always (''HTTP_NONE'', Macro ''CURL_HTTP_VERSION_NONE'')]"

definition core_constants :: "core_constant list" where
  "core_constants = core_constants_1 @ core_constants_2 @ core_constants_3 @ core_constants_4 @
     core_constants_5 @ core_constants_6 @ core_constants_7 @ core_constants_8"

text \<open>The constants of a build.\<close>

definition compiled_constants :: "core_env \<Rightarrow> (string \<times> rvalue) list" where
  "compiled_constants C =
     map (\<lambda>(gs, name, v). (name, RInt (const_number C v)))
       (filter (\<lambda>(gs, name, v). list_all (guard_holds (ce_env C)) gs) core_constants)"

section \<open>The module\<close>

text \<open>The constants of the module, the names Ruby warned about, and the Ractor mark.\<close>

record curl_module =
  module_constants :: "(string, rvalue) st_table"
  redefined :: "string list"
  marked_ractor_safe :: bool

definition rb_define_const :: "string \<Rightarrow> rvalue \<Rightarrow> curl_module \<Rightarrow> curl_module" where
  "rb_define_const name v M =
     M\<lparr>module_constants := st_insert (module_constants M) name v,
       redefined := (if st_lookup (module_constants M) name = None then redefined M else redefined M @ [name])\<rparr>"

definition has_feature :: "core_env \<Rightarrow> string \<Rightarrow> bool" where
  "has_feature C m \<longleftrightarrow> version_features C AND macro_number C m \<noteq> 0"

definition ractor_safe :: "core_env \<Rightarrow> bool" where
  "ractor_safe C \<longleftrightarrow> have_macro (ce_env C) ''HAVE_RB_EXT_RACTOR_SAFE'' \<and>
     have_macro (ce_env C) ''HAVE_CURL_VERSION_THREADSAFE'' \<and> has_feature C ''CURL_VERSION_THREADSAFE''"

definition version_constants :: "core_env \<Rightarrow> (string \<times> rvalue) list" where
  "version_constants C = [
     (''CURB_VERSION'', RStr ''1.3.7''),
     (''VERSION'', RStr (version_text C)),
     (''CURL_VERSION'', RStr (version_text C)),
     (''VERNUM'', RInt (int (libcurl_version_num (ce_env C)))),
     (''CURL_VERNUM'', RInt (int (libcurl_version_num (ce_env C)))),
     (''LONG_VERSION'', RStr (curl_version_text C)),
     (''CURL_LONG_VERSION'', RStr (curl_version_text C)),
     (''RACTOR_SAFE'', if ractor_safe C then Qtrue else Qfalse)]"

text \<open>The singleton methods and the other \<open>init_curb_*\<close> functions follow; they define nothing here.\<close>

definition Init_curb_core :: "core_env \<Rightarrow> curl_module" where
  "Init_curb_core C =
     foldl (\<lambda>M (name, v). rb_define_const name v M)
       \<lparr>module_constants = st_init_numtable, redefined = [], marked_ractor_safe = ractor_safe C\<rparr>
       (version_constants C @ compiled_constants C)"

definition curl_constant :: "core_env \<Rightarrow> string \<Rightarrow> rvalue option" where
  "curl_constant C name = st_lookup (module_constants (Init_curb_core C)) name"

section \<open>Features\<close>

definition feature_q :: "core_env \<Rightarrow> string \<Rightarrow> rvalue" where
  "feature_q C m = (if has_feature C m then Qtrue else Qfalse)"

text \<open>A question that older versions of curl.h do not know.\<close>

definition optional_feature_q :: "core_env \<Rightarrow> string \<Rightarrow> string \<Rightarrow> rvalue" where
  "optional_feature_q C macro m = (if have_macro (ce_env C) macro then feature_q C m else Qfalse)"

definition ruby_curl_ipv6_q :: "core_env \<Rightarrow> rvalue" where
  "ruby_curl_ipv6_q C = feature_q C ''CURL_VERSION_IPV6''"

definition ruby_curl_kerberos4_q :: "core_env \<Rightarrow> rvalue" where
  "ruby_curl_kerberos4_q C = feature_q C ''CURL_VERSION_KERBEROS4''"

definition ruby_curl_ssl_q :: "core_env \<Rightarrow> rvalue" where
  "ruby_curl_ssl_q C = optional_feature_q C ''HAVE_CURL_VERSION_SSL'' ''CURL_VERSION_SSL''"

definition ruby_curl_libz_q :: "core_env \<Rightarrow> rvalue" where
  "ruby_curl_libz_q C = optional_feature_q C ''HAVE_CURL_VERSION_LIBZ'' ''CURL_VERSION_LIBZ''"

definition ruby_curl_ntlm_q :: "core_env \<Rightarrow> rvalue" where
  "ruby_curl_ntlm_q C = optional_feature_q C ''HAVE_CURL_VERSION_NTLM'' ''CURL_VERSION_NTLM''"

definition ruby_curl_gssnegotiate_q :: "core_env \<Rightarrow> rvalue" where
  "ruby_curl_gssnegotiate_q C = optional_feature_q C ''HAVE_CURL_VERSION_GSSNEGOTIATE'' ''CURL_VERSION_GSSNEGOTIATE''"

definition ruby_curl_debug_q :: "core_env \<Rightarrow> rvalue" where
  "ruby_curl_debug_q C = optional_feature_q C ''HAVE_CURL_VERSION_DEBUG'' ''CURL_VERSION_DEBUG''"

definition ruby_curl_asyncdns_q :: "core_env \<Rightarrow> rvalue" where
  "ruby_curl_asyncdns_q C = optional_feature_q C ''HAVE_CURL_VERSION_ASYNCHDNS'' ''CURL_VERSION_ASYNCHDNS''"

definition ruby_curl_largefile_q :: "core_env \<Rightarrow> rvalue" where
  "ruby_curl_largefile_q C = optional_feature_q C ''HAVE_CURL_VERSION_LARGEFILE'' ''CURL_VERSION_LARGEFILE''"

definition ruby_curl_idn_q :: "core_env \<Rightarrow> rvalue" where
  "ruby_curl_idn_q C = optional_feature_q C ''HAVE_CURL_VERSION_IDN'' ''CURL_VERSION_IDN''"

definition ruby_curl_sspi_q :: "core_env \<Rightarrow> rvalue" where
  "ruby_curl_sspi_q C = optional_feature_q C ''HAVE_CURL_VERSION_SSPI'' ''CURL_VERSION_SSPI''"

definition ruby_curl_conv_q :: "core_env \<Rightarrow> rvalue" where
  "ruby_curl_conv_q C = optional_feature_q C ''HAVE_CURL_VERSION_CONV'' ''CURL_VERSION_CONV''"

definition ruby_curl_http2_q :: "core_env \<Rightarrow> rvalue" where
  "ruby_curl_http2_q C = optional_feature_q C ''HAVE_CURL_VERSION_HTTP2'' ''CURL_VERSION_HTTP2''"

definition ruby_curl_spnego_q :: "core_env \<Rightarrow> rvalue" where
  "ruby_curl_spnego_q C =
     (if have_macro (ce_env C) ''HAVE_CURL_VERSION_SPNEGO'' \<and> has_feature C ''CURL_VERSION_SPNEGO'' then Qtrue
      else if have_macro (ce_env C) ''HAVE_CURL_VERSION_GSSNEGOTIATE'' \<and> has_feature C ''CURL_VERSION_GSSNEGOTIATE''
      then Qtrue else Qfalse)"

definition singleton_methods :: "(string \<times> (core_env \<Rightarrow> rvalue)) list" where
  "singleton_methods = [
     (''ipv6?'', ruby_curl_ipv6_q), (''kerberos4?'', ruby_curl_kerberos4_q), (''ssl?'', ruby_curl_ssl_q),
     (''libz?'', ruby_curl_libz_q), (''ntlm?'', ruby_curl_ntlm_q), (''gssnegotiate?'', ruby_curl_gssnegotiate_q),
     (''debug?'', ruby_curl_debug_q), (''asyncdns?'', ruby_curl_asyncdns_q), (''spnego?'', ruby_curl_spnego_q),
     (''largefile?'', ruby_curl_largefile_q), (''idn?'', ruby_curl_idn_q), (''sspi?'', ruby_curl_sspi_q),
     (''conv?'', ruby_curl_conv_q), (''http2?'', ruby_curl_http2_q)]"

end
