(* ===== verification/Curb_Core_Facts.thy ===== *)
theory Curb_Core_Facts
  imports Curb_Core Curb_Options_Facts
begin

text \<open>
  The constants of the \<open>Curl\<close> module and the options: every option \<open>setopt\<close> handles is exported with the
  number that selects its case.
\<close>

section \<open>The tables\<close>

text \<open>The constants of \<open>setopt\<close>'s options, by the part of the table that has them.\<close>

lemma option_constants_2:
  "always (CURB_DEFINE ''CURLOPT_VERBOSE'') \<in> set core_constants"
  "always (CURB_DEFINE ''CURLOPT_URL'') \<in> set core_constants"
  "always (CURB_DEFINE ''CURLOPT_PROXY'') \<in> set core_constants"
  "always (CURB_DEFINE ''CURLOPT_HEADER'') \<in> set core_constants"
  "always (CURB_DEFINE ''CURLOPT_NOPROGRESS'') \<in> set core_constants"
  "always (CURB_DEFINE ''CURLOPT_NOSIGNAL'') \<in> set core_constants"
  "defined_if_available ''CURLOPT_PATH_AS_IS'' \<in> set core_constants"
  "defined_if_available ''CURLOPT_NOPROXY'' \<in> set core_constants"
  "defined_if_available ''CURLOPT_FAILONERROR'' \<in> set core_constants"
  "defined_if_available ''CURLOPT_STDERR'' \<in> set core_constants"
  "defined_if_available ''CURLOPT_PROTOCOLS'' \<in> set core_constants"
  "defined_if_available ''CURLOPT_REDIR_PROTOCOLS'' \<in> set core_constants"
  "defined_if_available ''CURLOPT_PROTOCOLS_STR'' \<in> set core_constants"
  "defined_if_available ''CURLOPT_REDIR_PROTOCOLS_STR'' \<in> set core_constants"
  by (simp_all add: core_constants_def core_constants_2_def)

lemma option_constants_3:
  "defined_if_available ''CURLOPT_FOLLOWLOCATION'' \<in> set core_constants"
  "always (CURB_DEFINE ''CURLOPT_HTTP_VERSION'') \<in> set core_constants"
  "always (CURB_DEFINE ''CURLOPT_INTERFACE'') \<in> set core_constants"
  "defined_if_available ''CURLOPT_HTTPGET'' \<in> set core_constants"
  "defined_if_available ''CURLOPT_POST'' \<in> set core_constants"
  "always (CURB_DEFINE ''CURLOPT_POSTFIELDS'') \<in> set core_constants"
  "always (CURB_DEFINE ''CURLOPT_USERPWD'') \<in> set core_constants"
  "always (CURB_DEFINE ''CURLOPT_PROXYUSERPWD'') \<in> set core_constants"
  "always (CURB_DEFINE ''CURLOPT_COOKIE'') \<in> set core_constants"
  "always (CURB_DEFINE ''CURLOPT_COOKIEFILE'') \<in> set core_constants"
  "always (CURB_DEFINE ''CURLOPT_COOKIEJAR'') \<in> set core_constants"
  "defined_if_available ''CURLOPT_REQUEST_TARGET'' \<in> set core_constants"
  "always (CURB_DEFINE ''CURLOPT_TCP_NODELAY'') \<in> set core_constants"
  "defined_if_available ''CURLOPT_DNS_SERVERS'' \<in> set core_constants"
  "defined_if_available ''CURLOPT_COOKIELIST'' \<in> set core_constants"
  by (simp_all add: core_constants_def core_constants_3_def)

lemma option_constants_4:
  "defined_if_available ''CURLOPT_DIRLISTONLY'' \<in> set core_constants"
  "defined_if_available ''CURLOPT_FTPPORT'' \<in> set core_constants"
  "defined_if_available ''CURLOPT_APPEND'' \<in> set core_constants"
  "defined_if_available ''CURLOPT_FTP_USE_EPSV'' \<in> set core_constants"
  "defined_if_available ''CURLOPT_FTP_USE_EPRT'' \<in> set core_constants"
  "defined_if_available ''CURLOPT_FTP_USE_PRET'' \<in> set core_constants"
  "defined_if_available ''CURLOPT_FTP_CREATE_MISSING_DIRS'' \<in> set core_constants"
  "defined_if_available ''CURLOPT_FTP_RESPONSE_TIMEOUT'' \<in> set core_constants"
  "defined_if_available ''CURLOPT_FTP_ALTERNATIVE_TO_USER'' \<in> set core_constants"
  "defined_if_available ''CURLOPT_FTP_SKIP_PASV_IP'' \<in> set core_constants"
  "defined_if_available ''CURLOPT_FTPSSLAUTH'' \<in> set core_constants"
  "defined_if_available ''CURLOPT_FTP_SSL_CCC'' \<in> set core_constants"
  "defined_if_available ''CURLOPT_FTP_ACCOUNT'' \<in> set core_constants"
  "defined_if_available ''CURLOPT_FTP_FILEMETHOD'' \<in> set core_constants"
  by (simp_all add: core_constants_def core_constants_4_def)

lemma option_constants_5:
  "defined_if_available ''CURLOPT_CUSTOMREQUEST'' \<in> set core_constants"
  "defined_if_available ''CURLOPT_NOBODY'' \<in> set core_constants"
  "defined_if_available ''CURLOPT_MAXCONNECTS'' \<in> set core_constants"
  "defined_if_available ''CURLOPT_RANGE'' \<in> set core_constants"
  "defined_if_available ''CURLOPT_RESUME_FROM'' \<in> set core_constants"
  "defined_if_available ''CURLOPT_FORBID_REUSE'' \<in> set core_constants"
  "defined_if_available ''CURLOPT_MAX_SEND_SPEED_LARGE'' \<in> set core_constants"
  "defined_if_available ''CURLOPT_MAX_RECV_SPEED_LARGE'' \<in> set core_constants"
  "defined_if_available ''CURLOPT_MAXFILESIZE'' \<in> set core_constants"
  "defined_if_available ''CURLOPT_MAXFILESIZE_LARGE'' \<in> set core_constants"
  "defined_if_available ''CURLOPT_CONNECT_TO'' \<in> set core_constants"
  by (simp_all add: core_constants_def core_constants_5_def)

lemma option_constants_6:
  "defined_if_available ''CURLOPT_DOH_URL'' \<in> set core_constants"
  "defined_if_available ''CURLOPT_SSL_CIPHER_LIST'' \<in> set core_constants"
  "defined_if_available ''CURLOPT_SSL_SESSIONID_CACHE'' \<in> set core_constants"
  "defined_if_available ''CURLOPT_DOH_SSL_VERIFYPEER'' \<in> set core_constants"
  "defined_if_available ''CURLOPT_DOH_SSL_VERIFYHOST'' \<in> set core_constants"
  "defined_if_available ''CURLOPT_DOH_SSL_VERIFYSTATUS'' \<in> set core_constants"
  "defined_if_available ''CURLOPT_RESOLVE'' \<in> set core_constants"
  by (simp_all add: core_constants_def core_constants_6_def)

lemma option_constants_7:
  "defined_if_available ''CURLOPT_PIPEWAIT'' \<in> set core_constants"
  "defined_if_available ''CURLOPT_GSSAPI_DELEGATION'' \<in> set core_constants"
  "defined_if_available ''CURLOPT_UNIX_SOCKET_PATH'' \<in> set core_constants"
  "defined_if_available ''CURLOPT_TCP_KEEPALIVE'' \<in> set core_constants"
  "only_if [Defined ''HAVE_CURLOPT_TCP_KEEPALIVE''] (CURB_DEFINE ''CURLOPT_TCP_KEEPIDLE'') \<in> set core_constants"
  "only_if [Defined ''HAVE_CURLOPT_TCP_KEEPALIVE''] (CURB_DEFINE ''CURLOPT_TCP_KEEPINTVL'') \<in> set core_constants"
  "defined_if_available ''CURLOPT_HAPROXYPROTOCOL'' \<in> set core_constants"
  "defined_if_available ''CURLOPT_PROXY_SSL_VERIFYHOST'' \<in> set core_constants"
  by (simp_all add: core_constants_def core_constants_7_def)



text \<open>An option constant has the value of its own macro, wherever and however often it is defined.\<close>

definition own_value :: "core_constant \<Rightarrow> bool" where
  "own_value c = (case c of (gs, name, v) \<Rightarrow> take 8 name = ''CURLOPT_'' \<longrightarrow> v = Macro name)"

lemma own_value_simps:
  "own_value (always (CURB_DEFINE name))" "own_value (only_if gs (CURB_DEFINE name))"
  "own_value (defined_if_available name)"
  "own_value (always (name, v)) \<longleftrightarrow> (take 8 name = ''CURLOPT_'' \<longrightarrow> v = Macro name)"
  "own_value (only_if gs (name, v)) \<longleftrightarrow> (take 8 name = ''CURLOPT_'' \<longrightarrow> v = Macro name)"
  by (simp_all add: own_value_def always_def only_if_def CURB_DEFINE_def defined_if_available_def)

lemma own_values_parts:
  "list_all own_value core_constants_1" "list_all own_value core_constants_2" "list_all own_value core_constants_3"
  "list_all own_value core_constants_4" "list_all own_value core_constants_5" "list_all own_value core_constants_6"
  "list_all own_value core_constants_7" "list_all own_value core_constants_8"
  by (simp_all only: core_constants_1_def core_constants_2_def core_constants_3_def core_constants_4_def
      core_constants_5_def core_constants_6_def core_constants_7_def core_constants_8_def list.pred_inject own_value_simps)
    simp_all

lemma own_values: "c \<in> set core_constants \<Longrightarrow> own_value c"
  using own_values_parts unfolding core_constants_def list_all_iff by auto

section \<open>Defining constants\<close>

lemma define_consts_lookup:
  assumes "\<And>v'. (name, v') \<in> set xs \<Longrightarrow> v' = v"
  shows "st_lookup (module_constants (foldl (\<lambda>M (name, v). rb_define_const name v M) M xs)) name =
    (if name \<in> fst ` set xs then Some v else st_lookup (module_constants M) name)"
  using assms
proof (induction xs arbitrary: M)
  case (Cons x xs)
  obtain n w where x: "x = (n, w)" by (cases x)
  have "st_lookup (module_constants (foldl (\<lambda>M (name, v). rb_define_const name v M) (rb_define_const n w M) xs)) name =
      (if name \<in> fst ` set xs then Some v else st_lookup (module_constants (rb_define_const n w M)) name)"
    using Cons by simp
  then show ?case using Cons.prems [of w] x by (auto simp: rb_define_const_def st_lookup_insert)
qed simp

definition exported :: "core_env \<Rightarrow> string \<Rightarrow> bool" where
  "exported C name \<longleftrightarrow> (\<exists>gs. (gs, name, Macro name) \<in> set core_constants \<and> list_all (guard_holds (ce_env C)) gs)"

lemma exported_always: "always (CURB_DEFINE name) \<in> set core_constants \<Longrightarrow> exported C name"
  by (force simp: exported_def always_def CURB_DEFINE_def)

lemma exported_if:
  "only_if gs (CURB_DEFINE name) \<in> set core_constants \<Longrightarrow> list_all (guard_holds (ce_env C)) gs \<Longrightarrow> exported C name"
  by (auto simp: exported_def only_if_def CURB_DEFINE_def)

lemma exported_available:
  "defined_if_available name \<in> set core_constants \<Longrightarrow> have_macro (ce_env C) (''HAVE_'' @ name) \<Longrightarrow> exported C name"
  unfolding defined_if_available_def by (erule exported_if) simp

lemma version_names: "(name, v) \<in> set (version_constants C) \<Longrightarrow> take 8 name \<noteq> ''CURLOPT_''"
  by (auto simp: version_constants_def)

lemma option_constant:
  assumes "exported C name" and "take 8 name = ''CURLOPT_''"
  shows "curl_constant C name = Some (RInt (macro_number C name))"
proof -
  have own: "v = RInt (macro_number C name)" if "(name, v) \<in> set (version_constants C @ compiled_constants C)" for v
    using that assms(2) version_names own_values by (fastforce simp: compiled_constants_def own_value_def)
  have "name \<in> fst ` set (version_constants C @ compiled_constants C)"
    using assms(1) by (force simp: exported_def compiled_constants_def)
  with define_consts_lookup [where name = name and xs = "version_constants C @ compiled_constants C", OF own]
  show ?thesis unfolding curl_constant_def Init_curb_core_def by simp
qed

section \<open>Options\<close>

text \<open>The options libcurl has had from the beginning, or since before 7.20: curb probes for them all the
  same before it exports them, and handles them unconditionally in \<open>setopt\<close>.\<close>

definition long_known_options :: "string list" where
  "long_known_options = [''CURLOPT_FOLLOWLOCATION'', ''CURLOPT_CUSTOMREQUEST'', ''CURLOPT_HTTPGET'', ''CURLOPT_NOBODY'',
     ''CURLOPT_POST'', ''CURLOPT_MAXCONNECTS'', ''CURLOPT_RANGE'', ''CURLOPT_RESUME_FROM'', ''CURLOPT_FAILONERROR'',
     ''CURLOPT_SSL_CIPHER_LIST'', ''CURLOPT_FORBID_REUSE'', ''CURLOPT_STDERR'', ''CURLOPT_PROTOCOLS'',
     ''CURLOPT_REDIR_PROTOCOLS'']"

lemmas option_constants = option_constants_2 option_constants_3 option_constants_4 option_constants_5
  option_constants_6 option_constants_7

lemmas opt_case_reads = opt_case_def opt_case_if_def

definition case_exported :: "core_env \<Rightarrow> opt_case \<Rightarrow> bool" where
  "case_exported C c \<longleftrightarrow> (compiled_in (ce_env C) c \<longrightarrow> exported C (case_name c)) \<and> take 8 (case_name c) = ''CURLOPT_''"

lemma case_exported_simps:
  "case_exported C (opt_case name act) \<longleftrightarrow> exported C name \<and> take 8 name = ''CURLOPT_''"
  "case_exported C (opt_case_if macro name act) \<longleftrightarrow>
     (have_macro (ce_env C) macro \<longrightarrow> exported C name) \<and> take 8 name = ''CURLOPT_''"
  by (simp_all add: case_exported_def opt_case_reads compiled_in_def)

lemma exported_constants:
  assumes "list_all (\<lambda>name. have_macro (ce_env C) (''HAVE_'' @ name)) long_known_options"
  shows "list_all (case_exported C) (opt_cases X u)"
  using assms unfolding opt_cases_def request_cases_def ftp_cases_def limit_cases_def other_cases_def list_all_append
    list.pred_inject long_known_options_def case_exported_simps
  by (intro conjI TrueI impI)
    (simp_all add: option_constants exported_always exported_available option_constants_7(5,6) [THEN exported_if])

lemma distinct_cases: "distinct (map case_name (opt_cases X u))"
  by (simp add: opt_cases_def request_cases_def ftp_cases_def limit_cases_def other_cases_def opt_case_reads)

lemma find_distinct:
  assumes "distinct (map f xs)" and "x \<in> set xs" and "P x"
  shows "find (\<lambda>y. P y \<and> g = Some (f y)) xs = (if g = Some (f x) then Some x else find (\<lambda>y. P y \<and> g = Some (f y)) xs)"
  using assms by (induction xs) (auto simp: image_iff)

text \<open>
  C25: The constants of the \<open>Curl\<close> module and \<open>setopt\<close> belong together. Every option that \<open>setopt\<close> handles in a
  build is exported by this build under its name, with the number of curl.h, and \<open>setopt\<close> with this
  constant does exactly what the case of that option does and gives back the value. (The macros of
  curl.h are numbers of C's type \<open>long\<close>, and \<open>option_name\<close> reads them back.)
\<close>

theorem exported_option_selects_its_case:
  assumes "c \<in> set (opt_cases X u)" and "compiled_in (s_env (oe_setup X)) c" and "ce_env C = s_env (oe_setup X)"
    and "list_all (\<lambda>name. have_macro (ce_env C) (''HAVE_'' @ name)) long_known_options"
    and "macro_number C (case_name c) = n" and "option_name X n = Some (case_name c)"
    and "- (2 ^ 63) \<le> n" and "n < 2 ^ 63"
  shows "curl_constant C (case_name c) = Some (RInt n) \<and>
     ruby_curl_easy_set_opt X u (RInt n) v = bind (case_action c v) (\<lambda>_. ret v)"
proof -
  have "case_exported C c" using exported_constants [OF assms(4), of X u] assms(1) by (simp add: list_all_iff)
  then have "exported C (case_name c)" "take 8 (case_name c) = ''CURLOPT_''"
    using assms(2,3) by (simp_all add: case_exported_def)
  then have "curl_constant C (case_name c) = Some (RInt n)" using option_constant assms(5) by blast
  moreover have "select_case X u n = Some c"
    unfolding select_case_def
    using find_distinct [OF distinct_cases assms(1), where P = "compiled_in (s_env (oe_setup X))" and g = "option_name X n"]
      assms(2,6) by simp
  moreover have "NUM2LONG (RInt n) = Inr n" using assms(7,8) by (simp add: NUM2SIGNED_def)
  ultimately show ?thesis
    by (simp add: ruby_curl_easy_set_opt_def fun_eq_iff bind_def lift_res_def)
qed

text \<open>A libcurl whose receive limit is option 30146.\<close>

definition sample_core :: core_env where
  "sample_core = \<lparr>ce_env = s_env sample_setup,
     macro_number = (\<lambda>name. if name = ''CURLOPT_MAX_RECV_SPEED_LARGE'' then 30146 else 0),
     version_features = 1, version_text = ''8.0.0'', curl_version_text = ''libcurl/8.0.0''\<rparr>"

theorem exported_option_selects_its_case_witness:
  "curl_constant sample_core ''CURLOPT_MAX_RECV_SPEED_LARGE'' = Some (RInt 30146) \<and>
   ruby_curl_easy_set_opt sample_options (sample_user []) (RInt 30146) (RInt 1000) =
     bind (opt_long ''CURLOPT_MAX_RECV_SPEED_LARGE'' (RInt 1000)) (\<lambda>_. ret (RInt 1000))"
proof -
  let ?name = "''CURLOPT_MAX_RECV_SPEED_LARGE''"
  let ?c = "opt_case_if (''HAVE_'' @ ?name) ?name (opt_long ?name)"
  have "?c \<in> set (opt_cases sample_options (sample_user []))" by (simp add: opt_cases_def limit_cases_def)
  moreover have "compiled_in (s_env (oe_setup sample_options)) ?c"
    by (simp add: compiled_in_def opt_case_if_def sample_options_def sample_setup_def)
  moreover have "ce_env sample_core = s_env (oe_setup sample_options)" by (simp add: sample_core_def sample_options_def)
  moreover have "list_all (\<lambda>name. have_macro (ce_env sample_core) (''HAVE_'' @ name)) long_known_options"
    by (simp add: sample_core_def sample_setup_def list_all_iff)
  moreover have "macro_number sample_core (case_name ?c) = 30146" by (simp add: sample_core_def opt_case_if_def)
  moreover have "option_name sample_options 30146 = Some (case_name ?c)" by (simp add: sample_options_def opt_case_if_def)
  ultimately have "curl_constant sample_core (case_name ?c) = Some (RInt 30146) \<and>
     ruby_curl_easy_set_opt sample_options (sample_user []) (RInt 30146) (RInt 1000) =
       bind (case_action ?c (RInt 1000)) (\<lambda>_. ret (RInt 1000))"
    by (rule exported_option_selects_its_case) simp_all
  then show ?thesis by (simp add: opt_case_if_def)
qed

end
