(* ===== verification/Curb_Info.thy ===== *)
theory Curb_Info
  imports Curb_Easy_State
begin

text \<open>
  What a handle tells about its last transfer (\<open>ext/curb_easy.c\<close>): the methods that ask libcurl with
  \<open>curl_easy_getinfo\<close>, and two conversions beside them, the timeout in seconds and \<open>unescape\<close>. Each C
  function declares a variable, passes its address and returns its value without looking at the result
  of the call, so the content of a variable that libcurl did not write is a parameter (\<open>locals\<close>).
  C doubles are a type parameter with the operations the code uses.
\<close>

section \<open>Asking libcurl\<close>

text \<open>What \<open>curl_easy_getinfo\<close> writes for a handle and an info, by the type of the variable: \<open>None\<close> is
  nothing, a text or a list may be \<open>NULL\<close>. \<open>float_value\<close> is \<open>rb_float_new\<close>.\<close>

record 'd info_env =
  info_macro :: "string \<Rightarrow> bool"
  info_long :: "nat option \<Rightarrow> string \<Rightarrow> int option"
  info_off :: "nat option \<Rightarrow> string \<Rightarrow> int option"
  info_double :: "nat option \<Rightarrow> string \<Rightarrow> 'd option"
  info_text :: "nat option \<Rightarrow> string \<Rightarrow> string option option"
  info_list :: "nat option \<Rightarrow> string \<Rightarrow> string list option option"
  float_value :: "'d \<Rightarrow> rvalue"
  minus_one :: 'd

text \<open>The indeterminate contents of the variables; of a pointer, what would be read through it.\<close>

record 'd locals =
  junk_long :: int
  junk_off :: int
  junk_double :: 'd
  junk_text :: "string option"
  junk_list :: "string list option"

text \<open>A method gives its value and a warning.\<close>

type_synonym 'd info_getter = "'d info_env \<Rightarrow> 'd locals \<Rightarrow> ruby_curl_easy \<Rightarrow> rvalue \<times> string option"

definition written_or :: "'a option \<Rightarrow> 'a \<Rightarrow> 'a" where
  "written_or written junk = (case written of Some v \<Rightarrow> v | None \<Rightarrow> junk)"

definition text_value :: "string option \<Rightarrow> rvalue" where
  "text_value t = (case t of Some s \<Rightarrow> if s \<noteq> [] then RStr s else Qnil | None \<Rightarrow> Qnil)"

definition long_info :: "'d info_env \<Rightarrow> 'd locals \<Rightarrow> string \<Rightarrow> ruby_curl_easy \<Rightarrow> rvalue \<times> string option" where
  "long_info E J info r = (RInt (written_or (info_long E (curl r) info) (junk_long J)), None)"

definition off_info :: "'d info_env \<Rightarrow> 'd locals \<Rightarrow> string \<Rightarrow> ruby_curl_easy \<Rightarrow> rvalue \<times> string option" where
  "off_info E J info r = (RInt (written_or (info_off E (curl r) info) (junk_off J)), None)"

definition double_info :: "'d info_env \<Rightarrow> 'd locals \<Rightarrow> string \<Rightarrow> ruby_curl_easy \<Rightarrow> rvalue \<times> string option" where
  "double_info E J info r = (float_value E (written_or (info_double E (curl r) info) (junk_double J)), None)"

definition text_info :: "'d info_env \<Rightarrow> 'd locals \<Rightarrow> string \<Rightarrow> ruby_curl_easy \<Rightarrow> rvalue \<times> string option" where
  "text_info E J info r = (text_value (written_or (info_text E (curl r) info) (junk_text J)), None)"

text \<open>A pointer that was set to \<open>NULL\<close> before the call.\<close>

definition text_info_or_null :: "'d info_env \<Rightarrow> string \<Rightarrow> ruby_curl_easy \<Rightarrow> rvalue \<times> string option" where
  "text_info_or_null E info r = (text_value (written_or (info_text E (curl r) info) None), None)"

definition list_info :: "'d info_env \<Rightarrow> 'd locals \<Rightarrow> string \<Rightarrow> ruby_curl_easy \<Rightarrow> rvalue \<times> string option" where
  "list_info E J info r =
     (case written_or (info_list E (curl r) info) (junk_list J) of
        None \<Rightarrow> Qnil | Some items \<Rightarrow> RArr (map RStr items), None)"

definition too_old :: "string \<Rightarrow> rvalue \<Rightarrow> rvalue \<times> string option" where
  "too_old name v = (v, Some (''Installed libcurl is too old to support '' @ name))"

section \<open>The methods\<close>

definition ruby_curl_easy_last_effective_url_get :: "'d info_getter" where
  "ruby_curl_easy_last_effective_url_get E J r =
     text_info E J ''CURLINFO_EFFECTIVE_URL'' r"

definition ruby_curl_easy_response_code_get :: "'d info_getter" where
  "ruby_curl_easy_response_code_get E J r =
     (if info_macro E ''HAVE_CURLINFO_RESPONSE_CODE'' then long_info E J ''CURLINFO_RESPONSE_CODE'' r
      else long_info E J ''CURLINFO_HTTP_CODE'' r)"

definition ruby_curl_easy_primary_ip_get :: "'d info_getter" where
  "ruby_curl_easy_primary_ip_get E J r =
     text_info E J ''CURLINFO_PRIMARY_IP'' r"

definition ruby_curl_easy_http_connect_code_get :: "'d info_getter" where
  "ruby_curl_easy_http_connect_code_get E J r =
     long_info E J ''CURLINFO_HTTP_CONNECTCODE'' r"

definition ruby_curl_easy_file_time_get :: "'d info_getter" where
  "ruby_curl_easy_file_time_get E J r =
     (if info_macro E ''HAVE_CURLINFO_FILETIME'' then long_info E J ''CURLINFO_FILETIME'' r
      else too_old ''file_time'' (RInt 0))"

definition ruby_curl_easy_total_time_get :: "'d info_getter" where
  "ruby_curl_easy_total_time_get E J r =
     double_info E J ''CURLINFO_TOTAL_TIME'' r"

definition ruby_curl_easy_name_lookup_time_get :: "'d info_getter" where
  "ruby_curl_easy_name_lookup_time_get E J r =
     double_info E J ''CURLINFO_NAMELOOKUP_TIME'' r"

definition ruby_curl_easy_connect_time_get :: "'d info_getter" where
  "ruby_curl_easy_connect_time_get E J r =
     double_info E J ''CURLINFO_CONNECT_TIME'' r"

definition ruby_curl_easy_app_connect_time_get :: "'d info_getter" where
  "ruby_curl_easy_app_connect_time_get E J r =
     double_info E J ''CURLINFO_APPCONNECT_TIME'' r"

definition ruby_curl_easy_pre_transfer_time_get :: "'d info_getter" where
  "ruby_curl_easy_pre_transfer_time_get E J r =
     double_info E J ''CURLINFO_PRETRANSFER_TIME'' r"

definition ruby_curl_easy_start_transfer_time_get :: "'d info_getter" where
  "ruby_curl_easy_start_transfer_time_get E J r =
     double_info E J ''CURLINFO_STARTTRANSFER_TIME'' r"

definition ruby_curl_easy_redirect_time_get :: "'d info_getter" where
  "ruby_curl_easy_redirect_time_get E J r =
     (if info_macro E ''HAVE_CURLINFO_REDIRECT_TIME'' then double_info E J ''CURLINFO_REDIRECT_TIME'' r
      else too_old ''redirect_time'' (float_value E (minus_one E)))"

definition ruby_curl_easy_redirect_count_get :: "'d info_getter" where
  "ruby_curl_easy_redirect_count_get E J r =
     (if info_macro E ''HAVE_CURLINFO_REDIRECT_COUNT'' then long_info E J ''CURLINFO_REDIRECT_COUNT'' r
      else too_old ''redirect_count'' (RInt (-1)))"

definition ruby_curl_easy_redirect_url_get :: "'d info_getter" where
  "ruby_curl_easy_redirect_url_get E J r =
     (if info_macro E ''HAVE_CURLINFO_REDIRECT_URL'' then text_info E J ''CURLINFO_REDIRECT_URL'' r
      else too_old ''redirect_url'' (RInt (-1)))"

definition ruby_curl_easy_uploaded_bytes_get :: "'d info_getter" where
  "ruby_curl_easy_uploaded_bytes_get E J r =
     (if info_macro E ''HAVE_CURLINFO_SIZE_UPLOAD_T'' then off_info E J ''CURLINFO_SIZE_UPLOAD_T'' r
      else double_info E J ''CURLINFO_SIZE_UPLOAD'' r)"

definition ruby_curl_easy_downloaded_bytes_get :: "'d info_getter" where
  "ruby_curl_easy_downloaded_bytes_get E J r =
     (if info_macro E ''HAVE_CURLINFO_SIZE_DOWNLOAD_T'' then off_info E J ''CURLINFO_SIZE_DOWNLOAD_T'' r
      else double_info E J ''CURLINFO_SIZE_DOWNLOAD'' r)"

definition ruby_curl_easy_upload_speed_get :: "'d info_getter" where
  "ruby_curl_easy_upload_speed_get E J r =
     (if info_macro E ''HAVE_CURLINFO_SPEED_UPLOAD_T'' then off_info E J ''CURLINFO_SPEED_UPLOAD_T'' r
      else double_info E J ''CURLINFO_SPEED_UPLOAD'' r)"

definition ruby_curl_easy_download_speed_get :: "'d info_getter" where
  "ruby_curl_easy_download_speed_get E J r =
     (if info_macro E ''HAVE_CURLINFO_SPEED_DOWNLOAD_T'' then off_info E J ''CURLINFO_SPEED_DOWNLOAD_T'' r
      else double_info E J ''CURLINFO_SPEED_DOWNLOAD'' r)"

definition ruby_curl_easy_header_size_get :: "'d info_getter" where
  "ruby_curl_easy_header_size_get E J r =
     long_info E J ''CURLINFO_HEADER_SIZE'' r"

definition ruby_curl_easy_request_size_get :: "'d info_getter" where
  "ruby_curl_easy_request_size_get E J r =
     long_info E J ''CURLINFO_REQUEST_SIZE'' r"

definition ruby_curl_easy_ssl_verify_result_get :: "'d info_getter" where
  "ruby_curl_easy_ssl_verify_result_get E J r =
     long_info E J ''CURLINFO_SSL_VERIFYRESULT'' r"

definition ruby_curl_easy_downloaded_content_length_get :: "'d info_getter" where
  "ruby_curl_easy_downloaded_content_length_get E J r =
     (if info_macro E ''HAVE_CURLINFO_CONTENT_LENGTH_DOWNLOAD_T'' then off_info E J ''CURLINFO_CONTENT_LENGTH_DOWNLOAD_T'' r
      else double_info E J ''CURLINFO_CONTENT_LENGTH_DOWNLOAD'' r)"

definition ruby_curl_easy_uploaded_content_length_get :: "'d info_getter" where
  "ruby_curl_easy_uploaded_content_length_get E J r =
     (if info_macro E ''HAVE_CURLINFO_CONTENT_LENGTH_UPLOAD_T'' then off_info E J ''CURLINFO_CONTENT_LENGTH_UPLOAD_T'' r
      else double_info E J ''CURLINFO_CONTENT_LENGTH_UPLOAD'' r)"

definition ruby_curl_easy_content_type_get :: "'d info_getter" where
  "ruby_curl_easy_content_type_get E J r =
     text_info E J ''CURLINFO_CONTENT_TYPE'' r"

definition ruby_curl_easy_os_errno_get :: "'d info_getter" where
  "ruby_curl_easy_os_errno_get E J r =
     (if info_macro E ''HAVE_CURLINFO_OS_ERRNO'' then long_info E J ''CURLINFO_OS_ERRNO'' r
      else too_old ''os_errno'' (RInt 0))"

definition ruby_curl_easy_num_connects_get :: "'d info_getter" where
  "ruby_curl_easy_num_connects_get E J r =
     (if info_macro E ''HAVE_CURLINFO_NUM_CONNECTS'' then long_info E J ''CURLINFO_NUM_CONNECTS'' r
      else too_old ''num_connects'' (RInt (-1)))"

definition ruby_curl_easy_cookielist_get :: "'d info_getter" where
  "ruby_curl_easy_cookielist_get E J r =
     (if info_macro E ''HAVE_CURLINFO_COOKIELIST'' then list_info E J ''CURLINFO_COOKIELIST'' r
      else too_old ''cookielist'' (RInt (-1)))"

definition ruby_curl_easy_ftp_entry_path_get :: "'d info_getter" where
  "ruby_curl_easy_ftp_entry_path_get E J r =
     (if info_macro E ''HAVE_CURLINFO_FTP_ENTRY_PATH'' then text_info_or_null E ''CURLINFO_FTP_ENTRY_PATH'' r
      else too_old ''ftp_entry_path'' (Qnil))"

text \<open>The methods as they are registered; two exist only where libcurl has the info.\<close>

definition info_methods :: "'d info_env \<Rightarrow> (string \<times> 'd info_getter) list" where
  "info_methods E =
     [(''last_effective_url'', ruby_curl_easy_last_effective_url_get),
      (''response_code'', ruby_curl_easy_response_code_get),
      (''code'', ruby_curl_easy_response_code_get)] @
     (if info_macro E ''HAVE_CURLINFO_PRIMARY_IP'' then [(''primary_ip'', ruby_curl_easy_primary_ip_get)] else []) @
     [(''http_connect_code'', ruby_curl_easy_http_connect_code_get),
      (''file_time'', ruby_curl_easy_file_time_get),
      (''total_time'', ruby_curl_easy_total_time_get),
      (''name_lookup_time'', ruby_curl_easy_name_lookup_time_get),
      (''connect_time'', ruby_curl_easy_connect_time_get)] @
     (if info_macro E ''HAVE_CURLINFO_APPCONNECT_TIME''
      then [(''app_connect_time'', ruby_curl_easy_app_connect_time_get)] else []) @
     [(''pre_transfer_time'', ruby_curl_easy_pre_transfer_time_get),
      (''start_transfer_time'', ruby_curl_easy_start_transfer_time_get),
      (''redirect_time'', ruby_curl_easy_redirect_time_get),
      (''redirect_count'', ruby_curl_easy_redirect_count_get),
      (''redirect_url'', ruby_curl_easy_redirect_url_get),
      (''downloaded_bytes'', ruby_curl_easy_downloaded_bytes_get),
      (''uploaded_bytes'', ruby_curl_easy_uploaded_bytes_get),
      (''download_speed'', ruby_curl_easy_download_speed_get),
      (''upload_speed'', ruby_curl_easy_upload_speed_get),
      (''header_size'', ruby_curl_easy_header_size_get),
      (''request_size'', ruby_curl_easy_request_size_get),
      (''ssl_verify_result'', ruby_curl_easy_ssl_verify_result_get),
      (''downloaded_content_length'', ruby_curl_easy_downloaded_content_length_get),
      (''uploaded_content_length'', ruby_curl_easy_uploaded_content_length_get),
      (''content_type'', ruby_curl_easy_content_type_get),
      (''os_errno'', ruby_curl_easy_os_errno_get),
      (''num_connects'', ruby_curl_easy_num_connects_get),
      (''cookielist'', ruby_curl_easy_cookielist_get),
      (''ftp_entry_path'', ruby_curl_easy_ftp_entry_path_get)]"

section \<open>The timeout in seconds\<close>

text \<open>\<open>NUM2DBL\<close>, the comparison with zero, the product with 1000 cast to \<open>unsigned long\<close>, and the
  milliseconds divided by 1000.0.\<close>

record 'd double_env =
  NUM2DBL :: "rvalue \<Rightarrow> 'd res"
  not_positive :: "'d \<Rightarrow> bool"
  times_1000 :: "'d \<Rightarrow> ulong"
  over_1000 :: "ulong \<Rightarrow> 'd"
  DBL2NUM :: "'d \<Rightarrow> rvalue"

definition ruby_curl_easy_timeout_get :: "'d double_env \<Rightarrow> (ruby_curl_easy, rvalue) cmd" where
  "ruby_curl_easy_timeout_get D r = (Inr (DBL2NUM D (over_1000 D (timeout_ms r))), r)"

definition ruby_curl_easy_timeout_set :: "'d double_env \<Rightarrow> rvalue \<Rightarrow> (ruby_curl_easy, rvalue) cmd" where
  "ruby_curl_easy_timeout_set D v =
     bind (if v = Qnil then modify (\<lambda>r. r\<lparr>timeout_ms := 0\<rparr>)
           else bind (lift_res (NUM2DBL D v)) (\<lambda>d.
             modify (\<lambda>r. r\<lparr>timeout_ms := (if not_positive D d then 0 else times_1000 D d)\<rparr>)))
       (\<lambda>_. ruby_curl_easy_timeout_get D)"

section \<open>Unescaping\<close>

text \<open>libcurl gives the bytes, or \<open>NULL\<close> without writing the length: then \<open>rb_str_new\<close> makes a string of
  an indeterminate length, or refuses a negative one.\<close>

definition ruby_curl_easy_unescape ::
  "(nat option \<Rightarrow> string \<Rightarrow> int \<Rightarrow> string option) \<Rightarrow> (int \<Rightarrow> string) \<Rightarrow> int \<Rightarrow> rvalue \<Rightarrow> (ruby_curl_easy, rvalue) cmd" where
  "ruby_curl_easy_unescape curl_unescape unset_bytes junk_length str =
     bind (lift_res (StringValue str)) (\<lambda>s r.
       case curl_unescape (curl r) s (to_signed 32 (int (length s))) of
         Some bytes \<Rightarrow> ret (RStr bytes) r
       | None \<Rightarrow>
           if junk_length < 0 then rb_raise ''rb_eArgError'' ''negative string size (or size too big)'' r
           else ret (RStr (unset_bytes junk_length)) r)"

end
