(* ===== verification/Curb_Info_Facts.thy ===== *)
theory Curb_Info_Facts
  imports Curb_Info
begin

text \<open>
  The information methods: with a native handle that libcurl answers for their values are libcurl's;
  without one they return what the variables of the C functions happened to hold.
\<close>

section \<open>Answers\<close>

definition info_answered :: "'d info_env \<Rightarrow> nat option \<Rightarrow> bool" where
  "info_answered E h \<longleftrightarrow> (\<forall>info. info_long E h info \<noteq> None \<and> info_off E h info \<noteq> None \<and>
     info_double E h info \<noteq> None \<and> info_text E h info \<noteq> None \<and> info_list E h info \<noteq> None)"

definition info_refused :: "'d info_env \<Rightarrow> nat option \<Rightarrow> bool" where
  "info_refused E h \<longleftrightarrow> (\<forall>info. info_long E h info = None \<and> info_off E h info = None \<and>
     info_double E h info = None \<and> info_text E h info = None \<and> info_list E h info = None)"

lemmas info_reads = long_info_def off_info_def double_info_def text_info_def text_info_or_null_def list_info_def
  too_old_def written_or_def

lemma info_answered_reads:
  assumes "info_answered E (curl r)"
  shows "long_info E J info r = long_info E J' info r" "off_info E J info r = off_info E J' info r"
    "double_info E J info r = double_info E J' info r" "text_info E J info r = text_info E J' info r"
    "list_info E J info r = list_info E J' info r"
  using assms [unfolded info_answered_def, THEN spec, of info] by (auto simp: info_reads)

text \<open>Two contents of the variables that differ everywhere.\<close>

definition locals_0 :: "'d \<Rightarrow> 'd locals" where
  "locals_0 d = \<lparr>junk_long = 0, junk_off = 0, junk_double = d, junk_text = None, junk_list = None\<rparr>"

definition locals_1 :: "'d \<Rightarrow> 'd locals" where
  "locals_1 d = \<lparr>junk_long = 1, junk_off = 1, junk_double = d, junk_text = Some ''x'', junk_list = Some []\<rparr>"

lemma info_refused_reads:
  assumes "info_refused E (curl r)"
  shows "long_info E (locals_0 d) info r \<noteq> long_info E (locals_1 d') info r"
    "off_info E (locals_0 d) info r \<noteq> off_info E (locals_1 d') info r"
    "text_info E (locals_0 d) info r \<noteq> text_info E (locals_1 d') info r"
    "list_info E (locals_0 d) info r \<noteq> list_info E (locals_1 d') info r"
    "float_value E d \<noteq> float_value E d' \<Longrightarrow> double_info E (locals_0 d) info r \<noteq> double_info E (locals_1 d') info r"
  using assms [unfolded info_refused_def, THEN spec, of info]
  by (auto simp: info_reads text_value_def locals_0_def locals_1_def)

lemmas info_method_defs =
  ruby_curl_easy_last_effective_url_get_def
  ruby_curl_easy_response_code_get_def
  ruby_curl_easy_primary_ip_get_def
  ruby_curl_easy_http_connect_code_get_def
  ruby_curl_easy_file_time_get_def
  ruby_curl_easy_total_time_get_def
  ruby_curl_easy_name_lookup_time_get_def
  ruby_curl_easy_connect_time_get_def
  ruby_curl_easy_app_connect_time_get_def
  ruby_curl_easy_pre_transfer_time_get_def
  ruby_curl_easy_start_transfer_time_get_def
  ruby_curl_easy_redirect_time_get_def
  ruby_curl_easy_redirect_count_get_def
  ruby_curl_easy_redirect_url_get_def
  ruby_curl_easy_uploaded_bytes_get_def
  ruby_curl_easy_downloaded_bytes_get_def
  ruby_curl_easy_upload_speed_get_def
  ruby_curl_easy_download_speed_get_def
  ruby_curl_easy_header_size_get_def
  ruby_curl_easy_request_size_get_def
  ruby_curl_easy_ssl_verify_result_get_def
  ruby_curl_easy_downloaded_content_length_get_def
  ruby_curl_easy_uploaded_content_length_get_def
  ruby_curl_easy_content_type_get_def
  ruby_curl_easy_os_errno_get_def
  ruby_curl_easy_num_connects_get_def
  ruby_curl_easy_cookielist_get_def
  ruby_curl_easy_ftp_entry_path_get_def

lemma info_methods_answered:
  assumes "(name, g) \<in> set (info_methods E)" and "info_answered E (curl r)"
  shows "g E J r = g E J' r"
proof -
  have "list_all (\<lambda>(name, g). g E J r = g E J' r) (info_methods E)"
    using info_answered_reads [OF assms(2), where J = J and J' = J']
    by (simp add: info_methods_def info_method_defs text_info_or_null_def)
  then show ?thesis using assms(1) by (auto simp: list_all_iff)
qed

lemma info_methods_refused:
  assumes "(name, g) \<in> set (info_methods E)" and "name \<noteq> ''ftp_entry_path''" and "info_refused E (curl r)"
    and "\<And>m. info_macro E m" and "float_value E d \<noteq> float_value E d'"
  shows "g E (locals_0 d) r \<noteq> g E (locals_1 d') r"
proof -
  have "list_all (\<lambda>(name, g). name \<noteq> ''ftp_entry_path'' \<longrightarrow> g E (locals_0 d) r \<noteq> g E (locals_1 d') r) (info_methods E)"
    using info_refused_reads [OF assms(3), where d = d and d' = d'] assms(4,5)
    by (simp add: info_methods_def info_method_defs)
  then show ?thesis using assms(1,2) by (auto simp: list_all_iff)
qed

text \<open>
  The information methods need a handle. Where libcurl answers for the native handle, every method
  returns what libcurl said, whatever the variables held before. Where it refuses, as it does for the
  null handle of an object that was only allocated, every method but \<open>ftp_entry_path\<close>, which sets its
  pointer first, returns the indeterminate content of a variable: two runs can differ.
\<close>

theorem info_needs_a_handle:
  assumes "(name, g) \<in> set (info_methods E)" and "\<And>m. info_macro E m"
    and "float_value E d \<noteq> float_value E d'"
  shows "(info_answered E (curl r) \<longrightarrow> g E J r = g E J' r) \<and>
     (info_refused E None \<and> name \<noteq> ''ftp_entry_path'' \<longrightarrow>
        (\<exists>J J'. g E J (ruby_curl_easy_allocate a b) \<noteq> g E J' (ruby_curl_easy_allocate a b)))"
proof -
  have "curl (ruby_curl_easy_allocate a b) = None"
    by (simp add: ruby_curl_easy_allocate_def ruby_curl_easy_zero_def zero_flags_def zero_opts_def)
  then show ?thesis using info_methods_answered [OF assms(1)] info_methods_refused [OF assms(1) _ _ assms(2,3)] by metis
qed

text \<open>A libcurl that answers for every handle but \<open>NULL\<close>.\<close>

definition sample_info :: "int info_env" where
  "sample_info = \<lparr>info_macro = (\<lambda>_. True), info_long = (\<lambda>h _. map_option (\<lambda>_. 200) h),
     info_off = (\<lambda>h _. map_option (\<lambda>_. 1000) h), info_double = (\<lambda>h _. map_option (\<lambda>_. 2) h),
     info_text = (\<lambda>h _. map_option (\<lambda>_. Some ''text/html'') h), info_list = (\<lambda>h _. map_option (\<lambda>_. None) h),
     float_value = RInt, minus_one = -1\<rparr>"

theorem info_needs_a_handle_witness:
  "ruby_curl_easy_response_code_get sample_info (locals_0 0) ((ruby_curl_easy_allocate 0 0)\<lparr>curl := Some 1\<rparr>) =
     ruby_curl_easy_response_code_get sample_info (locals_1 1) ((ruby_curl_easy_allocate 0 0)\<lparr>curl := Some 1\<rparr>) \<and>
   (\<exists>J J'. ruby_curl_easy_response_code_get sample_info J (ruby_curl_easy_allocate 0 0) \<noteq>
      ruby_curl_easy_response_code_get sample_info J' (ruby_curl_easy_allocate 0 0))"
proof -
  have mem: "(''response_code'', ruby_curl_easy_response_code_get) \<in> set (info_methods sample_info)"
    by (simp add: info_methods_def)
  have macros: "info_macro sample_info m" for m by (simp add: sample_info_def)
  have floats: "float_value sample_info 0 \<noteq> float_value sample_info 1" by (simp add: sample_info_def)
  have "info_answered sample_info (Some h)" "info_refused sample_info None" for h
    by (simp_all add: info_answered_def info_refused_def sample_info_def)
  then show ?thesis
    using info_needs_a_handle [OF mem macros floats, of "(ruby_curl_easy_allocate 0 0)\<lparr>curl := Some 1\<rparr>"
        "locals_0 0" "locals_1 1" 0 0] by simp
qed

end
