(* ===== verification/Curb_Socket_Progress.thy ===== *)
theory Curb_Socket_Progress
  imports Curb_Socket_Facts
begin

text \<open>
  The socket-action loop comes to an end: what is asked of libcurl, of the waits and of user code, how each
  pass of the loop uses up outstanding work, and from that the termination of \<open>perform\<close> with both loops.
\<close>

section \<open>Progress\<close>

text \<open>
  \<open>todo\<close> counts what is left for libcurl, for the waits and for user code. A wait that returns uses some
  of it up, so that where nothing is left it can only raise; a call of \<open>curl_multi_socket_action\<close> that
  leaves transfers running does too; nothing adds to it.
\<close>

abbreviation swork :: "('k \<Rightarrow> nat) \<Rightarrow> 'k socket_state \<Rightarrow> nat" where
  "swork todo l \<equiv> todo (native l)"

definition uses_up :: "('l \<Rightarrow> nat) \<Rightarrow> nat \<Rightarrow> ('l, 'a) mcmd \<Rightarrow> bool" where
  "uses_up todo m c \<longleftrightarrow> adds_no_work todo m c \<and>
     (\<forall>w a v. c w = (Inr a, v) \<longrightarrow> outstanding todo m v < outstanding todo m w)"

definition socket_progress :: "'k socket_env \<Rightarrow> nat \<Rightarrow> ('k \<Rightarrow> nat) \<Rightarrow> bool" where
  "socket_progress S m todo \<longleftrightarrow> progress_ok (se_multi S) m (swork todo) \<and>
     (\<forall>h fd flags w mrc k v. curl_multi_socket_action S h fd flags w = ((mrc, k), v) \<longrightarrow>
        swork todo (lib v) \<le> swork todo (lib w) \<and> (k \<noteq> 0 \<longrightarrow> swork todo (lib v) < swork todo (lib w))) \<and>
     (\<forall>h opt p l. swork todo (curl_multi_setopt (se_multi S) h opt p l) \<le> swork todo l) \<and>
     (\<forall>k. todo (snd (clock_gettime S k)) \<le> todo k) \<and>
     (\<forall>k. todo (snd (gettimeofday S k)) \<le> todo k) \<and>
     (\<forall>fd k. todo (snd (fcntl_getfd S fd k)) \<le> todo k) \<and>
     (\<forall>sch io events t. uses_up (swork todo) m (curb_fiber_scheduler_io_wait S sch io events t)) \<and>
     (\<forall>tv. uses_up (swork todo) m (curb_multi_scheduler_sleep (se_multi S) tv)) \<and>
     (\<forall>fd events tv. uses_up (swork todo) m (rb_wait_for_single_fd S fd events tv)) \<and>
     (\<forall>n sets tv. uses_up (swork todo) m (rb_select_fds S n sets tv)) \<and>
     (\<forall>sch r wr e t. adds_no_work (swork todo) m (rb_fiber_scheduler_io_select S sch r wr e t) \<and>
        (\<forall>w x v. rb_fiber_scheduler_io_select S sch r wr e t w = (Inr (Some x), v) \<longrightarrow>
           outstanding (swork todo) m v < outstanding (swork todo) m w))"

lemma socket_progressD:
  assumes "socket_progress S m todo"
  shows "progress_ok (se_multi S) m (swork todo)"
    and "curl_multi_socket_action S h fd flags w = ((mrc, k), v) \<Longrightarrow>
      swork todo (lib v) \<le> swork todo (lib w) \<and> (k \<noteq> 0 \<longrightarrow> swork todo (lib v) < swork todo (lib w))"
    and "swork todo (curl_multi_setopt (se_multi S) h opt p l) \<le> swork todo l"
    and "todo (snd (clock_gettime S k')) \<le> todo k'"
    and "todo (snd (gettimeofday S k')) \<le> todo k'"
    and "todo (snd (fcntl_getfd S fd k')) \<le> todo k'"
    and "uses_up (swork todo) m (curb_fiber_scheduler_io_wait S sch io events t)"
    and "uses_up (swork todo) m (curb_multi_scheduler_sleep (se_multi S) tv)"
    and "uses_up (swork todo) m (rb_wait_for_single_fd S fd ev tv)"
    and "uses_up (swork todo) m (rb_select_fds S n sets tv)"
    and "adds_no_work (swork todo) m (rb_fiber_scheduler_io_select S sch r wr e t)"
    and "rb_fiber_scheduler_io_select S sch r wr e t w = (Inr (Some x), v) \<Longrightarrow>
      outstanding (swork todo) m v < outstanding (swork todo) m w"
proof -
  note d = assms [unfolded socket_progress_def]
  show "progress_ok (se_multi S) m (swork todo)" by (rule d [THEN conjunct1])
  note d = d [THEN conjunct2]
  show "curl_multi_socket_action S h fd flags w = ((mrc, k), v) \<Longrightarrow>
      swork todo (lib v) \<le> swork todo (lib w) \<and> (k \<noteq> 0 \<longrightarrow> swork todo (lib v) < swork todo (lib w))"
    using d [THEN conjunct1] by blast
  note d = d [THEN conjunct2]
  show "swork todo (curl_multi_setopt (se_multi S) h opt p l) \<le> swork todo l"
    using d [THEN conjunct1] by blast
  note d = d [THEN conjunct2]
  show "todo (snd (clock_gettime S k')) \<le> todo k'"
    using d [THEN conjunct1] by blast
  note d = d [THEN conjunct2]
  show "todo (snd (gettimeofday S k')) \<le> todo k'"
    using d [THEN conjunct1] by blast
  note d = d [THEN conjunct2]
  show "todo (snd (fcntl_getfd S fd k')) \<le> todo k'"
    using d [THEN conjunct1] by blast
  note d = d [THEN conjunct2]
  show "uses_up (swork todo) m (curb_fiber_scheduler_io_wait S sch io events t)"
    using d [THEN conjunct1] by blast
  note d = d [THEN conjunct2]
  show "uses_up (swork todo) m (curb_multi_scheduler_sleep (se_multi S) tv)"
    using d [THEN conjunct1] by blast
  note d = d [THEN conjunct2]
  show "uses_up (swork todo) m (rb_wait_for_single_fd S fd ev tv)"
    using d [THEN conjunct1] by blast
  note d = d [THEN conjunct2]
  show "uses_up (swork todo) m (rb_select_fds S n sets tv)"
    using d [THEN conjunct1] by blast
  note d = d [THEN conjunct2]
  show "adds_no_work (swork todo) m (rb_fiber_scheduler_io_select S sch r wr e t)"
    "rb_fiber_scheduler_io_select S sch r wr e t w = (Inr (Some x), v) \<Longrightarrow>
      outstanding (swork todo) m v < outstanding (swork todo) m w"
    using d by blast+
qed

abbreviation returns :: "('s \<Rightarrow> bool) \<Rightarrow> ('s, 'a) cmd \<Rightarrow> ('a \<Rightarrow> 's \<Rightarrow> bool) \<Rightarrow> bool" where
  "returns P c Q \<equiv> triple (\<lambda>_. True) P c Q"

lemma quiet_returns:
  "adds_no_work todo m c \<Longrightarrow> returns (within todo m B) c (\<lambda>_. within todo m B)"
proof -
  assume quiet: "adds_no_work todo m c"
  have "outstanding todo m v \<le> B" if "within todo m B w" and "c w = (r, v)" for w r v
    using keepsD [OF quiet [unfolded adds_no_work_def], of w] that by simp
  then show ?thesis by (auto simp: triple_def split: prod.split sum.split)
qed

lemma uses_up_returns:
  "uses_up todo m c \<Longrightarrow> returns (within todo m (Suc B)) c (\<lambda>_. within todo m B)"
  unfolding uses_up_def triple_def by (fastforce split: prod.split sum.split)

lemma ends_returns:
  assumes "returns P c Q" and "\<And>a. ends (Q a) (f a) R"
  shows "ends P (pbind (run c) f) R"
  unfolding ends_def
proof (intro allI impI)
  fix s assume "P s"
  then show "\<exists>r t. pbind (run c) f s = Some (r, t) \<and> (\<forall>a. r = Inr a \<longrightarrow> R t)"
    using assms by (cases "c s"; cases "fst (c s)") (auto simp: triple_def pbind_def run_def ends_def)
qed

section \<open>Commands\<close>

lemma within_ctx [simp]: "outstanding (swork todo) m (upd_ctx n f w) = outstanding (swork todo) m w"
  by (simp add: outstanding_def upd_ctx_def rbcm_of_def)

lemma native_adds_no_work:
  "(\<And>k. todo (snd (f k)) \<le> todo k) \<Longrightarrow> adds_no_work (swork todo) m (on_native f)"
  by (simp add: adds_no_work_def keeps_def on_native_def outstanding_def rbcm_of_def split: prod.split) (metis snd_conv)

lemma native_calls_add_no_work:
  assumes "socket_progress S m todo"
  shows "adds_no_work (swork todo) m (on_native (clock_gettime S))"
    and "adds_no_work (swork todo) m (on_native (gettimeofday S))"
    and "adds_no_work (swork todo) m (on_native (fcntl_getfd S fd))"
  by (intro native_adds_no_work; fact socket_progressD [OF assms])+

lemma current_time_adds_no_work:
  assumes "socket_progress S m todo"
  shows "adds_no_work (swork todo) m (multi_socket_current_time_ms S)"
  using native_calls_add_no_work [OF assms] unfolding adds_no_work_def multi_socket_current_time_ms_def
  by (intro quiet_intros; auto intro: quiet.pure quiet.bound split: option.split)

lemma clock_read_adds_no_work:
  assumes "socket_progress S m todo"
  shows "outstanding (swork todo) m (snd (bind (multi_socket_current_time_ms S) (\<lambda>now. ret (f now)) w)) \<le>
    outstanding (swork todo) m w"
  by (rule keepsD) (intro quiet_intros current_time_adds_no_work [OF assms, unfolded adds_no_work_def])

lemma clock_adds_no_work:
  assumes ok: "socket_progress S m todo"
  shows "adds_no_work (swork todo) m (multi_socket_timer_due S n)"
    and "adds_no_work (swork todo) m (timed_out S n)"
    and "adds_no_work (swork todo) m (multi_socket_fd_valid_p S fd)"
    and "adds_no_work (swork todo) m (socket_wait_ms S n limit)"
proof -
  show due: "adds_no_work (swork todo) m (multi_socket_timer_due S n)"
    by (simp add: adds_no_work_def keeps_def multi_socket_timer_due_def clock_read_adds_no_work [OF ok])
  show "adds_no_work (swork todo) m (timed_out S n)"
    using due unfolding adds_no_work_def timed_out_def by (intro quiet_intros)
  show "adds_no_work (swork todo) m (multi_socket_fd_valid_p S fd)"
    using native_calls_add_no_work [OF ok] unfolding adds_no_work_def multi_socket_fd_valid_p_def split_def
    by (intro quiet_intros)
  show "adds_no_work (swork todo) m (socket_wait_ms S n limit)"
    by (simp add: adds_no_work_def keeps_def socket_wait_ms_def Let_def clock_read_adds_no_work [OF ok])
qed

lemma action_returns:
  assumes ok: "socket_progress S m todo"
  shows "returns (within (swork todo) m (Suc (2 * k))) (socket_action S m fd flags) (\<lambda>_. within (swork todo) m (2 * k))"
  unfolding triple_def
proof (intro allI impI)
  fix w assume w: "within (swork todo) m (Suc (2 * k)) w"
  obtain mrc j v where p: "curl_multi_socket_action S (handle (rbcm_of m w)) fd flags w = ((mrc, j), v)"
    by (metis prod.collapse)
  have "swork todo (lib w) \<le> k" using w by (simp add: outstanding_def split: if_splits)
  then have "within (swork todo) m (2 * k) (upd_rbcm m (\<lambda>c. c\<lparr>running := j\<rparr>) v)"
    using socket_progressD(2) [OF ok p] by (auto simp: outstanding_def world_simps)
  then show "case socket_action S m fd flags w of (Inl e, v) \<Rightarrow> True | (Inr _, v) \<Rightarrow> within (swork todo) m (2 * k) v"
    using p by (simp add: socket_action_def raise_multi_def rb_exc_raise_def ret_def)
qed

lemma action_adds_no_work:
  assumes ok: "socket_progress S m todo"
  shows "adds_no_work (swork todo) m (socket_action S m fd flags)"
  unfolding adds_no_work_def keeps_def
proof
  fix w
  obtain mrc j v where p: "curl_multi_socket_action S (handle (rbcm_of m w)) fd flags w = ((mrc, j), v)"
    by (metis prod.collapse)
  then show "outstanding (swork todo) m (snd (socket_action S m fd flags w)) \<le> outstanding (swork todo) m w"
    using socket_progressD(2) [OF ok p]
    by (auto simp: socket_action_def raise_multi_def rb_exc_raise_def ret_def outstanding_def world_simps)
qed

lemma timeout_returns:
  assumes ok: "socket_progress S m todo"
  shows "returns (within (swork todo) m (Suc (2 * k))) (socket_timeout S m) (\<lambda>_. within (swork todo) m (2 * k))"
  unfolding socket_timeout_def by (rule triple_bind [OF triple_modify action_returns [OF ok]]) simp

lemma actions_return:
  assumes ok: "socket_progress S m todo"
  shows "returns (within (swork todo) m B) (socket_actions S m fds) (\<lambda>_. within (swork todo) m B)"
proof -
  have "adds_no_work (swork todo) m (socket_actions S m fds)"
    using action_adds_no_work [OF ok] unfolding adds_no_work_def socket_actions_def
    by (induction fds) (auto intro: quiet.empty quiet.cons)
  then show ?thesis by (rule quiet_returns)
qed

section \<open>Waits\<close>

text \<open>After a wait that makes the loop tell libcurl, nothing need be used up yet.\<close>

definition after_wait :: "('k \<Rightarrow> nat) \<Rightarrow> nat \<Rightarrow> nat \<Rightarrow> wait_outcome \<Rightarrow> 'k sworld \<Rightarrow> bool" where
  "after_wait todo m k outcome v \<longleftrightarrow> within (swork todo) m (Suc (2 * k)) v \<and>
     (outcome = Interrupted \<or> \<not> did_timeout outcome \<longrightarrow> within (swork todo) m (2 * k) v)"

abbreviation after_wait_opt :: "('k \<Rightarrow> nat) \<Rightarrow> nat \<Rightarrow> nat \<Rightarrow> wait_outcome option \<Rightarrow> 'k sworld \<Rightarrow> bool" where
  "after_wait_opt todo m k handled v \<equiv>
     (case handled of None \<Rightarrow> within (swork todo) m (Suc (2 * k)) v | Some outcome \<Rightarrow> after_wait todo m k outcome v)"

lemma after_wait_spent: "within (swork todo) m (2 * k) v \<Longrightarrow> after_wait todo m k outcome v"
  by (simp add: after_wait_def)

lemma io_for_fd_adds_no_work:
  assumes ok: "socket_progress S m todo"
  shows "adds_no_work (swork todo) m (multi_socket_io_for_fd S m fd what)"
proof -
  have store: "keeps (\<lambda>w v. outstanding (swork todo) m v \<le> outstanding (swork todo) m w) (modify (upd_ctx m f))" for f
    by (simp add: keeps_def modify_def)
  note send = progress_okD(7) [OF socket_progressD(1) [OF ok], unfolded adds_no_work_def]
  have "keeps (\<lambda>w v. outstanding (swork todo) m v \<le> outstanding (swork todo) m w)
     (bind (rb_send (se_multi S) (cRubyIO S) ''for_fd'' [RInt fd, RStr (multi_socket_io_mode_for_curl_poll what)]) (\<lambda>io.
      bind (rb_send (se_multi S) io ''autoclose='' [Qfalse]) (\<lambda>_.
      bind (modify (upd_ctx m (\<lambda>c. c\<lparr>io_cache := (case io_cache c of None \<Rightarrow> None
                      | Some h \<Rightarrow> Some (st_insert h fd io))\<rparr>))) (\<lambda>_. ret io))))"
    by (intro quiet_intros send store)
  then show ?thesis by (auto simp: adds_no_work_def keeps_def multi_socket_io_for_fd_def Let_def)
qed

lemma arrays_add_no_work:
  assumes ok: "socket_progress S m todo"
  shows "adds_no_work (swork todo) m (build_io_select_arrays S m t acc)"
proof (induction t arbitrary: acc)
  case Nil
  then show ?case by (cases acc) (simp add: adds_no_work_def quiet.pure)
next
  case (Cons p t)
  obtain fd what r w e where split: "p = (fd, what)" "acc = (r, w, e)" by (metis prod.exhaust)
  show ?case
    using Cons io_for_fd_adds_no_work [OF ok] clock_adds_no_work(3) [OF ok]
    unfolding split build_io_select_arrays.simps adds_no_work_def by (intro quiet_intros)
qed

lemma scheduler_adds_no_work:
  assumes ok: "socket_progress S m todo"
  shows "adds_no_work (swork todo) m (curb_fiber_scheduler_current (se_multi S))"
proof -
  note calls = progress_okD(7,8) [OF socket_progressD(1) [OF ok], unfolded adds_no_work_def]
  show ?thesis unfolding adds_no_work_def curb_fiber_scheduler_current_def by (intro quiet_intros calls)
qed

lemma io_select_returns:
  assumes ok: "socket_progress S m todo"
  shows "returns (within (swork todo) m (Suc (2 * k))) (rb_fiber_scheduler_io_select S sch r wr e t)
    (\<lambda>ready v. within (swork todo) m (Suc (2 * k)) v \<and> (ready \<noteq> None \<longrightarrow> within (swork todo) m (2 * k) v))"
  unfolding triple_def
proof (intro allI impI)
  fix w assume w: "within (swork todo) m (Suc (2 * k)) w"
  obtain x v where x: "rb_fiber_scheduler_io_select S sch r wr e t w = (x, v)" by fastforce
  have "outstanding (swork todo) m v \<le> outstanding (swork todo) m w"
    using keepsD [OF socket_progressD(11) [OF ok, unfolded adds_no_work_def], where s = w] x by (metis snd_conv)
  moreover have "outstanding (swork todo) m v < outstanding (swork todo) m w" if "x = Inr (Some y)" for y
    using socket_progressD(12) [OF ok] x that by blast
  ultimately show "case rb_fiber_scheduler_io_select S sch r wr e t w of (Inl e, v) \<Rightarrow> True
    | (Inr a, v) \<Rightarrow> within (swork todo) m (Suc (2 * k)) v \<and> (a \<noteq> None \<longrightarrow> within (swork todo) m (2 * k) v)"
    using w x by (auto split: sum.split)
qed

lemma timed_out_returns:
  assumes ok: "socket_progress S m todo"
  shows "returns (within (swork todo) m (2 * k)) (timed_out S m) (\<lambda>outcome v. within (swork todo) m (2 * k) v)"
  by (rule quiet_returns [OF clock_adds_no_work(2) [OF ok]])

lemma wait_io_select_returns:
  assumes ok: "socket_progress S m todo"
  shows "returns (within (swork todo) m (Suc (2 * k))) (wait_io_select S m count tv) (after_wait_opt todo m k)"
proof -
  let ?P = "within (swork todo) m (Suc (2 * k))" and ?Q = "within (swork todo) m (2 * k)"
  have none: "returns ?P (ret None) (after_wait_opt todo m k)" by (rule triple_ret) simp
  have arrays: "returns ?P (\<lambda>w. build_io_select_arrays S m (tracked m w) ([], [], []) w) (\<lambda>_. ?P)"
    using quiet_returns [OF arrays_add_no_work [OF ok]] by (simp add: triple_def)
  have out: "returns ?Q (bind (timed_out S m) (\<lambda>outcome. ret (Some outcome))) (after_wait_opt todo m k)"
    by (rule triple_bind [OF timed_out_returns [OF ok] triple_ret]) (simp add: after_wait_spent)
  have found: "returns ?Q (bind (gets f) (\<lambda>fds.
      bind (if fds \<noteq> [] then ret (Waited False True 0) else timed_out S m) (\<lambda>outcome.
      bind (socket_actions S m fds) (\<lambda>_. ret (Some outcome))))) (after_wait_opt todo m k)" for f
    by (rule triple_bind [where Q = "\<lambda>_. ?Q", OF triple_gets], assumption)
      (rule triple_bind [where Q = "\<lambda>_. ?Q", OF triple_if [OF triple_ret timed_out_returns [OF ok]]], assumption,
        rule triple_bind [OF actions_return [OF ok] triple_ret], simp add: after_wait_spent)
  have ready: "returns (\<lambda>v. ?P v \<and> (ready \<noteq> None \<longrightarrow> ?Q v)) (case ready of
      None \<Rightarrow> ret None
    | Some (RArr vs) \<Rightarrow> bind (gets (f vs)) (\<lambda>fds.
        bind (if fds \<noteq> [] then ret (Waited False True 0) else timed_out S m) (\<lambda>outcome.
        bind (socket_actions S m fds) (\<lambda>_. ret (Some outcome))))
    | Some _ \<Rightarrow> bind (timed_out S m) (\<lambda>outcome. ret (Some outcome))) (after_wait_opt todo m k)" for ready f
  proof (cases ready)
    case None
    show ?thesis unfolding None option.case by (rule triple_pre [OF none]) simp
  next
    case (Some x)
    show ?thesis
      unfolding Some option.case
      by (cases x) (simp_all only: rvalue.case, (rule triple_pre [OF out] triple_pre [OF found], simp)+)
  qed
  show ?thesis
    unfolding wait_io_select_def
    by (intro triple_if none triple_bind [OF quiet_returns [OF scheduler_adds_no_work [OF ok]]] triple_bind [OF arrays])
      (simp add: none triple_bind [OF io_select_returns [OF ok] ready] split: option.split)
qed

lemma forget_returns:
  "returns (within (swork todo) m B) (bind (modify (upd_ctx m (multi_socket_forget_fd fd))) (\<lambda>_. ret a))
     (\<lambda>b v. b = a \<and> within (swork todo) m B v)"
  by (rule triple_bind [where Q = "\<lambda>_. within (swork todo) m B", OF triple_modify triple_ret]) simp_all

text \<open>The waits that use something up when they return.\<close>

lemma wait_calls_return:
  assumes ok: "socket_progress S m todo"
  shows "returns (within (swork todo) m (Suc B)) (curb_fiber_scheduler_io_wait S sch io events t) (\<lambda>_. within (swork todo) m B)"
    and "returns (within (swork todo) m (Suc B)) (curb_multi_scheduler_sleep (se_multi S) tv) (\<lambda>_. within (swork todo) m B)"
    and "returns (within (swork todo) m (Suc B)) (rb_wait_for_single_fd S fd ev tv) (\<lambda>_. within (swork todo) m B)"
    and "returns (within (swork todo) m (Suc B)) (rb_select_fds S n sets tv) (\<lambda>_. within (swork todo) m B)"
  by (rule uses_up_returns, rule socket_progressD [OF ok])+

lemma quiet_calls_return:
  assumes ok: "socket_progress S m todo"
  shows "returns (within (swork todo) m B) (curb_fiber_scheduler_current (se_multi S)) (\<lambda>_. within (swork todo) m B)"
    and "returns (within (swork todo) m B) (multi_socket_fd_valid_p S fd) (\<lambda>_. within (swork todo) m B)"
    and "returns (within (swork todo) m B) (multi_socket_io_for_fd S m fd what) (\<lambda>_. within (swork todo) m B)"
  by (rule quiet_returns, rule scheduler_adds_no_work [OF ok] clock_adds_no_work [OF ok] io_for_fd_adds_no_work [OF ok])+

lemma wait_representative_returns:
  assumes ok: "socket_progress S m todo"
  shows "returns (within (swork todo) m (Suc (2 * k))) (wait_representative S m fd what tv)
    (\<lambda>r v. case r of Inl outcome \<Rightarrow> after_wait todo m k outcome v | Inr _ \<Rightarrow> within (swork todo) m (Suc (2 * k)) v)"
proof -
  let ?P = "within (swork todo) m (Suc (2 * k))"
  let ?T = "\<lambda>r v. case r of Inl outcome \<Rightarrow> after_wait todo m k outcome v | Inr _ \<Rightarrow> ?P v"
  have go_on: "returns ?P (ret (Inr t)) ?T" "returns (within (swork todo) m (2 * k)) (ret (Inr t)) ?T" for t
    by (rule triple_ret, simp)+
  have gone: "returns ?P (bind (modify (upd_ctx m (multi_socket_forget_fd fd))) (\<lambda>_. ret (Inl (Waited True False 0)))) ?T"
    by (rule triple_post [OF forget_returns]) (auto simp: after_wait_def)
  note calls = quiet_calls_return [OF ok, THEN triple_bind]
  show ?thesis
    unfolding wait_representative_def
    by (intro triple_if go_on gone calls wait_calls_return(1) [OF ok, THEN triple_bind])
qed

lemma wait_failed_returns: "returns (within (swork todo) m (2 * k)) (wait_failed S name errno) (after_wait todo m k)"
  by (simp add: wait_failed_def triple_def rb_raise_def ret_def after_wait_spent)

lemma timed_out_after_wait:
  assumes ok: "socket_progress S m todo"
  shows "returns (within (swork todo) m (2 * k)) (timed_out S m) (after_wait todo m k)"
  by (rule triple_post [OF timed_out_returns [OF ok]]) (rule after_wait_spent)

lemma wait_select_returns:
  assumes ok: "socket_progress S m todo"
  shows "returns (within (swork todo) m (Suc (2 * k))) (wait_select S m count tv) (after_wait todo m k)"
proof -
  let ?Q = "within (swork todo) m (2 * k)"
  have ready: "returns ?Q (bind (gets f) (\<lambda>fds. bind (socket_actions S m fds) (\<lambda>_. ret (Waited False True 0))))
      (after_wait todo m k)" for f
    by (rule triple_bind [where Q = "\<lambda>_. ?Q", OF triple_gets triple_bind [OF actions_return [OF ok] triple_ret]])
      (simp_all add: after_wait_spent)
  show ?thesis
    unfolding wait_select_def split_def
    by (rule triple_bind [where Q = "\<lambda>_. within (swork todo) m (Suc (2 * k))", OF triple_gets], assumption)
      (intro triple_bind [OF wait_calls_return(4) [OF ok]] triple_if wait_failed_returns ready timed_out_after_wait [OF ok])
qed

lemma wait_many_returns:
  assumes ok: "socket_progress S m todo"
  shows "returns (within (swork todo) m (Suc (2 * k))) (wait_many S m count fd what tv) (after_wait todo m k)"
proof -
  let ?P = "within (swork todo) m (Suc (2 * k))"
  have next_wait: "returns (\<lambda>v. case r of Inl outcome \<Rightarrow> after_wait todo m k outcome v | Inr _ \<Rightarrow> ?P v)
      (case r of Inl outcome \<Rightarrow> ret outcome | Inr rest \<Rightarrow> wait_select S m count rest) (after_wait todo m k)" for r
    by (cases r) (simp_all add: triple_ret wait_select_returns [OF ok])
  have "returns (after_wait_opt todo m k handled) (case handled of
       Some outcome \<Rightarrow> ret outcome
     | None \<Rightarrow> bind (wait_representative S m fd what tv) (\<lambda>next_wait.
         case next_wait of Inl outcome \<Rightarrow> ret outcome | Inr rest \<Rightarrow> wait_select S m count rest)) (after_wait todo m k)" for handled
    by (cases handled) (simp_all add: triple_ret triple_bind [OF wait_representative_returns [OF ok] next_wait])
  then show ?thesis unfolding wait_many_def by (rule triple_bind [OF wait_io_select_returns [OF ok]])
qed

lemma io_wait_outcome_returns:
  assumes ok: "socket_progress S m todo"
  shows "returns (within (swork todo) m (2 * k)) (io_wait_outcome S m what ready) (after_wait todo m k)"
proof -
  let ?Q = "within (swork todo) m (2 * k)"
  have spent: "returns ?Q (ret outcome) (after_wait todo m k)" for outcome
    by (rule triple_ret) (rule after_wait_spent)
  have number: "returns ?Q (bind (lift_res (NUM2INT (RInt i))) (\<lambda>events.
      let flags = multi_socket_cselect_flags_for_wait_events events
      in if flags = 0 then timed_out S m else ret (Waited False True flags))) (after_wait todo m k)" for i
    unfolding Let_def
    by (rule triple_bind [where Q = "\<lambda>_. ?Q"])
      (simp add: triple_def lift_res_def split: prod.split sum.split, intro triple_if timed_out_after_wait [OF ok] spent)
  show ?thesis
    unfolding io_wait_outcome_def
    by (intro triple_if timed_out_after_wait [OF ok]) (cases ready; simp only: rvalue.case spent number)
qed

lemma wait_io_wait_returns:
  assumes ok: "socket_progress S m todo"
  shows "returns (within (swork todo) m (Suc (2 * k))) (wait_io_wait S m fd what tv) (after_wait_opt todo m k)"
proof -
  let ?P = "within (swork todo) m (Suc (2 * k))" and ?Q = "within (swork todo) m (2 * k)"
  have some: "returns ?Q c (after_wait todo m k) \<Longrightarrow>
      returns ?Q (bind c (\<lambda>outcome. ret (Some outcome))) (after_wait_opt todo m k)" for c
    by (erule triple_bind) (rule triple_ret, simp)
  have none: "returns ?P (ret None) (after_wait_opt todo m k)" by (rule triple_ret) simp
  have gone: "returns ?P (bind (modify (upd_ctx m (multi_socket_forget_fd fd))) (\<lambda>_. ret (Some (Waited True False 0))))
      (after_wait_opt todo m k)"
    by (rule triple_post [OF forget_returns]) (auto simp: after_wait_def)
  note calls = quiet_calls_return [OF ok, THEN triple_bind]
  show ?thesis
    unfolding wait_io_wait_def
    by (intro triple_if none gone calls wait_calls_return(1,2) [OF ok, THEN triple_bind] some
        timed_out_after_wait [OF ok] io_wait_outcome_returns [OF ok])
qed

lemma wait_one_returns:
  assumes ok: "socket_progress S m todo"
  shows "returns (within (swork todo) m (Suc (2 * k))) (wait_one S m fd what tv) (after_wait todo m k)"
proof -
  let ?P = "within (swork todo) m (Suc (2 * k))"
  have spent: "returns (within (swork todo) m (2 * k)) (ret outcome) (after_wait todo m k)" for outcome
    by (rule triple_ret) (rule after_wait_spent)
  have single: "returns ?P (wait_single_fd S m fd what tv) (after_wait todo m k)"
    unfolding wait_single_fd_def split_def
    by (intro triple_bind [OF wait_calls_return(3) [OF ok]] triple_if wait_failed_returns spent timed_out_after_wait [OF ok])
  have select: "returns ?P (wait_single_select S m fd what tv) (after_wait todo m k)"
    unfolding wait_single_select_def split_def Let_def
    by (intro triple_bind [OF wait_calls_return(4) [OF ok]] triple_if wait_failed_returns spent timed_out_after_wait [OF ok])
  have "returns (after_wait_opt todo m k handled) (case handled of
       Some outcome \<Rightarrow> ret outcome
     | None \<Rightarrow> if have_macro (se_env S) ''HAVE_RB_WAIT_FOR_SINGLE_FD'' \<and> 0 \<le> fd
         then wait_single_fd S m fd what tv else wait_single_select S m fd what tv) (after_wait todo m k)" for handled
    by (cases handled) (simp_all add: triple_ret single select)
  then show ?thesis unfolding wait_one_def by (rule triple_bind [OF wait_io_wait_returns [OF ok]])
qed

lemma socket_wait_returns:
  assumes ok: "socket_progress S m todo"
  shows "returns (within (swork todo) m (Suc (2 * k))) (socket_wait S m ms count picked) (after_wait todo m k)"
proof -
  have idle: "returns (within (swork todo) m (Suc (2 * k)))
      (bind (curb_multi_scheduler_sleep (se_multi S) tv) (\<lambda>_. ret (Waited True False 0))) (after_wait todo m k)" for tv
    by (rule triple_bind [OF wait_calls_return(2) [OF ok] triple_ret]) (rule after_wait_spent)
  show ?thesis
    unfolding socket_wait_def Let_def by (intro triple_if wait_many_returns [OF ok] wait_one_returns [OF ok] idle)
qed

lemma dispatch_returns:
  assumes ok: "socket_progress S m todo" and "outcome \<noteq> Interrupted"
  shows "returns (after_wait todo m k outcome) (socket_dispatch S m count picked outcome) (\<lambda>_. within (swork todo) m (2 * k))"
proof (cases "did_timeout outcome")
  case True
  then show ?thesis
    unfolding socket_dispatch_def by (simp, intro triple_pre [OF timeout_returns [OF ok]]) (simp add: after_wait_def)
next
  case False
  have "returns (within (swork todo) m (2 * k)) (socket_dispatch S m count picked outcome) (\<lambda>_. within (swork todo) m (2 * k))"
    unfolding socket_dispatch_def
    using False by (intro triple_if quiet_returns [OF action_adds_no_work [OF ok]]) (simp_all add: triple_ret)
  then show ?thesis by (rule triple_pre) (use False in \<open>simp add: after_wait_def\<close>)
qed

section \<open>The loops\<close>

lemma read_and_yield_ends:
  assumes ok: "socket_progress S m todo" and "B < 2 * n"
  shows "ends (within (swork todo) m B) (read_and_yield n S m block) (within (swork todo) m B)"
  unfolding read_and_yield_def
  by (rule ends_bind [OF read_info_ends [OF socket_progressD(1) [OF ok] assms(2)]
        quiet_ends [OF quiet_calls(6) [OF socket_progressD(1) [OF ok]]]])

lemma socket_timer_pass_ends:
  assumes ok: "socket_progress S m todo" and "k < n"
  shows "ends (within (swork todo) m (Suc (2 * k))) (socket_timer_pass n S m block) (within (swork todo) m (2 * k))"
proof -
  have "keeps (\<lambda>w v. outstanding (swork todo) m v \<le> outstanding (swork todo) m w)
      (bind (multi_socket_timer_due S m) (\<lambda>due. if due then curb_multi_scheduler_yield (se_multi S) else ret ()))"
    using clock_adds_no_work(1) [OF ok] quiet_calls(5) [OF socket_progressD(1) [OF ok]]
    unfolding adds_no_work_def by (intro quiet_intros)
  then have "adds_no_work (swork todo) m (\<lambda>w. if running (rbcm_of m w) \<noteq> 0
       then bind (multi_socket_timer_due S m) (\<lambda>due.
              if due then curb_multi_scheduler_yield (se_multi S) else ret ()) w
       else (Inr (), w))"
    by (simp add: adds_no_work_def keeps_def)
  moreover have "2 * k < 2 * n" using assms(2) by simp
  ultimately show ?thesis
    unfolding socket_timer_pass_def
    by (intro ends_returns [OF timeout_returns [OF ok]] ends_bind [OF read_and_yield_ends [OF ok]] quiet_ends)
qed

lemma socket_wait_pass_ends:
  assumes ok: "socket_progress S m todo" and "k < n"
  shows "ends (within (swork todo) m (Suc (2 * k))) (socket_wait_pass n S m block limit) (within (swork todo) m (2 * k))"
proof -
  let ?P = "within (swork todo) m (Suc (2 * k))" and ?Q = "within (swork todo) m (2 * k)"
  have fuel: "2 * k < 2 * n" using assms(2) by simp
  have idle: "ends (after_wait todo m k Interrupted) (run (ret ())) ?Q"
    by (rule ends_run) (simp add: ret_def after_wait_def)
  have told: "ends (after_wait todo m k outcome) (if outcome = Interrupted then run (ret ())
      else pbind (run (socket_dispatch S m count picked outcome)) (\<lambda>_. read_and_yield n S m block)) ?Q" for outcome count picked
    by (cases "outcome = Interrupted")
      (simp_all add: idle ends_returns [OF dispatch_returns [OF ok] read_and_yield_ends [OF ok fuel]])
  have tracked: "returns ?P (gets f) (\<lambda>_. ?P)" for f by (rule triple_gets)
  show ?thesis
    unfolding socket_wait_pass_def
    by (intro ends_returns [OF quiet_returns [OF clock_adds_no_work(4) [OF ok]]] ends_returns [OF tracked]
        ends_returns [OF socket_wait_returns [OF ok]] told)
qed

lemma socket_pass_ends:
  assumes ok: "socket_progress S m todo" and "k < n"
  shows "ends (within (swork todo) m (Suc (2 * k))) (socket_pass n S m block) (within (swork todo) m (2 * k))"
proof -
  have limit: "adds_no_work (swork todo) m curb_multi_default_timeout"
    by (simp add: adds_no_work_def keeps_def curb_multi_default_timeout_def split: option.split)
  show ?thesis
    unfolding socket_pass_def
    by (intro ends_bind [OF quiet_ends [OF limit]] ends_bind [OF quiet_ends [OF clock_adds_no_work(1) [OF ok]]]
        ends_if socket_timer_pass_ends [OF assms] socket_wait_pass_ends [OF assms])
qed

lemma socket_while_ends:
  assumes ok: "socket_progress S m todo"
  shows "B < n \<Longrightarrow> ends (within (swork todo) m B) (socket_while n S m block) (within (swork todo) m B)"
proof (induction n arbitrary: B)
  case (Suc n)
  show ?case
    unfolding ends_def
  proof (intro allI impI)
    fix w assume w: "within (swork todo) m B w"
    show "\<exists>r t. socket_while (Suc n) S m block w = Some (r, t) \<and> (\<forall>a. r = Inr a \<longrightarrow> within (swork todo) m B t)"
    proof (cases "running (rbcm_of m w) = 0")
      case True
      then show ?thesis using w by simp
    next
      case False
      let ?k = "swork todo (lib w)"
      have k: "outstanding (swork todo) m w = Suc (2 * ?k)" using False by (simp add: outstanding_def)
      then have less: "?k < n" "2 * ?k < n" "2 * ?k \<le> B" using Suc.prems w by simp_all
      have "ends (within (swork todo) m (Suc (2 * ?k)))
          (pbind (socket_pass n S m block) (\<lambda>_. socket_while n S m block)) (within (swork todo) m (2 * ?k))"
        by (rule ends_bind [OF socket_pass_ends [OF ok less(1)] Suc.IH [OF less(2)]])
      then obtain r t where t: "pbind (socket_pass n S m block) (\<lambda>_. socket_while n S m block) w = Some (r, t)"
        "\<And>a. r = Inr a \<Longrightarrow> within (swork todo) m (2 * ?k) t"
        using k unfolding ends_def by (metis order_refl)
      then show ?thesis using False less(3) by (auto intro: le_trans)
    qed
  qed
qed simp

lemma socket_drive_ends:
  assumes ok: "socket_progress S m todo"
  shows "Suc (2 * k) < n \<Longrightarrow>
    ends (within (swork todo) m (Suc (2 * k))) (rb_curl_multi_socket_drive n S m block) (\<lambda>_. True)"
proof (induction n arbitrary: k)
  case (Suc n)
  have fuel: "2 * k < 2 * n" "2 * k < n" using Suc.prems by simp_all
  have again: "ends (within (swork todo) m (2 * k)) (\<lambda>v. if running (rbcm_of m v) \<noteq> 0
      then rb_curl_multi_socket_drive n S m block v else Some (Inr (), v)) (\<lambda>_. True)"
    unfolding ends_def
  proof (intro allI impI)
    fix v assume v: "within (swork todo) m (2 * k) v"
    show "\<exists>r t. (if running (rbcm_of m v) \<noteq> 0 then rb_curl_multi_socket_drive n S m block v
        else Some (Inr (), v)) = Some (r, t) \<and> (\<forall>a. r = Inr a \<longrightarrow> True)"
    proof (cases "running (rbcm_of m v) = 0")
      case False
      let ?k = "swork todo (lib v)"
      have k: "outstanding (swork todo) m v = Suc (2 * ?k)" using False by (simp add: outstanding_def)
      then have "Suc (2 * ?k) < n" using v fuel by simp
      from Suc.IH [OF this] k False show ?thesis unfolding ends_def by auto
    qed simp
  qed
  note read = read_and_yield_ends [OF ok fuel(1), of block]
  have "rb_curl_multi_socket_drive (Suc n) S m block =
     pbind (run (socket_action S m CURL_SOCKET_TIMEOUT 0)) (\<lambda>_.
     pbind (read_and_yield n S m block) (\<lambda>_.
     pbind (socket_while n S m block) (\<lambda>_.
     pbind (read_and_yield n S m block) (\<lambda>_ v.
       if running (rbcm_of m v) \<noteq> 0 then rb_curl_multi_socket_drive n S m block v
       else Some (Inr (), v)))))"
    by (rule ext) (simp only: rb_curl_multi_socket_drive.simps)
  moreover have "ends (within (swork todo) m (Suc (2 * k))) (pbind (run (socket_action S m CURL_SOCKET_TIMEOUT 0)) (\<lambda>_.
     pbind (read_and_yield n S m block) (\<lambda>_.
     pbind (socket_while n S m block) (\<lambda>_.
     pbind (read_and_yield n S m block) (\<lambda>_ v.
       if running (rbcm_of m v) \<noteq> 0 then rb_curl_multi_socket_drive n S m block v
       else Some (Inr (), v)))))) (\<lambda>_. True)"
    by (rule ends_returns [OF action_returns [OF ok]
          ends_bind [OF read ends_bind [OF socket_while_ends [OF ok fuel(2)] ends_bind [OF read again]]]])
  ultimately show ?case by simp
qed simp

lemma context_adds_no_work:
  assumes ok: "socket_progress S m todo"
  shows "outstanding (swork todo) m (socket_context_installed S m w) \<le> outstanding (swork todo) m w"
proof -
  have setopt: "swork todo (foldl (\<lambda>l opt. curl_multi_setopt (se_multi S) h opt p l) l opts) \<le> swork todo l" for h p l opts
  proof (induction opts arbitrary: l)
    case (Cons opt opts)
    show ?case using le_trans [OF Cons socket_progressD(3) [OF ok]] by simp
  qed simp
  show ?thesis
    by (simp add: socket_context_installed_def set_socket_options_def Let_def outstanding_def upd_ctx_def rbcm_of_def
        del: foldl_Cons) (rule le_trans [OF setopt], simp)
qed

lemma socket_driven_ends:
  assumes ok: "socket_progress S m todo" and "Suc (2 * k) < n"
  shows "ends (within (swork todo) m (Suc (2 * k))) (socket_driven n S m block) (\<lambda>_. True)"
  unfolding ends_def
proof (intro allI impI)
  fix w assume "within (swork todo) m (Suc (2 * k)) w"
  then have "within (swork todo) m (Suc (2 * k)) (socket_context_installed S m w)"
    using context_adds_no_work [OF ok, of w] by simp
  then obtain r v where "rb_curl_multi_socket_drive n S m block (socket_context_installed S m w) = Some (r, v)"
    using socket_drive_ends [OF assms] unfolding ends_def by blast
  then show "\<exists>r t. socket_driven n S m block w = Some (r, t) \<and> (\<forall>a. r = Inr a \<longrightarrow> True)"
    by (simp add: socket_driven_def pensure_def)
qed

lemma any_ends: "ends (\<lambda>_. True) (run c) (\<lambda>_. True)"
  by (rule ends_run) simp

lemma socket_impl_ends:
  assumes ok: "socket_progress S m todo" and fuel: "2 * swork todo (lib w) + 1 < n"
  shows "\<exists>r v. ruby_curl_multi_socket_perform_impl n S block m w = Some (r, v)"
proof -
  let ?k = "swork todo (lib w)"
  note ok' = socket_progressD(1) [OF ok]
  have source: "adds_no_work (swork todo) m (modify (\<lambda>w. if deferred_exception (multis w m) = None
      then clear_multi_deferred_exception_source_id_if_any m w else w))"
    by (simp add: adds_no_work_def keeps_def modify_def clear_multi_deferred_exception_source_id_if_any_def
        outstanding_def world_simps)
  have "Suc (2 * ?k) < n" using fuel by simp
  then have "ends (within (swork todo) m (Suc (2 * ?k))) (ruby_curl_multi_socket_perform_impl n S block m) (\<lambda>_. True)"
    unfolding ruby_curl_multi_socket_perform_impl_def
    by (rule ends_bind [OF quiet_ends [OF ensure_quiet [OF ok']] ends_bind [OF quiet_ends [OF source]
          ends_bind [OF socket_driven_ends [OF ok] ends_bind [OF any_ends any_ends]]]])
  moreover have "within (swork todo) m (Suc (2 * ?k)) w" by (simp add: outstanding_def)
  ultimately show ?thesis unfolding ends_def by blast
qed

text \<open>
  C11: \<open>perform\<close> terminates with both loops. Whenever every wait that returns and every call of libcurl that
  leaves transfers running uses up some of the outstanding work, and nothing adds to it
  (\<open>socket_progress\<close>), a fuel larger than twice the outstanding work is enough for \<open>perform\<close> to come to an
  end, with or without an exception, whether it runs under a fiber scheduler or not, and for
  \<open>_socket_perform\<close>, which always takes the socket-action loop.
\<close>

theorem every_perform_terminates:
  assumes "socket_progress S m todo" and "2 * todo (native (lib w)) + 1 < n"
  shows "(\<exists>r v. multi_perform n S block m w = Some (r, v)) \<and>
     (\<exists>r v. ruby_curl_multi_socket_perform n S block m w = Some (r, v))"
proof -
  note ok = socket_progressD(1) [OF assms(1)]
  have guarded: "\<exists>r v. ruby_curl_multi_with_perform_guard f m u = Some (r, v)"
    if "\<And>u'. swork todo (lib u') = swork todo (lib u) \<Longrightarrow> \<exists>r v. f m u' = Some (r, v)"
    for f :: "nat \<Rightarrow> ('a sworld, rvalue) prog" and u
    using that [of "upd_rbcm m (\<lambda>c. c\<lparr>perform_active := True\<rparr>) u"]
    by (auto simp: ruby_curl_multi_with_perform_guard_def pensure_def run_def world_simps)
  have socket: "\<exists>r v. ruby_curl_multi_with_perform_guard (ruby_curl_multi_socket_perform_impl n S block) m u = Some (r, v)"
    if "swork todo (lib u) \<le> swork todo (lib w)" for u
    by (rule guarded) (use that assms socket_impl_ends [OF assms(1)] in simp)
  have fdset: "\<exists>r v. ruby_curl_multi_with_perform_guard (ruby_curl_multi_perform_impl n (se_multi S) block) m u = Some (r, v)"
    if "swork todo (lib u) \<le> swork todo (lib w)" for u
    by (rule guarded) (use that assms impl_ends [OF ok] in simp)
  have "swork todo (lib u) \<le> swork todo (lib w)"
    if "(if have_socket_action (se_env S) then curb_fiber_scheduler_current (se_multi S) else ret Qnil) w = (r, u)" for r u
  proof -
    have "outstanding (swork todo) m u \<le> outstanding (swork todo) m w"
      using that keepsD [OF scheduler_adds_no_work [OF assms(1), unfolded adds_no_work_def], of w]
      by (auto simp: ret_def split: if_splits)
    then show ?thesis by (simp add: outstanding_def split: if_splits)
  qed
  then have "\<exists>r v. multi_perform n S block m w = Some (r, v)"
    unfolding multi_perform_def ruby_curl_multi_perform_def pbind_def run_def
    using socket fdset by (auto split: prod.split sum.split)
  then show ?thesis using socket [of w] by (simp add: ruby_curl_multi_socket_perform_def)
qed

text \<open>A libcurl and a scheduler with a number of steps left, kept under \<open>''work''\<close>.\<close>

definition sample_tick :: "(string \<Rightarrow> int, 'a) scmd \<Rightarrow> (string \<Rightarrow> int, 'a) scmd" where
  "sample_tick c w =
     (if native (lib w) ''work'' \<le> 0 then rb_raise ''rb_eFatal'' ''deadlock'' w
      else c (w\<lparr>lib := (lib w)\<lparr>native := (native (lib w))(''work'' := native (lib w) ''work'' - 1)\<rparr>\<rparr>))"

definition sample_busy :: "(string \<Rightarrow> int) socket_env" where
  "sample_busy = \<lparr>
     se_multi = sample_socket_multi\<lparr>
       curl_multi_setopt := (\<lambda>_ opt v l. if opt = ''work'' then l else l\<lparr>native := (native l)(opt := v)\<rparr>),
       rb_fiber_scheduler_kernel_sleep := (\<lambda>_ _. sample_tick (ret Qnil))\<rparr>,
     clock_gettime = (\<lambda>k. (Some (1, 0), k)),
     gettimeofday = (\<lambda>k. ((1, 0), k)),
     fcntl_getfd = (\<lambda>_ k. ((0, 0), k)),
     curl_multi_socket_action = (\<lambda>_ fd flags w.
        if 0 < native (lib w) ''work''
        then ((0, 1), upd_ctx 0 (multi_socket_cb 5 CURL_POLL_IN)
               (w\<lparr>lib := (lib w)\<lparr>native := (native (lib w))(''work'' := native (lib w) ''work'' - 1)\<rparr>\<rparr>))
        else ((0, 0), upd_ctx 0 (multi_socket_cb 5 CURL_POLL_REMOVE) w)),
     cRubyIO = Qtrue,
     rb_fiber_scheduler_io_select = (\<lambda>_ _ _ _ _. ret None),
     rb_fiber_scheduler_io_wait = (\<lambda>_ _ events _. sample_tick (ret events)),
     rb_wait_for_single_fd = (\<lambda>_ events _. sample_tick (ret (events, 0))),
     rb_select_fds = (\<lambda>_ sets _. sample_tick (ret ((1, 0), sets)))\<rparr>"

lemma sample_tick_uses_up: "uses_up (swork (\<lambda>k. nat (k ''work''))) m (sample_tick (ret a))"
  by (auto simp: uses_up_def adds_no_work_def keeps_def sample_tick_def rb_raise_def ret_def outstanding_def rbcm_of_def
      split: if_splits)

lemma sample_busy_progress: "socket_progress sample_busy m (\<lambda>k. nat (k ''work''))"
proof -
  note simps = sample_busy_def sample_socket_multi_def multi_env.simps socket_env.simps
  have macro: "have_macro (se_env sample_busy) x" for x by (simp add: simps sample_setup_def)
  have quiet: "adds_no_work todo n (ret a)" for todo n a by (simp add: adds_no_work_def quiet.pure)
  have sleep: "curb_multi_scheduler_sleep (se_multi sample_busy) tv = bind (sample_tick (ret Qnil)) (\<lambda>_. ret ())" for tv
    using macro
    by (simp add: curb_multi_scheduler_sleep_def curb_fiber_scheduler_current_def curb_fiber_scheduler_kernel_sleep_def simps
        bind_def ret_def fun_eq_iff)
  have wait: "curb_fiber_scheduler_io_wait sample_busy sch io events t = sample_tick (ret events)" for sch io events t
    using macro by (simp add: curb_fiber_scheduler_io_wait_def) (simp add: simps)
  have sleeps: "uses_up (swork (\<lambda>k. nat (k ''work''))) m (curb_multi_scheduler_sleep (se_multi sample_busy) tv)" for tv
    by (auto simp: sleep uses_up_def adds_no_work_def keeps_def sample_tick_def bind_def rb_raise_def ret_def outstanding_def
        rbcm_of_def split: if_splits)
  show ?thesis
    unfolding socket_progress_def progress_ok_def
    by (intro conjI allI impI)
      (auto simp: sleeps wait sample_tick_uses_up simp del: split_paired_All,
        auto simp: simps quiet ret_def upd_ctx_def sample_tick_uses_up sample_tick_uses_up [unfolded uses_up_def, THEN conjunct1]
          split: if_splits)
qed

theorem every_perform_terminates_witness:
  "(\<exists>r v. multi_perform 20 sample_busy Qnil 0
       (sample_socket_world\<lparr>lib := (lib sample_socket_world)\<lparr>native := (\<lambda>_. 7)\<rparr>\<rparr>) = Some (r, v)) \<and>
   (\<exists>r v. ruby_curl_multi_socket_perform 20 sample_busy Qnil 0
       (sample_socket_world\<lparr>lib := (lib sample_socket_world)\<lparr>native := (\<lambda>_. 7)\<rparr>\<rparr>) = Some (r, v))"
  by (rule every_perform_terminates [OF sample_busy_progress]) simp

end
