(* ===== verification/Curb_Marks.thy ===== *)
theory Curb_Marks
  imports Curb_Multi_Props Curb_Postfield_Facts Curb_Callbacks
begin

text \<open>
  What the structures tell Ruby's garbage collector (the mark functions of \<open>ext/curb_easy.c\<close>,
  \<open>ext/curb_multi.c\<close>, \<open>ext/curb_postfield.c\<close> and \<open>ext/curb_upload.c\<close>): an object lives as long as one
  that marks it. libcurl keeps pointers to easy handles and to the bytes of form fields, so what it
  refers to has to be marked.
\<close>

section \<open>The mark functions\<close>

text \<open>The arguments of \<open>rb_gc_mark\<close> in order: the objects that wrap structures by their number, the
  \<open>opts\<close> hash, exceptions and other values.\<close>

datatype marked = EasyObject nat | MultiObject nat | OptsHash "string \<rightharpoonup> rvalue" | Exception exc | Value rvalue

definition curl_easy_mark :: "ruby_curl_easy \<Rightarrow> marked list" where
  "curl_easy_mark rbce =
     (if self rbce \<noteq> Qnil then [Value (self rbce)] else []) @
     [OptsHash (opts rbce)] @
     (case multi rbce of None \<Rightarrow> [] | Some m \<Rightarrow> [MultiObject m]) @
     (case callback_error rbce of None \<Rightarrow> [] | Some x \<Rightarrow> [Exception x])"

definition mark_attached_i :: "nat \<times> nat \<Rightarrow> marked" where
  "mark_attached_i p = (case p of (key, val) \<Rightarrow> EasyObject val)"

definition curl_multi_mark :: "ruby_curl_multi \<Rightarrow> marked list" where
  "curl_multi_mark c = (case attached c of None \<Rightarrow> [] | Some t \<Rightarrow> map mark_attached_i t)"

definition curl_postfield_mark :: "ruby_curl_postfield \<Rightarrow> marked list" where
  "curl_postfield_mark pf =
     [Value (pf_name pf), Value (pf_content pf), Value (pf_content_type pf), Value (pf_content_proc pf),
      Value (pf_local_file pf), Value (pf_remote_file pf), Value (pf_buffer_str pf)]"

definition curl_upload_mark :: "ruby_curl_upload \<Rightarrow> marked list" where
  "curl_upload_mark rbcu = (if stream rbcu \<noteq> Qnil then [Value (stream rbcu)] else [])"

section \<open>Transfers\<close>

lemma marks_attached:
  assumes "table_ok m w"
  shows "EasyObject e \<in> set (curl_multi_mark (rbcm_of m w)) \<longleftrightarrow> rb_curl_multi_has_easy m e w"
  using assms
  by (force simp: curl_multi_mark_def mark_attached_i_def has_easy_iff table_ok_def st_keys_def split: option.splits)

lemma attached_marks: "multi (rbce_of e w) = Some m \<Longrightarrow> MultiObject m \<in> set (curl_easy_mark (rbce_of e w))"
  by (simp add: curl_easy_mark_def)

text \<open>
  C10: What libcurl works on stays alive. In every state that adding, removing, completing, closing,
  freeing and user code reach from a consistent one, every native handle libcurl has in a multi handle
  belongs to exactly one easy object, which the multi object marks and which marks the multi object: as
  long as one of the two is in use, neither is collected. The multi object marks no other easy object.
\<close>

theorem live_transfers_are_marked:
  assumes "libcurl_multi_ok X members" and "user_ok members X"
    and "world_ok members w" and "(multi_step X)\<^sup>*\<^sup>* w v"
    and "handle (rbcm_of m v) = Some h" and "members (lib v) h = Some S"
  shows "(\<forall>c \<in> S. \<exists>!e. curl (rbce_of e v) = Some c \<and> EasyObject e \<in> set (curl_multi_mark (rbcm_of m v)) \<and>
        MultiObject m \<in> set (curl_easy_mark (rbce_of e v))) \<and>
     (\<forall>e. EasyObject e \<in> set (curl_multi_mark (rbcm_of m v)) \<longrightarrow> (\<exists>c \<in> S. curl (rbce_of e v) = Some c))"
proof -
  have ok: "world_ok members v" using multi.reached [of members X w v] assms by (simp add: good_steps)
  then have table: "table_ok m v" and distinct: "handles_distinct v" by (simp_all add: world_ok_def)
  have S: "Some ` S = (\<lambda>e. curl (rbce_of e v)) ` {e. rb_curl_multi_has_easy m e v}"
  proof -
    have "members_ok members m v" using ok by (simp add: world_ok_def)
    then show ?thesis using assms(5,6) by (simp add: members_ok_def)
  qed
  have one: "\<exists>!e. curl (rbce_of e v) = Some c \<and> EasyObject e \<in> set (curl_multi_mark (rbcm_of m v)) \<and>
        MultiObject m \<in> set (curl_easy_mark (rbce_of e v))" if "c \<in> S" for c
  proof -
    have "Some c \<in> (\<lambda>e. curl (rbce_of e v)) ` {e. rb_curl_multi_has_easy m e v}" using S that by blast
    then obtain e where e: "curl (rbce_of e v) = Some c" "rb_curl_multi_has_easy m e v" by auto
    moreover have "i = e" if "curl (rbce_of i v) = Some c" for i
      using distinct [unfolded handles_distinct_def, THEN conjunct1, rule_format, of e i] e(1) that by simp
    ultimately show ?thesis
      using marks_attached [OF table] attached_marks [OF has_easy_multi(1) [OF table e(2)]] by blast
  qed
  moreover have "\<exists>c \<in> S. curl (rbce_of e v) = Some c" if "EasyObject e \<in> set (curl_multi_mark (rbcm_of m v))" for e
  proof -
    have "curl (rbce_of e v) \<in> Some ` S" using that S marks_attached [OF table] by blast
    then show ?thesis by auto
  qed
  ultimately show ?thesis by blast
qed

theorem live_transfers_are_marked_witness:
  "\<exists>v. ruby_curl_multi_add sample_multi 0 7 (sample_ensured 0) = (Inr 0, v) \<and>
     (\<forall>c \<in> {7}. \<exists>!e. curl (rbce_of e v) = Some c \<and> EasyObject e \<in> set (curl_multi_mark (rbcm_of 0 v)) \<and>
        MultiObject 0 \<in> set (curl_easy_mark (rbce_of e v)))"
proof -
  have ok: "world_ok sample_members (sample_ensured 0)"
    using ensure_handle_ok(1) [OF sample_lib_ok sample_world_ok sample_ensure] .
  obtain v where add: "ruby_curl_multi_add sample_multi 0 7 (sample_ensured 0) = (Inr 0, v)"
    using sample_add_ensured by blast
  have "(multi_step sample_multi)\<^sup>*\<^sup>* (sample_ensured 0) v" using multi_step.add [OF add] by (rule r_into_rtranclp)
  from live_transfers_are_marked [OF sample_lib_ok sample_user_ok ok this sample_added(5) [OF add] sample_added(7) [OF add]]
  show ?thesis using add by blast
qed

section \<open>Forms\<close>

text \<open>The bytes of a part that libcurl reads later, through the pointer it was given
  (\<open>CURLFORM_BUFFERPTR\<close> and \<open>CURLFORM_PTRCONTENTS\<close>); names, file names and types are copied.\<close>

fun lent_bytes :: "form_part \<Rightarrow> string option" where
  "lent_bytes (BufferPart name filename bytes ctype) = Some bytes"
| "lent_bytes (ContentPart name bytes ctype) = Some bytes"
| "lent_bytes (FilePart name path filename ctype) = None"

text \<open>The part a command adds has its bytes from a value the field marks.\<close>

definition adds_marked :: "(form_state, unit) cmd \<Rightarrow> bool" where
  "adds_marked c \<longleftrightarrow> (\<forall>s t. c s = (Inr (), t) \<longrightarrow> form t \<noteq> [] \<and>
     (\<forall>b. lent_bytes (last (form t)) = Some b \<longrightarrow> Value (RStr b) \<in> set (curl_postfield_mark (field t))))"

lemma adds_marked_bind: "(\<And>a. adds_marked (f a)) \<Longrightarrow> adds_marked (bind c f)"
  unfolding adds_marked_def bind_def by (fastforce split: prod.splits sum.splits)

lemma adds_marked_raise: "adds_marked (InvalidPostField msg)"
  by (simp add: adds_marked_def InvalidPostField_def rb_raise_def)

lemma part_reads:
  "field_bytes sel s = (Inr b, t) \<Longrightarrow> t = s \<and> sel (field s) = RStr b"
  "field_cstr sel s = (Inr n, t) \<Longrightarrow> t = s"
  "field_content_type s = (Inr c, t) \<Longrightarrow> t = s"
  "curl_formadd formadd p s = (Inr (), t) \<Longrightarrow> t = s\<lparr>form := form s @ [p]\<rparr>"
proof -
  show "field_bytes sel s = (Inr b, t) \<Longrightarrow> t = s \<and> sel (field s) = RStr b"
    by (auto simp: field_bytes_def StringValue_def type_error_def split: rvalue.splits)
  show cstr: "field_cstr sel s = (Inr n, t) \<Longrightarrow> t = s" for sel n
    by (auto simp: field_cstr_def split: sum.splits)
  show "field_content_type s = (Inr c, t) \<Longrightarrow> t = s"
    by (auto simp: field_content_type_def ret_def elim!: bind_InrE dest: cstr split: if_splits)
  show "curl_formadd formadd p s = (Inr (), t) \<Longrightarrow> t = s\<lparr>form := form s @ [p]\<rparr>"
    by (simp add: curl_formadd_def InvalidPostField_def rb_raise_def split: if_splits)
qed

lemma adds_marked_if:
  "adds_marked c \<Longrightarrow> adds_marked d \<Longrightarrow> adds_marked (\<lambda>s. if P s then c s else d s)"
  unfolding adds_marked_def by simp

lemma adds_marked_parts:
  assumes "data = pf_buffer_str \<or> data = pf_content"
  shows "adds_marked (add_buffer_part formadd data)" and "adds_marked (add_content_part formadd data)"
proof -
  have marks: "data pf = RStr b \<Longrightarrow> Value (RStr b) \<in> set (curl_postfield_mark pf)" for pf b
    using assms by (auto simp: curl_postfield_mark_def)
  have content: "adds_marked (bind (field_bytes data) (\<lambda>bytes. bind field_content_type (\<lambda>ctype. curl_formadd formadd (p bytes ctype))))"
    if "\<And>b c. lent_bytes (p b c) = Some b" for p
    unfolding adds_marked_def by (auto elim!: bind_InrE dest!: part_reads simp: that marks)
  show "adds_marked (add_content_part formadd data)"
    unfolding add_content_part_def by (intro adds_marked_bind content) simp
  have "adds_marked (if remote = Qnil then InvalidPostField msg else
         bind (field_cstr pf_name) (\<lambda>name.
         bind (field_cstr pf_remote_file) (\<lambda>filename.
         bind (field_bytes data) (\<lambda>bytes.
         bind field_content_type (\<lambda>ctype.
           curl_formadd formadd (BufferPart name filename bytes ctype))))))" for remote msg
    by (simp add: adds_marked_raise, intro impI adds_marked_bind content) simp
  then show "adds_marked (add_buffer_part formadd data)"
    unfolding add_buffer_part_def by (rule adds_marked_bind)
qed

lemma adds_marked_file: "adds_marked (add_file_part formadd)"
  unfolding add_file_part_def
  by (intro adds_marked_bind) (auto simp: adds_marked_def dest!: part_reads)

lemma append_adds_marked: "adds_marked (append_to_form formadd call_proc)"
proof -
  have "append_to_form formadd call_proc = (\<lambda>s.
    if pf_name (field s) = Qnil then InvalidPostField ''Cannot post unnamed field'' s
    else if pf_local_file (field s) \<noteq> Qnil \<or> pf_remote_file (field s) \<noteq> Qnil then
      (if pf_content_proc (field s) \<noteq> Qnil then
         bind (call_content_proc call_proc) (\<lambda>_. add_buffer_part formadd pf_buffer_str) s
       else if pf_content (field s) \<noteq> Qnil then add_buffer_part formadd pf_content s
       else if pf_local_file (field s) \<noteq> Qnil then add_file_part formadd s
       else InvalidPostField ''Cannot post file upload field with no data'' s)
    else if pf_content_proc (field s) \<noteq> Qnil then
      bind (call_content_proc call_proc) (\<lambda>_. add_content_part formadd pf_buffer_str) s
    else if pf_content (field s) \<noteq> Qnil then add_content_part formadd pf_content s
    else InvalidPostField ''Cannot post content field with no data'' s)"
    by (rule ext) (simp only: append_to_form_def Let_def)
  moreover have "adds_marked \<dots>"
    by (intro adds_marked_if adds_marked_raise adds_marked_file adds_marked_bind adds_marked_parts) simp_all
  ultimately show ?thesis by simp
qed

text \<open>
  C38: libcurl reads the bytes of a form field after it was added, and the field keeps only the last of them
  alive. A field with a content proc that is added twice to a form, as in \<open>http_post(field, field)\<close>,
  overwrites \<open>buffer_str\<close>: after the first addition its bytes are marked, after the second only those
  of the second are, while the first part of the form still refers to the first.
\<close>

theorem reused_field_loses_bytes:
  assumes "field s = \<lparr>pf_name = RStr n, pf_content = Qnil, pf_content_type = Qnil, pf_content_proc = prc,
      pf_local_file = Qnil, pf_remote_file = Qnil, pf_buffer_str = buf\<rparr>"
    and "prc \<noteq> Qnil" and "prc \<noteq> RStr x" and "x \<noteq> y" and "x \<noteq> n" and "\<And>p. formadd p = 0"
    and "\<And>u. call_proc prc u = (Inr (RStr (if form u = form s then x else y)), u)"
  shows "\<exists>t u. append_to_form formadd call_proc s = (Inr (), t) \<and> append_to_form formadd call_proc t = (Inr (), u) \<and>
     form u = form s @ [ContentPart (c_string n) x None, ContentPart (c_string n) y None] \<and>
     Value (RStr x) \<in> set (curl_postfield_mark (field t)) \<and>
     Value (RStr y) \<in> set (curl_postfield_mark (field u)) \<and>
     Value (RStr x) \<notin> set (curl_postfield_mark (field u))"
proof -
  have step: "append_to_form formadd call_proc u = (Inr (), u\<lparr>field := (field u)\<lparr>pf_buffer_str := RStr b\<rparr>,
      form := form u @ [ContentPart (c_string n) b None]\<rparr>)"
    if "field u = (field s)\<lparr>pf_buffer_str := buf'\<rparr>" and "b = (if form u = form s then x else y)" for u b buf'
    using that assms(1,2,6,7) by (simp add: append_to_form_def Let_def call_content_proc_def add_content_part_def
      bind_def cmd_defs field_cstr_def field_bytes_def field_content_type_def curl_formadd_def StringValue_def)
  let ?t = "s\<lparr>field := (field s)\<lparr>pf_buffer_str := RStr x\<rparr>, form := form s @ [ContentPart (c_string n) x None]\<rparr>"
  have first: "append_to_form formadd call_proc s = (Inr (), ?t)"
    using step [of s "pf_buffer_str (field s)" x] by simp
  have second: "append_to_form formadd call_proc ?t = (Inr (), ?t\<lparr>field := (field ?t)\<lparr>pf_buffer_str := RStr y\<rparr>,
      form := form ?t @ [ContentPart (c_string n) y None]\<rparr>)"
    by (rule step [where buf' = "RStr x"]) simp_all
  show ?thesis
    by (rule exI, rule exI, intro conjI, rule first, rule second) (use assms(1-5) in \<open>auto simp: curl_postfield_mark_def\<close>)
qed

theorem reused_field_loses_bytes_witness:
  "\<exists>t u. append_to_form (\<lambda>_. 0) (\<lambda>_ s. (Inr (RStr (if form s = [] then ''first'' else ''second'')), s))
       \<lparr>field = \<lparr>pf_name = RStr ''file'', pf_content = Qnil, pf_content_type = Qnil, pf_content_proc = RObj 1,
          pf_local_file = Qnil, pf_remote_file = Qnil, pf_buffer_str = Qnil\<rparr>, form = []\<rparr> = (Inr (), t) \<and>
     append_to_form (\<lambda>_. 0) (\<lambda>_ s. (Inr (RStr (if form s = [] then ''first'' else ''second'')), s)) t = (Inr (), u) \<and>
     form u = [ContentPart ''file'' ''first'' None, ContentPart ''file'' ''second'' None] \<and>
     Value (RStr ''first'') \<notin> set (curl_postfield_mark (field u))"
proof -
  let ?s = "\<lparr>field = \<lparr>pf_name = RStr ''file'', pf_content = Qnil, pf_content_type = Qnil, pf_content_proc = RObj 1,
          pf_local_file = Qnil, pf_remote_file = Qnil, pf_buffer_str = Qnil\<rparr>, form = []\<rparr>"
  have "c_string ''file'' = ''file''" by (simp add: c_string_def)
  then show ?thesis
    using reused_field_loses_bytes [of ?s "''file''" "RObj 1" Qnil "''first''" "''second''" "\<lambda>_. 0"
        "\<lambda>_ s. (Inr (RStr (if form s = [] then ''first'' else ''second'')), s)"] by auto
qed

end
