(* ===== verification/Curb_Methods.thy ===== *)
theory Curb_Methods
  imports Curb_Core
begin

text \<open>
  The Ruby methods of the classes: the registrations of \<open>init_curb_easy\<close>, \<open>init_curb_multi\<close>,
  \<open>init_curb_postfield\<close> and \<open>init_curb_upload\<close>, in their order and under their preprocessor conditions,
  the method table Ruby builds from them and what a call finds in it. A C function is named by its
  symbol; the theories of the components define the functions.
\<close>

section \<open>Method tables\<close>

datatype method_owner = OfInstances | OfClass

datatype method_visibility = Public | Private

datatype method_entry = Runs method_visibility string int | Undefined_method

type_synonym method_key = "method_owner \<times> string"

type_synonym method_table = "method_key \<Rightarrow> method_entry option"

datatype registration =
    DefineMethod method_owner method_visibility string string int
  | DefineAlias string string
  | UndefClassMethod string

type_synonym guarded_registration = "preproc_guard list \<times> registration"

text \<open>Ruby makes \<open>initialize\<close> private whatever function registers it.\<close>

definition rb_define_method :: "string \<Rightarrow> string \<Rightarrow> int \<Rightarrow> registration" where
  "rb_define_method name f argc =
     DefineMethod OfInstances (if name = ''initialize'' then Private else Public) name f argc"

definition rb_define_private_method :: "string \<Rightarrow> string \<Rightarrow> int \<Rightarrow> registration" where
  "rb_define_private_method name f argc = DefineMethod OfInstances Private name f argc"

definition rb_define_singleton_method :: "string \<Rightarrow> string \<Rightarrow> int \<Rightarrow> registration" where
  "rb_define_singleton_method name f argc = DefineMethod OfClass Public name f argc"

definition rb_define_alias :: "string \<Rightarrow> string \<Rightarrow> registration" where
  "rb_define_alias new old = DefineAlias new old"

fun registered_key :: "registration \<Rightarrow> method_key" where
  "registered_key (DefineMethod owner visibility name f argc) = (owner, name)"
| "registered_key (DefineAlias new old) = (OfInstances, new)"
| "registered_key (UndefClassMethod name) = (OfClass, name)"

text \<open>An alias of a method the table lacks raises \<open>NameError\<close>, and the library does not load.\<close>

fun register :: "registration \<Rightarrow> method_table \<Rightarrow> method_table option" where
  "register (DefineMethod owner visibility name f argc) t =
     Some (t((owner, name) \<mapsto> Runs visibility f argc))"
| "register (DefineAlias new old) t =
     (case t (OfInstances, old) of Some e \<Rightarrow> Some (t((OfInstances, new) \<mapsto> e)) | None \<Rightarrow> None)"
| "register (UndefClassMethod name) t = Some (t((OfClass, name) \<mapsto> Undefined_method))"

fun register_all :: "registration list \<Rightarrow> method_table \<Rightarrow> method_table option" where
  "register_all [] t = Some t"
| "register_all (r # rs) t = (case register r t of Some t' \<Rightarrow> register_all rs t' | None \<Rightarrow> None)"

definition compiled_registrations :: "curl_env \<Rightarrow> guarded_registration list \<Rightarrow> registration list" where
  "compiled_registrations env regs =
     map snd (filter (\<lambda>(gs, r). list_all (guard_holds env) gs) regs)"

definition class_methods :: "curl_env \<Rightarrow> guarded_registration list \<Rightarrow> method_table option" where
  "class_methods env regs = register_all (compiled_registrations env regs) Map.empty"

text \<open>A call from outside the object, with a number of arguments.\<close>

datatype dispatch = NoMethodError | ArgumentCountError | Calls string

definition dispatch_call :: "method_table \<Rightarrow> method_owner \<Rightarrow> string \<Rightarrow> nat \<Rightarrow> dispatch" where
  "dispatch_call t owner name argc =
     (case t (owner, name) of
        Some (Runs Public f n) \<Rightarrow> if n = -1 \<or> n = int argc then Calls f else ArgumentCountError
      | _ \<Rightarrow> NoMethodError)"

section \<open>The registrations\<close>

definition easy_methods_1 :: "guarded_registration list" where
  "easy_methods_1 = [
     ([], rb_define_singleton_method ''error'' ''ruby_curl_easy_error_message'' 1),
     ([], rb_define_method ''initialize'' ''ruby_curl_easy_initialize'' (-1)),
     ([], rb_define_method ''url'' ''ruby_curl_easy_url_get'' 0),
     ([], rb_define_method ''proxy_url'' ''ruby_curl_easy_proxy_url_get'' 0),
     ([], rb_define_method ''http_version='' ''ruby_curl_easy_http_version_set'' 1),
     ([], rb_define_method ''http_version'' ''ruby_curl_easy_http_version_get'' 0),
     ([], rb_define_method ''proxy_headers='' ''ruby_curl_easy_proxy_headers_set'' 1),
     ([], rb_define_method ''proxy_headers'' ''ruby_curl_easy_proxy_headers_get'' 0),
     ([], rb_define_method ''headers='' ''ruby_curl_easy_headers_set'' 1),
     ([], rb_define_method ''headers'' ''ruby_curl_easy_headers_get'' 0),
     ([], rb_define_method ''interface'' ''ruby_curl_easy_interface_get'' 0),
     ([], rb_define_method ''userpwd'' ''ruby_curl_easy_userpwd_get'' 0),
     ([], rb_define_method ''proxypwd'' ''ruby_curl_easy_proxypwd_get'' 0),
     ([], rb_define_method ''cookies'' ''ruby_curl_easy_cookies_get'' 0),
     ([], rb_define_method ''cookiefile'' ''ruby_curl_easy_cookiefile_get'' 0),
     ([], rb_define_method ''cookiejar'' ''ruby_curl_easy_cookiejar_get'' 0),
     ([], rb_define_method ''cert='' ''ruby_curl_easy_cert_set'' 1),
     ([], rb_define_method ''cert'' ''ruby_curl_easy_cert_get'' 0),
     ([], rb_define_method ''cert_key='' ''ruby_curl_easy_cert_key_set'' 1),
     ([], rb_define_method ''cert_key'' ''ruby_curl_easy_cert_key_get'' 0),
     ([], rb_define_method ''cacert='' ''ruby_curl_easy_cacert_set'' 1),
     ([], rb_define_method ''cacert'' ''ruby_curl_easy_cacert_get'' 0),
     ([], rb_define_method ''certpassword='' ''ruby_curl_easy_certpassword_set'' 1),
     ([], rb_define_method ''certtype='' ''ruby_curl_easy_certtype_set'' 1),
     ([], rb_define_method ''certtype'' ''ruby_curl_easy_certtype_get'' 0),
     ([], rb_define_method ''encoding='' ''ruby_curl_easy_encoding_set'' 1),
     ([], rb_define_method ''encoding'' ''ruby_curl_easy_encoding_get'' 0),
     ([], rb_define_method ''useragent='' ''ruby_curl_easy_useragent_set'' 1),
     ([], rb_define_method ''useragent'' ''ruby_curl_easy_useragent_get'' 0),
     ([], rb_define_method ''post_body='' ''ruby_curl_easy_post_body_set'' 1),
     ([], rb_define_method ''post_body'' ''ruby_curl_easy_post_body_get'' 0),
     ([], rb_define_method ''put_data='' ''ruby_curl_easy_put_data_set'' 1),
     ([], rb_define_method ''ftp_commands='' ''ruby_curl_easy_ftp_commands_set'' 1),
     ([], rb_define_method ''ftp_commands'' ''ruby_curl_easy_ftp_commands_get'' 0),
     ([], rb_define_method ''resolve='' ''ruby_curl_easy_resolve_set'' 1),
     ([], rb_define_method ''resolve'' ''ruby_curl_easy_resolve_get'' 0),
     ([], rb_define_method ''connect_to='' ''ruby_curl_easy_connect_to_set'' 1),
     ([], rb_define_method ''connect_to'' ''ruby_curl_easy_connect_to_get'' 0),
     ([], rb_define_method ''doh_url='' ''ruby_curl_easy_doh_url_set'' 1),
     ([], rb_define_method ''doh_url'' ''ruby_curl_easy_doh_url_get'' 0),
     ([Defined ''HAVE_CURLOPT_DNS_SERVERS''], rb_define_method ''dns_servers'' ''ruby_curl_easy_dns_servers_get'' 0),
     ([], rb_define_method ''allowed_cidrs='' ''ruby_curl_easy_allowed_cidrs_set'' 1),
     ([], rb_define_method ''allowed_cidrs'' ''ruby_curl_easy_allowed_cidrs_get'' 0),
     ([], rb_define_method ''allowed_hosts='' ''ruby_curl_easy_allowed_hosts_set'' 1),
     ([], rb_define_method ''allowed_hosts'' ''ruby_curl_easy_allowed_hosts_get'' 0),
     ([], rb_define_method ''local_port='' ''ruby_curl_easy_local_port_set'' 1),
     ([], rb_define_method ''local_port'' ''ruby_curl_easy_local_port_get'' 0),
     ([], rb_define_method ''local_port_range='' ''ruby_curl_easy_local_port_range_set'' 1),
     ([], rb_define_method ''local_port_range'' ''ruby_curl_easy_local_port_range_get'' 0),
     ([], rb_define_method ''proxy_port='' ''ruby_curl_easy_proxy_port_set'' 1),
     ([], rb_define_method ''proxy_port'' ''ruby_curl_easy_proxy_port_get'' 0),
     ([], rb_define_method ''proxy_type='' ''ruby_curl_easy_proxy_type_set'' 1),
     ([], rb_define_method ''proxy_type'' ''ruby_curl_easy_proxy_type_get'' 0),
     ([], rb_define_method ''http_auth_types='' ''ruby_curl_easy_http_auth_types_set'' (-1)),
     ([], rb_define_method ''http_auth_types'' ''ruby_curl_easy_http_auth_types_get'' 0),
     ([], rb_define_method ''proxy_auth_types='' ''ruby_curl_easy_proxy_auth_types_set'' 1)]"

definition easy_methods_2 :: "guarded_registration list" where
  "easy_methods_2 = [
     ([], rb_define_method ''proxy_auth_types'' ''ruby_curl_easy_proxy_auth_types_get'' 0),
     ([], rb_define_method ''max_redirects='' ''ruby_curl_easy_max_redirects_set'' 1),
     ([], rb_define_method ''max_redirects'' ''ruby_curl_easy_max_redirects_get'' 0),
     ([], rb_define_method ''timeout='' ''ruby_curl_easy_timeout_set'' 1),
     ([], rb_define_method ''timeout'' ''ruby_curl_easy_timeout_get'' 0),
     ([], rb_define_method ''timeout_ms='' ''ruby_curl_easy_timeout_ms_set'' 1),
     ([], rb_define_method ''timeout_ms'' ''ruby_curl_easy_timeout_ms_get'' 0),
     ([], rb_define_method ''connect_timeout='' ''ruby_curl_easy_connect_timeout_set'' 1),
     ([], rb_define_method ''connect_timeout'' ''ruby_curl_easy_connect_timeout_get'' 0),
     ([], rb_define_method ''connect_timeout_ms='' ''ruby_curl_easy_connect_timeout_ms_set'' 1),
     ([], rb_define_method ''connect_timeout_ms'' ''ruby_curl_easy_connect_timeout_ms_get'' 0),
     ([], rb_define_method ''dns_cache_timeout='' ''ruby_curl_easy_dns_cache_timeout_set'' 1),
     ([], rb_define_method ''dns_cache_timeout'' ''ruby_curl_easy_dns_cache_timeout_get'' 0),
     ([], rb_define_method ''ftp_response_timeout='' ''ruby_curl_easy_ftp_response_timeout_set'' 1),
     ([], rb_define_method ''ftp_response_timeout'' ''ruby_curl_easy_ftp_response_timeout_get'' 0),
     ([Defined ''HAVE_CURLOPT_FTP_CREATE_MISSING_DIRS''], rb_define_method ''ftp_create_missing_dirs='' ''ruby_curl_easy_ftp_create_missing_dirs_set'' 1),
     ([Defined ''HAVE_CURLOPT_FTP_CREATE_MISSING_DIRS''], rb_define_method ''ftp_create_missing_dirs'' ''ruby_curl_easy_ftp_create_missing_dirs_get'' 0),
     ([], rb_define_method ''low_speed_limit='' ''ruby_curl_easy_low_speed_limit_set'' 1),
     ([], rb_define_method ''low_speed_limit'' ''ruby_curl_easy_low_speed_limit_get'' 0),
     ([], rb_define_method ''low_speed_time='' ''ruby_curl_easy_low_speed_time_set'' 1),
     ([], rb_define_method ''low_speed_time'' ''ruby_curl_easy_low_speed_time_get'' 0),
     ([], rb_define_method ''max_send_speed_large='' ''ruby_curl_easy_max_send_speed_large_set'' 1),
     ([], rb_define_method ''max_send_speed_large'' ''ruby_curl_easy_max_send_speed_large_get'' 0),
     ([], rb_define_method ''max_recv_speed_large='' ''ruby_curl_easy_max_recv_speed_large_set'' 1),
     ([], rb_define_method ''max_recv_speed_large'' ''ruby_curl_easy_max_recv_speed_large_get'' 0),
     ([], rb_define_method ''ssl_version='' ''ruby_curl_easy_ssl_version_set'' 1),
     ([], rb_define_method ''ssl_version'' ''ruby_curl_easy_ssl_version_get'' 0),
     ([], rb_define_method ''use_ssl='' ''ruby_curl_easy_use_ssl_set'' 1),
     ([], rb_define_method ''use_ssl'' ''ruby_curl_easy_use_ssl_get'' 0),
     ([], rb_define_method ''ftp_filemethod='' ''ruby_curl_easy_ftp_filemethod_set'' 1),
     ([], rb_define_method ''ftp_filemethod'' ''ruby_curl_easy_ftp_filemethod_get'' 0),
     ([], rb_define_method ''username='' ''ruby_curl_easy_username_set'' 1),
     ([], rb_define_method ''username'' ''ruby_curl_easy_username_get'' 0),
     ([], rb_define_method ''password='' ''ruby_curl_easy_password_set'' 1),
     ([], rb_define_method ''password'' ''ruby_curl_easy_password_get'' 0),
     ([], rb_define_method ''proxy_tunnel='' ''ruby_curl_easy_proxy_tunnel_set'' 1),
     ([], rb_define_method ''proxy_tunnel?'' ''ruby_curl_easy_proxy_tunnel_q'' 0),
     ([], rb_define_method ''fetch_file_time='' ''ruby_curl_easy_fetch_file_time_set'' 1),
     ([], rb_define_method ''fetch_file_time?'' ''ruby_curl_easy_fetch_file_time_q'' 0),
     ([], rb_define_method ''ssl_verify_peer='' ''ruby_curl_easy_ssl_verify_peer_set'' 1),
     ([], rb_define_method ''ssl_verify_peer?'' ''ruby_curl_easy_ssl_verify_peer_q'' 0),
     ([], rb_define_method ''ssl_verify_host_integer='' ''ruby_curl_easy_ssl_verify_host_set'' 1),
     ([], rb_define_method ''ssl_verify_host'' ''ruby_curl_easy_ssl_verify_host_get'' 0),
     ([], rb_define_method ''header_in_body='' ''ruby_curl_easy_header_in_body_set'' 1),
     ([], rb_define_method ''header_in_body?'' ''ruby_curl_easy_header_in_body_q'' 0),
     ([], rb_define_method ''use_netrc='' ''ruby_curl_easy_use_netrc_set'' 1),
     ([], rb_define_method ''use_netrc?'' ''ruby_curl_easy_use_netrc_q'' 0),
     ([], rb_define_method ''follow_location?'' ''ruby_curl_easy_follow_location_q'' 0),
     ([], rb_define_method ''autoreferer='' ''ruby_curl_easy_autoreferer_set'' 1),
     ([], rb_define_method ''unrestricted_auth='' ''ruby_curl_easy_unrestricted_auth_set'' 1),
     ([], rb_define_method ''unrestricted_auth?'' ''ruby_curl_easy_unrestricted_auth_q'' 0),
     ([], rb_define_method ''verbose='' ''ruby_curl_easy_verbose_set'' 1),
     ([], rb_define_method ''verbose?'' ''ruby_curl_easy_verbose_q'' 0),
     ([], rb_define_method ''multipart_form_post='' ''ruby_curl_easy_multipart_form_post_set'' 1),
     ([], rb_define_method ''multipart_form_post?'' ''ruby_curl_easy_multipart_form_post_q'' 0),
     ([], rb_define_method ''enable_cookies='' ''ruby_curl_easy_enable_cookies_set'' 1)]"

definition easy_methods_3 :: "guarded_registration list" where
  "easy_methods_3 = [
     ([], rb_define_method ''enable_cookies?'' ''ruby_curl_easy_enable_cookies_q'' 0),
     ([], rb_define_method ''ignore_content_length='' ''ruby_curl_easy_ignore_content_length_set'' 1),
     ([], rb_define_method ''ignore_content_length?'' ''ruby_curl_easy_ignore_content_length_q'' 0),
     ([], rb_define_method ''resolve_mode'' ''ruby_curl_easy_resolve_mode'' 0),
     ([], rb_define_method ''resolve_mode='' ''ruby_curl_easy_resolve_mode_set'' 1),
     ([], rb_define_method ''network_policy'' ''ruby_curl_easy_network_policy_get'' 0),
     ([], rb_define_method ''network_policy='' ''ruby_curl_easy_network_policy_set'' 1),
     ([], rb_define_method ''on_body'' ''ruby_curl_easy_on_body_set'' (-1)),
     ([], rb_define_method ''on_header'' ''ruby_curl_easy_on_header_set'' (-1)),
     ([], rb_define_method ''on_progress'' ''ruby_curl_easy_on_progress_set'' (-1)),
     ([], rb_define_method ''on_debug'' ''ruby_curl_easy_on_debug_set'' (-1)),
     ([], rb_define_method ''on_success'' ''ruby_curl_easy_on_success_set'' (-1)),
     ([], rb_define_method ''on_failure'' ''ruby_curl_easy_on_failure_set'' (-1)),
     ([], rb_define_method ''on_missing'' ''ruby_curl_easy_on_missing_set'' (-1)),
     ([], rb_define_method ''on_redirect'' ''ruby_curl_easy_on_redirect_set'' (-1)),
     ([], rb_define_method ''on_complete'' ''ruby_curl_easy_on_complete_set'' (-1)),
     ([], rb_define_method ''http'' ''ruby_curl_easy_perform_verb'' 1),
     ([], rb_define_method ''http_post'' ''ruby_curl_easy_perform_post'' (-1)),
     ([], rb_define_method ''http_put'' ''ruby_curl_easy_perform_put'' (-1)),
     ([], rb_define_method ''http_patch'' ''ruby_curl_easy_perform_patch'' (-1)),
     ([], rb_define_method ''body_str'' ''ruby_curl_easy_body_str_get'' 0),
     ([], rb_define_method ''max_body_bytes='' ''ruby_curl_easy_max_body_bytes_set'' 1),
     ([], rb_define_method ''max_body_bytes'' ''ruby_curl_easy_max_body_bytes_get'' 0),
     ([], rb_define_method ''header_str'' ''ruby_curl_easy_header_str_get'' 0),
     ([], rb_define_method ''last_effective_url'' ''ruby_curl_easy_last_effective_url_get'' 0),
     ([], rb_define_method ''response_code'' ''ruby_curl_easy_response_code_get'' 0),
     ([], rb_define_method ''code'' ''ruby_curl_easy_response_code_get'' 0),
     ([Defined ''HAVE_CURLINFO_PRIMARY_IP''], rb_define_method ''primary_ip'' ''ruby_curl_easy_primary_ip_get'' 0),
     ([], rb_define_method ''http_connect_code'' ''ruby_curl_easy_http_connect_code_get'' 0),
     ([], rb_define_method ''file_time'' ''ruby_curl_easy_file_time_get'' 0),
     ([], rb_define_method ''total_time'' ''ruby_curl_easy_total_time_get'' 0),
     ([], rb_define_method ''name_lookup_time'' ''ruby_curl_easy_name_lookup_time_get'' 0),
     ([], rb_define_method ''connect_time'' ''ruby_curl_easy_connect_time_get'' 0),
     ([Defined ''HAVE_CURLINFO_APPCONNECT_TIME''], rb_define_method ''app_connect_time'' ''ruby_curl_easy_app_connect_time_get'' 0),
     ([], rb_define_method ''pre_transfer_time'' ''ruby_curl_easy_pre_transfer_time_get'' 0),
     ([], rb_define_method ''start_transfer_time'' ''ruby_curl_easy_start_transfer_time_get'' 0),
     ([], rb_define_method ''redirect_time'' ''ruby_curl_easy_redirect_time_get'' 0),
     ([], rb_define_method ''redirect_count'' ''ruby_curl_easy_redirect_count_get'' 0),
     ([], rb_define_method ''redirect_url'' ''ruby_curl_easy_redirect_url_get'' 0),
     ([], rb_define_method ''downloaded_bytes'' ''ruby_curl_easy_downloaded_bytes_get'' 0),
     ([], rb_define_method ''uploaded_bytes'' ''ruby_curl_easy_uploaded_bytes_get'' 0),
     ([], rb_define_method ''download_speed'' ''ruby_curl_easy_download_speed_get'' 0),
     ([], rb_define_method ''upload_speed'' ''ruby_curl_easy_upload_speed_get'' 0),
     ([], rb_define_method ''header_size'' ''ruby_curl_easy_header_size_get'' 0),
     ([], rb_define_method ''request_size'' ''ruby_curl_easy_request_size_get'' 0),
     ([], rb_define_method ''ssl_verify_result'' ''ruby_curl_easy_ssl_verify_result_get'' 0),
     ([], rb_define_method ''downloaded_content_length'' ''ruby_curl_easy_downloaded_content_length_get'' 0),
     ([], rb_define_method ''uploaded_content_length'' ''ruby_curl_easy_uploaded_content_length_get'' 0),
     ([], rb_define_method ''content_type'' ''ruby_curl_easy_content_type_get'' 0),
     ([], rb_define_method ''os_errno'' ''ruby_curl_easy_os_errno_get'' 0),
     ([], rb_define_method ''num_connects'' ''ruby_curl_easy_num_connects_get'' 0),
     ([], rb_define_method ''cookielist'' ''ruby_curl_easy_cookielist_get'' 0),
     ([], rb_define_method ''ftp_entry_path'' ''ruby_curl_easy_ftp_entry_path_get'' 0),
     ([], rb_define_method ''close'' ''ruby_curl_easy_close'' 0),
     ([], rb_define_method ''reset'' ''ruby_curl_easy_reset'' 0),
     ([], rb_define_method ''escape'' ''ruby_curl_easy_escape'' 1),
     ([], rb_define_method ''unescape'' ''ruby_curl_easy_unescape'' 1)]"

definition easy_methods_4 :: "guarded_registration list" where
  "easy_methods_4 = [
     ([], rb_define_method ''clone'' ''ruby_curl_easy_clone'' 0),
     ([], rb_define_alias ''dup'' ''clone''),
     ([], rb_define_method ''inspect'' ''ruby_curl_easy_inspect'' 0),
     ([], rb_define_method ''multi'' ''ruby_curl_easy_multi_get'' 0),
     ([], rb_define_method ''multi='' ''ruby_curl_easy_multi_set'' 1),
     ([], rb_define_private_method ''__curb_native_setup!'' ''ruby_curl_easy_setup_self'' 0),
     ([], rb_define_private_method ''__curb_allow_proxy='' ''ruby_curl_easy_allow_proxy_set'' 1),
     ([], rb_define_private_method ''__curb_allow_unix_socket='' ''ruby_curl_easy_allow_unix_socket_set'' 1),
     ([], rb_define_private_method ''_take_callback_error'' ''ruby_curl_easy_take_callback_error'' 0),
     ([], rb_define_method ''last_result'' ''ruby_curl_easy_last_result'' 0),
     ([], rb_define_method ''last_error'' ''ruby_curl_easy_last_error'' 0),
     ([], rb_define_method ''unsafe_destination_error'' ''ruby_curl_easy_unsafe_destination_error_get'' 0),
     ([Defined ''HAVE_CURLOPT_UNIX_SOCKET_PATH''], rb_define_method ''unix_socket_path'' ''ruby_curl_easy_unix_socket_path_get'' 0),
     ([], rb_define_method ''setopt'' ''ruby_curl_easy_set_opt'' 2),
     ([], rb_define_method ''getinfo'' ''ruby_curl_easy_get_opt'' 1)]"

definition easy_methods :: "guarded_registration list" where
  "easy_methods = easy_methods_1 @ easy_methods_2 @ easy_methods_3 @ easy_methods_4"

definition multi_methods :: "guarded_registration list" where
  "multi_methods = [
     ([], rb_define_singleton_method ''default_timeout='' ''ruby_curl_multi_set_default_timeout'' 1),
     ([], rb_define_singleton_method ''default_timeout'' ''ruby_curl_multi_get_default_timeout'' 0),
     ([], rb_define_singleton_method ''autoclose='' ''ruby_curl_multi_set_autoclose'' 1),
     ([], rb_define_singleton_method ''autoclose'' ''ruby_curl_multi_get_autoclose'' 0),
     ([], rb_define_method ''initialize'' ''ruby_curl_multi_initialize'' 0),
     ([], rb_define_method ''max_connects='' ''ruby_curl_multi_max_connects'' 1),
     ([], rb_define_method ''max_host_connections='' ''ruby_curl_multi_max_host_connections'' 1),
     ([], rb_define_method ''pipeline='' ''ruby_curl_multi_pipeline'' 1),
     ([], rb_define_method ''_add'' ''ruby_curl_multi_add'' 1),
     ([], rb_define_method ''_remove'' ''ruby_curl_multi_remove'' 1),
     ([], rb_define_method ''perform'' ''ruby_curl_multi_perform'' (-1)),
     ([Defined ''HAVE_CURL_MULTI_SOCKET_ACTION'', Defined ''HAVE_CURLMOPT_SOCKETFUNCTION'', Defined ''HAVE_CURLMOPT_TIMERFUNCTION'', Defined ''HAVE_RB_THREAD_FD_SELECT'', Undefined ''_WIN32''], rb_define_private_method ''_socket_perform'' ''ruby_curl_multi_socket_perform'' (-1)),
     ([], rb_define_method ''_close'' ''ruby_curl_multi_close'' 0),
     ([], rb_define_private_method ''_mark_closed'' ''ruby_curl_multi_mark_closed'' 0)]"

definition postfield_methods :: "guarded_registration list" where
  "postfield_methods = [
     ([], rb_define_singleton_method ''content'' ''ruby_curl_postfield_new_content'' (-1)),
     ([], rb_define_singleton_method ''file'' ''ruby_curl_postfield_new_file'' (-1)),
     ([], UndefClassMethod ''new''),
     ([], rb_define_method ''name='' ''ruby_curl_postfield_name_set'' 1),
     ([], rb_define_method ''name'' ''ruby_curl_postfield_name_get'' 0),
     ([], rb_define_method ''content='' ''ruby_curl_postfield_content_set'' 1),
     ([], rb_define_method ''content'' ''ruby_curl_postfield_content_get'' 0),
     ([], rb_define_method ''content_type='' ''ruby_curl_postfield_content_type_set'' 1),
     ([], rb_define_method ''content_type'' ''ruby_curl_postfield_content_type_get'' 0),
     ([], rb_define_method ''local_file='' ''ruby_curl_postfield_local_file_set'' 1),
     ([], rb_define_method ''local_file'' ''ruby_curl_postfield_local_file_get'' 0),
     ([], rb_define_method ''remote_file='' ''ruby_curl_postfield_remote_file_set'' 1),
     ([], rb_define_method ''remote_file'' ''ruby_curl_postfield_remote_file_get'' 0),
     ([], rb_define_method ''set_content_proc'' ''ruby_curl_postfield_content_proc_set'' (-1)),
     ([], rb_define_method ''to_str'' ''ruby_curl_postfield_to_str'' 0),
     ([], rb_define_alias ''to_s'' ''to_str'')]"

definition upload_methods :: "guarded_registration list" where
  "upload_methods = [
     ([], rb_define_singleton_method ''new'' ''ruby_curl_upload_new'' 0),
     ([], rb_define_method ''stream='' ''ruby_curl_upload_stream_set'' 1),
     ([], rb_define_method ''stream'' ''ruby_curl_upload_stream_get'' 0),
     ([], rb_define_method ''offset='' ''ruby_curl_upload_offset_set'' 1),
     ([], rb_define_method ''offset'' ''ruby_curl_upload_offset_get'' 0)]"

section \<open>No registration replaces another\<close>

text \<open>The keys of a table are distinct: they have distinct hashes, which are quicker to compare.\<close>

definition names_of :: "guarded_registration list \<Rightarrow> method_key list" where
  "names_of regs = map (\<lambda>(gs, r). registered_key r) regs"

definition key_hash :: "method_key \<Rightarrow> nat" where
  "key_hash k = foldl (\<lambda>h c. (h * 31 + of_char c) mod 1000003) (if fst k = OfClass then 1 else 0) (snd k)"

lemmas registration_defs = rb_define_method_def rb_define_alias_def rb_define_private_method_def
  rb_define_singleton_method_def

lemma distinct_by_hash: "distinct (map key_hash ks) \<Longrightarrow> distinct ks"
  by (simp add: distinct_map)

lemma names_of_append: "names_of (xs @ ys) = names_of xs @ names_of ys"
  by (simp add: names_of_def)

lemma easy_1_hash:
  "map key_hash (names_of easy_methods_1) = [
     413680, 968439, 116079, 15019, 671998, 344257, 59403, 550303, 379704, 302570, 814371, 744580,
     16866, 229361, 590126, 409733, 550399, 50011, 198089, 6388, 170545, 908728, 849437, 18995, 645774,
     845300, 672429, 643126, 214293, 374608, 979827, 52368, 941453, 933596, 389257, 270620, 786999,
     606032, 525898, 920191, 564825, 86461, 583434, 221682, 394247, 311546, 429404, 17144, 387649,
     735677, 314053, 725272, 442750, 759499, 24498, 55108]"
  by (simp add: names_of_def easy_methods_1_def registration_defs key_hash_def)

lemma easy_2_hash:
  "map key_hash (names_of easy_methods_2) = [
     259841, 110639, 197116, 535782, 952768, 554945, 921128, 501954, 596837, 788021, 412516, 98477,
     261240, 526947, 952483, 884816, 931769, 344934, 624030, 11995, 806839, 5966, 903419, 151129,
     972618, 114422, 390787, 620904, 181318, 110390, 3559, 48638, 1567, 463275, 337524, 930974, 930976,
     614615, 614617, 203550, 203552, 247591, 746027, 146707, 146709, 904766, 904768, 564045, 721395,
     150583, 150585, 967240, 967242, 33282, 33284, 796937]"
  by (simp add: names_of_def easy_methods_2_def registration_defs key_hash_def)

lemma easy_3_hash:
  "map key_hash (names_of easy_methods_3) = [
     796939, 391088, 391090, 692142, 456400, 478788, 842447, 573850, 901098, 674345, 336482, 327592,
     57607, 29322, 151075, 135639, 213439, 209778, 748888, 86564, 303826, 601468, 374240, 354236, 2233,
     994667, 59172, 315152, 915409, 590253, 315719, 345017, 392720, 882711, 878146, 329512, 123422,
     313090, 585864, 84802, 65302, 297879, 452906, 971064, 266278, 989693, 982886, 154643, 792047,
     167541, 794996, 769104, 203163, 756062, 403723, 786265, 92386]"
  by (simp add: names_of_def easy_methods_3_def registration_defs key_hash_def)

lemma easy_4_hash:
  "map key_hash (names_of easy_methods_4) = [
     755907, 99839, 445530, 256513, 951943, 95304, 785511, 866089, 122708, 685406, 176704, 564088,
     95318, 183834, 505626]"
  by (simp add: names_of_def easy_methods_4_def registration_defs key_hash_def)

lemma multi_hash:
  "map key_hash (names_of multi_methods) = [
     200559, 70984, 511660, 177794, 968439, 437661, 797868, 64635, 926556, 943163, 79713, 182523,
     517247, 700771]"
  by (simp add: names_of_def multi_methods_def registration_defs key_hash_def)

lemma postfield_hash:
  "map key_hash (names_of postfield_methods) = [
     101970, 66545, 138751, 584666, 373698, 682348, 570398, 553446, 792047, 891389, 125527, 943342,
     546559, 488811, 426439, 565478]"
  by (simp add: names_of_def postfield_methods_def registration_defs key_hash_def)

lemma upload_hash:
  "map key_hash (names_of upload_methods) = [
     138751, 975300, 966946, 503228, 177522]"
  by (simp add: names_of_def upload_methods_def registration_defs key_hash_def)

lemma easy_names_distinct: "distinct (names_of easy_methods)"
  by (rule distinct_by_hash)
    (simp add: easy_methods_def names_of_append easy_1_hash easy_2_hash easy_3_hash easy_4_hash)

lemma multi_names_distinct: "distinct (names_of multi_methods)"
  by (rule distinct_by_hash) (simp add: multi_hash)

lemma postfield_names_distinct: "distinct (names_of postfield_methods)"
  by (rule distinct_by_hash) (simp add: postfield_hash)

lemma upload_names_distinct: "distinct (names_of upload_methods)"
  by (rule distinct_by_hash) (simp add: upload_hash)

section \<open>Aliases find their method\<close>

fun aliases_ok :: "guarded_registration list \<Rightarrow> method_key set \<Rightarrow> bool" where
  "aliases_ok [] K = True"
| "aliases_ok ((gs, r) # rs) K =
     ((case r of DefineAlias new old \<Rightarrow> (OfInstances, old) \<in> K | _ \<Rightarrow> True) \<and>
      aliases_ok rs (if gs = [] then insert (registered_key r) K else K))"

fun unguarded_keys :: "guarded_registration list \<Rightarrow> method_key set \<Rightarrow> method_key set" where
  "unguarded_keys [] K = K"
| "unguarded_keys ((gs, r) # rs) K =
     unguarded_keys rs (if gs = [] then insert (registered_key r) K else K)"

lemma aliases_ok_append:
  "aliases_ok (xs @ ys) K \<longleftrightarrow> aliases_ok xs K \<and> aliases_ok ys (unguarded_keys xs K)"
  by (induction xs K rule: aliases_ok.induct) auto

lemma easy_1_aliases: "aliases_ok easy_methods_1 K"
  by (simp add: easy_methods_1_def registration_defs)

lemma easy_2_aliases: "aliases_ok easy_methods_2 K"
  by (simp add: easy_methods_2_def registration_defs)

lemma easy_3_aliases: "aliases_ok easy_methods_3 K"
  by (simp add: easy_methods_3_def registration_defs)

lemma easy_4_aliases: "aliases_ok easy_methods_4 K"
  by (simp add: easy_methods_4_def registration_defs)

lemma easy_aliases: "aliases_ok easy_methods K"
  by (simp add: easy_methods_def aliases_ok_append easy_1_aliases easy_2_aliases easy_3_aliases
    easy_4_aliases)

lemma multi_aliases: "aliases_ok multi_methods K"
  by (simp add: multi_methods_def registration_defs)

lemma postfield_aliases: "aliases_ok postfield_methods K"
  by (simp add: postfield_methods_def registration_defs)

lemma upload_aliases: "aliases_ok upload_methods K"
  by (simp add: upload_methods_def registration_defs)

section \<open>The tables\<close>

definition class_tables :: "guarded_registration list set" where
  "class_tables = {easy_methods, multi_methods, postfield_methods, upload_methods}"

lemma class_tables_ok:
  assumes "regs \<in> class_tables"
  shows "distinct (names_of regs)" and "aliases_ok regs K"
  using assms easy_names_distinct multi_names_distinct postfield_names_distinct upload_names_distinct
    easy_aliases multi_aliases postfield_aliases upload_aliases
  by (auto simp: class_tables_def)

lemma compiled_keys_distinct:
  assumes "distinct (names_of regs)"
  shows "distinct (map registered_key (compiled_registrations env regs))"
  using assms
  by (induction regs) (auto simp: names_of_def compiled_registrations_def image_iff split: prod.splits)

lemma register_keeps:
  "register r t = Some t' \<Longrightarrow> k \<noteq> registered_key r \<Longrightarrow> t' k = t k"
  by (cases r) (auto split: option.splits)

lemma register_dom:
  "register r t = Some t' \<Longrightarrow> dom t' = insert (registered_key r) (dom t)"
  by (cases r) (auto split: option.splits)

lemma register_all_keeps:
  "register_all rs t = Some t' \<Longrightarrow> k \<notin> registered_key ` set rs \<Longrightarrow> t' k = t k"
proof (induction rs arbitrary: t)
  case (Cons r rs)
  then obtain u where u: "register r t = Some u" "register_all rs u = Some t'"
    by (auto split: option.splits)
  show ?case
    using Cons.IH [OF u(2)] register_keeps [OF u(1)] Cons.prems(2) by simp
qed simp

lemma register_all_dom:
  "register_all rs t = Some t' \<Longrightarrow> dom t' = registered_key ` set rs \<union> dom t"
proof (induction rs arbitrary: t)
  case (Cons r rs)
  then obtain u where u: "register r t = Some u" "register_all rs u = Some t'"
    by (auto split: option.splits)
  show ?case
    using Cons.IH [OF u(2)] register_dom [OF u(1)] by simp
qed simp

lemma register_all_finds:
  assumes "register_all rs t = Some t'" and "distinct (map registered_key rs)"
    and "DefineMethod owner v name f n \<in> set rs"
  shows "t' (owner, name) = Some (Runs v f n)"
  using assms
proof (induction rs arbitrary: t)
  case (Cons r rs)
  from Cons.prems(1) obtain u where u: "register r t = Some u" "register_all rs u = Some t'"
    by (auto split: option.splits)
  show ?case
  proof (cases "r = DefineMethod owner v name f n")
    case True
    then show ?thesis
      using u(1) register_all_keeps [OF u(2), of "(owner, name)"] Cons.prems(2) by auto
  next
    case False
    then show ?thesis
      using Cons.IH [OF u(2)] Cons.prems by simp
  qed
qed simp

lemma register_all_alias:
  assumes "register_all rs t = Some t'" and "distinct (map registered_key rs)"
    and "registered_key ` set rs \<inter> dom t = {}" and "DefineAlias new old \<in> set rs"
  shows "t' (OfInstances, new) = t' (OfInstances, old)"
  using assms
proof (induction rs arbitrary: t)
  case (Cons r rs)
  from Cons.prems(1) obtain u where u: "register r t = Some u" "register_all rs u = Some t'"
    by (auto split: option.splits)
  show ?case
  proof (cases "r = DefineAlias new old")
    case True
    with u(1) obtain e where e: "t (OfInstances, old) = Some e" "u = t((OfInstances, new) \<mapsto> e)"
      by (auto split: option.splits)
    have "(OfInstances, old) \<notin> registered_key ` set (r # rs)" "(OfInstances, new) \<notin> registered_key ` set rs"
      using e(1) Cons.prems(2,3) True by (auto simp del: set_simps)
    with register_all_keeps [OF u(2)] show ?thesis
      using e by (simp add: True)
  next
    case False
    have "registered_key ` set rs \<inter> dom u = {}"
      using register_dom [OF u(1)] Cons.prems(2,3) by auto
    with False show ?thesis
      using Cons.IH [OF u(2)] Cons.prems by simp
  qed
qed simp

lemma aliases_ok_register_all:
  "aliases_ok regs K \<Longrightarrow> K \<subseteq> dom t \<Longrightarrow> \<exists>t'. register_all (compiled_registrations env regs) t = Some t'"
proof (induction regs K arbitrary: t rule: aliases_ok.induct)
  case (2 gs r rs K)
  show ?case
  proof (cases "list_all (guard_holds env) gs")
    case True
    obtain u where u: "register r t = Some u"
      using 2(2,3) by (cases r) (auto split: option.splits)
    have "(if gs = [] then insert (registered_key r) K else K) \<subseteq> dom u"
      using 2(3) register_dom [OF u] by auto
    with 2(1) [of u] 2(2) have "\<exists>t'. register_all (compiled_registrations env rs) u = Some t'"
      by simp
    then show ?thesis
      using u True by (simp add: compiled_registrations_def)
  next
    case False
    then have "gs \<noteq> []" by auto
    with False show ?thesis
      using 2(1) [of t] 2(2,3) by (simp add: compiled_registrations_def)
  qed
qed (simp add: compiled_registrations_def)

text \<open>In every build each of the four classes loads, its method table has exactly the names that were
  registered, a name runs the function it was registered with, with that visibility and number of
  arguments (no registration replaces an earlier one), and an alias runs what its original runs.\<close>

theorem registered_methods_run:
  assumes "regs \<in> class_tables"
  shows "\<exists>t. class_methods env regs = Some t
    \<and> dom t = registered_key ` set (compiled_registrations env regs)
    \<and> (\<forall>owner v name f n. DefineMethod owner v name f n \<in> set (compiled_registrations env regs)
          \<longrightarrow> t (owner, name) = Some (Runs v f n))
    \<and> (\<forall>new old. DefineAlias new old \<in> set (compiled_registrations env regs)
          \<longrightarrow> t (OfInstances, new) = t (OfInstances, old))"
proof -
  obtain t where t: "register_all (compiled_registrations env regs) Map.empty = Some t"
    using aliases_ok_register_all [OF class_tables_ok(2) [OF assms, of "{}"]] by auto
  note distinct = compiled_keys_distinct [OF class_tables_ok(1) [OF assms]]
  show ?thesis
    using t register_all_dom [OF t] register_all_finds [OF t distinct] register_all_alias [OF t distinct]
    by (auto simp: class_methods_def)
qed

lemma compiled_member:
  "([], r) \<in> set regs \<Longrightarrow> r \<in> set (compiled_registrations env regs)"
  by (force simp: compiled_registrations_def)

lemma clone_and_dup_registered:
  "([], rb_define_method ''clone'' ''ruby_curl_easy_clone'' 0) \<in> set easy_methods"
  "([], rb_define_alias ''dup'' ''clone'') \<in> set easy_methods"
  by (simp_all add: easy_methods_def easy_methods_4_def)

definition bare_build :: curl_env where
  "bare_build = \<lparr>have_macro = (\<lambda>_. False), libcurl_version_num = 0x080000,
     easy_strerror = (\<lambda>_. []), multi_strerror = (\<lambda>_. []), setopt_result = (\<lambda>_ _. 0)\<rparr>"

theorem registered_methods_run_witness:
  "\<exists>t. class_methods bare_build easy_methods = Some t
    \<and> dispatch_call t OfInstances ''dup'' 0 = Calls ''ruby_curl_easy_clone''
    \<and> dispatch_call t OfInstances ''clone'' 1 = ArgumentCountError"
proof -
  have known: "DefineMethod OfInstances Public ''clone'' ''ruby_curl_easy_clone'' 0
        \<in> set (compiled_registrations bare_build easy_methods)"
      "DefineAlias ''dup'' ''clone'' \<in> set (compiled_registrations bare_build easy_methods)"
    using clone_and_dup_registered [THEN compiled_member] by (simp_all add: registration_defs)
  obtain t where "class_methods bare_build easy_methods = Some t"
    and "t (OfInstances, ''clone'') = Some (Runs Public ''ruby_curl_easy_clone'' 0)"
    and "t (OfInstances, ''dup'') = t (OfInstances, ''clone'')"
    using registered_methods_run [of easy_methods bare_build] known by (auto simp: class_tables_def)
  then show ?thesis
    by (simp add: dispatch_call_def)
qed

end
