(* ===== verification/Curb_Ruby.thy ===== *)
theory Curb_Ruby
  imports Curb_Options Curb_Multi_Loop Curb_Lifecycle
begin

text \<open>
  The Ruby methods over the multi handle, \<open>lib/curl/multi.rb\<close> and \<open>lib/curl/easy.rb\<close>: adding, removing,
  cancelling, closing and performing with the tables of requests and safety signatures, the \<open>multi=\<close>
  and \<open>close\<close> methods of an easy handle, and \<open>perform\<close> of one easy handle on a multi handle of its own.
  The native methods they call are the ones of the C theories. \<open>Curl.apply_safety!\<close>, the safety
  signature, the safety override and the queue of deferred closes of \<open>lib/curl.rb\<close> and
  \<open>lib/curl/easy.rb\<close> are parameters (\<open>ruby_env\<close>); an object and its \<open>object_id\<close> are one number.
\<close>

section \<open>Parameters and instance variables\<close>

record 'l ruby_env =
  native :: "'l multi_env"
  native_lib :: "'l easy_lib"
  apply_safety :: "nat \<Rightarrow> ('l, unit) mcmd"
  safety_signature_for :: "nat \<Rightarrow> 'l world \<Rightarrow> rvalue"
  clear_safety_override :: "nat \<Rightarrow> ('l, unit) mcmd"
  defer_multi_close :: "nat \<Rightarrow> nat \<Rightarrow> ('l, unit) mcmd"

text \<open>\<open>@requests ||= {}\<close> and \<open>@__curb_native_safety_signatures ||= {}\<close>: reading defines the variable.\<close>

definition requests_of :: "nat \<Rightarrow> 'l world \<Rightarrow> (nat, nat) st_table" where
  "requests_of m w = (case requests (multis w m) of None \<Rightarrow> st_init_numtable | Some t \<Rightarrow> t)"

definition set_requests :: "nat \<Rightarrow> (nat, nat) st_table \<Rightarrow> 'l world \<Rightarrow> 'l world" where
  "set_requests m t = upd_object m (\<lambda>ob. ob\<lparr>requests := Some t\<rparr>)"

definition Multi_requests :: "nat \<Rightarrow> ('l, (nat, nat) st_table) mcmd" where
  "Multi_requests m w = (Inr (requests_of m w), set_requests m (requests_of m w) w)"

definition signatures_of :: "nat \<Rightarrow> 'l world \<Rightarrow> (nat, rvalue) st_table" where
  "signatures_of m w =
     (case native_safety_signatures (multis w m) of None \<Rightarrow> st_init_numtable | Some t \<Rightarrow> t)"

definition set_signatures :: "nat \<Rightarrow> (nat, rvalue) st_table \<Rightarrow> 'l world \<Rightarrow> 'l world" where
  "set_signatures m t = upd_object m (\<lambda>ob. ob\<lparr>native_safety_signatures := Some t\<rparr>)"

definition record_native_safety_signature :: "'l ruby_env \<Rightarrow> nat \<Rightarrow> nat \<Rightarrow> 'l world \<Rightarrow> 'l world" where
  "record_native_safety_signature R m e w =
     set_signatures m (st_insert (signatures_of m w) e (safety_signature_for R e w)) w"

subsection \<open>Idle references\<close>

text \<open>The easy handles that refer to a multi handle through \<open>multi=\<close> without being added to it.\<close>

definition register_idle_easy_reference :: "nat \<Rightarrow> nat \<Rightarrow> 'l world \<Rightarrow> 'l world" where
  "register_idle_easy_reference m e =
     upd_object m (\<lambda>ob. ob\<lparr>idle_easy_references :=
       Some (List.insert e (case idle_easy_references ob of None \<Rightarrow> [] | Some l \<Rightarrow> l))\<rparr>)"

definition unregister_idle_easy_reference :: "nat \<Rightarrow> nat \<Rightarrow> 'l world \<Rightarrow> 'l world" where
  "unregister_idle_easy_reference m e =
     upd_object m (\<lambda>ob. ob\<lparr>idle_easy_references := map_option (removeAll e) (idle_easy_references ob)\<rparr>)"

section \<open>Adding and removing\<close>

text \<open>While a deferred exception is pending, \<open>add\<close> does nothing: the transfers left are only drained.\<close>

definition Multi_add :: "'l ruby_env \<Rightarrow> nat \<Rightarrow> nat \<Rightarrow> ('l, nat) mcmd" where
  "Multi_add R m e =
     bind (Multi_requests m) (\<lambda>rq w.
       if st_lookup rq e \<noteq> None then (Inr m, w)
       else if deferred_exception (multis w m) \<noteq> None then (Inr m, w)
       else bind (apply_safety R e) (\<lambda>_.
            bind (ruby_curl_multi_add (native R) m e) (\<lambda>_.
            bind (modify (unregister_idle_easy_reference m e)) (\<lambda>_.
            bind (modify (\<lambda>v. set_requests m (st_insert (requests_of m v) e e) v)) (\<lambda>_.
            bind (modify (record_native_safety_signature R m e)) (\<lambda>_. ret m))))) w)"

definition forget_request :: "nat \<Rightarrow> nat \<Rightarrow> 'l world \<Rightarrow> 'l world" where
  "forget_request m e w =
     (let w1 = set_requests m (st_delete (requests_of m w) e) w
      in set_signatures m (st_delete (signatures_of m w1) e) w1)"

definition Multi_remove :: "'l ruby_env \<Rightarrow> nat \<Rightarrow> nat \<Rightarrow> ('l, nat) mcmd" where
  "Multi_remove R m e =
     bind (Multi_requests m) (\<lambda>rq.
       if st_lookup rq e = None then ret m
       else bind (modify (forget_request m e)) (\<lambda>_. ruby_curl_multi_remove (native R) m e))"

text \<open>The calls of a block over the values of a Hash.\<close>

fun each_value :: "(nat \<Rightarrow> ('s, 'a) cmd) \<Rightarrow> nat list \<Rightarrow> ('s, unit) cmd" where
  "each_value f [] = ret ()"
| "each_value f (e # es) = bind (f e) (\<lambda>_. each_value f es)"

definition Multi_cancel :: "'l ruby_env \<Rightarrow> nat \<Rightarrow> ('l, unit) mcmd" where
  "Multi_cancel R m = bind (Multi_requests m) (\<lambda>rq. each_value (Multi_remove R m) (map snd rq))"

section \<open>The methods of an easy handle\<close>

text \<open>\<open>Easy#multi=\<close>: removed from the multi handle it is added to, then the native setter. The argument
  is as for the native one.\<close>

definition leave_previous_multi :: "'l ruby_env \<Rightarrow> nat option \<Rightarrow> nat \<Rightarrow> ('l, unit) mcmd" where
  "leave_previous_multi R previous e =
     (case previous of
        None \<Rightarrow> ret ()
      | Some p \<Rightarrow> bind (Multi_requests p) (\<lambda>rq.
          if st_lookup rq e \<noteq> None then bind (Multi_remove R p e) (\<lambda>_. ret ()) else ret ()))"

definition Easy_multi_set :: "'l ruby_env \<Rightarrow> rvalue + nat option \<Rightarrow> nat \<Rightarrow> ('l, nat option) mcmd" where
  "Easy_multi_set R new_multi e w =
     (let previous = multi (rbce_of e w)
      in if new_multi = Inr previous then (Inr previous, w)
         else bind (leave_previous_multi R previous e) (\<lambda>_.
              bind (ruby_curl_easy_multi_set (native R) new_multi e) (\<lambda>result.
              bind (modify (case previous of None \<Rightarrow> id | Some p \<Rightarrow> unregister_idle_easy_reference p e)) (\<lambda>_.
              bind (modify (case result of None \<Rightarrow> id | Some m \<Rightarrow> register_idle_easy_reference m e)) (\<lambda>_.
              ret result)))) w)"

definition Easy_close :: "'l ruby_env \<Rightarrow> nat \<Rightarrow> ('l, rvalue) mcmd" where
  "Easy_close R e w =
     (let previous = multi (rbce_of e w)
      in bind (ruby_curl_easy_close (native R) (native_lib R) e) (\<lambda>result.
         bind (clear_safety_override R e) (\<lambda>_.
         bind (modify (case previous of None \<Rightarrow> id | Some p \<Rightarrow> unregister_idle_easy_reference p e)) (\<lambda>_.
         ret result))) w)"

section \<open>Closing\<close>

definition release_idle_reference :: "'l ruby_env \<Rightarrow> nat \<Rightarrow> nat \<Rightarrow> ('l, unit) mcmd" where
  "release_idle_reference R m e w =
     (if multi (rbce_of e w) = Some m then bind (Easy_multi_set R (Inr None) e) (\<lambda>_. ret ()) w
      else (Inr (), w))"

definition clear_idle_easy_references :: "'l ruby_env \<Rightarrow> nat \<Rightarrow> ('l, unit) mcmd" where
  "clear_idle_easy_references R m w =
     (case idle_easy_references (multis w m) of
        None \<Rightarrow> (Inr (), w)
      | Some es \<Rightarrow>
          bind (each_value (release_idle_reference R m) es) (\<lambda>_.
          modify (upd_object m (\<lambda>ob. ob\<lparr>idle_easy_references := Some []\<rparr>))) w)"

text \<open>\<open>close\<close> is permanent, \<open>_autoclose\<close> is not.\<close>

definition Multi_close :: "'l ruby_env \<Rightarrow> bool \<Rightarrow> nat \<Rightarrow> ('l, nat) mcmd" where
  "Multi_close R permanent m =
     bind (Multi_requests m) (\<lambda>rq.
     bind (each_value (ruby_curl_multi_remove (native R) m) (map snd rq)) (\<lambda>_.
     bind (if permanent then clear_idle_easy_references R m else ret ()) (\<lambda>_.
     bind (modify (set_requests m st_init_numtable)) (\<lambda>_.
     bind (ruby_curl_multi_close (native R) m) (\<lambda>_.
     bind (if permanent then ruby_curl_multi_mark_closed m else ret m) (\<lambda>_. ret m))))))"

section \<open>Performing\<close>

text \<open>Before the native loop every request gets the safety settings of the moment; the options are
  given to libcurl again where the signature changed.\<close>

definition prepare_request :: "'l ruby_env \<Rightarrow> nat \<Rightarrow> nat \<Rightarrow> ('l, unit) mcmd" where
  "prepare_request R m e =
     bind (apply_safety R e) (\<lambda>_ w.
       let signature = safety_signature_for R e w
       in if st_lookup (signatures_of m w) e \<noteq> Some signature
          then bind (on_rbce e (ruby_curl_easy_setup (me_setup (native R)))) (\<lambda>_.
               modify (\<lambda>v. set_signatures m (st_insert (signatures_of m v) e signature) v)) w
          else (Inr (), w))"

definition prepare_requests :: "'l ruby_env \<Rightarrow> nat \<Rightarrow> ('l, unit) mcmd" where
  "prepare_requests R m = bind (Multi_requests m) (\<lambda>rq. each_value (prepare_request R m) (map snd rq))"

definition Multi_perform ::
  "'l ruby_env \<Rightarrow> (nat \<Rightarrow> ('l world, rvalue) prog) \<Rightarrow> nat \<Rightarrow> ('l world, rvalue) prog" where
  "Multi_perform R native_perform m = pbind (run (prepare_requests R m)) (\<lambda>_. native_perform m)"

text \<open>\<open>release_deferred_multi_close\<close>: whether the multi handle could be closed. The
  mark \<open>@deferred_close\<close> it clears is never read and is left out.\<close>

definition release_deferred_multi_close :: "'l ruby_env \<Rightarrow> nat \<Rightarrow> nat \<Rightarrow> ('l, bool) mcmd" where
  "release_deferred_multi_close R m e =
     rb_rescue
       (bind (Multi_requests m) (\<lambda>rq.
        bind (if st_lookup rq e \<noteq> None
              then rb_rescue (bind (Multi_remove R m e) (\<lambda>_. ret ()))
                     (\<lambda>_. modify (set_requests m st_init_numtable))
              else modify (set_requests m st_init_numtable)) (\<lambda>_.
        bind (ruby_curl_multi_close (native R) m) (\<lambda>_. ret True))))
       (\<lambda>_. ret False)"

text \<open>\<open>self.multi = nil if self.multi == multi\<close> is \<open>release_idle_reference\<close>. What follows the
  transfer, whether it raised or not:\<close>

definition finish_transfer :: "'l ruby_env \<Rightarrow> bool \<Rightarrow> nat \<Rightarrow> nat \<Rightarrow> bool \<Rightarrow> ('l, unit) mcmd" where
  "finish_transfer R created_multi m e raised w =
     (if created_multi \<and> raised then
        bind (release_deferred_multi_close R m e) (\<lambda>released.
        bind (if released then ret () else defer_multi_close R m e) (\<lambda>_.
        release_idle_reference R m e)) w
      else if curb_multi_autoclose_enabled w then
        bind (Multi_close R False m) (\<lambda>_. release_idle_reference R m e) w
      else bind (Easy_multi_set R (Inr (Some m)) e) (\<lambda>_. ret ()) w)"

text \<open>An \<open>ensure\<close> clause that is told whether the body raised.\<close>

definition pensure_raised :: "('s, 'a) prog \<Rightarrow> (bool \<Rightarrow> ('s, unit) cmd) \<Rightarrow> ('s, 'a) prog" where
  "pensure_raised body fin s =
     (case body s of
        None \<Rightarrow> None
      | Some (r, t) \<Rightarrow> Some (case fin (isl r) t of (Inl x, u) \<Rightarrow> (Inl x, u) | (Inr _, u) \<Rightarrow> (r, u)))"

definition transfer_on :: "'l ruby_env \<Rightarrow> (nat \<Rightarrow> ('l world, rvalue) prog) \<Rightarrow> nat \<Rightarrow> nat \<Rightarrow> ('l world, rvalue) prog" where
  "transfer_on R native_perform m e =
     pbind (run (Multi_add R m e)) (\<lambda>_.
     pbind (Multi_perform R native_perform m) (\<lambda>performed.
     pbind (run (\<lambda>w. if multi (rbce_of e w) = Some m then bind (Multi_remove R m e) (\<lambda>_. ret ()) w
                     else (Inr (), w))) (\<lambda>_. run (ret performed))))"

text \<open>The branch of \<open>Easy#perform\<close> without a fiber scheduler; \<open>fresh\<close> is the number of the object
  \<open>Curl::Multi.new\<close> makes.\<close>

definition Easy_transfer ::
  "'l ruby_env \<Rightarrow> (nat \<Rightarrow> ('l world, rvalue) prog) \<Rightarrow> nat \<Rightarrow> nat \<Rightarrow> ('l world, rvalue) prog" where
  "Easy_transfer R native_perform fresh e w =
     (case multi (rbce_of e w) of
        Some m \<Rightarrow>
          pensure_raised (transfer_on R native_perform m e) (finish_transfer R False m e) w
      | None \<Rightarrow>
          pbind (run (bind (ruby_curl_multi_initialize (native R) fresh) (\<lambda>m.
                      bind (Easy_multi_set R (Inr (Some m)) e) (\<lambda>_. ret m)))) (\<lambda>m.
            pensure_raised (transfer_on R native_perform m e) (finish_transfer R True m e)) w)"

section \<open>The result of a transfer\<close>

definition ruby_curl_easy_take_callback_error :: "(ruby_curl_easy, exc option) cmd" where
  "ruby_curl_easy_take_callback_error r =
     (case rb_curl_easy_take_callback_error r of (x, r') \<Rightarrow> (Inr x, r'))"

definition ruby_curl_easy_unsafe_destination_error_get :: "(ruby_curl_easy, rvalue) cmd" where
  "ruby_curl_easy_unsafe_destination_error_get r =
     (Inr (if unsafe_destination_blocked r \<and> c_string (unsafe_destination_error r) \<noteq> []
           then RStr (c_string (unsafe_destination_error r)) else Qnil), r)"

text \<open>\<open>[err_summary, err_detail].compact.join(": ")\<close>\<close>

definition error_text :: "string \<Rightarrow> rvalue \<Rightarrow> string" where
  "error_text summary detail = (case detail of RStr s \<Rightarrow> summary @ '': '' @ s | _ \<Rightarrow> summary)"

text \<open>What \<open>perform\<close> makes of a finished transfer. The handler of failures is asked for with
  \<open>on_failure\<close>, without a block.\<close>

definition raise_transfer_error :: "curl_env \<Rightarrow> (ruby_curl_easy, 'a) cmd" where
  "raise_transfer_error env =
     bind ruby_curl_easy_last_result (\<lambda>code.
     bind (lift_res (ruby_curl_easy_error_message env code)) (\<lambda>(err_class, err_summary).
     bind ruby_curl_easy_last_error (\<lambda>err_detail.
     rb_raise err_class (error_text err_summary err_detail))))"

definition Easy_result :: "curl_env \<Rightarrow> rvalue \<Rightarrow> (ruby_curl_easy, rvalue) cmd" where
  "Easy_result env performed =
     bind ruby_curl_easy_take_callback_error (\<lambda>callback_error.
     case callback_error of
       Some x \<Rightarrow> rb_exc_raise x
     | None \<Rightarrow>
         bind ruby_curl_easy_unsafe_destination_error_get (\<lambda>unsafe.
         case unsafe of
           RStr message \<Rightarrow> rb_raise ''eCurlErrUnsafeDestination'' message
         | _ \<Rightarrow>
             bind ruby_curl_easy_last_result (\<lambda>code.
             if code \<noteq> RInt 0
             then bind (ruby_curl_easy_on_failure_set Qnil) (\<lambda>on_failure.
                  if on_failure = Qnil then raise_transfer_error env else ret performed)
             else ret performed)))"

end
