(* ===== verification/Curb_Multi_Refinement.thy ===== *)
theory Curb_Multi_Refinement
  imports Curb_Multi_Sample
begin

text \<open>
  What the multi handle promises, without its tables, counters and references: an assignment of easy
  handles to multi handles. The operations of \<open>ext/curb_multi.c\<close> are shown to simulate the operations
  on assignments, along whole sequences of calls with whatever outcomes, and libcurl's own membership
  to be a function of the assignment.
\<close>

section \<open>Forward simulation\<close>

text \<open>Sequences of calls: concretely with the outcomes, abstractly as a relation that takes the
  outcomes, and the condition under which the calls may be made, on the abstract states between.\<close>

fun run_all :: "('c \<Rightarrow> 's \<Rightarrow> 'o \<times> 's) \<Rightarrow> 'c list \<Rightarrow> 's \<Rightarrow> 'o list \<times> 's" where
  "run_all step [] s = ([], s)"
| "run_all step (c # cs) s =
     (case step c s of (out, t) \<Rightarrow> case run_all step cs t of (os, u) \<Rightarrow> (out # os, u))"

fun spec_all :: "('c \<Rightarrow> 'o \<Rightarrow> 'a \<Rightarrow> 'a \<Rightarrow> bool) \<Rightarrow> ('c \<times> 'o) list \<Rightarrow> 'a \<Rightarrow> 'a \<Rightarrow> bool" where
  "spec_all spec [] a b = (a = b)"
| "spec_all spec ((c, out) # cs) a b = (\<exists>a'. spec c out a a' \<and> spec_all spec cs a' b)"

fun ready_all ::
  "('c \<Rightarrow> 's \<Rightarrow> 'o \<times> 's) \<Rightarrow> ('s \<Rightarrow> 'a) \<Rightarrow> ('c \<Rightarrow> 'a \<Rightarrow> bool) \<Rightarrow> 'c list \<Rightarrow> 's \<Rightarrow> bool" where
  "ready_all step absf ready [] s = True"
| "ready_all step absf ready (c # cs) s =
     (ready c (absf s) \<and> ready_all step absf ready cs (snd (step c s)))"

locale forward_simulation =
  fixes step :: "'c \<Rightarrow> 's \<Rightarrow> 'o \<times> 's" and spec :: "'c \<Rightarrow> 'o \<Rightarrow> 'a \<Rightarrow> 'a \<Rightarrow> bool"
    and absf :: "'s \<Rightarrow> 'a" and inv :: "'s \<Rightarrow> bool" and ready :: "'c \<Rightarrow> 'a \<Rightarrow> bool"
  assumes simulates: "inv s \<Longrightarrow> ready c (absf s) \<Longrightarrow> step c s = (out, t) \<Longrightarrow> inv t \<and> spec c out (absf s) (absf t)"
begin

lemma simulates_all:
  "inv s \<Longrightarrow> ready_all step absf ready cs s \<Longrightarrow> run_all step cs s = (os, t) \<Longrightarrow>
   inv t \<and> spec_all spec (zip cs os) (absf s) (absf t)"
proof (induction cs arbitrary: s os)
  case (Cons c cs)
  obtain out u where u: "step c s = (out, u)" by fastforce
  obtain rest v where v: "run_all step cs u = (rest, v)" by fastforce
  have "inv u \<and> spec c out (absf s) (absf u)"
    using simulates [OF Cons.prems(1) _ u] Cons.prems(2) by simp
  moreover have "os = out # rest" "t = v" using Cons.prems(3) u v by simp_all
  ultimately show ?case
    using Cons.IH [of u rest] Cons.prems(2) u v by auto
qed simp

end

section \<open>The calls\<close>

text \<open>The calls on multi handles, with whether the call returned or raised. \<open>CallComplete\<close> is the part
  of a completion before its status callbacks, \<open>detach_completed\<close>; what the callbacks then do are
  calls of their own.\<close>

datatype multi_call =
    CallAdd nat nat
  | CallRemove nat nat
  | CallComplete nat nat int
  | CallClose nat
  | CallMarkClosed nat
  | CallFree nat

definition outcome :: "(exc + 'a) \<times> 's \<Rightarrow> bool \<times> 's" where
  "outcome p = (\<not> isl (fst p), snd p)"

fun multi_call_step :: "'l multi_env \<Rightarrow> multi_call \<Rightarrow> 'l world \<Rightarrow> bool \<times> 'l world" where
  "multi_call_step X (CallAdd m e) w = outcome (ruby_curl_multi_add X m e w)"
| "multi_call_step X (CallRemove m e) w = outcome (ruby_curl_multi_remove X m e w)"
| "multi_call_step X (CallComplete m e result) w = outcome (detach_completed X m e result w)"
| "multi_call_step X (CallClose m) w = outcome (ruby_curl_multi_close X m w)"
| "multi_call_step X (CallMarkClosed m) w = outcome (ruby_curl_multi_mark_closed m w)"
| "multi_call_step X (CallFree m) w = (True, curl_multi_free X m w)"

section \<open>The specification\<close>

type_synonym assignment = "nat \<rightharpoonup> nat"

definition release_all :: "nat \<Rightarrow> assignment \<Rightarrow> assignment" where
  "release_all m a = (\<lambda>e. if a e = Some m then None else a e)"

text \<open>A call that returns has its effect, and one that raises has none. Two exceptions: marking a handle
  closed has no effect on assignments, and a completion that raises may come from the
  second flush of the error stream, after libcurl has let the handle go.\<close>

fun assignment_spec :: "multi_call \<Rightarrow> bool \<Rightarrow> assignment \<Rightarrow> assignment \<Rightarrow> bool" where
  "assignment_spec (CallAdd m e) returned a b =
     (if returned then a e \<in> {None, Some m} \<and> b = a(e \<mapsto> m) else b = a)"
| "assignment_spec (CallRemove m e) returned a b = (b = (if returned then a(e := None) else a))"
| "assignment_spec (CallComplete m e result) returned a b = (b = a(e := None) \<or> \<not> returned \<and> b = a)"
| "assignment_spec (CallClose m) returned a b = (b = (if returned then release_all m a else a))"
| "assignment_spec (CallMarkClosed m) returned a b = (b = a)"
| "assignment_spec (CallFree m) returned a b = (b = release_all m a)"

text \<open>Only a handle that is attached is removed, and only such a handle completes.\<close>

fun assignment_ready :: "multi_call \<Rightarrow> assignment \<Rightarrow> bool" where
  "assignment_ready (CallRemove m e) a = (a e = Some m)"
| "assignment_ready (CallComplete m e result) a = (a e = Some m)"
| "assignment_ready c a = True"

section \<open>The abstraction\<close>

definition assignment_of :: "'l world \<Rightarrow> assignment" where
  "assignment_of w e =
     (case multi (rbce_of e w) of
        None \<Rightarrow> None
      | Some m \<Rightarrow> if rb_curl_multi_has_easy m e w then Some m else None)"

definition libcurl_follows :: "('l \<Rightarrow> nat \<rightharpoonup> nat set) \<Rightarrow> 'l world \<Rightarrow> bool" where
  "libcurl_follows members w \<longleftrightarrow>
     (\<forall>m h. handle (rbcm_of m w) = Some h \<longrightarrow>
        members (lib w) h = Some {x. \<exists>e. assignment_of w e = Some m \<and> curl (rbce_of e w) = Some x})"

lemma assignment_iff:
  assumes "world_ok members w"
  shows "assignment_of w e = Some m \<longleftrightarrow> rb_curl_multi_has_easy m e w"
  using assms has_easy_multi(1) [of m w e] by (auto simp: assignment_of_def world_ok_def split: option.split)

lemma assignment_none:
  assumes "world_ok members w"
  shows "assignment_of w e = None \<longleftrightarrow> (\<forall>m. \<not> rb_curl_multi_has_easy m e w)"
  using assignment_iff [OF assms] by (metis option.exhaust option.simps(3))

lemma assignment_eqI:
  assumes "world_ok members w" and "\<And>m e. rb_curl_multi_has_easy m e w \<longleftrightarrow> a e = Some m"
  shows "assignment_of w = a"
proof
  fix e
  have "assignment_of w e = Some m \<longleftrightarrow> a e = Some m" for m
    by (simp only: assignment_iff [OF assms(1)] assms(2))
  then show "assignment_of w e = a e"
    by (cases "a e") (metis option.exhaust option.simps(3), simp)
qed

lemma libcurl_follows_ok:
  assumes "world_ok members w"
  shows "libcurl_follows members w"
  unfolding libcurl_follows_def
proof (intro allI impI)
  fix m h assume h: "handle (rbcm_of m w) = Some h"
  have "members_ok members m w" using assms by (simp add: world_ok_def)
  then obtain S where S: "members (lib w) h = Some S"
    "Some ` S = (\<lambda>e. curl (rbce_of e w)) ` {e. rb_curl_multi_has_easy m e w}"
    using h by (auto simp: members_ok_def)
  have "x \<in> S \<longleftrightarrow> (\<exists>e. assignment_of w e = Some m \<and> curl (rbce_of e w) = Some x)" for x
  proof -
    have "x \<in> S \<longleftrightarrow> Some x \<in> Some ` S" by blast
    also have "\<dots> \<longleftrightarrow> (\<exists>e. rb_curl_multi_has_easy m e w \<and> curl (rbce_of e w) = Some x)"
      by (simp add: S(2) image_iff eq_commute)
    finally show ?thesis by (simp add: assignment_iff [OF assms])
  qed
  then show "members (lib w) h = Some {x. \<exists>e. assignment_of w e = Some m \<and> curl (rbce_of e w) = Some x}"
    using S(1) by auto
qed

section \<open>The operations simulate the specification\<close>

lemma same_assignment:
  assumes "world_ok members w" and "world_ok members v"
    and "\<And>n i. rb_curl_multi_has_easy n i v = rb_curl_multi_has_easy n i w"
  shows "assignment_of v = assignment_of w"
  by (rule assignment_eqI [OF assms(2)]) (simp add: assms(3) assignment_iff [OF assms(1)])

lemma detach_assignment:
  assumes "world_ok members w" and "world_ok members v" and "detach_step members m e w v"
    and "assignment_of w e = Some m"
  shows "assignment_of v = (assignment_of w)(e := None)"
  by (rule assignment_eqI [OF assms(2)])
    (use assms(4) in \<open>auto simp: has_easy_detach [OF assms(3)] assignment_iff [OF assms(1), symmetric]\<close>)

lemma close_assignment:
  assumes "world_ok members w" and "world_ok members v" and "close_step members m w v"
  shows "assignment_of v = release_all m (assignment_of w)"
  by (rule assignment_eqI [OF assms(2)])
    (auto simp: has_easy_close [OF assms(3)] release_all_def assignment_iff [OF assms(1), symmetric])

lemma add_simulates:
  assumes lib: "libcurl_multi_ok X members" and ok: "world_ok members w"
    and add: "ruby_curl_multi_add X m e w = (r, v)"
  shows "assignment_spec (CallAdd m e) (\<not> isl r) (assignment_of w) (assignment_of v)"
proof (cases r)
  case (Inl x)
  then show ?thesis
    using same_assignment [OF ok add_result(1) [OF lib ok add]] add_result(3) [OF lib ok add] by simp
next
  case (Inr k)
  note has = add_result(2) [OF lib ok add Inr]
  have v: "world_ok members v" using add_result(1) [OF lib ok add] .
  have one: "m = n" if "rb_curl_multi_has_easy n e w" for n
    using has_easy_multi(1) [of n v e] has_easy_multi(1) [of m v e] v has that by (auto simp: world_ok_def)
  have "assignment_of v = (assignment_of w)(e \<mapsto> m)"
    by (rule assignment_eqI [OF v]) (use one in \<open>auto simp: has assignment_iff [OF ok]\<close>)
  moreover have "assignment_of w e \<in> {None, Some m}"
    using one assignment_iff [OF ok, of e] by (cases "assignment_of w e") auto
  ultimately show ?thesis using Inr by simp
qed

lemma remove_simulates:
  assumes lib: "libcurl_multi_ok X members" and ok: "world_ok members w"
    and at: "assignment_of w e = Some m" and remove: "ruby_curl_multi_remove X m e w = (r, v)"
  shows "world_ok members v \<and> assignment_spec (CallRemove m e) (\<not> isl r) (assignment_of w) (assignment_of v)"
proof -
  have has: "rb_curl_multi_has_easy m e w" using at by (simp add: assignment_iff [OF ok])
  obtain r' v' where inner: "rb_curl_multi_remove X m e w = (r', v')" by fastforce
  note res = remove_attached [OF lib ok has inner]
  have v: "v = v'" "isl r = isl r'"
    using remove inner by (auto simp: ruby_curl_multi_remove_def bind_def ret_def split: sum.splits)
  show ?thesis
  proof (cases r')
    case (Inl x)
    then show ?thesis using same_assignment [OF ok res(1)] res(3) [OF Inl] res(1) by (simp add: v)
  next
    case (Inr u)
    then show ?thesis using detach_assignment [OF ok res(1) _ at] res(1,2) by (simp add: v)
  qed
qed

lemma complete_simulates:
  assumes lib: "libcurl_multi_ok X members" and user: "user_ok members X" and ok: "world_ok members w"
    and at: "assignment_of w e = Some m" and run: "detach_completed X m e result w = (r, v)"
  shows "world_ok members v \<and>
    assignment_spec (CallComplete m e result) (\<not> isl r) (assignment_of w) (assignment_of v)"
proof -
  have has: "rb_curl_multi_has_easy m e w" using at by (simp add: assignment_iff [OF ok])
  note res = detach_completed_result [OF lib user ok has run]
  show ?thesis
  proof (cases r)
    case (Inl x)
    then show ?thesis
      using res(1) res(3) [OF Inl] same_assignment [OF ok res(1)] detach_assignment [OF ok res(1) _ at] by auto
  next
    case (Inr u)
    then show ?thesis using res(1,2) detach_assignment [OF ok res(1) _ at] by simp
  qed
qed

lemma close_simulates:
  assumes lib: "libcurl_multi_ok X members" and ok: "world_ok members w"
    and close: "ruby_curl_multi_close X m w = (r, v)"
  shows "world_ok members v \<and> assignment_spec (CallClose m) (\<not> isl r) (assignment_of w) (assignment_of v)"
proof (cases r)
  case (Inl x)
  then have "v = w"
    using close close_eq [of m w X] by (auto simp: ruby_curl_multi_close_def rb_raise_def split: if_splits)
  then show ?thesis using Inl ok by simp
next
  case (Inr k)
  then show ?thesis
    using close_keeps [OF lib ok close] close_assignment [OF ok] close_close_step [OF lib ok] close by simp
qed

text \<open>The hypotheses about libcurl and user code are part of the invariant the simulation keeps.\<close>

definition multi_inv :: "'l multi_env \<Rightarrow> ('l \<Rightarrow> nat \<rightharpoonup> nat set) \<Rightarrow> 'l world \<Rightarrow> bool" where
  "multi_inv X members w \<longleftrightarrow> libcurl_multi_ok X members \<and> user_ok members X \<and> world_ok members w"

lemma multi_call_simulates:
  assumes "multi_inv X members w" and "assignment_ready c (assignment_of w)"
    and "multi_call_step X c w = (out, v)"
  shows "multi_inv X members v \<and> assignment_spec c out (assignment_of w) (assignment_of v)"
proof -
  have lib: "libcurl_multi_ok X members" and user: "user_ok members X" and ok: "world_ok members w"
    using assms(1) by (simp_all add: multi_inv_def)
  have "world_ok members v \<and> assignment_spec c out (assignment_of w) (assignment_of v)"
    using assms(2,3)
  proof (cases c)
    case (CallAdd m e)
    then obtain r where run: "ruby_curl_multi_add X m e w = (r, v)" and out: "out = (\<not> isl r)"
      using assms(3) by (cases "ruby_curl_multi_add X m e w") (auto simp: outcome_def)
    show ?thesis
      using CallAdd out add_result(1) [OF lib ok run] add_simulates [OF lib ok run] by blast
  next
    case (CallRemove m e)
    then obtain r where run: "ruby_curl_multi_remove X m e w = (r, v)" and out: "out = (\<not> isl r)"
      using assms(3) by (cases "ruby_curl_multi_remove X m e w") (auto simp: outcome_def)
    show ?thesis
      using CallRemove out assms(2) remove_simulates [OF lib ok _ run] by simp
  next
    case (CallComplete m e result)
    then obtain r where run: "detach_completed X m e result w = (r, v)" and out: "out = (\<not> isl r)"
      using assms(3) by (cases "detach_completed X m e result w") (auto simp: outcome_def)
    show ?thesis
      using CallComplete out assms(2) complete_simulates [OF lib user ok _ run] by simp
  next
    case (CallClose m)
    then obtain r where run: "ruby_curl_multi_close X m w = (r, v)" and out: "out = (\<not> isl r)"
      using assms(3) by (cases "ruby_curl_multi_close X m w") (auto simp: outcome_def)
    show ?thesis
      using CallClose out close_simulates [OF lib ok run] by simp
  next
    case (CallMarkClosed m)
    then have "same_attachment w v"
      using assms(3) by (auto simp: outcome_def ruby_curl_multi_mark_closed_def world_simps)
    note same = this
    show ?thesis
      using CallMarkClosed world_ok_same [OF same ok] same_assignment [OF ok world_ok_same [OF same ok]]
        same_has_easy [OF same] by simp
  next
    case (CallFree m)
    note step = free_close_step [OF lib ok, of m]
    show ?thesis
      using CallFree assms(3) close_step_keeps [OF ok step] close_assignment [OF ok _ step] by simp
  qed
  with lib user show ?thesis by (simp add: multi_inv_def)
qed

interpretation assigned: forward_simulation "multi_call_step X" assignment_spec assignment_of
  "multi_inv X members" assignment_ready
  by unfold_locales (rule multi_call_simulates)

text \<open>C7: The multi handles implement an assignment of easy handles to multi handles. Along every sequence
  of adding, removing, completing, closing, marking closed and freeing in which only attached handles
  are removed or complete, every call that returns changes the assignment as specified and every call
  that raises leaves it (a completion may still have let its handle go). The assignment alone
  determines which easy handles libcurl has in each multi handle, and no handle is ever in two.\<close>

theorem multi_calls_refine_assignment:
  assumes "libcurl_multi_ok X members" and "user_ok members X" and "world_ok members w"
    and "ready_all (multi_call_step X) assignment_of assignment_ready cs w"
    and "run_all (multi_call_step X) cs w = (outs, v)"
  shows "spec_all assignment_spec (zip cs outs) (assignment_of w) (assignment_of v)
    \<and> libcurl_follows members v \<and> world_ok members v"
  using assigned.simulates_all [of X members w cs outs v] assms libcurl_follows_ok
  by (auto simp: multi_inv_def)

theorem multi_calls_refine_assignment_witness:
  "\<exists>v. run_all (multi_call_step sample_multi) [CallAdd 0 7, CallClose 0] (sample_ensured 0) =
       ([True, True], v) \<and> assignment_of v = Map.empty"
proof -
  let ?cs = "[CallAdd 0 7, CallClose 0]"
  have ok: "world_ok sample_members (sample_ensured 0)"
    using ensure_handle_ok(1) [OF sample_lib_ok sample_world_ok sample_ensure] .
  obtain v where add: "ruby_curl_multi_add sample_multi 0 7 (sample_ensured 0) = (Inr 0, v)"
    using sample_add_ensured by blast
  obtain u where "ruby_curl_multi_close sample_multi 0 v = (Inr 0, u)"
    using sample_flags [OF add] close_eq [of 0 v sample_multi] by blast
  with add have run: "run_all (multi_call_step sample_multi) ?cs (sample_ensured 0) = ([True, True], u)"
    by (simp add: outcome_def)
  have ready: "ready_all (multi_call_step sample_multi) assignment_of assignment_ready ?cs (sample_ensured 0)"
    by simp
  have start: "assignment_of (sample_ensured 0) = Map.empty"
    by (simp add: fun_eq_iff assignment_none [OF ok] sample_ensured_fields)
  have "spec_all assignment_spec (zip ?cs [True, True]) Map.empty (assignment_of u)"
    using multi_calls_refine_assignment [OF sample_lib_ok sample_user_ok ok ready run] by (simp add: start)
  then have "assignment_of u = Map.empty"
    by (auto simp: release_all_def fun_eq_iff)
  with run show ?thesis by blast
qed

end
