(* ===== verification/Curb_Ruby_Facts.thy ===== *)
theory Curb_Ruby_Facts
  imports Curb_Ruby Curb_Multi_Refinement Curb_Lifecycle_Facts
begin

text \<open>
  The three records of what is being transferred agree: the table of requests of the Ruby object, the
  attachment table of the native structure and libcurl's own membership. The Ruby methods keep the
  agreement on every exit, except \<open>Easy#close\<close>, which leaves a request behind.
\<close>

section \<open>Agreement\<close>

definition has_request :: "nat \<Rightarrow> nat \<Rightarrow> 'l world \<Rightarrow> bool" where
  "has_request m e w \<longleftrightarrow> st_lookup (requests_of m w) e \<noteq> None"

definition request_table_ok :: "nat \<Rightarrow> 'l world \<Rightarrow> bool" where
  "request_table_ok m w \<longleftrightarrow>
     st_wf (requests_of m w) \<and> (\<forall>p \<in> set (requests_of m w). snd p = fst p)"

definition layers_agree :: "('l \<Rightarrow> nat \<rightharpoonup> nat set) \<Rightarrow> 'l world \<Rightarrow> bool" where
  "layers_agree members w \<longleftrightarrow>
     world_ok members w \<and>
     (\<forall>m. request_table_ok m w \<and> (\<forall>e. has_request m e w \<longleftrightarrow> rb_curl_multi_has_easy m e w))"

text \<open>Outside its own callbacks libcurl lets every handle it has go.\<close>

definition libcurl_removes :: "'l multi_env \<Rightarrow> ('l \<Rightarrow> nat \<rightharpoonup> nat set) \<Rightarrow> bool" where
  "libcurl_removes X members \<longleftrightarrow>
     (\<forall>h x l S. members l h = Some S \<longrightarrow> x \<in> S \<longrightarrow> fst (curl_multi_remove_handle X (Some h) (Some x) l) = 0)"

text \<open>Nothing but attributes, options, signatures and idle references has changed.\<close>

definition same_objects :: "'l world \<Rightarrow> 'l world \<Rightarrow> bool" where
  "same_objects w v \<longleftrightarrow>
     (\<forall>m. requests_of m v = requests_of m w \<and>
          perform_active (rbcm_of m v) = perform_active (rbcm_of m w) \<and>
          multi_callback_active (rbcm_of m v) = multi_callback_active (rbcm_of m w))"

definition undisturbed :: "'l world \<Rightarrow> 'l world \<Rightarrow> bool" where
  "undisturbed w v \<longleftrightarrow> same_attachment w v \<and> same_objects w v"

lemma same_objects_refl: "same_objects w w"
  and same_objects_trans: "same_objects w v \<Longrightarrow> same_objects v u \<Longrightarrow> same_objects w u"
  by (simp_all add: same_objects_def)

lemma undisturbed_refl: "undisturbed w w"
  and undisturbed_trans: "undisturbed w v \<Longrightarrow> undisturbed v u \<Longrightarrow> undisturbed w u"
  using same_attachment_refl same_attachment_trans same_objects_refl same_objects_trans
  by (auto simp: undisturbed_def)

interpretation undisturbed: step_relation undisturbed
  by unfold_locales (rule undisturbed_refl, rule undisturbed_trans)

lemma agree_undisturbed:
  assumes "layers_agree members w" and "undisturbed w v"
  shows "layers_agree members v"
proof -
  have "requests_of m v = requests_of m w" for m
    using assms(2) by (simp add: undisturbed_def same_objects_def)
  then show ?thesis
    using assms world_ok_same [of w v members] same_has_easy [of w v]
    by (simp add: layers_agree_def undisturbed_def request_table_ok_def has_request_def)
qed

text \<open>What is asked of the parameters, which set attributes or keep their own books.\<close>

definition ruby_ok :: "'l ruby_env \<Rightarrow> bool" where
  "ruby_ok R \<longleftrightarrow>
     (\<forall>e. keeps undisturbed (apply_safety R e)) \<and> (\<forall>e. keeps undisturbed (clear_safety_override R e)) \<and>
     (\<forall>m e. keeps undisturbed (defer_multi_close R m e))"

subsection \<open>Reading the tables\<close>

lemma requests_of_upd [world_simps]:
  "requests_of m (set_requests m' t w) = (if m = m' then t else requests_of m w)"
  "requests_of m (upd_rbce e f w) = requests_of m w" "requests_of m (w\<lparr>lib := l\<rparr>) = requests_of m w"
  "requests_of m (upd_rbcm m' g w) = requests_of m w"
  "(\<And>ob. requests (h ob) = requests ob) \<Longrightarrow> requests_of m (upd_object m' h w) = requests_of m w"
  by (simp_all add: requests_of_def set_requests_def upd_rbce_def upd_object_def upd_rbcm_def)

lemma requests_of_forget [world_simps]:
  "requests_of n (rb_curl_multi_forget_easy m e w) = requests_of n w"
  by (simp add: rb_curl_multi_forget_easy_def world_simps)

lemma set_requests_reads [world_simps]:
  "rbcm_of n (set_requests m t w) = rbcm_of n w" "rbce_of e (set_requests m t w) = rbce_of e w"
  "lib (set_requests m t w) = lib w"
  "idle_easy_references (multis (set_requests m t w) n) = idle_easy_references (multis w n)"
  by (simp_all add: set_requests_def world_simps)

lemma set_signatures_undisturbed: "undisturbed w (set_signatures m t w)"
  by (simp add: undisturbed_def same_objects_def set_signatures_def world_simps)

lemma bookkeeping_undisturbed:
  "undisturbed w (register_idle_easy_reference m e w)"
  "undisturbed w (unregister_idle_easy_reference m e w)"
  "undisturbed w (record_native_safety_signature R m e w)"
  "undisturbed w (set_requests m (requests_of m w) w)"
  by (simp_all add: undisturbed_def same_objects_def register_idle_easy_reference_def
      unregister_idle_easy_reference_def record_native_safety_signature_def set_signatures_def
      same_attachment_def world_simps)

lemma Multi_requests_eq: "Multi_requests m w = (Inr (requests_of m w), set_requests m (requests_of m w) w)"
  by (simp add: Multi_requests_def)

lemma same_tables:
  assumes "undisturbed w v"
  shows "requests_of m v = requests_of m w" and "has_request m e v = has_request m e w"
    and "rb_curl_multi_has_easy m e v = rb_curl_multi_has_easy m e w"
    and "multi (rbce_of e v) = multi (rbce_of e w)"
  using assms same_has_easy [of w v]
  by (simp_all add: undisturbed_def same_objects_def has_request_def same_attachment_def)

section \<open>Removing\<close>

lemma attached_in_libcurl:
  assumes "world_ok members w" and "rb_curl_multi_has_easy m e w"
  shows "\<exists>h x S. handle (rbcm_of m w) = Some h \<and> curl (rbce_of e w) = Some x \<and>
           members (lib w) h = Some S \<and> x \<in> S"
proof -
  have "table_ok m w" "members_ok members m w" using assms(1) by (simp_all add: world_ok_def)
  then obtain h S where h: "handle (rbcm_of m w) = Some h" "members (lib w) h = Some S"
    and S: "Some ` S = (\<lambda>e. curl (rbce_of e w)) ` {e. rb_curl_multi_has_easy m e w}"
    using has_easy_multi(2) [OF _ assms(2)] by (auto simp: members_ok_def)
  have "curl (rbce_of e w) \<in> Some ` S" using assms(2) by (simp add: S)
  with h show ?thesis by auto
qed

text \<open>The outcome of a native removal of an attached handle.\<close>

definition removed :: "('l \<Rightarrow> nat \<rightharpoonup> nat set) \<Rightarrow> nat \<Rightarrow> nat \<Rightarrow> 'l world \<Rightarrow> 'l world \<Rightarrow> bool" where
  "removed members m e w v \<longleftrightarrow>
     world_ok members v \<and> same_objects w v \<and> multi (rbce_of e v) = None \<and>
     (\<forall>i. i \<noteq> e \<longrightarrow> multi (rbce_of i v) = multi (rbce_of i w)) \<and>
     (\<forall>n i. rb_curl_multi_has_easy n i v \<longleftrightarrow> rb_curl_multi_has_easy n i w \<and> \<not> (n = m \<and> i = e))"

lemma native_remove_returns:
  assumes lib: "libcurl_multi_ok X members" and removes: "libcurl_removes X members"
    and ok: "world_ok members w" and has: "rb_curl_multi_has_easy m e w"
  shows "\<exists>v. rb_curl_multi_remove X m e w = (Inr (), v) \<and> removed members m e w v"
proof -
  obtain code l where cl: "curl_multi_remove_handle X (handle (rbcm_of m w)) (curl (rbce_of e w)) (lib w)
    = (code, l)" by fastforce
  have "code = 0"
    using attached_in_libcurl [OF ok has] removes cl by (fastforce simp: libcurl_removes_def)
  then obtain v where v: "rb_curl_multi_remove X m e w = (Inr (), v)"
    and eq: "v = rb_curl_multi_forget_easy m e
             (upd_rbce e (\<lambda>r. ruby_curl_easy_cleanup (me_env X) (r\<lparr>multi := None\<rparr>))
               (upd_rbcm m dec_active (w\<lparr>lib := l\<rparr>)))"
    using cl by (simp add: remove_cases)
  note res = remove_attached [OF lib ok has v]
  have step: "detach_step members m e w v" "multi (rbce_of e v) = None" using res(2) by simp_all
  have "same_objects w v"
    by (auto simp: eq same_objects_def world_simps rb_curl_multi_forget_easy_def dec_active_def split: option.split)
  then show ?thesis
    using v res(1) step has_easy_detach [OF step(1)] by (auto simp: removed_def detach_step_def)
qed

lemma ruby_remove_returns:
  assumes "libcurl_multi_ok X members" and "libcurl_removes X members"
    and "world_ok members w" and "rb_curl_multi_has_easy m e w"
  shows "\<exists>v. ruby_curl_multi_remove X m e w = (Inr m, v) \<and> removed members m e w v"
  using native_remove_returns [OF assms] by (auto simp: ruby_curl_multi_remove_def bind_def ret_def)

definition same_flags :: "'l world \<Rightarrow> 'l world \<Rightarrow> bool" where
  "same_flags w v \<longleftrightarrow>
     (\<forall>m. perform_active (rbcm_of m v) = perform_active (rbcm_of m w) \<and>
          multi_callback_active (rbcm_of m v) = multi_callback_active (rbcm_of m w))"

lemma same_flags_refl: "same_flags w w"
  and same_flags_trans: "same_flags w v \<Longrightarrow> same_flags v u \<Longrightarrow> same_flags w u"
  and same_objects_flags: "same_objects w v \<Longrightarrow> same_flags w v"
  and undisturbed_flags: "undisturbed w v \<Longrightarrow> same_flags w v"
  by (simp_all add: same_flags_def same_objects_def undisturbed_def)

text \<open>The outcome of the Ruby method: the same, for a handle that may not be there.\<close>

definition let_go :: "('l \<Rightarrow> nat \<rightharpoonup> nat set) \<Rightarrow> nat \<Rightarrow> nat \<Rightarrow> 'l world \<Rightarrow> 'l world \<Rightarrow> bool" where
  "let_go members m e w v \<longleftrightarrow>
     layers_agree members v \<and> same_flags w v \<and>
     multi (rbce_of e v) = (if rb_curl_multi_has_easy m e w then None else multi (rbce_of e w)) \<and>
     (\<forall>i. i \<noteq> e \<longrightarrow> multi (rbce_of i v) = multi (rbce_of i w)) \<and>
     (\<forall>n i. rb_curl_multi_has_easy n i v \<longleftrightarrow> rb_curl_multi_has_easy n i w \<and> \<not> (n = m \<and> i = e))"

lemma agreeD:
  assumes "layers_agree members w"
  shows "world_ok members w" and "request_table_ok m w"
    and "st_lookup (requests_of m w) e \<noteq> None \<longleftrightarrow> rb_curl_multi_has_easy m e w"
  using assms by (simp_all add: layers_agree_def has_request_def)

lemma st_delete_subset: "set (st_delete t k) \<subseteq> set t"
  by (auto simp: st_delete_def)

lemma st_insert_subset: "set (st_insert t k v) \<subseteq> insert (k, v) (set t)"
  by (induction t k v rule: st_insert.induct) auto

lemma request_table_delete:
  assumes "request_table_ok m w" and "requests_of m v = st_delete (requests_of m w) e"
  shows "request_table_ok m v"
  using assms st_delete_subset [of "requests_of m w" e] by (auto simp: request_table_ok_def st_simps)

lemma request_table_insert:
  assumes "request_table_ok m w" and "requests_of m v = st_insert (requests_of m w) e e"
  shows "request_table_ok m v"
  using assms st_insert_subset [of "requests_of m w" e e] by (fastforce simp: request_table_ok_def st_simps)

lemma forget_request_reads:
  "same_attachment w (forget_request m e w)"
  "requests_of n (forget_request m e w) = (if n = m then st_delete (requests_of m w) e else requests_of n w)"
  "same_flags w (forget_request m e w)"
  by (simp_all add: forget_request_def Let_def set_signatures_def same_attachment_def same_flags_def world_simps)

text \<open>Dropping the request and then removing the handle, which Ruby and C do each in its way.\<close>

lemma drop_and_remove:
  assumes lib: "libcurl_multi_ok X members" and removes: "libcurl_removes X members"
    and agree: "layers_agree members w" and has: "rb_curl_multi_has_easy m e w" and same: "same_attachment w u"
    and rq: "\<And>n. requests_of n u = (if n = m then st_delete (requests_of m w) e else requests_of n w)"
  shows "\<exists>v. rb_curl_multi_remove X m e u = (Inr (), v) \<and> layers_agree members v \<and> removed members m e u v"
proof -
  note has_u = same_has_easy [OF same]
  obtain v where v: "rb_curl_multi_remove X m e u = (Inr (), v)" and rem: "removed members m e u v"
    using native_remove_returns [OF lib removes world_ok_same [OF same agreeD(1) [OF agree]]] has has_u by blast
  have rv: "requests_of n v = (if n = m then st_delete (requests_of m w) e else requests_of n w)" for n
    using rem rq by (simp add: removed_def same_objects_def)
  have "request_table_ok n v" for n
    using request_table_delete [OF agreeD(2) [OF agree], of m v e] agreeD(2) [OF agree, of n] rv
    by (cases "n = m") (simp_all add: request_table_ok_def)
  moreover have "has_request n i v \<longleftrightarrow> rb_curl_multi_has_easy n i v" for n i
    using agreeD(3) [OF agree, of n i] rem has_u by (auto simp: has_request_def rv st_simps removed_def)
  ultimately show ?thesis using v rem by (simp add: layers_agree_def removed_def)
qed

lemma Multi_remove_lets_go:
  assumes lib: "libcurl_multi_ok (native R) members" and removes: "libcurl_removes (native R) members"
    and agree: "layers_agree members w"
  shows "\<exists>v. Multi_remove R m e w = (Inr m, v) \<and> let_go members m e w v"
proof -
  let ?w1 = "set_requests m (requests_of m w) w" and ?w2 = "forget_request m e (set_requests m (requests_of m w) w)"
  have u1: "undisturbed w ?w1" by (rule bookkeeping_undisturbed)
  note [simp] = same_tables [OF u1]
  have start: "Multi_remove R m e w =
     (if st_lookup (requests_of m w) e = None then ret m
      else bind (modify (forget_request m e)) (\<lambda>_. ruby_curl_multi_remove (native R) m e)) ?w1"
    by (simp add: Multi_remove_def bind_def [of "Multi_requests m"] Multi_requests_eq)
  show ?thesis
  proof (cases "rb_curl_multi_has_easy m e w")
    case False
    then have "Multi_remove R m e w = (Inr m, ?w1)"
      using start agreeD(3) [OF agree, of m e] by (simp add: ret_def)
    then show ?thesis
      using False agree_undisturbed [OF agree u1] undisturbed_flags [OF u1] by (auto simp: let_go_def)
  next
    case True
    have same: "same_attachment w ?w2"
      by (rule same_attachment_trans [OF _ forget_request_reads(1)]) (use u1 in \<open>simp add: undisturbed_def\<close>)
    have rq: "requests_of n ?w2 = (if n = m then st_delete (requests_of m w) e else requests_of n w)" for n
      by (simp add: forget_request_reads)
    obtain v where v: "rb_curl_multi_remove (native R) m e ?w2 = (Inr (), v)"
      and agree2: "layers_agree members v" and rem: "removed members m e ?w2 v"
      using drop_and_remove [OF lib removes agree True same rq] by blast
    have "ruby_curl_multi_remove (native R) m e ?w2 = (Inr m, v)"
      using v by (simp add: ruby_curl_multi_remove_def bind_def ret_def)
    then have run: "Multi_remove R m e w = (Inr m, v)"
      using start True agreeD(3) [OF agree, of m e] by (auto simp: bind_modify)
    have "same_objects ?w2 v" using rem by (simp add: removed_def)
    from same_flags_trans [OF same_flags_trans [OF undisturbed_flags [OF u1] forget_request_reads(3)]
        same_objects_flags [OF this]]
    have "same_flags w v" .
    moreover have "multi (rbce_of i v) = (if i = e then None else multi (rbce_of i w))" for i
      using rem same_attachmentD(3) [OF same, of i] by (auto simp: removed_def)
    ultimately show ?thesis
      using run True agree2 rem same_has_easy [OF same] by (simp add: let_go_def removed_def)
  qed
qed

section \<open>Methods that keep the agreement\<close>

text \<open>Beside the agreement, multi handles that are not inside \<open>perform\<close> or a callback stay so.\<close>

definition quiet :: "nat \<Rightarrow> 'l world \<Rightarrow> bool" where
  "quiet m w \<longleftrightarrow> \<not> perform_active (rbcm_of m w) \<and> \<not> multi_callback_active (rbcm_of m w)"

definition orderly :: "('l \<Rightarrow> nat \<rightharpoonup> nat set) \<Rightarrow> nat set \<Rightarrow> 'l world \<Rightarrow> bool" where
  "orderly members Q w \<longleftrightarrow> layers_agree members w \<and> (\<forall>m \<in> Q. quiet m w)"

definition agrees :: "('l \<Rightarrow> nat \<rightharpoonup> nat set) \<Rightarrow> nat set \<Rightarrow> ('l, 'a) mcmd \<Rightarrow> bool" where
  "agrees members Q c = exits (orderly members Q) c (orderly members Q)"

named_theorems agree_intros \<open>introduction rules of \<open>agrees\<close>\<close>

lemma agreesD: "agrees members Q c \<Longrightarrow> orderly members Q w \<Longrightarrow> orderly members Q (snd (c w))"
  by (simp add: agrees_def exits_def)

lemma agreesI: "(\<And>w. orderly members Q w \<Longrightarrow> orderly members Q (snd (c w))) \<Longrightarrow> agrees members Q c"
  by (simp add: agrees_def exits_def)

lemma orderly_flags:
  "orderly members Q w \<Longrightarrow> layers_agree members v \<Longrightarrow> same_flags w v \<Longrightarrow> orderly members Q v"
  by (simp add: orderly_def same_flags_def quiet_def)

lemma orderly_undisturbed: "orderly members Q w \<Longrightarrow> undisturbed w v \<Longrightarrow> orderly members Q v"
  using agree_undisturbed [of members w v] undisturbed_flags [of w v]
  by (simp add: orderly_def same_flags_def quiet_def)

lemma agrees_bind [agree_intros]:
  "agrees members Q c \<Longrightarrow> (\<And>a. agrees members Q (f a)) \<Longrightarrow> agrees members Q (bind c f)"
  unfolding agrees_def by (rule exits_bind)

lemma agrees_undisturbed: "keeps undisturbed c \<Longrightarrow> agrees members Q c"
  by (rule agreesI) (rule orderly_undisturbed, assumption, rule keepsD)

lemma agrees_modify: "(\<And>w. undisturbed w (f w)) \<Longrightarrow> agrees members Q (modify f)"
  by (rule agrees_undisturbed) (simp add: keeps_def modify_def)

lemma agrees_pure [agree_intros]:
  "agrees members Q (ret a)" "agrees members Q (rb_exc_raise x)" "agrees members Q (rb_raise k y)"
  "agrees members Q (raise_multi X code)" "agrees members Q (Multi_requests m)"
  by (rule agrees_undisturbed,
      simp add: keeps_def cmd_defs raise_multi_def undisturbed_refl Multi_requests_eq bookkeeping_undisturbed)+

lemma agrees_if [agree_intros]:
  "(b \<Longrightarrow> agrees members Q c) \<Longrightarrow> (\<not> b \<Longrightarrow> agrees members Q d) \<Longrightarrow> agrees members Q (if b then c else d)"
  by simp

lemma agrees_each [agree_intros]: "(\<And>e. agrees members Q (f e)) \<Longrightarrow> agrees members Q (each_value f es)"
  by (induction es) (simp_all add: agrees_pure agrees_bind)

lemma agrees_rescue [agree_intros]:
  assumes "agrees members Q c" and "\<And>x. agrees members Q (h x)"
  shows "agrees members Q (rb_rescue c h)"
proof (rule agreesI)
  fix w assume ok: "orderly members Q w"
  obtain r v where v: "c w = (r, v)" by fastforce
  then have "orderly members Q v" using agreesD [OF assms(1) ok] by simp
  then show "orderly members Q (snd (rb_rescue c h w))"
    using v agreesD [OF assms(2)] by (simp add: rb_rescue_def split: sum.split)
qed

lemma Multi_remove_agrees:
  assumes "libcurl_multi_ok (native R) members" and "libcurl_removes (native R) members"
  shows "agrees members Q (Multi_remove R m e)"
proof (rule agreesI)
  fix w assume ok: "orderly members Q w"
  then have "layers_agree members w" by (simp add: orderly_def)
  from Multi_remove_lets_go [OF assms this, of m e]
  obtain v where "Multi_remove R m e w = (Inr m, v)" "let_go members m e w v" by blast
  then show "orderly members Q (snd (Multi_remove R m e w))"
    using orderly_flags [OF ok] by (simp add: let_go_def)
qed

lemma Multi_cancel_agrees:
  assumes "libcurl_multi_ok (native R) members" and "libcurl_removes (native R) members"
  shows "agrees members Q (Multi_cancel R m)"
  unfolding Multi_cancel_def by (intro agree_intros Multi_remove_agrees [OF assms])

section \<open>Adding\<close>

lemma ensure_handle_tables:
  "requests_of n (snd (ruby_curl_multi_ensure_handle X m w)) = requests_of n w"
  "quiet n w \<Longrightarrow> quiet n (snd (ruby_curl_multi_ensure_handle X m w))"
  by (simp_all add: ruby_curl_multi_ensure_handle_def ruby_curl_multi_init_def raise_multi_def bind_def
      on_lib_eq cmd_defs quiet_def world_simps)
    (auto simp: quiet_def)

lemma native_add_tables:
  assumes "ruby_curl_multi_add X m e w = (r, v)"
  shows "requests_of n v = requests_of n w" and "quiet n w \<Longrightarrow> quiet n v"
proof -
  obtain r0 w0 where e0: "ruby_curl_multi_ensure_handle X m w = (r0, w0)" by fastforce
  note before = ensure_handle_tables [where n = n and X = X and m = m and w = w, unfolded e0 snd_conv]
  have after: "requests_of n (after_setup X e w0) = requests_of n w0"
    "quiet n (after_setup X e w0) = quiet n w0"
    "requests_of n (attach_easy m e l (after_setup X e w0)) = requests_of n w0"
    "quiet n (attach_easy m e l (after_setup X e w0)) = quiet n w0"
    "requests_of n (upd_rbce e f ((after_setup X e w0)\<lparr>lib := l\<rparr>)) = requests_of n w0"
    "quiet n (upd_rbce e f ((after_setup X e w0)\<lparr>lib := l\<rparr>)) = quiet n w0" for l f
    by (simp_all add: after_setup_def attach_easy_def quiet_def world_simps split: option.split)
  show "requests_of n v = requests_of n w" "quiet n w \<Longrightarrow> quiet n v"
    using assms [unfolded add_cases [OF e0]] before after
    by (auto simp: Let_def split: sum.splits if_splits prod.splits)
qed

lemma Multi_add_agrees:
  assumes lib: "libcurl_multi_ok (native R) members" and ruby: "ruby_ok R"
  shows "agrees members Q (Multi_add R m e)"
proof (rule agreesI)
  fix w assume start: "orderly members Q w"
  let ?w1 = "set_requests m (requests_of m w) w"
  have o1: "orderly members Q ?w1" by (rule orderly_undisturbed [OF start bookkeeping_undisturbed(4)])
  obtain r2 w2 where safety: "apply_safety R e ?w1 = (r2, w2)" by fastforce
  have "keeps undisturbed (apply_safety R e)" using ruby by (simp add: ruby_ok_def)
  from keepsD [OF this, of ?w1] have o2: "orderly members Q w2" using orderly_undisturbed [OF o1] safety by simp
  then have ok2: "world_ok members w2" by (simp add: orderly_def layers_agree_def)
  obtain r3 w3 where add: "ruby_curl_multi_add (native R) m e w2 = (r3, w3)" by fastforce
  note res = add_result [OF lib ok2 add] and tables = native_add_tables [OF add]
  have fail: "orderly members Q w3" if "r3 = Inl x" for x
    using o2 res(1) res(3) [OF that] tables
    by (simp add: orderly_def layers_agree_def request_table_ok_def has_request_def)
  let ?w4 = "unregister_idle_easy_reference m e w3"
  let ?w5 = "set_requests m (st_insert (requests_of m ?w4) e e) ?w4"
  have success: "orderly members Q ?w5" if r: "r3 = Inr k" for k
  proof -
    have rq: "requests_of n ?w5 = (if n = m then st_insert (requests_of m w2) e e else requests_of n w2)" for n
      using same_tables(1) [OF bookkeeping_undisturbed(2), of _ m e w3] tables by (simp add: world_simps)
    have same: "same_attachment w3 ?w5"
      by (simp add: same_attachment_def unregister_idle_easy_reference_def world_simps)
    have "request_table_ok n ?w5" for n
      using o2 request_table_insert [of m w2 ?w5 e] rq
      by (cases "n = m") (auto simp: orderly_def layers_agree_def request_table_ok_def)
    moreover have "has_request n i ?w5 = rb_curl_multi_has_easy n i ?w5" for n i
      using o2 res(2) [OF r] same_has_easy [OF same]
      by (simp add: has_request_def rq st_simps orderly_def layers_agree_def)
    moreover have "quiet n ?w5" if "n \<in> Q" for n
      using that o2 tables by (simp add: orderly_def quiet_def unregister_idle_easy_reference_def world_simps)
    ultimately show ?thesis
      using world_ok_same [OF same res(1)] by (simp add: orderly_def layers_agree_def)
  qed
  have "Multi_add R m e w =
     (if st_lookup (requests_of m w) e \<noteq> None \<or> deferred_exception (multis ?w1 m) \<noteq> None then (Inr m, ?w1)
      else case r2 of Inl x \<Rightarrow> (Inl x, w2)
        | Inr _ \<Rightarrow> case r3 of Inl x \<Rightarrow> (Inl x, w3)
            | Inr _ \<Rightarrow> (Inr m, record_native_safety_signature R m e ?w5))"
    using safety add
    by (simp add: Multi_add_def bind_def Multi_requests_eq modify_def ret_def split: sum.split)
  then show "orderly members Q (snd (Multi_add R m e w))"
    using o1 o2 fail orderly_undisturbed [OF success bookkeeping_undisturbed(3)] by (auto split: sum.split)
qed

section \<open>Moving between multi handles\<close>

text \<open>At most the \<open>multi\<close> reference of one unattached easy handle has changed.\<close>

definition moved :: "('l \<Rightarrow> nat \<rightharpoonup> nat set) \<Rightarrow> nat \<Rightarrow> 'l world \<Rightarrow> 'l world \<Rightarrow> bool" where
  "moved members e w v \<longleftrightarrow>
     world_ok members v \<and> same_objects w v \<and>
     (\<forall>n i. rb_curl_multi_has_easy n i v = rb_curl_multi_has_easy n i w) \<and>
     (\<forall>i. i \<noteq> e \<longrightarrow> multi (rbce_of i v) = multi (rbce_of i w))"

lemma moved_undisturbed: "moved members e w u \<Longrightarrow> undisturbed u v \<Longrightarrow> moved members e w v"
  using world_ok_same [of u v members] same_tables(3,4) [of u v] same_objects_trans [of w u v]
  by (simp add: moved_def undisturbed_def)

lemma undisturbed_moved: "undisturbed w u \<Longrightarrow> moved members e u v \<Longrightarrow> moved members e w v"
  using same_tables(3,4) [of w u] same_objects_trans [of w u v] by (simp add: moved_def undisturbed_def)

lemma native_multi_set_moves:
  assumes ok: "world_ok members w" and free: "\<And>n. \<not> rb_curl_multi_has_easy n e w"
    and run: "ruby_curl_easy_multi_set X new_multi e w = (r, v)"
  shows "moved members e w v \<and> (case new_multi of Inl y \<Rightarrow> isl r | Inr k \<Rightarrow> r = Inr k \<and> multi (rbce_of e v) = k)"
proof -
  have detach: "rb_curl_multi_detach_easy X n e w = (Inr 0, w)" for n
    using free [of n] by (simp add: rb_curl_multi_detach_easy_def rb_curl_multi_has_easy_def split: option.splits)
  have here: "moved members e w w"
    using ok by (simp add: moved_def same_objects_refl)
  have moves: "moved members e w (upd_rbce e (\<lambda>r. r\<lparr>multi := k\<rparr>) w)" for k
    using clear_multi_ok [OF ok free]
    by (simp add: moved_def same_objects_def world_simps rb_curl_multi_has_easy_def)
  show ?thesis
    using run here moves detach
    by (auto simp: ruby_curl_easy_multi_set_def Let_def bind_def cmd_defs world_simps
        split: sum.splits option.splits if_splits)
qed

text \<open>The part of \<open>multi=\<close> after the handle has left its previous multi handle.\<close>

lemma set_multi_moves:
  assumes ok: "world_ok members w" and free: "\<And>n. \<not> rb_curl_multi_has_easy n e w"
    and run: "bind (ruby_curl_easy_multi_set X new_multi e) (\<lambda>result.
        bind (modify (case previous of None \<Rightarrow> id | Some p \<Rightarrow> unregister_idle_easy_reference p e)) (\<lambda>_.
        bind (modify (case result of None \<Rightarrow> id | Some m \<Rightarrow> register_idle_easy_reference m e)) (\<lambda>_.
        ret result))) w = (r, v)"
  shows "moved members e w v \<and> (case new_multi of Inl y \<Rightarrow> isl r | Inr k \<Rightarrow> r = Inr k \<and> multi (rbce_of e v) = k)"
proof -
  obtain r1 w1 where set: "ruby_curl_easy_multi_set X new_multi e w = (r1, w1)" by fastforce
  note res = native_multi_set_moves [OF ok free set]
  have late: "undisturbed u ((case q of None \<Rightarrow> id | Some p \<Rightarrow> register_idle_easy_reference p e)
      ((case previous of None \<Rightarrow> id | Some p \<Rightarrow> unregister_idle_easy_reference p e) u))" for q u
    using bookkeeping_undisturbed(1,2) undisturbed_trans undisturbed_refl
    by (simp split: option.split) blast
  show ?thesis
  proof (cases r1)
    case (Inl x)
    then show ?thesis using run set res by (auto simp: bind_def split: sum.splits)
  next
    case (Inr k)
    then have v: "r = Inr k" "v = (case k of None \<Rightarrow> id | Some p \<Rightarrow> register_idle_easy_reference p e)
      ((case previous of None \<Rightarrow> id | Some p \<Rightarrow> unregister_idle_easy_reference p e) w1)"
      using run set by (simp_all add: bind_def modify_def ret_def)
    show ?thesis
      using res Inr moved_undisturbed [OF _ late] same_tables(4) [OF late, of e k w1]
      by (auto simp: v split: sum.splits)
  qed
qed

lemma orderly_moved: "orderly members Q w \<Longrightarrow> moved members e w v \<Longrightarrow> orderly members Q v"
  by (simp add: orderly_def layers_agree_def moved_def same_objects_def request_table_ok_def
      has_request_def quiet_def)

lemma attached_multi:
  "world_ok members w \<Longrightarrow> rb_curl_multi_has_easy n e w \<Longrightarrow> multi (rbce_of e w) = Some n"
  using has_easy_multi(1) [of n w e] by (simp add: world_ok_def)

lemma Easy_multi_set_cases:
  "Easy_multi_set R new_multi e w =
     (if new_multi = Inr (multi (rbce_of e w)) then (Inr (multi (rbce_of e w)), w)
      else bind (leave_previous_multi R (multi (rbce_of e w)) e) (\<lambda>_.
        bind (ruby_curl_easy_multi_set (native R) new_multi e) (\<lambda>result.
        bind (modify (case multi (rbce_of e w) of None \<Rightarrow> id | Some p \<Rightarrow> unregister_idle_easy_reference p e)) (\<lambda>_.
        bind (modify (case result of None \<Rightarrow> id | Some m \<Rightarrow> register_idle_easy_reference m e)) (\<lambda>_.
        ret result)))) w)"
  by (simp add: Easy_multi_set_def Let_def)

lemma Easy_multi_set_moves:
  assumes ok: "world_ok members w" and free: "\<And>n. \<not> rb_curl_multi_has_easy n e w"
    and request: "\<And>p. multi (rbce_of e w) = Some p \<Longrightarrow> \<not> has_request p e w"
    and run: "Easy_multi_set R new_multi e w = (r, v)"
  shows "moved members e w v \<and> (case new_multi of Inl y \<Rightarrow> isl r | Inr k \<Rightarrow> r = Inr k \<and> multi (rbce_of e v) = k)"
proof (cases "new_multi = Inr (multi (rbce_of e w))")
  case True
  then show ?thesis using run ok by (auto simp: Easy_multi_set_cases moved_def same_objects_refl)
next
  case False
  let ?previous = "multi (rbce_of e w)"
  obtain w1 where w1: "leave_previous_multi R ?previous e w = (Inr (), w1)" and u: "undisturbed w w1"
    using request undisturbed_refl bookkeeping_undisturbed(4)
    by (cases ?previous) (auto simp: leave_previous_multi_def ret_def bind_def Multi_requests_eq has_request_def)
  have "world_ok members w1" "\<And>n. \<not> rb_curl_multi_has_easy n e w1"
    using u world_ok_same [OF _ ok] same_tables(3) [OF u] free by (simp_all add: undisturbed_def)
  from set_multi_moves [OF this, of "native R" new_multi ?previous r v] show ?thesis
    using run False w1 undisturbed_moved [OF u]
    by (simp add: Easy_multi_set_cases bind_def [of "leave_previous_multi R ?previous e"])
qed

lemma leave_previous_orderly:
  assumes "libcurl_multi_ok (native R) members" and "libcurl_removes (native R) members"
    and start: "orderly members Q w"
  shows "\<exists>w1. leave_previous_multi R (multi (rbce_of e w)) e w = (Inr (), w1) \<and> orderly members Q w1 \<and>
    (\<forall>n. \<not> rb_curl_multi_has_easy n e w1) \<and>
    (\<forall>n i. rb_curl_multi_has_easy n i w1 \<longrightarrow> rb_curl_multi_has_easy n i w) \<and>
    (\<forall>i. i \<noteq> e \<longrightarrow> multi (rbce_of i w1) = multi (rbce_of i w))"
proof -
  have agree: "layers_agree members w" using start by (simp add: orderly_def)
  note only = attached_multi [OF agreeD(1) [OF agree], of _ e]
  show ?thesis
  proof (cases "multi (rbce_of e w)")
    case None
    then show ?thesis using start only by (auto simp: leave_previous_multi_def ret_def)
  next
    case (Some p)
    let ?w0 = "set_requests p (requests_of p w) w"
    have u: "undisturbed w ?w0" by (rule bookkeeping_undisturbed)
    have o0: "orderly members Q ?w0" by (rule orderly_undisturbed [OF start u])
    have a0: "layers_agree members ?w0" using o0 by (simp add: orderly_def)
    obtain v where v: "Multi_remove R p e ?w0 = (Inr p, v)" and gone: "let_go members p e ?w0 v"
      using Multi_remove_lets_go [OF assms(1,2) a0] by blast
    have ov: "orderly members Q v" using orderly_flags [OF o0] gone by (simp add: let_go_def)
    have run: "leave_previous_multi R (Some p) e w = (if rb_curl_multi_has_easy p e w then (Inr (), v) else (Inr (), ?w0))"
      using v agreeD(3) [OF agree, of p e]
      by (auto simp: leave_previous_multi_def bind_def Multi_requests_eq ret_def)
    note same = same_tables(3,4) [OF u]
    show ?thesis
    proof (cases "rb_curl_multi_has_easy p e w")
      case True
      then have "\<forall>n. \<not> rb_curl_multi_has_easy n e v"
        using gone only [of p] only by (simp add: let_go_def same) (metis option.inject)
      moreover have "\<forall>n i. rb_curl_multi_has_easy n i v \<longrightarrow> rb_curl_multi_has_easy n i w"
        "\<forall>i. i \<noteq> e \<longrightarrow> multi (rbce_of i v) = multi (rbce_of i w)"
        using gone by (simp_all add: let_go_def same)
      ultimately show ?thesis using run [unfolded if_P [OF True]] ov unfolding Some by blast
    next
      case False
      then have "\<forall>n. \<not> rb_curl_multi_has_easy n e ?w0"
        using only Some by (simp add: same) (metis option.inject)
      moreover have "\<forall>n i. rb_curl_multi_has_easy n i ?w0 \<longrightarrow> rb_curl_multi_has_easy n i w"
        "\<forall>i. i \<noteq> e \<longrightarrow> multi (rbce_of i ?w0) = multi (rbce_of i w)"
        by (simp_all add: same)
      ultimately show ?thesis using run [unfolded if_not_P [OF False]] o0 unfolding Some by blast
    qed
  qed
qed

lemma Easy_multi_set_orderly:
  assumes lib: "libcurl_multi_ok (native R) members" and removes: "libcurl_removes (native R) members"
    and start: "orderly members Q w" and run: "Easy_multi_set R new_multi e w = (r, v)"
  shows "orderly members Q v \<and> (\<forall>n i. rb_curl_multi_has_easy n i v \<longrightarrow> rb_curl_multi_has_easy n i w) \<and>
    (case new_multi of Inl y \<Rightarrow> isl r | Inr k \<Rightarrow> r = Inr k \<and> multi (rbce_of e v) = k)"
proof (cases "new_multi = Inr (multi (rbce_of e w))")
  case True
  then show ?thesis using run start by (auto simp: Easy_multi_set_cases)
next
  case False
  obtain w1 where w1: "leave_previous_multi R (multi (rbce_of e w)) e w = (Inr (), w1)" "orderly members Q w1"
    "\<And>n. \<not> rb_curl_multi_has_easy n e w1"
    "\<And>n i. rb_curl_multi_has_easy n i w1 \<Longrightarrow> rb_curl_multi_has_easy n i w"
    using leave_previous_orderly [OF lib removes start, of e] by blast
  have ok1: "world_ok members w1" using w1(2) by (simp add: orderly_def layers_agree_def)
  have "moved members e w1 v \<and> (case new_multi of Inl y \<Rightarrow> isl r | Inr k \<Rightarrow> r = Inr k \<and> multi (rbce_of e v) = k)"
    by (rule set_multi_moves [OF ok1 w1(3), of "native R" new_multi "multi (rbce_of e w)"])
      (use run False w1(1) in \<open>simp add: Easy_multi_set_cases bind_def [of "leave_previous_multi R p e" for p]\<close>)
  then show ?thesis using orderly_moved [OF w1(2)] w1(4) by (auto simp: moved_def)
qed

lemma Easy_multi_set_agrees:
  assumes "libcurl_multi_ok (native R) members" and "libcurl_removes (native R) members"
  shows "agrees members Q (Easy_multi_set R new_multi e)"
proof (rule agreesI)
  fix w assume start: "orderly members Q w"
  obtain r v where v: "Easy_multi_set R new_multi e w = (r, v)" by fastforce
  show "orderly members Q (snd (Easy_multi_set R new_multi e w))"
    using Easy_multi_set_orderly [OF assms start v] v by simp
qed

section \<open>Closing\<close>

lemma each_removed:
  assumes lib: "libcurl_multi_ok X members" and removes: "libcurl_removes X members"
  shows "world_ok members w \<Longrightarrow> distinct es \<Longrightarrow> \<forall>e \<in> set es. rb_curl_multi_has_easy m e w \<Longrightarrow>
    \<exists>v. each_value (ruby_curl_multi_remove X m) es w = (Inr (), v) \<and> world_ok members v \<and> same_objects w v \<and>
      (\<forall>n i. rb_curl_multi_has_easy n i v \<longleftrightarrow> rb_curl_multi_has_easy n i w \<and> \<not> (n = m \<and> i \<in> set es)) \<and>
      (\<forall>i. multi (rbce_of i v) = (if i \<in> set es then None else multi (rbce_of i w)))"
proof (induction es arbitrary: w)
  case Nil
  then show ?case by (simp add: ret_def same_objects_refl)
next
  case (Cons e es)
  obtain u where u: "ruby_curl_multi_remove X m e w = (Inr m, u)" and rem: "removed members m e w u"
    using ruby_remove_returns [OF lib removes Cons.prems(1), of m e] Cons.prems(3) by auto
  have "world_ok members u" "\<forall>i \<in> set es. rb_curl_multi_has_easy m i u"
    using rem Cons.prems(2,3) by (auto simp: removed_def)
  from Cons.IH [OF this(1) _ this(2)] Cons.prems(2)
  obtain v where v: "each_value (ruby_curl_multi_remove X m) es u = (Inr (), v)" "world_ok members v"
    "same_objects u v"
    "\<And>n i. rb_curl_multi_has_easy n i v \<longleftrightarrow> rb_curl_multi_has_easy n i u \<and> \<not> (n = m \<and> i \<in> set es)"
    "\<And>i. multi (rbce_of i v) = (if i \<in> set es then None else multi (rbce_of i u))" by auto
  have "each_value (ruby_curl_multi_remove X m) (e # es) w = (Inr (), v)" using u v(1) by (simp add: bind_def)
  moreover have "same_objects w v" using same_objects_trans [OF _ v(3)] rem by (simp add: removed_def)
  ultimately show ?case using rem v(2,4,5) by (intro exI [of _ v]) (auto simp: removed_def)
qed

text \<open>Nothing is attached to the multi handle any more; its table of requests still names handles, none
  of which refers to it.\<close>

definition emptied :: "('l \<Rightarrow> nat \<rightharpoonup> nat set) \<Rightarrow> nat set \<Rightarrow> nat \<Rightarrow> 'l world \<Rightarrow> bool" where
  "emptied members Q m w \<longleftrightarrow>
     world_ok members w \<and> (\<forall>n. request_table_ok n w) \<and>
     (\<forall>n e. n \<noteq> m \<longrightarrow> has_request n e w = rb_curl_multi_has_easy n e w) \<and>
     (\<forall>e. \<not> rb_curl_multi_has_easy m e w) \<and>
     (\<forall>e. has_request m e w \<longrightarrow> multi (rbce_of e w) \<noteq> Some m) \<and> (\<forall>n \<in> Q. quiet n w)"

lemma emptied_same:
  assumes "emptied members Q m w" and "world_ok members v" and "same_objects w v"
    and "\<And>n i. rb_curl_multi_has_easy n i v = rb_curl_multi_has_easy n i w"
    and "\<And>i. has_request m i w \<Longrightarrow> multi (rbce_of i w) \<noteq> Some m \<Longrightarrow> multi (rbce_of i v) \<noteq> Some m"
  shows "emptied members Q m v"
  using assms
  by (simp add: emptied_def same_objects_def request_table_ok_def has_request_def quiet_def)

lemma emptied_undisturbed: "emptied members Q m w \<Longrightarrow> undisturbed w v \<Longrightarrow> emptied members Q m v"
  using emptied_same [of members Q m w v] world_ok_same [of w v members] same_tables(3,4) [of w v]
  by (simp add: emptied_def undisturbed_def)

lemma release_idle_emptied:
  assumes start: "emptied members Q m w"
  shows "\<exists>v. release_idle_reference R m e w = (Inr (), v) \<and> emptied members Q m v \<and>
    (\<forall>n i. rb_curl_multi_has_easy n i v = rb_curl_multi_has_easy n i w)"
proof (cases "multi (rbce_of e w) = Some m")
  case False
  then show ?thesis using start by (simp add: release_idle_reference_def)
next
  case True
  have ok: "world_ok members w" using start by (simp add: emptied_def)
  have free: "\<not> rb_curl_multi_has_easy n e w" for n
    using attached_multi [OF ok, of n e] True start by (auto simp: emptied_def)
  obtain r v where v: "Easy_multi_set R (Inr None) e w = (r, v)" by fastforce
  have mv: "moved members e w v" "r = Inr None" "multi (rbce_of e v) = None"
    using Easy_multi_set_moves [OF ok free _ v] True start by (auto simp: emptied_def)
  have refers: "multi (rbce_of i v) = (if i = e then None else multi (rbce_of i w))" for i
    using mv by (simp add: moved_def)
  have "emptied members Q m v"
    by (rule emptied_same [OF start]) (use mv(1) in \<open>simp_all add: moved_def refers\<close>)
  then show ?thesis
    using v mv True by (simp add: release_idle_reference_def bind_def ret_def moved_def)
qed

lemma each_idle_emptied:
  "emptied members Q m w \<Longrightarrow>
   \<exists>v. each_value (release_idle_reference R m) es w = (Inr (), v) \<and> emptied members Q m v \<and>
     (\<forall>n i. rb_curl_multi_has_easy n i v = rb_curl_multi_has_easy n i w)"
proof (induction es arbitrary: w)
  case Nil
  then show ?case by (simp add: ret_def)
next
  case (Cons e es)
  obtain u where u: "release_idle_reference R m e w = (Inr (), u)" "emptied members Q m u"
    "\<And>n i. rb_curl_multi_has_easy n i u = rb_curl_multi_has_easy n i w"
    using release_idle_emptied [OF Cons.prems] by blast
  show ?case using Cons.IH [OF u(2)] u(1,3) by (auto simp: bind_def)
qed

lemma clear_idle_emptied:
  assumes start: "emptied members Q m w"
  shows "\<exists>v. clear_idle_easy_references R m w = (Inr (), v) \<and> emptied members Q m v \<and>
     (\<forall>n i. rb_curl_multi_has_easy n i v = rb_curl_multi_has_easy n i w)"
proof (cases "idle_easy_references (multis w m)")
  case None
  then show ?thesis using start by (simp add: clear_idle_easy_references_def)
next
  case (Some es)
  obtain u where u: "each_value (release_idle_reference R m) es w = (Inr (), u)" "emptied members Q m u"
    "\<And>n i. rb_curl_multi_has_easy n i u = rb_curl_multi_has_easy n i w"
    using each_idle_emptied [OF start] by blast
  have same: "undisturbed u (upd_object m (\<lambda>ob. ob\<lparr>idle_easy_references := Some []\<rparr>) u)"
    by (simp add: undisturbed_def same_objects_def same_attachment_def world_simps)
  show ?thesis
    using Some u emptied_undisturbed [OF u(2) same] same_tables(3) [OF same]
    by (simp add: clear_idle_easy_references_def bind_def modify_def)
qed

lemma emptied_orderly:
  assumes "emptied members Q m w"
  shows "orderly members Q (set_requests m st_init_numtable w)"
proof -
  let ?v = "set_requests m st_init_numtable w"
  have same: "same_attachment w ?v" by (simp add: same_attachment_def world_simps)
  have "world_ok members w" using assms by (simp add: emptied_def)
  moreover have "request_table_ok n ?v" for n
    using assms by (simp add: emptied_def request_table_ok_def world_simps st_simps)
      (simp add: st_init_numtable_def)
  ultimately show ?thesis
    using assms world_ok_same [OF same] same_has_easy [OF same]
    by (auto simp: orderly_def layers_agree_def emptied_def has_request_def quiet_def world_simps st_simps)
qed

lemma quiet_upd:
  "(\<And>c. perform_active (g c) = perform_active c \<and> multi_callback_active (g c) = multi_callback_active c) \<Longrightarrow>
     quiet n (upd_rbcm m g w) = quiet n w"
  "quiet n (w\<lparr>lib := l\<rparr>) = quiet n w"
  "(\<And>ob. rbcm (h ob) = rbcm ob) \<Longrightarrow> quiet n (upd_object m h w) = quiet n w"
  by (simp_all add: quiet_def world_simps)

lemma detach_entries_tables:
  "requests_of n (foldl (\<lambda>v p. detach_easy_entry X m (snd p) v) w t) = requests_of n w"
  "quiet n (foldl (\<lambda>v p. detach_easy_entry X m (snd p) v) w t) = quiet n w"
  by (simp_all add: requests_of_def quiet_def rbcm_of_def detach_entries(2) [OF refl])

lemma detach_all_tables:
  "requests_of n (rb_curl_multi_detach_all X m w) = requests_of n w"
  "quiet n (rb_curl_multi_detach_all X m w) = quiet n w"
  by (simp_all add: rb_curl_multi_detach_all_def detach_entries_tables world_simps quiet_upd split: option.split)

lemma free_tables:
  "requests_of n (curl_multi_free X m w) = requests_of n w" "quiet n (curl_multi_free X m w) = quiet n w"
  by (simp_all add: curl_multi_free_def Let_def detach_all_tables world_simps quiet_upd split: option.split)

lemma native_close_orderly:
  assumes lib: "libcurl_multi_ok X members" and start: "orderly members Q w"
    and none: "\<And>e. \<not> rb_curl_multi_has_easy m e w" and run: "ruby_curl_multi_close X m w = (r, v)"
  shows "orderly members Q v \<and> (\<forall>n i. rb_curl_multi_has_easy n i v = rb_curl_multi_has_easy n i w) \<and>
    (quiet m w \<longrightarrow> r = Inr m)"
proof (cases "(perform_active (rbcm_of m w) \<or> multi_callback_active (rbcm_of m w)) \<longrightarrow>
    allow_close_during_perform (rbcm_of m w)")
  case True
  note eq = close_eq [OF True, of X, unfolded run]
  have ok: "world_ok members w" using start by (simp add: orderly_def layers_agree_def)
  have step: "close_step members m w v" using close_close_step [OF lib ok] run eq by blast
  have has: "rb_curl_multi_has_easy n i v = rb_curl_multi_has_easy n i w" for n i
    using has_easy_close [OF step, of n i] none by (cases "n = m") auto
  have "requests_of n v = requests_of n w" "quiet n v = quiet n w" for n
    using eq free_tables [of n X m w] by (simp_all add: world_simps quiet_upd)
  then show ?thesis
    using start has close_step_keeps [OF ok step] eq
    by (simp add: orderly_def layers_agree_def request_table_ok_def has_request_def)
next
  case False
  then show ?thesis using run start by (auto simp: ruby_curl_multi_close_def rb_raise_def quiet_def)
qed

text \<open>Whether it returns or raises, the Ruby method leaves nothing attached.\<close>

lemma Multi_close_orderly:
  assumes lib: "libcurl_multi_ok (native R) members" and removes: "libcurl_removes (native R) members"
    and start: "orderly members Q w" and run: "Multi_close R permanent m w = (r, v)"
  shows "orderly members Q v \<and> (\<forall>e. \<not> rb_curl_multi_has_easy m e v) \<and>
    (\<forall>n i. rb_curl_multi_has_easy n i v \<longrightarrow> rb_curl_multi_has_easy n i w) \<and> (m \<in> Q \<longrightarrow> r = Inr m)"
proof -
  let ?w1 = "set_requests m (requests_of m w) w" and ?es = "map snd (requests_of m w)"
  have u1: "undisturbed w ?w1" by (rule bookkeeping_undisturbed)
  have o1: "orderly members Q ?w1" by (rule orderly_undisturbed [OF start u1])
  then have ok1: "world_ok members ?w1" and agree1: "layers_agree members ?w1"
    by (simp_all add: orderly_def layers_agree_def)
  have keys: "?es = st_keys (requests_of m w)" "st_wf (requests_of m w)"
    using start by (auto simp: orderly_def layers_agree_def request_table_ok_def st_keys_def)
  have all: "e \<in> set ?es \<longleftrightarrow> rb_curl_multi_has_easy m e ?w1" for e
    using agreeD(3) [OF agree1, of m e] by (simp add: keys st.keys_lookup world_simps del: set_map)
  have "distinct ?es" unfolding keys(1) by (rule st_wf_keys [OF keys(2)])
  from each_removed [OF lib removes ok1 this, of m] all
  obtain w2 where w2: "each_value (ruby_curl_multi_remove (native R) m) ?es ?w1 = (Inr (), w2)"
    "world_ok members w2" "same_objects ?w1 w2"
    "\<And>n i. rb_curl_multi_has_easy n i w2 \<longleftrightarrow> rb_curl_multi_has_easy n i ?w1 \<and> \<not> (n = m \<and> i \<in> set ?es)"
    "\<And>i. multi (rbce_of i w2) = (if i \<in> set ?es then None else multi (rbce_of i ?w1))" by blast
  have "has_request n i w2 = rb_curl_multi_has_easy n i ?w1" for n i
    using agreeD(3) [OF agree1, of n i] w2(3) by (simp add: has_request_def same_objects_def)
  moreover have "request_table_ok n w2" "n \<in> Q \<Longrightarrow> quiet n w2" for n
    using o1 w2(3)
    by (simp_all add: orderly_def layers_agree_def request_table_ok_def same_objects_def quiet_def)
  ultimately have e2: "emptied members Q m w2"
    using w2(2,4,5) all by (simp add: emptied_def del: set_map)
  obtain w3 where w3: "(if permanent then clear_idle_easy_references R m else ret ()) w2 = (Inr (), w3)"
    "emptied members Q m w3" "\<And>n i. rb_curl_multi_has_easy n i w3 = rb_curl_multi_has_easy n i w2"
    using clear_idle_emptied [OF e2, of R] e2 by (cases permanent) (auto simp: ret_def)
  let ?w4 = "set_requests m st_init_numtable w3"
  have o4: "orderly members Q ?w4" by (rule emptied_orderly [OF w3(2)])
  have same4: "same_attachment w3 ?w4" by (simp add: same_attachment_def world_simps)
  have none: "\<not> rb_curl_multi_has_easy m e ?w4" for e
    using w3(2) same_has_easy [OF same4] by (simp add: emptied_def)
  obtain r5 w5 where close: "ruby_curl_multi_close (native R) m ?w4 = (r5, w5)" by fastforce
  note c = native_close_orderly [OF lib o4 none close]
  have shrinks: "rb_curl_multi_has_easy n i w5 \<Longrightarrow> rb_curl_multi_has_easy n i w" for n i
    using c same_has_easy [OF same4, of n i] w3(3) w2(4) same_tables(3) [OF u1] by auto
  have quiet4: "m \<in> Q \<Longrightarrow> quiet m ?w4" using o4 by (simp add: orderly_def)
  have marked: "undisturbed w5 (upd_rbcm m (\<lambda>c. c\<lparr>closed := True\<rparr>) w5)"
    by (simp add: undisturbed_def same_objects_def same_attachment_def world_simps)
  have "Multi_close R permanent m w =
     (case r5 of Inl x \<Rightarrow> (Inl x, w5)
      | Inr _ \<Rightarrow> (Inr m, if permanent then upd_rbcm m (\<lambda>c. c\<lparr>closed := True\<rparr>) w5 else w5))"
    using w2(1) w3(1) close
    by (simp add: Multi_close_def bind_def Multi_requests_eq modify_def ret_def ruby_curl_multi_mark_closed_def
        split: sum.split)
  then show ?thesis
    using run c none shrinks quiet4 orderly_undisturbed [OF _ marked] same_tables(3) [OF marked]
    by (auto split: sum.splits if_splits)
qed

section \<open>Preparing a perform\<close>

lemma setup_undisturbed: "keeps undisturbed (on_rbce e (ruby_curl_easy_setup E))"
  by (simp add: keeps_def undisturbed_def same_attachment_def same_objects_def world_simps setup_keeps_fields)

lemma refresh_undisturbed:
  "keeps undisturbed (bind (on_rbce e (ruby_curl_easy_setup E)) (\<lambda>_.
     modify (\<lambda>v. set_signatures m (st_insert (signatures_of m v) e s) v)))"
  by (rule undisturbed.bound [OF setup_undisturbed]) (simp add: keeps_def modify_def set_signatures_undisturbed)

lemma prepare_agrees:
  assumes ruby: "ruby_ok R"
  shows "agrees members Q (prepare_requests R m)"
proof -
  have safety: "keeps undisturbed (apply_safety R e)" for e using ruby by (simp add: ruby_ok_def)
  have "keeps undisturbed (prepare_request R m e)" for e
    unfolding prepare_request_def
  proof (rule undisturbed.bound [OF safety], rule keepsI)
    fix a w
    show "undisturbed w (snd (let signature = safety_signature_for R e w
         in if st_lookup (signatures_of m w) e \<noteq> Some signature
            then bind (on_rbce e (ruby_curl_easy_setup (me_setup (native R)))) (\<lambda>_.
                 modify (\<lambda>v. set_signatures m (st_insert (signatures_of m v) e signature) v)) w
            else (Inr (), w)))"
      by (simp add: Let_def undisturbed_refl keepsD [OF refresh_undisturbed])
  qed
  then show ?thesis
    unfolding prepare_requests_def by (intro agree_intros agrees_undisturbed)
qed

section \<open>The native code between\<close>

text \<open>Between Ruby methods the perform loop completes transfers; a completion drops the request and the
  attachment together, and so does the removal of handles a raising callback has added.\<close>

lemma completed_requests_of:
  "requests_of n (completed X m e w) = (if n = m then st_delete (requests_of m w) e else requests_of n w)"
  by (simp add: completed_def requests_of_def rb_curl_multi_forget_easy_def
      rb_curl_multi_remove_request_reference_def world_simps st_delete_def st_init_numtable_def split: option.split)

lemma agree_same:
  assumes "layers_agree members w" and "same_attachment w v"
    and "\<And>m. requests (multis v m) = requests (multis w m)"
  shows "layers_agree members v"
  using assms world_ok_same [OF assms(2)] same_has_easy [OF assms(2)]
  by (simp add: layers_agree_def request_table_ok_def has_request_def requests_of_def)

lemma detach_completed_agree:
  assumes lib: "libcurl_multi_ok X members" and removes: "libcurl_removes X members" and user: "user_ok members X"
    and agree: "layers_agree members w" and has: "rb_curl_multi_has_easy m e w"
    and run: "detach_completed X m e result w = (r, v)"
  shows "layers_agree members v"
proof -
  let ?w0 = "upd_rbce e (\<lambda>r. r\<lparr>last_result := result\<rparr>) w"
  obtain r1 w1 where f1: "flush_stderr_if_any X e ?w0 = (r1, w1)" by fastforce
  have "same_attachment w ?w0" by (simp add: world_simps)
  from same_attachment_trans [OF this flush_same(1) [OF user f1]]
  have s1: "same_attachment w w1" .
  have rq1: "requests (multis w1 n) = requests (multis w n)" for n
    using flush_same(2) [OF user f1, of n] by (simp add: world_simps)
  have agree1: "layers_agree members w1" by (rule agree_same [OF agree s1 rq1])
  have has1: "rb_curl_multi_has_easy m e w1" using same_has_easy [OF s1] has by simp
  obtain code l where cl: "curl_multi_remove_handle X (handle (rbcm_of m w1)) (curl (rbce_of e w1)) (lib w1)
     = (code, l)" by fastforce
  have code: "code = 0"
    using attached_in_libcurl [OF agreeD(1) [OF agree1] has1] removes cl by (fastforce simp: libcurl_removes_def)
  let ?u = "completed X m e (w1\<lparr>lib := l\<rparr>)"
  obtain r2 w2 where f2: "flush_stderr_if_any X e ?u = (r2, w2)" by fastforce
  have v: "v = (case r1 of Inl x \<Rightarrow> w1 | Inr _ \<Rightarrow> w2)"
    using run [unfolded detach_completed_cases [OF f1] cl f2] code f2 by (auto split: sum.splits)
  show ?thesis
  proof (cases r1)
    case (Inl x)
    then show ?thesis using v agree1 by simp
  next
    case (Inr y)
    have "detach_step members m e w1 (forget_active m e (w1\<lparr>lib := l\<rparr>))"
      using forget_active_step [OF lib agreeD(1) [OF agree1] has1] cl code by simp
    note step = has_easy_detach [OF this]
    have has2: "rb_curl_multi_has_easy n i w2 \<longleftrightarrow> rb_curl_multi_has_easy n i w1 \<and> \<not> (n = m \<and> i = e)" for n i
      using same_has_easy [OF flush_same(1) [OF user f2], of n i]
        same_has_easy [OF completed_same, of n i X m e "w1\<lparr>lib := l\<rparr>"] step by simp
    have rq2: "requests_of n w2 = (if n = m then st_delete (requests_of m w1) e else requests_of n w1)" for n
      using flush_same(2) [OF user f2, of n] completed_requests_of [of n X m e "w1\<lparr>lib := l\<rparr>"]
      by (simp add: requests_of_def world_simps split: if_splits)
    have "world_ok members v" using detach_completed_result(1) [OF lib user agreeD(1) [OF agree] has run] .
    moreover have "request_table_ok n w2" for n
      using request_table_delete [OF agreeD(2) [OF agree1], of m w2 e] agreeD(2) [OF agree1, of n] rq2
      by (cases "n = m") (simp_all add: request_table_ok_def)
    moreover have "has_request n i w2 \<longleftrightarrow> rb_curl_multi_has_easy n i w2" for n i
      using agreeD(3) [OF agree1, of n i] by (auto simp: has_request_def rq2 has2 st_simps)
    ultimately show ?thesis using v Inr by (simp add: layers_agree_def)
  qed
qed

lemma finish_agree:
  assumes "layers_agree members w"
  shows "layers_agree members (snd (rb_curl_multi_finish_completion_callbacks m e w))"
proof -
  let ?v = "snd (rb_curl_multi_finish_completion_callbacks m e w)"
  have "world_ok members ?v" by (rule keeps_okD [OF finish_keeps agreeD(1) [OF assms]])
  moreover have "requests_of n ?v = requests_of n w"
    "rb_curl_multi_has_easy n i ?v = rb_curl_multi_has_easy n i w" for n i
    by (simp_all add: rb_curl_multi_finish_completion_callbacks_def Let_def world_simps rb_curl_multi_has_easy_def)
  ultimately show ?thesis
    using assms by (simp add: layers_agree_def request_table_ok_def has_request_def)
qed

lemma remove_easies_agree:
  assumes lib: "libcurl_multi_ok X members" and removes: "libcurl_removes X members"
  shows "layers_agree members w \<Longrightarrow> layers_agree members (snd (remove_easies X m es w))"
proof (induction es arbitrary: w)
  case Nil
  then show ?case by (simp add: ret_def)
next
  case (Cons e es)
  show ?case
  proof (cases "multi (rbce_of e w) \<noteq> Some m \<or> \<not> rb_curl_multi_has_easy m e w")
    case True
    then show ?thesis using Cons by (simp add: bind_def)
  next
    case False
    let ?u = "rb_curl_multi_remove_request_reference m e w"
    have "same_attachment w ?u" by (simp add: world_simps)
    moreover have "requests_of n ?u = (if n = m then st_delete (requests_of m w) e else requests_of n w)" for n
      by (simp add: requests_of_def rb_curl_multi_remove_request_reference_def world_simps st_delete_def
          st_init_numtable_def split: option.split)
    ultimately obtain v where "rb_curl_multi_remove X m e ?u = (Inr (), v)" "layers_agree members v"
      using drop_and_remove [OF lib removes Cons.prems, of m e ?u] False by blast
    then show ?thesis using False Cons.IH by (simp add: bind_def modify_def)
  qed
qed

lemma initialize_agree:
  assumes lib: "libcurl_multi_ok X members" and start: "orderly members Q w"
    and new: "handle (rbcm_of m w) = None" and run: "ruby_curl_multi_initialize X m w = (r, v)"
  shows "orderly members Q v \<and> (r = Inr m \<longrightarrow> quiet m v) \<and> (\<forall>k. r = Inr k \<longrightarrow> k = m) \<and>
    (\<forall>n i. rb_curl_multi_has_easy n i v = rb_curl_multi_has_easy n i w)"
proof -
  have v: "v = snd (ruby_curl_multi_init X m w)" "(\<exists>u. fst (ruby_curl_multi_init X m w) = Inr u) = (r = Inr m)"
    "\<And>k. r = Inr k \<Longrightarrow> k = m"
    using run by (auto simp: ruby_curl_multi_initialize_def bind_def ret_def split: prod.splits sum.splits)
  have ok: "world_ok members w" using start by (simp add: orderly_def layers_agree_def)
  have tables: "requests_of n v = requests_of n w" "quiet n w \<Longrightarrow> quiet n v" for n
    by (simp_all add: v(1) ruby_curl_multi_init_def bind_def on_lib_eq cmd_defs world_simps quiet_def) auto
  have native: "world_ok members v" "rb_curl_multi_has_easy n e v = rb_curl_multi_has_easy n e w" for n e
    using init_ok(1,3) [OF lib ok new] by (simp_all add: v(1))
  have idle: "r = Inr m \<Longrightarrow> quiet m v"
    using v(2) by (cases "fst (curl_multi_init X (lib w))")
      (simp_all add: v(1) ruby_curl_multi_init_def bind_def on_lib_eq cmd_defs world_simps quiet_def)
  have "orderly members Q v"
    using start tables native by (simp add: orderly_def layers_agree_def request_table_ok_def has_request_def)
  then show ?thesis using idle v(3) native(2) by blast
qed

end
