(* ===== verification/Curb_Ruby_Props.thy ===== *)
theory Curb_Ruby_Props
  imports Curb_Ruby_Facts
begin

text \<open>
  The properties of the Ruby layer: the agreement of requests, attachments and libcurl's members in
  every state that Ruby methods and the native code between them reach, the request a closed easy
  handle leaves behind, the transfer of one easy handle on a multi handle of its own, and the handler
  that \<open>perform\<close> loses when it asks for it.
\<close>

section \<open>Every reachable state\<close>

text \<open>What happens to the multi handles under the Ruby interface, in any order: the methods, each with any
  outcome, and what the native loop does between them. Status callbacks run Ruby code, so their calls
  are steps of their own between \<open>enter_callbacks\<close> and \<open>finish\<close>. A completion is of a handle that is
  attached. \<open>Easy#close\<close> is not among them.\<close>

inductive ruby_step :: "'l ruby_env \<Rightarrow> 'l world \<Rightarrow> 'l world \<Rightarrow> bool" for R where
  new: "handle (rbcm_of m w) = None \<Longrightarrow> ruby_curl_multi_initialize (native R) m w = (rm, v) \<Longrightarrow> ruby_step R w v"
| add: "Multi_add R m e w = (rm, v) \<Longrightarrow> ruby_step R w v"
| remove: "Multi_remove R m e w = (rm, v) \<Longrightarrow> ruby_step R w v"
| cancel: "Multi_cancel R m w = (ru, v) \<Longrightarrow> ruby_step R w v"
| close: "Multi_close R permanent m w = (rm, v) \<Longrightarrow> ruby_step R w v"
| set_multi: "Easy_multi_set R new_multi e w = (ro, v) \<Longrightarrow> ruby_step R w v"
| prepare: "prepare_requests R m w = (ru, v) \<Longrightarrow> ruby_step R w v"
| enter_perform: "ruby_step R w (upd_rbcm m (\<lambda>c. c\<lparr>perform_active := True\<rparr>) w)"
| leave_perform: "ruby_curl_multi_perform_guard_ensure m w = (ru, v) \<Longrightarrow> ruby_step R w v"
| complete: "rb_curl_multi_has_easy m e w \<Longrightarrow> detach_completed (native R) m e result w = (ru, v) \<Longrightarrow>
    ruby_step R w v"
| enter_callbacks: "ruby_step R w (upd_rbcm m (\<lambda>c. c\<lparr>multi_callback_active := True\<rparr>) w)"
| drop_added: "rb_curl_multi_remove_added_easies_since_snapshot (native R) m snapshot w = (ru, v) \<Longrightarrow>
    ruby_step R w v"
| finish: "rb_curl_multi_finish_completion_callbacks m e w = (ru, v) \<Longrightarrow> ruby_step R w v"

text \<open>The hypotheses about libcurl, user code and the parameters of the Ruby layer.\<close>

definition ruby_world_ok :: "'l ruby_env \<Rightarrow> ('l \<Rightarrow> nat \<rightharpoonup> nat set) \<Rightarrow> bool" where
  "ruby_world_ok R members \<longleftrightarrow>
     libcurl_multi_ok (native R) members \<and> libcurl_removes (native R) members \<and>
     user_ok members (native R) \<and> ruby_ok R"

lemma agrees_quietly: "agrees members {} c \<Longrightarrow> layers_agree members w \<Longrightarrow> c w = (r, v) \<Longrightarrow> layers_agree members v"
  using agreesD [of members "{}" c w] by (simp add: orderly_def)

lemma flag_write_agrees:
  assumes "layers_agree members w"
    and "\<And>c. attached (g c) = attached c \<and> active (g c) = active c \<and> handle (g c) = handle c"
  shows "layers_agree members (upd_rbcm m g w)"
  by (rule agree_same [OF assms(1) same_attachment_upds(2)]) (simp_all add: assms(2) world_simps)

lemma ruby_step_keeps:
  assumes ok: "ruby_world_ok R members" and "ruby_step R w v" and agree: "layers_agree members w"
  shows "layers_agree members v"
proof -
  have lib: "libcurl_multi_ok (native R) members" and removes: "libcurl_removes (native R) members"
    and user: "user_ok members (native R)" and ruby: "ruby_ok R"
    using ok by (simp_all add: ruby_world_ok_def)
  have start: "orderly members {} w" using agree by (simp add: orderly_def)
  show ?thesis
    using assms(2)
  proof cases
    case (new m rm)
    then show ?thesis using initialize_agree [OF lib start] by (auto simp: orderly_def)
  next
    case (add m e rm)
    then show ?thesis by (rule agrees_quietly [OF Multi_add_agrees [OF lib ruby] agree])
  next
    case (remove m e rm)
    then show ?thesis by (rule agrees_quietly [OF Multi_remove_agrees [OF lib removes] agree])
  next
    case (cancel m ru)
    then show ?thesis by (rule agrees_quietly [OF Multi_cancel_agrees [OF lib removes] agree])
  next
    case (close permanent m rm)
    then show ?thesis using Multi_close_orderly [OF lib removes start] by (auto simp: orderly_def)
  next
    case (set_multi new_multi e ro)
    then show ?thesis by (rule agrees_quietly [OF Easy_multi_set_agrees [OF lib removes] agree])
  next
    case (prepare m ru)
    then show ?thesis by (rule agrees_quietly [OF prepare_agrees [OF ruby] agree])
  next
    case (enter_perform m)
    then show ?thesis using flag_write_agrees [OF agree] by simp
  next
    case (leave_perform m ru)
    then show ?thesis
      using flag_write_agrees [OF agree, of "\<lambda>c. c\<lparr>perform_active := False, multi_callback_active := False,
          allow_close_during_perform := False\<rparr>" m]
      by (simp add: ruby_curl_multi_perform_guard_ensure_def modify_def)
  next
    case (complete m e result ru)
    then show ?thesis using detach_completed_agree [OF lib removes user agree] by blast
  next
    case (enter_callbacks m)
    then show ?thesis using flag_write_agrees [OF agree] by simp
  next
    case (drop_added m snapshot ru)
    then show ?thesis
      using remove_easies_agree [OF lib removes agree, of m "newly_attached m snapshot w"]
      by (simp add: rb_curl_multi_remove_added_easies_since_snapshot_def)
  next
    case (finish m e ru)
    then show ?thesis using finish_agree [OF agree, of m e] by simp
  qed
qed

definition good_ruby_step :: "('l \<Rightarrow> nat \<rightharpoonup> nat set) \<Rightarrow> 'l ruby_env \<Rightarrow> 'l world \<Rightarrow> 'l world \<Rightarrow> bool" where
  "good_ruby_step members R w v \<longleftrightarrow> ruby_world_ok R members \<and> ruby_step R w v"

interpretation ruby: invariant_of_steps "good_ruby_step members R" "layers_agree members"
  by unfold_locales (auto simp: good_ruby_step_def intro: ruby_step_keeps)

text \<open>C8: Three records of what is being transferred always agree: the table of requests of the Ruby object,
  the attachment table of the native structure and libcurl's own membership. Starting from agreement
  they agree after any sequence of the Ruby methods (with any outcome), completions and callbacks in
  which no easy handle is closed. In particular the Ruby methods ask the native ones only for what
  keeps the native handles consistent.\<close>

theorem requests_are_the_attached_handles:
  assumes "ruby_world_ok R members" and "layers_agree members w" and "(ruby_step R)\<^sup>*\<^sup>* w v"
  shows "world_ok members v \<and> libcurl_follows members v \<and>
    (\<forall>m e. has_request m e v \<longleftrightarrow> rb_curl_multi_has_easy m e v)"
proof -
  have "good_ruby_step members R = ruby_step R"
    using assms(1) by (simp add: good_ruby_step_def fun_eq_iff)
  then have "layers_agree members v" using ruby.reached [of members R w v] assms(2,3) by simp
  then show ?thesis using libcurl_follows_ok by (auto simp: layers_agree_def)
qed

subsection \<open>A sample Ruby layer\<close>

definition sample_ruby :: "sample_lib ruby_env" where
  "sample_ruby = \<lparr>native = sample_multi, native_lib = sample_easy_lib, apply_safety = (\<lambda>_. ret ()),
     safety_signature_for = (\<lambda>_ _. Qnil), clear_safety_override = (\<lambda>_. ret ()),
     defer_multi_close = (\<lambda>_ _. ret ())\<rparr>"

lemma sample_ruby_ok: "ruby_world_ok sample_ruby sample_members"
  using sample_lib_ok sample_user_ok
  by (simp add: ruby_world_ok_def sample_ruby_def ruby_ok_def keeps_def ret_def undisturbed_refl
      libcurl_removes_def sample_ops sample_change_def)

lemma sample_ensured_agree: "layers_agree sample_members (sample_ensured 0)"
proof -
  have ok: "world_ok sample_members (sample_ensured 0)"
    using ensure_handle_ok(1) [OF sample_lib_ok sample_world_ok sample_ensure] .
  have "requests_of m (sample_ensured 0) = []" for m
    using ensure_handle_tables(1) [of m sample_multi 0 sample_world]
    by (simp add: sample_ensured_def requests_of_def sample_object_def)
  then show ?thesis
    using ok sample_ensured_fields(4)
    by (simp add: layers_agree_def request_table_ok_def has_request_def st_wf_def st_lookup_def)
qed

lemma set_requests_same: "requests (multis w m) = Some t \<Longrightarrow> set_requests m t w = w"
  by (cases "multis w m") (simp add: set_requests_def upd_object_def fun_upd_idem)

lemma sample_ensured_requests:
  "requests (multis (sample_ensured 0) 0) = Some []" "deferred_exception (multis (sample_ensured 0) 0) = None"
  by (simp_all add: sample_ensured_def ruby_curl_multi_ensure_handle_def ruby_curl_multi_init_def bind_def
      on_lib_eq cmd_defs sample_ops world_simps ruby_curl_multi_alloc_def sample_object_def)

lemma sample_ruby_add:
  "\<exists>v u. ruby_curl_multi_add sample_multi 0 7 (sample_ensured 0) = (Inr 0, v) \<and>
     Multi_add sample_ruby 0 7 (sample_ensured 0) = (Inr 0, u) \<and>
     rb_curl_multi_has_easy 0 7 u \<and> rbce_of 7 u = rbce_of 7 v"
proof -
  obtain v where add: "ruby_curl_multi_add sample_multi 0 7 (sample_ensured 0) = (Inr 0, v)"
    using sample_add_ensured by blast
  have rq: "requests_of 0 (sample_ensured 0) = []" by (simp add: requests_of_def sample_ensured_requests)
  let ?u1 = "unregister_idle_easy_reference 0 7 v"
  let ?u2 = "set_requests 0 (st_insert (requests_of 0 ?u1) 7 7) ?u1"
  let ?u = "record_native_safety_signature sample_ruby 0 7 ?u2"
  have "set_requests 0 [] (sample_ensured 0) = sample_ensured 0"
    by (rule set_requests_same) (rule sample_ensured_requests)
  then have "Multi_add sample_ruby 0 7 (sample_ensured 0) = (Inr 0, ?u)"
    using add by (simp add: Multi_add_def bind_def Multi_requests_eq rq st_lookup_def sample_ensured_requests
        sample_ruby_def ret_def modify_def)
  moreover have "same_attachment v ?u2"
    by (simp add: same_attachment_def unregister_idle_easy_reference_def world_simps)
  then have "rb_curl_multi_has_easy 0 7 ?u2" using same_has_easy sample_added(2) [OF add] by blast
  then have "rb_curl_multi_has_easy 0 7 ?u" using same_tables(3) [OF bookkeeping_undisturbed(3)] by blast
  moreover have "rbce_of 7 ?u = rbce_of 7 v"
    by (simp add: record_native_safety_signature_def set_signatures_def unregister_idle_easy_reference_def world_simps)
  ultimately show ?thesis using add by blast
qed

theorem requests_are_the_attached_handles_witness:
  "\<exists>v. Multi_add sample_ruby 0 7 (sample_ensured 0) = (Inr 0, v) \<and> rb_curl_multi_has_easy 0 7 v \<and> has_request 0 7 v"
proof -
  obtain v where add: "Multi_add sample_ruby 0 7 (sample_ensured 0) = (Inr 0, v)" and has: "rb_curl_multi_has_easy 0 7 v"
    using sample_ruby_add by blast
  have "ruby_step sample_ruby (sample_ensured 0) v" using add by (rule ruby_step.add)
  from requests_are_the_attached_handles [OF sample_ruby_ok sample_ensured_agree
      r_into_rtranclp [of "ruby_step sample_ruby", OF this]]
  show ?thesis using add has by blast
qed

section \<open>A closed easy handle stays requested\<close>

lemma native_close_tables:
  assumes ok: "world_ok members w" and has: "rb_curl_multi_has_easy m e w"
    and close: "ruby_curl_easy_close X L e w = (r, v)"
    and idle: "\<not> callback_active (rbce_of e w)" "native_active (rbce_of e w) = 0"
  shows "requests_of n v = requests_of n w" and "\<not> rb_curl_multi_has_easy m e v"
proof -
  let ?u = "ruby_curl_easy_free X L e w"
  note m = attached_multi [OF ok has]
  have "multis v = multis ?u" using easy_close_only [OF close idle] by (simp add: only_easy_def)
  then have "requests_of n v = requests_of n ?u" and rbcm: "rbcm_of m v = rbcm_of m ?u"
    by (simp_all add: requests_of_def rbcm_of_def)
  moreover have "requests_of n ?u = requests_of n w"
    using m by (simp add: ruby_curl_easy_free_def free_detach_def Let_def world_simps on_lib_eq split: option.split)
  ultimately show "requests_of n v = requests_of n w" by simp
  show "\<not> rb_curl_multi_has_easy m e v"
    by (simp add: rb_curl_multi_has_easy_def rbcm free_multis(1) [OF m] rb_curl_multi_forget_easy_def
        world_simps st_simps split: option.split)
qed

text \<open>C35: \<open>Easy#close\<close> breaks the agreement. After an easy handle that was added to a multi handle is closed
  (whether making its new libcurl handle succeeds or not), nothing is attached any more but the
  request stays: adding the handle to the same multi handle again returns as if it had been added,
  and attaches nothing.\<close>

theorem closed_easy_stays_requested:
  assumes "ruby_ok R" and "layers_agree members w" and "rb_curl_multi_has_easy m e w"
    and "\<not> callback_active (rbce_of e w)" and "native_active (rbce_of e w) = 0"
    and "Easy_close R e w = (r, v)"
  shows "has_request m e v \<and> \<not> rb_curl_multi_has_easy m e v \<and>
    (\<exists>u. Multi_add R m e v = (Inr m, u) \<and> \<not> rb_curl_multi_has_easy m e u)"
proof -
  have ok: "world_ok members w" using assms(2) by (simp add: layers_agree_def)
  note m = attached_multi [OF ok assms(3)]
  obtain r1 w1 where close: "ruby_curl_easy_close (native R) (native_lib R) e w = (r1, w1)" by fastforce
  have gone: "\<not> rb_curl_multi_has_easy m e w1"
    by (rule native_close_tables(2) [OF ok assms(3) close assms(4,5)])
  have rq: "has_request m e w1"
    using native_close_tables(1) [OF ok assms(3) close assms(4,5)] agreeD(3) [OF assms(2), of m e] assms(3)
    by (simp add: has_request_def)
  have rest: "keeps undisturbed (bind (clear_safety_override R e) (\<lambda>_.
      bind (modify (unregister_idle_easy_reference m e)) (\<lambda>_. ret a)))" for a :: rvalue
    using assms(1) by (intro undisturbed.bound undisturbed.assign undisturbed.pure)
      (simp_all add: ruby_ok_def bookkeeping_undisturbed)
  have "undisturbed w1 v"
  proof (cases r1)
    case (Inl x)
    then show ?thesis
      using assms(6) close m undisturbed_refl
      by (simp add: Easy_close_def bind_def [of "ruby_curl_easy_close X L e" for X L])
  next
    case (Inr a)
    then have "v = snd (bind (clear_safety_override R e) (\<lambda>_.
        bind (modify (unregister_idle_easy_reference m e)) (\<lambda>_. ret a)) w1)"
      using assms(6) close m
      by (simp add: Easy_close_def bind_def [of "ruby_curl_easy_close X L e" for X L])
    then show ?thesis using keepsD [OF rest, where s = w1] by simp
  qed
  note same = same_tables [OF this]
  let ?u = "set_requests m (requests_of m v) v"
  have "Multi_add R m e v = (Inr m, ?u)"
    using rq same(2) by (auto simp: Multi_add_def bind_def Multi_requests_eq has_request_def)
  then show ?thesis
    using rq gone same same_tables(3) [OF bookkeeping_undisturbed(4)] by blast
qed

theorem closed_easy_stays_requested_witness:
  "\<exists>w. Multi_add sample_ruby 0 7 (sample_ensured 0) = (Inr 0, w) \<and>
     has_request 0 7 (snd (Easy_close sample_ruby 7 w)) \<and>
     \<not> rb_curl_multi_has_easy 0 7 (snd (Easy_close sample_ruby 7 w))"
proof -
  obtain v w where v: "ruby_curl_multi_add sample_multi 0 7 (sample_ensured 0) = (Inr 0, v)"
    and w: "Multi_add sample_ruby 0 7 (sample_ensured 0) = (Inr 0, w)" "rb_curl_multi_has_easy 0 7 w"
      "rbce_of 7 w = rbce_of 7 v"
    using sample_ruby_add by blast
  have ok: "ruby_ok sample_ruby" using sample_ruby_ok by (simp add: ruby_world_ok_def)
  have "layers_agree sample_members w"
    by (rule ruby_step_keeps [OF sample_ruby_ok ruby_step.add [OF w(1)] sample_ensured_agree])
  from closed_easy_stays_requested [OF ok this w(2) _ _ prod.collapse [symmetric]]
  show ?thesis using w sample_idle [OF v] by auto
qed

section \<open>A failure handler is lost\<close>

lemma take_error_none: "callback_error r = None \<Longrightarrow> ruby_curl_easy_take_callback_error r = (Inr None, r)"
  by (simp add: ruby_curl_easy_take_callback_error_def rb_curl_easy_take_callback_error_def)

lemma safe_destination:
  "\<not> unsafe_destination_blocked r \<Longrightarrow> ruby_curl_easy_unsafe_destination_error_get r = (Inr Qnil, r)"
  by (simp add: ruby_curl_easy_unsafe_destination_error_get_def)

lemma failed_result:
  assumes "callback_error r = None" and "\<not> unsafe_destination_blocked r" and "last_result r \<noteq> 0"
  shows "Easy_result env performed r =
     (if rb_easy_get ''failure_proc'' r = Qnil
      then raise_transfer_error env (rb_easy_set ''failure_proc'' Qnil r)
      else (Inr performed, rb_easy_set ''failure_proc'' Qnil r))"
  using assms
  by (simp add: Easy_result_def bind_def [of ruby_curl_easy_take_callback_error] take_error_none
      bind_def [of ruby_curl_easy_unsafe_destination_error_get] safe_destination
      bind_def [of ruby_curl_easy_last_result] ruby_curl_easy_last_result_def
      bind_def [of "CURB_HANDLER_PROC_HSETTER k Qnil" for k] ruby_curl_easy_on_failure_set_def
      CURB_HANDLER_PROC_HSETTER_def [of _ Qnil] ret_def)

lemma raise_transfer_error_raises: "\<exists>x. fst (raise_transfer_error env r) = Inl x"
  by (auto simp: raise_transfer_error_def bind_def ruby_curl_easy_last_result_def lift_res_def
      ruby_curl_easy_last_error_def rb_raise_def split: sum.split prod.split)

text \<open>C36: \<open>perform\<close> loses the handler of failures. After a failed transfer of a handle with an \<open>on_failure\<close>
  handler \<open>perform\<close> returns as documented, but to find the handler it calls \<open>on_failure\<close> without a
  block, which removes it: no later failure runs it, and the next failed transfer raises instead.\<close>

theorem failed_perform_loses_its_handler:
  assumes "callback_error r = None" and "\<not> unsafe_destination_blocked r" and "last_result r \<noteq> 0"
    and "rb_easy_get ''failure_proc'' r \<noteq> Qnil"
  shows "\<exists>t. Easy_result env performed r = (Inr performed, t) \<and> rb_easy_get ''failure_proc'' t = Qnil \<and>
    completion_callback (last_result t) code redirects t = None \<and> (\<exists>x. fst (Easy_result env performed t) = Inl x)"
proof -
  let ?t = "rb_easy_set ''failure_proc'' Qnil r"
  have same: "callback_error ?t = None" "\<not> unsafe_destination_blocked ?t" "last_result ?t \<noteq> 0"
    and gone: "rb_easy_get ''failure_proc'' ?t = Qnil"
    using assms(1-3) by (simp_all add: rb_easy_set_def rb_easy_get_set [unfolded rb_easy_set_def])
  have "Easy_result env performed r = (Inr performed, ?t)" using failed_result [OF assms(1-3)] assms(4) by simp
  moreover have "completion_callback (last_result ?t) code redirects ?t = None"
    using same(3) gone by (simp add: completion_callback_def rb_easy_nil_def)
  moreover have "\<exists>x. fst (Easy_result env performed ?t) = Inl x"
    using failed_result [OF same] gone raise_transfer_error_raises by simp
  ultimately show ?thesis using gone by blast
qed

definition sample_failed :: ruby_curl_easy where
  "sample_failed = rb_easy_set ''failure_proc'' (RObj 5) (ruby_curl_easy_allocate 0 0\<lparr>last_result := 7\<rparr>)"

theorem failed_perform_loses_its_handler_witness:
  "\<exists>t. Easy_result (me_env sample_multi) Qtrue sample_failed = (Inr Qtrue, t) \<and> rb_easy_get ''failure_proc'' t = Qnil"
proof -
  have "callback_error sample_failed = None" "\<not> unsafe_destination_blocked sample_failed"
    "last_result sample_failed \<noteq> 0" "rb_easy_get ''failure_proc'' sample_failed \<noteq> Qnil"
    by (simp_all add: sample_failed_def rb_easy_get_set)
      (simp_all add: rb_easy_set_def ruby_curl_easy_allocate_def ruby_curl_easy_zero_def zero_flags_def zero_opts_def Let_def)
  from failed_perform_loses_its_handler [OF this] show ?thesis by blast
qed

section \<open>A transfer on a multi handle of its own\<close>

text \<open>The native \<open>perform\<close> with the Ruby code it calls: it keeps the agreement, and leaves no multi handle
  marked that was not.\<close>

definition performs_orderly :: "('l \<Rightarrow> nat \<rightharpoonup> nat set) \<Rightarrow> (nat \<Rightarrow> ('l world, rvalue) prog) \<Rightarrow> bool" where
  "performs_orderly members native_perform \<longleftrightarrow>
     (\<forall>m Q w r v. orderly members Q w \<longrightarrow> native_perform m w = Some (r, v) \<longrightarrow> orderly members Q v)"

lemma agrees_result: "agrees members Q c \<Longrightarrow> orderly members Q w \<Longrightarrow> c w = (r, v) \<Longrightarrow> orderly members Q v"
  using agreesD [of members Q c w] by simp

text \<open>Whatever happens, the body keeps the agreement, and when it returns the easy handle has left.\<close>

lemma transfer_on_orderly:
  assumes ok: "ruby_world_ok R members" and perform: "performs_orderly members native_perform"
    and start: "orderly members Q w" and run: "transfer_on R native_perform m e w = Some (r, v)"
  shows "orderly members Q v \<and> (\<not> isl r \<longrightarrow> \<not> rb_curl_multi_has_easy m e v)"
proof -
  have lib: "libcurl_multi_ok (native R) members" and removes: "libcurl_removes (native R) members"
    and ruby: "ruby_ok R"
    using ok by (simp_all add: ruby_world_ok_def)
  obtain r1 w1 where add: "Multi_add R m e w = (r1, w1)" by fastforce
  have o1: "orderly members Q w1" by (rule agrees_result [OF Multi_add_agrees [OF lib ruby] start add])
  obtain r2 w2 where prepare: "prepare_requests R m w1 = (r2, w2)" by fastforce
  have o2: "orderly members Q w2" by (rule agrees_result [OF prepare_agrees [OF ruby] o1 prepare])
  have o3: "orderly members Q w3" if "native_perform m w2 = Some (r3, w3)" for r3 w3
    using perform o2 that by (auto simp: performs_orderly_def)
  obtain u where remove: "Multi_remove R m e x = (Inr m, u x) \<and> let_go members m e x (u x)"
    if "layers_agree members x" for x
    using Multi_remove_lets_go [OF lib removes, of _ m e] by metis
  have o4: "orderly members Q (u x) \<and> \<not> rb_curl_multi_has_easy m e (u x)" if "orderly members Q x" for x
    using that remove [of x] orderly_flags [OF that] by (auto simp: orderly_def let_go_def)
  have elsewhere: "\<not> rb_curl_multi_has_easy m e x" if "orderly members Q x" "multi (rbce_of e x) \<noteq> Some m" for x
    using that attached_multi [of members x m e] by (auto simp: orderly_def layers_agree_def)
  show ?thesis
    using run add prepare o1 o2 o3 o4 elsewhere remove
    by (auto simp: transfer_on_def Multi_perform_def pbind_def run_def bind_def ret_def orderly_def
        split: option.splits sum.splits if_splits)
qed

text \<open>Closing natively while handles are attached; the requests stay.\<close>

definition loosened :: "('l \<Rightarrow> nat \<rightharpoonup> nat set) \<Rightarrow> nat set \<Rightarrow> nat \<Rightarrow> 'l world \<Rightarrow> bool" where
  "loosened members Q m w \<longleftrightarrow>
     world_ok members w \<and> (\<forall>n. request_table_ok n w) \<and>
     (\<forall>n e. n \<noteq> m \<longrightarrow> has_request n e w = rb_curl_multi_has_easy n e w) \<and>
     (\<forall>e. has_request m e w \<longrightarrow> rb_curl_multi_has_easy m e w) \<and> (\<forall>n \<in> Q. quiet n w)"

lemma orderly_loosened: "orderly members Q w \<Longrightarrow> loosened members Q m w"
  by (simp add: orderly_def layers_agree_def loosened_def)

lemma loosened_clear:
  assumes "loosened members Q m w"
  shows "loosened members Q m (set_requests m st_init_numtable w)"
proof -
  let ?v = "set_requests m st_init_numtable w"
  have same: "same_attachment w ?v" by (simp add: same_attachment_def world_simps)
  have "request_table_ok n ?v" for n
    using assms by (simp add: loosened_def request_table_ok_def world_simps st_simps)
      (simp add: st_init_numtable_def)
  then show ?thesis
    using assms world_ok_same [OF same] same_has_easy [OF same]
    by (simp add: loosened_def has_request_def quiet_def world_simps st_simps)
qed

lemma native_close_empties:
  assumes lib: "libcurl_multi_ok X members" and start: "loosened members Q m w" and m: "m \<in> Q"
  shows "\<exists>v. ruby_curl_multi_close X m w = (Inr m, v) \<and> emptied members Q m v"
proof -
  have "quiet m w" using start m by (simp add: loosened_def)
  then have flags: "(perform_active (rbcm_of m w) \<or> multi_callback_active (rbcm_of m w)) \<longrightarrow>
    allow_close_during_perform (rbcm_of m w)" by (simp add: quiet_def)
  obtain v where v: "ruby_curl_multi_close X m w = (Inr m, v)" using close_eq [OF flags, of X] by blast
  note eq = close_eq [OF flags, of X, unfolded v]
  have ok: "world_ok members w" using start by (simp add: loosened_def)
  have step: "close_step members m w v" by (rule close_close_step [OF lib ok v])
  have tables: "requests_of n v = requests_of n w" "quiet n v = quiet n w" for n
    using eq free_tables [of n X m w] by (simp_all add: world_simps quiet_upd)
  have refers: "multi (rbce_of i v) \<noteq> Some m" if "has_request m i w" for i
    using step start that by (simp add: close_step_def loosened_def)
  show ?thesis
    using v start tables refers has_easy_close [OF step] close_step_keeps [OF ok step]
    by (auto simp: emptied_def loosened_def request_table_ok_def has_request_def)
qed

lemma release_empties:
  assumes ok: "ruby_world_ok R members" and start: "orderly members Q w" and m: "m \<in> Q"
  shows "\<exists>v. release_deferred_multi_close R m e w = (Inr True, v) \<and> emptied members Q m v"
proof -
  have lib: "libcurl_multi_ok (native R) members" and removes: "libcurl_removes (native R) members"
    using ok by (simp_all add: ruby_world_ok_def)
  let ?w1 = "set_requests m (requests_of m w) w"
  have o1: "orderly members Q ?w1" by (rule orderly_undisturbed [OF start bookkeeping_undisturbed(4)])
  then have a1: "layers_agree members ?w1" by (simp add: orderly_def)
  obtain w2 where w2: "Multi_remove R m e ?w1 = (Inr m, w2)" "let_go members m e ?w1 w2"
    using Multi_remove_lets_go [OF lib removes a1] by blast
  have "orderly members Q w2" using orderly_flags [OF o1] w2(2) by (simp add: let_go_def)
  then have l2: "loosened members Q m w2" by (rule orderly_loosened)
  have l3: "loosened members Q m (set_requests m st_init_numtable ?w1)"
    by (rule loosened_clear [OF orderly_loosened [OF o1]])
  show ?thesis
    using native_close_empties [OF lib l2 m] native_close_empties [OF lib l3 m] w2(1)
    by (auto simp: release_deferred_multi_close_def rb_rescue_def bind_def Multi_requests_eq ret_def modify_def)
qed

lemma release_idle_orderly:
  assumes ok: "ruby_world_ok R members" and start: "orderly members Q w"
  shows "\<exists>v. release_idle_reference R m e w = (Inr (), v) \<and> orderly members Q v \<and>
    (\<forall>n i. rb_curl_multi_has_easy n i v \<longrightarrow> rb_curl_multi_has_easy n i w)"
proof -
  have lib: "libcurl_multi_ok (native R) members" and removes: "libcurl_removes (native R) members"
    using ok by (simp_all add: ruby_world_ok_def)
  obtain r v where v: "Easy_multi_set R (Inr None) e w = (r, v)" by fastforce
  then show ?thesis
    using Easy_multi_set_orderly [OF lib removes start v] start
    by (auto simp: release_idle_reference_def bind_def ret_def)
qed

lemma finish_created:
  assumes ok: "ruby_world_ok R members" and start: "orderly members Q w" and m: "m \<in> Q"
    and left: "\<not> raised \<Longrightarrow> \<not> rb_curl_multi_has_easy m e w"
  shows "\<exists>v. finish_transfer R True m e raised w = (Inr (), v) \<and> world_ok members v \<and>
    \<not> rb_curl_multi_has_easy m e v \<and>
    (if raised then \<forall>i. \<not> rb_curl_multi_has_easy m i v else layers_agree members v)"
proof (cases raised)
  case True
  obtain u where u: "release_deferred_multi_close R m e w = (Inr True, u)" "emptied members Q m u"
    using release_empties [OF ok start m] by blast
  obtain v where v: "release_idle_reference R m e u = (Inr (), v)" "emptied members Q m v"
    using release_idle_emptied [OF u(2)] by blast
  then show ?thesis using True u(1) by (simp add: finish_transfer_def bind_def ret_def emptied_def)
next
  case False
  have lib: "libcurl_multi_ok (native R) members" and removes: "libcurl_removes (native R) members"
    using ok by (simp_all add: ruby_world_ok_def)
  have out: "world_ok members v \<and> layers_agree members v" if "orderly members Q v" for v
    using that by (simp add: orderly_def layers_agree_def)
  show ?thesis
  proof (cases "curb_multi_autoclose_enabled w")
    case True
    obtain r u where u: "Multi_close R False m w = (r, u)" by fastforce
    note closed = Multi_close_orderly [OF lib removes start u]
    then obtain v where "release_idle_reference R m e u = (Inr (), v)" "orderly members Q v"
      "\<And>n i. rb_curl_multi_has_easy n i v \<Longrightarrow> rb_curl_multi_has_easy n i u"
      using release_idle_orderly [OF ok, of Q u m e] by blast
    then show ?thesis
      using False True closed m u out by (auto simp: finish_transfer_def bind_def)
  next
    case keep: False
    obtain r v where v: "Easy_multi_set R (Inr (Some m)) e w = (r, v)" by fastforce
    then show ?thesis
      using Easy_multi_set_orderly [OF lib removes start v] False keep left out
      by (auto simp: finish_transfer_def bind_def ret_def)
  qed
qed


text \<open>The guard around the native loop resets the marks, so it suffices that the loop keeps the agreement
  and the marks of the other multi handles.\<close>

lemma guard_performs_orderly:
  assumes "\<And>m Q w r v. m \<notin> Q \<Longrightarrow> orderly members Q w \<Longrightarrow> f m w = Some (r, v) \<Longrightarrow> orderly members Q v"
  shows "performs_orderly members (ruby_curl_multi_with_perform_guard f)"
  unfolding performs_orderly_def
proof (intro allI impI)
  fix m Q w r v
  assume start: "orderly members Q w" and run: "ruby_curl_multi_with_perform_guard f m w = Some (r, v)"
  let ?w = "upd_rbcm m (\<lambda>c. c\<lparr>perform_active := True\<rparr>) w"
  show "orderly members Q v"
  proof (cases "perform_active (rbcm_of m w)")
    case True
    then show ?thesis using run start by (simp add: ruby_curl_multi_with_perform_guard_def run_def rb_raise_def)
  next
    case False
    then obtain u where u: "f m ?w = Some (r, u)"
      "v = upd_rbcm m (\<lambda>c. c\<lparr>perform_active := False, multi_callback_active := False,
         allow_close_during_perform := False\<rparr>) u"
      using run by (auto simp: ruby_curl_multi_with_perform_guard_def pensure_def
          ruby_curl_multi_perform_guard_ensure_def modify_def split: option.splits prod.splits)
    have "orderly members (Q - {m}) ?w"
      using start flag_write_agrees [of members w "\<lambda>c. c\<lparr>perform_active := True\<rparr>" m]
      by (simp add: orderly_def quiet_def world_simps)
    then have "orderly members (Q - {m}) u" using assms [OF _ _ u(1), of "Q - {m}"] by simp
    then show ?thesis
      using flag_write_agrees [of members u "\<lambda>c. c\<lparr>perform_active := False, multi_callback_active := False,
          allow_close_during_perform := False\<rparr>" m]
      by (auto simp: u(2) orderly_def quiet_def world_simps)
  qed
qed

definition sample_perform :: "nat \<Rightarrow> (sample_lib world, rvalue) prog" where
  "sample_perform = ruby_curl_multi_with_perform_guard (\<lambda>m w. Some (Inr Qtrue, w))"


end
